(* ===== verification/Prelude.thy ===== *)
theory Prelude
  imports Main "HOL-Library.Word" "HOL-Library.Sublist" "HOL-Library.Monad_Syntax"
begin

text \<open>
  Shared vocabulary of the development: the machine integer types of the C sources, the
  arithmetic of ring-buffer indices (used by the firmware's frame buffer and by the kernel
  driver's cycle buffer), byte-wise memory with little-endian half-word reads, and the polling
  loop that every HAL function with a time-out runs.  The polling loop is a function on an
  explicit hardware environment: a volatile read at instant \<open>t\<close> returns whatever the
  environment gives for \<open>t\<close>, so every theorem that quantifies over the environment holds
  for every behaviour of the hardware.
\<close>

unbundle bit_operations_syntax

named_theorems ring_simps \<open>index arithmetic of ring buffers\<close>
named_theorems hal_simps \<open>unfolding rules of the HAL macros\<close>

type_synonym u8 = "8 word"
type_synonym u16 = "16 word"
type_synonym u32 = "32 word"

text \<open>Instants at which the program reads a volatile location.\<close>
type_synonym time = nat

subsection \<open>Ring indices\<close>

text \<open>\<^verbatim>\<open>i++; if (i >= N) i = 0;\<close>\<close>
definition ring_next :: "nat \<Rightarrow> nat \<Rightarrow> nat" where
  "ring_next N i = (if N \<le> Suc i then 0 else Suc i)"

text \<open>Number of occupied slots from the read index \<open>r\<close> up to the write index \<open>w\<close>.\<close>
definition ring_len :: "nat \<Rightarrow> nat \<Rightarrow> nat \<Rightarrow> nat" where
  "ring_len N r w = (if r \<le> w then w - r else w + N - r)"

text \<open>The occupied slots, oldest first.\<close>
definition ring_list :: "nat \<Rightarrow> 'a list \<Rightarrow> nat \<Rightarrow> nat \<Rightarrow> 'a list" where
  "ring_list N buf r w = map (\<lambda>i. buf ! ((r + i) mod N)) [0..<ring_len N r w]"

subsection \<open>Memory\<close>

type_synonym mem = "u32 \<Rightarrow> u8"

text \<open>\<^verbatim>\<open>*((uint16_t *) p)\<close> on the little-endian core.\<close>
definition mem_read16 :: "mem \<Rightarrow> u32 \<Rightarrow> u16" where
  "mem_read16 m p = ucast (m p) OR push_bit 8 (ucast (m (p + 1)))"

text \<open>The \<open>n\<close> bytes at address \<open>p\<close>.\<close>
definition mem_bytes :: "mem \<Rightarrow> u32 \<Rightarrow> nat \<Rightarrow> u8 list" where
  "mem_bytes m p n = map (\<lambda>i. m (p + of_nat i)) [0..<n]"

text \<open>The two bytes of a half-word, least significant first.\<close>
definition bytes16 :: "u16 \<Rightarrow> u8 list" where
  "bytes16 v = [ucast v, ucast (drop_bit 8 v)]"

text \<open>The four bytes of a word, least significant first.\<close>
definition bytes32 :: "u32 \<Rightarrow> u8 list" where
  "bytes32 v = [ucast v, ucast (drop_bit 8 v), ucast (drop_bit 16 v), ucast (drop_bit 24 v)]"

subsection \<open>Polling\<close>

text \<open>
  \<^verbatim>\<open>while (!done) { if (expired) return TIMEOUT; }\<close>, the shape of every HAL wait:
  \<open>Some (True, t)\<close> when the condition was seen first, \<open>Some (False, t)\<close> when the time-out
  was, \<open>None\<close> when the loop does not end.  \<open>t\<close> is the instant after the last read.
\<close>
partial_function (option) poll ::
  "(time \<Rightarrow> bool) \<Rightarrow> (time \<Rightarrow> bool) \<Rightarrow> time \<Rightarrow> (bool \<times> time) option" where
  "poll done expired t =
     (if done t then Some (True, Suc t)
      else if expired t then Some (False, Suc t)
      else poll done expired (Suc t))"

subsection \<open>Lemmas on ring indices\<close>

lemma ring_next_less [ring_simps]: "0 < N \<Longrightarrow> ring_next N i < N"
  by (simp add: ring_next_def)

lemma ring_next_mod: "i < N \<Longrightarrow> ring_next N i = Suc i mod N"
  by (auto simp: ring_next_def mod_Suc)

lemma ring_next_neq: "1 < N \<Longrightarrow> i < N \<Longrightarrow> ring_next N i \<noteq> i"
  by (auto simp: ring_next_def)

lemma ring_len_0 [ring_simps]: "r < N \<Longrightarrow> w < N \<Longrightarrow> ring_len N r w = 0 \<longleftrightarrow> r = w"
  by (auto simp: ring_len_def)

lemma ring_len_less: "r < N \<Longrightarrow> w < N \<Longrightarrow> ring_len N r w < N"
  by (auto simp: ring_len_def)

lemma ring_len_deq:
  "r < N \<Longrightarrow> w < N \<Longrightarrow> r \<noteq> w \<Longrightarrow> ring_len N r w = Suc (ring_len N (ring_next N r) w)"
  by (auto simp: ring_len_def ring_next_def)

lemma ring_len_enq:
  "r < N \<Longrightarrow> w < N \<Longrightarrow> ring_next N w \<noteq> r \<Longrightarrow> ring_len N r (ring_next N w) = Suc (ring_len N r w)"
  by (auto simp: ring_len_def ring_next_def)

lemma ring_len_full:
  "r < N \<Longrightarrow> w < N \<Longrightarrow> ring_next N w = r \<longleftrightarrow> ring_len N r w = N - 1"
  by (auto simp: ring_len_def ring_next_def)

lemma ring_list_length [simp]: "length (ring_list N buf r w) = ring_len N r w"
  by (simp add: ring_list_def)

lemma ring_list_deq:
  assumes "r < N" "w < N" "r \<noteq> w"
  shows "ring_list N buf r w = buf ! r # ring_list N buf (ring_next N r) w"
proof -
  let ?n = "ring_len N (ring_next N r) w"
  have n: "ring_len N r w = Suc ?n"
    using assms by (rule ring_len_deq)
  have shift: "(r + Suc i) mod N = (ring_next N r + i) mod N" for i
    using assms(1) by (simp add: ring_next_mod mod_add_left_eq)
  have "ring_list N buf r w
      = buf ! (r mod N) # map (\<lambda>i. buf ! ((r + Suc i) mod N)) [0..<?n]"
    by (simp add: ring_list_def n upt_conv_Cons map_Suc_upt [symmetric] del: upt_Suc)
  then show ?thesis
    using assms(1) by (simp only: shift ring_list_def mod_less)
qed

lemma ring_last_slot:
  assumes "r < N" "w < N"
  shows "(r + ring_len N r w) mod N = w"
  using assms by (auto simp: ring_len_def)

lemma ring_other_slot:
  assumes "r < N" "w < N" "i < ring_len N r w"
  shows "(r + i) mod N \<noteq> w"
proof (cases "r + i < N")
  case True
  then show ?thesis using assms by (auto simp: ring_len_def split: if_splits)
next
  case False
  then have "(r + i) mod N = r + i - N"
    using assms ring_len_less [OF assms(1,2)] by (simp add: mod_if)
  then show ?thesis using assms False by (auto simp: ring_len_def split: if_splits)
qed

lemma ring_list_update:
  assumes "r < N" "w < N"
  shows "ring_list N (buf[w := x]) r w = ring_list N buf r w"
  using ring_other_slot [OF assms] by (fastforce simp: ring_list_def)

lemma ring_list_enq:
  assumes "r < N" "w < N" "ring_next N w \<noteq> r" "length buf = N"
  shows "ring_list N (buf[w := x]) r (ring_next N w) = ring_list N buf r w @ [x]"
proof -
  have "ring_list N (buf[w := x]) r (ring_next N w)
      = ring_list N (buf[w := x]) r w @ [buf[w := x] ! w]"
    using ring_len_enq [OF assms(1-3)] ring_last_slot [OF assms(1,2)]
    by (simp add: ring_list_def)
  then show ?thesis
    using assms by (simp add: ring_list_update)
qed

lemma ring_list_evict:
  assumes "1 < N" "r < N" "w < N" "ring_next N w = r" "length buf = N"
  shows "ring_list N (buf[w := x]) (ring_next N r) (ring_next N w)
       = tl (ring_list N buf r w) @ [x]"
proof -
  have rw: "r \<noteq> w"
    using assms ring_next_neq by metis
  have nr: "ring_next N r < N" using assms by (simp add: ring_next_less)
  have "ring_next N w \<noteq> ring_next N r"
    using assms ring_next_neq by metis
  then have "ring_list N (buf[w := x]) (ring_next N r) (ring_next N w)
      = ring_list N buf (ring_next N r) w @ [x]"
    using ring_list_enq [OF nr assms(3) _ assms(5)] by simp
  then show ?thesis
    using ring_list_deq [OF assms(2,3) rw, of buf] by simp
qed

subsection \<open>Lemmas on bytes\<close>

lemma bytes16_mem_read16 [simp]: "bytes16 (mem_read16 m p) = [m p, m (p + 1)]"
proof -
  have "ucast (ucast a OR push_bit 8 (ucast b) :: u16) = (a :: u8)" for a b :: u8
    by (rule bit_word_eqI) (auto simp: bit_simps)
  moreover have "ucast (drop_bit 8 (ucast a OR push_bit 8 (ucast b) :: u16)) = (b :: u8)"
    for a b :: u8
    by (rule bit_word_eqI) (auto simp: bit_simps dest: bit_imp_le_length)
  ultimately show ?thesis
    by (simp add: bytes16_def mem_read16_def)
qed

lemma mem_bytes_Suc: "mem_bytes m p (Suc n) = m p # mem_bytes m (p + 1) n"
  by (simp add: mem_bytes_def upt_conv_Cons map_Suc_upt [symmetric] algebra_simps del: upt_Suc)

lemma mem_bytes_0 [simp]: "mem_bytes m p 0 = []"
  by (simp add: mem_bytes_def)

lemma mem_bytes_length [simp]: "length (mem_bytes m p n) = n"
  by (simp add: mem_bytes_def)

lemma mem_bytes_add: "mem_bytes m p (a + b) = mem_bytes m p a @ mem_bytes m (p + of_nat a) b"
  by (induction a arbitrary: p) (simp_all add: mem_bytes_Suc algebra_simps)

subsection \<open>Lemmas on polling\<close>

lemma poll_done [simp]: "done t \<Longrightarrow> poll done expired t = Some (True, Suc t)"
  by (simp add: poll.simps)

lemma poll_expired: "\<not> done t \<Longrightarrow> expired t \<Longrightarrow> poll done expired t = Some (False, Suc t)"
  by (simp add: poll.simps)

lemma poll_wait: "\<not> done t \<Longrightarrow> \<not> expired t \<Longrightarrow> poll done expired t = poll done expired (Suc t)"
  by (simp add: poll.simps [of _ _ t])

text \<open>A poll that returns did so at the first instant at which one of the two conditions held.\<close>
lemma poll_returns:
  assumes "t \<le> n" "done n \<or> expired n"
  shows "\<exists>b t'. poll done expired t = Some (b, t') \<and> t < t' \<and> t' \<le> Suc n"
  using assms
proof (induction "n - t" arbitrary: t)
  case 0
  then show ?case by (cases "done t") (auto simp: poll_expired)
next
  case (Suc k)
  show ?case
  proof (cases "done t \<or> expired t")
    case True
    with Suc.prems(1) show ?thesis by (cases "done t") (auto simp: poll_expired)
  next
    case False
    with Suc.prems have "t \<noteq> n" by auto
    with Suc have "\<exists>b t'. poll done expired (Suc t) = Some (b, t') \<and> Suc t < t' \<and> t' \<le> Suc n"
      by (intro Suc.hyps(1)) auto
    with False show ?thesis by (auto simp: poll_wait)
  qed
qed

lemma poll_result:
  assumes "poll done expired t = Some (b, t')"
  shows "\<exists>n. t \<le> n \<and> t' = Suc n \<and> b = done n \<and> (b \<or> expired n)"
  using poll.raw_induct [of "\<lambda>d e s r. \<exists>n\<ge>s. snd r = Suc n \<and> fst r = d n \<and> (fst r \<or> e n)",
    OF _ assms] by (fastforce split: if_splits dest: Suc_leD)

lemma poll_success: "poll done expired t = Some (True, t') \<Longrightarrow> \<exists>n\<ge>t. t' = Suc n \<and> done n"
  by (auto dest: poll_result)

lemma poll_time: "poll done expired t = Some (b, t') \<Longrightarrow> t < t'"
  by (auto dest: poll_result)

subsection \<open>Single bits\<close>

lemma pin_bit: "pin AND push_bit n 1 \<noteq> 0 \<longleftrightarrow> bit pin n" for pin :: u32
  by (metis and_exp_eq_0_iff_not_bit push_bit_of_1)

end
