(* ===== verification/Hal_Def.thy ===== *)
theory Hal_Def
  imports Prelude
begin

text \<open>
  The declarations every HAL module shares (\<^verbatim>\<open>stm32f3xx_hal_def.h\<close>, \<^verbatim>\<open>stm32f3xx.h\<close>): status and
  lock codes, register macros, and the hardware environment.  A register that hardware changes
  behind the program's back is read from the environment at the current instant; a register that
  only the program writes is a field of the model's state.
\<close>

datatype HAL_StatusTypeDef = HAL_OK | HAL_ERROR | HAL_BUSY | HAL_TIMEOUT

datatype HAL_LockTypeDef = HAL_UNLOCKED | HAL_LOCKED

definition HAL_MAX_DELAY :: u32 where "HAL_MAX_DELAY = 0xFFFFFFFF"

text \<open>A null pointer.\<close>
definition NULL :: u32 where "NULL = 0"

definition SET_BIT :: "u32 \<Rightarrow> u32 \<Rightarrow> u32" where
  [hal_simps]: "SET_BIT reg b = reg OR b"

definition CLEAR_BIT :: "u32 \<Rightarrow> u32 \<Rightarrow> u32" where
  [hal_simps]: "CLEAR_BIT reg b = reg AND NOT b"

definition READ_BIT :: "u32 \<Rightarrow> u32 \<Rightarrow> u32" where
  [hal_simps]: "READ_BIT reg b = reg AND b"

definition MODIFY_REG :: "u32 \<Rightarrow> u32 \<Rightarrow> u32 \<Rightarrow> u32" where
  [hal_simps]: "MODIFY_REG reg clearmask setmask = (reg AND NOT clearmask) OR setmask"

text \<open>
  The environment of a peripheral: the millisecond counter \<^verbatim>\<open>uwTick\<close> that \<^verbatim>\<open>HAL_GetTick\<close> reads,
  the status register and the data register, at every instant.
\<close>
record hw =
  hw_tick :: "time \<Rightarrow> u32"
  hw_SR :: "time \<Rightarrow> u32"
  hw_DR :: "time \<Rightarrow> u32"

text \<open>\<^verbatim>\<open>(HAL_GetTick() - tickstart) >= Timeout\<close> or \<^verbatim>\<open>> Timeout\<close>, guarded as the HAL does.\<close>
definition tick_expired :: "hw \<Rightarrow> u32 \<Rightarrow> u32 \<Rightarrow> time \<Rightarrow> bool" where
  "tick_expired hw tickstart timeout t \<longleftrightarrow>
     timeout \<noteq> HAL_MAX_DELAY \<and> (timeout = 0 \<or> hw_tick hw t - tickstart \<ge> timeout)"

text \<open>The tick reaches any distance from any start: the SysTick interrupt is being served.\<close>
definition tick_advances :: "hw \<Rightarrow> bool" where
  "tick_advances hw \<longleftrightarrow> (\<forall>t d. \<exists>n\<ge>t. hw_tick hw n - hw_tick hw t = d)"

text \<open>The tick stands still from instant \<open>t\<close> on: SysTick cannot pre-empt the running code.\<close>
definition tick_frozen :: "hw \<Rightarrow> time \<Rightarrow> bool" where
  "tick_frozen hw t \<longleftrightarrow> (\<forall>n\<ge>t. hw_tick hw n = hw_tick hw t)"

text \<open>A wait on a flag with a time-out.\<close>
definition wait_until ::
  "hw \<Rightarrow> (time \<Rightarrow> bool) \<Rightarrow> u32 \<Rightarrow> time \<Rightarrow> (bool \<times> time) option" where
  "wait_until hw done timeout t0 =
     poll done (tick_expired hw (hw_tick hw t0) timeout) (Suc t0)"

lemma wait_until_returns:
  assumes "tick_advances hw" "timeout \<noteq> HAL_MAX_DELAY"
  shows "\<exists>b t. wait_until hw done timeout t0 = Some (b, t) \<and> t0 < t"
proof -
  obtain n where n: "Suc t0 \<le> n" "hw_tick hw n - hw_tick hw (Suc t0) = timeout - (hw_tick hw (Suc t0) - hw_tick hw t0)"
    using assms(1) unfolding tick_advances_def by blast
  then have "hw_tick hw n - hw_tick hw t0 = timeout" by (simp add: algebra_simps)
  then have "tick_expired hw (hw_tick hw t0) timeout n"
    using assms(2) by (simp add: tick_expired_def)
  then show ?thesis
    using poll_returns [OF n(1), of "done" "tick_expired hw (hw_tick hw t0) timeout"]
    unfolding wait_until_def by (meson Suc_lessD)
qed

lemma wait_until_stuck:
  assumes "tick_frozen hw t0" "timeout \<noteq> 0" "\<And>n. t0 < n \<Longrightarrow> \<not> done n"
  shows "wait_until hw done timeout t0 = None"
proof (rule ccontr)
  assume "wait_until hw done timeout t0 \<noteq> None"
  then obtain b t where "poll done (tick_expired hw (hw_tick hw t0) timeout) (Suc t0) = Some (b, t)"
    unfolding wait_until_def by auto
  from poll_result [OF this] obtain n where n: "Suc t0 \<le> n" "b = done n"
    "b \<or> tick_expired hw (hw_tick hw t0) timeout n" by blast
  have "hw_tick hw n = hw_tick hw t0"
    using assms(1) n(1) unfolding tick_frozen_def by (metis Suc_leD)
  moreover have "\<not> done n" using assms(3) n(1) by simp
  ultimately show False using n(2,3) assms(2) by (simp add: tick_expired_def)
qed

lemma wait_until_time: "wait_until hw done timeout t0 = Some (b, t) \<Longrightarrow> t0 < t"
  unfolding wait_until_def by (auto dest: poll_time)

text \<open>The same wait with a strict comparison, \<^verbatim>\<open>(HAL_GetTick() - tickstart) > Timeout\<close>.\<close>
definition tick_passed :: "hw \<Rightarrow> u32 \<Rightarrow> u32 \<Rightarrow> time \<Rightarrow> bool" where
  "tick_passed hw tickstart timeout t \<longleftrightarrow>
     timeout \<noteq> HAL_MAX_DELAY \<and> (timeout = 0 \<or> hw_tick hw t - tickstart > timeout)"

definition wait_beyond ::
  "hw \<Rightarrow> (time \<Rightarrow> bool) \<Rightarrow> u32 \<Rightarrow> time \<Rightarrow> (bool \<times> time) option" where
  "wait_beyond hw done timeout t0 =
     poll done (tick_passed hw (hw_tick hw t0) timeout) (Suc t0)"

lemma wait_beyond_returns:
  assumes "tick_advances hw" "timeout \<noteq> HAL_MAX_DELAY"
  shows "\<exists>b t. wait_beyond hw done timeout t0 = Some (b, t) \<and> t0 < t"
proof -
  obtain n where n: "Suc t0 \<le> n"
    "hw_tick hw n - hw_tick hw (Suc t0) = timeout + 1 - (hw_tick hw (Suc t0) - hw_tick hw t0)"
    using assms(1) unfolding tick_advances_def by blast
  then have "hw_tick hw n - hw_tick hw t0 = timeout + 1" by (simp add: algebra_simps)
  moreover have "unat timeout \<noteq> 2 ^ 32 - 1" using assms(2) by (auto simp: HAL_MAX_DELAY_def word_unat_eq_iff)
  then have "Suc (unat timeout) < 2 ^ 32" using unsigned_less [of timeout, where ?'a = nat] by simp
  then have "timeout < timeout + 1" by (simp add: word_less_nat_alt unat_word_ariths)
  ultimately have "tick_passed hw (hw_tick hw t0) timeout n"
    using assms(2) by (simp add: tick_passed_def)
  then show ?thesis
    using poll_returns [OF n(1), of "done" "tick_passed hw (hw_tick hw t0) timeout"]
    unfolding wait_beyond_def by (meson Suc_lessD)
qed

text \<open>Two concrete environments: a counter that runs, and one that stands still.\<close>
definition ticking_hw :: "u32 \<Rightarrow> hw" where
  "ticking_hw sr = \<lparr>hw_tick = of_nat, hw_SR = (\<lambda>_. sr), hw_DR = (\<lambda>_. 0)\<rparr>"

definition frozen_hw :: "u32 \<Rightarrow> hw" where
  "frozen_hw sr = \<lparr>hw_tick = (\<lambda>_. 0), hw_SR = (\<lambda>_. sr), hw_DR = (\<lambda>_. 0)\<rparr>"

lemma ticking_hw_advances: "tick_advances (ticking_hw sr)"
  unfolding tick_advances_def
proof (intro allI)
  fix t d
  have "hw_tick (ticking_hw sr) (t + unat d) - hw_tick (ticking_hw sr) t = d" by (simp add: ticking_hw_def)
  then show "\<exists>n\<ge>t. hw_tick (ticking_hw sr) n - hw_tick (ticking_hw sr) t = d"
    by (intro exI [of _ "t + unat d"]) simp
qed

lemma frozen_hw_frozen: "tick_frozen (frozen_hw sr) t"
  by (simp add: frozen_hw_def tick_frozen_def)

end
