(* ===== verification/Hal_Core.thy ===== *)
theory Hal_Core
  imports Hal_Def
begin

text \<open>
  The Cortex-M4 core as the HAL uses it (\<^verbatim>\<open>core_cm4.h\<close>, \<^verbatim>\<open>stm32f3xx_hal_cortex.c\<close>,
  \<^verbatim>\<open>stm32f3xx_hal.c\<close>): interrupt priorities, the SysTick timer and the millisecond counter.  The
  priority registers are kept as the eight-bit registers they are, so that the truncation of a
  priority to the implemented bits is visible.
\<close>

section \<open>Interrupt controller\<close>

text \<open>Interrupt numbers are signed: negative for the core's own exceptions.\<close>
type_synonym IRQn_Type = int

definition MemoryManagement_IRQn :: IRQn_Type where "MemoryManagement_IRQn = - 12"
definition BusFault_IRQn :: IRQn_Type where "BusFault_IRQn = - 11"
definition UsageFault_IRQn :: IRQn_Type where "UsageFault_IRQn = - 10"
definition SVCall_IRQn :: IRQn_Type where "SVCall_IRQn = - 5"
definition DebugMonitor_IRQn :: IRQn_Type where "DebugMonitor_IRQn = - 4"
definition PendSV_IRQn :: IRQn_Type where "PendSV_IRQn = - 2"
definition SysTick_IRQn :: IRQn_Type where "SysTick_IRQn = - 1"
definition TIM4_IRQn :: IRQn_Type where "TIM4_IRQn = 30"
definition SPI3_IRQn :: IRQn_Type where "SPI3_IRQn = 51"
definition SDADC2_IRQn :: IRQn_Type where "SDADC2_IRQn = 62"

lemmas irqn_defs = MemoryManagement_IRQn_def BusFault_IRQn_def UsageFault_IRQn_def SVCall_IRQn_def
  DebugMonitor_IRQn_def PendSV_IRQn_def SysTick_IRQn_def TIM4_IRQn_def SPI3_IRQn_def SDADC2_IRQn_def

definition NVIC_PRIO_BITS :: nat where "NVIC_PRIO_BITS = 4"
definition NVIC_PRIORITYGROUP_4 :: u32 where "NVIC_PRIORITYGROUP_4 = 3"
definition SCB_AIRCR_VECTKEY_Msk :: u32 where "SCB_AIRCR_VECTKEY_Msk = 0xFFFF0000"
definition SCB_AIRCR_PRIGROUP_Msk :: u32 where "SCB_AIRCR_PRIGROUP_Msk = 0x700"

definition SysTick_LOAD_RELOAD_Msk :: u32 where "SysTick_LOAD_RELOAD_Msk = 0xFFFFFF"
definition SysTick_CTRL_ENABLE_Msk :: u32 where "SysTick_CTRL_ENABLE_Msk = 1"
definition SysTick_CTRL_TICKINT_Msk :: u32 where "SysTick_CTRL_TICKINT_Msk = 2"
definition SysTick_CTRL_CLKSOURCE_Msk :: u32 where "SysTick_CTRL_CLKSOURCE_Msk = 4"

record core =
  AIRCR :: u32
  SHP :: "u32 \<Rightarrow> u8"
  IP :: "u32 \<Rightarrow> u8"
  irq_enabled :: "u32 \<Rightarrow> bool"
  ST_LOAD :: u32
  ST_VAL :: u32
  ST_CTRL :: u32
  uwTick :: u32

definition NVIC_SetPriorityGrouping :: "u32 \<Rightarrow> core \<Rightarrow> core" where
  "NVIC_SetPriorityGrouping PriorityGroup c =
     (let g = PriorityGroup AND 7;
          r = AIRCR c AND NOT (SCB_AIRCR_VECTKEY_Msk OR SCB_AIRCR_PRIGROUP_Msk)
      in c\<lparr>AIRCR := r OR push_bit 16 0x5FA OR push_bit 8 g\<rparr>)"

definition NVIC_GetPriorityGrouping :: "core \<Rightarrow> u32" where
  "NVIC_GetPriorityGrouping c = drop_bit 8 (AIRCR c AND SCB_AIRCR_PRIGROUP_Msk)"

text \<open>\<^verbatim>\<open>(uint32_t)(int32_t)IRQn\<close>.\<close>
definition irq_index :: "IRQn_Type \<Rightarrow> u32" where
  "irq_index irq = word_of_int irq"

text \<open>A write of 1 to the bit of \<^verbatim>\<open>ISER\<close> (\<^verbatim>\<open>ICER\<close>) enables (disables) the interrupt.\<close>
definition NVIC_EnableIRQ :: "IRQn_Type \<Rightarrow> core \<Rightarrow> core" where
  "NVIC_EnableIRQ irq c = c\<lparr>irq_enabled := (irq_enabled c)(irq_index irq := True)\<rparr>"

definition NVIC_DisableIRQ :: "IRQn_Type \<Rightarrow> core \<Rightarrow> core" where
  "NVIC_DisableIRQ irq c = c\<lparr>irq_enabled := (irq_enabled c)(irq_index irq := False)\<rparr>"

definition prio_reg :: "u32 \<Rightarrow> u8" where
  "prio_reg priority = ucast (push_bit (8 - NVIC_PRIO_BITS) priority AND 0xFF)"

definition NVIC_SetPriority :: "IRQn_Type \<Rightarrow> u32 \<Rightarrow> core \<Rightarrow> core" where
  "NVIC_SetPriority irq priority c =
     (if irq < 0 then c\<lparr>SHP := (SHP c)((irq_index irq AND 0xF) - 4 := prio_reg priority)\<rparr>
      else c\<lparr>IP := (IP c)(irq_index irq := prio_reg priority)\<rparr>)"

definition NVIC_GetPriority :: "IRQn_Type \<Rightarrow> core \<Rightarrow> u32" where
  "NVIC_GetPriority irq c =
     (if irq < 0 then drop_bit (8 - NVIC_PRIO_BITS) (ucast (SHP c ((irq_index irq AND 0xF) - 4)))
      else drop_bit (8 - NVIC_PRIO_BITS) (ucast (IP c (irq_index irq))))"

definition PreemptPriorityBits :: "u32 \<Rightarrow> u32" where
  "PreemptPriorityBits PriorityGroup =
     (let g = PriorityGroup AND 7
      in if 7 - g > of_nat NVIC_PRIO_BITS then of_nat NVIC_PRIO_BITS else 7 - g)"

definition SubPriorityBits :: "u32 \<Rightarrow> u32" where
  "SubPriorityBits PriorityGroup =
     (let g = PriorityGroup AND 7
      in if g + of_nat NVIC_PRIO_BITS < 7 then 0 else (g - 7) + of_nat NVIC_PRIO_BITS)"

definition NVIC_EncodePriority :: "u32 \<Rightarrow> u32 \<Rightarrow> u32 \<Rightarrow> u32" where
  "NVIC_EncodePriority PriorityGroup PreemptPriority SubPriority =
     push_bit (unat (SubPriorityBits PriorityGroup))
       (PreemptPriority AND (push_bit (unat (PreemptPriorityBits PriorityGroup)) 1 - 1))
     OR (SubPriority AND (push_bit (unat (SubPriorityBits PriorityGroup)) 1 - 1))"

definition NVIC_DecodePriority :: "u32 \<Rightarrow> u32 \<Rightarrow> u32 \<times> u32" where
  "NVIC_DecodePriority Priority PriorityGroup =
     (drop_bit (unat (SubPriorityBits PriorityGroup)) Priority
        AND (push_bit (unat (PreemptPriorityBits PriorityGroup)) 1 - 1),
      Priority AND (push_bit (unat (SubPriorityBits PriorityGroup)) 1 - 1))"

section \<open>The HAL's view\<close>

definition HAL_NVIC_SetPriorityGrouping :: "u32 \<Rightarrow> core \<Rightarrow> core" where
  "HAL_NVIC_SetPriorityGrouping PriorityGroup c = NVIC_SetPriorityGrouping PriorityGroup c"

definition HAL_NVIC_SetPriority :: "IRQn_Type \<Rightarrow> u32 \<Rightarrow> u32 \<Rightarrow> core \<Rightarrow> core" where
  "HAL_NVIC_SetPriority irq PreemptPriority SubPriority c =
     (let prioritygroup = NVIC_GetPriorityGrouping c
      in NVIC_SetPriority irq (NVIC_EncodePriority prioritygroup PreemptPriority SubPriority) c)"

definition HAL_NVIC_GetPriority :: "IRQn_Type \<Rightarrow> u32 \<Rightarrow> core \<Rightarrow> u32 \<times> u32" where
  "HAL_NVIC_GetPriority irq PriorityGroup c = NVIC_DecodePriority (NVIC_GetPriority irq c) PriorityGroup"

definition HAL_NVIC_EnableIRQ :: "IRQn_Type \<Rightarrow> core \<Rightarrow> core" where
  "HAL_NVIC_EnableIRQ irq c = NVIC_EnableIRQ irq c"

definition HAL_NVIC_DisableIRQ :: "IRQn_Type \<Rightarrow> core \<Rightarrow> core" where
  "HAL_NVIC_DisableIRQ irq c = NVIC_DisableIRQ irq c"

definition SysTick_Config :: "u32 \<Rightarrow> core \<Rightarrow> u32 \<times> core" where
  "SysTick_Config ticks c =
     (if ticks - 1 > SysTick_LOAD_RELOAD_Msk then (1, c)
      else let c1 = c\<lparr>ST_LOAD := ticks - 1\<rparr>;
               c2 = NVIC_SetPriority SysTick_IRQn (push_bit NVIC_PRIO_BITS 1 - 1) c1
           in (0, c2\<lparr>ST_VAL := 0, ST_CTRL := SysTick_CTRL_CLKSOURCE_Msk OR SysTick_CTRL_TICKINT_Msk
                       OR SysTick_CTRL_ENABLE_Msk\<rparr>))"

definition HAL_SYSTICK_Config :: "u32 \<Rightarrow> core \<Rightarrow> u32 \<times> core" where
  "HAL_SYSTICK_Config TicksNumb c = SysTick_Config TicksNumb c"

text \<open>\<open>SystemCoreClock\<close> is the global of that name.\<close>
definition HAL_InitTick :: "u32 \<Rightarrow> u32 \<Rightarrow> core \<Rightarrow> HAL_StatusTypeDef \<times> core" where
  "HAL_InitTick SystemCoreClock TickPriority c =
     (HAL_OK, HAL_NVIC_SetPriority SysTick_IRQn TickPriority 0
                (snd (HAL_SYSTICK_Config (SystemCoreClock div 1000) c)))"

definition TICK_INT_PRIORITY :: u32 where "TICK_INT_PRIORITY = 0"

text \<open>The interrupt part of \<^verbatim>\<open>HAL_MspInit\<close> of the firmware.\<close>
definition HAL_MspInit :: "core \<Rightarrow> core" where
  "HAL_MspInit c =
     HAL_NVIC_SetPriority SysTick_IRQn 2 0 (HAL_NVIC_SetPriority PendSV_IRQn 2 0
     (HAL_NVIC_SetPriority DebugMonitor_IRQn 2 0 (HAL_NVIC_SetPriority SVCall_IRQn 2 0
     (HAL_NVIC_SetPriority UsageFault_IRQn 2 0 (HAL_NVIC_SetPriority BusFault_IRQn 2 0
     (HAL_NVIC_SetPriority MemoryManagement_IRQn 2 0
     (HAL_NVIC_SetPriorityGrouping NVIC_PRIORITYGROUP_4 c)))))))"

definition HAL_Init :: "u32 \<Rightarrow> core \<Rightarrow> HAL_StatusTypeDef \<times> core" where
  "HAL_Init SystemCoreClock c =
     (HAL_OK, HAL_MspInit (snd (HAL_InitTick SystemCoreClock TICK_INT_PRIORITY
                (HAL_NVIC_SetPriorityGrouping NVIC_PRIORITYGROUP_4 c))))"

section \<open>The millisecond counter\<close>

definition HAL_IncTick :: "core \<Rightarrow> core" where
  "HAL_IncTick c = c\<lparr>uwTick := uwTick c + 1\<rparr>"

definition HAL_GetTick :: "core \<Rightarrow> u32" where
  "HAL_GetTick c = uwTick c"

definition HAL_SuspendTick :: "core \<Rightarrow> core" where
  "HAL_SuspendTick c = c\<lparr>ST_CTRL := ST_CTRL c AND NOT SysTick_CTRL_TICKINT_Msk\<rparr>"

definition HAL_ResumeTick :: "core \<Rightarrow> core" where
  "HAL_ResumeTick c = c\<lparr>ST_CTRL := ST_CTRL c OR SysTick_CTRL_TICKINT_Msk\<rparr>"

text \<open>\<^verbatim>\<open>while((HAL_GetTick() - tickstart) < Delay) {}\<close> from instant \<open>t\<close> on; \<open>None\<close> when it never ends.\<close>
definition HAL_Delay :: "hw \<Rightarrow> u32 \<Rightarrow> time \<Rightarrow> time option" where
  "HAL_Delay hw Delay t =
     do { (_, t') \<leftarrow> poll (\<lambda>n. \<not> hw_tick hw n - hw_tick hw t < Delay) (\<lambda>_. False) (Suc t); Some t' }"

section \<open>Lemmas\<close>

lemma irq_group_4 [simp]:
  "PreemptPriorityBits 3 = 4" "SubPriorityBits 3 = 0"
  by (simp_all add: PreemptPriorityBits_def SubPriorityBits_def NVIC_PRIO_BITS_def Let_def)

lemma and_7: "g AND 7 = take_bit 3 g" for g :: u32
  by (simp add: take_bit_eq_mask mask_eq_exp_minus_1)

lemma prigroup_mask: "(0x700 :: u32) = push_bit 8 (mask 3)" "(0xFFFF0000 :: u32) = push_bit 16 (mask 16)"
  by (simp_all add: mask_eq_exp_minus_1)

lemma GetPriorityGrouping_Set [simp]:
  "NVIC_GetPriorityGrouping (NVIC_SetPriorityGrouping g c) = g AND 7"
proof -
  have "drop_bit 8 (((r AND NOT (push_bit 16 (mask 16) OR push_bit 8 (mask 3))) OR push_bit 16 k
      OR push_bit 8 (take_bit 3 g)) AND push_bit 8 (mask 3)) = take_bit 3 g" for r k :: u32
    by (rule bit_word_eqI) (auto simp: bit_simps)
  moreover have "AIRCR (NVIC_SetPriorityGrouping g c) = (AIRCR c AND NOT (0xFFFF0000 OR 0x700))
      OR push_bit 16 0x5FA OR push_bit 8 (g AND 7)"
    by (simp add: NVIC_SetPriorityGrouping_def Let_def SCB_AIRCR_PRIGROUP_Msk_def SCB_AIRCR_VECTKEY_Msk_def)
  ultimately show ?thesis
    by (simp only: NVIC_GetPriorityGrouping_def SCB_AIRCR_PRIGROUP_Msk_def and_7 prigroup_mask)
qed

lemma prio_reg_back: "drop_bit 4 (ucast (prio_reg p) :: u32) = take_bit 4 p"
proof -
  have "prio_reg p = ucast (push_bit 4 p AND mask 8)" by (simp add: prio_reg_def NVIC_PRIO_BITS_def mask_eq_exp_minus_1)
  moreover have "drop_bit 4 (ucast (ucast (push_bit 4 p AND mask 8) :: u8) :: u32) = take_bit 4 p"
    by (rule bit_word_eqI) (auto simp: bit_simps)
  ultimately show ?thesis by simp
qed

lemma GetPriority_Set_same: "NVIC_GetPriority irq (NVIC_SetPriority irq p c) = take_bit 4 p"
  by (simp add: NVIC_GetPriority_def NVIC_SetPriority_def prio_reg_back NVIC_PRIO_BITS_def)

text \<open>The interrupt numbers of the device select different priority registers.\<close>
definition irq_valid :: "IRQn_Type \<Rightarrow> bool" where
  "irq_valid irq \<longleftrightarrow> - 12 \<le> irq \<and> irq < 240"

lemma neg_irq_index: "- 12 \<le> irq \<Longrightarrow> irq < 0 \<Longrightarrow> (irq_index irq AND 0xF) - 4 = word_of_int (irq + 12)"
proof -
  assume "- 12 \<le> irq" "irq < 0"
  then have "irq = - 12 \<or> irq = - 11 \<or> irq = - 10 \<or> irq = - 9 \<or> irq = - 8 \<or> irq = - 7 \<or> irq = - 6
    \<or> irq = - 5 \<or> irq = - 4 \<or> irq = - 3 \<or> irq = - 2 \<or> irq = - 1" by arith
  then show ?thesis by (auto simp: irq_index_def)
qed

lemma small_word_of_int_inj:
  "0 \<le> a \<Longrightarrow> a < 1000 \<Longrightarrow> 0 \<le> b \<Longrightarrow> b < 1000 \<Longrightarrow> (word_of_int a :: u32) = word_of_int b \<longleftrightarrow> a = b"
proof -
  have "uint (word_of_int k :: u32) = k" if "0 \<le> k" "k < 1000" for k
    using that by (simp add: uint_word_of_int_eq take_bit_int_eq_self)
  then show "0 \<le> a \<Longrightarrow> a < 1000 \<Longrightarrow> 0 \<le> b \<Longrightarrow> b < 1000 \<Longrightarrow> (word_of_int a :: u32) = word_of_int b \<longleftrightarrow> a = b"
    by metis
qed

lemma GetPriority_Set_other:
  assumes "irq_valid irq" "irq_valid irq'" "irq \<noteq> irq'"
  shows "NVIC_GetPriority irq (NVIC_SetPriority irq' p c) = NVIC_GetPriority irq c"
proof (cases "irq < 0 \<longleftrightarrow> irq' < 0")
  case False
  then show ?thesis by (auto simp: NVIC_GetPriority_def NVIC_SetPriority_def)
next
  case True
  show ?thesis
  proof (cases "irq < 0")
    case neg: True
    have "(word_of_int (irq + 12) :: u32) \<noteq> word_of_int (irq' + 12)"
      using assms neg True small_word_of_int_inj [of "irq + 12" "irq' + 12"] by (simp add: irq_valid_def)
    then show ?thesis using assms neg True
      by (simp add: NVIC_GetPriority_def NVIC_SetPriority_def neg_irq_index irq_valid_def)
  next
    case False
    have "irq_index irq \<noteq> irq_index irq'"
      using assms False True small_word_of_int_inj [of irq irq'] by (simp add: irq_valid_def irq_index_def)
    then show ?thesis using False True by (simp add: NVIC_GetPriority_def NVIC_SetPriority_def)
  qed
qed

lemma GetPriorityGrouping_SetPriority [simp]:
  "NVIC_GetPriorityGrouping (NVIC_SetPriority irq p c) = NVIC_GetPriorityGrouping c"
  by (simp add: NVIC_GetPriorityGrouping_def NVIC_SetPriority_def)

lemma HAL_SetPriority_group4:
  "NVIC_GetPriorityGrouping c = 3 \<Longrightarrow> HAL_NVIC_SetPriority irq p s c = NVIC_SetPriority irq (p AND 0xF) c"
  by (simp add: HAL_NVIC_SetPriority_def NVIC_EncodePriority_def Let_def)

lemma GetPriority_fields [simp]:
  "NVIC_GetPriority irq (c\<lparr>ST_LOAD := l\<rparr>) = NVIC_GetPriority irq c"
  "NVIC_GetPriority irq (c\<lparr>ST_VAL := v\<rparr>) = NVIC_GetPriority irq c"
  "NVIC_GetPriority irq (c\<lparr>ST_CTRL := r\<rparr>) = NVIC_GetPriority irq c"
  "NVIC_GetPriority irq (NVIC_EnableIRQ i c) = NVIC_GetPriority irq c"
  "NVIC_GetPriority irq (NVIC_SetPriorityGrouping g c) = NVIC_GetPriority irq c"
  "NVIC_GetPriorityGrouping (c\<lparr>ST_LOAD := l\<rparr>) = NVIC_GetPriorityGrouping c"
  "NVIC_GetPriorityGrouping (c\<lparr>ST_VAL := v\<rparr>) = NVIC_GetPriorityGrouping c"
  "NVIC_GetPriorityGrouping (c\<lparr>ST_CTRL := r\<rparr>) = NVIC_GetPriorityGrouping c"
  "NVIC_GetPriorityGrouping (NVIC_EnableIRQ i c) = NVIC_GetPriorityGrouping c"
  by (simp_all add: NVIC_GetPriority_def NVIC_GetPriorityGrouping_def NVIC_EnableIRQ_def
      NVIC_SetPriorityGrouping_def Let_def)

lemma SysTick_Config_grouping [simp]:
  "NVIC_GetPriorityGrouping (snd (SysTick_Config n c)) = NVIC_GetPriorityGrouping c"
  by (simp add: SysTick_Config_def Let_def)

lemma SysTick_Config_priority:
  "irq_valid irq \<Longrightarrow> irq \<noteq> SysTick_IRQn \<Longrightarrow> NVIC_GetPriority irq (snd (SysTick_Config n c)) = NVIC_GetPriority irq c"
  by (simp add: SysTick_Config_def Let_def GetPriority_Set_other irq_valid_def SysTick_IRQn_def)

lemma InitTick_priority:
  assumes "NVIC_GetPriorityGrouping c = 3"
  shows "NVIC_GetPriorityGrouping (snd (HAL_InitTick clk p c)) = 3"
    "NVIC_GetPriority SysTick_IRQn (snd (HAL_InitTick clk p c)) = p AND 0xF"
    "irq_valid irq \<Longrightarrow> irq \<noteq> SysTick_IRQn \<Longrightarrow> NVIC_GetPriority irq (snd (HAL_InitTick clk p c)) = NVIC_GetPriority irq c"
proof -
  have m: "take_bit 4 (p AND 0xF) = p AND 0xF" for p :: u32
    by (simp add: take_bit_eq_mask mask_eq_exp_minus_1 and.assoc)
  show "NVIC_GetPriorityGrouping (snd (HAL_InitTick clk p c)) = 3"
    "NVIC_GetPriority SysTick_IRQn (snd (HAL_InitTick clk p c)) = p AND 0xF"
    "irq_valid irq \<Longrightarrow> irq \<noteq> SysTick_IRQn \<Longrightarrow> NVIC_GetPriority irq (snd (HAL_InitTick clk p c)) = NVIC_GetPriority irq c"
    using assms m
    by (simp_all add: HAL_InitTick_def HAL_SYSTICK_Config_def HAL_SetPriority_group4 GetPriority_Set_same
        GetPriority_Set_other SysTick_Config_priority irq_valid_def SysTick_IRQn_def)
qed

text \<open>\<open>a\<close> interrupts the handler of \<open>b\<close>: its pre-emption priority is numerically smaller.\<close>
definition preempts :: "core \<Rightarrow> IRQn_Type \<Rightarrow> IRQn_Type \<Rightarrow> bool" where
  "preempts c a b \<longleftrightarrow> fst (HAL_NVIC_GetPriority a (NVIC_GetPriorityGrouping c) c)
     < fst (HAL_NVIC_GetPriority b (NVIC_GetPriorityGrouping c) c)"

lemma preempts_group4:
  "NVIC_GetPriorityGrouping c = 3 \<Longrightarrow>
     preempts c a b \<longleftrightarrow> NVIC_GetPriority a c AND 0xF < NVIC_GetPriority b c AND 0xF"
  by (simp add: preempts_def HAL_NVIC_GetPriority_def NVIC_DecodePriority_def)

lemma HAL_Delay_returns:
  assumes adv: "tick_advances hw"
  shows "\<exists>t'. HAL_Delay hw d t = Some t' \<and> t < t' \<and> d \<le> hw_tick hw (t' - 1) - hw_tick hw t"
proof -
  let ?done = "\<lambda>n. \<not> hw_tick hw n - hw_tick hw t < d"
  obtain n where n: "Suc t \<le> n" "hw_tick hw n - hw_tick hw (Suc t) = d - (hw_tick hw (Suc t) - hw_tick hw t)"
    using adv unfolding tick_advances_def by blast
  then have "?done n" by (simp add: algebra_simps)
  then obtain b t' where p: "poll ?done (\<lambda>_. False) (Suc t) = Some (b, t')"
    using poll_returns [OF n(1), of ?done "\<lambda>_. False"] by auto
  from poll_result [OF p] obtain m where "Suc t \<le> m" "t' = Suc m" "?done m" by auto
  then show ?thesis using p by (auto simp: HAL_Delay_def not_less)
qed

section \<open>Properties\<close>

text \<open>C24: with the grouping the firmware selects (four bits of pre-emption priority) the priority set for an
  interrupt is the one read back, cut to four bits; the sub-priority is dropped, and the priorities of all
  other interrupts are unchanged.\<close>
theorem nvic_priority_roundtrip:
  assumes "NVIC_GetPriorityGrouping c = 3" "irq_valid irq"
  shows "HAL_NVIC_GetPriority irq 3 (HAL_NVIC_SetPriority irq p s c) = (p AND 0xF, 0)
    \<and> (\<forall>other. irq_valid other \<longrightarrow> other \<noteq> irq \<longrightarrow>
         HAL_NVIC_GetPriority other 3 (HAL_NVIC_SetPriority irq p s c) = HAL_NVIC_GetPriority other 3 c)"
proof -
  have "take_bit 4 (p AND 0xF) AND 0xF = p AND 0xF"
    by (simp add: take_bit_eq_mask mask_eq_exp_minus_1 and.assoc)
  then show ?thesis
    using assms by (simp add: HAL_NVIC_GetPriority_def HAL_SetPriority_group4 GetPriority_Set_same
        GetPriority_Set_other NVIC_DecodePriority_def)
qed

definition ex_core :: core where
  "ex_core = NVIC_SetPriorityGrouping 3 \<lparr>AIRCR = 0, SHP = (\<lambda>_. 0), IP = (\<lambda>_. 0), irq_enabled = (\<lambda>_. False),
     ST_LOAD = 0, ST_VAL = 0, ST_CTRL = 0, uwTick = 0\<rparr>"

theorem nvic_priority_roundtrip_witness:
  "HAL_NVIC_GetPriority SPI3_IRQn 3 (HAL_NVIC_SetPriority SPI3_IRQn 5 1 ex_core) = (5, 0)"
  using nvic_priority_roundtrip [of ex_core SPI3_IRQn 5 1] by (simp add: ex_core_def irq_valid_def SPI3_IRQn_def)

text \<open>A delay returns after at least the given number of ticks when the tick is running, and never returns
  (for a non-zero delay) in code that the tick cannot interrupt.\<close>
lemma hal_delay_behaviour:
  "(tick_advances hw \<longrightarrow> (\<exists>t'. HAL_Delay hw d t = Some t' \<and> t < t' \<and> d \<le> hw_tick hw (t' - 1) - hw_tick hw t))
   \<and> (tick_frozen hw t \<and> d \<noteq> 0 \<longrightarrow> HAL_Delay hw d t = None)"
proof -
  let ?done = "\<lambda>n. \<not> hw_tick hw n - hw_tick hw t < d"
  have "\<exists>t'. HAL_Delay hw d t = Some t' \<and> t < t' \<and> d \<le> hw_tick hw (t' - 1) - hw_tick hw t" if "tick_advances hw"
    using that by (rule HAL_Delay_returns)
  moreover have "HAL_Delay hw d t = None" if "tick_frozen hw t" "d \<noteq> 0"
  proof (rule ccontr)
    assume "HAL_Delay hw d t \<noteq> None"
    then obtain b t' where "poll ?done (\<lambda>_. False) (Suc t) = Some (b, t')"
      by (auto simp: HAL_Delay_def bind_eq_None_conv)
    from poll_result [OF this] obtain m where "Suc t \<le> m" "?done m" by auto
    then have "hw_tick hw m = hw_tick hw t" using that(1) unfolding tick_frozen_def by (metis Suc_leD)
    then show False using \<open>?done m\<close> that(2) by (simp add: word_gt_0)
  qed
  ultimately show ?thesis by blast
qed

lemma hal_delay_behaviour_witness:
  "(\<exists>t'. HAL_Delay (ticking_hw 0) 2 0 = Some t') \<and> HAL_Delay (frozen_hw 0) 2 0 = None"
  using hal_delay_behaviour [of "ticking_hw 0" 2 0] hal_delay_behaviour [of "frozen_hw 0" 2 0]
    ticking_hw_advances frozen_hw_frozen by auto

end
