(* ===== verification/Hal_Sdadc.thy ===== *)
theory Hal_Sdadc
  imports Hal_Core
begin

text \<open>
  The sigma-delta converter driver (\<^verbatim>\<open>stm32f3xx_hal_sdadc.c\<close>) without its DMA functions: set-up,
  channel and trigger configuration, calibration, regular and injected conversions in polling and
  interrupt mode, and the interrupt handler.  The registers behind \<^verbatim>\<open>Instance\<close> are fields of the
  handle; \<^verbatim>\<open>ISR\<close> and the data registers are read from the environment, one instant per read.
  Accesses with side effects (writes of \<^verbatim>\<open>CLRISR\<close>, reads of a data register) are recorded in
  \<open>sd_io\<close>, calls of the callbacks that the firmware leaves empty in \<open>sd_cb\<close>.  A wait without a
  time-out that does not end is \<open>None\<close>.
\<close>

section \<open>Registers and constants\<close>

definition SDADC_CR1_EOCALIE :: u32 where "SDADC_CR1_EOCALIE = 0x1"
definition SDADC_CR1_JEOCIE :: u32 where "SDADC_CR1_JEOCIE = 0x2"
definition SDADC_CR1_JOVRIE :: u32 where "SDADC_CR1_JOVRIE = 0x4"
definition SDADC_CR1_REOCIE :: u32 where "SDADC_CR1_REOCIE = 0x8"
definition SDADC_CR1_ROVRIE :: u32 where "SDADC_CR1_ROVRIE = 0x10"
definition SDADC_CR1_REFV :: u32 where "SDADC_CR1_REFV = 0x300"
definition SDADC_CR1_SLOWCK :: u32 where "SDADC_CR1_SLOWCK = 0x400"
definition SDADC_CR1_SBI :: u32 where "SDADC_CR1_SBI = 0x800"
definition SDADC_CR1_PDI :: u32 where "SDADC_CR1_PDI = 0x1000"
definition SDADC_CR1_JSYNC :: u32 where "SDADC_CR1_JSYNC = 0x4000"
definition SDADC_CR1_RSYNC :: u32 where "SDADC_CR1_RSYNC = 0x8000"
definition SDADC_CR1_INIT :: u32 where "SDADC_CR1_INIT = 0x80000000"
definition SDADC_CR2_ADON :: u32 where "SDADC_CR2_ADON = 0x1"
definition SDADC_CR2_CALIBCNT :: u32 where "SDADC_CR2_CALIBCNT = 0x6"
definition SDADC_CR2_STARTCALIB :: u32 where "SDADC_CR2_STARTCALIB = 0x10"
definition SDADC_CR2_JCONT :: u32 where "SDADC_CR2_JCONT = 0x20"
definition SDADC_CR2_JDS :: u32 where "SDADC_CR2_JDS = 0x40"
definition SDADC_CR2_JEXTSEL :: u32 where "SDADC_CR2_JEXTSEL = 0xF00"
definition SDADC_CR2_JEXTEN :: u32 where "SDADC_CR2_JEXTEN = 0x6000"
definition SDADC_CR2_JSWSTART :: u32 where "SDADC_CR2_JSWSTART = 0x8000"
definition SDADC_CR2_RCH :: u32 where "SDADC_CR2_RCH = 0xF0000"
definition SDADC_CR2_RCONT :: u32 where "SDADC_CR2_RCONT = 0x400000"
definition SDADC_CR2_RSWSTART :: u32 where "SDADC_CR2_RSWSTART = 0x800000"
definition SDADC_CR2_FAST :: u32 where "SDADC_CR2_FAST = 0x1000000"
definition SDADC_ISR_EOCALF :: u32 where "SDADC_ISR_EOCALF = 0x1"
definition SDADC_ISR_JEOCF :: u32 where "SDADC_ISR_JEOCF = 0x2"
definition SDADC_ISR_JOVRF :: u32 where "SDADC_ISR_JOVRF = 0x4"
definition SDADC_ISR_REOCF :: u32 where "SDADC_ISR_REOCF = 0x8"
definition SDADC_ISR_ROVRF :: u32 where "SDADC_ISR_ROVRF = 0x10"
definition SDADC_ISR_JCIP :: u32 where "SDADC_ISR_JCIP = 0x2000"
definition SDADC_ISR_RCIP :: u32 where "SDADC_ISR_RCIP = 0x4000"
definition SDADC_ISR_STABIP :: u32 where "SDADC_ISR_STABIP = 0x8000"
definition SDADC_ISR_INITRDY :: u32 where "SDADC_ISR_INITRDY = 0x80000000"
definition SDADC_ISR_CLREOCALF :: u32 where "SDADC_ISR_CLREOCALF = 0x1"
definition SDADC_ISR_CLRJOVRF :: u32 where "SDADC_ISR_CLRJOVRF = 0x4"
definition SDADC_ISR_CLRROVRF :: u32 where "SDADC_ISR_CLRROVRF = 0x10"
definition SDADC_CONFCHR1_CONFCH0 :: u32 where "SDADC_CONFCHR1_CONFCH0 = 0x3"
definition SDADC_JDATAR_JDATA :: u32 where "SDADC_JDATAR_JDATA = 0xFFFF"
definition SDADC_JDATAR_JDATACH :: u32 where "SDADC_JDATAR_JDATACH = 0xF000000"
definition SDADC_TIMEOUT :: u32 where "SDADC_TIMEOUT = 200"
definition SDADC_MSB_MASK :: u32 where "SDADC_MSB_MASK = 0xFFFF0000"
definition SDADC_LSB_MASK :: u32 where "SDADC_LSB_MASK = 0xFFFF"
definition SDADC_CHANNEL_8 :: u32 where "SDADC_CHANNEL_8 = 0x80100"
definition SDADC_CONTINUOUS_CONV_OFF :: u32 where "SDADC_CONTINUOUS_CONV_OFF = 0"
definition SDADC_CONTINUOUS_CONV_ON :: u32 where "SDADC_CONTINUOUS_CONV_ON = 1"
definition SDADC_SOFTWARE_TRIGGER :: u32 where "SDADC_SOFTWARE_TRIGGER = 0"
definition SDADC_SYNCHRONOUS_TRIGGER :: u32 where "SDADC_SYNCHRONOUS_TRIGGER = 1"
definition SDADC_EXTERNAL_TRIGGER :: u32 where "SDADC_EXTERNAL_TRIGGER = 2"
definition SDADC_EXT_TRIG_TIM2_CC3 :: u32 where "SDADC_EXT_TRIG_TIM2_CC3 = 0x200"
definition SDADC_EXT_TRIG_RISING_EDGE :: u32 where "SDADC_EXT_TRIG_RISING_EDGE = 0x2000"
definition SDADC_MULTIMODE_SDADC1_SDADC2 :: u32 where "SDADC_MULTIMODE_SDADC1_SDADC2 = 0"
definition SDADC_ERROR_NONE :: u32 where "SDADC_ERROR_NONE = 0"
definition SDADC_ERROR_REGULAR_OVERRUN :: u32 where "SDADC_ERROR_REGULAR_OVERRUN = 1"
definition SDADC_ERROR_INJECTED_OVERRUN :: u32 where "SDADC_ERROR_INJECTED_OVERRUN = 2"

lemmas sd_consts = SDADC_CR1_EOCALIE_def SDADC_CR1_JEOCIE_def SDADC_CR1_JOVRIE_def
  SDADC_CR1_REOCIE_def SDADC_CR1_ROVRIE_def SDADC_CR1_REFV_def SDADC_CR1_SLOWCK_def
  SDADC_CR1_SBI_def SDADC_CR1_PDI_def SDADC_CR1_JSYNC_def SDADC_CR1_RSYNC_def SDADC_CR1_INIT_def
  SDADC_CR2_ADON_def SDADC_CR2_CALIBCNT_def SDADC_CR2_STARTCALIB_def SDADC_CR2_JCONT_def
  SDADC_CR2_JDS_def SDADC_CR2_JEXTSEL_def SDADC_CR2_JEXTEN_def SDADC_CR2_JSWSTART_def
  SDADC_CR2_RCH_def SDADC_CR2_RCONT_def SDADC_CR2_RSWSTART_def SDADC_CR2_FAST_def
  SDADC_ISR_EOCALF_def SDADC_ISR_JEOCF_def SDADC_ISR_JOVRF_def SDADC_ISR_REOCF_def
  SDADC_ISR_ROVRF_def SDADC_ISR_JCIP_def SDADC_ISR_RCIP_def SDADC_ISR_STABIP_def
  SDADC_ISR_INITRDY_def SDADC_ISR_CLREOCALF_def SDADC_ISR_CLRJOVRF_def SDADC_ISR_CLRROVRF_def
  SDADC_CONFCHR1_CONFCH0_def SDADC_JDATAR_JDATA_def SDADC_JDATAR_JDATACH_def SDADC_TIMEOUT_def
  SDADC_MSB_MASK_def SDADC_LSB_MASK_def SDADC_CHANNEL_8_def SDADC_CONTINUOUS_CONV_OFF_def
  SDADC_CONTINUOUS_CONV_ON_def SDADC_SOFTWARE_TRIGGER_def SDADC_SYNCHRONOUS_TRIGGER_def
  SDADC_EXTERNAL_TRIGGER_def SDADC_EXT_TRIG_TIM2_CC3_def SDADC_EXT_TRIG_RISING_EDGE_def
  SDADC_MULTIMODE_SDADC1_SDADC2_def SDADC_ERROR_NONE_def SDADC_ERROR_REGULAR_OVERRUN_def
  SDADC_ERROR_INJECTED_OVERRUN_def

section \<open>The handle\<close>

datatype HAL_SDADC_StateTypeDef =
    HAL_SDADC_STATE_RESET | HAL_SDADC_STATE_READY | HAL_SDADC_STATE_CALIB | HAL_SDADC_STATE_REG
  | HAL_SDADC_STATE_INJ | HAL_SDADC_STATE_REG_INJ | HAL_SDADC_STATE_ERROR

record SDADC_InitTypeDef =
  IdleLowPowerMode :: u32
  FastConversionMode :: u32
  SlowClockMode :: u32
  ReferenceVoltage :: u32

record SDADC_ConfParamTypeDef =
  InputMode :: u32
  Gain :: u32
  CommonMode :: u32
  Offset :: u32

datatype sdadc_instance = SDADC1 | SDADC2 | SDADC3

datatype sd_io =
    CLRISR_set u32 | RDATAR_read | JDATAR_read | RDATA12R_read | RDATA13R_read | JDATA12R_read | JDATA13R_read

datatype sd_callback =
  ConvCpltCallback | InjectedConvCpltCallback | CalibrationCpltCallback | SDADC_ErrorCallback
  | ConvHalfCpltCallback | InjectedConvHalfCpltCallback

text \<open>\<open>sd1_CR1\<close> is the control register of SDADC1 for a handle of another instance: the reference voltage
  of all converters is selected there.  \<open>sd_CONFR\<close> are the three configuration registers.\<close>
record SDADC_HandleTypeDef =
  sd_Instance :: sdadc_instance
  sd_CR1 :: u32
  sd_CR2 :: u32
  sd1_CR1 :: u32
  sd_JCHGR :: u32
  sd_CONFR :: "u32 \<Rightarrow> u32"
  sd_CONFCHR1 :: u32
  sd_CONFCHR2 :: u32
  sd_Init :: SDADC_InitTypeDef
  RegularContMode :: u32
  InjectedContMode :: u32
  InjectedChannelsNbr :: u32
  InjConvRemaining :: u32
  RegularTrigger :: u32
  InjectedTrigger :: u32
  ExtTriggerEdge :: u32
  RegularMultimode :: u32
  InjectedMultimode :: u32
  sd_State :: HAL_SDADC_StateTypeDef
  sd_ErrorCode :: u32
  sd_now :: time
  sd_io :: "sd_io list"
  sd_cb :: "sd_callback list"

type_synonym sdadc = SDADC_HandleTypeDef

definition sd_log :: "sd_io \<Rightarrow> sdadc \<Rightarrow> sdadc" where
  "sd_log x h = h\<lparr>sd_io := sd_io h @ [x]\<rparr>"

definition sd_callback :: "sd_callback \<Rightarrow> sdadc \<Rightarrow> sdadc" where
  "sd_callback k h = h\<lparr>sd_cb := sd_cb h @ [k]\<rparr>"

text \<open>A read of a data register whose value is dropped: it clears the end-of-conversion flag.\<close>
definition sd_drop :: "sd_io \<Rightarrow> sdadc \<Rightarrow> sdadc" where
  "sd_drop x h = (sd_log x h)\<lparr>sd_now := Suc (sd_now h)\<rparr>"

definition sd_or_CR1 :: "u32 \<Rightarrow> sdadc \<Rightarrow> sdadc" where
  "sd_or_CR1 b h = h\<lparr>sd_CR1 := sd_CR1 h OR b\<rparr>"

definition sd_clear_CR1 :: "u32 \<Rightarrow> sdadc \<Rightarrow> sdadc" where
  "sd_clear_CR1 b h = h\<lparr>sd_CR1 := sd_CR1 h AND NOT b\<rparr>"

definition sd_or_CR2 :: "u32 \<Rightarrow> sdadc \<Rightarrow> sdadc" where
  "sd_or_CR2 b h = h\<lparr>sd_CR2 := sd_CR2 h OR b\<rparr>"

definition sd_clear_CR2 :: "u32 \<Rightarrow> sdadc \<Rightarrow> sdadc" where
  "sd_clear_CR2 b h = h\<lparr>sd_CR2 := sd_CR2 h AND NOT b\<rparr>"

lemmas sd_macros = sd_log_def sd_callback_def sd_drop_def sd_or_CR1_def sd_clear_CR1_def
  sd_or_CR2_def sd_clear_CR2_def

section \<open>Initialisation mode\<close>

definition SDADC_EnterInitMode :: "hw \<Rightarrow> sdadc \<Rightarrow> (HAL_StatusTypeDef \<times> sdadc) option" where
  "SDADC_EnterInitMode hw h =
     do { let h1 = sd_or_CR1 SDADC_CR1_INIT h;
          (ok, t) \<leftarrow> wait_beyond hw (\<lambda>t. hw_SR hw t AND SDADC_ISR_INITRDY \<noteq> 0) SDADC_TIMEOUT (sd_now h1);
          Some (if ok then HAL_OK else HAL_TIMEOUT, h1\<lparr>sd_now := t\<rparr>) }"

definition SDADC_ExitInitMode :: "sdadc \<Rightarrow> sdadc" where
  "SDADC_ExitInitMode h = sd_clear_CR1 SDADC_CR1_INIT h"

text \<open>The frame shared by the configuration functions: enter the initialisation mode, or fail with a
  time-out and the error state; change registers; leave the mode.\<close>
definition sd_in_init_mode ::
  "hw \<Rightarrow> (sdadc \<Rightarrow> sdadc) \<Rightarrow> sdadc \<Rightarrow> (HAL_StatusTypeDef \<times> sdadc) option" where
  "sd_in_init_mode hw change h =
     do { (st, h1) \<leftarrow> SDADC_EnterInitMode hw h;
          Some (if st \<noteq> HAL_OK then (HAL_TIMEOUT, h1\<lparr>sd_State := HAL_SDADC_STATE_ERROR\<rparr>)
                else (HAL_OK, SDADC_ExitInitMode (change h1))) }"

section \<open>Set-up\<close>

definition sd_refv :: "sdadc \<Rightarrow> u32" where
  "sd_refv h = (if sd_Instance h = SDADC1 then sd_CR1 h else sd1_CR1 h) AND SDADC_CR1_REFV"

definition sd_set_refv :: "u32 \<Rightarrow> sdadc \<Rightarrow> sdadc" where
  "sd_set_refv v h =
     (if sd_Instance h = SDADC1 then h\<lparr>sd_CR1 := (sd_CR1 h AND NOT SDADC_CR1_REFV) OR v\<rparr>
      else h\<lparr>sd1_CR1 := (sd1_CR1 h AND NOT SDADC_CR1_REFV) OR v\<rparr>)"

text \<open>\<open>msp\<close> stands for \<^verbatim>\<open>HAL_SDADC_MspInit\<close>; the null check of the handle has no counterpart.\<close>
definition HAL_SDADC_Init ::
  "(sdadc \<Rightarrow> sdadc) \<Rightarrow> hw \<Rightarrow> sdadc \<Rightarrow> (HAL_StatusTypeDef \<times> sdadc) option" where
  "HAL_SDADC_Init msp hw h =
     do { let h1 = msp (h\<lparr>RegularContMode := SDADC_CONTINUOUS_CONV_OFF,
                          InjectedContMode := SDADC_CONTINUOUS_CONV_OFF,
                          InjectedChannelsNbr := 1, InjConvRemaining := 1,
                          RegularTrigger := SDADC_SOFTWARE_TRIGGER,
                          InjectedTrigger := SDADC_SOFTWARE_TRIGGER,
                          ExtTriggerEdge := SDADC_EXT_TRIG_RISING_EDGE,
                          RegularMultimode := SDADC_MULTIMODE_SDADC1_SDADC2,
                          InjectedMultimode := SDADC_MULTIMODE_SDADC1_SDADC2,
                          sd_ErrorCode := SDADC_ERROR_NONE\<rparr>);
          let h2 = sd_or_CR1 (IdleLowPowerMode (sd_Init h1) OR SlowClockMode (sd_Init h1))
                     (sd_clear_CR1 (SDADC_CR1_SBI OR SDADC_CR1_PDI OR SDADC_CR1_SLOWCK) h1);
          let h3 = sd_or_CR2 (FastConversionMode (sd_Init h2)) (sd_clear_CR2 SDADC_CR2_FAST h2);
          h4 \<leftarrow> (if sd_refv h3 \<noteq> ReferenceVoltage (sd_Init h3)
                 then do { t \<leftarrow> HAL_Delay hw 2 (sd_now h3);
                           Some ((sd_set_refv (ReferenceVoltage (sd_Init h3)) h3)\<lparr>sd_now := t\<rparr>) }
                 else Some h3);
          let h5 = sd_or_CR2 SDADC_CR2_ADON h4;
          (_, t) \<leftarrow> poll (\<lambda>t. hw_SR hw t AND SDADC_ISR_STABIP = 0) (\<lambda>_. False) (sd_now h5);
          Some (HAL_OK, h5\<lparr>sd_now := t, sd_State := HAL_SDADC_STATE_READY\<rparr>) }"

definition HAL_SDADC_DeInit :: "(sdadc \<Rightarrow> sdadc) \<Rightarrow> sdadc \<Rightarrow> HAL_StatusTypeDef \<times> sdadc" where
  "HAL_SDADC_DeInit msp_deinit h =
     (let h1 = (sd_clear_CR2 SDADC_CR2_ADON h)\<lparr>sd_CR1 := 0, sd_CR2 := 0, sd_JCHGR := 1,
                 sd_CONFR := (sd_CONFR h)(0 := 0, 1 := 0, 2 := 0), sd_CONFCHR1 := 0, sd_CONFCHR2 := 0\<rparr>
      in (HAL_OK, (msp_deinit h1)\<lparr>sd_State := HAL_SDADC_STATE_RESET\<rparr>))"

section \<open>Configuration\<close>

definition HAL_SDADC_PrepareChannelConfig ::
  "hw \<Rightarrow> u32 \<Rightarrow> SDADC_ConfParamTypeDef \<Rightarrow> sdadc \<Rightarrow> (HAL_StatusTypeDef \<times> sdadc) option" where
  "HAL_SDADC_PrepareChannelConfig hw ConfIndex p h =
     (if sd_State h \<noteq> HAL_SDADC_STATE_READY then Some (HAL_ERROR, h)
      else sd_in_init_mode hw (\<lambda>h. h\<lparr>sd_CONFR := (sd_CONFR h)(ConfIndex :=
             InputMode p OR Gain p OR CommonMode p OR Offset p)\<rparr>) h)"

definition HAL_SDADC_AssociateChannelConfig ::
  "hw \<Rightarrow> u32 \<Rightarrow> u32 \<Rightarrow> sdadc \<Rightarrow> (HAL_StatusTypeDef \<times> sdadc) option" where
  "HAL_SDADC_AssociateChannelConfig hw Channel ConfIndex h =
     (if sd_State h \<noteq> HAL_SDADC_STATE_READY then Some (HAL_ERROR, h)
      else sd_in_init_mode hw (\<lambda>h.
             if Channel \<noteq> SDADC_CHANNEL_8
             then let channelnum = drop_bit 16 Channel; sh = unat (push_bit 2 channelnum)
                  in h\<lparr>sd_CONFCHR1 := (sd_CONFCHR1 h AND NOT (push_bit sh SDADC_CONFCHR1_CONFCH0))
                         OR push_bit sh ConfIndex\<rparr>
             else h\<lparr>sd_CONFCHR2 := ConfIndex\<rparr>) h)"

definition sd_configurable :: "sdadc \<Rightarrow> bool" where
  "sd_configurable h \<longleftrightarrow> sd_State h \<noteq> HAL_SDADC_STATE_RESET \<and> sd_State h \<noteq> HAL_SDADC_STATE_ERROR"

definition HAL_SDADC_ConfigChannel :: "u32 \<Rightarrow> u32 \<Rightarrow> sdadc \<Rightarrow> HAL_StatusTypeDef \<times> sdadc" where
  "HAL_SDADC_ConfigChannel Channel ContinuousMode h =
     (if sd_configurable h
      then let h1 = sd_clear_CR2 (SDADC_CR2_RCH OR SDADC_CR2_RCONT) h;
               h2 = (if ContinuousMode = SDADC_CONTINUOUS_CONV_ON
                     then sd_or_CR2 ((Channel AND SDADC_MSB_MASK) OR SDADC_CR2_RCONT) h1
                     else sd_or_CR2 (Channel AND SDADC_MSB_MASK) h1)
           in (HAL_OK, h2\<lparr>RegularContMode := ContinuousMode\<rparr>)
      else (HAL_ERROR, h))"

text \<open>The loop of \<^verbatim>\<open>SDADC_GetInjChannelsNbr\<close>; the first argument counts the passes left.\<close>
fun sd_count_channels :: "nat \<Rightarrow> u32 \<Rightarrow> u32 \<Rightarrow> u32" where
  "sd_count_channels 0 tmp nbChannels = nbChannels"
| "sd_count_channels (Suc n) tmp nbChannels =
     sd_count_channels n (drop_bit 1 tmp) (if tmp AND 1 \<noteq> 0 then nbChannels + 1 else nbChannels)"

definition SDADC_GetInjChannelsNbr :: "u32 \<Rightarrow> u32" where
  "SDADC_GetInjChannelsNbr Channels = sd_count_channels 9 (Channels AND SDADC_LSB_MASK) 0"

definition HAL_SDADC_InjectedConfigChannel :: "u32 \<Rightarrow> u32 \<Rightarrow> sdadc \<Rightarrow> HAL_StatusTypeDef \<times> sdadc" where
  "HAL_SDADC_InjectedConfigChannel Channel ContinuousMode h =
     (if sd_configurable h
      then let h1 = h\<lparr>sd_JCHGR := Channel AND SDADC_LSB_MASK\<rparr>;
               h2 = (if ContinuousMode = SDADC_CONTINUOUS_CONV_ON
                     then sd_or_CR2 SDADC_CR2_JCONT h1 else sd_clear_CR2 SDADC_CR2_JCONT h1)
           in (HAL_OK, h2\<lparr>InjectedContMode := ContinuousMode,
                          InjectedChannelsNbr := SDADC_GetInjChannelsNbr Channel\<rparr>)
      else (HAL_ERROR, h))"

definition HAL_SDADC_SelectRegularTrigger :: "u32 \<Rightarrow> sdadc \<Rightarrow> HAL_StatusTypeDef \<times> sdadc" where
  "HAL_SDADC_SelectRegularTrigger Trigger h =
     (if sd_Instance h = SDADC1 \<and> Trigger = SDADC_SYNCHRONOUS_TRIGGER then (HAL_ERROR, h)
      else if sd_State h = HAL_SDADC_STATE_READY \<or> sd_State h = HAL_SDADC_STATE_CALIB
              \<or> sd_State h = HAL_SDADC_STATE_INJ
      then (HAL_OK, h\<lparr>RegularTrigger := Trigger\<rparr>)
      else (HAL_ERROR, h))"

definition HAL_SDADC_SelectInjectedTrigger :: "u32 \<Rightarrow> sdadc \<Rightarrow> HAL_StatusTypeDef \<times> sdadc" where
  "HAL_SDADC_SelectInjectedTrigger Trigger h =
     (if sd_Instance h = SDADC1 \<and> Trigger = SDADC_SYNCHRONOUS_TRIGGER then (HAL_ERROR, h)
      else if sd_State h = HAL_SDADC_STATE_READY \<or> sd_State h = HAL_SDADC_STATE_CALIB
              \<or> sd_State h = HAL_SDADC_STATE_REG
      then (HAL_OK, h\<lparr>InjectedTrigger := Trigger\<rparr>)
      else (HAL_ERROR, h))"

definition HAL_SDADC_SelectInjectedExtTrigger ::
  "hw \<Rightarrow> u32 \<Rightarrow> u32 \<Rightarrow> sdadc \<Rightarrow> (HAL_StatusTypeDef \<times> sdadc) option" where
  "HAL_SDADC_SelectInjectedExtTrigger hw InjectedExtTrigger Edge h =
     (if sd_State h = HAL_SDADC_STATE_READY
      then sd_in_init_mode hw (\<lambda>h.
             (sd_or_CR2 InjectedExtTrigger (sd_clear_CR2 SDADC_CR2_JEXTSEL h))\<lparr>ExtTriggerEdge := Edge\<rparr>) h
      else Some (HAL_ERROR, h))"

definition HAL_SDADC_SelectInjectedDelay ::
  "hw \<Rightarrow> u32 \<Rightarrow> sdadc \<Rightarrow> (HAL_StatusTypeDef \<times> sdadc) option" where
  "HAL_SDADC_SelectInjectedDelay hw InjectedDelay h =
     (if sd_State h = HAL_SDADC_STATE_READY
      then sd_in_init_mode hw (\<lambda>h. sd_or_CR2 InjectedDelay (sd_clear_CR2 SDADC_CR2_JDS h)) h
      else Some (HAL_ERROR, h))"

definition HAL_SDADC_MultiModeConfigChannel :: "u32 \<Rightarrow> sdadc \<Rightarrow> HAL_StatusTypeDef \<times> sdadc" where
  "HAL_SDADC_MultiModeConfigChannel MultimodeType h =
     (if sd_Instance h \<noteq> SDADC1 then (HAL_ERROR, h)
      else if sd_State h = HAL_SDADC_STATE_READY \<or> sd_State h = HAL_SDADC_STATE_CALIB
              \<or> sd_State h = HAL_SDADC_STATE_INJ
      then (HAL_OK, h\<lparr>RegularMultimode := MultimodeType\<rparr>)
      else (HAL_ERROR, h))"

definition HAL_SDADC_InjectedMultiModeConfigChannel :: "u32 \<Rightarrow> sdadc \<Rightarrow> HAL_StatusTypeDef \<times> sdadc" where
  "HAL_SDADC_InjectedMultiModeConfigChannel MultimodeType h =
     (if sd_Instance h \<noteq> SDADC1 then (HAL_ERROR, h)
      else if sd_State h = HAL_SDADC_STATE_READY \<or> sd_State h = HAL_SDADC_STATE_CALIB
              \<or> sd_State h = HAL_SDADC_STATE_REG
      then (HAL_OK, h\<lparr>InjectedMultimode := MultimodeType\<rparr>)
      else (HAL_ERROR, h))"

section \<open>Calibration\<close>

text \<open>What \<^verbatim>\<open>HAL_SDADC_CalibrationStart\<close> and its interrupt variant share; \<open>it\<close> are the bits of \<^verbatim>\<open>CR1\<close> set
  before the start.\<close>
definition sd_calibrate ::
  "u32 \<Rightarrow> hw \<Rightarrow> u32 \<Rightarrow> sdadc \<Rightarrow> (HAL_StatusTypeDef \<times> sdadc) option" where
  "sd_calibrate it hw CalibrationSequence h =
     (if sd_State h = HAL_SDADC_STATE_READY
      then do { (st, h1) \<leftarrow> sd_in_init_mode hw
                  (\<lambda>h. sd_or_CR2 CalibrationSequence (sd_clear_CR2 SDADC_CR2_CALIBCNT h)) h;
                Some (if st \<noteq> HAL_OK then (HAL_TIMEOUT, h1)
                      else (HAL_OK, (sd_or_CR2 SDADC_CR2_STARTCALIB (sd_or_CR1 it h1))
                              \<lparr>sd_State := HAL_SDADC_STATE_CALIB\<rparr>)) }
      else Some (HAL_ERROR, h))"

definition HAL_SDADC_CalibrationStart :: "hw \<Rightarrow> u32 \<Rightarrow> sdadc \<Rightarrow> (HAL_StatusTypeDef \<times> sdadc) option" where
  "HAL_SDADC_CalibrationStart hw CalibrationSequence h = sd_calibrate 0 hw CalibrationSequence h"

definition HAL_SDADC_CalibrationStart_IT :: "hw \<Rightarrow> u32 \<Rightarrow> sdadc \<Rightarrow> (HAL_StatusTypeDef \<times> sdadc) option" where
  "HAL_SDADC_CalibrationStart_IT hw CalibrationSequence h = sd_calibrate SDADC_CR1_EOCALIE hw CalibrationSequence h"

definition HAL_SDADC_PollForCalibEvent :: "hw \<Rightarrow> u32 \<Rightarrow> sdadc \<Rightarrow> (HAL_StatusTypeDef \<times> sdadc) option" where
  "HAL_SDADC_PollForCalibEvent hw Timeout h =
     (if sd_State h \<noteq> HAL_SDADC_STATE_CALIB then Some (HAL_ERROR, h)
      else do { (ok, t) \<leftarrow> wait_beyond hw (\<lambda>t. hw_SR hw t AND SDADC_ISR_EOCALF = SDADC_ISR_EOCALF) Timeout (sd_now h);
                let h1 = h\<lparr>sd_now := t\<rparr>;
                Some (if \<not> ok then (HAL_TIMEOUT, h1)
                      else (HAL_OK, (sd_log (CLRISR_set SDADC_ISR_CLREOCALF) h1)
                              \<lparr>sd_State := HAL_SDADC_STATE_READY\<rparr>)) })"

section \<open>Conversions\<close>

definition SDADC_RegConvStart :: "hw \<Rightarrow> sdadc \<Rightarrow> (HAL_StatusTypeDef \<times> sdadc) option" where
  "SDADC_RegConvStart hw h =
     do { (st, h1) \<leftarrow> (if RegularTrigger h = SDADC_SOFTWARE_TRIGGER
                       then Some (HAL_OK, sd_or_CR2 SDADC_CR2_RSWSTART h)
                       else sd_in_init_mode hw (sd_or_CR1 SDADC_CR1_RSYNC) h);
          Some (st, if st = HAL_OK
                    then h1\<lparr>sd_State := (if sd_State h1 = HAL_SDADC_STATE_READY
                                         then HAL_SDADC_STATE_REG else HAL_SDADC_STATE_REG_INJ)\<rparr>
                    else h1) }"

definition SDADC_InjConvStart :: "hw \<Rightarrow> sdadc \<Rightarrow> (HAL_StatusTypeDef \<times> sdadc) option" where
  "SDADC_InjConvStart hw h0 =
     do { let h = h0\<lparr>InjConvRemaining := InjectedChannelsNbr h0\<rparr>;
          (st, h1) \<leftarrow> (if InjectedTrigger h = SDADC_SOFTWARE_TRIGGER
                       then Some (HAL_OK, sd_or_CR2 SDADC_CR2_JSWSTART h)
                       else sd_in_init_mode hw (\<lambda>h.
                              if InjectedTrigger h = SDADC_SYNCHRONOUS_TRIGGER
                              then sd_or_CR1 SDADC_CR1_JSYNC h
                              else sd_or_CR2 (ExtTriggerEdge h) h) h);
          Some (st, if st = HAL_OK
                    then h1\<lparr>sd_State := (if sd_State h1 = HAL_SDADC_STATE_READY
                                         then HAL_SDADC_STATE_INJ else HAL_SDADC_STATE_REG_INJ)\<rparr>
                    else h1) }"

definition SDADC_RegConvStop :: "hw \<Rightarrow> sdadc \<Rightarrow> (HAL_StatusTypeDef \<times> sdadc) option" where
  "SDADC_RegConvStop hw h =
     do { let h1 = (if RegularContMode h = SDADC_CONTINUOUS_CONV_ON
                    then sd_clear_CR2 SDADC_CR2_RCONT (sd_drop RDATAR_read h) else h);
          (ok, t) \<leftarrow> wait_beyond hw (\<lambda>t. hw_SR hw t AND SDADC_ISR_RCIP = 0) SDADC_TIMEOUT (sd_now h1);
          let h2 = h1\<lparr>sd_now := t\<rparr>;
          if \<not> ok then Some (HAL_TIMEOUT, h2\<lparr>sd_State := HAL_SDADC_STATE_ERROR\<rparr>)
          else do {
            (st, h3) \<leftarrow> (if RegularTrigger h2 = SDADC_SYNCHRONOUS_TRIGGER
                         then sd_in_init_mode hw (sd_clear_CR1 SDADC_CR1_RSYNC) h2
                         else Some (HAL_OK, h2));
            if st \<noteq> HAL_OK then Some (HAL_TIMEOUT, h3)
            else do {
              let h4 = (if RegularContMode h3 = SDADC_CONTINUOUS_CONV_ON
                        then sd_or_CR2 SDADC_CR2_RCONT h3 else h3);
              let h5 = sd_log (CLRISR_set SDADC_ISR_CLRROVRF) (sd_drop RDATAR_read h4);
              Some (HAL_OK, h5\<lparr>sd_State := (if sd_State h5 = HAL_SDADC_STATE_REG
                                            then HAL_SDADC_STATE_READY else HAL_SDADC_STATE_INJ)\<rparr>) } } }"

definition SDADC_InjConvStop :: "hw \<Rightarrow> sdadc \<Rightarrow> (HAL_StatusTypeDef \<times> sdadc) option" where
  "SDADC_InjConvStop hw h =
     do { let h1 = (if InjectedContMode h = SDADC_CONTINUOUS_CONV_ON
                    then sd_clear_CR2 SDADC_CR2_JCONT (sd_drop JDATAR_read h) else h);
          (ok, t) \<leftarrow> wait_beyond hw (\<lambda>t. hw_SR hw t AND SDADC_ISR_JCIP = 0) SDADC_TIMEOUT (sd_now h1);
          let h2 = h1\<lparr>sd_now := t\<rparr>;
          if \<not> ok then Some (HAL_TIMEOUT, h2\<lparr>sd_State := HAL_SDADC_STATE_ERROR\<rparr>)
          else do {
            (st, h3) \<leftarrow> (if InjectedTrigger h2 \<noteq> SDADC_SOFTWARE_TRIGGER
                         then sd_in_init_mode hw (\<lambda>h.
                                if InjectedTrigger h = SDADC_SYNCHRONOUS_TRIGGER
                                then sd_clear_CR1 SDADC_CR1_JSYNC h
                                else sd_clear_CR2 SDADC_CR2_JEXTEN h) h2
                         else Some (HAL_OK, h2));
            if st \<noteq> HAL_OK then Some (HAL_TIMEOUT, h3)
            else do {
              let h4 = (if InjectedContMode h3 = SDADC_CONTINUOUS_CONV_ON
                        then sd_or_CR2 SDADC_CR2_JCONT h3 else h3);
              let h5 = sd_log (CLRISR_set SDADC_ISR_CLRJOVRF) (sd_drop JDATAR_read h4);
              Some (HAL_OK, h5\<lparr>sd_State := (if sd_State h5 = HAL_SDADC_STATE_INJ
                                            then HAL_SDADC_STATE_READY else HAL_SDADC_STATE_REG)\<rparr>) } } }"

definition HAL_SDADC_Start :: "hw \<Rightarrow> sdadc \<Rightarrow> (HAL_StatusTypeDef \<times> sdadc) option" where
  "HAL_SDADC_Start hw h =
     (if sd_State h = HAL_SDADC_STATE_READY \<or> sd_State h = HAL_SDADC_STATE_INJ
      then SDADC_RegConvStart hw h else Some (HAL_ERROR, h))"

definition HAL_SDADC_Start_IT :: "hw \<Rightarrow> sdadc \<Rightarrow> (HAL_StatusTypeDef \<times> sdadc) option" where
  "HAL_SDADC_Start_IT hw h =
     (if sd_State h = HAL_SDADC_STATE_READY \<or> sd_State h = HAL_SDADC_STATE_INJ
      then SDADC_RegConvStart hw (sd_or_CR1 (SDADC_CR1_REOCIE OR SDADC_CR1_ROVRIE) h)
      else Some (HAL_ERROR, h))"

definition HAL_SDADC_Stop :: "hw \<Rightarrow> sdadc \<Rightarrow> (HAL_StatusTypeDef \<times> sdadc) option" where
  "HAL_SDADC_Stop hw h =
     (if sd_State h \<noteq> HAL_SDADC_STATE_REG \<and> sd_State h \<noteq> HAL_SDADC_STATE_REG_INJ
      then Some (HAL_ERROR, h) else SDADC_RegConvStop hw h)"

definition HAL_SDADC_Stop_IT :: "hw \<Rightarrow> sdadc \<Rightarrow> (HAL_StatusTypeDef \<times> sdadc) option" where
  "HAL_SDADC_Stop_IT hw h =
     (if sd_State h \<noteq> HAL_SDADC_STATE_REG \<and> sd_State h \<noteq> HAL_SDADC_STATE_REG_INJ
      then Some (HAL_ERROR, h)
      else SDADC_RegConvStop hw (sd_clear_CR1 (SDADC_CR1_REOCIE OR SDADC_CR1_ROVRIE) h))"

definition HAL_SDADC_InjectedStart :: "hw \<Rightarrow> sdadc \<Rightarrow> (HAL_StatusTypeDef \<times> sdadc) option" where
  "HAL_SDADC_InjectedStart hw h =
     (if sd_State h = HAL_SDADC_STATE_READY \<or> sd_State h = HAL_SDADC_STATE_REG
      then SDADC_InjConvStart hw h else Some (HAL_ERROR, h))"

definition HAL_SDADC_InjectedStart_IT :: "hw \<Rightarrow> sdadc \<Rightarrow> (HAL_StatusTypeDef \<times> sdadc) option" where
  "HAL_SDADC_InjectedStart_IT hw h =
     (if sd_State h = HAL_SDADC_STATE_READY \<or> sd_State h = HAL_SDADC_STATE_REG
      then SDADC_InjConvStart hw (sd_or_CR1 (SDADC_CR1_JEOCIE OR SDADC_CR1_JOVRIE) h)
      else Some (HAL_ERROR, h))"

definition HAL_SDADC_InjectedStop :: "hw \<Rightarrow> sdadc \<Rightarrow> (HAL_StatusTypeDef \<times> sdadc) option" where
  "HAL_SDADC_InjectedStop hw h =
     (if sd_State h \<noteq> HAL_SDADC_STATE_INJ \<and> sd_State h \<noteq> HAL_SDADC_STATE_REG_INJ
      then Some (HAL_ERROR, h) else SDADC_InjConvStop hw h)"

definition HAL_SDADC_InjectedStop_IT :: "hw \<Rightarrow> sdadc \<Rightarrow> (HAL_StatusTypeDef \<times> sdadc) option" where
  "HAL_SDADC_InjectedStop_IT hw h =
     (if sd_State h \<noteq> HAL_SDADC_STATE_INJ \<and> sd_State h \<noteq> HAL_SDADC_STATE_REG_INJ
      then Some (HAL_ERROR, h)
      else SDADC_InjConvStop hw (sd_clear_CR1 (SDADC_CR1_JEOCIE OR SDADC_CR1_JOVRIE) h))"

section \<open>Results\<close>

definition HAL_SDADC_GetValue :: "hw \<Rightarrow> sdadc \<Rightarrow> u32 \<times> sdadc" where
  "HAL_SDADC_GetValue hw h = (hw_DR hw (sd_now h), sd_drop RDATAR_read h)"

text \<open>Value, channel (written through the pointer) and the handle.\<close>
definition HAL_SDADC_InjectedGetValue :: "hw \<Rightarrow> sdadc \<Rightarrow> u32 \<times> u32 \<times> sdadc" where
  "HAL_SDADC_InjectedGetValue hw h =
     (let v = hw_DR hw (sd_now h)
      in (v AND SDADC_JDATAR_JDATA, drop_bit 24 (v AND SDADC_JDATAR_JDATACH), sd_drop JDATAR_read h))"

text \<open>\<^verbatim>\<open>InjConvRemaining--; if(InjConvRemaining == 0) InjConvRemaining = InjectedChannelsNbr;\<close>\<close>
definition sd_inj_count :: "sdadc \<Rightarrow> sdadc" where
  "sd_inj_count h =
     (let r = InjConvRemaining h - 1 in h\<lparr>InjConvRemaining := (if r = 0 then InjectedChannelsNbr h else r)\<rparr>)"

definition sd_reg_one_shot :: "sdadc \<Rightarrow> bool" where
  "sd_reg_one_shot h \<longleftrightarrow> RegularContMode h = SDADC_CONTINUOUS_CONV_OFF \<and> RegularTrigger h = SDADC_SOFTWARE_TRIGGER"

definition sd_inj_sequence_done :: "sdadc \<Rightarrow> bool" where
  "sd_inj_sequence_done h \<longleftrightarrow> InjectedContMode h = SDADC_CONTINUOUS_CONV_OFF
     \<and> InjectedTrigger h = SDADC_SOFTWARE_TRIGGER \<and> InjConvRemaining h = InjectedChannelsNbr h"

definition sd_reg_ended :: "sdadc \<Rightarrow> sdadc" where
  "sd_reg_ended h = h\<lparr>sd_State := (if sd_State h = HAL_SDADC_STATE_REG
                                  then HAL_SDADC_STATE_READY else HAL_SDADC_STATE_INJ)\<rparr>"

definition sd_inj_ended :: "sdadc \<Rightarrow> sdadc" where
  "sd_inj_ended h = h\<lparr>sd_State := (if sd_State h = HAL_SDADC_STATE_INJ
                                  then HAL_SDADC_STATE_READY else HAL_SDADC_STATE_REG)\<rparr>"

text \<open>The overrun check of the polling functions.\<close>
definition sd_check_overrun :: "hw \<Rightarrow> u32 \<Rightarrow> u32 \<Rightarrow> u32 \<Rightarrow> sdadc \<Rightarrow> sdadc" where
  "sd_check_overrun hw flag err clr h =
     (let h1 = h\<lparr>sd_now := Suc (sd_now h)\<rparr>
      in if hw_SR hw (sd_now h) AND flag = flag
         then sd_log (CLRISR_set clr) (sd_callback SDADC_ErrorCallback (h1\<lparr>sd_ErrorCode := err\<rparr>))
         else h1)"

definition HAL_SDADC_PollForConversion :: "hw \<Rightarrow> u32 \<Rightarrow> sdadc \<Rightarrow> (HAL_StatusTypeDef \<times> sdadc) option" where
  "HAL_SDADC_PollForConversion hw Timeout h =
     (if sd_State h \<noteq> HAL_SDADC_STATE_REG \<and> sd_State h \<noteq> HAL_SDADC_STATE_REG_INJ then Some (HAL_ERROR, h)
      else do { (ok, t) \<leftarrow> wait_beyond hw (\<lambda>t. hw_SR hw t AND SDADC_ISR_REOCF = SDADC_ISR_REOCF) Timeout (sd_now h);
                let h1 = h\<lparr>sd_now := t\<rparr>;
                if \<not> ok then Some (HAL_TIMEOUT, h1)
                else do {
                  let h2 = sd_check_overrun hw SDADC_ISR_ROVRF SDADC_ERROR_REGULAR_OVERRUN SDADC_ISR_CLRROVRF h1;
                  Some (HAL_OK, if sd_reg_one_shot h2 then sd_reg_ended h2 else h2) } })"

definition HAL_SDADC_PollForInjectedConversion ::
  "hw \<Rightarrow> u32 \<Rightarrow> sdadc \<Rightarrow> (HAL_StatusTypeDef \<times> sdadc) option" where
  "HAL_SDADC_PollForInjectedConversion hw Timeout h =
     (if sd_State h \<noteq> HAL_SDADC_STATE_INJ \<and> sd_State h \<noteq> HAL_SDADC_STATE_REG_INJ then Some (HAL_ERROR, h)
      else do { (ok, t) \<leftarrow> wait_beyond hw (\<lambda>t. hw_SR hw t AND SDADC_ISR_JEOCF = SDADC_ISR_JEOCF) Timeout (sd_now h);
                let h1 = h\<lparr>sd_now := t\<rparr>;
                if \<not> ok then Some (HAL_TIMEOUT, h1)
                else do {
                  let h2 = sd_check_overrun hw SDADC_ISR_JOVRF SDADC_ERROR_INJECTED_OVERRUN SDADC_ISR_CLRJOVRF h1;
                  let h3 = sd_inj_count h2;
                  Some (HAL_OK, if sd_inj_sequence_done h3 then sd_inj_ended h3 else h3) } })"

definition HAL_SDADC_GetState :: "sdadc \<Rightarrow> HAL_SDADC_StateTypeDef" where
  "HAL_SDADC_GetState h = sd_State h"

definition HAL_SDADC_GetError :: "sdadc \<Rightarrow> u32" where
  "HAL_SDADC_GetError h = sd_ErrorCode h"

section \<open>Interrupt handler\<close>

text \<open>\<open>cb\<close> gives the callbacks, which may change the handle and the user's state \<open>'s\<close>.  \<^verbatim>\<open>ISR\<close> is read afresh
  for each test, so each test takes one instant.\<close>
definition sd_test :: "hw \<Rightarrow> u32 \<Rightarrow> u32 \<Rightarrow> sdadc \<Rightarrow> bool" where
  "sd_test hw flag ie h \<longleftrightarrow> hw_SR hw (sd_now h) AND flag = flag \<and> sd_CR1 h AND ie = ie"

definition sd_tick :: "sdadc \<Rightarrow> sdadc" where
  "sd_tick h = h\<lparr>sd_now := Suc (sd_now h)\<rparr>"

definition sd_irq_regular ::
  "(sd_callback \<Rightarrow> sdadc \<times> 's \<Rightarrow> sdadc \<times> 's) \<Rightarrow> sdadc \<times> 's \<Rightarrow> sdadc \<times> 's" where
  "sd_irq_regular cb x =
     (let (h1, s1) = cb ConvCpltCallback x
      in (if sd_reg_one_shot h1
          then sd_reg_ended (sd_clear_CR1 (SDADC_CR1_REOCIE OR SDADC_CR1_ROVRIE) h1) else h1, s1))"

definition sd_irq_injected ::
  "(sd_callback \<Rightarrow> sdadc \<times> 's \<Rightarrow> sdadc \<times> 's) \<Rightarrow> sdadc \<times> 's \<Rightarrow> sdadc \<times> 's" where
  "sd_irq_injected cb x =
     (let (h1, s1) = cb InjectedConvCpltCallback x; h2 = sd_inj_count h1
      in (if sd_inj_sequence_done h2
          then sd_inj_ended (sd_clear_CR1 (SDADC_CR1_JEOCIE OR SDADC_CR1_JOVRIE) h2) else h2, s1))"

definition sd_irq_calibration ::
  "(sd_callback \<Rightarrow> sdadc \<times> 's \<Rightarrow> sdadc \<times> 's) \<Rightarrow> sdadc \<times> 's \<Rightarrow> sdadc \<times> 's" where
  "sd_irq_calibration cb x =
     (let (h, s) = x;
          (h1, s1) = cb CalibrationCpltCallback
            (sd_log (CLRISR_set SDADC_ISR_CLREOCALF) (sd_clear_CR1 SDADC_CR1_EOCALIE h), s)
      in (h1\<lparr>sd_State := HAL_SDADC_STATE_READY\<rparr>, s1))"

definition sd_irq_overrun ::
  "(sd_callback \<Rightarrow> sdadc \<times> 's \<Rightarrow> sdadc \<times> 's) \<Rightarrow> u32 \<Rightarrow> u32 \<Rightarrow> sdadc \<times> 's \<Rightarrow> sdadc \<times> 's" where
  "sd_irq_overrun cb clr err x =
     (let (h, s) = x in cb SDADC_ErrorCallback ((sd_log (CLRISR_set clr) h)\<lparr>sd_ErrorCode := err\<rparr>, s))"

definition HAL_SDADC_IRQHandler ::
  "(sd_callback \<Rightarrow> sdadc \<times> 's \<Rightarrow> sdadc \<times> 's) \<Rightarrow> hw \<Rightarrow> sdadc \<times> 's \<Rightarrow> sdadc \<times> 's" where
  "HAL_SDADC_IRQHandler cb hw x =
     (let (h0, s) = x; h1 = sd_tick h0; h2 = sd_tick h1; h3 = sd_tick h2; h4 = sd_tick h3; h5 = sd_tick h4
      in if sd_test hw SDADC_ISR_REOCF SDADC_CR1_REOCIE h0 then sd_irq_regular cb (h1, s)
         else if sd_test hw SDADC_ISR_JEOCF SDADC_CR1_JEOCIE h1 then sd_irq_injected cb (h2, s)
         else if sd_test hw SDADC_ISR_EOCALF SDADC_CR1_EOCALIE h2 then sd_irq_calibration cb (h3, s)
         else if sd_test hw SDADC_ISR_ROVRF SDADC_CR1_ROVRIE h3
         then sd_irq_overrun cb SDADC_ISR_CLRROVRF SDADC_ERROR_REGULAR_OVERRUN (h4, s)
         else if sd_test hw SDADC_ISR_JOVRF SDADC_CR1_JOVRIE h4
         then sd_irq_overrun cb SDADC_ISR_CLRJOVRF SDADC_ERROR_INJECTED_OVERRUN (h5, s)
         else (h5, s))"

end
