(* ===== verification/Sdadc_States.thy ===== *)
theory Sdadc_States
  imports Hal_Sdadc
begin

text \<open>
  What the converter driver guarantees: its state machine over every sequence of calls, that calls
  return, that refused calls change nothing, and how the interrupt handler delivers injected
  conversions.  The seven states are two independent flags (a regular and an injected conversion
  group) and the special states reset, calibration and error; the locale \<open>conversion_group\<close> is the
  contract of one group, interpreted for the polling and the interrupt functions of both.
\<close>

section \<open>Bits of the control registers\<close>

lemma sd_bit31 [simp]:
  "bit SDADC_CR1_INIT 31" "\<not> bit SDADC_CR1_RSYNC 31" "\<not> bit SDADC_CR1_JSYNC 31"
  "\<not> bit SDADC_CR1_EOCALIE 31" "\<not> bit SDADC_CR1_JEOCIE 31" "\<not> bit SDADC_CR1_JOVRIE 31"
  "\<not> bit SDADC_CR1_REOCIE 31" "\<not> bit SDADC_CR1_ROVRIE 31" "\<not> bit SDADC_CR1_REFV 31"
  by (simp_all add: sd_consts)

lemma sd_bit0 [simp]:
  "bit SDADC_CR2_ADON 0" "\<not> bit SDADC_CR2_FAST 0" "\<not> bit SDADC_CR2_RCH 0" "\<not> bit SDADC_CR2_RCONT 0"
  "\<not> bit SDADC_CR2_JCONT 0" "\<not> bit SDADC_CR2_JEXTSEL 0" "\<not> bit SDADC_CR2_JEXTEN 0" "\<not> bit SDADC_CR2_JDS 0"
  "\<not> bit SDADC_CR2_CALIBCNT 0"
  by (simp_all add: sd_consts)

lemma sd_count_channels_bound:
  "unat c + n < 2 ^ 32 \<Longrightarrow>
     unat (sd_count_channels n tmp c) = unat c + card {i. i < n \<and> bit tmp i}"
proof (induction n arbitrary: tmp c)
  case 0
  then show ?case by simp
next
  case (Suc n)
  have split: "{i. i < Suc n \<and> bit tmp i} = {i. i = 0 \<and> bit tmp 0} \<union> Suc ` {i. i < n \<and> bit (drop_bit 1 tmp) i}"
    (is "?L = ?A \<union> ?B")
  proof (rule set_eqI)
    fix i show "i \<in> ?L \<longleftrightarrow> i \<in> ?A \<union> ?B"
      by (cases i) (auto simp: bit_drop_bit_eq image_iff)
  qed
  have "card ?L = card ?A + card {i. i < n \<and> bit (drop_bit 1 tmp) i}"
    unfolding split by (subst card_Un_disjoint) (auto simp: card_image)
  moreover have "card ?A = of_bool (bit tmp 0)" by (auto simp: card_eq_0_iff)
  moreover have "tmp AND 1 \<noteq> 0 \<longleftrightarrow> bit tmp 0"
    by (simp add: and_one_eq odd_iff_mod_2_eq_one bit_0 flip: mod_2_eq_odd)
  moreover have "unat (c + 1) = Suc (unat c)"
    using Suc.prems by (simp add: unat_word_ariths)
  ultimately show ?case
    using Suc.IH [of "if tmp AND 1 \<noteq> 0 then c + 1 else c" "drop_bit 1 tmp"] Suc.prems by simp
qed

lemma GetInjChannelsNbr_card:
  "unat (SDADC_GetInjChannelsNbr Channels) = card {i. i < 9 \<and> bit Channels i}"
proof -
  have m: "SDADC_LSB_MASK = mask 16" by (simp add: SDADC_LSB_MASK_def mask_eq_exp_minus_1)
  have "{i. i < 9 \<and> bit (Channels AND SDADC_LSB_MASK) i} = {i. i < 9 \<and> bit Channels i}"
    by (auto simp: m bit_simps)
  then show ?thesis
    using sd_count_channels_bound [of 0 9 "Channels AND SDADC_LSB_MASK"]
    unfolding SDADC_GetInjChannelsNbr_def by simp
qed

section \<open>Initialisation mode\<close>

lemma sd_in_init_mode_cases:
  assumes "sd_in_init_mode hw change h = Some (st, h')"
  obtains t where "sd_now h < t" "st = HAL_OK"
      "h' = SDADC_ExitInitMode (change ((sd_or_CR1 SDADC_CR1_INIT h)\<lparr>sd_now := t\<rparr>))"
    | t where "sd_now h < t" "st = HAL_TIMEOUT"
      "h' = (sd_or_CR1 SDADC_CR1_INIT h)\<lparr>sd_now := t, sd_State := HAL_SDADC_STATE_ERROR\<rparr>"
proof -
  let ?h1 = "sd_or_CR1 SDADC_CR1_INIT h"
  obtain ok t where w: "wait_beyond hw (\<lambda>t. hw_SR hw t AND SDADC_ISR_INITRDY \<noteq> 0) SDADC_TIMEOUT (sd_now ?h1) = Some (ok, t)"
    using assms unfolding sd_in_init_mode_def SDADC_EnterInitMode_def by (cases "wait_beyond hw (\<lambda>t. hw_SR hw t AND SDADC_ISR_INITRDY \<noteq> 0) SDADC_TIMEOUT (sd_now ?h1)") auto
  then have t: "sd_now h < t"
    unfolding wait_beyond_def by (auto simp: sd_or_CR1_def dest: poll_time)
  show ?thesis
  proof (cases ok)
    case True
    with assms w show ?thesis
      using t unfolding sd_in_init_mode_def SDADC_EnterInitMode_def by (intro that(1)) auto
  next
    case False
    with assms w show ?thesis
      using t unfolding sd_in_init_mode_def SDADC_EnterInitMode_def by (intro that(2)) auto
  qed
qed

lemma sd_in_init_mode_returns:
  assumes "tick_advances hw"
  shows "\<exists>st h'. sd_in_init_mode hw change h = Some (st, h')"
proof -
  have "SDADC_TIMEOUT \<noteq> HAL_MAX_DELAY" by (simp add: SDADC_TIMEOUT_def HAL_MAX_DELAY_def)
  then obtain b t where "wait_beyond hw (\<lambda>t. hw_SR hw t AND SDADC_ISR_INITRDY \<noteq> 0) SDADC_TIMEOUT
      (sd_now (sd_or_CR1 SDADC_CR1_INIT h)) = Some (b, t)"
    using wait_beyond_returns [OF assms] by blast
  then show ?thesis
    unfolding sd_in_init_mode_def SDADC_EnterInitMode_def by simp
qed

section \<open>All calls\<close>

text \<open>One constructor per function of the driver; \<^verbatim>\<open>void\<close> functions and getters answer \<open>HAL_OK\<close>.  The
  callbacks are the driver's weak ones, which only leave a trace.\<close>
datatype sd_op =
    Op_Init | Op_DeInit | Op_Prepare u32 SDADC_ConfParamTypeDef | Op_Associate u32 u32
  | Op_Config u32 u32 | Op_InjConfig u32 u32 | Op_RegTrigger u32 | Op_InjTrigger u32
  | Op_ExtTrigger u32 u32 | Op_Delay u32 | Op_Multi u32 | Op_InjMulti u32
  | Op_Calib u32 | Op_Calib_IT u32 | Op_PollCalib u32
  | Op_Start | Op_Start_IT | Op_Stop | Op_Stop_IT | Op_Poll u32
  | Op_InjStart | Op_InjStart_IT | Op_InjStop | Op_InjStop_IT | Op_InjPoll u32
  | Op_Get | Op_InjGet | Op_IRQ

definition weak_callback :: "sd_callback \<Rightarrow> sdadc \<times> unit \<Rightarrow> sdadc \<times> unit" where
  "weak_callback k x = (sd_callback k (fst x), ())"

fun sd_exec :: "hw \<Rightarrow> sd_op \<Rightarrow> sdadc \<Rightarrow> (HAL_StatusTypeDef \<times> sdadc) option" where
  "sd_exec hw Op_Init h = HAL_SDADC_Init id hw h"
| "sd_exec hw Op_DeInit h = Some (HAL_SDADC_DeInit id h)"
| "sd_exec hw (Op_Prepare i p) h = HAL_SDADC_PrepareChannelConfig hw i p h"
| "sd_exec hw (Op_Associate c i) h = HAL_SDADC_AssociateChannelConfig hw c i h"
| "sd_exec hw (Op_Config c m) h = Some (HAL_SDADC_ConfigChannel c m h)"
| "sd_exec hw (Op_InjConfig c m) h = Some (HAL_SDADC_InjectedConfigChannel c m h)"
| "sd_exec hw (Op_RegTrigger x) h = Some (HAL_SDADC_SelectRegularTrigger x h)"
| "sd_exec hw (Op_InjTrigger x) h = Some (HAL_SDADC_SelectInjectedTrigger x h)"
| "sd_exec hw (Op_ExtTrigger x e) h = HAL_SDADC_SelectInjectedExtTrigger hw x e h"
| "sd_exec hw (Op_Delay d) h = HAL_SDADC_SelectInjectedDelay hw d h"
| "sd_exec hw (Op_Multi m) h = Some (HAL_SDADC_MultiModeConfigChannel m h)"
| "sd_exec hw (Op_InjMulti m) h = Some (HAL_SDADC_InjectedMultiModeConfigChannel m h)"
| "sd_exec hw (Op_Calib s) h = HAL_SDADC_CalibrationStart hw s h"
| "sd_exec hw (Op_Calib_IT s) h = HAL_SDADC_CalibrationStart_IT hw s h"
| "sd_exec hw (Op_PollCalib to) h = HAL_SDADC_PollForCalibEvent hw to h"
| "sd_exec hw Op_Start h = HAL_SDADC_Start hw h"
| "sd_exec hw Op_Start_IT h = HAL_SDADC_Start_IT hw h"
| "sd_exec hw Op_Stop h = HAL_SDADC_Stop hw h"
| "sd_exec hw Op_Stop_IT h = HAL_SDADC_Stop_IT hw h"
| "sd_exec hw (Op_Poll to) h = HAL_SDADC_PollForConversion hw to h"
| "sd_exec hw Op_InjStart h = HAL_SDADC_InjectedStart hw h"
| "sd_exec hw Op_InjStart_IT h = HAL_SDADC_InjectedStart_IT hw h"
| "sd_exec hw Op_InjStop h = HAL_SDADC_InjectedStop hw h"
| "sd_exec hw Op_InjStop_IT h = HAL_SDADC_InjectedStop_IT hw h"
| "sd_exec hw (Op_InjPoll to) h = HAL_SDADC_PollForInjectedConversion hw to h"
| "sd_exec hw Op_Get h = Some (HAL_OK, snd (HAL_SDADC_GetValue hw h))"
| "sd_exec hw Op_InjGet h = Some (HAL_OK, snd (snd (HAL_SDADC_InjectedGetValue hw h)))"
| "sd_exec hw Op_IRQ h = Some (HAL_OK, fst (HAL_SDADC_IRQHandler weak_callback hw (h, ())))"


section \<open>Invariant\<close>

text \<open>The set-up structure as \<^verbatim>\<open>assert_param\<close> wants it: no bit outside the field it is written to (here: not the
  \<^verbatim>\<open>INIT\<close> bit).\<close>
definition sd_valid_init :: "SDADC_InitTypeDef \<Rightarrow> bool" where
  "sd_valid_init i \<longleftrightarrow> \<not> bit (IdleLowPowerMode i) 31 \<and> \<not> bit (SlowClockMode i) 31 \<and> \<not> bit (ReferenceVoltage i) 31"

text \<open>The converter is in initialisation mode only after a time-out, it is switched on unless it is in the
  reset state, and the counters of injected channels stay in the range that the hardware has.\<close>
definition sd_inv :: "sdadc \<Rightarrow> bool" where
  "sd_inv h \<longleftrightarrow> (bit (sd_CR1 h) 31 \<longrightarrow> sd_State h = HAL_SDADC_STATE_ERROR)
     \<and> (sd_State h \<noteq> HAL_SDADC_STATE_RESET \<longrightarrow> bit (sd_CR2 h) 0)
     \<and> InjectedChannelsNbr h \<in> {1..9} \<and> InjConvRemaining h \<in> {1..9} \<and> sd_valid_init (sd_Init h)"

text \<open>What a change of the registers in initialisation mode must leave alone, and the state after it.\<close>
definition sd_core :: "sdadc \<Rightarrow> HAL_SDADC_StateTypeDef \<times> u32 \<times> u32 \<times> SDADC_InitTypeDef" where
  "sd_core h = (sd_State h, InjectedChannelsNbr h, InjConvRemaining h, sd_Init h)"

definition sd_on :: "sdadc \<Rightarrow> bool" where
  "sd_on h \<longleftrightarrow> bit (sd_CR2 h) 0"

lemma sd_core_eq [simp]:
  "sd_core a = sd_core b \<longleftrightarrow> sd_State a = sd_State b \<and> InjectedChannelsNbr a = InjectedChannelsNbr b
     \<and> InjConvRemaining a = InjConvRemaining b \<and> sd_Init a = sd_Init b"
  by (auto simp: sd_core_def)

definition sd_outcome :: "sdadc \<Rightarrow> HAL_SDADC_StateTypeDef \<Rightarrow> HAL_StatusTypeDef \<Rightarrow> sdadc \<Rightarrow> bool" where
  "sd_outcome h s st h' \<longleftrightarrow> sd_on h' \<and>
     (st = HAL_OK \<and> \<not> bit (sd_CR1 h') 31 \<and> sd_core h' = sd_core (h\<lparr>sd_State := s\<rparr>)
      \<or> st = HAL_TIMEOUT \<and> sd_core h' = sd_core (h\<lparr>sd_State := HAL_SDADC_STATE_ERROR\<rparr>))"

lemma sd_in_init_mode_result:
  assumes e: "sd_in_init_mode hw change h = Some (st, h')" and o: "sd_on h"
    and c: "\<And>x. sd_core x = sd_core h \<Longrightarrow> sd_on x \<Longrightarrow> sd_core (change x) = sd_core h \<and> sd_on (change x)"
  shows "sd_outcome h (sd_State h) st h'"
  using e
proof (cases rule: sd_in_init_mode_cases)
  case (1 t)
  define x where "x = change ((sd_or_CR1 SDADC_CR1_INIT h)\<lparr>sd_now := t\<rparr>)"
  have "sd_core x = sd_core h \<and> sd_on x"
    unfolding x_def by (rule c) (use o in \<open>simp_all add: sd_or_CR1_def sd_on_def\<close>)
  moreover have "h' = SDADC_ExitInitMode x" using 1 by (simp add: x_def)
  ultimately show ?thesis
    using 1 by (simp add: sd_outcome_def sd_on_def SDADC_ExitInitMode_def sd_clear_CR1_def bit_simps)
next
  case (2 t)
  then show ?thesis using o by (simp add: sd_outcome_def sd_on_def sd_or_CR1_def)
qed

lemma sd_outcome_inv:
  assumes "sd_inv h" "sd_outcome h s st h'" "s \<noteq> HAL_SDADC_STATE_RESET"
  shows "sd_inv h'"
  using assms by (auto simp: sd_outcome_def sd_inv_def sd_on_def)

lemma sd_outcome_inv_count:
  assumes "sd_inv h" "sd_outcome (h\<lparr>InjConvRemaining := InjectedChannelsNbr h\<rparr>) s st h'"
    "s \<noteq> HAL_SDADC_STATE_RESET"
  shows "sd_inv h'"
  using assms by (auto simp: sd_outcome_def sd_inv_def sd_on_def)

text \<open>The two groups' start functions.\<close>
definition reg_started :: "HAL_SDADC_StateTypeDef \<Rightarrow> HAL_SDADC_StateTypeDef" where
  "reg_started s = (if s = HAL_SDADC_STATE_READY then HAL_SDADC_STATE_REG else HAL_SDADC_STATE_REG_INJ)"

definition inj_started :: "HAL_SDADC_StateTypeDef \<Rightarrow> HAL_SDADC_StateTypeDef" where
  "inj_started s = (if s = HAL_SDADC_STATE_READY then HAL_SDADC_STATE_INJ else HAL_SDADC_STATE_REG_INJ)"

definition reg_stopped :: "HAL_SDADC_StateTypeDef \<Rightarrow> HAL_SDADC_StateTypeDef" where
  "reg_stopped s = (if s = HAL_SDADC_STATE_REG then HAL_SDADC_STATE_READY else HAL_SDADC_STATE_INJ)"

definition inj_stopped :: "HAL_SDADC_StateTypeDef \<Rightarrow> HAL_SDADC_StateTypeDef" where
  "inj_stopped s = (if s = HAL_SDADC_STATE_INJ then HAL_SDADC_STATE_READY else HAL_SDADC_STATE_REG)"

lemma RegConvStart_result:
  assumes "SDADC_RegConvStart hw h = Some (st, h')" "\<not> bit (sd_CR1 h) 31" "sd_on h"
  shows "sd_outcome h (reg_started (sd_State h)) st h'"
proof (cases "RegularTrigger h = SDADC_SOFTWARE_TRIGGER")
  case True
  then show ?thesis using assms
    by (auto simp: SDADC_RegConvStart_def reg_started_def sd_outcome_def sd_on_def sd_or_CR2_def bit_simps)
next
  case False
  then obtain h1 where h1: "sd_in_init_mode hw (sd_or_CR1 SDADC_CR1_RSYNC) h = Some (st, h1)"
      "h' = (if st = HAL_OK then h1\<lparr>sd_State := reg_started (sd_State h1)\<rparr> else h1)"
    using assms(1) by (auto simp: SDADC_RegConvStart_def reg_started_def split: Option.bind_splits)
  have "sd_outcome h (sd_State h) st h1"
    using h1(1) assms(3) by (rule sd_in_init_mode_result) (simp_all add: sd_or_CR1_def sd_on_def)
  then show ?thesis using h1(2) by (auto simp: sd_outcome_def sd_on_def)
qed

lemma InjConvStart_result:
  assumes "SDADC_InjConvStart hw h = Some (st, h')" "\<not> bit (sd_CR1 h) 31" "sd_on h"
  shows "sd_outcome (h\<lparr>InjConvRemaining := InjectedChannelsNbr h\<rparr>) (inj_started (sd_State h)) st h'"
proof -
  define g where "g = h\<lparr>InjConvRemaining := InjectedChannelsNbr h\<rparr>"
  let ?f = "\<lambda>h. if InjectedTrigger h = SDADC_SYNCHRONOUS_TRIGGER then sd_or_CR1 SDADC_CR1_JSYNC h
    else sd_or_CR2 (ExtTriggerEdge h) h"
  show ?thesis
  proof (cases "InjectedTrigger g = SDADC_SOFTWARE_TRIGGER")
    case True
    then show ?thesis using assms
      by (auto simp: SDADC_InjConvStart_def g_def inj_started_def sd_outcome_def sd_on_def sd_or_CR2_def bit_simps)
  next
    case False
    then obtain h1 where h1: "sd_in_init_mode hw ?f g = Some (st, h1)"
        "h' = (if st = HAL_OK then h1\<lparr>sd_State := inj_started (sd_State h1)\<rparr> else h1)"
      using assms(1) by (auto simp: SDADC_InjConvStart_def inj_started_def g_def split: Option.bind_splits)
    have "sd_outcome g (sd_State g) st h1"
      using h1(1) by (rule sd_in_init_mode_result)
        (use assms(3) in \<open>simp_all add: g_def sd_or_CR1_def sd_or_CR2_def sd_on_def bit_simps\<close>)
    then show ?thesis using h1(2) by (auto simp: g_def sd_outcome_def sd_on_def)
  qed
qed

lemma init_mode_status: "sd_in_init_mode hw change h = Some (st, h') \<Longrightarrow> st \<noteq> HAL_OK \<Longrightarrow> st = HAL_TIMEOUT"
  by (erule sd_in_init_mode_cases) simp_all

lemma RegConvStop_result:
  assumes e: "SDADC_RegConvStop hw h = Some (st, h')" and i: "\<not> bit (sd_CR1 h) 31" and o: "sd_on h"
  shows "sd_outcome h (reg_stopped (sd_State h)) st h'"
proof -
  define h1 where "h1 = (if RegularContMode h = SDADC_CONTINUOUS_CONV_ON
      then sd_clear_CR2 SDADC_CR2_RCONT (sd_drop RDATAR_read h) else h)"
  have h1: "sd_core h1 = sd_core h" "sd_on h1" "\<not> bit (sd_CR1 h1) 31"
    using i o by (simp_all add: h1_def sd_clear_CR2_def sd_drop_def sd_log_def sd_on_def bit_simps)
  obtain ok t where w: "wait_beyond hw (\<lambda>t. hw_SR hw t AND SDADC_ISR_RCIP = 0) SDADC_TIMEOUT (sd_now h1) = Some (ok, t)"
    using e unfolding SDADC_RegConvStop_def h1_def [symmetric] by (auto split: Option.bind_splits)
  let ?g = "h1\<lparr>sd_now := t\<rparr>"
  show ?thesis
  proof (cases ok)
    case False
    then show ?thesis using e w h1 unfolding SDADC_RegConvStop_def h1_def [symmetric]
      by (auto simp: sd_outcome_def sd_on_def)
  next
    case True
    then obtain h3 where h3: "(if RegularTrigger ?g = SDADC_SYNCHRONOUS_TRIGGER
          then sd_in_init_mode hw (sd_clear_CR1 SDADC_CR1_RSYNC) ?g else Some (HAL_OK, ?g)) = Some (st, h3)"
        and h': "h' = (if st = HAL_OK then (sd_log (CLRISR_set SDADC_ISR_CLRROVRF) (sd_drop RDATAR_read
             (if RegularContMode h3 = SDADC_CONTINUOUS_CONV_ON then sd_or_CR2 SDADC_CR2_RCONT h3 else h3)))
               \<lparr>sd_State := reg_stopped (sd_State h3)\<rparr> else h3)"
      using e w unfolding SDADC_RegConvStop_def h1_def [symmetric]
      by (auto simp: reg_stopped_def Let_def sd_macros split: Option.bind_splits if_splits dest: init_mode_status)
    have "sd_outcome ?g (sd_State ?g) st h3"
      using h3 h1 sd_in_init_mode_result [of hw "sd_clear_CR1 SDADC_CR1_RSYNC" ?g st h3]
      by (auto simp: sd_outcome_def sd_on_def sd_macros bit_simps split: if_splits)
    then show ?thesis using h' h1 by (auto simp: sd_outcome_def sd_on_def sd_macros bit_simps)
  qed
qed

lemma InjConvStop_result:
  assumes e: "SDADC_InjConvStop hw h = Some (st, h')" and i: "\<not> bit (sd_CR1 h) 31" and o: "sd_on h"
  shows "sd_outcome h (inj_stopped (sd_State h)) st h'"
proof -
  define h1 where "h1 = (if InjectedContMode h = SDADC_CONTINUOUS_CONV_ON
      then sd_clear_CR2 SDADC_CR2_JCONT (sd_drop JDATAR_read h) else h)"
  have h1: "sd_core h1 = sd_core h" "sd_on h1" "\<not> bit (sd_CR1 h1) 31"
    using i o by (simp_all add: h1_def sd_clear_CR2_def sd_drop_def sd_log_def sd_on_def bit_simps)
  obtain ok t where w: "wait_beyond hw (\<lambda>t. hw_SR hw t AND SDADC_ISR_JCIP = 0) SDADC_TIMEOUT (sd_now h1) = Some (ok, t)"
    using e unfolding SDADC_InjConvStop_def h1_def [symmetric] by (auto split: Option.bind_splits)
  let ?g = "h1\<lparr>sd_now := t\<rparr>"
  show ?thesis
  proof (cases ok)
    case False
    then show ?thesis using e w h1 unfolding SDADC_InjConvStop_def h1_def [symmetric]
      by (auto simp: sd_outcome_def sd_on_def)
  next
    case True
    then obtain h3 where h3: "(if InjectedTrigger ?g \<noteq> SDADC_SOFTWARE_TRIGGER
          then sd_in_init_mode hw (\<lambda>h. if InjectedTrigger h = SDADC_SYNCHRONOUS_TRIGGER then sd_clear_CR1 SDADC_CR1_JSYNC h else sd_clear_CR2 SDADC_CR2_JEXTEN h) ?g else Some (HAL_OK, ?g)) = Some (st, h3)"
        and h': "h' = (if st = HAL_OK then (sd_log (CLRISR_set SDADC_ISR_CLRJOVRF) (sd_drop JDATAR_read
             (if InjectedContMode h3 = SDADC_CONTINUOUS_CONV_ON then sd_or_CR2 SDADC_CR2_JCONT h3 else h3)))
               \<lparr>sd_State := inj_stopped (sd_State h3)\<rparr> else h3)"
      using e w unfolding SDADC_InjConvStop_def h1_def [symmetric]
      by (auto simp: inj_stopped_def Let_def sd_macros split: Option.bind_splits if_splits dest: init_mode_status)
    have "sd_outcome ?g (sd_State ?g) st h3"
      using h3 h1 sd_in_init_mode_result [of hw "\<lambda>h. if InjectedTrigger h = SDADC_SYNCHRONOUS_TRIGGER then sd_clear_CR1 SDADC_CR1_JSYNC h else sd_clear_CR2 SDADC_CR2_JEXTEN h" ?g st h3]
      by (auto simp: sd_outcome_def sd_on_def sd_macros bit_simps split: if_splits)
    then show ?thesis using h' h1 by (auto simp: sd_outcome_def sd_on_def sd_macros bit_simps)
  qed
qed

section \<open>Invariant of every call\<close>

text \<open>How the driver may be called: not set up again out of the error state without de-initialisation, with
  at least one of the nine channels for an injected sequence, and with its interrupt off outside of use.\<close>
fun sd_admissible :: "sd_op \<Rightarrow> sdadc \<Rightarrow> bool" where
  "sd_admissible Op_Init h \<longleftrightarrow> sd_State h \<noteq> HAL_SDADC_STATE_ERROR"
| "sd_admissible (Op_InjConfig c m) h \<longleftrightarrow> c AND 0x1FF \<noteq> 0"
| "sd_admissible Op_IRQ h \<longleftrightarrow> sd_State h \<noteq> HAL_SDADC_STATE_ERROR \<and> sd_State h \<noteq> HAL_SDADC_STATE_RESET"
| "sd_admissible _ h \<longleftrightarrow> True"

lemma GetInjChannelsNbr_range:
  assumes "c AND 0x1FF \<noteq> 0"
  shows "SDADC_GetInjChannelsNbr c \<in> {1..9}"
proof -
  have "\<exists>i. bit (c AND 0x1FF) i"
    using assms by (metis bit_eq_iff bit_0_eq bot_apply bot_bool_def)
  moreover have "(0x1FF :: u32) = mask 9" by (simp add: mask_eq_exp_minus_1)
  ultimately obtain i where "i < 9" "bit c i" by (auto simp: bit_simps)
  then have lo: "1 \<le> card {i. i < 9 \<and> bit c i}" by (auto simp: Suc_le_eq card_gt_0_iff)
  have "card {i. i < 9 \<and> bit c i} \<le> card {..<9 :: nat}" by (rule card_mono) auto
  with lo show ?thesis
    using GetInjChannelsNbr_card [of c] by (simp add: word_le_nat_alt del: One_nat_def)
qed

lemma sd_inv_on: "sd_inv h \<Longrightarrow> sd_State h \<noteq> HAL_SDADC_STATE_RESET \<Longrightarrow> sd_on h"
  by (simp add: sd_inv_def sd_on_def)

lemma sd_inv_INIT: "sd_inv h \<Longrightarrow> sd_State h \<noteq> HAL_SDADC_STATE_ERROR \<Longrightarrow> \<not> bit (sd_CR1 h) 31"
  by (auto simp: sd_inv_def)

lemma sd_inv_valid: "sd_inv h \<Longrightarrow> sd_valid_init (sd_Init h)"
  by (simp add: sd_inv_def)

lemma sd_inv_Init:
  assumes "\<not> bit (sd_CR1 h) 31" "sd_valid_init (sd_Init h)" "HAL_SDADC_Init id hw h = Some (st, h')"
  shows "sd_inv h' \<and> st = HAL_OK \<and> sd_State h' = HAL_SDADC_STATE_READY"
  using assms
  by (auto simp: HAL_SDADC_Init_def Let_def sd_inv_def sd_macros sd_set_refv_def sd_valid_init_def bit_simps
      split: Option.bind_splits if_splits)

lemma sd_inv_configure:
  assumes "sd_in_init_mode hw change h = Some (st, h')" "sd_inv h" "sd_State h = HAL_SDADC_STATE_READY"
    "\<And>x. sd_core (change x) = sd_core x" "\<And>x. sd_on x \<Longrightarrow> sd_on (change x)"
  shows "sd_outcome h HAL_SDADC_STATE_READY st h'"
proof -
  have "sd_outcome h (sd_State h) st h'"
    using assms(1) by (rule sd_in_init_mode_result) (use assms in \<open>auto simp: sd_inv_def sd_on_def\<close>)
  then show ?thesis using assms(3) by simp
qed

lemma sd_on_simps [simp]:
  "sd_on (h\<lparr>sd_CONFR := a\<rparr>) = sd_on h" "sd_on (h\<lparr>sd_CONFCHR1 := b\<rparr>) = sd_on h"
  "sd_on (h\<lparr>sd_CONFCHR2 := b\<rparr>) = sd_on h" "sd_on (h\<lparr>ExtTriggerEdge := b\<rparr>) = sd_on h"
  "sd_on (sd_or_CR1 b h) = sd_on h" "sd_on (sd_clear_CR1 b h) = sd_on h"
  "sd_on h \<Longrightarrow> sd_on (sd_or_CR2 b h)" "\<not> bit b 0 \<Longrightarrow> sd_on (sd_clear_CR2 b h) = sd_on h"
  by (simp_all add: sd_on_def sd_macros bit_simps)

lemma sd_core_simps [simp]:
  "sd_State (sd_or_CR1 b h) = sd_State h" "sd_State (sd_clear_CR1 b h) = sd_State h"
  "sd_State (sd_or_CR2 b h) = sd_State h" "sd_State (sd_clear_CR2 b h) = sd_State h"
  "InjectedChannelsNbr (sd_or_CR1 b h) = InjectedChannelsNbr h" "InjectedChannelsNbr (sd_clear_CR1 b h) = InjectedChannelsNbr h"
  "InjectedChannelsNbr (sd_or_CR2 b h) = InjectedChannelsNbr h" "InjectedChannelsNbr (sd_clear_CR2 b h) = InjectedChannelsNbr h"
  "InjConvRemaining (sd_or_CR1 b h) = InjConvRemaining h" "InjConvRemaining (sd_clear_CR1 b h) = InjConvRemaining h"
  "InjConvRemaining (sd_or_CR2 b h) = InjConvRemaining h" "InjConvRemaining (sd_clear_CR2 b h) = InjConvRemaining h"
  "sd_Init (sd_or_CR1 b h) = sd_Init h" "sd_Init (sd_clear_CR1 b h) = sd_Init h"
  "sd_Init (sd_or_CR2 b h) = sd_Init h" "sd_Init (sd_clear_CR2 b h) = sd_Init h"
  by (simp_all add: sd_macros)

text \<open>A function that only configures: refused unless the converter is ready, and otherwise done or timed out.\<close>
definition sd_configures :: "(sdadc \<Rightarrow> (HAL_StatusTypeDef \<times> sdadc) option) \<Rightarrow> sdadc \<Rightarrow> bool" where
  "sd_configures f h \<longleftrightarrow> (if sd_State h = HAL_SDADC_STATE_READY
     then \<forall>st h'. f h = Some (st, h') \<longrightarrow> sd_outcome h HAL_SDADC_STATE_READY st h'
     else f h = Some (HAL_ERROR, h))"

lemma sd_configures_Prepare: "sd_inv h \<Longrightarrow> sd_configures (HAL_SDADC_PrepareChannelConfig hw i p) h"
  by (auto simp: sd_configures_def HAL_SDADC_PrepareChannelConfig_def elim: sd_inv_configure)

lemma sd_configures_Associate: "sd_inv h \<Longrightarrow> sd_configures (HAL_SDADC_AssociateChannelConfig hw c i) h"
  by (auto simp: sd_configures_def HAL_SDADC_AssociateChannelConfig_def Let_def elim: sd_inv_configure)

lemma sd_configures_ExtTrigger: "sd_inv h \<Longrightarrow> sd_configures (HAL_SDADC_SelectInjectedExtTrigger hw x e) h"
  by (auto simp: sd_configures_def HAL_SDADC_SelectInjectedExtTrigger_def elim: sd_inv_configure)

lemma sd_configures_Delay: "sd_inv h \<Longrightarrow> sd_configures (HAL_SDADC_SelectInjectedDelay hw d) h"
  by (auto simp: sd_configures_def HAL_SDADC_SelectInjectedDelay_def elim: sd_inv_configure)

lemma sd_configures_inv:
  assumes "sd_configures f h" "sd_inv h" "f h = Some (st, h')"
  shows "sd_inv h'"
  using assms sd_outcome_inv [of h HAL_SDADC_STATE_READY st h']
  by (auto simp: sd_configures_def split: if_splits)

lemma sd_inv_calibrate:
  assumes "sd_inv h" "\<not> bit it 31" "sd_calibrate it hw q h = Some (st, h')"
  shows "sd_inv h'"
proof (cases "sd_State h = HAL_SDADC_STATE_READY")
  case True
  then obtain h1 where h1: "sd_in_init_mode hw (\<lambda>h. sd_or_CR2 q (sd_clear_CR2 SDADC_CR2_CALIBCNT h)) h = Some (st, h1)"
      and h': "h' = (if st = HAL_OK then (sd_or_CR2 SDADC_CR2_STARTCALIB (sd_or_CR1 it h1))
                      \<lparr>sd_State := HAL_SDADC_STATE_CALIB\<rparr> else h1)"
    using assms(3) by (auto simp: sd_calibrate_def split: Option.bind_splits if_splits dest: init_mode_status)
  have o: "sd_outcome h HAL_SDADC_STATE_READY st h1"
    by (rule sd_inv_configure [OF h1 assms(1) True]) simp_all
  then have "sd_inv h1" using assms(1) sd_outcome_inv by blast
  then show ?thesis using h' o assms(2)
    by (auto simp: sd_inv_def sd_outcome_def sd_on_def sd_macros bit_simps)
next
  case False
  then show ?thesis using assms by (simp add: sd_calibrate_def)
qed

lemma sd_inv_fields:
  "sd_inv h \<Longrightarrow> sd_core h' = sd_core h \<Longrightarrow> sd_CR1 h' = sd_CR1 h \<Longrightarrow> sd_CR2 h' = sd_CR2 h \<Longrightarrow> sd_inv h'"
  by (simp add: sd_inv_def)

lemma sd_inv_simps [simp]:
  "sd_inv (h\<lparr>sd_now := t\<rparr>) = sd_inv h" "sd_inv (h\<lparr>sd_ErrorCode := b\<rparr>) = sd_inv h"
  "sd_inv (h\<lparr>RegularTrigger := b\<rparr>) = sd_inv h" "sd_inv (h\<lparr>InjectedTrigger := b\<rparr>) = sd_inv h"
  "sd_inv (h\<lparr>RegularMultimode := b\<rparr>) = sd_inv h" "sd_inv (h\<lparr>InjectedMultimode := b\<rparr>) = sd_inv h"
  "sd_inv (sd_log x h) = sd_inv h" "sd_inv (sd_callback k h) = sd_inv h" "sd_inv (sd_drop x h) = sd_inv h"
  "sd_inv (sd_tick h) = sd_inv h"
  by (simp_all add: sd_inv_def sd_macros sd_tick_def)

lemma sd_inv_clear_CR1 [simp]: "sd_inv h \<Longrightarrow> sd_inv (sd_clear_CR1 b h)"
  by (auto simp: sd_inv_def sd_macros bit_simps)

lemma sd_inv_or_CR1 [simp]: "sd_inv h \<Longrightarrow> \<not> bit b 31 \<Longrightarrow> sd_inv (sd_or_CR1 b h)"
  by (auto simp: sd_inv_def sd_macros bit_simps)

lemma sd_inv_PollCalib:
  "sd_inv h \<Longrightarrow> HAL_SDADC_PollForCalibEvent hw to h = Some (st, h') \<Longrightarrow> sd_inv h'"
  by (auto simp: HAL_SDADC_PollForCalibEvent_def Let_def sd_log_def sd_inv_def split: Option.bind_splits if_splits)

lemma sd_inv_Config: "sd_inv h \<Longrightarrow> sd_inv (snd (HAL_SDADC_ConfigChannel c m h))"
  by (auto simp: HAL_SDADC_ConfigChannel_def sd_configurable_def Let_def sd_inv_def sd_macros bit_simps)

lemma sd_inv_InjConfig:
  assumes "sd_inv h" "c AND 0x1FF \<noteq> 0"
  shows "sd_inv (snd (HAL_SDADC_InjectedConfigChannel c m h))"
  using assms(1) GetInjChannelsNbr_range [OF assms(2)]
  by (auto simp: HAL_SDADC_InjectedConfigChannel_def sd_configurable_def Let_def sd_inv_def sd_macros bit_simps)

lemma sd_inv_triggers:
  "sd_inv h \<Longrightarrow> sd_inv (snd (HAL_SDADC_SelectRegularTrigger x h))"
  "sd_inv h \<Longrightarrow> sd_inv (snd (HAL_SDADC_SelectInjectedTrigger x h))"
  "sd_inv h \<Longrightarrow> sd_inv (snd (HAL_SDADC_MultiModeConfigChannel x h))"
  "sd_inv h \<Longrightarrow> sd_inv (snd (HAL_SDADC_InjectedMultiModeConfigChannel x h))"
  by (simp_all add: HAL_SDADC_SelectRegularTrigger_def HAL_SDADC_SelectInjectedTrigger_def
      HAL_SDADC_MultiModeConfigChannel_def HAL_SDADC_InjectedMultiModeConfigChannel_def)

lemma sd_inv_Start:
  assumes "sd_inv h" "sd_State h = HAL_SDADC_STATE_READY \<or> sd_State h = HAL_SDADC_STATE_INJ"
    "SDADC_RegConvStart hw h = Some (st, h')"
  shows "sd_inv h'"
proof -
  have "sd_outcome h (reg_started (sd_State h)) st h'"
    using assms(3) by (rule RegConvStart_result) (use assms in \<open>auto simp: sd_inv_INIT sd_inv_on\<close>)
  then show ?thesis by (rule sd_outcome_inv [OF assms(1)]) (simp add: reg_started_def)
qed

lemma sd_inv_InjStart:
  assumes "sd_inv h" "sd_State h = HAL_SDADC_STATE_READY \<or> sd_State h = HAL_SDADC_STATE_REG"
    "SDADC_InjConvStart hw h = Some (st, h')"
  shows "sd_inv h'"
proof -
  have "sd_outcome (h\<lparr>InjConvRemaining := InjectedChannelsNbr h\<rparr>) (inj_started (sd_State h)) st h'"
    using assms(3) by (rule InjConvStart_result) (use assms in \<open>auto simp: sd_inv_INIT sd_inv_on\<close>)
  then show ?thesis by (rule sd_outcome_inv_count [OF assms(1)]) (simp add: inj_started_def)
qed

lemma sd_inv_Stop:
  assumes "sd_inv h" "sd_State h = HAL_SDADC_STATE_REG \<or> sd_State h = HAL_SDADC_STATE_REG_INJ"
    "SDADC_RegConvStop hw h = Some (st, h')"
  shows "sd_inv h'"
proof -
  have "sd_outcome h (reg_stopped (sd_State h)) st h'"
    using assms(3) by (rule RegConvStop_result) (use assms in \<open>auto simp: sd_inv_INIT sd_inv_on\<close>)
  then show ?thesis by (rule sd_outcome_inv [OF assms(1)]) (simp add: reg_stopped_def)
qed

lemma sd_inv_InjStop:
  assumes "sd_inv h" "sd_State h = HAL_SDADC_STATE_INJ \<or> sd_State h = HAL_SDADC_STATE_REG_INJ"
    "SDADC_InjConvStop hw h = Some (st, h')"
  shows "sd_inv h'"
proof -
  have "sd_outcome h (inj_stopped (sd_State h)) st h'"
    using assms(3) by (rule InjConvStop_result) (use assms in \<open>auto simp: sd_inv_INIT sd_inv_on\<close>)
  then show ?thesis by (rule sd_outcome_inv [OF assms(1)]) (simp add: inj_stopped_def)
qed

lemma word_pred_range:
  fixes r :: u32
  assumes "r \<in> {1..9}"
  shows "r - 1 = 0 \<or> r - 1 \<in> {1..9}"
proof -
  have "unat (r - 1) = unat r - 1" using assms by (auto simp: unat_sub_if' word_le_nat_alt)
  then show ?thesis using assms by (auto simp: word_le_nat_alt word_unat_eq_iff)
qed

lemma sd_inv_inj_count [simp]: "sd_inv h \<Longrightarrow> sd_inv (sd_inj_count h)"
  using word_pred_range [of "InjConvRemaining h"] by (auto simp: sd_inv_def sd_inj_count_def Let_def)

lemma sd_inv_ended:
  "sd_inv h \<Longrightarrow> sd_State h = HAL_SDADC_STATE_REG \<or> sd_State h = HAL_SDADC_STATE_REG_INJ \<Longrightarrow> sd_inv (sd_reg_ended h)"
  "sd_inv h \<Longrightarrow> sd_State h = HAL_SDADC_STATE_INJ \<or> sd_State h = HAL_SDADC_STATE_REG_INJ \<Longrightarrow> sd_inv (sd_inj_ended h)"
  by (auto simp: sd_inv_def sd_reg_ended_def sd_inj_ended_def)

lemma sd_check_overrun_simps [simp]:
  "sd_inv (sd_check_overrun hw f e c h) = sd_inv h" "sd_State (sd_check_overrun hw f e c h) = sd_State h"
  by (simp_all add: sd_check_overrun_def Let_def) (simp add: sd_macros)

lemma sd_inj_count_State [simp]: "sd_State (sd_inj_count h) = sd_State h"
  by (simp add: sd_inj_count_def Let_def)

lemma sd_inv_Poll:
  "sd_inv h \<Longrightarrow> HAL_SDADC_PollForConversion hw to h = Some (st, h') \<Longrightarrow> sd_inv h'"
  by (auto simp: HAL_SDADC_PollForConversion_def Let_def sd_inv_ended split: Option.bind_splits if_splits)

lemma sd_inv_InjPoll:
  "sd_inv h \<Longrightarrow> HAL_SDADC_PollForInjectedConversion hw to h = Some (st, h') \<Longrightarrow> sd_inv h'"
  by (auto simp: HAL_SDADC_PollForInjectedConversion_def Let_def sd_inv_ended split: Option.bind_splits if_splits)

lemma sd_inv_IRQ:
  assumes "sd_inv h" "sd_State h \<noteq> HAL_SDADC_STATE_ERROR" "sd_State h \<noteq> HAL_SDADC_STATE_RESET"
  shows "sd_inv (fst (HAL_SDADC_IRQHandler weak_callback hw (h, ())))"
proof -
  have s: "sd_inv (h'\<lparr>sd_State := s\<rparr>)"
    if "sd_inv h'" "sd_State h' = sd_State h" "s \<noteq> HAL_SDADC_STATE_RESET" "s \<noteq> HAL_SDADC_STATE_ERROR" for h' s
    using that assms by (auto simp: sd_inv_def)
  have r: "sd_inv (fst (sd_irq_regular weak_callback (h', ())))" if "sd_inv h'" "sd_State h' = sd_State h" for h'
    using that by (auto simp: sd_irq_regular_def weak_callback_def sd_reg_ended_def intro!: s)
      (simp_all add: sd_callback_def)
  have j: "sd_inv (fst (sd_irq_injected weak_callback (h', ())))" if "sd_inv h'" "sd_State h' = sd_State h" for h'
    using that by (auto simp: sd_irq_injected_def weak_callback_def sd_inj_ended_def Let_def intro!: s)
      (simp_all add: sd_callback_def)
  have c: "sd_inv (fst (sd_irq_calibration weak_callback (h', ())))" if "sd_inv h'" "sd_State h' = sd_State h" for h'
    using that by (auto simp: sd_irq_calibration_def weak_callback_def intro!: s)
      (simp_all add: sd_callback_def sd_log_def)
  have o: "sd_inv (fst (sd_irq_overrun weak_callback a b (h', ())))" if "sd_inv h'" for h' a b
    using that by (simp add: sd_irq_overrun_def weak_callback_def)
  have t: "sd_State (sd_tick h') = sd_State h'" for h' by (simp add: sd_tick_def)
  show ?thesis
    using assms(1) by (simp add: HAL_SDADC_IRQHandler_def Let_def r j c o t)
qed

lemma sd_inv_exec:
  assumes i: "sd_inv h" and a: "sd_admissible op h" and e: "sd_exec hw op h = Some (st, h')"
  shows "sd_inv h'"
proof (cases op)
  case Op_Init
  then show ?thesis using sd_inv_Init [of h hw st h'] sd_inv_INIT [OF i] sd_inv_valid [OF i] a e by simp
next
  case Op_DeInit
  then show ?thesis using i e by (auto simp: HAL_SDADC_DeInit_def Let_def sd_inv_def sd_macros)
next
  case (Op_Prepare i p)
  then show ?thesis using assms sd_configures_inv [OF sd_configures_Prepare] by simp
next
  case (Op_Associate c i)
  then show ?thesis using assms sd_configures_inv [OF sd_configures_Associate] by simp
next
  case (Op_ExtTrigger x e)
  then show ?thesis using assms sd_configures_inv [OF sd_configures_ExtTrigger] by simp
next
  case (Op_Delay d)
  then show ?thesis using assms sd_configures_inv [OF sd_configures_Delay] by simp
next
  case (Op_Config c m)
  then show ?thesis using i e sd_inv_Config [of h c m] by simp
next
  case (Op_InjConfig c m)
  then show ?thesis using i a e sd_inv_InjConfig [of h c m] by simp
next
  case (Op_RegTrigger x)
  then show ?thesis using i e sd_inv_triggers(1) [of h x] by simp
next
  case (Op_InjTrigger x)
  then show ?thesis using i e sd_inv_triggers(2) [of h x] by simp
next
  case (Op_Multi x)
  then show ?thesis using i e sd_inv_triggers(3) [of h x] by simp
next
  case (Op_InjMulti x)
  then show ?thesis using i e sd_inv_triggers(4) [of h x] by simp
next
  case (Op_Calib q)
  then show ?thesis using i e sd_inv_calibrate [of h 0 hw q st h'] by (simp add: HAL_SDADC_CalibrationStart_def)
next
  case (Op_Calib_IT q)
  then show ?thesis using i e sd_inv_calibrate [of h SDADC_CR1_EOCALIE hw q st h']
    by (simp add: HAL_SDADC_CalibrationStart_IT_def)
next
  case (Op_PollCalib to)
  then show ?thesis using i e sd_inv_PollCalib by simp
next
  case (Op_Poll to)
  then show ?thesis using i e sd_inv_Poll by simp
next
  case (Op_InjPoll to)
  then show ?thesis using i e sd_inv_InjPoll by simp
next
  case Op_Get
  then show ?thesis using i e by (auto simp: HAL_SDADC_GetValue_def)
next
  case Op_InjGet
  then show ?thesis using i e by (auto simp: HAL_SDADC_InjectedGetValue_def Let_def)
next
  case Op_IRQ
  then show ?thesis using i a e sd_inv_IRQ [of h hw] by auto
qed (use i e in \<open>auto simp: HAL_SDADC_Start_def HAL_SDADC_Start_IT_def HAL_SDADC_Stop_def HAL_SDADC_Stop_IT_def
      HAL_SDADC_InjectedStart_def HAL_SDADC_InjectedStart_IT_def HAL_SDADC_InjectedStop_def
      HAL_SDADC_InjectedStop_IT_def bit_simps split: if_splits
      elim!: sd_inv_Start [rotated 2] sd_inv_InjStart [rotated 2] sd_inv_Stop [rotated 2] sd_inv_InjStop [rotated 2]\<close>)

section \<open>Calls return\<close>

text \<open>The tick runs, and the converter's stabilisation phases end.\<close>
definition sd_live :: "hw \<Rightarrow> bool" where
  "sd_live hw \<longleftrightarrow> tick_advances hw \<and> (\<forall>t. \<exists>n\<ge>t. hw_SR hw n AND SDADC_ISR_STABIP = 0)"

fun sd_bounded :: "sd_op \<Rightarrow> bool" where
  "sd_bounded (Op_PollCalib to) \<longleftrightarrow> to \<noteq> HAL_MAX_DELAY"
| "sd_bounded (Op_Poll to) \<longleftrightarrow> to \<noteq> HAL_MAX_DELAY"
| "sd_bounded (Op_InjPoll to) \<longleftrightarrow> to \<noteq> HAL_MAX_DELAY"
| "sd_bounded _ \<longleftrightarrow> True"

lemma sd_init_returns:
  assumes "sd_live hw"
  shows "HAL_SDADC_Init msp hw h \<noteq> None"
proof -
  let ?wait = "poll (\<lambda>t. hw_SR hw t AND SDADC_ISR_STABIP = 0) (\<lambda>_. False)"
  have "\<forall>d t. \<exists>y. HAL_Delay hw d t = Some y"
    using HAL_Delay_returns [of hw] assms unfolding sd_live_def by blast
  then obtain D where D: "\<And>d t. HAL_Delay hw d t = Some (D d t)" by metis
  have "\<forall>t. \<exists>b n. ?wait t = Some (b, n)"
    using assms poll_returns [of _ _ "\<lambda>t. hw_SR hw t AND SDADC_ISR_STABIP = 0" "\<lambda>_. False"]
    unfolding sd_live_def by metis
  then obtain B N where "\<And>t. ?wait t = Some (B t, N t)" by metis
  with D show ?thesis
    by (simp add: HAL_SDADC_Init_def Let_def)
qed

lemma sd_waits_return:
  assumes "sd_live hw"
  obtains S H B T where "\<And>change h. sd_in_init_mode hw change h = Some (S change h, H change h)"
    "\<And>d to t. to \<noteq> HAL_MAX_DELAY \<Longrightarrow> wait_beyond hw d to t = Some (B d to t, T d to t)"
    "\<And>d t. wait_beyond hw d SDADC_TIMEOUT t = Some (B d SDADC_TIMEOUT t, T d SDADC_TIMEOUT t)"
proof -
  have a: "tick_advances hw" using assms by (simp add: sd_live_def)
  have "\<forall>change h. \<exists>st h'. sd_in_init_mode hw change h = Some (st, h')"
    using sd_in_init_mode_returns [OF a] by blast
  then obtain S H where 1: "\<And>change h. sd_in_init_mode hw change h = Some (S change h, H change h)" by metis
  have "\<forall>d to t. to \<noteq> HAL_MAX_DELAY \<longrightarrow> (\<exists>b n. wait_beyond hw d to t = Some (b, n))"
    using wait_beyond_returns [OF a] by blast
  then obtain B T where 2: "\<And>d to t. to \<noteq> HAL_MAX_DELAY \<Longrightarrow> wait_beyond hw d to t = Some (B d to t, T d to t)"
    by metis
  have "SDADC_TIMEOUT \<noteq> HAL_MAX_DELAY" by (simp add: SDADC_TIMEOUT_def HAL_MAX_DELAY_def)
  then show ?thesis using that [OF 1 2] 2 by blast
qed

lemma sd_starts_return:
  assumes "sd_live hw"
  shows "\<exists>y. SDADC_RegConvStart hw h = Some y" "\<exists>y. SDADC_InjConvStart hw h = Some y"
    "\<exists>y. SDADC_RegConvStop hw h = Some y" "\<exists>y. SDADC_InjConvStop hw h = Some y"
  by (rule sd_waits_return [OF assms],
      simp add: SDADC_RegConvStart_def SDADC_InjConvStart_def SDADC_RegConvStop_def SDADC_InjConvStop_def Let_def)+

lemma sd_exec_returns:
  assumes "sd_live hw" "sd_bounded op"
  shows "\<exists>st h'. sd_exec hw op h = Some (st, h')"
proof -
  obtain S H B T where w: "\<And>change h. sd_in_init_mode hw change h = Some (S change h, H change h)"
    "\<And>d to t. to \<noteq> HAL_MAX_DELAY \<Longrightarrow> wait_beyond hw d to t = Some (B d to t, T d to t)"
    "\<And>d t. wait_beyond hw d SDADC_TIMEOUT t = Some (B d SDADC_TIMEOUT t, T d SDADC_TIMEOUT t)"
    by (rule sd_waits_return [OF assms(1)]) blast
  have "\<exists>y. sd_exec hw op h = Some y"
    using assms(2) sd_starts_return [OF assms(1)] sd_init_returns [OF assms(1)]
    by (cases op) (simp_all add: w HAL_SDADC_PrepareChannelConfig_def HAL_SDADC_AssociateChannelConfig_def
      HAL_SDADC_SelectInjectedExtTrigger_def HAL_SDADC_SelectInjectedDelay_def
      HAL_SDADC_CalibrationStart_def HAL_SDADC_CalibrationStart_IT_def sd_calibrate_def
      HAL_SDADC_PollForCalibEvent_def HAL_SDADC_PollForConversion_def HAL_SDADC_PollForInjectedConversion_def
      HAL_SDADC_Start_def HAL_SDADC_Start_IT_def HAL_SDADC_Stop_def HAL_SDADC_Stop_IT_def
      HAL_SDADC_InjectedStart_def HAL_SDADC_InjectedStart_IT_def HAL_SDADC_InjectedStop_def
      HAL_SDADC_InjectedStop_IT_def Let_def)
  then show ?thesis by auto
qed

section \<open>Two conversion groups\<close>

text \<open>The abstract view of the states in which the converter is in use: which group is converting.\<close>
fun sd_flags :: "HAL_SDADC_StateTypeDef \<Rightarrow> (bool \<times> bool) option" where
  "sd_flags HAL_SDADC_STATE_READY = Some (False, False)"
| "sd_flags HAL_SDADC_STATE_REG = Some (True, False)"
| "sd_flags HAL_SDADC_STATE_INJ = Some (False, True)"
| "sd_flags HAL_SDADC_STATE_REG_INJ = Some (True, True)"
| "sd_flags _ = None"

definition swap_flags :: "HAL_SDADC_StateTypeDef \<Rightarrow> (bool \<times> bool) option" where
  "swap_flags s = map_option (\<lambda>(r, i). (i, r)) (sd_flags s)"

text \<open>The contract of one group: \<open>view\<close> gives its own flag first.  A start or stop that is accepted sets or clears
  that flag and no other; a start while it is set, or a stop while it is clear, is refused without effect.\<close>
locale conversion_group =
  fixes start :: "sdadc \<Rightarrow> (HAL_StatusTypeDef \<times> sdadc) option"
    and stop :: "sdadc \<Rightarrow> (HAL_StatusTypeDef \<times> sdadc) option"
    and view :: "HAL_SDADC_StateTypeDef \<Rightarrow> (bool \<times> bool) option"
  assumes start_ok: "sd_inv h \<Longrightarrow> view (sd_State h) = Some (False, o') \<Longrightarrow> start h = Some (HAL_OK, h') \<Longrightarrow>
      view (sd_State h') = Some (True, o') \<and> sd_inv h'"
    and start_refused: "view (sd_State h) = Some (True, o') \<Longrightarrow> start h = Some (HAL_ERROR, h)"
    and stop_ok: "sd_inv h \<Longrightarrow> view (sd_State h) = Some (True, o') \<Longrightarrow> stop h = Some (HAL_OK, h') \<Longrightarrow>
      view (sd_State h') = Some (False, o') \<and> sd_inv h'"
    and stop_refused: "view (sd_State h) = Some (False, o') \<Longrightarrow> stop h = Some (HAL_ERROR, h)"
begin

lemma start_effect:
  assumes "sd_inv h" "view (sd_State h) = Some (m, o')" "start h = Some (st, h')"
  shows "(st = HAL_OK \<longrightarrow> \<not> m \<and> view (sd_State h') = Some (True, o')) \<and> (m \<longrightarrow> st = HAL_ERROR \<and> h' = h)"
proof (cases m)
  case True
  then show ?thesis using start_refused [of h o'] assms by simp
next
  case False
  then show ?thesis using start_ok [of h o' h'] assms by simp
qed

lemma stop_effect:
  assumes "sd_inv h" "view (sd_State h) = Some (m, o')" "stop h = Some (st, h')"
  shows "(st = HAL_OK \<longrightarrow> m \<and> view (sd_State h') = Some (False, o')) \<and> (\<not> m \<longrightarrow> st = HAL_ERROR \<and> h' = h)"
proof (cases m)
  case True
  then show ?thesis using stop_ok [of h o' h'] assms by simp
next
  case False
  then show ?thesis using stop_refused [of h o'] assms by simp
qed

lemma start_stop:
  assumes "sd_inv h" "view (sd_State h) = Some (False, o')" "start h = Some (HAL_OK, h1)" "stop h1 = Some (HAL_OK, h2)"
  shows "view (sd_State h2) = view (sd_State h)"
  using start_ok [OF assms(1-3)] stop_ok [of h1 o' h2] assms by simp

end

lemma sd_flags_iff:
  "sd_flags s = Some (r, i) \<longleftrightarrow> s = (if r then if i then HAL_SDADC_STATE_REG_INJ else HAL_SDADC_STATE_REG
     else if i then HAL_SDADC_STATE_INJ else HAL_SDADC_STATE_READY)"
  by (cases s) auto

lemma swap_flags_iff: "swap_flags s = Some (i, r) \<longleftrightarrow> sd_flags s = Some (r, i)"
  by (auto simp: swap_flags_def)

lemma sd_outcome_ok: "sd_outcome h s HAL_OK h' \<Longrightarrow> sd_State h' = s"
  by (simp add: sd_outcome_def)

lemma RegConvStart_state:
  assumes "SDADC_RegConvStart hw h = Some (HAL_OK, h')" "sd_inv h" "sd_flags (sd_State h) = Some (False, i)"
  shows "sd_flags (sd_State h') = Some (True, i) \<and> sd_inv h'"
proof -
  have s: "sd_State h = HAL_SDADC_STATE_READY \<or> sd_State h = HAL_SDADC_STATE_INJ"
    using assms(3) by (auto simp: sd_flags_iff)
  have "sd_outcome h (reg_started (sd_State h)) HAL_OK h'"
    using assms(1) by (rule RegConvStart_result) (use assms(2) s in \<open>auto simp: sd_inv_INIT sd_inv_on\<close>)
  then show ?thesis using sd_inv_Start [OF assms(2) s assms(1)] assms(3)
    by (auto dest!: sd_outcome_ok simp: sd_flags_iff reg_started_def)
qed

lemma InjConvStart_state:
  assumes "SDADC_InjConvStart hw h = Some (HAL_OK, h')" "sd_inv h" "sd_flags (sd_State h) = Some (r, False)"
  shows "sd_flags (sd_State h') = Some (r, True) \<and> sd_inv h'"
proof -
  have s: "sd_State h = HAL_SDADC_STATE_READY \<or> sd_State h = HAL_SDADC_STATE_REG"
    using assms(3) by (auto simp: sd_flags_iff)
  have "sd_outcome (h\<lparr>InjConvRemaining := InjectedChannelsNbr h\<rparr>) (inj_started (sd_State h)) HAL_OK h'"
    using assms(1) by (rule InjConvStart_result) (use assms(2) s in \<open>auto simp: sd_inv_INIT sd_inv_on\<close>)
  then show ?thesis using sd_inv_InjStart [OF assms(2) s assms(1)] assms(3)
    by (auto dest!: sd_outcome_ok simp: sd_flags_iff inj_started_def)
qed

lemma RegConvStop_state:
  assumes "SDADC_RegConvStop hw h = Some (HAL_OK, h')" "sd_inv h" "sd_flags (sd_State h) = Some (True, i)"
  shows "sd_flags (sd_State h') = Some (False, i) \<and> sd_inv h'"
proof -
  have s: "sd_State h = HAL_SDADC_STATE_REG \<or> sd_State h = HAL_SDADC_STATE_REG_INJ"
    using assms(3) by (auto simp: sd_flags_iff)
  have "sd_outcome h (reg_stopped (sd_State h)) HAL_OK h'"
    using assms(1) by (rule RegConvStop_result) (use assms(2) s in \<open>auto simp: sd_inv_INIT sd_inv_on\<close>)
  then show ?thesis using sd_inv_Stop [OF assms(2) s assms(1)] assms(3)
    by (auto dest!: sd_outcome_ok simp: sd_flags_iff reg_stopped_def)
qed

lemma InjConvStop_state:
  assumes "SDADC_InjConvStop hw h = Some (HAL_OK, h')" "sd_inv h" "sd_flags (sd_State h) = Some (r, True)"
  shows "sd_flags (sd_State h') = Some (r, False) \<and> sd_inv h'"
proof -
  have s: "sd_State h = HAL_SDADC_STATE_INJ \<or> sd_State h = HAL_SDADC_STATE_REG_INJ"
    using assms(3) by (auto simp: sd_flags_iff)
  have "sd_outcome h (inj_stopped (sd_State h)) HAL_OK h'"
    using assms(1) by (rule InjConvStop_result) (use assms(2) s in \<open>auto simp: sd_inv_INIT sd_inv_on\<close>)
  then show ?thesis using sd_inv_InjStop [OF assms(2) s assms(1)] assms(3)
    by (auto dest!: sd_outcome_ok simp: sd_flags_iff inj_stopped_def)
qed

lemmas sd_group_defs = HAL_SDADC_Start_def HAL_SDADC_Stop_def HAL_SDADC_Start_IT_def HAL_SDADC_Stop_IT_def
  HAL_SDADC_InjectedStart_def HAL_SDADC_InjectedStop_def HAL_SDADC_InjectedStart_IT_def HAL_SDADC_InjectedStop_IT_def

lemma sd_not_bit31: "\<not> bit (SDADC_CR1_REOCIE OR SDADC_CR1_ROVRIE) 31" "\<not> bit (SDADC_CR1_JEOCIE OR SDADC_CR1_JOVRIE) 31"
  by (simp_all add: bit_simps)

interpretation reg: conversion_group "HAL_SDADC_Start hw" "HAL_SDADC_Stop hw" sd_flags for hw
  by unfold_locales (auto simp: sd_group_defs sd_flags_iff split: if_splits
      dest!: RegConvStart_state RegConvStop_state)

interpretation reg_IT: conversion_group "HAL_SDADC_Start_IT hw" "HAL_SDADC_Stop_IT hw" sd_flags for hw
  by unfold_locales (auto simp: sd_group_defs sd_flags_iff sd_not_bit31 split: if_splits
      dest!: RegConvStart_state RegConvStop_state)

interpretation inj: conversion_group "HAL_SDADC_InjectedStart hw" "HAL_SDADC_InjectedStop hw" swap_flags for hw
  by unfold_locales (auto simp: sd_group_defs swap_flags_iff sd_flags_iff split: if_splits
      dest!: InjConvStart_state InjConvStop_state)

interpretation inj_IT: conversion_group "HAL_SDADC_InjectedStart_IT hw" "HAL_SDADC_InjectedStop_IT hw" swap_flags for hw
  by unfold_locales (auto simp: sd_group_defs swap_flags_iff sd_flags_iff sd_not_bit31 split: if_splits
      dest!: InjConvStart_state InjConvStop_state)

section \<open>Injected conversions by interrupt\<close>

text \<open>An end of an injected conversion with an external trigger: one call of the callback, and the converter stays
  armed.\<close>
lemma irq_external:
  assumes "sd_CR1 h AND SDADC_CR1_REOCIE = 0" "sd_CR1 h AND SDADC_CR1_JEOCIE = SDADC_CR1_JEOCIE"
    "hw_SR hw (Suc (sd_now h)) AND SDADC_ISR_JEOCF = SDADC_ISR_JEOCF"
    "cb InjectedConvCpltCallback (sd_tick (sd_tick h), s) = (h1, s1)"
    "InjectedTrigger h1 = SDADC_EXTERNAL_TRIGGER"
  shows "HAL_SDADC_IRQHandler cb hw (h, s) = (sd_inj_count h1, s1)"
  using assms
  by (simp add: HAL_SDADC_IRQHandler_def Let_def sd_test_def sd_tick_def sd_irq_injected_def
      sd_inj_sequence_done_def sd_inj_count_def SDADC_CR1_REOCIE_def SDADC_EXTERNAL_TRIGGER_def
      SDADC_SOFTWARE_TRIGGER_def)

section \<open>Reachable handles\<close>

text \<open>Every handle the application can have: set up once, then any sequence of admissible calls, in any hardware
  environment.\<close>
inductive sd_reach :: "sdadc \<Rightarrow> bool" where
  set_up: "\<not> bit (sd_CR1 h0) 31 \<Longrightarrow> sd_valid_init (sd_Init h0) \<Longrightarrow> HAL_SDADC_Init id hw h0 = Some (st, h) \<Longrightarrow> sd_reach h"
| call: "sd_reach h \<Longrightarrow> sd_admissible op h \<Longrightarrow> sd_exec hw op h = Some (st, h') \<Longrightarrow> sd_reach h'"

lemma sd_reach_inv: "sd_reach h \<Longrightarrow> sd_inv h"
  by (induction rule: sd_reach.induct) (use sd_inv_Init sd_inv_exec in blast)+

text \<open>A refused call.\<close>
lemma sd_no_error:
  "sd_in_init_mode hw change h \<noteq> Some (HAL_ERROR, h')"
  "SDADC_RegConvStart hw h \<noteq> Some (HAL_ERROR, h')" "SDADC_InjConvStart hw h \<noteq> Some (HAL_ERROR, h')"
  "SDADC_RegConvStop hw h \<noteq> Some (HAL_ERROR, h')" "SDADC_InjConvStop hw h \<noteq> Some (HAL_ERROR, h')"
proof -
  have i: "sd_in_init_mode hw change h \<noteq> Some (HAL_ERROR, h')" for change h h'
    using init_mode_status [of hw change h HAL_ERROR h'] by auto
  show "sd_in_init_mode hw change h \<noteq> Some (HAL_ERROR, h')" by (rule i)
  show "SDADC_RegConvStart hw h \<noteq> Some (HAL_ERROR, h')" "SDADC_InjConvStart hw h \<noteq> Some (HAL_ERROR, h')"
    "SDADC_RegConvStop hw h \<noteq> Some (HAL_ERROR, h')" "SDADC_InjConvStop hw h \<noteq> Some (HAL_ERROR, h')"
    using i by (auto simp: SDADC_RegConvStart_def SDADC_InjConvStart_def SDADC_RegConvStop_def
        SDADC_InjConvStop_def Let_def split: Option.bind_splits if_splits)
qed

lemma sd_exec_error:
  assumes "sd_exec hw op h = Some (HAL_ERROR, h')"
  shows "h' = h"
  using assms
  by (cases op) (auto simp: sd_no_error sd_group_defs HAL_SDADC_PrepareChannelConfig_def
      HAL_SDADC_AssociateChannelConfig_def HAL_SDADC_SelectInjectedExtTrigger_def HAL_SDADC_SelectInjectedDelay_def
      HAL_SDADC_CalibrationStart_def HAL_SDADC_CalibrationStart_IT_def sd_calibrate_def
      HAL_SDADC_PollForCalibEvent_def HAL_SDADC_PollForConversion_def HAL_SDADC_PollForInjectedConversion_def
      HAL_SDADC_ConfigChannel_def HAL_SDADC_InjectedConfigChannel_def HAL_SDADC_SelectRegularTrigger_def
      HAL_SDADC_SelectInjectedTrigger_def HAL_SDADC_MultiModeConfigChannel_def
      HAL_SDADC_InjectedMultiModeConfigChannel_def HAL_SDADC_Init_def HAL_SDADC_DeInit_def
      Let_def split: Option.bind_splits if_splits)

section \<open>Properties\<close>

text \<open>A handle as the firmware has it before the set-up, and an environment in which the converter answers at once.\<close>
definition ex_sdadc :: sdadc where
  "ex_sdadc = \<lparr>sd_Instance = SDADC2, sd_CR1 = 0, sd_CR2 = 0, sd1_CR1 = 0, sd_JCHGR = 0, sd_CONFR = (\<lambda>_. 0),
     sd_CONFCHR1 = 0, sd_CONFCHR2 = 0,
     sd_Init = \<lparr>IdleLowPowerMode = 0, FastConversionMode = 0, SlowClockMode = 0, ReferenceVoltage = 0\<rparr>,
     RegularContMode = 0, InjectedContMode = 0, InjectedChannelsNbr = 0, InjConvRemaining = 0,
     RegularTrigger = 0, InjectedTrigger = 0, ExtTriggerEdge = 0, RegularMultimode = 0, InjectedMultimode = 0,
     sd_State = HAL_SDADC_STATE_RESET, sd_ErrorCode = 0, sd_now = 0, sd_io = [], sd_cb = []\<rparr>"

definition ex_env :: hw where
  "ex_env = ticking_hw SDADC_ISR_INITRDY"

definition ex_ready :: sdadc where
  "ex_ready = ex_sdadc\<lparr>sd_CR2 := 1, InjectedChannelsNbr := 1, InjConvRemaining := 1,
     ExtTriggerEdge := SDADC_EXT_TRIG_RISING_EDGE, sd_State := HAL_SDADC_STATE_READY, sd_now := 1\<rparr>"

lemma ex_init: "HAL_SDADC_Init id ex_env ex_sdadc = Some (HAL_OK, ex_ready)"
  by (simp add: HAL_SDADC_Init_def Let_def sd_refv_def sd_macros ex_sdadc_def ex_ready_def ex_env_def ticking_hw_def
      sd_consts)

lemma ex_ready_reach: "sd_reach ex_ready"
  by (rule sd_reach.set_up [OF _ _ ex_init]) (simp_all add: ex_sdadc_def sd_valid_init_def)

lemma ex_init_mode:
  "sd_in_init_mode ex_env change h = Some (HAL_OK, SDADC_ExitInitMode (change ((sd_or_CR1 SDADC_CR1_INIT h)\<lparr>sd_now := sd_now h + 2\<rparr>)))"
  by (simp add: sd_in_init_mode_def SDADC_EnterInitMode_def wait_beyond_def ex_env_def ticking_hw_def sd_or_CR1_def
      SDADC_ISR_INITRDY_def)

lemma ex_env_live: "sd_live ex_env"
  unfolding sd_live_def ex_env_def
  by (simp add: ticking_hw_advances) (auto simp: ticking_hw_def sd_consts)





text \<open>C21: the state machine implements two independent conversion groups.  Seen as a pair of flags (regular,
  injected), a start that succeeds sets the flag of its group and a stop that succeeds clears it, neither touches
  the other flag, a start of a running group and a stop of an idle one are refused without effect; the same holds
  for the functions that also switch the interrupts.\<close>
theorem sdadc_groups_independent:
  assumes "sd_reach h" "sd_flags (sd_State h) = Some (r, i)"
    and "f \<in> {HAL_SDADC_Start hw, HAL_SDADC_Start_IT hw}" "g \<in> {HAL_SDADC_InjectedStart hw, HAL_SDADC_InjectedStart_IT hw}"
    and "p \<in> {HAL_SDADC_Stop hw, HAL_SDADC_Stop_IT hw}" "q \<in> {HAL_SDADC_InjectedStop hw, HAL_SDADC_InjectedStop_IT hw}"
  shows "(\<forall>st h'. f h = Some (st, h') \<longrightarrow>
        (st = HAL_OK \<longrightarrow> \<not> r \<and> sd_flags (sd_State h') = Some (True, i)) \<and> (r \<longrightarrow> st = HAL_ERROR \<and> h' = h))
    \<and> (\<forall>st h'. g h = Some (st, h') \<longrightarrow>
        (st = HAL_OK \<longrightarrow> \<not> i \<and> sd_flags (sd_State h') = Some (r, True)) \<and> (i \<longrightarrow> st = HAL_ERROR \<and> h' = h))
    \<and> (\<forall>st h'. p h = Some (st, h') \<longrightarrow>
        (st = HAL_OK \<longrightarrow> r \<and> sd_flags (sd_State h') = Some (False, i)) \<and> (\<not> r \<longrightarrow> st = HAL_ERROR \<and> h' = h))
    \<and> (\<forall>st h'. q h = Some (st, h') \<longrightarrow>
        (st = HAL_OK \<longrightarrow> i \<and> sd_flags (sd_State h') = Some (r, False)) \<and> (\<not> i \<longrightarrow> st = HAL_ERROR \<and> h' = h))"
proof -
  note inv = sd_reach_inv [OF assms(1)]
  have sw: "swap_flags (sd_State h) = Some (i, r)" using assms(2) by (simp add: swap_flags_iff)
  show ?thesis
  proof (intro conjI)
    show "\<forall>st h'. f h = Some (st, h') \<longrightarrow>
        (st = HAL_OK \<longrightarrow> \<not> r \<and> sd_flags (sd_State h') = Some (True, i)) \<and> (r \<longrightarrow> st = HAL_ERROR \<and> h' = h)"
      using assms(3) by (elim insertE emptyE; use reg.start_effect [OF inv assms(2)]
          reg_IT.start_effect [OF inv assms(2)] in simp)
    show "\<forall>st h'. p h = Some (st, h') \<longrightarrow>
        (st = HAL_OK \<longrightarrow> r \<and> sd_flags (sd_State h') = Some (False, i)) \<and> (\<not> r \<longrightarrow> st = HAL_ERROR \<and> h' = h)"
      using assms(5) by (elim insertE emptyE; use reg.stop_effect [OF inv assms(2)]
          reg_IT.stop_effect [OF inv assms(2)] in simp)
    show "\<forall>st h'. g h = Some (st, h') \<longrightarrow>
        (st = HAL_OK \<longrightarrow> \<not> i \<and> sd_flags (sd_State h') = Some (r, True)) \<and> (i \<longrightarrow> st = HAL_ERROR \<and> h' = h)"
      using assms(4) by (elim insertE emptyE; use inj.start_effect [OF inv sw]
          inj_IT.start_effect [OF inv sw] in \<open>simp add: swap_flags_iff\<close>)
    show "\<forall>st h'. q h = Some (st, h') \<longrightarrow>
        (st = HAL_OK \<longrightarrow> i \<and> sd_flags (sd_State h') = Some (r, False)) \<and> (\<not> i \<longrightarrow> st = HAL_ERROR \<and> h' = h)"
      using assms(6) by (elim insertE emptyE; use inj.stop_effect [OF inv sw]
          inj_IT.stop_effect [OF inv sw] in \<open>simp add: swap_flags_iff\<close>)
  qed
qed

theorem sdadc_groups_independent_witness:
  "\<exists>h. HAL_SDADC_Start ex_env ex_ready = Some (HAL_OK, h) \<and> sd_State h = HAL_SDADC_STATE_REG"
proof -
  have f: "sd_flags (sd_State ex_ready) = Some (False, False)" by (simp add: ex_ready_def)
  obtain h where h: "HAL_SDADC_Start ex_env ex_ready = Some (HAL_OK, h)"
    by (simp add: HAL_SDADC_Start_def SDADC_RegConvStart_def ex_ready_def ex_sdadc_def sd_consts)
  then show ?thesis
    using sdadc_groups_independent [OF ex_ready_reach f, of "HAL_SDADC_Start ex_env" ex_env
        "HAL_SDADC_InjectedStart ex_env" "HAL_SDADC_Stop ex_env" "HAL_SDADC_InjectedStop ex_env"]
    by (auto simp: sd_flags_iff)
qed

text \<open>C23: a configuration that times out leaves the \<^verbatim>\<open>INIT\<close> bit set, and setting the converter up again does not
  clear it: the handle is then ready while the converter is still in initialisation mode.\<close>
theorem sdadc_timeout_leaves_init_mode:
  assumes "HAL_SDADC_PrepareChannelConfig hw i p h = Some (HAL_TIMEOUT, h1)"
    "HAL_SDADC_Init id hw' h1 = Some (st, h2)"
  shows "sd_State h1 = HAL_SDADC_STATE_ERROR \<and> bit (sd_CR1 h1) 31
    \<and> sd_State h2 = HAL_SDADC_STATE_READY \<and> bit (sd_CR1 h2) 31"
proof -
  have "sd_in_init_mode hw (\<lambda>h. h\<lparr>sd_CONFR := (sd_CONFR h)(i := InputMode p OR Gain p OR CommonMode p OR Offset p)\<rparr>) h
      = Some (HAL_TIMEOUT, h1)"
    using assms(1) by (simp add: HAL_SDADC_PrepareChannelConfig_def split: if_splits)
  then have 1: "sd_State h1 = HAL_SDADC_STATE_ERROR \<and> bit (sd_CR1 h1) 31"
    by (cases rule: sd_in_init_mode_cases) (auto simp: sd_or_CR1_def bit_simps)
  moreover have "\<not> bit (SDADC_CR1_SBI OR SDADC_CR1_PDI OR SDADC_CR1_SLOWCK) 31" by (simp add: sd_consts)
  ultimately have "sd_State h2 = HAL_SDADC_STATE_READY \<and> bit (sd_CR1 h2) 31"
    using assms(2) by (auto simp: HAL_SDADC_Init_def Let_def sd_macros sd_set_refv_def bit_simps
        split: Option.bind_splits if_splits)
  with 1 show ?thesis by simp
qed

lemma ex_time_out:
  "\<exists>h1. sd_in_init_mode (ticking_hw 0) change h = Some (HAL_TIMEOUT, h1)"
proof -
  have "SDADC_TIMEOUT \<noteq> HAL_MAX_DELAY" by (simp add: SDADC_TIMEOUT_def HAL_MAX_DELAY_def)
  then obtain b t where w: "wait_beyond (ticking_hw 0) (\<lambda>t. hw_SR (ticking_hw 0) t AND SDADC_ISR_INITRDY \<noteq> 0)
      SDADC_TIMEOUT (sd_now (sd_or_CR1 SDADC_CR1_INIT h)) = Some (b, t)"
    using wait_beyond_returns [OF ticking_hw_advances] by blast
  then have "\<not> b" unfolding wait_beyond_def by (auto dest!: poll_result simp: ticking_hw_def)
  with w show ?thesis by (simp add: sd_in_init_mode_def SDADC_EnterInitMode_def)
qed

theorem sdadc_timeout_leaves_init_mode_witness:
  "\<exists>st h1 h2. HAL_SDADC_PrepareChannelConfig (ticking_hw 0) 0 \<lparr>InputMode = 0, Gain = 0, CommonMode = 0, Offset = 0\<rparr> ex_ready
       = Some (HAL_TIMEOUT, h1) \<and> HAL_SDADC_Init id ex_env h1 = Some (st, h2)
     \<and> sd_State h2 = HAL_SDADC_STATE_READY \<and> bit (sd_CR1 h2) 31"
proof -
  have "sd_State ex_ready = HAL_SDADC_STATE_READY" by (simp add: ex_ready_def)
  then obtain h1 where 1: "HAL_SDADC_PrepareChannelConfig (ticking_hw 0) 0
      \<lparr>InputMode = 0, Gain = 0, CommonMode = 0, Offset = 0\<rparr> ex_ready = Some (HAL_TIMEOUT, h1)"
    using ex_time_out by (auto simp: HAL_SDADC_PrepareChannelConfig_def)
  obtain st h2 where "HAL_SDADC_Init id ex_env h1 = Some (st, h2)"
    using sd_init_returns [OF ex_env_live, of id h1] by auto
  with 1 sdadc_timeout_leaves_init_mode [OF 1, of ex_env st h2] show ?thesis by blast
qed

text \<open>An end-of-conversion interrupt of a regular one-shot conversion that is served after another call has
  timed out overwrites the error state: the handle says that an injected conversion is running.\<close>
lemma sdadc_irq_overwrites_error:
  assumes "sd_State h = HAL_SDADC_STATE_ERROR" "sd_reg_one_shot h"
    "sd_CR1 h AND SDADC_CR1_REOCIE = SDADC_CR1_REOCIE"
    "hw_SR hw (sd_now h) AND SDADC_ISR_REOCF = SDADC_ISR_REOCF"
  shows "sd_State (fst (HAL_SDADC_IRQHandler weak_callback hw (h, ()))) = HAL_SDADC_STATE_INJ"
  using assms
  by (simp add: HAL_SDADC_IRQHandler_def Let_def sd_test_def sd_irq_regular_def weak_callback_def sd_reg_one_shot_def
      sd_tick_def sd_callback_def sd_reg_ended_def)

lemma sdadc_irq_overwrites_error_witness:
  "sd_State (fst (HAL_SDADC_IRQHandler weak_callback (ticking_hw SDADC_ISR_REOCF)
     (ex_ready\<lparr>sd_State := HAL_SDADC_STATE_ERROR, sd_CR1 := SDADC_CR1_REOCIE OR SDADC_CR1_INIT\<rparr>, ()))) = HAL_SDADC_STATE_INJ"
  by (rule sdadc_irq_overwrites_error)
     (simp_all add: ex_ready_def ex_sdadc_def sd_reg_one_shot_def ticking_hw_def sd_consts)

text \<open>The number of injected channels the driver counts is the number of the nine channel bits that are set.\<close>
lemma sdadc_channel_count:
  "unat (SDADC_GetInjChannelsNbr Channels) = card {i. i < 9 \<and> bit Channels i}"
  by (rule GetInjChannelsNbr_card)

end
