(* ===== verification/Hal_Spi.thy ===== *)
theory Hal_Spi
  imports Hal_Def
begin

text \<open>
  The SPI driver (\<^verbatim>\<open>stm32f3xx_hal_spi.c\<close>): initialisation, the interrupt-driven transfers with all
  their handlers, the blocking transfers, and the waits that end a transfer.  The register block
  behind \<^verbatim>\<open>Instance\<close> is part of the handle: \<^verbatim>\<open>CR1\<close>, \<^verbatim>\<open>CR2\<close> and \<^verbatim>\<open>CRCPR\<close> are fields, reads of
  \<^verbatim>\<open>SR\<close> and \<^verbatim>\<open>DR\<close> come from the environment, and every access to \<^verbatim>\<open>DR\<close> is recorded in \<open>spi_io\<close>.
  A function that may wait forever returns \<open>None\<close> when it does; calling a null function pointer
  ends in the HardFault handler's endless loop and is \<open>None\<close> too.  The user callbacks of this
  module are empty in the firmware; \<open>spi_cb\<close> records their calls.
\<close>

section \<open>Registers and constants\<close>

definition SPI_CR1_CPHA :: u32 where "SPI_CR1_CPHA = 0x1"
definition SPI_CR1_CPOL :: u32 where "SPI_CR1_CPOL = 0x2"
definition SPI_CR1_MSTR :: u32 where "SPI_CR1_MSTR = 0x4"
definition SPI_CR1_SPE :: u32 where "SPI_CR1_SPE = 0x40"
definition SPI_CR1_SSI :: u32 where "SPI_CR1_SSI = 0x100"
definition SPI_CR1_SSM :: u32 where "SPI_CR1_SSM = 0x200"
definition SPI_CR1_RXONLY :: u32 where "SPI_CR1_RXONLY = 0x400"
definition SPI_CR1_CRCL :: u32 where "SPI_CR1_CRCL = 0x800"
definition SPI_CR1_CRCNEXT :: u32 where "SPI_CR1_CRCNEXT = 0x1000"
definition SPI_CR1_CRCEN :: u32 where "SPI_CR1_CRCEN = 0x2000"
definition SPI_CR1_BIDIOE :: u32 where "SPI_CR1_BIDIOE = 0x4000"
definition SPI_CR1_BIDIMODE :: u32 where "SPI_CR1_BIDIMODE = 0x8000"

definition SPI_CR2_SSOE :: u32 where "SPI_CR2_SSOE = 0x4"
definition SPI_CR2_NSSP :: u32 where "SPI_CR2_NSSP = 0x8"
definition SPI_IT_ERR :: u32 where "SPI_IT_ERR = 0x20"
definition SPI_IT_RXNE :: u32 where "SPI_IT_RXNE = 0x40"
definition SPI_IT_TXE :: u32 where "SPI_IT_TXE = 0x80"
definition SPI_RXFIFO_THRESHOLD :: u32 where "SPI_RXFIFO_THRESHOLD = 0x1000"

definition SPI_FLAG_RXNE :: u32 where "SPI_FLAG_RXNE = 0x1"
definition SPI_FLAG_TXE :: u32 where "SPI_FLAG_TXE = 0x2"
definition SPI_FLAG_CRCERR :: u32 where "SPI_FLAG_CRCERR = 0x10"
definition SPI_FLAG_MODF :: u32 where "SPI_FLAG_MODF = 0x20"
definition SPI_FLAG_OVR :: u32 where "SPI_FLAG_OVR = 0x40"
definition SPI_FLAG_BSY :: u32 where "SPI_FLAG_BSY = 0x80"
definition SPI_FLAG_FRE :: u32 where "SPI_FLAG_FRE = 0x100"
definition SPI_FLAG_FRLVL :: u32 where "SPI_FLAG_FRLVL = 0x600"
definition SPI_FLAG_FTLVL :: u32 where "SPI_FLAG_FTLVL = 0x1800"

definition SPI_MODE_MASTER :: u32 where "SPI_MODE_MASTER = SPI_CR1_MSTR OR SPI_CR1_SSI"
definition SPI_MODE_SLAVE :: u32 where "SPI_MODE_SLAVE = 0"
definition SPI_DIRECTION_2LINES :: u32 where "SPI_DIRECTION_2LINES = 0"
definition SPI_DIRECTION_2LINES_RXONLY :: u32 where "SPI_DIRECTION_2LINES_RXONLY = SPI_CR1_RXONLY"
definition SPI_DIRECTION_1LINE :: u32 where "SPI_DIRECTION_1LINE = SPI_CR1_BIDIMODE"
definition SPI_DATASIZE_8BIT :: u32 where "SPI_DATASIZE_8BIT = 0x700"
definition SPI_DATASIZE_16BIT :: u32 where "SPI_DATASIZE_16BIT = 0xF00"
definition SPI_CRCCALCULATION_ENABLE :: u32 where "SPI_CRCCALCULATION_ENABLE = SPI_CR1_CRCEN"
definition SPI_CRCCALCULATION_DISABLE :: u32 where "SPI_CRCCALCULATION_DISABLE = 0"
definition SPI_CRC_LENGTH_DATASIZE :: u32 where "SPI_CRC_LENGTH_DATASIZE = 0"
definition SPI_CRC_LENGTH_8BIT :: u32 where "SPI_CRC_LENGTH_8BIT = 1"
definition SPI_CRC_LENGTH_16BIT :: u32 where "SPI_CRC_LENGTH_16BIT = 2"

definition HAL_SPI_ERROR_NONE :: u32 where "HAL_SPI_ERROR_NONE = 0"
definition HAL_SPI_ERROR_MODF :: u32 where "HAL_SPI_ERROR_MODF = 1"
definition HAL_SPI_ERROR_CRC :: u32 where "HAL_SPI_ERROR_CRC = 2"
definition HAL_SPI_ERROR_OVR :: u32 where "HAL_SPI_ERROR_OVR = 4"
definition HAL_SPI_ERROR_FRE :: u32 where "HAL_SPI_ERROR_FRE = 8"
definition HAL_SPI_ERROR_FLAG :: u32 where "HAL_SPI_ERROR_FLAG = 0x20"

definition SPI_DEFAULT_TIMEOUT :: u32 where "SPI_DEFAULT_TIMEOUT = 50"

lemmas spi_consts = SPI_CR1_CPHA_def SPI_CR1_CPOL_def SPI_CR1_MSTR_def SPI_CR1_SPE_def
  SPI_CR1_SSI_def SPI_CR1_SSM_def SPI_CR1_RXONLY_def SPI_CR1_CRCL_def SPI_CR1_CRCNEXT_def
  SPI_CR1_CRCEN_def SPI_CR1_BIDIOE_def SPI_CR1_BIDIMODE_def SPI_CR2_SSOE_def SPI_CR2_NSSP_def
  SPI_IT_ERR_def SPI_IT_RXNE_def SPI_IT_TXE_def SPI_RXFIFO_THRESHOLD_def
  SPI_FLAG_RXNE_def SPI_FLAG_TXE_def SPI_FLAG_CRCERR_def SPI_FLAG_MODF_def SPI_FLAG_OVR_def
  SPI_FLAG_BSY_def SPI_FLAG_FRE_def SPI_FLAG_FRLVL_def SPI_FLAG_FTLVL_def
  SPI_MODE_MASTER_def SPI_MODE_SLAVE_def SPI_DIRECTION_2LINES_def
  SPI_DIRECTION_2LINES_RXONLY_def SPI_DIRECTION_1LINE_def SPI_DATASIZE_8BIT_def
  SPI_DATASIZE_16BIT_def SPI_CRCCALCULATION_ENABLE_def SPI_CRCCALCULATION_DISABLE_def
  SPI_CRC_LENGTH_DATASIZE_def SPI_CRC_LENGTH_8BIT_def SPI_CRC_LENGTH_16BIT_def
  HAL_SPI_ERROR_NONE_def HAL_SPI_ERROR_MODF_def HAL_SPI_ERROR_CRC_def HAL_SPI_ERROR_OVR_def
  HAL_SPI_ERROR_FRE_def HAL_SPI_ERROR_FLAG_def SPI_DEFAULT_TIMEOUT_def

section \<open>The handle\<close>

record SPI_InitTypeDef =
  spi_Mode :: u32
  spi_Direction :: u32
  spi_DataSize :: u32
  spi_CLKPolarity :: u32
  spi_CLKPhase :: u32
  spi_NSS :: u32
  spi_BaudRatePrescaler :: u32
  spi_FirstBit :: u32
  spi_TIMode :: u32
  spi_CRCCalculation :: u32
  spi_CRCPolynomial :: u32
  spi_CRCLength :: u32
  spi_NSSPMode :: u32

datatype HAL_SPI_StateTypeDef =
    HAL_SPI_STATE_RESET | HAL_SPI_STATE_READY | HAL_SPI_STATE_BUSY | HAL_SPI_STATE_BUSY_TX
  | HAL_SPI_STATE_BUSY_RX | HAL_SPI_STATE_BUSY_TX_RX | HAL_SPI_STATE_ERROR

text \<open>The values of the function pointers \<^verbatim>\<open>RxISR\<close> and \<^verbatim>\<open>TxISR\<close>.\<close>
datatype spi_isr =
    No_ISR | TxISR_8BIT | TxISR_16BIT | RxISR_8BIT | RxISR_8BITCRC | RxISR_16BIT | RxISR_16BITCRC
  | L2_RxISR_8BIT | L2_RxISR_8BITCRC | L2_TxISR_8BIT | L2_RxISR_16BIT | L2_RxISR_16BITCRC
  | L2_TxISR_16BIT

datatype spi_io = DR_write16 u16 | DR_write8 u8 | DR_read16 | DR_read8 | SR_write u32

datatype spi_callback =
    TxCpltCallback | RxCpltCallback | TxRxCpltCallback | ErrorCallback | TxHalfCpltCallback | RxHalfCpltCallback
  | TxRxHalfCpltCallback

record SPI_HandleTypeDef =
  spi_CR1 :: u32
  spi_CR2 :: u32
  spi_CRCPR :: u32
  spi_Init :: SPI_InitTypeDef
  pTxBuffPtr :: u32
  TxXferSize :: u16
  TxXferCount :: u16
  pRxBuffPtr :: u32
  RxXferSize :: u16
  RxXferCount :: u16
  CRCSize :: u32
  RxISR :: spi_isr
  TxISR :: spi_isr
  spi_Lock :: HAL_LockTypeDef
  spi_State :: HAL_SPI_StateTypeDef
  spi_ErrorCode :: u32
  spi_mem :: mem
  spi_now :: time
  spi_io :: "spi_io list"
  spi_cb :: "spi_callback list"

type_synonym spi = SPI_HandleTypeDef

definition spi_DISABLE_IT :: "u32 \<Rightarrow> spi \<Rightarrow> spi" where
  "spi_DISABLE_IT it h = h\<lparr>spi_CR2 := spi_CR2 h AND NOT it\<rparr>"

definition spi_ENABLE_IT :: "u32 \<Rightarrow> spi \<Rightarrow> spi" where
  "spi_ENABLE_IT it h = h\<lparr>spi_CR2 := spi_CR2 h OR it\<rparr>"

definition spi_ENABLE :: "spi \<Rightarrow> spi" where
  "spi_ENABLE h = h\<lparr>spi_CR1 := spi_CR1 h OR SPI_CR1_SPE\<rparr>"

definition spi_DISABLE :: "spi \<Rightarrow> spi" where
  "spi_DISABLE h = h\<lparr>spi_CR1 := spi_CR1 h AND NOT SPI_CR1_SPE\<rparr>"

text \<open>\<^verbatim>\<open>SPI_RESET_CRC\<close>: the mask is cast to 16 bits, so the upper half of \<^verbatim>\<open>CR1\<close> is cleared as well.\<close>
definition SPI_RESET_CRC :: "spi \<Rightarrow> spi" where
  "SPI_RESET_CRC h =
     h\<lparr>spi_CR1 := (spi_CR1 h AND ucast (NOT (ucast SPI_CR1_CRCEN :: u16))) OR SPI_CR1_CRCEN\<rparr>"

definition spi_log :: "spi_io \<Rightarrow> spi \<Rightarrow> spi" where
  "spi_log x h = h\<lparr>spi_io := spi_io h @ [x]\<rparr>"

definition spi_callback :: "spi_callback \<Rightarrow> spi \<Rightarrow> spi" where
  "spi_callback c h = h\<lparr>spi_cb := spi_cb h @ [c]\<rparr>"

definition spi_crc_on :: "spi \<Rightarrow> bool" where
  "spi_crc_on h \<longleftrightarrow> spi_CRCCalculation (spi_Init h) = SPI_CRCCALCULATION_ENABLE"

text \<open>\<^verbatim>\<open>__HAL_SPI_CLEAR_OVRFLAG\<close>: read \<^verbatim>\<open>DR\<close>, then \<^verbatim>\<open>SR\<close>.\<close>
definition spi_CLEAR_OVRFLAG :: "spi \<Rightarrow> spi" where
  "spi_CLEAR_OVRFLAG h = (spi_log DR_read16 h)\<lparr>spi_now := spi_now h + 2\<rparr>"

definition spi_CLEAR_MODFFLAG :: "spi \<Rightarrow> spi" where
  "spi_CLEAR_MODFFLAG h = h\<lparr>spi_now := Suc (spi_now h), spi_CR1 := spi_CR1 h AND NOT SPI_CR1_SPE\<rparr>"

definition spi_CLEAR_FREFLAG :: "spi \<Rightarrow> spi" where
  "spi_CLEAR_FREFLAG h = h\<lparr>spi_now := Suc (spi_now h)\<rparr>"

definition spi_CLEAR_CRCERRFLAG :: "spi \<Rightarrow> spi" where
  "spi_CLEAR_CRCERRFLAG h = spi_log (SR_write (ucast (NOT (ucast SPI_FLAG_CRCERR :: u16)))) h"

text \<open>\<^verbatim>\<open>if((CR1 & SPI_CR1_SPE) != SPI_CR1_SPE) __HAL_SPI_ENABLE(hspi);\<close>\<close>
definition spi_enable_if_needed :: "spi \<Rightarrow> spi" where
  "spi_enable_if_needed h =
     (if spi_CR1 h AND SPI_CR1_SPE \<noteq> SPI_CR1_SPE then spi_ENABLE h else h)"

lemmas spi_macros = spi_DISABLE_IT_def spi_ENABLE_IT_def spi_ENABLE_def spi_DISABLE_def
  SPI_RESET_CRC_def spi_log_def spi_callback_def spi_CLEAR_OVRFLAG_def spi_CLEAR_MODFFLAG_def
  spi_CLEAR_FREFLAG_def spi_CLEAR_CRCERRFLAG_def spi_enable_if_needed_def

section \<open>Initialisation\<close>

text \<open>\<open>msp\<close> stands for \<^verbatim>\<open>HAL_SPI_MspInit\<close>.\<close>
definition HAL_SPI_Init :: "(spi \<Rightarrow> spi) \<Rightarrow> spi \<Rightarrow> HAL_StatusTypeDef \<times> spi" where
  "HAL_SPI_Init msp h =
     (let h1 = (if spi_State h = HAL_SPI_STATE_RESET then msp (h\<lparr>spi_Lock := HAL_UNLOCKED\<rparr>) else h);
          h2 = spi_DISABLE (h1\<lparr>spi_State := HAL_SPI_STATE_BUSY\<rparr>);
          i0 = spi_Init h2;
          frxth = (if spi_DataSize i0 > SPI_DATASIZE_8BIT then 0 else SPI_RXFIFO_THRESHOLD);
          i1 = (if spi_DataSize i0 \<noteq> SPI_DATASIZE_16BIT \<and> spi_DataSize i0 \<noteq> SPI_DATASIZE_8BIT
                then i0\<lparr>spi_CRCCalculation := SPI_CRCCALCULATION_DISABLE\<rparr> else i0);
          i2 = (if spi_CRCLength i1 = SPI_CRC_LENGTH_DATASIZE
                then (if spi_DataSize i1 > SPI_DATASIZE_8BIT
                      then i1\<lparr>spi_CRCLength := SPI_CRC_LENGTH_16BIT\<rparr>
                      else i1\<lparr>spi_CRCLength := SPI_CRC_LENGTH_8BIT\<rparr>)
                else i1);
          cr1 = spi_Mode i2 OR spi_Direction i2 OR spi_CLKPolarity i2 OR spi_CLKPhase i2
                OR (spi_NSS i2 AND SPI_CR1_SSM) OR spi_BaudRatePrescaler i2 OR spi_FirstBit i2
                OR spi_CRCCalculation i2;
          cr1' = (if spi_CRCLength i2 = SPI_CRC_LENGTH_16BIT then cr1 OR SPI_CR1_CRCL else cr1);
          cr2 = ((drop_bit 16 (spi_NSS i2) AND SPI_CR2_SSOE) OR spi_TIMode i2 OR spi_NSSPMode i2
                 OR spi_DataSize i2) OR frxth
      in (HAL_OK, h2\<lparr>spi_Init := i2, spi_CR1 := cr1', spi_CR2 := cr2, spi_CRCPR := spi_CRCPolynomial i2,
            spi_ErrorCode := HAL_SPI_ERROR_NONE, spi_State := HAL_SPI_STATE_READY\<rparr>))"

definition HAL_SPI_DeInit :: "(spi \<Rightarrow> spi) \<Rightarrow> spi \<Rightarrow> HAL_StatusTypeDef \<times> spi" where
  "HAL_SPI_DeInit msp_deinit h =
     (let h1 = msp_deinit (spi_DISABLE (h\<lparr>spi_State := HAL_SPI_STATE_BUSY\<rparr>))
      in (HAL_OK, h1\<lparr>spi_ErrorCode := HAL_SPI_ERROR_NONE, spi_State := HAL_SPI_STATE_RESET,
                     spi_Lock := HAL_UNLOCKED\<rparr>))"

definition HAL_SPI_GetState :: "spi \<Rightarrow> HAL_SPI_StateTypeDef" where
  "HAL_SPI_GetState h = spi_State h"

definition HAL_SPI_GetError :: "spi \<Rightarrow> u32" where
  "HAL_SPI_GetError h = spi_ErrorCode h"

section \<open>Waiting for the end of a transfer\<close>

text \<open>What both waits do when the time-out has passed.\<close>
definition spi_timeout :: "spi \<Rightarrow> spi" where
  "spi_timeout h =
     (let h1 = spi_DISABLE_IT (SPI_IT_TXE OR SPI_IT_RXNE OR SPI_IT_ERR) h;
          h2 = (if spi_Mode (spi_Init h1) = SPI_MODE_MASTER
                   \<and> (spi_Direction (spi_Init h1) = SPI_DIRECTION_1LINE
                      \<or> spi_Direction (spi_Init h1) = SPI_DIRECTION_2LINES_RXONLY)
                then spi_DISABLE h1 else h1);
          h3 = (if spi_crc_on h2 then SPI_RESET_CRC h2 else h2)
      in h3\<lparr>spi_State := HAL_SPI_STATE_READY, spi_Lock := HAL_UNLOCKED\<rparr>)"

definition SPI_WaitFlagStateUntilTimeout ::
  "hw \<Rightarrow> u32 \<Rightarrow> u32 \<Rightarrow> u32 \<Rightarrow> spi \<Rightarrow> (HAL_StatusTypeDef \<times> spi) option" where
  "SPI_WaitFlagStateUntilTimeout hw Flag State Timeout h =
     do { (ok, t) \<leftarrow> wait_until hw (\<lambda>t. hw_SR hw t AND Flag = State) Timeout (spi_now h);
          Some (if ok then (HAL_OK, h\<lparr>spi_now := t\<rparr>)
                else (HAL_TIMEOUT, spi_timeout (h\<lparr>spi_now := t\<rparr>))) }"

text \<open>While it waits for the receive FIFO to drain, every unsuccessful pass reads one byte of \<^verbatim>\<open>DR\<close>.\<close>
definition SPI_WaitFifoStateUntilTimeout ::
  "hw \<Rightarrow> u32 \<Rightarrow> u32 \<Rightarrow> u32 \<Rightarrow> spi \<Rightarrow> (HAL_StatusTypeDef \<times> spi) option" where
  "SPI_WaitFifoStateUntilTimeout hw Fifo State Timeout h =
     do { (ok, t) \<leftarrow> wait_until hw (\<lambda>t. hw_SR hw t AND Fifo = State) Timeout (spi_now h);
          let passes = t - Suc (spi_now h) - (if ok then 1 else 0);
          let h1 = (if Fifo = SPI_FLAG_FRLVL \<and> State = 0
                    then h\<lparr>spi_io := spi_io h @ replicate passes DR_read8\<rparr> else h);
          Some (if ok then (HAL_OK, h1\<lparr>spi_now := t\<rparr>)
                else (HAL_TIMEOUT, spi_timeout (h1\<lparr>spi_now := t\<rparr>))) }"

definition spi_rx_master :: "spi \<Rightarrow> bool" where
  "spi_rx_master h \<longleftrightarrow> spi_Mode (spi_Init h) = SPI_MODE_MASTER
     \<and> (spi_Direction (spi_Init h) = SPI_DIRECTION_1LINE
        \<or> spi_Direction (spi_Init h) = SPI_DIRECTION_2LINES_RXONLY)"

definition spi_flag_error :: "spi \<Rightarrow> spi" where
  "spi_flag_error h = h\<lparr>spi_ErrorCode := spi_ErrorCode h OR HAL_SPI_ERROR_FLAG\<rparr>"

definition SPI_EndRxTransaction ::
  "hw \<Rightarrow> u32 \<Rightarrow> spi \<Rightarrow> (HAL_StatusTypeDef \<times> spi) option" where
  "SPI_EndRxTransaction hw Timeout h0 =
     do { let h = (if spi_rx_master h0 then spi_DISABLE h0 else h0);
          (st, h1) \<leftarrow> SPI_WaitFlagStateUntilTimeout hw SPI_FLAG_BSY 0 Timeout h;
          if st \<noteq> HAL_OK then Some (HAL_TIMEOUT, spi_flag_error h1)
          else if spi_rx_master h1 then
            do { (st2, h2) \<leftarrow> SPI_WaitFifoStateUntilTimeout hw SPI_FLAG_FRLVL 0 Timeout h1;
                 if st2 \<noteq> HAL_OK then Some (HAL_TIMEOUT, spi_flag_error h2)
                 else Some (HAL_OK, h2) }
          else Some (HAL_OK, h1) }"

definition SPI_EndRxTxTransaction ::
  "hw \<Rightarrow> u32 \<Rightarrow> spi \<Rightarrow> (HAL_StatusTypeDef \<times> spi) option" where
  "SPI_EndRxTxTransaction hw Timeout h =
     do { (st, h1) \<leftarrow> SPI_WaitFifoStateUntilTimeout hw SPI_FLAG_FTLVL 0 Timeout h;
          if st \<noteq> HAL_OK then Some (HAL_TIMEOUT, spi_flag_error h1)
          else do { (st2, h2) \<leftarrow> SPI_WaitFlagStateUntilTimeout hw SPI_FLAG_BSY 0 Timeout h1;
                    if st2 \<noteq> HAL_OK then Some (HAL_TIMEOUT, spi_flag_error h2)
                    else Some (HAL_OK, h2) } }"

section \<open>Closing an interrupt-driven transfer\<close>

definition SPI_CloseTx_ISR :: "hw \<Rightarrow> spi \<Rightarrow> spi option" where
  "SPI_CloseTx_ISR hw h =
     do { (st, h1) \<leftarrow> SPI_EndRxTxTransaction hw SPI_DEFAULT_TIMEOUT
            (spi_DISABLE_IT (SPI_IT_TXE OR SPI_IT_ERR) h);
          let h2 = (if st \<noteq> HAL_OK then spi_flag_error h1 else h1);
          let h3 = (if spi_Direction (spi_Init h2) = SPI_DIRECTION_2LINES
                    then spi_CLEAR_OVRFLAG h2 else h2);
          let h4 = h3\<lparr>spi_State := HAL_SPI_STATE_READY\<rparr>;
          Some (if spi_ErrorCode h4 \<noteq> HAL_SPI_ERROR_NONE then spi_callback ErrorCallback h4
                else spi_callback TxCpltCallback h4) }"

definition SPI_CloseRx_ISR :: "hw \<Rightarrow> spi \<Rightarrow> spi option" where
  "SPI_CloseRx_ISR hw h =
     do { (st, h1) \<leftarrow> SPI_EndRxTransaction hw SPI_DEFAULT_TIMEOUT
            (spi_DISABLE_IT (SPI_IT_RXNE OR SPI_IT_ERR) h);
          let h2 = (if st \<noteq> HAL_OK then spi_flag_error h1 else h1);
          let h3 = h2\<lparr>spi_State := HAL_SPI_STATE_READY\<rparr>;
          let crcerr = (hw_SR hw (spi_now h3) AND SPI_FLAG_CRCERR = SPI_FLAG_CRCERR);
          let h4 = h3\<lparr>spi_now := Suc (spi_now h3)\<rparr>;
          Some (if crcerr
                then spi_callback ErrorCallback (spi_CLEAR_CRCERRFLAG
                       (h4\<lparr>spi_ErrorCode := spi_ErrorCode h4 OR HAL_SPI_ERROR_CRC\<rparr>))
                else if spi_ErrorCode h4 = HAL_SPI_ERROR_NONE then spi_callback RxCpltCallback h4
                else spi_callback ErrorCallback h4) }"

definition SPI_CloseRxTx_ISR :: "hw \<Rightarrow> spi \<Rightarrow> spi option" where
  "SPI_CloseRxTx_ISR hw h =
     do { (st, h1) \<leftarrow> SPI_EndRxTxTransaction hw SPI_DEFAULT_TIMEOUT (spi_DISABLE_IT SPI_IT_ERR h);
          let h2 = (if st \<noteq> HAL_OK then spi_flag_error h1 else h1);
          let crcerr = (hw_SR hw (spi_now h2) AND SPI_FLAG_CRCERR = SPI_FLAG_CRCERR);
          let h3 = h2\<lparr>spi_now := Suc (spi_now h2)\<rparr>;
          Some (if crcerr
                then spi_callback ErrorCallback (spi_CLEAR_CRCERRFLAG
                       (h3\<lparr>spi_State := HAL_SPI_STATE_READY,
                           spi_ErrorCode := spi_ErrorCode h3 OR HAL_SPI_ERROR_CRC\<rparr>))
                else if spi_ErrorCode h3 = HAL_SPI_ERROR_NONE
                then (if spi_State h3 = HAL_SPI_STATE_BUSY_RX
                      then spi_callback RxCpltCallback (h3\<lparr>spi_State := HAL_SPI_STATE_READY\<rparr>)
                      else spi_callback TxRxCpltCallback (h3\<lparr>spi_State := HAL_SPI_STATE_READY\<rparr>))
                else spi_callback ErrorCallback (h3\<lparr>spi_State := HAL_SPI_STATE_READY\<rparr>)) }"

section \<open>Access to the data register\<close>

text \<open>\<^verbatim>\<open>*(__IO uint8_t *)&DR = (*hspi->pTxBuffPtr++);\<close>\<close>
definition spi_put8 :: "spi \<Rightarrow> spi" where
  "spi_put8 h = (spi_log (DR_write8 (spi_mem h (pTxBuffPtr h))) h)\<lparr>pTxBuffPtr := pTxBuffPtr h + 1\<rparr>"

text \<open>\<^verbatim>\<open>DR = *((uint16_t *)hspi->pTxBuffPtr); hspi->pTxBuffPtr += sizeof(uint16_t);\<close>\<close>
definition spi_put16 :: "spi \<Rightarrow> spi" where
  "spi_put16 h =
     (spi_log (DR_write16 (mem_read16 (spi_mem h) (pTxBuffPtr h))) h)\<lparr>pTxBuffPtr := pTxBuffPtr h + 2\<rparr>"

text \<open>\<^verbatim>\<open>*hspi->pRxBuffPtr++ = *(__IO uint8_t *)&DR;\<close>\<close>
definition spi_get8 :: "hw \<Rightarrow> spi \<Rightarrow> spi" where
  "spi_get8 hw h =
     (spi_log DR_read8 h)\<lparr>spi_mem := (spi_mem h)(pRxBuffPtr h := ucast (hw_DR hw (spi_now h))),
        pRxBuffPtr := pRxBuffPtr h + 1, spi_now := Suc (spi_now h)\<rparr>"

text \<open>\<^verbatim>\<open>*((uint16_t *)hspi->pRxBuffPtr) = DR; hspi->pRxBuffPtr += sizeof(uint16_t);\<close>\<close>
definition spi_get16 :: "hw \<Rightarrow> spi \<Rightarrow> spi" where
  "spi_get16 hw h =
     (let v = hw_DR hw (spi_now h)
      in (spi_log DR_read16 h)\<lparr>
           spi_mem := (spi_mem h)(pRxBuffPtr h := ucast v, pRxBuffPtr h + 1 := ucast (drop_bit 8 v)),
           pRxBuffPtr := pRxBuffPtr h + 2, spi_now := Suc (spi_now h)\<rparr>)"

text \<open>A read of \<^verbatim>\<open>DR\<close> whose value is dropped.\<close>
definition spi_drop8 :: "spi \<Rightarrow> spi" where
  "spi_drop8 h = (spi_log DR_read8 h)\<lparr>spi_now := Suc (spi_now h)\<rparr>"

definition spi_drop16 :: "spi \<Rightarrow> spi" where
  "spi_drop16 h = (spi_log DR_read16 h)\<lparr>spi_now := Suc (spi_now h)\<rparr>"

definition spi_crcnext :: "spi \<Rightarrow> spi" where
  "spi_crcnext h = h\<lparr>spi_CR1 := spi_CR1 h OR SPI_CR1_CRCNEXT\<rparr>"

definition spi_rx_threshold8 :: "spi \<Rightarrow> spi" where
  "spi_rx_threshold8 h = h\<lparr>spi_CR2 := SET_BIT (spi_CR2 h) SPI_RXFIFO_THRESHOLD\<rparr>"

definition spi_rx_threshold16 :: "spi \<Rightarrow> spi" where
  "spi_rx_threshold16 h = h\<lparr>spi_CR2 := CLEAR_BIT (spi_CR2 h) SPI_RXFIFO_THRESHOLD\<rparr>"

lemmas spi_dr = spi_put8_def spi_put16_def spi_get8_def spi_get16_def spi_drop8_def spi_drop16_def
  spi_crcnext_def spi_rx_threshold8_def spi_rx_threshold16_def

section \<open>Interrupt handlers\<close>

definition SPI_TxISR_8BIT :: "hw \<Rightarrow> spi \<Rightarrow> spi option" where
  "SPI_TxISR_8BIT hw h =
     (let h1 = spi_put8 h; h2 = h1\<lparr>TxXferCount := TxXferCount h1 - 1\<rparr>
      in if TxXferCount h2 = 0
         then SPI_CloseTx_ISR hw (if spi_crc_on h2 then spi_crcnext h2 else h2)
         else Some h2)"

definition SPI_TxISR_16BIT :: "hw \<Rightarrow> spi \<Rightarrow> spi option" where
  "SPI_TxISR_16BIT hw h =
     (let h1 = spi_put16 h; h2 = h1\<lparr>TxXferCount := TxXferCount h1 - 1\<rparr>
      in if TxXferCount h2 = 0
         then SPI_CloseTx_ISR hw (if spi_crc_on h2 then spi_crcnext h2 else h2)
         else Some h2)"

definition SPI_RxISR_8BIT :: "hw \<Rightarrow> spi \<Rightarrow> spi option" where
  "SPI_RxISR_8BIT hw h =
     (let h1 = spi_get8 hw h; h2 = h1\<lparr>RxXferCount := RxXferCount h1 - 1\<rparr>;
          h3 = (if RxXferCount h2 = 1 \<and> spi_crc_on h2 then spi_crcnext h2 else h2)
      in if RxXferCount h3 = 0
         then (if spi_crc_on h3 then Some (h3\<lparr>RxISR := RxISR_8BITCRC\<rparr>) else SPI_CloseRx_ISR hw h3)
         else Some h3)"

definition SPI_RxISR_8BITCRC :: "hw \<Rightarrow> spi \<Rightarrow> spi option" where
  "SPI_RxISR_8BITCRC hw h =
     (let h1 = spi_drop8 h; h2 = h1\<lparr>CRCSize := CRCSize h1 - 1\<rparr>
      in if CRCSize h2 = 0 then SPI_CloseRx_ISR hw h2 else Some h2)"

definition SPI_RxISR_16BIT :: "hw \<Rightarrow> spi \<Rightarrow> spi option" where
  "SPI_RxISR_16BIT hw h =
     (let h1 = spi_get16 hw h; h2 = h1\<lparr>RxXferCount := RxXferCount h1 - 1\<rparr>;
          h3 = (if RxXferCount h2 = 1 \<and> spi_crc_on h2 then spi_crcnext h2 else h2)
      in if RxXferCount h3 = 0
         then (if spi_crc_on h3 then Some (h3\<lparr>RxISR := RxISR_16BITCRC\<rparr>) else SPI_CloseRx_ISR hw h3)
         else Some h3)"

definition SPI_RxISR_16BITCRC :: "hw \<Rightarrow> spi \<Rightarrow> spi option" where
  "SPI_RxISR_16BITCRC hw h =
     SPI_CloseRx_ISR hw (spi_DISABLE_IT (SPI_IT_RXNE OR SPI_IT_ERR) (spi_drop16 h))"

definition SPI_2linesRxISR_8BIT :: "hw \<Rightarrow> spi \<Rightarrow> spi option" where
  "SPI_2linesRxISR_8BIT hw h =
     (let h1 = (if RxXferCount h > 1
                then let a = spi_get16 hw h; b = a\<lparr>RxXferCount := RxXferCount a - 2\<rparr>
                     in if RxXferCount b = 1 then spi_rx_threshold8 b else b
                else let a = spi_get8 hw h in a\<lparr>RxXferCount := RxXferCount a - 1\<rparr>)
      in if RxXferCount h1 = 0
         then if spi_crc_on h1 then Some ((spi_rx_threshold8 h1)\<lparr>RxISR := L2_RxISR_8BITCRC\<rparr>)
              else let h2 = spi_DISABLE_IT SPI_IT_RXNE h1
                   in if TxXferCount h2 = 0 then SPI_CloseRxTx_ISR hw h2 else Some h2
         else Some h1)"

definition SPI_2linesRxISR_8BITCRC :: "hw \<Rightarrow> spi \<Rightarrow> spi option" where
  "SPI_2linesRxISR_8BITCRC hw h =
     (let h1 = spi_drop8 h; h2 = h1\<lparr>CRCSize := CRCSize h1 - 1\<rparr>
      in if CRCSize h2 = 0
         then let h3 = spi_DISABLE_IT SPI_IT_RXNE h2
              in if TxXferCount h3 = 0 then SPI_CloseRxTx_ISR hw h3 else Some h3
         else Some h2)"

definition SPI_2linesTxISR_8BIT :: "hw \<Rightarrow> spi \<Rightarrow> spi option" where
  "SPI_2linesTxISR_8BIT hw h =
     (let h1 = (if TxXferCount h \<ge> 2
                then let a = spi_put16 h in a\<lparr>TxXferCount := TxXferCount a - 2\<rparr>
                else let a = spi_put8 h in a\<lparr>TxXferCount := TxXferCount a - 1\<rparr>)
      in if TxXferCount h1 = 0
         then let h2 = (if spi_crc_on h1 then spi_crcnext h1 else h1);
                  h3 = spi_DISABLE_IT SPI_IT_TXE h2
              in if RxXferCount h3 = 0 then SPI_CloseRxTx_ISR hw h3 else Some h3
         else Some h1)"

definition SPI_2linesRxISR_16BIT :: "hw \<Rightarrow> spi \<Rightarrow> spi option" where
  "SPI_2linesRxISR_16BIT hw h =
     (let a = spi_get16 hw h; h1 = a\<lparr>RxXferCount := RxXferCount a - 1\<rparr>
      in if RxXferCount h1 = 0
         then if spi_crc_on h1 then Some (h1\<lparr>RxISR := L2_RxISR_16BITCRC\<rparr>)
              else let h2 = spi_DISABLE_IT SPI_IT_RXNE h1
                   in if TxXferCount h2 = 0 then SPI_CloseRxTx_ISR hw h2 else Some h2
         else Some h1)"

definition SPI_2linesRxISR_16BITCRC :: "hw \<Rightarrow> spi \<Rightarrow> spi option" where
  "SPI_2linesRxISR_16BITCRC hw h = SPI_CloseRxTx_ISR hw (spi_DISABLE_IT SPI_IT_RXNE (spi_drop16 h))"

definition SPI_2linesTxISR_16BIT :: "hw \<Rightarrow> spi \<Rightarrow> spi option" where
  "SPI_2linesTxISR_16BIT hw h =
     (let a = spi_put16 h; h1 = a\<lparr>TxXferCount := TxXferCount a - 1\<rparr>
      in if TxXferCount h1 = 0
         then let h2 = (if spi_crc_on h1 then spi_crcnext h1 else h1);
                  h3 = spi_DISABLE_IT SPI_IT_TXE h2
              in if RxXferCount h3 = 0 then SPI_CloseRxTx_ISR hw h3 else Some h3
         else Some h1)"

text \<open>The call through a function pointer.\<close>
fun spi_call_isr :: "spi_isr \<Rightarrow> hw \<Rightarrow> spi \<Rightarrow> spi option" where
  "spi_call_isr No_ISR hw h = None"
| "spi_call_isr TxISR_8BIT hw h = SPI_TxISR_8BIT hw h"
| "spi_call_isr TxISR_16BIT hw h = SPI_TxISR_16BIT hw h"
| "spi_call_isr RxISR_8BIT hw h = SPI_RxISR_8BIT hw h"
| "spi_call_isr RxISR_8BITCRC hw h = SPI_RxISR_8BITCRC hw h"
| "spi_call_isr RxISR_16BIT hw h = SPI_RxISR_16BIT hw h"
| "spi_call_isr RxISR_16BITCRC hw h = SPI_RxISR_16BITCRC hw h"
| "spi_call_isr L2_RxISR_8BIT hw h = SPI_2linesRxISR_8BIT hw h"
| "spi_call_isr L2_RxISR_8BITCRC hw h = SPI_2linesRxISR_8BITCRC hw h"
| "spi_call_isr L2_TxISR_8BIT hw h = SPI_2linesTxISR_8BIT hw h"
| "spi_call_isr L2_RxISR_16BIT hw h = SPI_2linesRxISR_16BIT hw h"
| "spi_call_isr L2_RxISR_16BITCRC hw h = SPI_2linesRxISR_16BITCRC hw h"
| "spi_call_isr L2_TxISR_16BIT hw h = SPI_2linesTxISR_16BIT hw h"

definition HAL_SPI_IRQHandler :: "hw \<Rightarrow> spi \<Rightarrow> spi option" where
  "HAL_SPI_IRQHandler hw h0 =
     (let itsource = spi_CR2 h0; itflag = hw_SR hw (spi_now h0); h = h0\<lparr>spi_now := Suc (spi_now h0)\<rparr>
      in if itflag AND SPI_FLAG_OVR = 0 \<and> itflag AND SPI_FLAG_RXNE \<noteq> 0 \<and> itsource AND SPI_IT_RXNE \<noteq> 0
         then spi_call_isr (RxISR h) hw h
         else if itflag AND SPI_FLAG_TXE \<noteq> 0 \<and> itsource AND SPI_IT_TXE \<noteq> 0
         then spi_call_isr (TxISR h) hw h
         else if itflag AND (SPI_FLAG_MODF OR SPI_FLAG_OVR OR SPI_FLAG_FRE) \<noteq> 0
         then if itflag AND SPI_FLAG_OVR \<noteq> 0 \<and> spi_State h = HAL_SPI_STATE_BUSY_TX then Some h
              else let h1 = (if itflag AND SPI_FLAG_OVR \<noteq> 0
                             then spi_CLEAR_OVRFLAG (h\<lparr>spi_ErrorCode := spi_ErrorCode h OR HAL_SPI_ERROR_OVR\<rparr>)
                             else h);
                       h2 = (if itflag AND SPI_FLAG_MODF \<noteq> 0
                             then spi_CLEAR_MODFFLAG (h1\<lparr>spi_ErrorCode := spi_ErrorCode h1 OR HAL_SPI_ERROR_MODF\<rparr>)
                             else h1);
                       h3 = (if itflag AND SPI_FLAG_FRE \<noteq> 0
                             then spi_CLEAR_FREFLAG (h2\<lparr>spi_ErrorCode := spi_ErrorCode h2 OR HAL_SPI_ERROR_FRE\<rparr>)
                             else h2)
                   in Some (spi_callback ErrorCallback
                        ((spi_DISABLE_IT (SPI_IT_RXNE OR SPI_IT_TXE OR SPI_IT_ERR) h3)
                           \<lparr>spi_State := HAL_SPI_STATE_READY\<rparr>))
         else Some h)"

section \<open>Starting an interrupt-driven transfer\<close>

text \<open>\<^verbatim>\<open>__HAL_LOCK\<close> returns \<^verbatim>\<open>HAL_BUSY\<close> from the function that uses it when the handle is locked.\<close>
definition HAL_SPI_Transmit_IT :: "u32 \<Rightarrow> u16 \<Rightarrow> spi \<Rightarrow> HAL_StatusTypeDef \<times> spi" where
  "HAL_SPI_Transmit_IT pData Size h =
     (if spi_Lock h = HAL_LOCKED then (HAL_BUSY, h)
      else if pData = NULL \<or> Size = 0 then (HAL_ERROR, h\<lparr>spi_Lock := HAL_UNLOCKED\<rparr>)
      else if spi_State h \<noteq> HAL_SPI_STATE_READY then (HAL_BUSY, h\<lparr>spi_Lock := HAL_UNLOCKED\<rparr>)
      else let h1 = h\<lparr>spi_Lock := HAL_LOCKED, spi_State := HAL_SPI_STATE_BUSY_TX,
                  spi_ErrorCode := HAL_SPI_ERROR_NONE, pTxBuffPtr := pData, TxXferSize := Size,
                  TxXferCount := Size, pRxBuffPtr := NULL, RxXferSize := 0, RxXferCount := 0,
                  RxISR := No_ISR\<rparr>;
               h2 = h1\<lparr>TxISR := (if spi_DataSize (spi_Init h1) > SPI_DATASIZE_8BIT
                                  then TxISR_16BIT else TxISR_8BIT)\<rparr>;
               h3 = (if spi_Direction (spi_Init h2) = SPI_DIRECTION_1LINE
                     then h2\<lparr>spi_CR1 := spi_CR1 h2 OR SPI_CR1_BIDIOE\<rparr> else h2);
               h4 = (if spi_crc_on h3 then SPI_RESET_CRC h3 else h3);
               h5 = spi_enable_if_needed (spi_ENABLE_IT SPI_IT_TXE h4)
           in (HAL_OK, h5\<lparr>spi_Lock := HAL_UNLOCKED\<rparr>))"

definition spi_crc_size :: "spi \<Rightarrow> u32" where
  "spi_crc_size h =
     (if spi_crc_on h
      then if spi_DataSize (spi_Init h) \<le> SPI_DATASIZE_8BIT
              \<and> spi_CRCLength (spi_Init h) = SPI_CRC_LENGTH_16BIT then 2 else 1
      else 0)"

definition HAL_SPI_TransmitReceive_IT ::
  "u32 \<Rightarrow> u32 \<Rightarrow> u16 \<Rightarrow> spi \<Rightarrow> HAL_StatusTypeDef \<times> spi" where
  "HAL_SPI_TransmitReceive_IT pTxData pRxData Size h =
     (if spi_Lock h = HAL_LOCKED then (HAL_BUSY, h)
      else if \<not> (spi_State h = HAL_SPI_STATE_READY
                  \<or> (spi_Mode (spi_Init h) = SPI_MODE_MASTER
                     \<and> spi_Direction (spi_Init h) = SPI_DIRECTION_2LINES
                     \<and> spi_State h = HAL_SPI_STATE_BUSY_RX))
      then (HAL_BUSY, h\<lparr>spi_Lock := HAL_UNLOCKED\<rparr>)
      else if pTxData = NULL \<or> pRxData = NULL \<or> Size = 0
      then (HAL_ERROR, h\<lparr>spi_Lock := HAL_UNLOCKED\<rparr>)
      else let h1 = h\<lparr>spi_Lock := HAL_LOCKED, CRCSize := spi_crc_size h,
                  spi_State := (if spi_State h \<noteq> HAL_SPI_STATE_BUSY_RX
                                then HAL_SPI_STATE_BUSY_TX_RX else spi_State h),
                  spi_ErrorCode := HAL_SPI_ERROR_NONE, pTxBuffPtr := pTxData, TxXferSize := Size,
                  TxXferCount := Size, pRxBuffPtr := pRxData, RxXferSize := Size,
                  RxXferCount := Size\<rparr>;
               h2 = (if spi_DataSize (spi_Init h1) > SPI_DATASIZE_8BIT
                     then h1\<lparr>RxISR := L2_RxISR_16BIT, TxISR := L2_TxISR_16BIT\<rparr>
                     else h1\<lparr>RxISR := L2_RxISR_8BIT, TxISR := L2_TxISR_8BIT\<rparr>);
               h3 = (if spi_crc_on h2 then SPI_RESET_CRC h2 else h2);
               h4 = (if spi_DataSize (spi_Init h3) > SPI_DATASIZE_8BIT \<or> RxXferCount h3 \<ge> 2
                     then spi_rx_threshold16 h3 else spi_rx_threshold8 h3);
               h5 = spi_enable_if_needed (spi_ENABLE_IT (SPI_IT_TXE OR SPI_IT_RXNE OR SPI_IT_ERR) h4)
           in (HAL_OK, h5\<lparr>spi_Lock := HAL_UNLOCKED\<rparr>))"

definition HAL_SPI_Receive_IT :: "u32 \<Rightarrow> u16 \<Rightarrow> spi \<Rightarrow> HAL_StatusTypeDef \<times> spi" where
  "HAL_SPI_Receive_IT pData Size h =
     (if spi_Lock h = HAL_LOCKED then (HAL_BUSY, h)
      else if spi_State h \<noteq> HAL_SPI_STATE_READY then (HAL_BUSY, h\<lparr>spi_Lock := HAL_UNLOCKED\<rparr>)
      else if pData = NULL \<or> Size = 0 then (HAL_ERROR, h\<lparr>spi_Lock := HAL_UNLOCKED\<rparr>)
      else let h1 = h\<lparr>spi_Lock := HAL_LOCKED, spi_State := HAL_SPI_STATE_BUSY_RX,
                  spi_ErrorCode := HAL_SPI_ERROR_NONE, pRxBuffPtr := pData, RxXferSize := Size,
                  RxXferCount := Size, pTxBuffPtr := NULL, TxXferSize := 0, TxXferCount := 0\<rparr>
           in if spi_Mode (spi_Init h1) = SPI_MODE_MASTER
                 \<and> spi_Direction (spi_Init h1) = SPI_DIRECTION_2LINES
              then HAL_SPI_TransmitReceive_IT pData pData Size (h1\<lparr>spi_Lock := HAL_UNLOCKED\<rparr>)
              else let h2 = h1\<lparr>CRCSize := spi_crc_size h1, TxISR := No_ISR\<rparr>;
                       h3 = (if spi_DataSize (spi_Init h2) > SPI_DATASIZE_8BIT
                             then (spi_rx_threshold16 h2)\<lparr>RxISR := RxISR_16BIT\<rparr>
                             else (spi_rx_threshold8 h2)\<lparr>RxISR := RxISR_8BIT\<rparr>);
                       h4 = (if spi_Direction (spi_Init h3) = SPI_DIRECTION_1LINE
                             then h3\<lparr>spi_CR1 := spi_CR1 h3 AND NOT SPI_CR1_BIDIOE\<rparr> else h3);
                       h5 = (if spi_crc_on h4 then SPI_RESET_CRC h4 else h4);
                       h6 = spi_enable_if_needed (spi_ENABLE_IT (SPI_IT_RXNE OR SPI_IT_ERR) h5)
                   in (HAL_OK, h6\<lparr>spi_Lock := HAL_UNLOCKED\<rparr>))"

section \<open>Blocking transmission\<close>

text \<open>The transmit loops; \<open>False\<close> when the time-out ended the loop.  Each pass reads \<^verbatim>\<open>SR\<close> once.\<close>
partial_function (option) spi_tx_loop ::
  "hw \<Rightarrow> bool \<Rightarrow> u32 \<Rightarrow> u32 \<Rightarrow> spi \<Rightarrow> (bool \<times> spi) option" where
  "spi_tx_loop hw wide Timeout tickstart h =
     (if TxXferCount h = 0 then Some (True, h)
      else let t = spi_now h; h1 = h\<lparr>spi_now := Suc t\<rparr>
           in if hw_SR hw t AND SPI_FLAG_TXE = SPI_FLAG_TXE
              then spi_tx_loop hw wide Timeout tickstart
                     (if wide then (spi_put16 h1)\<lparr>TxXferCount := TxXferCount h1 - 1\<rparr>
                      else if TxXferCount h1 > 1
                      then (spi_put16 h1)\<lparr>TxXferCount := TxXferCount h1 - 2\<rparr>
                      else (spi_put8 h1)\<lparr>TxXferCount := TxXferCount h1 - 1\<rparr>)
              else if tick_expired hw tickstart Timeout t then Some (False, h1)
              else spi_tx_loop hw wide Timeout tickstart h1)"

text \<open>The common exit label \<^verbatim>\<open>error:\<close> of the blocking functions.\<close>
definition spi_exit :: "HAL_StatusTypeDef \<Rightarrow> spi \<Rightarrow> HAL_StatusTypeDef \<times> spi" where
  "spi_exit st h = (st, h\<lparr>spi_State := HAL_SPI_STATE_READY, spi_Lock := HAL_UNLOCKED\<rparr>)"

definition HAL_SPI_Transmit ::
  "hw \<Rightarrow> u32 \<Rightarrow> u16 \<Rightarrow> u32 \<Rightarrow> spi \<Rightarrow> (HAL_StatusTypeDef \<times> spi) option" where
  "HAL_SPI_Transmit hw pData Size Timeout h =
     (if spi_Lock h = HAL_LOCKED then Some (HAL_BUSY, h)
      else if spi_State h \<noteq> HAL_SPI_STATE_READY then Some (spi_exit HAL_BUSY h)
      else if pData = NULL \<or> Size = 0 then Some (spi_exit HAL_ERROR h)
      else let tickstart = hw_tick hw (spi_now h);
               h1 = h\<lparr>spi_Lock := HAL_LOCKED, spi_now := Suc (spi_now h),
                  spi_State := HAL_SPI_STATE_BUSY_TX,
                  spi_ErrorCode := HAL_SPI_ERROR_NONE, pTxBuffPtr := pData, TxXferSize := Size,
                  TxXferCount := Size, pRxBuffPtr := NULL, RxXferSize := 0, RxXferCount := 0\<rparr>;
               h2 = (if spi_Direction (spi_Init h1) = SPI_DIRECTION_1LINE
                     then h1\<lparr>spi_CR1 := spi_CR1 h1 OR SPI_CR1_BIDIOE\<rparr> else h1);
               h3 = (if spi_crc_on h2 then SPI_RESET_CRC h2 else h2);
               h4 = spi_enable_if_needed h3
           in do { (ok, h5) \<leftarrow> spi_tx_loop hw (spi_DataSize (spi_Init h4) > SPI_DATASIZE_8BIT)
                                 Timeout tickstart h4;
                   if \<not> ok then Some (spi_exit HAL_TIMEOUT h5)
                   else do {
                     (st, h6) \<leftarrow> SPI_EndRxTxTransaction hw Timeout
                                   (if spi_crc_on h5 then spi_crcnext h5 else h5);
                     let h7 = (if st \<noteq> HAL_OK then h6\<lparr>spi_ErrorCode := HAL_SPI_ERROR_FLAG\<rparr> else h6);
                     let h8 = (if spi_Direction (spi_Init h7) = SPI_DIRECTION_2LINES
                               then spi_CLEAR_OVRFLAG h7 else h7);
                     Some (spi_exit (if spi_ErrorCode h8 \<noteq> HAL_SPI_ERROR_NONE then HAL_ERROR else HAL_OK) h8)
                   } })"

section \<open>Blocking reception\<close>

partial_function (option) spi_rx_loop ::
  "hw \<Rightarrow> bool \<Rightarrow> u32 \<Rightarrow> u32 \<Rightarrow> spi \<Rightarrow> (bool \<times> spi) option" where
  "spi_rx_loop hw wide Timeout tickstart h =
     (if RxXferCount h = 0 then Some (True, h)
      else let t = spi_now h; h1 = h\<lparr>spi_now := Suc t\<rparr>
           in if hw_SR hw t AND SPI_FLAG_RXNE = SPI_FLAG_RXNE
              then spi_rx_loop hw wide Timeout tickstart
                     ((if wide then spi_get16 hw h1 else spi_get8 hw h1)\<lparr>RxXferCount := RxXferCount h1 - 1\<rparr>)
              else if tick_expired hw tickstart Timeout t then Some (False, h1)
              else spi_rx_loop hw wide Timeout tickstart h1)"

text \<open>\<^verbatim>\<open>SPI_WaitFlagStateUntilTimeout(hspi, SPI_FLAG_RXNE, SPI_FLAG_RXNE, Timeout)\<close>.\<close>
definition spi_wait_rxne :: "hw \<Rightarrow> u32 \<Rightarrow> spi \<Rightarrow> (HAL_StatusTypeDef \<times> spi) option" where
  "spi_wait_rxne hw Timeout h = SPI_WaitFlagStateUntilTimeout hw SPI_FLAG_RXNE SPI_FLAG_RXNE Timeout h"

text \<open>The last data item and the CRC of a reception with CRC; the boolean tells whether the function goes on
  (\<open>False\<close>: jump to \<^verbatim>\<open>error\<close> with \<^verbatim>\<open>HAL_TIMEOUT\<close>).  The last item is stored without advancing the
  buffer pointer.\<close>
definition spi_rx_crc :: "hw \<Rightarrow> u32 \<Rightarrow> spi \<Rightarrow> (bool \<times> spi) option" where
  "spi_rx_crc hw Timeout h =
     do { (st1, h1) \<leftarrow> spi_wait_rxne hw Timeout (spi_crcnext h);
          if st1 \<noteq> HAL_OK then Some (False, h1)
          else do {
            let h2 = (if spi_DataSize (spi_Init h1) > SPI_DATASIZE_8BIT
                      then (spi_get16 hw h1)\<lparr>pRxBuffPtr := pRxBuffPtr h1\<rparr>
                      else (spi_get8 hw h1)\<lparr>pRxBuffPtr := pRxBuffPtr h1\<rparr>);
            (st2, h3) \<leftarrow> spi_wait_rxne hw Timeout h2;
            if st2 \<noteq> HAL_OK then Some (False, h3\<lparr>spi_ErrorCode := HAL_SPI_ERROR_CRC\<rparr>)
            else if spi_DataSize (spi_Init h3) = SPI_DATASIZE_16BIT then Some (True, spi_drop16 h3)
            else let h4 = spi_drop8 h3
                 in if spi_DataSize (spi_Init h4) = SPI_DATASIZE_8BIT
                       \<and> spi_CRCLength (spi_Init h4) = SPI_CRC_LENGTH_16BIT
                    then do { (st3, h5) \<leftarrow> spi_wait_rxne hw Timeout h4;
                              if st3 \<noteq> HAL_OK
                              then Some (False, h5\<lparr>spi_ErrorCode := HAL_SPI_ERROR_CRC\<rparr>)
                              else Some (True, spi_drop8 h5) }
                    else Some (True, h4) } }"

text \<open>\<^verbatim>\<open>if(__HAL_SPI_GET_FLAG(hspi, SPI_FLAG_CRCERR) != RESET)\<close> and its body; the boolean is the test.\<close>
definition spi_check_crcerr :: "hw \<Rightarrow> spi \<Rightarrow> bool \<times> spi" where
  "spi_check_crcerr hw h =
     (let err = (hw_SR hw (spi_now h) AND SPI_FLAG_CRCERR = SPI_FLAG_CRCERR);
          h1 = h\<lparr>spi_now := Suc (spi_now h)\<rparr>
      in (err, if err then spi_CLEAR_CRCERRFLAG (h1\<lparr>spi_ErrorCode := spi_ErrorCode h1 OR HAL_SPI_ERROR_CRC\<rparr>)
               else h1))"

section \<open>Blocking full-duplex transfer\<close>

definition spi_txrx_send :: "hw \<Rightarrow> bool \<Rightarrow> spi \<Rightarrow> spi" where
  "spi_txrx_send hw wide h =
     (if TxXferCount h = 0 then h
      else let t = spi_now h; h1 = h\<lparr>spi_now := Suc t\<rparr>
           in if hw_SR hw t AND SPI_FLAG_TXE = SPI_FLAG_TXE
              then let h2 = (if wide then (spi_put16 h1)\<lparr>TxXferCount := TxXferCount h1 - 1\<rparr>
                             else if TxXferCount h1 > 1
                             then (spi_put16 h1)\<lparr>TxXferCount := TxXferCount h1 - 2\<rparr>
                             else (spi_put8 h1)\<lparr>TxXferCount := TxXferCount h1 - 1\<rparr>)
                   in if TxXferCount h2 = 0 \<and> spi_crc_on h2
                      then spi_crcnext
                             (if spi_CR1 h2 AND SPI_CR1_MSTR = 0 \<and> spi_CR2 h2 AND SPI_CR2_NSSP = SPI_CR2_NSSP
                              then h2\<lparr>spi_CR1 := SET_BIT (spi_CR1 h2) SPI_CR1_SSM\<rparr> else h2)
                      else h2
              else h1)"

definition spi_txrx_receive :: "hw \<Rightarrow> bool \<Rightarrow> spi \<Rightarrow> spi" where
  "spi_txrx_receive hw wide h =
     (if RxXferCount h = 0 then h
      else let t = spi_now h; h1 = h\<lparr>spi_now := Suc t\<rparr>
           in if hw_SR hw t AND SPI_FLAG_RXNE = SPI_FLAG_RXNE
              then if wide then (spi_get16 hw h1)\<lparr>RxXferCount := RxXferCount h1 - 1\<rparr>
                   else if RxXferCount h1 > 1
                   then let h2 = (spi_get16 hw h1)\<lparr>RxXferCount := RxXferCount h1 - 2\<rparr>
                        in if RxXferCount h2 \<le> 1 then spi_rx_threshold8 h2 else h2
                   else (spi_get8 hw h1)\<lparr>RxXferCount := RxXferCount h1 - 1\<rparr>
              else h1)"

partial_function (option) spi_txrx_loop ::
  "hw \<Rightarrow> bool \<Rightarrow> u32 \<Rightarrow> u32 \<Rightarrow> spi \<Rightarrow> (bool \<times> spi) option" where
  "spi_txrx_loop hw wide Timeout tickstart h =
     (if TxXferCount h = 0 \<and> RxXferCount h = 0 then Some (True, h)
      else let h1 = spi_txrx_receive hw wide (spi_txrx_send hw wide h);
               h2 = h1\<lparr>spi_now := Suc (spi_now h1)\<rparr>
           in if tick_expired hw tickstart Timeout (spi_now h1) then Some (False, h2)
              else spi_txrx_loop hw wide Timeout tickstart h2)"

text \<open>The CRC of a full-duplex transfer; \<open>False\<close>: jump to \<^verbatim>\<open>error\<close> with \<^verbatim>\<open>HAL_TIMEOUT\<close>.\<close>
definition spi_txrx_crc :: "hw \<Rightarrow> u32 \<Rightarrow> spi \<Rightarrow> (bool \<times> spi) option" where
  "spi_txrx_crc hw Timeout h =
     do { (st1, h1) \<leftarrow> spi_wait_rxne hw Timeout h;
          if st1 \<noteq> HAL_OK then Some (False, h1\<lparr>spi_ErrorCode := spi_ErrorCode h1 OR HAL_SPI_ERROR_CRC\<rparr>)
          else if spi_DataSize (spi_Init h1) = SPI_DATASIZE_16BIT then Some (True, spi_drop16 h1)
          else let h2 = spi_drop8 h1
               in if spi_CRCLength (spi_Init h2) = SPI_CRC_LENGTH_16BIT
                  then do { (st2, h3) \<leftarrow> spi_wait_rxne hw Timeout h2;
                            if st2 \<noteq> HAL_OK
                            then Some (False, h3\<lparr>spi_ErrorCode := spi_ErrorCode h3 OR HAL_SPI_ERROR_CRC\<rparr>)
                            else Some (True, spi_drop8 h3) }
                  else Some (True, h2) }"

definition HAL_SPI_TransmitReceive ::
  "hw \<Rightarrow> u32 \<Rightarrow> u32 \<Rightarrow> u16 \<Rightarrow> u32 \<Rightarrow> spi \<Rightarrow> (HAL_StatusTypeDef \<times> spi) option" where
  "HAL_SPI_TransmitReceive hw pTxData pRxData Size Timeout h =
     (if spi_Lock h = HAL_LOCKED then Some (HAL_BUSY, h)
      else if spi_State h \<noteq> HAL_SPI_STATE_READY then Some (spi_exit HAL_BUSY h)
      else if pTxData = NULL \<or> pRxData = NULL \<or> Size = 0 then Some (spi_exit HAL_ERROR h)
      else let tickstart = hw_tick hw (spi_now h);
               h1 = h\<lparr>spi_Lock := HAL_LOCKED, spi_now := Suc (spi_now h),
                  spi_State := HAL_SPI_STATE_BUSY_TX_RX, spi_ErrorCode := HAL_SPI_ERROR_NONE,
                  pRxBuffPtr := pRxData, RxXferCount := Size, RxXferSize := Size,
                  pTxBuffPtr := pTxData, TxXferCount := Size, TxXferSize := Size\<rparr>;
               h2 = (if spi_crc_on h1 then SPI_RESET_CRC h1 else h1);
               wide = (spi_DataSize (spi_Init h2) > SPI_DATASIZE_8BIT);
               h3 = (if wide \<or> RxXferCount h2 > 1 then spi_rx_threshold16 h2 else spi_rx_threshold8 h2);
               h4 = spi_enable_if_needed h3
           in do { (ok, h5) \<leftarrow> spi_txrx_loop hw wide Timeout tickstart h4;
                   if \<not> ok then Some (spi_exit HAL_TIMEOUT h5)
                   else do {
                     (ok2, h6) \<leftarrow> (if spi_crc_on h5 then spi_txrx_crc hw Timeout h5 else Some (True, h5));
                     if \<not> ok2 then Some (spi_exit HAL_TIMEOUT h6)
                     else do {
                       let (crcerr, h7) = spi_check_crcerr hw h6;
                       (st, h8) \<leftarrow> SPI_EndRxTxTransaction hw Timeout h7;
                       let h9 = (if st \<noteq> HAL_OK then h8\<lparr>spi_ErrorCode := HAL_SPI_ERROR_FLAG\<rparr> else h8);
                       Some (spi_exit (if crcerr \<or> spi_ErrorCode h9 \<noteq> HAL_SPI_ERROR_NONE
                                       then HAL_ERROR else HAL_OK) h9)
                     } } })"

definition HAL_SPI_Receive ::
  "hw \<Rightarrow> u32 \<Rightarrow> u16 \<Rightarrow> u32 \<Rightarrow> spi \<Rightarrow> (HAL_StatusTypeDef \<times> spi) option" where
  "HAL_SPI_Receive hw pData Size Timeout h =
     (if spi_Mode (spi_Init h) = SPI_MODE_MASTER \<and> spi_Direction (spi_Init h) = SPI_DIRECTION_2LINES
      then HAL_SPI_TransmitReceive hw pData pData Size Timeout h
      else if spi_Lock h = HAL_LOCKED then Some (HAL_BUSY, h)
      else if spi_State h \<noteq> HAL_SPI_STATE_READY then Some (spi_exit HAL_BUSY h)
      else if pData = NULL \<or> Size = 0 then Some (spi_exit HAL_ERROR h)
      else let tickstart = hw_tick hw (spi_now h);
               h1 = h\<lparr>spi_Lock := HAL_LOCKED, spi_now := Suc (spi_now h),
                  spi_State := HAL_SPI_STATE_BUSY_RX, spi_ErrorCode := HAL_SPI_ERROR_NONE,
                  pRxBuffPtr := pData, RxXferSize := Size, RxXferCount := Size,
                  pTxBuffPtr := NULL, TxXferSize := 0, TxXferCount := 0\<rparr>;
               h2 = (if spi_crc_on h1
                     then (SPI_RESET_CRC h1)\<lparr>RxXferCount := RxXferCount h1 - 1\<rparr> else h1);
               wide = (spi_DataSize (spi_Init h2) > SPI_DATASIZE_8BIT);
               h3 = (if wide then spi_rx_threshold16 h2 else spi_rx_threshold8 h2);
               h4 = (if spi_Direction (spi_Init h3) = SPI_DIRECTION_1LINE
                     then h3\<lparr>spi_CR1 := spi_CR1 h3 AND NOT SPI_CR1_BIDIOE\<rparr> else h3);
               h5 = spi_enable_if_needed h4
           in do { (ok, h6) \<leftarrow> spi_rx_loop hw wide Timeout tickstart h5;
                   if \<not> ok then Some (spi_exit HAL_TIMEOUT h6)
                   else do {
                     (ok2, h7) \<leftarrow> (if spi_crc_on h6 then spi_rx_crc hw Timeout h6 else Some (True, h6));
                     if \<not> ok2 then Some (spi_exit HAL_TIMEOUT h7)
                     else do {
                       (st, h8) \<leftarrow> SPI_EndRxTransaction hw Timeout h7;
                       let h9 = (if st \<noteq> HAL_OK then h8\<lparr>spi_ErrorCode := HAL_SPI_ERROR_FLAG\<rparr> else h8);
                       let (_, h10) = spi_check_crcerr hw h9;
                       Some (spi_exit (if spi_ErrorCode h10 \<noteq> HAL_SPI_ERROR_NONE
                                       then HAL_ERROR else HAL_OK) h10)
                     } } })"

text \<open>\<^verbatim>\<open>HAL_SPIEx_FlushRxFifo\<close>: at most \<^verbatim>\<open>SPI_FIFO_SIZE\<close> reads; the argument counts the reads left.\<close>
fun spi_flush :: "hw \<Rightarrow> nat \<Rightarrow> spi \<Rightarrow> HAL_StatusTypeDef \<times> spi" where
  "spi_flush hw left h =
     (let t = spi_now h; h1 = h\<lparr>spi_now := Suc t\<rparr>
      in if hw_SR hw t AND SPI_FLAG_FRLVL = 0 then (HAL_OK, h1)
         else case left of
                Suc (Suc k) \<Rightarrow> spi_flush hw (Suc k) (spi_drop16 h1)
              | _ \<Rightarrow> (HAL_TIMEOUT, spi_drop16 h1))"

definition SPI_FIFO_SIZE :: nat where "SPI_FIFO_SIZE = 4"

definition HAL_SPIEx_FlushRxFifo :: "hw \<Rightarrow> spi \<Rightarrow> HAL_StatusTypeDef \<times> spi" where
  "HAL_SPIEx_FlushRxFifo hw h = spi_flush hw SPI_FIFO_SIZE h"

end
