(* ===== verification/Spi_Transfer.thy ===== *)
theory Spi_Transfer
  imports Hal_Spi
begin

text \<open>
  Correctness of the SPI transfers of \<open>Hal_Spi\<close>: the bytes that an interrupt-driven or a blocking
  transmission hands to the data register, the state in which it leaves the handle, and when it
  returns at all.
\<close>

section \<open>Lemmas\<close>

fun io_bytes :: "spi_io \<Rightarrow> u8 list" where
  "io_bytes (DR_write16 v) = bytes16 v"
| "io_bytes (DR_write8 b) = [b]"
| "io_bytes _ = []"

text \<open>The bytes handed to the data register so far, in the order in which they leave it.\<close>
definition spi_sent :: "spi \<Rightarrow> u8 list" where
  "spi_sent h = concat (map io_bytes (spi_io h))"

text \<open>\<open>n\<close> interrupts in a row.\<close>
fun spi_irqs :: "hw \<Rightarrow> nat \<Rightarrow> spi \<Rightarrow> spi option" where
  "spi_irqs hw 0 h = Some h"
| "spi_irqs hw (Suc n) h = do { h' \<leftarrow> HAL_SPI_IRQHandler hw h; spi_irqs hw n h' }"

lemma spi_irqs_add: "spi_irqs hw (m + n) h = do { h' \<leftarrow> spi_irqs hw m h; spi_irqs hw n h' }"
  by (induction m arbitrary: h) (simp_all split: Option.bind_splits)

lemma spi_sent_simps [simp]:
  "spi_sent (h\<lparr>spi_now := t\<rparr>) = spi_sent h" "spi_sent (h\<lparr>TxXferCount := c\<rparr>) = spi_sent h"
  "spi_sent (h\<lparr>spi_State := s\<rparr>) = spi_sent h" "spi_sent (h\<lparr>spi_Lock := l\<rparr>) = spi_sent h"
  "spi_sent (h\<lparr>spi_ErrorCode := e\<rparr>) = spi_sent h" "spi_sent (h\<lparr>spi_CR1 := r\<rparr>) = spi_sent h"
  "spi_sent (h\<lparr>spi_CR2 := r\<rparr>) = spi_sent h" "spi_sent (h\<lparr>spi_cb := cb\<rparr>) = spi_sent h"
  "spi_sent (h\<lparr>spi_io := spi_io h @ replicate n DR_read8\<rparr>) = spi_sent h"
  "spi_sent (spi_CLEAR_OVRFLAG h) = spi_sent h" "spi_sent (spi_DISABLE_IT it h) = spi_sent h"
  "spi_sent (spi_ENABLE_IT it h) = spi_sent h" "spi_sent (spi_callback k h) = spi_sent h"
  "spi_sent (spi_flag_error h) = spi_sent h" "spi_sent (spi_crcnext h) = spi_sent h"
  "spi_sent (spi_timeout h) = spi_sent h" "spi_sent (SPI_RESET_CRC h) = spi_sent h"
  "spi_sent (spi_enable_if_needed h) = spi_sent h"
  by (simp_all add: spi_sent_def spi_macros spi_flag_error_def spi_dr spi_timeout_def Let_def)

lemma spi_sent_put [simp]:
  "spi_sent (spi_put8 h) = spi_sent h @ [spi_mem h (pTxBuffPtr h)]"
  "spi_sent (spi_put16 h) = spi_sent h @ [spi_mem h (pTxBuffPtr h), spi_mem h (pTxBuffPtr h + 1)]"
  by (simp_all add: spi_sent_def spi_dr spi_log_def)

lemma and_mask_0: "a AND x = 0 \<Longrightarrow> (a AND m) AND x = 0" for a :: u32
  by (metis and.left_commute and.commute bit.conj_zero_right)

lemma or_flag_nonzero [simp]: "e OR HAL_SPI_ERROR_FLAG \<noteq> 0"
proof
  assume "e OR HAL_SPI_ERROR_FLAG = 0"
  then have "bit (e OR HAL_SPI_ERROR_FLAG) 5 = bit (0 :: u32) 5" by simp
  then show False by (simp add: bit_or_iff HAL_SPI_ERROR_FLAG_def)
qed

lemma wait_flag_cases:
  assumes "SPI_WaitFlagStateUntilTimeout hw F S T h = Some (st, h')"
  obtains (ok) t where "st = HAL_OK" "h' = h\<lparr>spi_now := t\<rparr>" "spi_now h < t"
    | (timeout) t where "st = HAL_TIMEOUT" "h' = spi_timeout (h\<lparr>spi_now := t\<rparr>)" "spi_now h < t"
proof -
  from assms obtain b t where
    w: "wait_until hw (\<lambda>t. hw_SR hw t AND F = S) T (spi_now h) = Some (b, t)"
    and r: "(if b then (HAL_OK, h\<lparr>spi_now := t\<rparr>) else (HAL_TIMEOUT, spi_timeout (h\<lparr>spi_now := t\<rparr>))) = (st, h')"
    unfolding SPI_WaitFlagStateUntilTimeout_def by (auto simp only: Option.bind_eq_Some_conv option.inject split_paired_all prod.case)
  show thesis
    by (cases b) (use r wait_until_time [OF w] in \<open>auto intro: that\<close>)
qed

lemma wait_tx_fifo_cases:
  assumes "SPI_WaitFifoStateUntilTimeout hw SPI_FLAG_FTLVL S T h = Some (st, h')"
  obtains (ok) t where "st = HAL_OK" "h' = h\<lparr>spi_now := t\<rparr>" "spi_now h < t"
    | (timeout) t where "st = HAL_TIMEOUT" "h' = spi_timeout (h\<lparr>spi_now := t\<rparr>)" "spi_now h < t"
proof -
  have ne: "(SPI_FLAG_FTLVL = SPI_FLAG_FRLVL) = False" by (simp add: spi_consts)
  from assms obtain b t where
    w: "wait_until hw (\<lambda>t. hw_SR hw t AND SPI_FLAG_FTLVL = S) T (spi_now h) = Some (b, t)"
    and r: "(if b then (HAL_OK, h\<lparr>spi_now := t\<rparr>) else (HAL_TIMEOUT, spi_timeout (h\<lparr>spi_now := t\<rparr>))) = (st, h')"
    unfolding SPI_WaitFifoStateUntilTimeout_def
    by (auto simp only: Option.bind_eq_Some_conv option.inject split_paired_all prod.case Let_def ne simp_thms if_False)
  show thesis
    by (cases b) (use r wait_until_time [OF w] in \<open>auto intro: that\<close>)
qed

lemma EndRxTx_cases:
  assumes "SPI_EndRxTxTransaction hw T h = Some (st, h')"
  obtains (ok) t where "st = HAL_OK" "h' = h\<lparr>spi_now := t\<rparr>"
    | (timeout) t where "st = HAL_TIMEOUT" "h' = spi_flag_error (spi_timeout (h\<lparr>spi_now := t\<rparr>))"
proof -
  from assms obtain st1 h1 where w1: "SPI_WaitFifoStateUntilTimeout hw SPI_FLAG_FTLVL 0 T h = Some (st1, h1)"
    and rest: "(if st1 \<noteq> HAL_OK then Some (HAL_TIMEOUT, spi_flag_error h1)
      else do { (st2, h2) \<leftarrow> SPI_WaitFlagStateUntilTimeout hw SPI_FLAG_BSY 0 T h1;
                if st2 \<noteq> HAL_OK then Some (HAL_TIMEOUT, spi_flag_error h2) else Some (HAL_OK, h2) })
      = Some (st, h')"
    by (auto simp: SPI_EndRxTxTransaction_def Option.bind_eq_Some_conv)
  from w1 show thesis
  proof (cases rule: wait_tx_fifo_cases)
    case (ok t)
    with rest obtain st2 h2 where w2: "SPI_WaitFlagStateUntilTimeout hw SPI_FLAG_BSY 0 T h1 = Some (st2, h2)"
      and r2: "(if st2 \<noteq> HAL_OK then Some (HAL_TIMEOUT, spi_flag_error h2) else Some (HAL_OK, h2)) = Some (st, h')"
      by (auto simp: Option.bind_eq_Some_conv)
    from w2 show thesis
      by (cases rule: wait_flag_cases) (use r2 ok in \<open>auto intro: that\<close>)
  next
    case (timeout t)
    with rest show thesis by (auto intro: that)
  qed
qed

lemma spi_timeout_fields [simp]:
  "spi_mem (spi_timeout h) = spi_mem h" "TxXferCount (spi_timeout h) = TxXferCount h"
  "spi_cb (spi_timeout h) = spi_cb h" "spi_ErrorCode (spi_timeout h) = spi_ErrorCode h"
  "spi_Init (spi_timeout h) = spi_Init h" "spi_State (spi_timeout h) = HAL_SPI_STATE_READY"
  "spi_CR2 (spi_timeout h) = spi_CR2 h AND NOT (SPI_IT_TXE OR SPI_IT_RXNE OR SPI_IT_ERR)"
  by (simp_all add: spi_timeout_def spi_macros Let_def)

lemma spi_op_fields [simp]:
  "spi_mem (spi_CLEAR_OVRFLAG h) = spi_mem h" "TxXferCount (spi_CLEAR_OVRFLAG h) = TxXferCount h" "spi_cb (spi_CLEAR_OVRFLAG h) = spi_cb h" "spi_ErrorCode (spi_CLEAR_OVRFLAG h) = spi_ErrorCode h"
  "spi_Init (spi_CLEAR_OVRFLAG h) = spi_Init h" "spi_State (spi_CLEAR_OVRFLAG h) = spi_State h" "spi_CR2 (spi_CLEAR_OVRFLAG h) = spi_CR2 h" "spi_CR1 (spi_CLEAR_OVRFLAG h) = spi_CR1 h"
  "pTxBuffPtr (spi_CLEAR_OVRFLAG h) = pTxBuffPtr h" "spi_Lock (spi_CLEAR_OVRFLAG h) = spi_Lock h"
  "spi_mem (spi_callback k h) = spi_mem h" "TxXferCount (spi_callback k h) = TxXferCount h" "spi_ErrorCode (spi_callback k h) = spi_ErrorCode h" "spi_Init (spi_callback k h) = spi_Init h"
  "spi_State (spi_callback k h) = spi_State h" "spi_CR2 (spi_callback k h) = spi_CR2 h" "spi_CR1 (spi_callback k h) = spi_CR1 h" "spi_now (spi_callback k h) = spi_now h"
  "pTxBuffPtr (spi_callback k h) = pTxBuffPtr h" "spi_Lock (spi_callback k h) = spi_Lock h"
  "spi_mem (spi_flag_error h) = spi_mem h" "TxXferCount (spi_flag_error h) = TxXferCount h" "spi_cb (spi_flag_error h) = spi_cb h" "spi_Init (spi_flag_error h) = spi_Init h"
  "spi_State (spi_flag_error h) = spi_State h" "spi_CR2 (spi_flag_error h) = spi_CR2 h" "spi_CR1 (spi_flag_error h) = spi_CR1 h" "spi_now (spi_flag_error h) = spi_now h"
  "pTxBuffPtr (spi_flag_error h) = pTxBuffPtr h" "spi_Lock (spi_flag_error h) = spi_Lock h"
  "spi_mem (spi_DISABLE_IT it h) = spi_mem h" "TxXferCount (spi_DISABLE_IT it h) = TxXferCount h" "spi_cb (spi_DISABLE_IT it h) = spi_cb h" "spi_ErrorCode (spi_DISABLE_IT it h) = spi_ErrorCode h"
  "spi_Init (spi_DISABLE_IT it h) = spi_Init h" "spi_State (spi_DISABLE_IT it h) = spi_State h" "spi_CR1 (spi_DISABLE_IT it h) = spi_CR1 h" "spi_now (spi_DISABLE_IT it h) = spi_now h"
  "pTxBuffPtr (spi_DISABLE_IT it h) = pTxBuffPtr h" "spi_Lock (spi_DISABLE_IT it h) = spi_Lock h"
  "spi_mem (spi_crcnext h) = spi_mem h" "TxXferCount (spi_crcnext h) = TxXferCount h" "spi_cb (spi_crcnext h) = spi_cb h" "spi_ErrorCode (spi_crcnext h) = spi_ErrorCode h"
  "spi_Init (spi_crcnext h) = spi_Init h" "spi_State (spi_crcnext h) = spi_State h" "spi_CR2 (spi_crcnext h) = spi_CR2 h" "spi_now (spi_crcnext h) = spi_now h"
  "pTxBuffPtr (spi_crcnext h) = pTxBuffPtr h" "spi_Lock (spi_crcnext h) = spi_Lock h"
  "spi_cb (spi_callback k h) = spi_cb h @ [k]"
  "spi_ErrorCode (spi_flag_error h) = spi_ErrorCode h OR HAL_SPI_ERROR_FLAG"
  "spi_CR2 (spi_DISABLE_IT it h) = spi_CR2 h AND NOT it"
  by (simp_all add: spi_macros spi_flag_error_def spi_crcnext_def)

lemma CloseTx_result:
  assumes "SPI_CloseTx_ISR hw h = Some h'"
  shows "spi_State h' = HAL_SPI_STATE_READY \<and> spi_sent h' = spi_sent h
    \<and> TxXferCount h' = TxXferCount h \<and> spi_mem h' = spi_mem h \<and> spi_Init h' = spi_Init h
    \<and> spi_CR2 h' AND SPI_IT_TXE = 0
    \<and> spi_cb h' = spi_cb h @ [if spi_ErrorCode h' = 0 then TxCpltCallback else ErrorCallback]"
proof -
  let ?h = "spi_DISABLE_IT (SPI_IT_TXE OR SPI_IT_ERR) h"
  have m: "spi_CR2 ?h AND SPI_IT_TXE = 0"
    by (simp add: spi_DISABLE_IT_def spi_consts and.assoc)
  from assms obtain st h1 where e: "SPI_EndRxTxTransaction hw SPI_DEFAULT_TIMEOUT ?h = Some (st, h1)"
    unfolding SPI_CloseTx_ISR_def by (auto simp: Option.bind_eq_Some_conv)
  note close = assms [unfolded SPI_CloseTx_ISR_def e, simplified]
  from e show ?thesis
  proof (cases rule: EndRxTx_cases)
    case (ok t)
    then show ?thesis
      using close m
      by (auto simp: Let_def HAL_SPI_ERROR_NONE_def simp del: bit.de_Morgan_disj split: if_split_asm)
  next
    case (timeout t)
    then show ?thesis
      using close m
      by (auto simp: Let_def HAL_SPI_ERROR_NONE_def and_mask_0 simp del: bit.de_Morgan_disj split: if_split_asm)
  qed
qed

lemma EndRxTx_returns:
  assumes "tick_advances hw" "T \<noteq> HAL_MAX_DELAY"
  shows "\<exists>r. SPI_EndRxTxTransaction hw T h = Some r"
proof -
  have flag: "\<exists>st h'. SPI_WaitFlagStateUntilTimeout hw F S T h = Some (st, h')" for F S h
    using wait_until_returns [OF assms, of "\<lambda>t. hw_SR hw t AND F = S" "spi_now h"]
    by (auto simp: SPI_WaitFlagStateUntilTimeout_def)
  have "\<exists>st h'. SPI_WaitFifoStateUntilTimeout hw F S T h = Some (st, h')" for F S h
    using wait_until_returns [OF assms, of "\<lambda>t. hw_SR hw t AND F = S" "spi_now h"]
    by (auto simp: SPI_WaitFifoStateUntilTimeout_def Let_def)
  then obtain st h1 where 1: "SPI_WaitFifoStateUntilTimeout hw SPI_FLAG_FTLVL 0 T h = Some (st, h1)"
    by blast
  obtain st2 h2 where 2: "SPI_WaitFlagStateUntilTimeout hw SPI_FLAG_BSY 0 T h1 = Some (st2, h2)"
    using flag by blast
  show ?thesis
    by (simp add: SPI_EndRxTxTransaction_def 1 2)
qed

lemma CloseTx_returns: "tick_advances hw \<Longrightarrow> \<exists>h'. SPI_CloseTx_ISR hw h = Some h'"
  using EndRxTx_returns [of hw SPI_DEFAULT_TIMEOUT "spi_DISABLE_IT (SPI_IT_TXE OR SPI_IT_ERR) h"]
  by (auto simp: SPI_CloseTx_ISR_def SPI_DEFAULT_TIMEOUT_def HAL_MAX_DELAY_def Let_def)

text \<open>The close of a transmission never returns while the tick stands still and the FIFO is stuck.\<close>
lemma CloseTx_stuck:
  assumes "tick_frozen hw (spi_now h)" "\<And>n. spi_now h < n \<Longrightarrow> hw_SR hw n AND SPI_FLAG_FTLVL \<noteq> 0"
  shows "SPI_CloseTx_ISR hw h = None"
proof -
  have "wait_until hw (\<lambda>t. hw_SR hw t AND SPI_FLAG_FTLVL = 0) SPI_DEFAULT_TIMEOUT (spi_now h) = None"
    using assms by (intro wait_until_stuck) (auto simp: SPI_DEFAULT_TIMEOUT_def)
  then show ?thesis
    by (simp add: SPI_CloseTx_ISR_def SPI_EndRxTxTransaction_def SPI_WaitFifoStateUntilTimeout_def
        spi_DISABLE_IT_def)
qed

text \<open>One TXE interrupt of an 8-bit transmission.\<close>
lemma irq_tx8:
  assumes "TxISR h = TxISR_8BIT" "spi_CR2 h AND SPI_IT_RXNE = 0" "spi_CR2 h AND SPI_IT_TXE \<noteq> 0"
    "hw_SR hw (spi_now h) AND SPI_FLAG_TXE \<noteq> 0"
  shows "HAL_SPI_IRQHandler hw h = SPI_TxISR_8BIT hw (h\<lparr>spi_now := Suc (spi_now h)\<rparr>)"
  using assms by (simp add: HAL_SPI_IRQHandler_def Let_def)

text \<open>The state of an 8-bit transmission of \<open>n\<close> bytes at \<open>p\<close> after \<open>k\<close> interrupts.\<close>
definition tx_at :: "spi \<Rightarrow> u32 \<Rightarrow> nat \<Rightarrow> nat \<Rightarrow> spi \<Rightarrow> bool" where
  "tx_at h0 p n k h \<longleftrightarrow> TxISR h = TxISR_8BIT \<and> spi_CR2 h = spi_CR2 h0 \<and> \<not> spi_crc_on h
     \<and> pTxBuffPtr h = p + of_nat k \<and> TxXferCount h = of_nat (n - k) \<and> spi_now h = spi_now h0 + k
     \<and> spi_mem h = spi_mem h0 \<and> spi_State h = HAL_SPI_STATE_BUSY_TX \<and> spi_cb h = spi_cb h0
     \<and> spi_sent h = spi_sent h0 @ mem_bytes (spi_mem h0) p k \<and> spi_Init h = spi_Init h0 \<and> TxXferSize h = TxXferSize h0"

lemma mem_bytes_snoc: "mem_bytes m p (Suc k) = mem_bytes m p k @ [m (p + of_nat k)]"
  by (simp add: mem_bytes_def)

lemma of_nat_0_u16: "m < 65536 \<Longrightarrow> (of_nat m :: u16) = 0 \<longleftrightarrow> m = 0"
  by (subst word_unat_eq_iff) (simp add: unsigned_of_nat take_bit_nat_eq_self)

lemma of_nat_u16_eq_0: "k < n \<Longrightarrow> n < 2 ^ 16 \<Longrightarrow> (of_nat (n - k) :: u16) \<noteq> 0"
  by (subst of_nat_0_u16) simp_all

lemma tx8_step:
  assumes at: "tx_at h0 p n k h" and k: "Suc k < n" and n: "n < 2 ^ 16"
    and it: "spi_CR2 h0 AND SPI_IT_RXNE = 0" "spi_CR2 h0 AND SPI_IT_TXE \<noteq> 0"
    and txe: "hw_SR hw (spi_now h0 + k) AND SPI_FLAG_TXE \<noteq> 0"
  shows "\<exists>h'. HAL_SPI_IRQHandler hw h = Some h' \<and> tx_at h0 p n (Suc k) h'"
proof -
  have irq: "HAL_SPI_IRQHandler hw h = SPI_TxISR_8BIT hw (h\<lparr>spi_now := Suc (spi_now h)\<rparr>)"
    using at it txe by (intro irq_tx8) (simp_all add: tx_at_def)
  let ?g = "(spi_put8 (h\<lparr>spi_now := Suc (spi_now h)\<rparr>))\<lparr>TxXferCount := of_nat (n - Suc k)\<rparr>"
  have cnt: "TxXferCount h - 1 = of_nat (n - Suc k)"
    using at k by (simp add: tx_at_def of_nat_diff)
  have nz: "(of_nat (n - Suc k) :: u16) \<noteq> 0" using k n by (intro of_nat_u16_eq_0)
  have "SPI_TxISR_8BIT hw (h\<lparr>spi_now := Suc (spi_now h)\<rparr>) = Some ?g"
    using nz unfolding SPI_TxISR_8BIT_def Let_def by (simp add: spi_put8_def spi_log_def cnt [symmetric])
  moreover have "tx_at h0 p n (Suc k) ?g"
    using at by (auto simp: tx_at_def mem_bytes_snoc spi_sent_def spi_put8_def spi_log_def
        spi_crc_on_def)
  ultimately show ?thesis unfolding irq by blast
qed

lemma tx8_last:
  assumes at: "tx_at h0 p n k h" and k: "n = Suc k"
    and it: "spi_CR2 h0 AND SPI_IT_RXNE = 0" "spi_CR2 h0 AND SPI_IT_TXE \<noteq> 0"
    and txe: "hw_SR hw (spi_now h0 + k) AND SPI_FLAG_TXE \<noteq> 0"
  shows "\<exists>g. HAL_SPI_IRQHandler hw h = SPI_CloseTx_ISR hw g
    \<and> spi_sent g = spi_sent h0 @ mem_bytes (spi_mem h0) p n \<and> TxXferCount g = 0
    \<and> spi_now g = spi_now h0 + n \<and> spi_cb g = spi_cb h0 \<and> spi_Init g = spi_Init h0"
proof -
  have irq: "HAL_SPI_IRQHandler hw h = SPI_TxISR_8BIT hw (h\<lparr>spi_now := Suc (spi_now h)\<rparr>)"
    using at it txe by (intro irq_tx8) (simp_all add: tx_at_def)
  let ?g = "(spi_put8 (h\<lparr>spi_now := Suc (spi_now h)\<rparr>))\<lparr>TxXferCount := 0\<rparr>"
  have crc: "\<not> spi_crc_on h" and cnt: "TxXferCount h = 1" using at k by (simp_all add: tx_at_def)
  then have "SPI_TxISR_8BIT hw (h\<lparr>spi_now := Suc (spi_now h)\<rparr>) = SPI_CloseTx_ISR hw ?g"
    by (simp add: SPI_TxISR_8BIT_def Let_def spi_put8_def spi_log_def spi_crc_on_def)
  then show ?thesis
    using at k unfolding irq
    by (intro exI [of _ ?g]) (auto simp: tx_at_def mem_bytes_snoc spi_sent_def spi_put8_def spi_log_def)
qed

lemma tx8_run:
  assumes at: "tx_at h0 p n 0 h0" and k: "k < n" and n: "n < 2 ^ 16"
    and it: "spi_CR2 h0 AND SPI_IT_RXNE = 0" "spi_CR2 h0 AND SPI_IT_TXE \<noteq> 0"
    and txe: "\<And>t. spi_now h0 \<le> t \<Longrightarrow> t < spi_now h0 + n \<Longrightarrow> hw_SR hw t AND SPI_FLAG_TXE \<noteq> 0"
  shows "\<exists>h. spi_irqs hw k h0 = Some h \<and> tx_at h0 p n k h"
  using k
proof (induction k)
  case 0
  then show ?case using at by simp
next
  case (Suc k)
  then obtain h where h: "spi_irqs hw k h0 = Some h" "tx_at h0 p n k h" by auto
  obtain h' where "HAL_SPI_IRQHandler hw h = Some h'" "tx_at h0 p n (Suc k) h'"
    using tx8_step [OF h(2) Suc.prems n it txe] Suc.prems by auto
  then show ?case using h(1) spi_irqs_add [of hw k 1 h0] by simp
qed

lemma Transmit_IT_started:
  assumes "HAL_SPI_Transmit_IT p Size h = (HAL_OK, h1)" "\<not> spi_crc_on h"
  shows "p \<noteq> 0 \<and> Size \<noteq> 0 \<and> spi_State h1 = HAL_SPI_STATE_BUSY_TX \<and> pTxBuffPtr h1 = p
    \<and> TxXferSize h1 = Size \<and> TxXferCount h1 = Size \<and> spi_CR2 h1 = spi_CR2 h OR SPI_IT_TXE
    \<and> TxISR h1 = (if spi_DataSize (spi_Init h) > SPI_DATASIZE_8BIT then TxISR_16BIT else TxISR_8BIT)
    \<and> spi_Init h1 = spi_Init h \<and> spi_mem h1 = spi_mem h \<and> spi_io h1 = spi_io h
    \<and> spi_cb h1 = spi_cb h \<and> spi_now h1 = spi_now h \<and> spi_ErrorCode h1 = HAL_SPI_ERROR_NONE"
  using assms unfolding HAL_SPI_Transmit_IT_def Let_def NULL_def
  by (auto simp: spi_crc_on_def spi_macros split: if_split_asm)

lemma or_txe: "(r OR SPI_IT_TXE) AND SPI_IT_TXE \<noteq> 0"
proof
  assume "(r OR SPI_IT_TXE) AND SPI_IT_TXE = 0"
  then have "bit ((r OR SPI_IT_TXE) AND SPI_IT_TXE) 7 = bit (0 :: u32) 7" by simp
  then show False by (simp add: bit_simps SPI_IT_TXE_def)
qed

lemma or_txe_rxne: "(r OR SPI_IT_TXE) AND SPI_IT_RXNE = r AND SPI_IT_RXNE"
  by (simp add: SPI_IT_TXE_def SPI_IT_RXNE_def bit.conj_disj_distrib2)

lemma Transmit_IT_at:
  assumes "HAL_SPI_Transmit_IT p Size h = (HAL_OK, h1)"
    "spi_DataSize (spi_Init h) = SPI_DATASIZE_8BIT" "\<not> spi_crc_on h"
    "spi_CR2 h AND SPI_IT_RXNE = 0"
  shows "tx_at h1 p (unat Size) 0 h1" "spi_CR2 h1 AND SPI_IT_RXNE = 0" "spi_CR2 h1 AND SPI_IT_TXE \<noteq> 0"
    "spi_sent h1 = spi_sent h" "spi_mem h1 = spi_mem h" "spi_cb h1 = spi_cb h" "spi_now h1 = spi_now h"
    "spi_Init h1 = spi_Init h"
proof -
  note h1 = Transmit_IT_started [OF assms(1,3)]
  have crc: "\<not> spi_crc_on h1" using h1 assms(3) by (simp add: spi_crc_on_def)
  show "tx_at h1 p (unat Size) 0 h1" using crc h1 assms(2) by (simp add: tx_at_def)
  show "spi_CR2 h1 AND SPI_IT_RXNE = 0" "spi_CR2 h1 AND SPI_IT_TXE \<noteq> 0"
    using assms(4) h1 or_txe or_txe_rxne by metis+
  show "spi_sent h1 = spi_sent h" "spi_mem h1 = spi_mem h" "spi_cb h1 = spi_cb h" "spi_now h1 = spi_now h"
    "spi_Init h1 = spi_Init h" using h1 by (simp_all add: spi_sent_def)
qed


text \<open>All interrupts of an accepted transmission but for the close of the last one.\<close>
lemma tx8_until_close:
  assumes "HAL_SPI_Transmit_IT p Size h = (HAL_OK, h1)"
    and "spi_DataSize (spi_Init h) = SPI_DATASIZE_8BIT" "\<not> spi_crc_on h" "spi_CR2 h AND SPI_IT_RXNE = 0"
    and "\<And>t. spi_now h \<le> t \<Longrightarrow> t < spi_now h + unat Size \<Longrightarrow> hw_SR hw t AND SPI_FLAG_TXE \<noteq> 0"
  obtains c where "spi_irqs hw (unat Size) h1 = SPI_CloseTx_ISR hw c" "spi_now c = spi_now h + unat Size"
    "spi_sent c = spi_sent h @ mem_bytes (spi_mem h) p (unat Size)" "TxXferCount c = 0" "spi_cb c = spi_cb h"
proof -
  note at = Transmit_IT_at [OF assms(1-4)]
  have "Size \<noteq> 0" using Transmit_IT_started [OF assms(1,3)] by blast
  then obtain k where k: "unat Size = Suc k" by (metis nat.exhaust unat_eq_zero)
  have n: "unat Size < 2 ^ 16" using unsigned_less [of Size] by simp
  have txe: "hw_SR hw t AND SPI_FLAG_TXE \<noteq> 0" if "spi_now h1 \<le> t" "t < spi_now h1 + unat Size" for t
    using that assms(5) at(7) by simp
  obtain g where g: "spi_irqs hw k h1 = Some g" "tx_at h1 p (unat Size) k g"
    using tx8_run [OF at(1) _ n at(2,3) txe, of k] k by auto
  obtain c where c: "HAL_SPI_IRQHandler hw g = SPI_CloseTx_ISR hw c" "spi_now c = spi_now h1 + unat Size"
    "spi_sent c = spi_sent h1 @ mem_bytes (spi_mem h1) p (unat Size)" "TxXferCount c = 0" "spi_cb c = spi_cb h1"
    using tx8_last [OF g(2) k at(2,3) txe] k by auto
  have "spi_irqs hw (unat Size) h1 = SPI_CloseTx_ISR hw c"
    using g(1) c(1) spi_irqs_add [of hw k 1 h1] by (cases "SPI_CloseTx_ISR hw c") (simp_all add: k)
  with c at(4-7) show thesis by (intro that [of c]) simp_all
qed

section \<open>A concrete peripheral\<close>

text \<open>A slave handle as the firmware sets it up, the ticking environment with an empty FIFO, and a memory
  whose byte at address \<open>a\<close> is \<open>a mod 256\<close>.\<close>
definition ex_spi_init :: SPI_InitTypeDef where
  "ex_spi_init = \<lparr>spi_Mode = SPI_MODE_SLAVE, spi_Direction = SPI_DIRECTION_2LINES,
     spi_DataSize = SPI_DATASIZE_8BIT, spi_CLKPolarity = 0, spi_CLKPhase = 0, spi_NSS = 0,
     spi_BaudRatePrescaler = 0, spi_FirstBit = 0, spi_TIMode = 0,
     spi_CRCCalculation = SPI_CRCCALCULATION_DISABLE, spi_CRCPolynomial = 0,
     spi_CRCLength = SPI_CRC_LENGTH_DATASIZE, spi_NSSPMode = 0\<rparr>"

definition ex_spi :: spi where
  "ex_spi = \<lparr>spi_CR1 = 0, spi_CR2 = 0x1700, spi_CRCPR = 0, spi_Init = ex_spi_init, pTxBuffPtr = 0,
     TxXferSize = 0, TxXferCount = 0, pRxBuffPtr = 0, RxXferSize = 0, RxXferCount = 0, CRCSize = 0,
     RxISR = No_ISR, TxISR = No_ISR, spi_Lock = HAL_UNLOCKED, spi_State = HAL_SPI_STATE_READY,
     spi_ErrorCode = 0, spi_mem = (\<lambda>a. ucast a), spi_now = 0, spi_io = [], spi_cb = []\<rparr>"

definition ex_hw :: hw where
  "ex_hw = \<lparr>hw_tick = of_nat, hw_SR = (\<lambda>_. SPI_FLAG_TXE), hw_DR = (\<lambda>_. 0)\<rparr>"

lemma ex_hw_advances: "tick_advances ex_hw"
  unfolding tick_advances_def
proof (intro allI)
  fix t d
  have "hw_tick ex_hw (t + unat d) - hw_tick ex_hw t = d" by (simp add: ex_hw_def)
  then show "\<exists>n\<ge>t. hw_tick ex_hw n - hw_tick ex_hw t = d" by (intro exI [of _ "t + unat d"]) simp
qed

lemma ex_spi_facts:
  "spi_DataSize (spi_Init ex_spi) = SPI_DATASIZE_8BIT" "\<not> spi_crc_on ex_spi" "spi_CR2 ex_spi AND SPI_IT_RXNE = 0"
  "hw_SR ex_hw t AND SPI_FLAG_TXE \<noteq> 0" "spi_sent ex_spi = []"
  by (simp_all add: ex_spi_def ex_spi_init_def spi_crc_on_def spi_consts ex_hw_def spi_sent_def)

lemma ex_transmit: "\<exists>h. HAL_SPI_Transmit_IT 0x100 3 ex_spi = (HAL_OK, h)"
  by (simp add: HAL_SPI_Transmit_IT_def ex_spi_def NULL_def Let_def)

section \<open>Properties of interrupt-driven transmission\<close>

text \<open>C8: an interrupt-driven transmission of \<open>Size\<close> bytes: when \<^verbatim>\<open>HAL_SPI_Transmit_IT\<close> has accepted the
  buffer, \<open>Size\<close> interrupts with the transmit-empty flag set hand exactly the bytes of the buffer, in
  order and each once, to the data register; the last interrupt returns, leaves the driver ready with the
  transmit interrupt off and calls the completion callback, or the error callback when the line did not
  become idle in time.\<close>
theorem spi_transmit_complete:
  assumes "HAL_SPI_Transmit_IT p Size h = (HAL_OK, h1)"
    and "spi_DataSize (spi_Init h) = SPI_DATASIZE_8BIT" "\<not> spi_crc_on h" "spi_CR2 h AND SPI_IT_RXNE = 0"
    and "\<And>t. spi_now h \<le> t \<Longrightarrow> t < spi_now h + unat Size \<Longrightarrow> hw_SR hw t AND SPI_FLAG_TXE \<noteq> 0"
    and "tick_advances hw"
  shows "\<exists>h2. spi_irqs hw (unat Size) h1 = Some h2
    \<and> spi_sent h2 = spi_sent h @ mem_bytes (spi_mem h) p (unat Size)
    \<and> TxXferCount h2 = 0 \<and> spi_State h2 = HAL_SPI_STATE_READY \<and> spi_CR2 h2 AND SPI_IT_TXE = 0
    \<and> spi_cb h2 = spi_cb h @ [if spi_ErrorCode h2 = 0 then TxCpltCallback else ErrorCallback]"
proof -
  obtain c where c: "spi_irqs hw (unat Size) h1 = SPI_CloseTx_ISR hw c"
    "spi_sent c = spi_sent h @ mem_bytes (spi_mem h) p (unat Size)" "TxXferCount c = 0" "spi_cb c = spi_cb h"
    using tx8_until_close [OF assms(1-5)] by blast
  obtain h2 where h2: "SPI_CloseTx_ISR hw c = Some h2" using CloseTx_returns [OF assms(6)] by blast
  with CloseTx_result [OF h2] c show ?thesis by auto
qed

theorem spi_transmit_complete_witness:
  "\<exists>h h2. HAL_SPI_Transmit_IT 0x100 3 ex_spi = (HAL_OK, h) \<and> spi_irqs ex_hw 3 h = Some h2
     \<and> spi_sent h2 = [0, 1, 2] \<and> spi_State h2 = HAL_SPI_STATE_READY"
proof -
  obtain h where h: "HAL_SPI_Transmit_IT 0x100 3 ex_spi = (HAL_OK, h)" using ex_transmit by blast
  have b: "mem_bytes (spi_mem ex_spi) 0x100 3 = [0, 1, 2]"
    by (simp add: mem_bytes_def ex_spi_def upt_rec unsigned_ucast_eq)
  from spi_transmit_complete [OF h ex_spi_facts(1-4) ex_hw_advances] h b ex_spi_facts(5)
  show ?thesis by fastforce
qed

text \<open>C9: the SPI interrupt and the tick have the same pre-emption priority, so inside the handler the
  tick stands still; then the time-out of \<^verbatim>\<open>SPI_CloseTx_ISR\<close> cannot pass, and when the master stops
  clocking before the FIFO is empty the last interrupt of a transmission never returns.\<close>
theorem spi_last_interrupt_hangs:
  assumes "HAL_SPI_Transmit_IT p Size h = (HAL_OK, h1)"
    and "spi_DataSize (spi_Init h) = SPI_DATASIZE_8BIT" "\<not> spi_crc_on h" "spi_CR2 h AND SPI_IT_RXNE = 0"
    and "\<And>t. spi_now h \<le> t \<Longrightarrow> t < spi_now h + unat Size \<Longrightarrow> hw_SR hw t AND SPI_FLAG_TXE \<noteq> 0"
    and "tick_frozen hw (spi_now h + unat Size)"
    and "\<And>t. spi_now h + unat Size < t \<Longrightarrow> hw_SR hw t AND SPI_FLAG_FTLVL \<noteq> 0"
  shows "spi_irqs hw (unat Size) h1 = None"
proof -
  obtain c where "spi_irqs hw (unat Size) h1 = SPI_CloseTx_ISR hw c" "spi_now c = spi_now h + unat Size"
    using tx8_until_close [OF assms(1-5)] by blast
  then show ?thesis using CloseTx_stuck [of hw c] assms(6,7) by simp
qed

definition ex_hw_stuck :: hw where
  "ex_hw_stuck = \<lparr>hw_tick = (\<lambda>_. 0), hw_SR = (\<lambda>_. SPI_FLAG_TXE OR 0x800), hw_DR = (\<lambda>_. 0)\<rparr>"

lemma ex_hw_stuck_facts:
  "tick_frozen ex_hw_stuck t" "hw_SR ex_hw_stuck t AND SPI_FLAG_TXE \<noteq> 0" "hw_SR ex_hw_stuck t AND SPI_FLAG_FTLVL \<noteq> 0"
  by (simp_all add: ex_hw_stuck_def tick_frozen_def spi_consts)

theorem spi_last_interrupt_hangs_witness:
  "\<exists>h. HAL_SPI_Transmit_IT 0x100 3 ex_spi = (HAL_OK, h) \<and> spi_irqs ex_hw_stuck 3 h = None"
proof -
  obtain h where h: "HAL_SPI_Transmit_IT 0x100 3 ex_spi = (HAL_OK, h)" using ex_transmit by blast
  with spi_last_interrupt_hangs [OF h ex_spi_facts(1-3) ex_hw_stuck_facts(2,1,3)] show ?thesis by simp
qed

section \<open>Blocking transmission\<close>

text \<open>One pass of the narrow transmit loop that finds the FIFO ready.\<close>
definition tx_pass :: "spi \<Rightarrow> spi" where
  "tx_pass h =
     (let h1 = h\<lparr>spi_now := Suc (spi_now h)\<rparr>
      in if TxXferCount h1 > 1 then (spi_put16 h1)\<lparr>TxXferCount := TxXferCount h1 - 2\<rparr>
         else (spi_put8 h1)\<lparr>TxXferCount := TxXferCount h1 - 1\<rparr>)"

text \<open>The fields a transmission leaves alone, and what it has sent when \<open>h'\<close> is reached from \<open>h\<close>.\<close>
definition tx_progress :: "spi \<Rightarrow> spi \<Rightarrow> bool" where
  "tx_progress h h' \<longleftrightarrow> spi_mem h' = spi_mem h \<and> spi_Init h' = spi_Init h \<and> spi_ErrorCode h' = spi_ErrorCode h
     \<and> (\<exists>n \<le> unat (TxXferCount h). unat (TxXferCount h') = unat (TxXferCount h) - n
          \<and> pTxBuffPtr h' = pTxBuffPtr h + of_nat n
          \<and> spi_sent h' = spi_sent h @ mem_bytes (spi_mem h) (pTxBuffPtr h) n)"

lemma tx_progress_refl: "tx_progress h h"
  by (auto simp: tx_progress_def)

lemma tx_progress_trans:
  assumes "tx_progress a b" "tx_progress b c"
  shows "tx_progress a c"
proof -
  obtain n where n: "n \<le> unat (TxXferCount a)" "unat (TxXferCount b) = unat (TxXferCount a) - n"
    "pTxBuffPtr b = pTxBuffPtr a + of_nat n" "spi_sent b = spi_sent a @ mem_bytes (spi_mem a) (pTxBuffPtr a) n"
    using assms(1) by (auto simp: tx_progress_def)
  obtain m where m: "m \<le> unat (TxXferCount b)" "unat (TxXferCount c) = unat (TxXferCount b) - m"
    "pTxBuffPtr c = pTxBuffPtr b + of_nat m" "spi_sent c = spi_sent b @ mem_bytes (spi_mem b) (pTxBuffPtr b) m"
    using assms(2) by (auto simp: tx_progress_def)
  have "spi_mem b = spi_mem a" using assms(1) by (simp add: tx_progress_def)
  with n m have "n + m \<le> unat (TxXferCount a)" "unat (TxXferCount c) = unat (TxXferCount a) - (n + m)"
    "pTxBuffPtr c = pTxBuffPtr a + of_nat (n + m)"
    "spi_sent c = spi_sent a @ mem_bytes (spi_mem a) (pTxBuffPtr a) (n + m)"
    by (simp_all add: mem_bytes_add)
  then show ?thesis using assms by (auto simp: tx_progress_def)
qed

lemma unat_minus_2: "1 < c \<Longrightarrow> unat (c - 2) = unat c - 2" for c :: u16
  by (simp add: unat_sub word_le_nat_alt word_less_nat_alt)

lemma unat_minus_1: "c \<noteq> 0 \<Longrightarrow> unat (c - 1) = unat c - 1" for c :: u16
  by (simp add: unat_sub word_le_nat_alt Suc_leI unat_gt_0)

lemma tx_pass_progress:
  assumes "TxXferCount h \<noteq> 0"
  shows "tx_progress h (tx_pass h) \<and> unat (TxXferCount (tx_pass h)) < unat (TxXferCount h)"
proof (cases "TxXferCount h > 1")
  case True
  then have "2 \<le> unat (TxXferCount h)" by (simp add: word_less_nat_alt)
  with True show ?thesis
    by (auto simp: tx_progress_def tx_pass_def Let_def spi_sent_def spi_put16_def spi_log_def unat_minus_2
        numeral_2_eq_2 mem_bytes_Suc intro!: exI [of _ 2])
next
  case False
  have "0 < unat (TxXferCount h)" using assms by (simp add: unat_gt_0)
  with False show ?thesis
    using assms
    by (auto simp: tx_progress_def tx_pass_def Let_def spi_sent_def spi_put8_def spi_log_def unat_minus_1
        mem_bytes_Suc intro!: exI [of _ 1])
qed

lemma tx_loop_unfold:
  "spi_tx_loop hw False T ts h =
     (if TxXferCount h = 0 then Some (True, h)
      else if hw_SR hw (spi_now h) AND SPI_FLAG_TXE = SPI_FLAG_TXE then spi_tx_loop hw False T ts (tx_pass h)
      else if tick_expired hw ts T (spi_now h) then Some (False, h\<lparr>spi_now := Suc (spi_now h)\<rparr>)
      else spi_tx_loop hw False T ts (h\<lparr>spi_now := Suc (spi_now h)\<rparr>))"
  by (subst spi_tx_loop.simps) (simp add: tx_pass_def Let_def)

lemma tx_progress_now: "tx_progress h (h\<lparr>spi_now := t\<rparr>)"
  by (simp add: tx_progress_def exI [of _ 0])

lemma tick_expires:
  assumes "tick_advances hw" "T \<noteq> HAL_MAX_DELAY"
  shows "\<exists>n\<ge>t. tick_expired hw ts T n"
proof -
  obtain n where "t \<le> n" "hw_tick hw n - hw_tick hw t = T + ts - hw_tick hw t"
    using assms(1) unfolding tick_advances_def by blast
  then have "hw_tick hw n - ts = T" by (simp add: algebra_simps)
  with \<open>t \<le> n\<close> assms(2) show ?thesis by (auto simp: tick_expired_def)
qed

lemma tx_loop_result:
  assumes "tick_advances hw" "T \<noteq> HAL_MAX_DELAY"
  shows "\<exists>b h'. spi_tx_loop hw False T ts h = Some (b, h') \<and> tx_progress h h' \<and> (b \<longrightarrow> TxXferCount h' = 0)"
proof (induction "unat (TxXferCount h)" arbitrary: h rule: less_induct)
  case less
  obtain n where n: "spi_now h \<le> n" "tick_expired hw ts T n" using tick_expires [OF assms] by blast
  from n(1) less show ?case
  proof (induction "n - spi_now h" arbitrary: h rule: less_induct)
    case (less h)
    let ?h = "h\<lparr>spi_now := Suc (spi_now h)\<rparr>"
    consider "TxXferCount h = 0"
      | (send) "TxXferCount h \<noteq> 0" "hw_SR hw (spi_now h) AND SPI_FLAG_TXE = SPI_FLAG_TXE"
      | (expired) "TxXferCount h \<noteq> 0" "\<not> hw_SR hw (spi_now h) AND SPI_FLAG_TXE = SPI_FLAG_TXE"
          "tick_expired hw ts T (spi_now h)"
      | (wait) "TxXferCount h \<noteq> 0" "\<not> hw_SR hw (spi_now h) AND SPI_FLAG_TXE = SPI_FLAG_TXE"
          "\<not> tick_expired hw ts T (spi_now h)"
      by blast
    then show ?case
    proof cases
      case send
      have eq: "spi_tx_loop hw False T ts h = spi_tx_loop hw False T ts (tx_pass h)"
        using send by (subst tx_loop_unfold) simp
      from tx_pass_progress [OF send(1)] less.prems(2) [of "tx_pass h"]
      show ?thesis unfolding eq using tx_progress_trans by blast
    next
      case wait
      then have "spi_now h \<noteq> n" using n(2) by metis
      then have "n - spi_now ?h < n - spi_now h" "spi_now ?h \<le> n" using less.prems(1) by simp_all
      then have "\<exists>b h'. spi_tx_loop hw False T ts ?h = Some (b, h') \<and> tx_progress ?h h' \<and> (b \<longrightarrow> TxXferCount h' = 0)"
      proof (rule less.hyps)
        show "\<exists>b h'. spi_tx_loop hw False T ts g = Some (b, h') \<and> tx_progress g h' \<and> (b \<longrightarrow> TxXferCount h' = 0)"
          if "unat (TxXferCount g) < unat (TxXferCount ?h)" for g
          using less.prems(2) [of g] that by simp
      qed
      moreover have "spi_tx_loop hw False T ts h = spi_tx_loop hw False T ts ?h"
        using wait by (subst tx_loop_unfold) simp
      ultimately show ?thesis using tx_progress_trans [OF tx_progress_now] by metis
    qed (auto simp: tx_loop_unfold [of _ _ _ h] tx_progress_refl tx_progress_now)
  qed
qed

text \<open>The handle when the transmit loop starts.\<close>
definition tx_start :: "u32 \<Rightarrow> u16 \<Rightarrow> spi \<Rightarrow> spi" where
  "tx_start pData Size h =
     (let h1 = h\<lparr>spi_Lock := HAL_LOCKED, spi_now := Suc (spi_now h), spi_State := HAL_SPI_STATE_BUSY_TX,
            spi_ErrorCode := HAL_SPI_ERROR_NONE, pTxBuffPtr := pData, TxXferSize := Size,
            TxXferCount := Size, pRxBuffPtr := NULL, RxXferSize := 0, RxXferCount := 0\<rparr>
      in spi_enable_if_needed (if spi_Direction (spi_Init h1) = SPI_DIRECTION_1LINE
                               then h1\<lparr>spi_CR1 := spi_CR1 h1 OR SPI_CR1_BIDIOE\<rparr> else h1))"

lemma tx_start_fields [simp]:
  "spi_sent (tx_start p n h) = spi_sent h" "spi_mem (tx_start p n h) = spi_mem h"
  "spi_Init (tx_start p n h) = spi_Init h" "TxXferCount (tx_start p n h) = n"
  "pTxBuffPtr (tx_start p n h) = p" "spi_ErrorCode (tx_start p n h) = HAL_SPI_ERROR_NONE"
  by (simp_all add: tx_start_def Let_def spi_macros spi_sent_def)

lemma HAL_SPI_Transmit_unfold:
  assumes "spi_Lock h = HAL_UNLOCKED" "spi_State h = HAL_SPI_STATE_READY" "p \<noteq> NULL" "Size \<noteq> 0"
    "spi_DataSize (spi_Init h) = SPI_DATASIZE_8BIT" "\<not> spi_crc_on h"
    and loop: "spi_tx_loop hw False T (hw_tick hw (spi_now h)) (tx_start p Size h) = Some (b, g)"
    and init: "spi_Init g = spi_Init h"
  shows "HAL_SPI_Transmit hw p Size T h =
     (if \<not> b then Some (spi_exit HAL_TIMEOUT g)
      else do { (st, h6) \<leftarrow> SPI_EndRxTxTransaction hw T g;
                let h7 = (if st \<noteq> HAL_OK then h6\<lparr>spi_ErrorCode := HAL_SPI_ERROR_FLAG\<rparr> else h6);
                let h8 = (if spi_Direction (spi_Init h7) = SPI_DIRECTION_2LINES then spi_CLEAR_OVRFLAG h7 else h7);
                Some (spi_exit (if spi_ErrorCode h8 \<noteq> HAL_SPI_ERROR_NONE then HAL_ERROR else HAL_OK) h8) })"
proof -
  let ?h1 = "h\<lparr>spi_Lock := HAL_LOCKED, spi_now := Suc (spi_now h), spi_State := HAL_SPI_STATE_BUSY_TX,
            spi_ErrorCode := HAL_SPI_ERROR_NONE, pTxBuffPtr := p, TxXferSize := Size,
            TxXferCount := Size, pRxBuffPtr := NULL, RxXferSize := 0, RxXferCount := 0\<rparr>"
  let ?h2 = "if spi_Direction (spi_Init ?h1) = SPI_DIRECTION_1LINE
                     then ?h1\<lparr>spi_CR1 := spi_CR1 ?h1 OR SPI_CR1_BIDIOE\<rparr> else ?h1"
  have crc: "spi_crc_on ?h2 = False" "spi_crc_on g = False" using assms(6) init by (simp_all add: spi_crc_on_def)
  have narrow: "(spi_DataSize (spi_Init (tx_start p Size h)) > SPI_DATASIZE_8BIT) = False"
    using assms(5) by simp
  have start: "spi_enable_if_needed ?h2 = tx_start p Size h" by (simp add: tx_start_def Let_def)
  have guards: "(spi_Lock h = HAL_LOCKED) = False" "(spi_State h \<noteq> HAL_SPI_STATE_READY) = False"
    "(p = NULL \<or> Size = 0) = False" using assms(1-4) by simp_all
  show ?thesis
    unfolding HAL_SPI_Transmit_def Let_def guards if_False crc(1) start narrow loop
    by (simp add: crc(2) Let_def)
qed

text \<open>C10: a blocking transmission with a finite time-out always returns and always leaves the handle ready
  and unlocked; what it has written to the data register is a prefix of the buffer, packed two bytes at a
  time, and is the whole buffer unless it returns \<^verbatim>\<open>HAL_TIMEOUT\<close>.\<close>
theorem spi_blocking_transmit:
  assumes "tick_advances hw" "Timeout \<noteq> HAL_MAX_DELAY"
    and "spi_Lock h = HAL_UNLOCKED" "spi_State h = HAL_SPI_STATE_READY" "p \<noteq> NULL" "Size \<noteq> 0"
    and "spi_DataSize (spi_Init h) = SPI_DATASIZE_8BIT" "\<not> spi_crc_on h"
  shows "\<exists>st h' n. HAL_SPI_Transmit hw p Size Timeout h = Some (st, h') \<and> st \<noteq> HAL_BUSY
    \<and> spi_State h' = HAL_SPI_STATE_READY \<and> spi_Lock h' = HAL_UNLOCKED
    \<and> spi_sent h' = spi_sent h @ mem_bytes (spi_mem h) p n
    \<and> n \<le> unat Size \<and> (st \<noteq> HAL_TIMEOUT \<longrightarrow> n = unat Size)"
proof -
  obtain b g where loop: "spi_tx_loop hw False Timeout (hw_tick hw (spi_now h)) (tx_start p Size h) = Some (b, g)"
    and prog: "tx_progress (tx_start p Size h) g" and fin: "b \<longrightarrow> TxXferCount g = 0"
    using tx_loop_result [OF assms(1,2)] by blast
  from prog obtain n where n: "n \<le> unat Size" "unat (TxXferCount g) = unat Size - n"
    "spi_sent g = spi_sent h @ mem_bytes (spi_mem h) p n" "spi_Init g = spi_Init h"
    by (auto simp: tx_progress_def)
  note eq = HAL_SPI_Transmit_unfold [OF assms(3-8) loop n(4)]
  show ?thesis
  proof (cases b)
    case False
    then show ?thesis unfolding eq using n(1,3)
      by (auto simp: spi_exit_def)
  next
    case True
    then have size: "n = unat Size" using fin n(1,2) by simp
    obtain st h6 where e: "SPI_EndRxTxTransaction hw Timeout g = Some (st, h6)"
      using EndRxTx_returns [OF assms(1,2)] by (metis surj_pair)
    have "spi_sent h6 = spi_sent g"
      using e by (cases rule: EndRxTx_cases) simp_all
    then show ?thesis unfolding eq using True e n(3) size
      by (simp add: Let_def spi_exit_def)
  qed
qed

theorem spi_blocking_transmit_witness:
  "\<exists>st h' n. HAL_SPI_Transmit ex_hw 0x100 3 10 ex_spi = Some (st, h') \<and> spi_State h' = HAL_SPI_STATE_READY
     \<and> spi_sent h' = mem_bytes (spi_mem ex_spi) 0x100 n \<and> (st \<noteq> HAL_TIMEOUT \<longrightarrow> n = 3)"
proof -
  have "spi_Lock ex_spi = HAL_UNLOCKED" "spi_State ex_spi = HAL_SPI_STATE_READY"
    "(0x100 :: u32) \<noteq> NULL" "(3 :: u16) \<noteq> 0" "(10 :: u32) \<noteq> HAL_MAX_DELAY"
    by (simp_all add: ex_spi_def NULL_def HAL_MAX_DELAY_def)
  from spi_blocking_transmit [OF ex_hw_advances this(5,1-4) ex_spi_facts(1,2)] ex_spi_facts(5)
  show ?thesis by fastforce
qed

section \<open>Refused transfers\<close>

text \<open>An interrupt-driven transmission that is refused (handle locked, transfer running, null buffer or
  no bytes) changes nothing, so a running transfer goes on undisturbed.\<close>
lemma spi_transmit_it_refused:
  assumes "HAL_SPI_Transmit_IT p Size h = (st, h')" "st \<noteq> HAL_OK"
  shows "h' = h \<and> (spi_Lock h = HAL_LOCKED \<or> p = NULL \<or> Size = 0 \<or> spi_State h \<noteq> HAL_SPI_STATE_READY)"
proof -
  let ?refused = "spi_Lock h = HAL_LOCKED \<or> p = NULL \<or> Size = 0 \<or> spi_State h \<noteq> HAL_SPI_STATE_READY"
  have same: "h\<lparr>spi_Lock := HAL_UNLOCKED\<rparr> = h" if "spi_Lock h \<noteq> HAL_LOCKED"
    using that by (cases h; cases "spi_Lock h") simp_all
  have "fst (HAL_SPI_Transmit_IT p Size h) = HAL_OK" if "\<not> ?refused"
    using that unfolding HAL_SPI_Transmit_IT_def Let_def by (simp only: if_False de_Morgan_disj not_not simp_thms fst_conv)
  with assms have ?refused by auto
  moreover from this have "snd (HAL_SPI_Transmit_IT p Size h) = h"
    unfolding HAL_SPI_Transmit_IT_def by (cases "spi_Lock h = HAL_LOCKED"; cases "p = NULL \<or> Size = 0") (auto simp: same)
  ultimately show ?thesis using assms(1) by simp
qed

text \<open>C11: the blocking functions do not have that property: \<^verbatim>\<open>HAL_SPI_Transmit\<close> called during an
  interrupt-driven transmission returns \<^verbatim>\<open>HAL_BUSY\<close> but marks the handle ready on its way out, with the
  transmission still unfinished and its interrupt still on; the next \<^verbatim>\<open>HAL_SPI_Transmit_IT\<close> is then
  accepted and replaces the buffer, and the rest of the first one is never sent.\<close>
theorem spi_blocking_busy_breaks_transfer:
  assumes "spi_Lock h = HAL_UNLOCKED" "spi_State h = HAL_SPI_STATE_BUSY_TX" "q \<noteq> NULL" "m \<noteq> 0"
  shows "\<exists>h1 h2. HAL_SPI_Transmit hw p Size Timeout h = Some (HAL_BUSY, h1)
    \<and> TxXferCount h1 = TxXferCount h \<and> spi_CR2 h1 = spi_CR2 h
    \<and> HAL_SPI_Transmit_IT q m h1 = (HAL_OK, h2) \<and> pTxBuffPtr h2 = q \<and> TxXferCount h2 = m"
proof -
  have "HAL_SPI_Transmit hw p Size Timeout h = Some (spi_exit HAL_BUSY h)"
    using assms(1,2) by (simp add: HAL_SPI_Transmit_def)
  moreover have "HAL_SPI_Transmit_IT q m (snd (spi_exit HAL_BUSY h)) = (HAL_OK, snd (HAL_SPI_Transmit_IT q m (snd (spi_exit HAL_BUSY h))))"
    using assms(3,4) by (simp add: HAL_SPI_Transmit_IT_def spi_exit_def Let_def)
  moreover have "pTxBuffPtr (snd (HAL_SPI_Transmit_IT q m (snd (spi_exit HAL_BUSY h)))) = q"
    "TxXferCount (snd (HAL_SPI_Transmit_IT q m (snd (spi_exit HAL_BUSY h)))) = m"
    using assms(3,4) by (simp_all add: HAL_SPI_Transmit_IT_def spi_exit_def Let_def spi_macros)
  ultimately show ?thesis
    by (intro exI [of _ "snd (spi_exit HAL_BUSY h)"] exI [of _ "snd (HAL_SPI_Transmit_IT q m (snd (spi_exit HAL_BUSY h)))"])
      (simp add: spi_exit_def)
qed

theorem spi_blocking_busy_breaks_transfer_witness:
  "\<exists>h h1 h2. HAL_SPI_Transmit_IT 0x100 3 ex_spi = (HAL_OK, h) \<and> HAL_SPI_Transmit ex_hw 0x100 3 10 h = Some (HAL_BUSY, h1)
     \<and> TxXferCount h1 = 3 \<and> HAL_SPI_Transmit_IT 0x200 2 h1 = (HAL_OK, h2) \<and> pTxBuffPtr h2 = 0x200"
proof -
  obtain h where h: "HAL_SPI_Transmit_IT 0x100 3 ex_spi = (HAL_OK, h)" using ex_transmit by blast
  have "spi_Lock h = HAL_UNLOCKED"
    using h by (auto simp: HAL_SPI_Transmit_IT_def ex_spi_def NULL_def Let_def)
  moreover have "spi_State h = HAL_SPI_STATE_BUSY_TX" "TxXferCount h = 3"
    using Transmit_IT_started [OF h ex_spi_facts(2)] by simp_all
  ultimately show ?thesis
    using spi_blocking_busy_breaks_transfer [where h = h and q = "0x200" and m = 2 and hw = ex_hw and p = "0x100" and Size = 3 and Timeout = 10] h by (auto simp: NULL_def)
qed

end
