(* ===== verification/Hal_Gpio.thy ===== *)
theory Hal_Gpio
  imports Hal_Def
begin

text \<open>
  The GPIO driver (\<^verbatim>\<open>stm32f3xx_hal_gpio.c\<close>): configuration of the pins of a port, reading, writing,
  toggling and locking pins, and external interrupts.  The registers of a port are a record; the
  system configuration and external interrupt registers that all ports share are another.  The
  write-only registers \<^verbatim>\<open>BSRR\<close> and \<^verbatim>\<open>BRR\<close> act on \<^verbatim>\<open>ODR\<close> as the reference manual says: they set and
  clear the output bits written as one.
\<close>

section \<open>Registers and constants\<close>

definition GPIO_MODE :: u32 where "GPIO_MODE = 3"
definition EXTI_MODE :: u32 where "EXTI_MODE = 0x10000000"
definition GPIO_MODE_IT :: u32 where "GPIO_MODE_IT = 0x10000"
definition GPIO_MODE_EVT :: u32 where "GPIO_MODE_EVT = 0x20000"
definition RISING_EDGE :: u32 where "RISING_EDGE = 0x100000"
definition FALLING_EDGE :: u32 where "FALLING_EDGE = 0x200000"
definition GPIO_OUTPUT_TYPE :: u32 where "GPIO_OUTPUT_TYPE = 0x10"

definition GPIO_MODE_INPUT :: u32 where "GPIO_MODE_INPUT = 0"
definition GPIO_MODE_OUTPUT_PP :: u32 where "GPIO_MODE_OUTPUT_PP = 1"
definition GPIO_MODE_OUTPUT_OD :: u32 where "GPIO_MODE_OUTPUT_OD = 0x11"
definition GPIO_MODE_AF_PP :: u32 where "GPIO_MODE_AF_PP = 2"
definition GPIO_MODE_AF_OD :: u32 where "GPIO_MODE_AF_OD = 0x12"
definition GPIO_MODE_ANALOG :: u32 where "GPIO_MODE_ANALOG = 3"
definition GPIO_NOPULL :: u32 where "GPIO_NOPULL = 0"
definition GPIO_PULLUP :: u32 where "GPIO_PULLUP = 1"
definition GPIO_SPEED_FREQ_LOW :: u32 where "GPIO_SPEED_FREQ_LOW = 0"
definition GPIO_SPEED_FREQ_HIGH :: u32 where "GPIO_SPEED_FREQ_HIGH = 3"
definition GPIO_LCKR_LCKK :: u32 where "GPIO_LCKR_LCKK = 0x10000"

lemmas gpio_consts = GPIO_MODE_def EXTI_MODE_def GPIO_MODE_IT_def GPIO_MODE_EVT_def RISING_EDGE_def
  FALLING_EDGE_def GPIO_OUTPUT_TYPE_def GPIO_MODE_INPUT_def GPIO_MODE_OUTPUT_PP_def
  GPIO_MODE_OUTPUT_OD_def GPIO_MODE_AF_PP_def GPIO_MODE_AF_OD_def GPIO_MODE_ANALOG_def
  GPIO_NOPULL_def GPIO_PULLUP_def GPIO_SPEED_FREQ_LOW_def GPIO_SPEED_FREQ_HIGH_def GPIO_LCKR_LCKK_def

datatype GPIO_PinState = GPIO_PIN_RESET | GPIO_PIN_SET

record GPIO_InitTypeDef =
  gi_Pin :: u32
  gi_Mode :: u32
  gi_Pull :: u32
  gi_Speed :: u32
  gi_Alternate :: u32

record GPIO_TypeDef =
  MODER :: u32
  OTYPER :: u32
  OSPEEDR :: u32
  PUPDR :: u32
  ODR :: u32
  LCKR :: u32
  AFR :: "nat \<Rightarrow> u32"

record exti =
  EXTICR :: "nat \<Rightarrow> u32"
  IMR :: u32
  EMR :: u32
  RTSR :: u32
  FTSR :: u32
  PR :: u32
  syscfg_clk :: bool

section \<open>Configuration\<close>

text \<open>\<^verbatim>\<open>temp = REG; temp &= ~(mask << sh); temp |= (v << sh); REG = temp;\<close>\<close>
definition put_field :: "u32 \<Rightarrow> nat \<Rightarrow> u32 \<Rightarrow> u32 \<Rightarrow> u32" where
  "put_field msk sh v r = (r AND NOT (push_bit sh msk)) OR push_bit sh v"

text \<open>\<^verbatim>\<open>temp &= ~iocurrent; if(cond) temp |= iocurrent;\<close>\<close>
definition put_line :: "u32 \<Rightarrow> bool \<Rightarrow> u32 \<Rightarrow> u32" where
  "put_line iocurrent cond r = (if cond then (r AND NOT iocurrent) OR iocurrent else r AND NOT iocurrent)"

definition gpio_init_pin :: "GPIO_InitTypeDef \<Rightarrow> nat \<Rightarrow> GPIO_TypeDef \<Rightarrow> GPIO_TypeDef" where
  "gpio_init_pin i position g =
     (let g1 = (if gi_Mode i = GPIO_MODE_AF_PP \<or> gi_Mode i = GPIO_MODE_AF_OD
                then g\<lparr>AFR := (AFR g)(position div 8 :=
                       put_field 0xF (position mod 8 * 4) (gi_Alternate i) (AFR g (position div 8)))\<rparr>
                else g);
          g2 = g1\<lparr>MODER := put_field 3 (position * 2) (gi_Mode i AND GPIO_MODE) (MODER g1)\<rparr>;
          g3 = (if gi_Mode i = GPIO_MODE_OUTPUT_PP \<or> gi_Mode i = GPIO_MODE_AF_PP
                   \<or> gi_Mode i = GPIO_MODE_OUTPUT_OD \<or> gi_Mode i = GPIO_MODE_AF_OD
                then g2\<lparr>OSPEEDR := put_field 3 (position * 2) (gi_Speed i) (OSPEEDR g2),
                        OTYPER := put_field 1 position (drop_bit 4 (gi_Mode i AND GPIO_OUTPUT_TYPE)) (OTYPER g2)\<rparr>
                else g2)
      in g3\<lparr>PUPDR := put_field 3 (position * 2) (gi_Pull i) (PUPDR g3)\<rparr>)"

text \<open>\<open>index\<close> is \<^verbatim>\<open>GPIO_GET_INDEX(GPIOx)\<close>.\<close>
definition exti_init_pin :: "u32 \<Rightarrow> GPIO_InitTypeDef \<Rightarrow> nat \<Rightarrow> exti \<Rightarrow> exti" where
  "exti_init_pin index i position e =
     (if gi_Mode i AND EXTI_MODE = EXTI_MODE
      then let io = gi_Pin i AND push_bit position 1
           in e\<lparr>syscfg_clk := True,
                EXTICR := (EXTICR e)(position div 4 :=
                  put_field 0xF (4 * (position mod 4)) index (EXTICR e (position div 4))),
                IMR := put_line io (gi_Mode i AND GPIO_MODE_IT = GPIO_MODE_IT) (IMR e),
                EMR := put_line io (gi_Mode i AND GPIO_MODE_EVT = GPIO_MODE_EVT) (EMR e),
                RTSR := put_line io (gi_Mode i AND RISING_EDGE = RISING_EDGE) (RTSR e),
                FTSR := put_line io (gi_Mode i AND FALLING_EDGE = FALLING_EDGE) (FTSR e)\<rparr>
      else e)"

text \<open>\<^verbatim>\<open>while ((Pin >> position) != RESET) { ...; position++; }\<close>\<close>
function gpio_init_loop ::
  "u32 \<Rightarrow> GPIO_InitTypeDef \<Rightarrow> nat \<Rightarrow> GPIO_TypeDef \<times> exti \<Rightarrow> GPIO_TypeDef \<times> exti" where
  "gpio_init_loop index i position s =
     (if drop_bit position (gi_Pin i) = 0 then s
      else gpio_init_loop index i (Suc position)
             (if gi_Pin i AND push_bit position 1 \<noteq> 0
              then (gpio_init_pin i position (fst s), exti_init_pin index i position (snd s)) else s))"
  by pat_completeness auto

lemma drop_bit_u32_zero: "32 \<le> n \<Longrightarrow> drop_bit n w = 0" for w :: u32
  by (rule bit_word_eqI) (auto simp: bit_simps dest: bit_imp_le_length)

termination gpio_init_loop
proof (relation "measure (\<lambda>(_, _, position, _). 32 - position)")
  fix index :: u32 and i :: GPIO_InitTypeDef and position s
  assume "drop_bit position (gi_Pin i) \<noteq> 0"
  then have "position < 32" using drop_bit_u32_zero not_less by blast
  then show "((index, i, Suc position, if gi_Pin i AND push_bit position 1 \<noteq> 0
      then (gpio_init_pin i position (fst s), exti_init_pin index i position (snd s)) else s), index, i, position, s)
    \<in> measure (\<lambda>(_, _, position, _). 32 - position)" by simp
qed simp

declare gpio_init_loop.simps [simp del]

definition HAL_GPIO_Init :: "u32 \<Rightarrow> GPIO_InitTypeDef \<Rightarrow> GPIO_TypeDef \<times> exti \<Rightarrow> GPIO_TypeDef \<times> exti" where
  "HAL_GPIO_Init index i s = gpio_init_loop index i 0 s"

definition gpio_deinit_pin :: "nat \<Rightarrow> GPIO_TypeDef \<Rightarrow> GPIO_TypeDef" where
  "gpio_deinit_pin position g =
     g\<lparr>MODER := MODER g AND NOT (push_bit (position * 2) 3),
       AFR := (AFR g)(position div 8 := AFR g (position div 8) AND NOT (push_bit (position mod 8 * 4) 0xF)),
       OSPEEDR := OSPEEDR g AND NOT (push_bit (position * 2) 3),
       OTYPER := OTYPER g AND NOT (push_bit position 1),
       PUPDR := PUPDR g AND NOT (push_bit (position * 2) 3)\<rparr>"

definition exti_deinit_pin :: "u32 \<Rightarrow> u32 \<Rightarrow> nat \<Rightarrow> exti \<Rightarrow> exti" where
  "exti_deinit_pin index pin position e =
     (let io = pin AND push_bit position 1; msk = push_bit (4 * (position mod 4)) 0xF
      in if EXTICR e (position div 4) AND msk = push_bit (4 * (position mod 4)) index
         then e\<lparr>EXTICR := (EXTICR e)(position div 4 := EXTICR e (position div 4) AND NOT msk),
                IMR := IMR e AND NOT io, EMR := EMR e AND NOT io,
                RTSR := RTSR e AND NOT io, FTSR := FTSR e AND NOT io\<rparr>
         else e)"

function gpio_deinit_loop :: "u32 \<Rightarrow> u32 \<Rightarrow> nat \<Rightarrow> GPIO_TypeDef \<times> exti \<Rightarrow> GPIO_TypeDef \<times> exti" where
  "gpio_deinit_loop index pin position s =
     (if drop_bit position pin = 0 then s
      else gpio_deinit_loop index pin (Suc position)
             (if pin AND push_bit position 1 \<noteq> 0
              then (gpio_deinit_pin position (fst s), exti_deinit_pin index pin position (snd s)) else s))"
  by pat_completeness auto

termination gpio_deinit_loop
proof (relation "measure (\<lambda>(_, _, position, _). 32 - position)")
  fix index pin :: u32 and position s
  assume "drop_bit position pin \<noteq> 0"
  then have "position < 32" using drop_bit_u32_zero not_less by blast
  then show "((index, pin, Suc position, if pin AND push_bit position 1 \<noteq> 0
      then (gpio_deinit_pin position (fst s), exti_deinit_pin index pin position (snd s)) else s), index, pin, position, s)
    \<in> measure (\<lambda>(_, _, position, _). 32 - position)" by simp
qed simp

declare gpio_deinit_loop.simps [simp del]

definition HAL_GPIO_DeInit :: "u32 \<Rightarrow> u32 \<Rightarrow> GPIO_TypeDef \<times> exti \<Rightarrow> GPIO_TypeDef \<times> exti" where
  "HAL_GPIO_DeInit index GPIO_Pin s = gpio_deinit_loop index GPIO_Pin 0 s"

section \<open>Operation\<close>

text \<open>\<open>idr\<close> is the input data register.\<close>
definition HAL_GPIO_ReadPin :: "u32 \<Rightarrow> u16 \<Rightarrow> GPIO_PinState" where
  "HAL_GPIO_ReadPin idr GPIO_Pin = (if idr AND ucast GPIO_Pin \<noteq> 0 then GPIO_PIN_SET else GPIO_PIN_RESET)"

text \<open>The effect of a write to \<^verbatim>\<open>BSRR\<close>: the lower half sets bits, the upper half clears bits, set wins; and
  of a write to \<^verbatim>\<open>BRR\<close>.\<close>
definition write_BSRR :: "u32 \<Rightarrow> GPIO_TypeDef \<Rightarrow> GPIO_TypeDef" where
  "write_BSRR v g = g\<lparr>ODR := (ODR g AND NOT (drop_bit 16 v)) OR (v AND 0xFFFF)\<rparr>"

definition write_BRR :: "u32 \<Rightarrow> GPIO_TypeDef \<Rightarrow> GPIO_TypeDef" where
  "write_BRR v g = g\<lparr>ODR := ODR g AND NOT (v AND 0xFFFF)\<rparr>"

definition HAL_GPIO_WritePin :: "u16 \<Rightarrow> GPIO_PinState \<Rightarrow> GPIO_TypeDef \<Rightarrow> GPIO_TypeDef" where
  "HAL_GPIO_WritePin GPIO_Pin PinState g =
     (if PinState \<noteq> GPIO_PIN_RESET then write_BSRR (ucast GPIO_Pin) g else write_BRR (ucast GPIO_Pin) g)"

definition HAL_GPIO_TogglePin :: "u16 \<Rightarrow> GPIO_TypeDef \<Rightarrow> GPIO_TypeDef" where
  "HAL_GPIO_TogglePin GPIO_Pin g = g\<lparr>ODR := ODR g XOR ucast GPIO_Pin\<rparr>"

text \<open>The lock sequence writes \<^verbatim>\<open>LCKR\<close> three times and then reads it twice; \<open>wr\<close> is what the register holds
  after a write, as the hardware decides.\<close>
definition HAL_GPIO_LockPin ::
  "(u32 \<Rightarrow> GPIO_TypeDef \<Rightarrow> GPIO_TypeDef) \<Rightarrow> u16 \<Rightarrow> GPIO_TypeDef \<Rightarrow> HAL_StatusTypeDef \<times> GPIO_TypeDef" where
  "HAL_GPIO_LockPin wr GPIO_Pin g =
     (let tmp = GPIO_LCKR_LCKK OR ucast GPIO_Pin;
          g' = wr tmp (wr (ucast GPIO_Pin) (wr tmp g))
      in (if LCKR g' AND GPIO_LCKR_LCKK \<noteq> 0 then HAL_OK else HAL_ERROR, g'))"

text \<open>\<open>cb\<close> is \<^verbatim>\<open>HAL_GPIO_EXTI_Callback\<close>; a one written to \<^verbatim>\<open>PR\<close> clears the pending bit.\<close>
definition HAL_GPIO_EXTI_IRQHandler :: "(u16 \<Rightarrow> exti \<Rightarrow> exti) \<Rightarrow> u16 \<Rightarrow> exti \<Rightarrow> exti" where
  "HAL_GPIO_EXTI_IRQHandler cb GPIO_Pin e =
     (if PR e AND ucast GPIO_Pin \<noteq> 0 then cb GPIO_Pin (e\<lparr>PR := PR e AND NOT (ucast GPIO_Pin)\<rparr>) else e)"

section \<open>Lemmas\<close>

text \<open>The two-bit field of pin \<open>q\<close>.\<close>
definition field2 :: "u32 \<Rightarrow> nat \<Rightarrow> u32" where
  "field2 r q = take_bit 2 (drop_bit (q * 2) r)"

lemma put_field_field2:
  assumes "q < 16" "position < 16"
  shows "field2 (put_field 3 (position * 2) v r) q = (if q = position then take_bit 2 v OR 0 else field2 r q)
    \<or> v \<noteq> take_bit 2 v"
proof (cases "v = take_bit 2 v")
  case True
  have m: "(3 :: u32) = mask 2" by (simp add: mask_eq_exp_minus_1)
  have "field2 (put_field 3 (position * 2) (take_bit 2 v) r) q = (if q = position then take_bit 2 v else field2 r q)"
    using assms unfolding field2_def put_field_def m
    by (intro bit_word_eqI) (auto simp: bit_simps)
  with True show ?thesis by simp
qed simp

lemma field2_put:
  "q < 16 \<Longrightarrow> position < 16 \<Longrightarrow> v < 4 \<Longrightarrow>
     field2 (put_field 3 (position * 2) v r) q = (if q = position then v else field2 r q)"
proof -
  assume a: "q < 16" "position < 16" "v < 4"
  then have "take_bit 2 v = v"
    by (simp add: word_unat_eq_iff word_less_nat_alt unsigned_take_bit_eq take_bit_nat_eq_self)
  with put_field_field2 [OF a(1,2), of v r] show ?thesis by (auto split: if_splits)
qed

text \<open>The configuration loop is a pass over all positions from the current one on.\<close>
lemma gpio_init_loop_fold:
  "gpio_init_loop index i position s = fold (\<lambda>n s.
     if bit (gi_Pin i) n then (gpio_init_pin i n (fst s), exti_init_pin index i n (snd s)) else s) [position..<32] s"
proof (induction index i position s rule: gpio_init_loop.induct)
  case (1 index i position s)
  let ?f = "\<lambda>n s. if bit (gi_Pin i) n then (gpio_init_pin i n (fst s), exti_init_pin index i n (snd s)) else s"
  show ?case
  proof (cases "drop_bit position (gi_Pin i) = 0")
    case True
    have "\<not> bit (gi_Pin i) n" if "position \<le> n" for n
      using arg_cong [OF True, of "\<lambda>w. bit w (n - position)"] that by (simp add: bit_drop_bit_eq)
    then have "fold ?f [position..<32] s = fold (\<lambda>n s. s) [position..<32] s"
      by (intro fold_cong) auto
    moreover have "fold (\<lambda>n s. s) ns t = t" for ns :: "nat list" and t :: "GPIO_TypeDef \<times> exti"
      by (induction ns) simp_all
    ultimately show ?thesis using True by (subst gpio_init_loop.simps) simp
  next
    case False
    then have "position < 32" using drop_bit_u32_zero not_less by blast
    then have "[position..<32] = position # [Suc position..<32]" by (simp add: upt_rec)
    moreover have "gpio_init_loop index i position s = gpio_init_loop index i (Suc position) (?f position s)"
      using False by (subst gpio_init_loop.simps) (simp only: pin_bit if_False)
    ultimately show ?thesis using 1 [OF False, unfolded pin_bit] by simp
  qed
qed

lemma init_pin_fields:
  assumes "q < 16" "n < 16"
  shows "field2 (MODER (gpio_init_pin i n g)) q = (if q = n then gi_Mode i AND 3 else field2 (MODER g) q)"
    "gi_Pull i < 4 \<Longrightarrow> field2 (PUPDR (gpio_init_pin i n g)) q = (if q = n then gi_Pull i else field2 (PUPDR g) q)"
proof -
  have "gi_Mode i AND 3 = take_bit 2 (gi_Mode i)" by (simp add: take_bit_eq_mask mask_eq_exp_minus_1)
  moreover have "take_bit 2 w < (4 :: u32)" for w 
    using take_bit_nat_less_exp [of 2 "unat w"] by (simp add: word_less_nat_alt unsigned_take_bit_eq)
  ultimately have "gi_Mode i AND 3 < 4" by simp
  then show "field2 (MODER (gpio_init_pin i n g)) q = (if q = n then gi_Mode i AND 3 else field2 (MODER g) q)"
    using assms by (simp add: gpio_init_pin_def Let_def GPIO_MODE_def field2_put)
  show "gi_Pull i < 4 \<Longrightarrow> field2 (PUPDR (gpio_init_pin i n g)) q = (if q = n then gi_Pull i else field2 (PUPDR g) q)"
    using assms by (simp add: gpio_init_pin_def Let_def field2_put)
qed

text \<open>A pass over the positions sets the fields of the selected pins and leaves the others.\<close>
lemma init_fold_fields:
  fixes index :: u32
  assumes "q < 16" "\<forall>n \<in> set ns. n < 32" "\<not> (\<exists>n \<ge> 16. bit (gi_Pin i) n)"
  defines "f \<equiv> \<lambda>n s. if bit (gi_Pin i) n then (gpio_init_pin i n (fst s), exti_init_pin index i n (snd s)) else s"
  shows "field2 (MODER (fst (fold f ns s))) q
      = (if q \<in> set ns \<and> bit (gi_Pin i) q then gi_Mode i AND 3 else field2 (MODER (fst s)) q)"
    "gi_Pull i < 4 \<Longrightarrow> field2 (PUPDR (fst (fold f ns s))) q
      = (if q \<in> set ns \<and> bit (gi_Pin i) q then gi_Pull i else field2 (PUPDR (fst s)) q)"
proof -
  have small: "bit (gi_Pin i) n \<Longrightarrow> n < 16" for n using assms(3) by (meson not_le)
  show "field2 (MODER (fst (fold f ns s))) q
      = (if q \<in> set ns \<and> bit (gi_Pin i) q then gi_Mode i AND 3 else field2 (MODER (fst s)) q)"
    by (induction ns arbitrary: s) (auto simp: f_def init_pin_fields assms(1) small)
  show "gi_Pull i < 4 \<Longrightarrow> field2 (PUPDR (fst (fold f ns s))) q
      = (if q \<in> set ns \<and> bit (gi_Pin i) q then gi_Pull i else field2 (PUPDR (fst s)) q)"
    by (induction ns arbitrary: s) (auto simp: f_def init_pin_fields assms(1) small)
qed

section \<open>Properties\<close>


definition ex_gpio :: "GPIO_TypeDef \<times> exti" where
  "ex_gpio = (\<lparr>MODER = 0xFFFFFFFF, OTYPER = 0, OSPEEDR = 0, PUPDR = 0, ODR = 0, LCKR = 0, AFR = (\<lambda>_. 0)\<rparr>,
     \<lparr>EXTICR = (\<lambda>_. 0), IMR = 0, EMR = 0, RTSR = 0, FTSR = 0, PR = 0, syscfg_clk = False\<rparr>)"


text \<open>Writing pins changes the output bits of exactly the pins given: they take the given state, every other
  output of the port is unchanged, whatever it was.\<close>
lemma gpio_write_pin_bits:
  "bit (ODR (HAL_GPIO_WritePin pins st g)) n = (if n < 16 \<and> bit pins n then st = GPIO_PIN_SET else bit (ODR g) n)"
proof -
  have m: "(0xFFFF :: u32) = mask 16" by (simp add: mask_eq_exp_minus_1)
  show ?thesis
    by (cases st) (auto simp: HAL_GPIO_WritePin_def write_BSRR_def write_BRR_def m bit_simps
        dest: bit_imp_le_length)
qed

end
