(* ===== verification/Hal_Tim.thy ===== *)
theory Hal_Tim
  imports Hal_Def
begin

text \<open>
  The timer driver (\<^verbatim>\<open>stm32f3xx_hal_tim.c\<close>) as far as the firmware depends on it: time base,
  output compare, PWM and input capture, in polling and interrupt mode, channel configuration, and
  the interrupt handler.  Registers that the program writes are fields of the handle; the status
  register and captured values come from the environment, one instant per read.  The Boolean macros
  on instances are those of the STM32F373.
\<close>

section \<open>Registers and constants\<close>

definition TIM_CR1_CEN :: u32 where "TIM_CR1_CEN = 1"
definition TIM_CR1_DIR :: u32 where "TIM_CR1_DIR = 0x10"
definition TIM_CR1_CMS :: u32 where "TIM_CR1_CMS = 0x60"
definition TIM_CR1_CKD :: u32 where "TIM_CR1_CKD = 0x300"
definition TIM_EGR_UG :: u32 where "TIM_EGR_UG = 1"
definition TIM_BDTR_MOE :: u32 where "TIM_BDTR_MOE = 0x8000"
definition TIM_CCER_CC1E :: u32 where "TIM_CCER_CC1E = 0x1"
definition TIM_CCER_CC1P :: u32 where "TIM_CCER_CC1P = 0x2"
definition TIM_CCER_CC1NE :: u32 where "TIM_CCER_CC1NE = 0x4"
definition TIM_CCER_CC1NP :: u32 where "TIM_CCER_CC1NP = 0x8"
definition TIM_CCER_CC2E :: u32 where "TIM_CCER_CC2E = 0x10"
definition TIM_CCER_CC2P :: u32 where "TIM_CCER_CC2P = 0x20"
definition TIM_CCER_CC2NE :: u32 where "TIM_CCER_CC2NE = 0x40"
definition TIM_CCER_CC2NP :: u32 where "TIM_CCER_CC2NP = 0x80"
definition TIM_CCER_CC3E :: u32 where "TIM_CCER_CC3E = 0x100"
definition TIM_CCER_CC3P :: u32 where "TIM_CCER_CC3P = 0x200"
definition TIM_CCER_CC3NE :: u32 where "TIM_CCER_CC3NE = 0x400"
definition TIM_CCER_CC3NP :: u32 where "TIM_CCER_CC3NP = 0x800"
definition TIM_CCER_CC4E :: u32 where "TIM_CCER_CC4E = 0x1000"
definition TIM_CCER_CC4P :: u32 where "TIM_CCER_CC4P = 0x2000"
definition TIM_CCER_CC4NP :: u32 where "TIM_CCER_CC4NP = 0x8000"
definition TIM_CCMR1_OC1M :: u32 where "TIM_CCMR1_OC1M = 0x70"
definition TIM_CCMR1_CC1S :: u32 where "TIM_CCMR1_CC1S = 0x3"
definition TIM_CCMR1_IC1F :: u32 where "TIM_CCMR1_IC1F = 0xf0"
definition TIM_CCMR1_IC1PSC :: u32 where "TIM_CCMR1_IC1PSC = 0xc"
definition TIM_CCMR1_OC1PE :: u32 where "TIM_CCMR1_OC1PE = 0x8"
definition TIM_CCMR1_OC1FE :: u32 where "TIM_CCMR1_OC1FE = 0x4"
definition TIM_CCMR1_OC2M :: u32 where "TIM_CCMR1_OC2M = 0x7000"
definition TIM_CCMR1_CC2S :: u32 where "TIM_CCMR1_CC2S = 0x300"
definition TIM_CCMR1_IC2F :: u32 where "TIM_CCMR1_IC2F = 0xf000"
definition TIM_CCMR1_IC2PSC :: u32 where "TIM_CCMR1_IC2PSC = 0xc00"
definition TIM_CCMR1_OC2PE :: u32 where "TIM_CCMR1_OC2PE = 0x800"
definition TIM_CCMR1_OC2FE :: u32 where "TIM_CCMR1_OC2FE = 0x400"
definition TIM_CCMR2_OC3M :: u32 where "TIM_CCMR2_OC3M = 0x70"
definition TIM_CCMR2_CC3S :: u32 where "TIM_CCMR2_CC3S = 0x3"
definition TIM_CCMR2_IC3F :: u32 where "TIM_CCMR2_IC3F = 0xf0"
definition TIM_CCMR2_IC3PSC :: u32 where "TIM_CCMR2_IC3PSC = 0xc"
definition TIM_CCMR2_OC3PE :: u32 where "TIM_CCMR2_OC3PE = 0x8"
definition TIM_CCMR2_OC3FE :: u32 where "TIM_CCMR2_OC3FE = 0x4"
definition TIM_CCMR2_OC4M :: u32 where "TIM_CCMR2_OC4M = 0x7000"
definition TIM_CCMR2_CC4S :: u32 where "TIM_CCMR2_CC4S = 0x300"
definition TIM_CCMR2_IC4F :: u32 where "TIM_CCMR2_IC4F = 0xf000"
definition TIM_CCMR2_IC4PSC :: u32 where "TIM_CCMR2_IC4PSC = 0xc00"
definition TIM_CCMR2_OC4PE :: u32 where "TIM_CCMR2_OC4PE = 0x800"
definition TIM_CCMR2_OC4FE :: u32 where "TIM_CCMR2_OC4FE = 0x400"
definition TIM_CCMR1_CC1S_0 :: u32 where "TIM_CCMR1_CC1S_0 = 1"
definition TIM_CR2_OIS1 :: u32 where "TIM_CR2_OIS1 = 0x100"
definition TIM_CR2_OIS1N :: u32 where "TIM_CR2_OIS1N = 0x200"
definition TIM_CR2_OIS2 :: u32 where "TIM_CR2_OIS2 = 0x400"
definition TIM_CR2_OIS2N :: u32 where "TIM_CR2_OIS2N = 0x800"
definition TIM_CR2_OIS3 :: u32 where "TIM_CR2_OIS3 = 0x1000"
definition TIM_CR2_OIS3N :: u32 where "TIM_CR2_OIS3N = 0x2000"
definition TIM_CR2_OIS4 :: u32 where "TIM_CR2_OIS4 = 0x4000"
definition TIM_IT_UPDATE :: u32 where "TIM_IT_UPDATE = 0x1"
definition TIM_FLAG_UPDATE :: u32 where "TIM_FLAG_UPDATE = 0x1"
definition TIM_IT_CC1 :: u32 where "TIM_IT_CC1 = 0x2"
definition TIM_FLAG_CC1 :: u32 where "TIM_FLAG_CC1 = 0x2"
definition TIM_IT_CC2 :: u32 where "TIM_IT_CC2 = 0x4"
definition TIM_FLAG_CC2 :: u32 where "TIM_FLAG_CC2 = 0x4"
definition TIM_IT_CC3 :: u32 where "TIM_IT_CC3 = 0x8"
definition TIM_FLAG_CC3 :: u32 where "TIM_FLAG_CC3 = 0x8"
definition TIM_IT_CC4 :: u32 where "TIM_IT_CC4 = 0x10"
definition TIM_FLAG_CC4 :: u32 where "TIM_FLAG_CC4 = 0x10"
definition TIM_IT_COM :: u32 where "TIM_IT_COM = 0x20"
definition TIM_FLAG_COM :: u32 where "TIM_FLAG_COM = 0x20"
definition TIM_IT_TRIGGER :: u32 where "TIM_IT_TRIGGER = 0x40"
definition TIM_FLAG_TRIGGER :: u32 where "TIM_FLAG_TRIGGER = 0x40"
definition TIM_IT_BREAK :: u32 where "TIM_IT_BREAK = 0x80"
definition TIM_FLAG_BREAK :: u32 where "TIM_FLAG_BREAK = 0x80"
definition TIM_CHANNEL_1 :: u32 where "TIM_CHANNEL_1 = 0x0"
definition TIM_CHANNEL_2 :: u32 where "TIM_CHANNEL_2 = 0x4"
definition TIM_CHANNEL_3 :: u32 where "TIM_CHANNEL_3 = 0x8"
definition TIM_CHANNEL_4 :: u32 where "TIM_CHANNEL_4 = 0xc"
definition TIM_CCx_ENABLE :: u32 where "TIM_CCx_ENABLE = 1"
definition TIM_CCx_DISABLE :: u32 where "TIM_CCx_DISABLE = 0"
definition TIM_CCER_CCxE_MASK :: u32 where "TIM_CCER_CCxE_MASK = 0x1111"
definition TIM_CCER_CCxNE_MASK :: u32 where "TIM_CCER_CCxNE_MASK = 0x444"
definition TIM_COUNTERMODE_UP :: u32 where "TIM_COUNTERMODE_UP = 0"
definition TIM_OCMODE_PWM1 :: u32 where "TIM_OCMODE_PWM1 = 0x60"
definition TIM_OCPOLARITY_HIGH :: u32 where "TIM_OCPOLARITY_HIGH = 0"
definition TIM_OCFAST_ENABLE :: u32 where "TIM_OCFAST_ENABLE = 4"
definition TIM_ICPOLARITY_RISING :: u32 where "TIM_ICPOLARITY_RISING = 0"
definition TIM_ICSELECTION_DIRECTTI :: u32 where "TIM_ICSELECTION_DIRECTTI = 1"
definition TIM_ICPSC_DIV1 :: u32 where "TIM_ICPSC_DIV1 = 0"

lemmas tim_consts = TIM_CR1_CEN_def TIM_CR1_DIR_def TIM_CR1_CMS_def TIM_CR1_CKD_def TIM_EGR_UG_def TIM_BDTR_MOE_def
  TIM_CCER_CC1E_def TIM_CCER_CC1P_def TIM_CCER_CC1NE_def TIM_CCER_CC1NP_def TIM_CCER_CC2E_def
  TIM_CCER_CC2P_def TIM_CCER_CC2NE_def TIM_CCER_CC2NP_def TIM_CCER_CC3E_def TIM_CCER_CC3P_def
  TIM_CCER_CC3NE_def TIM_CCER_CC3NP_def TIM_CCER_CC4E_def TIM_CCER_CC4P_def TIM_CCER_CC4NP_def
  TIM_CCMR1_OC1M_def TIM_CCMR1_CC1S_def TIM_CCMR1_IC1F_def TIM_CCMR1_IC1PSC_def
  TIM_CCMR1_OC1PE_def TIM_CCMR1_OC1FE_def TIM_CCMR1_OC2M_def TIM_CCMR1_CC2S_def
  TIM_CCMR1_IC2F_def TIM_CCMR1_IC2PSC_def TIM_CCMR1_OC2PE_def TIM_CCMR1_OC2FE_def
  TIM_CCMR2_OC3M_def TIM_CCMR2_CC3S_def TIM_CCMR2_IC3F_def TIM_CCMR2_IC3PSC_def
  TIM_CCMR2_OC3PE_def TIM_CCMR2_OC3FE_def TIM_CCMR2_OC4M_def TIM_CCMR2_CC4S_def
  TIM_CCMR2_IC4F_def TIM_CCMR2_IC4PSC_def TIM_CCMR2_OC4PE_def TIM_CCMR2_OC4FE_def
  TIM_CCMR1_CC1S_0_def TIM_CR2_OIS1_def TIM_CR2_OIS1N_def TIM_CR2_OIS2_def TIM_CR2_OIS2N_def
  TIM_CR2_OIS3_def TIM_CR2_OIS3N_def TIM_CR2_OIS4_def TIM_IT_UPDATE_def TIM_FLAG_UPDATE_def
  TIM_IT_CC1_def TIM_FLAG_CC1_def TIM_IT_CC2_def TIM_FLAG_CC2_def TIM_IT_CC3_def TIM_FLAG_CC3_def
  TIM_IT_CC4_def TIM_FLAG_CC4_def TIM_IT_COM_def TIM_FLAG_COM_def TIM_IT_TRIGGER_def
  TIM_FLAG_TRIGGER_def TIM_IT_BREAK_def TIM_FLAG_BREAK_def TIM_CHANNEL_1_def TIM_CHANNEL_2_def
  TIM_CHANNEL_3_def TIM_CHANNEL_4_def TIM_CCx_ENABLE_def TIM_CCx_DISABLE_def
  TIM_CCER_CCxE_MASK_def TIM_CCER_CCxNE_MASK_def TIM_COUNTERMODE_UP_def TIM_OCMODE_PWM1_def
  TIM_OCPOLARITY_HIGH_def TIM_OCFAST_ENABLE_def TIM_ICPOLARITY_RISING_def
  TIM_ICSELECTION_DIRECTTI_def TIM_ICPSC_DIV1_def

datatype tim_instance = TIM2 | TIM3 | TIM4 | TIM5 | TIM6 | TIM7 | TIM12 | TIM13 | TIM14 | TIM15 | TIM16
  | TIM17 | TIM18 | TIM19

definition IS_TIM_COUNTER_MODE_SELECT_INSTANCE :: "tim_instance \<Rightarrow> bool" where
  "IS_TIM_COUNTER_MODE_SELECT_INSTANCE i \<longleftrightarrow> i \<in> {TIM2, TIM3, TIM4, TIM5, TIM19}"

definition IS_TIM_CLOCK_DIVISION_INSTANCE :: "tim_instance \<Rightarrow> bool" where
  "IS_TIM_CLOCK_DIVISION_INSTANCE i \<longleftrightarrow>
     i \<in> {TIM2, TIM3, TIM4, TIM5, TIM12, TIM13, TIM14, TIM15, TIM16, TIM17, TIM19}"

definition IS_TIM_REPETITION_COUNTER_INSTANCE :: "tim_instance \<Rightarrow> bool" where
  "IS_TIM_REPETITION_COUNTER_INSTANCE i \<longleftrightarrow> i \<in> {TIM15, TIM16, TIM17}"

definition IS_TIM_BREAK_INSTANCE :: "tim_instance \<Rightarrow> bool" where
  "IS_TIM_BREAK_INSTANCE i \<longleftrightarrow> i \<in> {TIM15, TIM16, TIM17}"

definition IS_TIM_CCXN_INSTANCE :: "tim_instance \<Rightarrow> u32 \<Rightarrow> bool" where
  "IS_TIM_CCXN_INSTANCE i ch \<longleftrightarrow> i \<in> {TIM15, TIM16, TIM17} \<and> ch = TIM_CHANNEL_1"

definition IS_TIM_CC2_INSTANCE :: "tim_instance \<Rightarrow> bool" where
  "IS_TIM_CC2_INSTANCE i \<longleftrightarrow> i \<in> {TIM2, TIM3, TIM4, TIM5, TIM12, TIM15, TIM19}"

lemmas tim_instances = IS_TIM_COUNTER_MODE_SELECT_INSTANCE_def IS_TIM_CLOCK_DIVISION_INSTANCE_def
  IS_TIM_REPETITION_COUNTER_INSTANCE_def IS_TIM_BREAK_INSTANCE_def IS_TIM_CCXN_INSTANCE_def
  IS_TIM_CC2_INSTANCE_def

section \<open>The handle\<close>

record TIM_Base_InitTypeDef =
  Prescaler :: u32
  CounterMode :: u32
  Period :: u32
  ClockDivision :: u32
  RepetitionCounter :: u32

record TIM_OC_InitTypeDef =
  OCMode :: u32
  Pulse :: u32
  OCPolarity :: u32
  OCNPolarity :: u32
  OCFastMode :: u32
  OCIdleState :: u32
  OCNIdleState :: u32

record TIM_IC_InitTypeDef =
  ICPolarity :: u32
  ICSelection :: u32
  ICPrescaler :: u32
  ICFilter :: u32

datatype HAL_TIM_StateTypeDef =
  HAL_TIM_STATE_RESET | HAL_TIM_STATE_READY | HAL_TIM_STATE_BUSY | HAL_TIM_STATE_TIMEOUT | HAL_TIM_STATE_ERROR

datatype HAL_TIM_ActiveChannel =
  HAL_TIM_ACTIVE_CHANNEL_1 | HAL_TIM_ACTIVE_CHANNEL_2 | HAL_TIM_ACTIVE_CHANNEL_3 | HAL_TIM_ACTIVE_CHANNEL_4
  | HAL_TIM_ACTIVE_CHANNEL_CLEARED

datatype tim_callback =
  PeriodElapsedCallback | OC_DelayElapsedCallback | IC_CaptureCallback | PWM_PulseFinishedCallback
  | TriggerCallback | BreakCallback | CommutationCallback | TIM_ErrorCallback

text \<open>Writes with an effect of their own: of the event register, and of the status register (which clear flags).\<close>
datatype tim_io = EGR_set u32 | TIM_SR_write u32

record TIM_HandleTypeDef =
  tim_Instance :: tim_instance
  tim_CR1 :: u32
  tim_CR2 :: u32
  tim_SMCR :: u32
  tim_DIER :: u32
  tim_CCMR1 :: u32
  tim_CCMR2 :: u32
  tim_CCER :: u32
  tim_PSC :: u32
  tim_ARR :: u32
  tim_RCR :: u32
  tim_CCR1 :: u32
  tim_CCR2 :: u32
  tim_CCR3 :: u32
  tim_CCR4 :: u32
  tim_BDTR :: u32
  tim_DCR :: u32
  tim_OR :: u32
  tim_Init :: TIM_Base_InitTypeDef
  tim_Channel :: HAL_TIM_ActiveChannel
  tim_Lock :: HAL_LockTypeDef
  tim_State :: HAL_TIM_StateTypeDef
  tim_now :: time
  tim_io :: "tim_io list"

type_synonym tim = TIM_HandleTypeDef

text \<open>The hardware side of a timer: the status register, and what a channel that captures an input holds.\<close>
record tim_hw =
  th_SR :: "time \<Rightarrow> u32"
  th_CCR :: "u32 \<Rightarrow> time \<Rightarrow> u32"

definition tim_log :: "tim_io \<Rightarrow> tim \<Rightarrow> tim" where
  "tim_log x h = h\<lparr>tim_io := tim_io h @ [x]\<rparr>"

definition tim_ENABLE :: "tim \<Rightarrow> tim" where
  "tim_ENABLE h = h\<lparr>tim_CR1 := tim_CR1 h OR TIM_CR1_CEN\<rparr>"

text \<open>The counter stops only when no channel and no complementary channel is enabled.\<close>
definition tim_DISABLE :: "tim \<Rightarrow> tim" where
  "tim_DISABLE h =
     (if tim_CCER h AND TIM_CCER_CCxE_MASK = 0 \<and> tim_CCER h AND TIM_CCER_CCxNE_MASK = 0
      then h\<lparr>tim_CR1 := tim_CR1 h AND NOT TIM_CR1_CEN\<rparr> else h)"

definition tim_MOE_ENABLE :: "tim \<Rightarrow> tim" where
  "tim_MOE_ENABLE h = h\<lparr>tim_BDTR := tim_BDTR h OR TIM_BDTR_MOE\<rparr>"

definition tim_MOE_DISABLE :: "tim \<Rightarrow> tim" where
  "tim_MOE_DISABLE h =
     (if tim_CCER h AND TIM_CCER_CCxE_MASK = 0 \<and> tim_CCER h AND TIM_CCER_CCxNE_MASK = 0
      then h\<lparr>tim_BDTR := tim_BDTR h AND NOT TIM_BDTR_MOE\<rparr> else h)"

definition tim_ENABLE_IT :: "u32 \<Rightarrow> tim \<Rightarrow> tim" where
  "tim_ENABLE_IT it h = h\<lparr>tim_DIER := tim_DIER h OR it\<rparr>"

definition tim_DISABLE_IT :: "u32 \<Rightarrow> tim \<Rightarrow> tim" where
  "tim_DISABLE_IT it h = h\<lparr>tim_DIER := tim_DIER h AND NOT it\<rparr>"

lemmas tim_macros = tim_log_def tim_ENABLE_def tim_DISABLE_def tim_MOE_ENABLE_def tim_MOE_DISABLE_def
  tim_ENABLE_IT_def tim_DISABLE_IT_def

section \<open>Configuration of registers\<close>

definition TIM_Base_SetConfig :: "TIM_Base_InitTypeDef \<Rightarrow> tim \<Rightarrow> tim" where
  "TIM_Base_SetConfig s h =
     (let i = tim_Instance h;
          cr1 = tim_CR1 h;
          cr1 = (if IS_TIM_COUNTER_MODE_SELECT_INSTANCE i
                 then (cr1 AND NOT (TIM_CR1_DIR OR TIM_CR1_CMS)) OR CounterMode s else cr1);
          cr1 = (if IS_TIM_CLOCK_DIVISION_INSTANCE i
                 then (cr1 AND NOT TIM_CR1_CKD) OR ClockDivision s else cr1);
          h1 = h\<lparr>tim_CR1 := cr1, tim_ARR := Period s, tim_PSC := Prescaler s\<rparr>;
          h2 = (if IS_TIM_REPETITION_COUNTER_INSTANCE i then h1\<lparr>tim_RCR := RepetitionCounter s\<rparr> else h1)
      in tim_log (EGR_set TIM_EGR_UG) h2)"

definition TIM_CCxChannelCmd :: "u32 \<Rightarrow> u32 \<Rightarrow> tim \<Rightarrow> tim" where
  "TIM_CCxChannelCmd Channel ChannelState h =
     h\<lparr>tim_CCER := (tim_CCER h AND NOT (push_bit (unat Channel) TIM_CCER_CC1E))
                     OR push_bit (unat Channel) ChannelState\<rparr>"

definition TIM_OC1_SetConfig :: "TIM_OC_InitTypeDef \<Rightarrow> tim \<Rightarrow> tim" where
  "TIM_OC1_SetConfig c h =
     (let i = tim_Instance h;
          ccer = tim_CCER h AND NOT TIM_CCER_CC1E;
          cr2 = tim_CR2 h;
          ccmr = (tim_CCMR1 h AND NOT TIM_CCMR1_OC1M AND NOT TIM_CCMR1_CC1S) OR OCMode c;
          ccer = (ccer AND NOT TIM_CCER_CC1P) OR OCPolarity c;
          ccer = (if IS_TIM_CCXN_INSTANCE i TIM_CHANNEL_1
                  then ((ccer AND NOT TIM_CCER_CC1NP) OR OCNPolarity c) AND NOT TIM_CCER_CC1NE
                  else ccer);
          cr2 = (if IS_TIM_BREAK_INSTANCE i
                 then (cr2 AND NOT TIM_CR2_OIS1 AND NOT TIM_CR2_OIS1N)
                      OR OCIdleState c OR OCNIdleState c
                 else cr2)
      in h\<lparr>tim_CR2 := cr2, tim_CCMR1 := ccmr, tim_CCR1 := Pulse c, tim_CCER := ccer\<rparr>)"

definition TIM_OC2_SetConfig :: "TIM_OC_InitTypeDef \<Rightarrow> tim \<Rightarrow> tim" where
  "TIM_OC2_SetConfig c h =
     (let i = tim_Instance h;
          ccer = tim_CCER h AND NOT TIM_CCER_CC2E;
          cr2 = tim_CR2 h;
          ccmr = (tim_CCMR1 h AND NOT TIM_CCMR1_OC2M AND NOT TIM_CCMR1_CC2S) OR push_bit 8 (OCMode c);
          ccer = (ccer AND NOT TIM_CCER_CC2P) OR push_bit 4 (OCPolarity c);
          ccer = (if IS_TIM_CCXN_INSTANCE i TIM_CHANNEL_2
                  then ((ccer AND NOT TIM_CCER_CC2NP) OR push_bit 4 (OCNPolarity c)) AND NOT TIM_CCER_CC2NE
                  else ccer);
          cr2 = (if IS_TIM_BREAK_INSTANCE i
                 then (cr2 AND NOT TIM_CR2_OIS2 AND NOT TIM_CR2_OIS2N)
                      OR push_bit 2 (OCIdleState c) OR push_bit 2 (OCNIdleState c)
                 else cr2)
      in h\<lparr>tim_CR2 := cr2, tim_CCMR1 := ccmr, tim_CCR2 := Pulse c, tim_CCER := ccer\<rparr>)"

definition TIM_OC3_SetConfig :: "TIM_OC_InitTypeDef \<Rightarrow> tim \<Rightarrow> tim" where
  "TIM_OC3_SetConfig c h =
     (let i = tim_Instance h;
          ccer = tim_CCER h AND NOT TIM_CCER_CC3E;
          cr2 = tim_CR2 h;
          ccmr = (tim_CCMR2 h AND NOT TIM_CCMR2_OC3M AND NOT TIM_CCMR2_CC3S) OR OCMode c;
          ccer = (ccer AND NOT TIM_CCER_CC3P) OR push_bit 8 (OCPolarity c);
          ccer = (if IS_TIM_CCXN_INSTANCE i TIM_CHANNEL_3
                  then ((ccer AND NOT TIM_CCER_CC3NP) OR push_bit 8 (OCNPolarity c)) AND NOT TIM_CCER_CC3NE
                  else ccer);
          cr2 = (if IS_TIM_BREAK_INSTANCE i
                 then (cr2 AND NOT TIM_CR2_OIS3 AND NOT TIM_CR2_OIS3N)
                      OR push_bit 4 (OCIdleState c) OR push_bit 4 (OCNIdleState c)
                 else cr2)
      in h\<lparr>tim_CR2 := cr2, tim_CCMR2 := ccmr, tim_CCR3 := Pulse c, tim_CCER := ccer\<rparr>)"

definition TIM_OC4_SetConfig :: "TIM_OC_InitTypeDef \<Rightarrow> tim \<Rightarrow> tim" where
  "TIM_OC4_SetConfig c h =
     (let i = tim_Instance h;
          ccer = tim_CCER h AND NOT TIM_CCER_CC4E;
          cr2 = tim_CR2 h;
          ccmr = (tim_CCMR2 h AND NOT TIM_CCMR2_OC4M AND NOT TIM_CCMR2_CC4S) OR push_bit 8 (OCMode c);
          ccer = (ccer AND NOT TIM_CCER_CC4P) OR push_bit 12 (OCPolarity c);
          cr2 = (if IS_TIM_BREAK_INSTANCE i
                 then (cr2 AND NOT TIM_CR2_OIS4) OR push_bit 6 (OCIdleState c)
                 else cr2)
      in h\<lparr>tim_CR2 := cr2, tim_CCMR2 := ccmr, tim_CCR4 := Pulse c, tim_CCER := ccer\<rparr>)"

definition TIM_TI1_SetConfig :: "u32 \<Rightarrow> u32 \<Rightarrow> u32 \<Rightarrow> tim \<Rightarrow> tim" where
  "TIM_TI1_SetConfig Polarity Selection Filter h =
     (let ccer = tim_CCER h AND NOT TIM_CCER_CC1E;
          ccmr = tim_CCMR1 h;
          ccmr = (if IS_TIM_CC2_INSTANCE (tim_Instance h)
                  then (ccmr AND NOT TIM_CCMR1_CC1S) OR Selection
                  else ccmr OR TIM_CCMR1_CC1S_0);
          ccmr = (ccmr AND NOT TIM_CCMR1_IC1F) OR (push_bit 4 Filter AND TIM_CCMR1_IC1F);
          ccer = (ccer AND NOT (TIM_CCER_CC1P OR TIM_CCER_CC1NP)) OR (Polarity AND (TIM_CCER_CC1P OR TIM_CCER_CC1NP))
      in h\<lparr>tim_CCMR1 := ccmr, tim_CCER := ccer\<rparr>)"

definition TIM_TI2_SetConfig :: "u32 \<Rightarrow> u32 \<Rightarrow> u32 \<Rightarrow> tim \<Rightarrow> tim" where
  "TIM_TI2_SetConfig Polarity Selection Filter h =
     (let ccer = tim_CCER h AND NOT TIM_CCER_CC2E;
          ccmr = tim_CCMR1 h;
          ccmr = (ccmr AND NOT TIM_CCMR1_CC2S) OR push_bit 8 Selection;
          ccmr = (ccmr AND NOT TIM_CCMR1_IC2F) OR (push_bit 12 Filter AND TIM_CCMR1_IC2F);
          ccer = (ccer AND NOT (TIM_CCER_CC2P OR TIM_CCER_CC2NP)) OR (push_bit 4 Polarity AND (TIM_CCER_CC2P OR TIM_CCER_CC2NP))
      in h\<lparr>tim_CCMR1 := ccmr, tim_CCER := ccer\<rparr>)"

definition TIM_TI3_SetConfig :: "u32 \<Rightarrow> u32 \<Rightarrow> u32 \<Rightarrow> tim \<Rightarrow> tim" where
  "TIM_TI3_SetConfig Polarity Selection Filter h =
     (let ccer = tim_CCER h AND NOT TIM_CCER_CC3E;
          ccmr = tim_CCMR2 h;
          ccmr = (ccmr AND NOT TIM_CCMR2_CC3S) OR Selection;
          ccmr = (ccmr AND NOT TIM_CCMR2_IC3F) OR (push_bit 4 Filter AND TIM_CCMR2_IC3F);
          ccer = (ccer AND NOT (TIM_CCER_CC3P OR TIM_CCER_CC3NP)) OR (push_bit 8 Polarity AND (TIM_CCER_CC3P OR TIM_CCER_CC3NP))
      in h\<lparr>tim_CCMR2 := ccmr, tim_CCER := ccer\<rparr>)"

definition TIM_TI4_SetConfig :: "u32 \<Rightarrow> u32 \<Rightarrow> u32 \<Rightarrow> tim \<Rightarrow> tim" where
  "TIM_TI4_SetConfig Polarity Selection Filter h =
     (let ccer = tim_CCER h AND NOT TIM_CCER_CC4E;
          ccmr = tim_CCMR2 h;
          ccmr = (ccmr AND NOT TIM_CCMR2_CC4S) OR push_bit 8 Selection;
          ccmr = (ccmr AND NOT TIM_CCMR2_IC4F) OR (push_bit 12 Filter AND TIM_CCMR2_IC4F);
          ccer = (ccer AND NOT (TIM_CCER_CC4P OR TIM_CCER_CC4NP)) OR (push_bit 12 Polarity AND (TIM_CCER_CC4P OR TIM_CCER_CC4NP))
      in h\<lparr>tim_CCMR2 := ccmr, tim_CCER := ccer\<rparr>)"


section \<open>Set-up\<close>

text \<open>What the set-up functions share; \<open>msp\<close> is the low-level set-up, called for a handle in the reset state.  The
  null check of the handle has no counterpart.\<close>
definition tim_set_up :: "(tim \<Rightarrow> tim) \<Rightarrow> tim \<Rightarrow> HAL_StatusTypeDef \<times> tim" where
  "tim_set_up msp h =
     (let h1 = (if tim_State h = HAL_TIM_STATE_RESET then msp (h\<lparr>tim_Lock := HAL_UNLOCKED\<rparr>) else h);
          h2 = h1\<lparr>tim_State := HAL_TIM_STATE_BUSY\<rparr>;
          h3 = TIM_Base_SetConfig (tim_Init h2) h2
      in (HAL_OK, h3\<lparr>tim_State := HAL_TIM_STATE_READY\<rparr>))"

definition tim_tear_down :: "(tim \<Rightarrow> tim) \<Rightarrow> tim \<Rightarrow> HAL_StatusTypeDef \<times> tim" where
  "tim_tear_down msp h =
     (let h1 = tim_DISABLE (h\<lparr>tim_State := HAL_TIM_STATE_BUSY\<rparr>)
      in (HAL_OK, (msp h1)\<lparr>tim_State := HAL_TIM_STATE_RESET, tim_Lock := HAL_UNLOCKED\<rparr>))"

definition HAL_TIM_Base_Init :: "(tim \<Rightarrow> tim) \<Rightarrow> tim \<Rightarrow> HAL_StatusTypeDef \<times> tim" where
  "HAL_TIM_Base_Init Base_MspInit h = tim_set_up Base_MspInit h"

definition HAL_TIM_OC_Init :: "(tim \<Rightarrow> tim) \<Rightarrow> tim \<Rightarrow> HAL_StatusTypeDef \<times> tim" where
  "HAL_TIM_OC_Init OC_MspInit h = tim_set_up OC_MspInit h"

definition HAL_TIM_PWM_Init :: "(tim \<Rightarrow> tim) \<Rightarrow> tim \<Rightarrow> HAL_StatusTypeDef \<times> tim" where
  "HAL_TIM_PWM_Init PWM_MspInit h = tim_set_up PWM_MspInit h"

definition HAL_TIM_IC_Init :: "(tim \<Rightarrow> tim) \<Rightarrow> tim \<Rightarrow> HAL_StatusTypeDef \<times> tim" where
  "HAL_TIM_IC_Init IC_MspInit h = tim_set_up IC_MspInit h"

definition HAL_TIM_Base_DeInit :: "(tim \<Rightarrow> tim) \<Rightarrow> tim \<Rightarrow> HAL_StatusTypeDef \<times> tim" where
  "HAL_TIM_Base_DeInit Base_MspDeInit h = tim_tear_down Base_MspDeInit h"

definition HAL_TIM_OC_DeInit :: "(tim \<Rightarrow> tim) \<Rightarrow> tim \<Rightarrow> HAL_StatusTypeDef \<times> tim" where
  "HAL_TIM_OC_DeInit OC_MspDeInit h = tim_tear_down OC_MspDeInit h"

definition HAL_TIM_PWM_DeInit :: "(tim \<Rightarrow> tim) \<Rightarrow> tim \<Rightarrow> HAL_StatusTypeDef \<times> tim" where
  "HAL_TIM_PWM_DeInit PWM_MspDeInit h = tim_tear_down PWM_MspDeInit h"

definition HAL_TIM_IC_DeInit :: "(tim \<Rightarrow> tim) \<Rightarrow> tim \<Rightarrow> HAL_StatusTypeDef \<times> tim" where
  "HAL_TIM_IC_DeInit IC_MspDeInit h = tim_tear_down IC_MspDeInit h"

section \<open>Start and stop\<close>

definition HAL_TIM_Base_Start :: "tim \<Rightarrow> HAL_StatusTypeDef \<times> tim" where
  "HAL_TIM_Base_Start h =
     (HAL_OK, (tim_ENABLE (h\<lparr>tim_State := HAL_TIM_STATE_BUSY\<rparr>))\<lparr>tim_State := HAL_TIM_STATE_READY\<rparr>)"

definition HAL_TIM_Base_Stop :: "tim \<Rightarrow> HAL_StatusTypeDef \<times> tim" where
  "HAL_TIM_Base_Stop h =
     (HAL_OK, (tim_DISABLE (h\<lparr>tim_State := HAL_TIM_STATE_BUSY\<rparr>))\<lparr>tim_State := HAL_TIM_STATE_READY\<rparr>)"

definition HAL_TIM_Base_Start_IT :: "tim \<Rightarrow> HAL_StatusTypeDef \<times> tim" where
  "HAL_TIM_Base_Start_IT h = (HAL_OK, tim_ENABLE (tim_ENABLE_IT TIM_IT_UPDATE h))"

definition HAL_TIM_Base_Stop_IT :: "tim \<Rightarrow> HAL_StatusTypeDef \<times> tim" where
  "HAL_TIM_Base_Stop_IT h = (HAL_OK, tim_DISABLE (tim_DISABLE_IT TIM_IT_UPDATE h))"

text \<open>The interrupt of a channel in the \<^verbatim>\<open>switch\<close> of the interrupt functions; none for another value.\<close>
definition channel_it :: "u32 \<Rightarrow> u32" where
  "channel_it Channel =
     (if Channel = TIM_CHANNEL_1 then TIM_IT_CC1 else if Channel = TIM_CHANNEL_2 then TIM_IT_CC2
      else if Channel = TIM_CHANNEL_3 then TIM_IT_CC3 else if Channel = TIM_CHANNEL_4 then TIM_IT_CC4 else 0)"

text \<open>\<^verbatim>\<open>if(IS_TIM_BREAK_INSTANCE(htim->Instance) != RESET) __HAL_TIM_MOE_ENABLE(htim);\<close> and its counterpart.\<close>
definition tim_output_on :: "tim \<Rightarrow> tim" where
  "tim_output_on h = (if IS_TIM_BREAK_INSTANCE (tim_Instance h) then tim_MOE_ENABLE h else h)"

definition tim_output_off :: "tim \<Rightarrow> tim" where
  "tim_output_off h = (if IS_TIM_BREAK_INSTANCE (tim_Instance h) then tim_MOE_DISABLE h else h)"

definition HAL_TIM_OC_Start :: "u32 \<Rightarrow> tim \<Rightarrow> HAL_StatusTypeDef \<times> tim" where
  "HAL_TIM_OC_Start Channel h = (HAL_OK, tim_ENABLE (tim_output_on (TIM_CCxChannelCmd Channel TIM_CCx_ENABLE h)))"

definition HAL_TIM_OC_Stop :: "u32 \<Rightarrow> tim \<Rightarrow> HAL_StatusTypeDef \<times> tim" where
  "HAL_TIM_OC_Stop Channel h = (HAL_OK, tim_DISABLE (tim_output_off (TIM_CCxChannelCmd Channel TIM_CCx_DISABLE h)))"

definition HAL_TIM_OC_Start_IT :: "u32 \<Rightarrow> tim \<Rightarrow> HAL_StatusTypeDef \<times> tim" where
  "HAL_TIM_OC_Start_IT Channel h =
     (HAL_OK, tim_ENABLE (tim_output_on (TIM_CCxChannelCmd Channel TIM_CCx_ENABLE (tim_ENABLE_IT (channel_it Channel) h))))"

definition HAL_TIM_OC_Stop_IT :: "u32 \<Rightarrow> tim \<Rightarrow> HAL_StatusTypeDef \<times> tim" where
  "HAL_TIM_OC_Stop_IT Channel h =
     (HAL_OK, tim_DISABLE (tim_output_off (TIM_CCxChannelCmd Channel TIM_CCx_DISABLE (tim_DISABLE_IT (channel_it Channel) h))))"

definition HAL_TIM_PWM_Start :: "u32 \<Rightarrow> tim \<Rightarrow> HAL_StatusTypeDef \<times> tim" where
  "HAL_TIM_PWM_Start Channel h = (HAL_OK, tim_ENABLE (tim_output_on (TIM_CCxChannelCmd Channel TIM_CCx_ENABLE h)))"

definition HAL_TIM_PWM_Stop :: "u32 \<Rightarrow> tim \<Rightarrow> HAL_StatusTypeDef \<times> tim" where
  "HAL_TIM_PWM_Stop Channel h =
     (HAL_OK, (tim_DISABLE (tim_output_off (TIM_CCxChannelCmd Channel TIM_CCx_DISABLE h)))
        \<lparr>tim_State := HAL_TIM_STATE_READY\<rparr>)"

definition HAL_TIM_PWM_Start_IT :: "u32 \<Rightarrow> tim \<Rightarrow> HAL_StatusTypeDef \<times> tim" where
  "HAL_TIM_PWM_Start_IT Channel h =
     (HAL_OK, tim_ENABLE (tim_output_on (TIM_CCxChannelCmd Channel TIM_CCx_ENABLE (tim_ENABLE_IT (channel_it Channel) h))))"

definition HAL_TIM_PWM_Stop_IT :: "u32 \<Rightarrow> tim \<Rightarrow> HAL_StatusTypeDef \<times> tim" where
  "HAL_TIM_PWM_Stop_IT Channel h =
     (HAL_OK, tim_DISABLE (tim_output_off (TIM_CCxChannelCmd Channel TIM_CCx_DISABLE (tim_DISABLE_IT (channel_it Channel) h))))"

definition HAL_TIM_IC_Start :: "u32 \<Rightarrow> tim \<Rightarrow> HAL_StatusTypeDef \<times> tim" where
  "HAL_TIM_IC_Start Channel h = (HAL_OK, tim_ENABLE (TIM_CCxChannelCmd Channel TIM_CCx_ENABLE h))"

definition HAL_TIM_IC_Stop :: "u32 \<Rightarrow> tim \<Rightarrow> HAL_StatusTypeDef \<times> tim" where
  "HAL_TIM_IC_Stop Channel h = (HAL_OK, tim_DISABLE (TIM_CCxChannelCmd Channel TIM_CCx_DISABLE h))"

definition HAL_TIM_IC_Start_IT :: "u32 \<Rightarrow> tim \<Rightarrow> HAL_StatusTypeDef \<times> tim" where
  "HAL_TIM_IC_Start_IT Channel h =
     (HAL_OK, tim_ENABLE (TIM_CCxChannelCmd Channel TIM_CCx_ENABLE (tim_ENABLE_IT (channel_it Channel) h)))"

definition HAL_TIM_IC_Stop_IT :: "u32 \<Rightarrow> tim \<Rightarrow> HAL_StatusTypeDef \<times> tim" where
  "HAL_TIM_IC_Stop_IT Channel h =
     (HAL_OK, tim_DISABLE (TIM_CCxChannelCmd Channel TIM_CCx_DISABLE (tim_DISABLE_IT (channel_it Channel) h)))"

section \<open>Channel configuration\<close>

text \<open>\<^verbatim>\<open>__HAL_LOCK\<close>, state busy, the change, state ready, \<^verbatim>\<open>__HAL_UNLOCK\<close>.\<close>
definition tim_locked :: "(tim \<Rightarrow> tim) \<Rightarrow> tim \<Rightarrow> HAL_StatusTypeDef \<times> tim" where
  "tim_locked change h =
     (if tim_Lock h = HAL_LOCKED then (HAL_BUSY, h)
      else (HAL_OK, (change (h\<lparr>tim_Lock := HAL_LOCKED, tim_State := HAL_TIM_STATE_BUSY\<rparr>))
              \<lparr>tim_State := HAL_TIM_STATE_READY, tim_Lock := HAL_UNLOCKED\<rparr>))"

definition HAL_TIM_OC_ConfigChannel :: "TIM_OC_InitTypeDef \<Rightarrow> u32 \<Rightarrow> tim \<Rightarrow> HAL_StatusTypeDef \<times> tim" where
  "HAL_TIM_OC_ConfigChannel c Channel h =
     tim_locked (\<lambda>h. if Channel = TIM_CHANNEL_1 then TIM_OC1_SetConfig c h
                     else if Channel = TIM_CHANNEL_2 then TIM_OC2_SetConfig c h
                     else if Channel = TIM_CHANNEL_3 then TIM_OC3_SetConfig c h
                     else if Channel = TIM_CHANNEL_4 then TIM_OC4_SetConfig c h else h) h"

definition HAL_TIM_IC_ConfigChannel :: "TIM_IC_InitTypeDef \<Rightarrow> u32 \<Rightarrow> tim \<Rightarrow> HAL_StatusTypeDef \<times> tim" where
  "HAL_TIM_IC_ConfigChannel c Channel h =
     tim_locked (\<lambda>h.
       if Channel = TIM_CHANNEL_1
       then let h1 = TIM_TI1_SetConfig (ICPolarity c) (ICSelection c) (ICFilter c) h
            in h1\<lparr>tim_CCMR1 := (tim_CCMR1 h1 AND NOT TIM_CCMR1_IC1PSC) OR ICPrescaler c\<rparr>
       else if Channel = TIM_CHANNEL_2
       then let h1 = TIM_TI2_SetConfig (ICPolarity c) (ICSelection c) (ICFilter c) h
            in h1\<lparr>tim_CCMR1 := (tim_CCMR1 h1 AND NOT TIM_CCMR1_IC2PSC) OR push_bit 8 (ICPrescaler c)\<rparr>
       else if Channel = TIM_CHANNEL_3
       then let h1 = TIM_TI3_SetConfig (ICPolarity c) (ICSelection c) (ICFilter c) h
            in h1\<lparr>tim_CCMR2 := (tim_CCMR2 h1 AND NOT TIM_CCMR2_IC3PSC) OR ICPrescaler c\<rparr>
       else let h1 = TIM_TI4_SetConfig (ICPolarity c) (ICSelection c) (ICFilter c) h
            in h1\<lparr>tim_CCMR2 := (tim_CCMR2 h1 AND NOT TIM_CCMR2_IC4PSC) OR push_bit 8 (ICPrescaler c)\<rparr>) h"

definition HAL_TIM_PWM_ConfigChannel :: "TIM_OC_InitTypeDef \<Rightarrow> u32 \<Rightarrow> tim \<Rightarrow> HAL_StatusTypeDef \<times> tim" where
  "HAL_TIM_PWM_ConfigChannel c Channel h =
     tim_locked (\<lambda>h.
       if Channel = TIM_CHANNEL_1
       then let h1 = TIM_OC1_SetConfig c h
            in h1\<lparr>tim_CCMR1 := ((tim_CCMR1 h1 OR TIM_CCMR1_OC1PE) AND NOT TIM_CCMR1_OC1FE) OR OCFastMode c\<rparr>
       else if Channel = TIM_CHANNEL_2
       then let h1 = TIM_OC2_SetConfig c h
            in h1\<lparr>tim_CCMR1 := ((tim_CCMR1 h1 OR TIM_CCMR1_OC2PE) AND NOT TIM_CCMR1_OC2FE) OR push_bit 8 (OCFastMode c)\<rparr>
       else if Channel = TIM_CHANNEL_3
       then let h1 = TIM_OC3_SetConfig c h
            in h1\<lparr>tim_CCMR2 := ((tim_CCMR2 h1 OR TIM_CCMR2_OC3PE) AND NOT TIM_CCMR2_OC3FE) OR OCFastMode c\<rparr>
       else if Channel = TIM_CHANNEL_4
       then let h1 = TIM_OC4_SetConfig c h
            in h1\<lparr>tim_CCMR2 := ((tim_CCMR2 h1 OR TIM_CCMR2_OC4PE) AND NOT TIM_CCMR2_OC4FE) OR push_bit 8 (OCFastMode c)\<rparr>
       else h) h"

section \<open>Captured values\<close>

text \<open>The capture/compare register of a channel: what the program wrote when the channel is an output, what the
  hardware captured when it is an input.\<close>
definition tim_read_CCR :: "tim_hw \<Rightarrow> u32 \<Rightarrow> tim \<Rightarrow> u32" where
  "tim_read_CCR hw Channel h =
     (if Channel = TIM_CHANNEL_1
      then if tim_CCMR1 h AND TIM_CCMR1_CC1S \<noteq> 0 then th_CCR hw Channel (tim_now h) else tim_CCR1 h
      else if Channel = TIM_CHANNEL_2
      then if tim_CCMR1 h AND TIM_CCMR1_CC2S \<noteq> 0 then th_CCR hw Channel (tim_now h) else tim_CCR2 h
      else if Channel = TIM_CHANNEL_3
      then if tim_CCMR2 h AND TIM_CCMR2_CC3S \<noteq> 0 then th_CCR hw Channel (tim_now h) else tim_CCR3 h
      else if Channel = TIM_CHANNEL_4
      then if tim_CCMR2 h AND TIM_CCMR2_CC4S \<noteq> 0 then th_CCR hw Channel (tim_now h) else tim_CCR4 h
      else 0)"

text \<open>The numeric value of a status, as a \<^verbatim>\<open>return HAL_BUSY\<close> in a function of type \<^verbatim>\<open>uint32_t\<close> gives it.\<close>
fun status_code :: "HAL_StatusTypeDef \<Rightarrow> u32" where
  "status_code HAL_OK = 0"
| "status_code HAL_ERROR = 1"
| "status_code HAL_BUSY = 2"
| "status_code HAL_TIMEOUT = 3"

definition HAL_TIM_ReadCapturedValue :: "tim_hw \<Rightarrow> u32 \<Rightarrow> tim \<Rightarrow> u32 \<times> tim" where
  "HAL_TIM_ReadCapturedValue hw Channel h =
     (if tim_Lock h = HAL_LOCKED then (status_code HAL_BUSY, h)
      else (tim_read_CCR hw Channel h, h\<lparr>tim_Lock := HAL_UNLOCKED, tim_now := Suc (tim_now h)\<rparr>))"

section \<open>Interrupt handler\<close>

text \<open>One of the eight checks: \<open>handle\<close> is run when the flag is set and its interrupt enabled.\<close>
definition tim_event ::
  "tim_hw \<Rightarrow> u32 \<Rightarrow> u32 \<Rightarrow> (tim \<times> 's \<Rightarrow> tim \<times> 's) \<Rightarrow> tim \<times> 's \<Rightarrow> tim \<times> 's" where
  "tim_event hw flag it handle x =
     (let (h, s) = x; h1 = h\<lparr>tim_now := Suc (tim_now h)\<rparr>
      in if th_SR hw (tim_now h) AND flag = flag \<and> tim_DIER h AND it = it
         then handle (tim_log (TIM_SR_write (NOT it)) h1, s) else (h1, s))"

text \<open>A capture/compare event of a channel; \<open>input\<close> tells whether the channel captures.\<close>
definition tim_channel_event ::
  "(tim_callback \<Rightarrow> tim \<times> 's \<Rightarrow> tim \<times> 's) \<Rightarrow> HAL_TIM_ActiveChannel \<Rightarrow> (tim \<Rightarrow> bool) \<Rightarrow> tim \<times> 's \<Rightarrow> tim \<times> 's" where
  "tim_channel_event cb ch input x =
     (let (h, s) = x; h1 = h\<lparr>tim_Channel := ch\<rparr>;
          (h2, s2) = (if input h1 then cb IC_CaptureCallback (h1, s)
                      else cb PWM_PulseFinishedCallback (cb OC_DelayElapsedCallback (h1, s)))
      in (h2\<lparr>tim_Channel := HAL_TIM_ACTIVE_CHANNEL_CLEARED\<rparr>, s2))"

definition HAL_TIM_IRQHandler ::
  "(tim_callback \<Rightarrow> tim \<times> 's \<Rightarrow> tim \<times> 's) \<Rightarrow> tim_hw \<Rightarrow> tim \<times> 's \<Rightarrow> tim \<times> 's" where
  "HAL_TIM_IRQHandler cb hw x =
     (let x1 = tim_event hw TIM_FLAG_CC1 TIM_IT_CC1
                 (tim_channel_event cb HAL_TIM_ACTIVE_CHANNEL_1 (\<lambda>h. tim_CCMR1 h AND TIM_CCMR1_CC1S \<noteq> 0)) x;
          x2 = tim_event hw TIM_FLAG_CC2 TIM_IT_CC2
                 (tim_channel_event cb HAL_TIM_ACTIVE_CHANNEL_2 (\<lambda>h. tim_CCMR1 h AND TIM_CCMR1_CC2S \<noteq> 0)) x1;
          x3 = tim_event hw TIM_FLAG_CC3 TIM_IT_CC3
                 (tim_channel_event cb HAL_TIM_ACTIVE_CHANNEL_3 (\<lambda>h. tim_CCMR2 h AND TIM_CCMR2_CC3S \<noteq> 0)) x2;
          x4 = tim_event hw TIM_FLAG_CC4 TIM_IT_CC4
                 (tim_channel_event cb HAL_TIM_ACTIVE_CHANNEL_4 (\<lambda>h. tim_CCMR2 h AND TIM_CCMR2_CC4S \<noteq> 0)) x3;
          x5 = tim_event hw TIM_FLAG_UPDATE TIM_IT_UPDATE (cb PeriodElapsedCallback) x4;
          x6 = tim_event hw TIM_FLAG_BREAK TIM_IT_BREAK (cb BreakCallback) x5;
          x7 = tim_event hw TIM_FLAG_TRIGGER TIM_IT_TRIGGER (cb TriggerCallback) x6
      in tim_event hw TIM_FLAG_COM TIM_IT_COM (cb CommutationCallback) x7)"

definition HAL_TIM_Base_GetState :: "tim \<Rightarrow> HAL_TIM_StateTypeDef" where
  "HAL_TIM_Base_GetState h = tim_State h"

definition HAL_TIM_OC_GetState :: "tim \<Rightarrow> HAL_TIM_StateTypeDef" where
  "HAL_TIM_OC_GetState h = tim_State h"

definition HAL_TIM_PWM_GetState :: "tim \<Rightarrow> HAL_TIM_StateTypeDef" where
  "HAL_TIM_PWM_GetState h = tim_State h"

definition HAL_TIM_IC_GetState :: "tim \<Rightarrow> HAL_TIM_StateTypeDef" where
  "HAL_TIM_IC_GetState h = tim_State h"

section \<open>Lemmas\<close>

text \<open>The four channel-enable bits and the three complementary ones.\<close>
lemma channel_masks:
  fixes x :: u32
  shows "x AND TIM_CCER_CCxE_MASK = 0 \<longleftrightarrow> \<not> bit x 0 \<and> \<not> bit x 4 \<and> \<not> bit x 8 \<and> \<not> bit x 12"
    "x AND TIM_CCER_CCxNE_MASK = 0 \<longleftrightarrow> \<not> bit x 2 \<and> \<not> bit x 6 \<and> \<not> bit x 10"
proof -
  have m1: "TIM_CCER_CCxE_MASK = push_bit 0 1 OR push_bit 4 1 OR push_bit 8 1 OR push_bit 12 1"
    by (simp add: TIM_CCER_CCxE_MASK_def)
  show "x AND TIM_CCER_CCxE_MASK = 0 \<longleftrightarrow> \<not> bit x 0 \<and> \<not> bit x 4 \<and> \<not> bit x 8 \<and> \<not> bit x 12"
    by (simp only: m1 bit.conj_disj_distrib or_eq_0_iff pin_bit [symmetric] not_not)
  have m2: "TIM_CCER_CCxNE_MASK = push_bit 2 1 OR push_bit 6 1 OR push_bit 10 1"
    by (simp add: TIM_CCER_CCxNE_MASK_def)
  show "x AND TIM_CCER_CCxNE_MASK = 0 \<longleftrightarrow> \<not> bit x 2 \<and> \<not> bit x 6 \<and> \<not> bit x 10"
    by (simp only: m2 bit.conj_disj_distrib or_eq_0_iff pin_bit [symmetric] not_not)
qed

definition tim_channel :: "u32 \<Rightarrow> bool" where
  "tim_channel c \<longleftrightarrow> c = TIM_CHANNEL_1 \<or> c = TIM_CHANNEL_2 \<or> c = TIM_CHANNEL_3 \<or> c = TIM_CHANNEL_4"

lemma tim_channel_unat:
  "tim_channel c \<Longrightarrow> unat c = 0 \<or> unat c = 4 \<or> unat c = 8 \<or> unat c = 12"
  by (auto simp: tim_channel_def tim_consts)

lemma CCxChannelCmd_bits:
  assumes "tim_channel c"
  shows "bit (tim_CCER (TIM_CCxChannelCmd c TIM_CCx_ENABLE h)) n \<longleftrightarrow> n = unat c \<or> bit (tim_CCER h) n"
    "bit (tim_CCER (TIM_CCxChannelCmd c TIM_CCx_DISABLE h)) n \<longleftrightarrow> n \<noteq> unat c \<and> bit (tim_CCER h) n"
  using tim_channel_unat [OF assms]
  by (auto simp: TIM_CCxChannelCmd_def tim_consts bit_simps dest: bit_imp_le_length)

definition tim_running :: "tim \<Rightarrow> bool" where
  "tim_running h \<longleftrightarrow> bit (tim_CR1 h) 0"

text \<open>Outputs that keep the counter alive: channels and complementary channels.\<close>
definition tim_outputs :: "tim \<Rightarrow> nat set" where
  "tim_outputs h = {n \<in> {0, 4, 8, 12, 2, 6, 10}. bit (tim_CCER h) n}"

lemma tim_DISABLE_running: "tim_running (tim_DISABLE h) \<longleftrightarrow> tim_running h \<and> tim_outputs h \<noteq> {}"
proof -
  have "tim_CCER h AND TIM_CCER_CCxE_MASK = 0 \<and> tim_CCER h AND TIM_CCER_CCxNE_MASK = 0 \<longleftrightarrow> tim_outputs h = {}"
    by (auto simp: channel_masks tim_outputs_def intro!: gr0I)
  then show ?thesis
    by (auto simp: tim_DISABLE_def tim_running_def TIM_CR1_CEN_def bit_simps)
qed

lemma tim_enable_simps [simp]:
  "tim_running (tim_ENABLE h)" "tim_CCER (tim_ENABLE h) = tim_CCER h" "tim_CCER (tim_DISABLE h) = tim_CCER h"
  "tim_CCER (tim_output_on h) = tim_CCER h" "tim_CCER (tim_output_off h) = tim_CCER h"
  "tim_running (tim_output_off h) = tim_running h" "tim_running (TIM_CCxChannelCmd c v h) = tim_running h"
  "tim_running (h\<lparr>tim_State := st\<rparr>) = tim_running h"
  by (auto simp: tim_running_def tim_macros tim_output_on_def tim_output_off_def TIM_CCxChannelCmd_def TIM_CR1_CEN_def
      bit_simps)

lemma tim_outputs_cong: "tim_CCER h' = tim_CCER h \<Longrightarrow> tim_outputs h' = tim_outputs h"
  by (simp add: tim_outputs_def)

text \<open>Flags whose interrupt is not enabled are passed over.\<close>
lemma tim_event_off:
  "tim_DIER h AND it \<noteq> it \<Longrightarrow> tim_event hw flag it f (h, s) = (h\<lparr>tim_now := Suc (tim_now h)\<rparr>, s)"
  by (simp add: tim_event_def)

lemma irq_capture:
  assumes "tim_DIER h = TIM_IT_CC1" "th_SR hw (tim_now h) AND TIM_FLAG_CC1 = TIM_FLAG_CC1"
    "tim_CCMR1 h AND TIM_CCMR1_CC1S \<noteq> 0"
    "cb IC_CaptureCallback ((tim_log (TIM_SR_write (NOT TIM_IT_CC1)) (h\<lparr>tim_now := Suc (tim_now h)\<rparr>))
        \<lparr>tim_Channel := HAL_TIM_ACTIVE_CHANNEL_1\<rparr>, s) = (h1, s1)"
    "tim_DIER h1 = TIM_IT_CC1"
  shows "HAL_TIM_IRQHandler cb hw (h, s)
    = (h1\<lparr>tim_Channel := HAL_TIM_ACTIVE_CHANNEL_CLEARED, tim_now := tim_now h1 + 7\<rparr>, s1)"
proof -
  have "tim_event hw TIM_FLAG_CC1 TIM_IT_CC1
      (tim_channel_event cb HAL_TIM_ACTIVE_CHANNEL_1 (\<lambda>h. tim_CCMR1 h AND TIM_CCMR1_CC1S \<noteq> 0)) (h, s)
    = (h1\<lparr>tim_Channel := HAL_TIM_ACTIVE_CHANNEL_CLEARED\<rparr>, s1)"
    using assms(1-4) by (simp add: tim_event_def tim_channel_event_def tim_log_def)
  moreover have "TIM_IT_CC1 AND TIM_IT_CC2 \<noteq> TIM_IT_CC2" "TIM_IT_CC1 AND TIM_IT_CC3 \<noteq> TIM_IT_CC3"
    "TIM_IT_CC1 AND TIM_IT_CC4 \<noteq> TIM_IT_CC4" "TIM_IT_CC1 AND TIM_IT_UPDATE \<noteq> TIM_IT_UPDATE"
    "TIM_IT_CC1 AND TIM_IT_BREAK \<noteq> TIM_IT_BREAK" "TIM_IT_CC1 AND TIM_IT_TRIGGER \<noteq> TIM_IT_TRIGGER"
    "TIM_IT_CC1 AND TIM_IT_COM \<noteq> TIM_IT_COM"
    by (simp_all add: tim_consts)
  ultimately show ?thesis
    using assms(5) by (simp add: HAL_TIM_IRQHandler_def tim_event_off)
qed

section \<open>Properties\<close>

text \<open>Starting a channel enables exactly that channel and the counter; stopping it disables exactly that
  channel, and the counter stops only when no other output is enabled.\<close>
lemma tim_start_stop_channels:
  assumes "tim_channel c"
  shows "(\<forall>n. bit (tim_CCER (snd (HAL_TIM_PWM_Start c h))) n = (n = unat c \<or> bit (tim_CCER h) n))
    \<and> tim_running (snd (HAL_TIM_PWM_Start c h))
    \<and> (\<forall>n. bit (tim_CCER (snd (HAL_TIM_PWM_Stop c h))) n = (n \<noteq> unat c \<and> bit (tim_CCER h) n))
    \<and> (tim_running (snd (HAL_TIM_PWM_Stop c h)) \<longleftrightarrow> tim_running h \<and> tim_outputs h - {unat c} \<noteq> {})"
proof -
  let ?h = "TIM_CCxChannelCmd c TIM_CCx_DISABLE h"
  have "tim_outputs (tim_output_off ?h) = tim_outputs h - {unat c}"
    by (auto simp: tim_outputs_def CCxChannelCmd_bits [OF assms])
  then show ?thesis
    by (simp add: HAL_TIM_PWM_Start_def HAL_TIM_PWM_Stop_def CCxChannelCmd_bits [OF assms] tim_DISABLE_running)
qed

definition ex_tim :: tim where
  "ex_tim = \<lparr>tim_Instance = TIM2, tim_CR1 = 1, tim_CR2 = 0, tim_SMCR = 0, tim_DIER = 0, tim_CCMR1 = 0, tim_CCMR2 = 0, tim_CCER = 0x10,
     tim_PSC = 0, tim_ARR = 0, tim_RCR = 0, tim_CCR1 = 0, tim_CCR2 = 0, tim_CCR3 = 0, tim_CCR4 = 0, tim_BDTR = 0,
     tim_DCR = 0, tim_OR = 0,
     tim_Init = \<lparr>Prescaler = 0, CounterMode = 0, Period = 0, ClockDivision = 0, RepetitionCounter = 0\<rparr>,
     tim_Channel = HAL_TIM_ACTIVE_CHANNEL_CLEARED, tim_Lock = HAL_UNLOCKED, tim_State = HAL_TIM_STATE_READY,
     tim_now = 0, tim_io = []\<rparr>"

lemma tim_start_stop_channels_witness:
  "tim_running (snd (HAL_TIM_PWM_Stop TIM_CHANNEL_3 ex_tim)) \<and> \<not> tim_running (snd (HAL_TIM_PWM_Stop TIM_CHANNEL_2 ex_tim))"
proof -
  have "tim_running ex_tim" by (simp add: tim_running_def ex_tim_def)
  moreover have "tim_outputs ex_tim = {4}" by (auto simp: tim_outputs_def ex_tim_def)
  moreover have "unat TIM_CHANNEL_3 = 8" "unat TIM_CHANNEL_2 = 4" by (simp_all add: tim_consts)
  ultimately show ?thesis
    using tim_start_stop_channels [of TIM_CHANNEL_3 ex_tim] tim_start_stop_channels [of TIM_CHANNEL_2 ex_tim]
    by (auto simp: tim_channel_def)
qed

text \<open>A read of a captured value while the handle is locked returns the status code of \<^verbatim>\<open>HAL_BUSY\<close>, which the caller
  cannot tell from the count two; otherwise it returns the capture register and leaves the handle unlocked.\<close>
lemma tim_read_captured_value:
  "fst (HAL_TIM_ReadCapturedValue hw c h) = (if tim_Lock h = HAL_LOCKED then 2 else tim_read_CCR hw c h)
   \<and> tim_Lock (snd (HAL_TIM_ReadCapturedValue hw c h)) = tim_Lock h"
  by (cases "tim_Lock h") (simp_all add: HAL_TIM_ReadCapturedValue_def)

end
