(* ===== verification/Hal_Rcc.thy ===== *)
theory Hal_Rcc
  imports Hal_Core
begin

text \<open>
  The clock controller driver (\<^verbatim>\<open>stm32f3xx_hal_rcc.c\<close>) and the clock part of
  \<^verbatim>\<open>system_stm32f3xx.c\<close>, for the STM32F373: oscillators, PLL, bus clocks, flash latency, and the
  two routines that compute the core frequency.  Bits that the hardware sets (ready flags, the clock
  switch status, the backup-domain write access, the latency read back) come from the environment.
  The clock output on a pin and the peripheral clock selection are not part of it.
\<close>

section \<open>Registers and constants\<close>

definition RCC_CR_HSION :: u32 where "RCC_CR_HSION = 0x1"
definition RCC_CR_HSITRIM :: u32 where "RCC_CR_HSITRIM = 0xF8"
definition RCC_CR_HSITRIM_4 :: u32 where "RCC_CR_HSITRIM_4 = 0x80"
definition RCC_CR_HSEON :: u32 where "RCC_CR_HSEON = 0x10000"
definition RCC_CR_HSEBYP :: u32 where "RCC_CR_HSEBYP = 0x40000"
definition RCC_CR_CSSON :: u32 where "RCC_CR_CSSON = 0x80000"
definition RCC_CR_PLLON :: u32 where "RCC_CR_PLLON = 0x1000000"
definition RCC_CFGR_SW :: u32 where "RCC_CFGR_SW = 0x3"
definition RCC_CFGR_SWS :: u32 where "RCC_CFGR_SWS = 0xC"
definition RCC_CFGR_HPRE :: u32 where "RCC_CFGR_HPRE = 0xF0"
definition RCC_CFGR_PPRE1 :: u32 where "RCC_CFGR_PPRE1 = 0x700"
definition RCC_CFGR_PPRE2 :: u32 where "RCC_CFGR_PPRE2 = 0x3800"
definition RCC_CFGR_PLLSRC :: u32 where "RCC_CFGR_PLLSRC = 0x10000"
definition RCC_CFGR_PLLMUL :: u32 where "RCC_CFGR_PLLMUL = 0x3C0000"
definition RCC_CFGR_MCO :: u32 where "RCC_CFGR_MCO = 0x7000000"
definition RCC_CFGR2_PREDIV :: u32 where "RCC_CFGR2_PREDIV = 0xF"
definition RCC_BDCR_LSEON :: u32 where "RCC_BDCR_LSEON = 0x1"
definition RCC_BDCR_LSEBYP :: u32 where "RCC_BDCR_LSEBYP = 0x4"
definition RCC_CSR_LSION :: u32 where "RCC_CSR_LSION = 0x1"
definition RCC_APB1ENR_PWREN :: u32 where "RCC_APB1ENR_PWREN = 0x10000000"
definition PWR_CR_DBP :: u32 where "PWR_CR_DBP = 0x100"
definition FLASH_ACR_LATENCY :: u32 where "FLASH_ACR_LATENCY = 0x7"
definition FLASH_LATENCY_2 :: u32 where "FLASH_LATENCY_2 = 2"
definition RCC_OSCILLATORTYPE_HSE :: u32 where "RCC_OSCILLATORTYPE_HSE = 1"
definition RCC_OSCILLATORTYPE_HSI :: u32 where "RCC_OSCILLATORTYPE_HSI = 2"
definition RCC_OSCILLATORTYPE_LSE :: u32 where "RCC_OSCILLATORTYPE_LSE = 4"
definition RCC_OSCILLATORTYPE_LSI :: u32 where "RCC_OSCILLATORTYPE_LSI = 8"
definition RCC_HSE_OFF :: u32 where "RCC_HSE_OFF = 0"
definition RCC_HSE_ON :: u32 where "RCC_HSE_ON = 0x10000"
definition RCC_HSE_BYPASS :: u32 where "RCC_HSE_BYPASS = 0x50000"
definition RCC_LSE_OFF :: u32 where "RCC_LSE_OFF = 0"
definition RCC_LSE_ON :: u32 where "RCC_LSE_ON = 1"
definition RCC_LSE_BYPASS :: u32 where "RCC_LSE_BYPASS = 5"
definition RCC_HSI_OFF :: u32 where "RCC_HSI_OFF = 0"
definition RCC_HSI_ON :: u32 where "RCC_HSI_ON = 1"
definition RCC_LSI_OFF :: u32 where "RCC_LSI_OFF = 0"
definition RCC_LSI_ON :: u32 where "RCC_LSI_ON = 1"
definition RCC_PLL_NONE :: u32 where "RCC_PLL_NONE = 0"
definition RCC_PLL_OFF :: u32 where "RCC_PLL_OFF = 1"
definition RCC_PLL_ON :: u32 where "RCC_PLL_ON = 2"
definition RCC_PLLSOURCE_HSI :: u32 where "RCC_PLLSOURCE_HSI = 0"
definition RCC_PLLSOURCE_HSE :: u32 where "RCC_PLLSOURCE_HSE = 0x10000"
definition RCC_PLL_MUL6 :: u32 where "RCC_PLL_MUL6 = 0x100000"
definition RCC_HSE_PREDIV_DIV1 :: u32 where "RCC_HSE_PREDIV_DIV1 = 0"
definition RCC_CLOCKTYPE_SYSCLK :: u32 where "RCC_CLOCKTYPE_SYSCLK = 1"
definition RCC_CLOCKTYPE_HCLK :: u32 where "RCC_CLOCKTYPE_HCLK = 2"
definition RCC_CLOCKTYPE_PCLK1 :: u32 where "RCC_CLOCKTYPE_PCLK1 = 4"
definition RCC_CLOCKTYPE_PCLK2 :: u32 where "RCC_CLOCKTYPE_PCLK2 = 8"
definition RCC_SYSCLKSOURCE_HSI :: u32 where "RCC_SYSCLKSOURCE_HSI = 0"
definition RCC_SYSCLKSOURCE_HSE :: u32 where "RCC_SYSCLKSOURCE_HSE = 1"
definition RCC_SYSCLKSOURCE_PLLCLK :: u32 where "RCC_SYSCLKSOURCE_PLLCLK = 2"
definition RCC_SYSCLKSOURCE_STATUS_HSI :: u32 where "RCC_SYSCLKSOURCE_STATUS_HSI = 0"
definition RCC_SYSCLKSOURCE_STATUS_HSE :: u32 where "RCC_SYSCLKSOURCE_STATUS_HSE = 4"
definition RCC_SYSCLKSOURCE_STATUS_PLLCLK :: u32 where "RCC_SYSCLKSOURCE_STATUS_PLLCLK = 8"
definition RCC_SYSCLK_DIV1 :: u32 where "RCC_SYSCLK_DIV1 = 0"
definition RCC_HCLK_DIV1 :: u32 where "RCC_HCLK_DIV1 = 0"
definition RCC_HCLK_DIV2 :: u32 where "RCC_HCLK_DIV2 = 0x400"
definition HSE_VALUE :: u32 where "HSE_VALUE = 12000000"
definition HSI_VALUE :: u32 where "HSI_VALUE = 8000000"
definition HSE_TIMEOUT_VALUE :: u32 where "HSE_TIMEOUT_VALUE = 100"
definition HSI_TIMEOUT_VALUE :: u32 where "HSI_TIMEOUT_VALUE = 2"
definition LSI_TIMEOUT_VALUE :: u32 where "LSI_TIMEOUT_VALUE = 2"
definition PLL_TIMEOUT_VALUE :: u32 where "PLL_TIMEOUT_VALUE = 2"
definition RCC_LSE_TIMEOUT_VALUE :: u32 where "RCC_LSE_TIMEOUT_VALUE = 5000"
definition RCC_DBP_TIMEOUT_VALUE :: u32 where "RCC_DBP_TIMEOUT_VALUE = 100"
definition CLOCKSWITCH_TIMEOUT_VALUE :: u32 where "CLOCKSWITCH_TIMEOUT_VALUE = 5000"

definition RCC_PERIPHCLK_USART1 :: u32 where "RCC_PERIPHCLK_USART1 = 1"
definition RCC_PERIPHCLK_USART2 :: u32 where "RCC_PERIPHCLK_USART2 = 2"
definition RCC_PERIPHCLK_USART3 :: u32 where "RCC_PERIPHCLK_USART3 = 4"
definition RCC_PERIPHCLK_I2C1 :: u32 where "RCC_PERIPHCLK_I2C1 = 0x20"
definition RCC_PERIPHCLK_I2C2 :: u32 where "RCC_PERIPHCLK_I2C2 = 0x40"
definition RCC_PERIPHCLK_ADC1 :: u32 where "RCC_PERIPHCLK_ADC1 = 0x80"
definition RCC_PERIPHCLK_CEC :: u32 where "RCC_PERIPHCLK_CEC = 0x400"
definition RCC_PERIPHCLK_SDADC :: u32 where "RCC_PERIPHCLK_SDADC = 0x800"
definition RCC_PERIPHCLK_RTC :: u32 where "RCC_PERIPHCLK_RTC = 0x10000"
definition RCC_PERIPHCLK_USB :: u32 where "RCC_PERIPHCLK_USB = 0x20000"
definition RCC_BDCR_RTCSEL :: u32 where "RCC_BDCR_RTCSEL = 0x300"
definition RCC_CFGR_ADCPRE :: u32 where "RCC_CFGR_ADCPRE = 0xC000"
definition RCC_CFGR_USBPRE :: u32 where "RCC_CFGR_USBPRE = 0x400000"
definition RCC_CFGR_SDADCPRE :: u32 where "RCC_CFGR_SDADCPRE = 0xF8000000"
definition RCC_CFGR3_USART1SW :: u32 where "RCC_CFGR3_USART1SW = 3"
definition RCC_CFGR3_I2C1SW :: u32 where "RCC_CFGR3_I2C1SW = 0x10"
definition RCC_CFGR3_I2C2SW :: u32 where "RCC_CFGR3_I2C2SW = 0x20"
definition RCC_CFGR3_CECSW :: u32 where "RCC_CFGR3_CECSW = 0x40"
definition RCC_CFGR3_USART2SW :: u32 where "RCC_CFGR3_USART2SW = 0x30000"
definition RCC_CFGR3_USART3SW :: u32 where "RCC_CFGR3_USART3SW = 0xC0000"

lemmas periph_consts = RCC_PERIPHCLK_USART1_def RCC_PERIPHCLK_USART2_def RCC_PERIPHCLK_USART3_def
  RCC_PERIPHCLK_I2C1_def RCC_PERIPHCLK_I2C2_def RCC_PERIPHCLK_ADC1_def RCC_PERIPHCLK_CEC_def
  RCC_PERIPHCLK_SDADC_def RCC_PERIPHCLK_RTC_def RCC_PERIPHCLK_USB_def RCC_BDCR_RTCSEL_def RCC_CFGR_ADCPRE_def
  RCC_CFGR_USBPRE_def RCC_CFGR_SDADCPRE_def RCC_CFGR3_USART1SW_def RCC_CFGR3_I2C1SW_def RCC_CFGR3_I2C2SW_def
  RCC_CFGR3_CECSW_def RCC_CFGR3_USART2SW_def RCC_CFGR3_USART3SW_def

lemmas rcc_consts = RCC_CR_HSION_def RCC_CR_HSITRIM_def RCC_CR_HSITRIM_4_def RCC_CR_HSEON_def RCC_CR_HSEBYP_def
  RCC_CR_CSSON_def RCC_CR_PLLON_def RCC_CFGR_SW_def RCC_CFGR_SWS_def RCC_CFGR_HPRE_def
  RCC_CFGR_PPRE1_def RCC_CFGR_PPRE2_def RCC_CFGR_PLLSRC_def RCC_CFGR_PLLMUL_def RCC_CFGR_MCO_def
  RCC_CFGR2_PREDIV_def RCC_BDCR_LSEON_def RCC_BDCR_LSEBYP_def RCC_CSR_LSION_def
  RCC_APB1ENR_PWREN_def PWR_CR_DBP_def FLASH_ACR_LATENCY_def FLASH_LATENCY_2_def
  RCC_OSCILLATORTYPE_HSE_def RCC_OSCILLATORTYPE_HSI_def RCC_OSCILLATORTYPE_LSE_def
  RCC_OSCILLATORTYPE_LSI_def RCC_HSE_OFF_def RCC_HSE_ON_def RCC_HSE_BYPASS_def RCC_LSE_OFF_def
  RCC_LSE_ON_def RCC_LSE_BYPASS_def RCC_HSI_OFF_def RCC_HSI_ON_def RCC_LSI_OFF_def RCC_LSI_ON_def
  RCC_PLL_NONE_def RCC_PLL_OFF_def RCC_PLL_ON_def RCC_PLLSOURCE_HSI_def RCC_PLLSOURCE_HSE_def
  RCC_PLL_MUL6_def RCC_HSE_PREDIV_DIV1_def RCC_CLOCKTYPE_SYSCLK_def RCC_CLOCKTYPE_HCLK_def
  RCC_CLOCKTYPE_PCLK1_def RCC_CLOCKTYPE_PCLK2_def RCC_SYSCLKSOURCE_HSI_def
  RCC_SYSCLKSOURCE_HSE_def RCC_SYSCLKSOURCE_PLLCLK_def RCC_SYSCLKSOURCE_STATUS_HSI_def
  RCC_SYSCLKSOURCE_STATUS_HSE_def RCC_SYSCLKSOURCE_STATUS_PLLCLK_def RCC_SYSCLK_DIV1_def
  RCC_HCLK_DIV1_def RCC_HCLK_DIV2_def HSE_VALUE_def HSI_VALUE_def HSE_TIMEOUT_VALUE_def
  HSI_TIMEOUT_VALUE_def LSI_TIMEOUT_VALUE_def PLL_TIMEOUT_VALUE_def RCC_LSE_TIMEOUT_VALUE_def
  RCC_DBP_TIMEOUT_VALUE_def CLOCKSWITCH_TIMEOUT_VALUE_def

text \<open>The factor and prescaler tables; every index into them is masked to their length.\<close>
definition aPLLMULFactorTable :: "u32 list" where
  "aPLLMULFactorTable = [2, 3, 4, 5, 6, 7, 8, 9, 10, 11, 12, 13, 14, 15, 16, 16]"
definition aPredivFactorTable :: "u32 list" where
  "aPredivFactorTable = [1, 2, 3, 4, 5, 6, 7, 8, 9, 10, 11, 12, 13, 14, 15, 16]"
definition AHBPrescTable :: "nat list" where
  "AHBPrescTable = [0, 0, 0, 0, 0, 0, 0, 0, 1, 2, 3, 4, 6, 7, 8, 9]"
definition APBPrescTable :: "nat list" where
  "APBPrescTable = [0, 0, 0, 0, 1, 2, 3, 4]"

section \<open>State and environment\<close>

record RCC_PLLInitTypeDef =
  PLLState :: u32
  PLLSource :: u32
  PLLMUL :: u32

record RCC_OscInitTypeDef =
  OscillatorType :: u32
  HSEState :: u32
  HSEPredivValue :: u32
  LSEState :: u32
  HSIState :: u32
  HSICalibrationValue :: u32
  LSIState :: u32
  PLL :: RCC_PLLInitTypeDef

record RCC_ClkInitTypeDef =
  ClockType :: u32
  SYSCLKSource :: u32
  AHBCLKDivider :: u32
  APB1CLKDivider :: u32
  APB2CLKDivider :: u32

datatype rcc_flag = HSERDY | HSIRDY | LSERDY | LSIRDY | PLLRDY

text \<open>The switch status within \<^verbatim>\<open>CFGR\<close> is read from the environment, so \<open>rcc_CFGR\<close> holds the other bits.\<close>
record rcc =
  rcc_CR :: u32
  rcc_CFGR :: u32
  rcc_CFGR2 :: u32
  rcc_CFGR3 :: u32
  rcc_CIR :: u32
  rcc_BDCR :: u32
  rcc_CSR :: u32
  rcc_AHBENR :: u32
  rcc_APB1ENR :: u32
  rcc_APB2ENR :: u32
  pwr_CR :: u32
  flash_ACR :: u32
  SystemCoreClock :: u32
  rcc_core :: core
  rcc_now :: time

record rcc_hw =
  rh_base :: hw
  rh_ready :: "rcc_flag \<Rightarrow> time \<Rightarrow> bool"
  rh_SWS :: "time \<Rightarrow> u32"
  rh_DBP :: "time \<Rightarrow> bool"
  rh_ACR :: "time \<Rightarrow> u32 \<Rightarrow> u32"

type_synonym rcc_op = "rcc \<Rightarrow> (HAL_StatusTypeDef \<times> rcc) option"

definition rcc_tick :: "nat \<Rightarrow> rcc \<Rightarrow> rcc" where
  "rcc_tick n r = r\<lparr>rcc_now := rcc_now r + n\<rparr>"

text \<open>A loop on a condition with a time-out in ticks, returning \<^verbatim>\<open>HAL_TIMEOUT\<close> from the function.\<close>
definition rcc_wait :: "rcc_hw \<Rightarrow> (time \<Rightarrow> bool) \<Rightarrow> u32 \<Rightarrow> rcc_op" where
  "rcc_wait hw cond Timeout r =
     do { (ok, t) \<leftarrow> wait_beyond (rh_base hw) cond Timeout (rcc_now r);
          Some (if ok then HAL_OK else HAL_TIMEOUT, r\<lparr>rcc_now := t\<rparr>) }"

text \<open>Statement sequence: a status other than \<^verbatim>\<open>HAL_OK\<close> is an early return.\<close>
definition rcc_then :: "rcc_op \<Rightarrow> rcc_op \<Rightarrow> rcc_op" where
  "rcc_then a b r = do { (st, r1) \<leftarrow> a r; if st = HAL_OK then b r1 else Some (st, r1) }"

definition rcc_do :: "(rcc \<Rightarrow> rcc) \<Rightarrow> rcc_op" where
  "rcc_do f r = Some (HAL_OK, f r)"

definition rcc_fail :: "HAL_StatusTypeDef \<Rightarrow> rcc_op" where
  "rcc_fail st r = Some (st, r)"

section \<open>Register macros\<close>

definition rcc_set_CR :: "u32 \<Rightarrow> rcc \<Rightarrow> rcc" where
  "rcc_set_CR b r = r\<lparr>rcc_CR := rcc_CR r OR b\<rparr>"

definition rcc_clear_CR :: "u32 \<Rightarrow> rcc \<Rightarrow> rcc" where
  "rcc_clear_CR b r = r\<lparr>rcc_CR := rcc_CR r AND NOT b\<rparr>"

definition rcc_modify_CFGR :: "u32 \<Rightarrow> u32 \<Rightarrow> rcc \<Rightarrow> rcc" where
  "rcc_modify_CFGR m v r = r\<lparr>rcc_CFGR := MODIFY_REG (rcc_CFGR r) m v\<rparr>"

definition RCC_HSE_CONFIG :: "u32 \<Rightarrow> rcc \<Rightarrow> rcc" where
  "RCC_HSE_CONFIG state r =
     (if state = RCC_HSE_ON then rcc_set_CR RCC_CR_HSEON r
      else if state = RCC_HSE_OFF then rcc_clear_CR RCC_CR_HSEBYP (rcc_clear_CR RCC_CR_HSEON r)
      else if state = RCC_HSE_BYPASS then rcc_set_CR RCC_CR_HSEON (rcc_set_CR RCC_CR_HSEBYP r)
      else rcc_clear_CR RCC_CR_HSEBYP (rcc_clear_CR RCC_CR_HSEON r))"

definition RCC_LSE_CONFIG :: "u32 \<Rightarrow> rcc \<Rightarrow> rcc" where
  "RCC_LSE_CONFIG state r =
     (if state = RCC_LSE_ON then r\<lparr>rcc_BDCR := rcc_BDCR r OR RCC_BDCR_LSEON\<rparr>
      else if state = RCC_LSE_OFF then r\<lparr>rcc_BDCR := rcc_BDCR r AND NOT RCC_BDCR_LSEON AND NOT RCC_BDCR_LSEBYP\<rparr>
      else if state = RCC_LSE_BYPASS then r\<lparr>rcc_BDCR := rcc_BDCR r OR RCC_BDCR_LSEBYP OR RCC_BDCR_LSEON\<rparr>
      else r\<lparr>rcc_BDCR := rcc_BDCR r AND NOT RCC_BDCR_LSEON AND NOT RCC_BDCR_LSEBYP\<rparr>)"

definition RCC_HSE_PREDIV_CONFIG :: "u32 \<Rightarrow> rcc \<Rightarrow> rcc" where
  "RCC_HSE_PREDIV_CONFIG v r = r\<lparr>rcc_CFGR2 := MODIFY_REG (rcc_CFGR2 r) RCC_CFGR2_PREDIV v\<rparr>"

definition RCC_HSI_CALIBRATIONVALUE_ADJUST :: "u32 \<Rightarrow> rcc \<Rightarrow> rcc" where
  "RCC_HSI_CALIBRATIONVALUE_ADJUST v r = r\<lparr>rcc_CR := MODIFY_REG (rcc_CR r) RCC_CR_HSITRIM (push_bit 3 v)\<rparr>"

definition RCC_PLL_CONFIG :: "u32 \<Rightarrow> u32 \<Rightarrow> rcc \<Rightarrow> rcc" where
  "RCC_PLL_CONFIG source mul r = rcc_modify_CFGR (RCC_CFGR_PLLMUL OR RCC_CFGR_PLLSRC) (mul OR source) r"

lemmas rcc_macros = rcc_set_CR_def rcc_clear_CR_def rcc_modify_CFGR_def RCC_HSE_CONFIG_def RCC_LSE_CONFIG_def
  RCC_HSE_PREDIV_CONFIG_def RCC_HSI_CALIBRATIONVALUE_ADJUST_def RCC_PLL_CONFIG_def rcc_tick_def

section \<open>Oscillators\<close>

text \<open>The test whether an oscillator drives the system clock directly or through the PLL: two reads of the
  switch status.\<close>
definition rcc_in_use :: "rcc_hw \<Rightarrow> u32 \<Rightarrow> u32 \<Rightarrow> rcc \<Rightarrow> bool" where
  "rcc_in_use hw status source r \<longleftrightarrow> rh_SWS hw (rcc_now r) = status
     \<or> rh_SWS hw (Suc (rcc_now r)) = RCC_SYSCLKSOURCE_STATUS_PLLCLK \<and> rcc_CFGR r AND RCC_CFGR_PLLSRC = source"

definition osc_HSE :: "rcc_hw \<Rightarrow> RCC_OscInitTypeDef \<Rightarrow> rcc_op" where
  "osc_HSE hw s r =
     (if OscillatorType s AND RCC_OSCILLATORTYPE_HSE \<noteq> RCC_OSCILLATORTYPE_HSE then Some (HAL_OK, r)
      else if rcc_in_use hw RCC_SYSCLKSOURCE_STATUS_HSE RCC_PLLSOURCE_HSE r
      then if rh_ready hw HSERDY (rcc_now r + 2) \<and> HSEState s = RCC_HSE_OFF
           then Some (HAL_ERROR, rcc_tick 3 r) else Some (HAL_OK, rcc_tick 3 r)
      else rcc_then (rcc_do (\<lambda>r. RCC_HSE_PREDIV_CONFIG (HSEPredivValue s) (RCC_HSE_CONFIG (HSEState s) (rcc_tick 2 r))))
             (if HSEState s \<noteq> RCC_HSE_OFF
              then rcc_wait hw (rh_ready hw HSERDY) HSE_TIMEOUT_VALUE
              else rcc_wait hw (\<lambda>t. \<not> rh_ready hw HSERDY t) HSE_TIMEOUT_VALUE) r)"

definition osc_HSI :: "rcc_hw \<Rightarrow> RCC_OscInitTypeDef \<Rightarrow> rcc_op" where
  "osc_HSI hw s r =
     (if OscillatorType s AND RCC_OSCILLATORTYPE_HSI \<noteq> RCC_OSCILLATORTYPE_HSI then Some (HAL_OK, r)
      else if rcc_in_use hw RCC_SYSCLKSOURCE_STATUS_HSI RCC_PLLSOURCE_HSI r
      then if rh_ready hw HSIRDY (rcc_now r + 2) \<and> HSIState s \<noteq> RCC_HSI_ON
           then Some (HAL_ERROR, rcc_tick 3 r)
           else Some (HAL_OK, RCC_HSI_CALIBRATIONVALUE_ADJUST (HSICalibrationValue s) (rcc_tick 3 r))
      else if HSIState s \<noteq> RCC_HSI_OFF
      then rcc_then (rcc_do (\<lambda>r. rcc_set_CR RCC_CR_HSION (rcc_tick 2 r)))
             (rcc_then (rcc_wait hw (rh_ready hw HSIRDY) HSI_TIMEOUT_VALUE)
                (rcc_do (RCC_HSI_CALIBRATIONVALUE_ADJUST (HSICalibrationValue s)))) r
      else rcc_then (rcc_do (\<lambda>r. rcc_clear_CR RCC_CR_HSION (rcc_tick 2 r)))
             (rcc_wait hw (\<lambda>t. \<not> rh_ready hw HSIRDY t) HSI_TIMEOUT_VALUE) r)"

definition osc_LSI :: "rcc_hw \<Rightarrow> RCC_OscInitTypeDef \<Rightarrow> rcc_op" where
  "osc_LSI hw s r =
     (if OscillatorType s AND RCC_OSCILLATORTYPE_LSI \<noteq> RCC_OSCILLATORTYPE_LSI then Some (HAL_OK, r)
      else if LSIState s \<noteq> RCC_LSI_OFF
      then rcc_wait hw (rh_ready hw LSIRDY) LSI_TIMEOUT_VALUE (r\<lparr>rcc_CSR := rcc_CSR r OR RCC_CSR_LSION\<rparr>)
      else rcc_wait hw (\<lambda>t. \<not> rh_ready hw LSIRDY t) LSI_TIMEOUT_VALUE (r\<lparr>rcc_CSR := rcc_CSR r AND NOT RCC_CSR_LSION\<rparr>))"

text \<open>Write access to the backup domain is enabled when it is not.\<close>
definition rcc_backup_access :: "rcc_hw \<Rightarrow> rcc_op" where
  "rcc_backup_access hw r =
     (if \<not> rh_DBP hw (rcc_now r)
      then rcc_wait hw (rh_DBP hw) RCC_DBP_TIMEOUT_VALUE (rcc_tick 1 (r\<lparr>pwr_CR := pwr_CR r OR PWR_CR_DBP\<rparr>))
      else Some (HAL_OK, rcc_tick 1 r))"

definition osc_LSE :: "rcc_hw \<Rightarrow> RCC_OscInitTypeDef \<Rightarrow> rcc_op" where
  "osc_LSE hw s r =
     (if OscillatorType s AND RCC_OSCILLATORTYPE_LSE \<noteq> RCC_OSCILLATORTYPE_LSE then Some (HAL_OK, r)
      else let pwrclkchanged = (rcc_APB1ENR r AND RCC_APB1ENR_PWREN = 0);
               r1 = (if pwrclkchanged then r\<lparr>rcc_APB1ENR := rcc_APB1ENR r OR RCC_APB1ENR_PWREN\<rparr> else r)
           in rcc_then (rcc_backup_access hw)
                (rcc_then (rcc_do (RCC_LSE_CONFIG (LSEState s)))
                   (rcc_then (if LSEState s \<noteq> RCC_LSE_OFF
                              then rcc_wait hw (rh_ready hw LSERDY) RCC_LSE_TIMEOUT_VALUE
                              else rcc_wait hw (\<lambda>t. \<not> rh_ready hw LSERDY t) RCC_LSE_TIMEOUT_VALUE)
                      (rcc_do (\<lambda>r. if pwrclkchanged
                                   then r\<lparr>rcc_APB1ENR := rcc_APB1ENR r AND NOT RCC_APB1ENR_PWREN\<rparr> else r)))) r1)"

definition osc_PLL :: "rcc_hw \<Rightarrow> RCC_OscInitTypeDef \<Rightarrow> rcc_op" where
  "osc_PLL hw s r =
     (if PLLState (PLL s) = RCC_PLL_NONE then Some (HAL_OK, r)
      else if rh_SWS hw (rcc_now r) = RCC_SYSCLKSOURCE_STATUS_PLLCLK then Some (HAL_ERROR, rcc_tick 1 r)
      else rcc_then (rcc_do (\<lambda>r. rcc_clear_CR RCC_CR_PLLON (rcc_tick 1 r)))
             (rcc_then (rcc_wait hw (\<lambda>t. \<not> rh_ready hw PLLRDY t) PLL_TIMEOUT_VALUE)
                (if PLLState (PLL s) = RCC_PLL_ON
                 then rcc_then (rcc_do (\<lambda>r. rcc_set_CR RCC_CR_PLLON (RCC_PLL_CONFIG (PLLSource (PLL s)) (PLLMUL (PLL s)) r)))
                        (rcc_wait hw (rh_ready hw PLLRDY) PLL_TIMEOUT_VALUE)
                 else rcc_do id)) r)"

definition HAL_RCC_OscConfig :: "rcc_hw \<Rightarrow> RCC_OscInitTypeDef \<Rightarrow> rcc_op" where
  "HAL_RCC_OscConfig hw s =
     rcc_then (osc_HSE hw s) (rcc_then (osc_HSI hw s) (rcc_then (osc_LSI hw s)
       (rcc_then (osc_LSE hw s) (osc_PLL hw s))))"

section \<open>Frequencies\<close>

definition rcc_pll_mul_code :: "rcc \<Rightarrow> u32" where
  "rcc_pll_mul_code r = drop_bit 18 (rcc_CFGR r AND RCC_CFGR_PLLMUL)"

definition rcc_prediv_code :: "rcc \<Rightarrow> u32" where
  "rcc_prediv_code r = rcc_CFGR2 r AND RCC_CFGR2_PREDIV"

definition HAL_RCC_GetSysClockFreq :: "rcc_hw \<Rightarrow> rcc \<Rightarrow> u32" where
  "HAL_RCC_GetSysClockFreq hw r =
     (let sws = rh_SWS hw (rcc_now r)
      in if sws = RCC_SYSCLKSOURCE_STATUS_HSE then HSE_VALUE
         else if sws = RCC_SYSCLKSOURCE_STATUS_PLLCLK
         then let pllmul = aPLLMULFactorTable ! unat (rcc_pll_mul_code r);
                  prediv = aPredivFactorTable ! unat (rcc_prediv_code r)
              in if rcc_CFGR r AND RCC_CFGR_PLLSRC \<noteq> RCC_PLLSOURCE_HSI then HSE_VALUE div prediv * pllmul
                 else drop_bit 1 HSI_VALUE * pllmul
         else HSI_VALUE)"

definition rcc_hclk :: "u32 \<Rightarrow> rcc \<Rightarrow> u32" where
  "rcc_hclk sysclk r = drop_bit (AHBPrescTable ! unat (drop_bit 4 (rcc_CFGR r AND RCC_CFGR_HPRE))) sysclk"

text \<open>The same computation in \<^verbatim>\<open>system_stm32f3xx.c\<close>, with the factors computed from the codes.\<close>
definition SystemCoreClockUpdate :: "rcc_hw \<Rightarrow> rcc \<Rightarrow> rcc" where
  "SystemCoreClockUpdate hw r =
     (let tmp = rh_SWS hw (rcc_now r);
          clk = (if tmp = RCC_SYSCLKSOURCE_STATUS_HSI then HSI_VALUE
                 else if tmp = RCC_SYSCLKSOURCE_STATUS_HSE then HSE_VALUE
                 else if tmp = RCC_SYSCLKSOURCE_STATUS_PLLCLK
                 then let pllmull = rcc_pll_mul_code r + 2
                      in if rcc_CFGR r AND RCC_CFGR_PLLSRC = RCC_PLLSOURCE_HSI then drop_bit 1 HSI_VALUE * pllmull
                         else HSE_VALUE div (rcc_prediv_code r + 1) * pllmull
                 else HSI_VALUE)
      in r\<lparr>SystemCoreClock := rcc_hclk clk r\<rparr>)"

definition HAL_RCC_GetHCLKFreq :: "rcc \<Rightarrow> u32" where
  "HAL_RCC_GetHCLKFreq r = SystemCoreClock r"

definition HAL_RCC_GetPCLK1Freq :: "rcc \<Rightarrow> u32" where
  "HAL_RCC_GetPCLK1Freq r =
     drop_bit (APBPrescTable ! unat (drop_bit 8 (rcc_CFGR r AND RCC_CFGR_PPRE1))) (HAL_RCC_GetHCLKFreq r)"

definition HAL_RCC_GetPCLK2Freq :: "rcc \<Rightarrow> u32" where
  "HAL_RCC_GetPCLK2Freq r =
     drop_bit (APBPrescTable ! unat (drop_bit 11 (rcc_CFGR r AND RCC_CFGR_PPRE2))) (HAL_RCC_GetHCLKFreq r)"

section \<open>Bus clocks\<close>

text \<open>Program the latency when \<open>cond\<close> holds for the requested and the current one, and check it.\<close>
definition rcc_latency :: "rcc_hw \<Rightarrow> (u32 \<Rightarrow> u32 \<Rightarrow> bool) \<Rightarrow> u32 \<Rightarrow> rcc_op" where
  "rcc_latency hw cond FLatency r =
     (if cond FLatency (rh_ACR hw (rcc_now r) (flash_ACR r) AND FLASH_ACR_LATENCY)
      then let r1 = r\<lparr>flash_ACR := (flash_ACR r AND NOT FLASH_ACR_LATENCY) OR FLatency\<rparr>
           in if rh_ACR hw (Suc (rcc_now r)) (flash_ACR r1) AND FLASH_ACR_LATENCY \<noteq> FLatency
              then Some (HAL_ERROR, rcc_tick 2 r1) else Some (HAL_OK, rcc_tick 2 r1)
      else Some (HAL_OK, rcc_tick 1 r))"

definition source_flag :: "u32 \<Rightarrow> rcc_flag" where
  "source_flag source = (if source = RCC_SYSCLKSOURCE_HSE then HSERDY
     else if source = RCC_SYSCLKSOURCE_PLLCLK then PLLRDY else HSIRDY)"

definition source_status :: "u32 \<Rightarrow> u32" where
  "source_status source = (if source = RCC_SYSCLKSOURCE_HSE then RCC_SYSCLKSOURCE_STATUS_HSE
     else if source = RCC_SYSCLKSOURCE_PLLCLK then RCC_SYSCLKSOURCE_STATUS_PLLCLK else RCC_SYSCLKSOURCE_STATUS_HSI)"

definition clk_SYSCLK :: "rcc_hw \<Rightarrow> RCC_ClkInitTypeDef \<Rightarrow> rcc_op" where
  "clk_SYSCLK hw s r =
     (if ClockType s AND RCC_CLOCKTYPE_SYSCLK \<noteq> RCC_CLOCKTYPE_SYSCLK then Some (HAL_OK, r)
      else if \<not> rh_ready hw (source_flag (SYSCLKSource s)) (rcc_now r) then Some (HAL_ERROR, rcc_tick 1 r)
      else rcc_wait hw (\<lambda>t. rh_SWS hw t = source_status (SYSCLKSource s)) CLOCKSWITCH_TIMEOUT_VALUE
             (rcc_modify_CFGR RCC_CFGR_SW (SYSCLKSource s) (rcc_tick 1 r)))"

definition clk_HCLK :: "RCC_ClkInitTypeDef \<Rightarrow> rcc \<Rightarrow> rcc" where
  "clk_HCLK s r = (if ClockType s AND RCC_CLOCKTYPE_HCLK = RCC_CLOCKTYPE_HCLK
     then rcc_modify_CFGR RCC_CFGR_HPRE (AHBCLKDivider s) r else r)"

definition clk_PCLK1 :: "RCC_ClkInitTypeDef \<Rightarrow> rcc \<Rightarrow> rcc" where
  "clk_PCLK1 s r = (if ClockType s AND RCC_CLOCKTYPE_PCLK1 = RCC_CLOCKTYPE_PCLK1
     then rcc_modify_CFGR RCC_CFGR_PPRE1 (APB1CLKDivider s) r else r)"

definition clk_PCLK2 :: "RCC_ClkInitTypeDef \<Rightarrow> rcc \<Rightarrow> rcc" where
  "clk_PCLK2 s r = (if ClockType s AND RCC_CLOCKTYPE_PCLK2 = RCC_CLOCKTYPE_PCLK2
     then rcc_modify_CFGR RCC_CFGR_PPRE2 (push_bit 3 (APB2CLKDivider s)) r else r)"

text \<open>\<^verbatim>\<open>SystemCoreClock = ...; HAL_InitTick(TICK_INT_PRIORITY);\<close>\<close>
definition rcc_new_time_base :: "rcc_hw \<Rightarrow> rcc \<Rightarrow> rcc" where
  "rcc_new_time_base hw r =
     (let f = rcc_hclk (HAL_RCC_GetSysClockFreq hw r) r
      in r\<lparr>SystemCoreClock := f, rcc_core := snd (HAL_InitTick f TICK_INT_PRIORITY (rcc_core r)), rcc_now := Suc (rcc_now r)\<rparr>)"

definition HAL_RCC_ClockConfig :: "rcc_hw \<Rightarrow> RCC_ClkInitTypeDef \<Rightarrow> u32 \<Rightarrow> rcc_op" where
  "HAL_RCC_ClockConfig hw s FLatency =
     rcc_then (rcc_latency hw (>) FLatency) (rcc_then (rcc_do (clk_HCLK s)) (rcc_then (clk_SYSCLK hw s)
       (rcc_then (rcc_latency hw (<) FLatency)
          (rcc_do (\<lambda>r. rcc_new_time_base hw (clk_PCLK2 s (clk_PCLK1 s r)))))))"

section \<open>Peripheral clocks\<close>

record RCC_PeriphCLKInitTypeDef =
  PeriphClockSelection :: u32
  RTCClockSelection :: u32
  Usart1ClockSelection :: u32
  Usart2ClockSelection :: u32
  Usart3ClockSelection :: u32
  I2c1ClockSelection :: u32
  I2c2ClockSelection :: u32
  Adc1ClockSelection :: u32
  SdadcClockSelection :: u32
  CecClockSelection :: u32
  USBClockSelection :: u32

text \<open>A change of the RTC clock source resets the backup domain; the rest of \<^verbatim>\<open>BDCR\<close> is restored after the reset.\<close>
definition periph_RTC :: "rcc_hw \<Rightarrow> RCC_PeriphCLKInitTypeDef \<Rightarrow> rcc_op" where
  "periph_RTC hw s r =
     (if PeriphClockSelection s AND RCC_PERIPHCLK_RTC \<noteq> RCC_PERIPHCLK_RTC then Some (HAL_OK, r)
      else let pwrclkchanged = (rcc_APB1ENR r AND RCC_APB1ENR_PWREN = 0);
               r1 = (if pwrclkchanged then r\<lparr>rcc_APB1ENR := rcc_APB1ENR r OR RCC_APB1ENR_PWREN\<rparr> else r)
           in rcc_then (rcc_backup_access hw)
                (rcc_then (\<lambda>r. let sel = rcc_BDCR r AND RCC_BDCR_RTCSEL; rest = rcc_BDCR r AND NOT RCC_BDCR_RTCSEL
                               in if sel \<noteq> 0 \<and> sel \<noteq> RTCClockSelection s AND RCC_BDCR_RTCSEL
                                  then if rest AND RCC_BDCR_LSEON \<noteq> 0
                                       then rcc_wait hw (rh_ready hw LSERDY) RCC_LSE_TIMEOUT_VALUE (r\<lparr>rcc_BDCR := rest\<rparr>)
                                       else Some (HAL_OK, r\<lparr>rcc_BDCR := rest\<rparr>)
                                  else Some (HAL_OK, r))
                   (rcc_do (\<lambda>r. let r2 = r\<lparr>rcc_BDCR := MODIFY_REG (rcc_BDCR r) RCC_BDCR_RTCSEL (RTCClockSelection s)\<rparr>
                                in if pwrclkchanged
                                   then r2\<lparr>rcc_APB1ENR := rcc_APB1ENR r2 AND NOT RCC_APB1ENR_PWREN\<rparr> else r2))) r1)"

text \<open>\<^verbatim>\<open>if((PeriphClockSelection & which) == which) MODIFY_REG(RCC->CFGR3, mask, v);\<close> and the same for \<^verbatim>\<open>CFGR\<close>.\<close>
definition periph_CFGR3 :: "RCC_PeriphCLKInitTypeDef \<Rightarrow> u32 \<Rightarrow> u32 \<Rightarrow> u32 \<Rightarrow> rcc \<Rightarrow> rcc" where
  "periph_CFGR3 s which msk v r =
     (if PeriphClockSelection s AND which = which then r\<lparr>rcc_CFGR3 := MODIFY_REG (rcc_CFGR3 r) msk v\<rparr> else r)"

definition periph_CFGR :: "RCC_PeriphCLKInitTypeDef \<Rightarrow> u32 \<Rightarrow> u32 \<Rightarrow> u32 \<Rightarrow> rcc \<Rightarrow> rcc" where
  "periph_CFGR s which msk v r =
     (if PeriphClockSelection s AND which = which then rcc_modify_CFGR msk v r else r)"

definition HAL_RCCEx_PeriphCLKConfig :: "rcc_hw \<Rightarrow> RCC_PeriphCLKInitTypeDef \<Rightarrow> rcc_op" where
  "HAL_RCCEx_PeriphCLKConfig hw s =
     rcc_then (periph_RTC hw s) (rcc_do (\<lambda>r.
       let r1 = periph_CFGR3 s RCC_PERIPHCLK_USART1 RCC_CFGR3_USART1SW (Usart1ClockSelection s) r;
           r2 = periph_CFGR3 s RCC_PERIPHCLK_USART2 RCC_CFGR3_USART2SW (Usart2ClockSelection s) r1;
           r3 = periph_CFGR3 s RCC_PERIPHCLK_USART3 RCC_CFGR3_USART3SW (Usart3ClockSelection s) r2;
           r4 = periph_CFGR3 s RCC_PERIPHCLK_I2C1 RCC_CFGR3_I2C1SW (I2c1ClockSelection s) r3;
           r5 = periph_CFGR s RCC_PERIPHCLK_USB RCC_CFGR_USBPRE (USBClockSelection s) r4;
           r6 = periph_CFGR3 s RCC_PERIPHCLK_I2C2 RCC_CFGR3_I2C2SW (I2c2ClockSelection s) r5;
           r7 = periph_CFGR s RCC_PERIPHCLK_ADC1 RCC_CFGR_ADCPRE (Adc1ClockSelection s) r6;
           r8 = periph_CFGR s RCC_PERIPHCLK_SDADC RCC_CFGR_SDADCPRE (SdadcClockSelection s) r7
       in periph_CFGR3 s RCC_PERIPHCLK_CEC RCC_CFGR3_CECSW (CecClockSelection s) r8))"

text \<open>The supply of the converters (\<^verbatim>\<open>stm32f3xx_hal_pwr_ex.c\<close>).\<close>
definition HAL_PWREx_EnableSDADC :: "u32 \<Rightarrow> rcc \<Rightarrow> rcc" where
  "HAL_PWREx_EnableSDADC Analogx r =
     r\<lparr>rcc_APB1ENR := rcc_APB1ENR r OR RCC_APB1ENR_PWREN, pwr_CR := pwr_CR r OR Analogx\<rparr>"

definition HAL_PWREx_DisableSDADC :: "u32 \<Rightarrow> rcc \<Rightarrow> rcc" where
  "HAL_PWREx_DisableSDADC Analogx r = r\<lparr>pwr_CR := pwr_CR r AND NOT Analogx\<rparr>"

section \<open>Reset and read-back\<close>

definition HAL_RCC_DeInit :: "rcc \<Rightarrow> rcc" where
  "HAL_RCC_DeInit r =
     (let r1 = rcc_set_CR (RCC_CR_HSION OR RCC_CR_HSITRIM_4) r;
          r2 = rcc_clear_CR RCC_CR_HSEBYP (rcc_clear_CR (RCC_CR_PLLON OR RCC_CR_CSSON OR RCC_CR_HSEON) r1)
      in r2\<lparr>rcc_CFGR := 0, rcc_CFGR2 := 0, rcc_CFGR3 := 0, rcc_CIR := 0, SystemCoreClock := HSI_VALUE\<rparr>)"

definition SystemInit :: "rcc \<Rightarrow> rcc" where
  "SystemInit r =
     r\<lparr>rcc_CR := (rcc_CR r OR 1) AND 0xFEF6FFFF AND 0xFFFBFFFF,
       rcc_CFGR := rcc_CFGR r AND 0xF87FC00C AND 0xFF80FFFF,
       rcc_CFGR2 := rcc_CFGR2 r AND 0xFFFFFFF0,
       rcc_CFGR3 := rcc_CFGR3 r AND 0xFF00FCCC,
       rcc_CIR := 0\<rparr>"

definition HAL_RCC_EnableCSS :: "rcc \<Rightarrow> rcc" where
  "HAL_RCC_EnableCSS r = rcc_set_CR RCC_CR_CSSON r"

definition HAL_RCC_DisableCSS :: "rcc \<Rightarrow> rcc" where
  "HAL_RCC_DisableCSS r = rcc_clear_CR RCC_CR_CSSON r"

definition HAL_RCC_GetOscConfig :: "rcc \<Rightarrow> RCC_OscInitTypeDef" where
  "HAL_RCC_GetOscConfig r =
     \<lparr>OscillatorType = RCC_OSCILLATORTYPE_HSE OR RCC_OSCILLATORTYPE_HSI OR RCC_OSCILLATORTYPE_LSE OR RCC_OSCILLATORTYPE_LSI,
      HSEState = (if rcc_CR r AND RCC_CR_HSEBYP = RCC_CR_HSEBYP then RCC_HSE_BYPASS
                  else if rcc_CR r AND RCC_CR_HSEON = RCC_CR_HSEON then RCC_HSE_ON else RCC_HSE_OFF),
      HSEPredivValue = rcc_CFGR2 r AND RCC_CFGR2_PREDIV,
      LSEState = (if rcc_BDCR r AND RCC_BDCR_LSEBYP = RCC_BDCR_LSEBYP then RCC_LSE_BYPASS
                  else if rcc_BDCR r AND RCC_BDCR_LSEON = RCC_BDCR_LSEON then RCC_LSE_ON else RCC_LSE_OFF),
      HSIState = (if rcc_CR r AND RCC_CR_HSION = RCC_CR_HSION then RCC_HSI_ON else RCC_HSI_OFF),
      HSICalibrationValue = drop_bit 3 (rcc_CR r AND RCC_CR_HSITRIM),
      LSIState = (if rcc_CSR r AND RCC_CSR_LSION = RCC_CSR_LSION then RCC_LSI_ON else RCC_LSI_OFF),
      PLL = \<lparr>PLLState = (if rcc_CR r AND RCC_CR_PLLON = RCC_CR_PLLON then RCC_PLL_ON else RCC_PLL_OFF),
             PLLSource = rcc_CFGR r AND RCC_CFGR_PLLSRC, PLLMUL = rcc_CFGR r AND RCC_CFGR_PLLMUL\<rparr>\<rparr>"

text \<open>The clock configuration and the latency.\<close>
definition HAL_RCC_GetClockConfig :: "rcc_hw \<Rightarrow> rcc \<Rightarrow> RCC_ClkInitTypeDef \<times> u32" where
  "HAL_RCC_GetClockConfig hw r =
     (\<lparr>ClockType = RCC_CLOCKTYPE_SYSCLK OR RCC_CLOCKTYPE_HCLK OR RCC_CLOCKTYPE_PCLK1 OR RCC_CLOCKTYPE_PCLK2,
       SYSCLKSource = rcc_CFGR r AND RCC_CFGR_SW, AHBCLKDivider = rcc_CFGR r AND RCC_CFGR_HPRE,
       APB1CLKDivider = rcc_CFGR r AND RCC_CFGR_PPRE1, APB2CLKDivider = drop_bit 3 (rcc_CFGR r AND RCC_CFGR_PPRE2)\<rparr>,
      rh_ACR hw (rcc_now r) (flash_ACR r) AND FLASH_ACR_LATENCY)"

section \<open>Lemmas\<close>

lemma take_bit_4_less: "unat (take_bit 4 x) < 16" for x :: u32
  using take_bit_nat_less_exp [of 4 "unat x"] by (simp add: unsigned_take_bit_eq)

lemma mul_code_less: "unat (rcc_pll_mul_code r) < 16"
proof -
  have m: "RCC_CFGR_PLLMUL = push_bit 18 (mask 4)" by (simp add: RCC_CFGR_PLLMUL_def mask_eq_exp_minus_1)
  have "rcc_pll_mul_code r = take_bit 4 (drop_bit 18 (rcc_CFGR r))"
    unfolding rcc_pll_mul_code_def m by (intro bit_word_eqI) (auto simp: bit_simps)
  then show ?thesis using take_bit_4_less by simp
qed

lemma prediv_code_less: "unat (rcc_prediv_code r) < 16"
proof -
  have "RCC_CFGR2_PREDIV = mask 4" by (simp add: RCC_CFGR2_PREDIV_def mask_eq_exp_minus_1)
  then have "rcc_prediv_code r = take_bit 4 (rcc_CFGR2 r)" by (simp add: rcc_prediv_code_def take_bit_eq_mask)
  then show ?thesis using take_bit_4_less by simp
qed

lemma code_cases:
  fixes w :: u32
  assumes "unat w < 16"
  obtains n where "w = of_nat n" "n \<in> {0, 1, 2, 3, 4, 5, 6, 7, 8, 9, 10, 11, 12, 13, 14, 15}"
proof
  show "w = of_nat (unat w)" by simp
  have "unat w \<in> set [0..<16]" using assms by simp
  then show "unat w \<in> {0, 1, 2, 3, 4, 5, 6, 7, 8, 9, 10, 11, 12, 13, 14, 15}" by (simp add: upt_rec numeral_eq_Suc)
qed

text \<open>The tables agree with the computed factors, but for the last multiplication code.\<close>
lemma prediv_table: "aPredivFactorTable ! unat (rcc_prediv_code r) = rcc_prediv_code r + 1"
proof -
  obtain n where "rcc_prediv_code r = of_nat n" "n \<in> {0, 1, 2, 3, 4, 5, 6, 7, 8, 9, 10, 11, 12, 13, 14, 15}"
    using prediv_code_less by (rule code_cases)
  then show ?thesis by (auto simp: aPredivFactorTable_def)
qed

lemma mul_table:
  "aPLLMULFactorTable ! unat (rcc_pll_mul_code r) = (if rcc_pll_mul_code r = 15 then 16 else rcc_pll_mul_code r + 2)"
proof -
  obtain n where "rcc_pll_mul_code r = of_nat n" "n \<in> {0, 1, 2, 3, 4, 5, 6, 7, 8, 9, 10, 11, 12, 13, 14, 15}"
    using mul_code_less by (rule code_cases)
  then show ?thesis by (auto simp: aPLLMULFactorTable_def)
qed

lemma ahb_shift: "AHBPrescTable ! unat (drop_bit 4 (rcc_CFGR r AND RCC_CFGR_HPRE)) \<le> 9"
proof -
  have m: "RCC_CFGR_HPRE = push_bit 4 (mask 4)" by (simp add: RCC_CFGR_HPRE_def mask_eq_exp_minus_1)
  have "drop_bit 4 (rcc_CFGR r AND RCC_CFGR_HPRE) = take_bit 4 (drop_bit 4 (rcc_CFGR r))"
    unfolding m by (intro bit_word_eqI) (auto simp: bit_simps)
  then have "unat (drop_bit 4 (rcc_CFGR r AND RCC_CFGR_HPRE)) < 16" using take_bit_4_less by simp
  then obtain n where "drop_bit 4 (rcc_CFGR r AND RCC_CFGR_HPRE) = of_nat n"
      "n \<in> {0, 1, 2, 3, 4, 5, 6, 7, 8, 9, 10, 11, 12, 13, 14, 15}"
    by (rule code_cases)
  then show ?thesis by (auto simp: AHBPrescTable_def)
qed

text \<open>Seventeen and sixteen times a frequency of at least 512 Hz differ after every division of the bus.\<close>
lemma seventeen_times:
  fixes k :: u32
  assumes "512 \<le> unat k" "17 * unat k < 2 ^ 32" "n \<le> 9"
  shows "drop_bit n (k * 17) \<noteq> drop_bit n (k * 16)"
proof -
  have u: "unat (k * 17) = 17 * unat k" "unat (k * 16) = 16 * unat k"
    using assms(2) by (simp_all add: unat_word_ariths)
  have "(2::nat) ^ n \<le> 2 ^ 9" using assms(3) by (intro power_increasing) simp_all
  then have "16 * unat k + 2 ^ n \<le> 17 * unat k" using assms(1) by simp
  then have "(16 * unat k + 2 ^ n) div 2 ^ n \<le> 17 * unat k div 2 ^ n" by (rule div_le_mono)
  moreover have "(16 * unat k + 2 ^ n) div 2 ^ n = 16 * unat k div 2 ^ n + 1" by (rule div_add_self2) simp
  ultimately have "16 * unat k div 2 ^ n < 17 * unat k div 2 ^ n" by linarith
  moreover have "unat (drop_bit n w) = unat w div 2 ^ n" for w :: u32
  proof -
    have "unat w < 2 ^ 32" using unsigned_less [of w, where ?'a = nat] by simp
    then have "take_bit 32 (unat w) = unat w" by (rule take_bit_nat_eq_self)
    then show ?thesis by (subst unsigned_drop_bit_eq) (simp add: drop_bit_eq_div)
  qed
  ultimately have "unat (drop_bit n (k * 17)) \<noteq> unat (drop_bit n (k * 16))" by (simp only: u)
  then show ?thesis by metis
qed

lemma pll_input_bounds:
  "512 \<le> unat (drop_bit 1 HSI_VALUE)" "17 * unat (drop_bit 1 HSI_VALUE) < 2 ^ 32"
  "512 \<le> unat (HSE_VALUE div (rcc_prediv_code r + 1))" "17 * unat (HSE_VALUE div (rcc_prediv_code r + 1)) < 2 ^ 32"
proof -
  show "512 \<le> unat (drop_bit 1 HSI_VALUE)" "17 * unat (drop_bit 1 HSI_VALUE) < 2 ^ 32"
    by (simp_all add: HSI_VALUE_def)
  obtain n where c: "rcc_prediv_code r = of_nat n" "n \<in> {0, 1, 2, 3, 4, 5, 6, 7, 8, 9, 10, 11, 12, 13, 14, 15}"
    using prediv_code_less by (rule code_cases)
  show "512 \<le> unat (HSE_VALUE div (rcc_prediv_code r + 1))" "17 * unat (HSE_VALUE div (rcc_prediv_code r + 1)) < 2 ^ 32"
    using c(2) unfolding c(1) by (auto simp: HSE_VALUE_def)
qed

section \<open>Properties\<close>

text \<open>C26: the two routines that compute the core clock agree for every register content and clock source, except
  when the PLL with the last multiplication code drives the system: there the HAL multiplies by 16, as the hardware
  does, and \<^verbatim>\<open>SystemCoreClockUpdate\<close> by 17, and the results differ for every bus divider.\<close>
theorem rcc_clock_functions_agree:
  "SystemCoreClock (SystemCoreClockUpdate hw r) = rcc_hclk (HAL_RCC_GetSysClockFreq hw r) r
   \<longleftrightarrow> \<not> (rh_SWS hw (rcc_now r) = RCC_SYSCLKSOURCE_STATUS_PLLCLK \<and> rcc_pll_mul_code r = 15)"
proof (cases "rh_SWS hw (rcc_now r) = RCC_SYSCLKSOURCE_STATUS_PLLCLK")
  case False
  then show ?thesis
    by (simp add: SystemCoreClockUpdate_def HAL_RCC_GetSysClockFreq_def Let_def)
      (simp add: RCC_SYSCLKSOURCE_STATUS_HSE_def RCC_SYSCLKSOURCE_STATUS_HSI_def)
next
  case pll: True
  define k where "k = (if rcc_CFGR r AND RCC_CFGR_PLLSRC = RCC_PLLSOURCE_HSI then drop_bit 1 HSI_VALUE
    else HSE_VALUE div (rcc_prediv_code r + 1))"
  have hal: "HAL_RCC_GetSysClockFreq hw r = k * (if rcc_pll_mul_code r = 15 then 16 else rcc_pll_mul_code r + 2)"
    using pll by (simp add: HAL_RCC_GetSysClockFreq_def k_def mul_table prediv_table
        RCC_SYSCLKSOURCE_STATUS_PLLCLK_def RCC_SYSCLKSOURCE_STATUS_HSE_def)
  have sys: "SystemCoreClock (SystemCoreClockUpdate hw r) = rcc_hclk (k * (rcc_pll_mul_code r + 2)) r"
    using pll by (simp add: SystemCoreClockUpdate_def k_def RCC_SYSCLKSOURCE_STATUS_PLLCLK_def
        RCC_SYSCLKSOURCE_STATUS_HSE_def RCC_SYSCLKSOURCE_STATUS_HSI_def)
  have "512 \<le> unat k" "17 * unat k < 2 ^ 32" using pll_input_bounds(1,2) pll_input_bounds(3,4) [of r] by (simp_all add: k_def)
  then have "rcc_hclk (k * 17) r \<noteq> rcc_hclk (k * 16) r"
    unfolding rcc_hclk_def using ahb_shift by (rule seventeen_times)
  with pll hal sys show ?thesis by auto
qed

end
