(* ===== verification/Hal_Uart.thy ===== *)
theory Hal_Uart
  imports Hal_Rcc
begin

text \<open>
  The UART driver (\<^verbatim>\<open>stm32f3xx_hal_uart.c\<close>): set-up with the computation of the baud rate, blocking and
  interrupt-driven transfers and the interrupt handler.  The interrupt and status register \<^verbatim>\<open>ISR\<close> is \<open>hw_SR\<close>, the
  receive data register \<^verbatim>\<open>RDR\<close> is \<open>hw_DR\<close> of the environment.  Writes to the transmit data register, to the flag
  clear register and to the request register are recorded.  The DMA transfers are not part of the model.
\<close>

section \<open>Constants\<close>

definition USART_CR1_UE :: u32 where "USART_CR1_UE = 1"
definition USART_CR1_RE :: u32 where "USART_CR1_RE = 4"
definition USART_CR1_TE :: u32 where "USART_CR1_TE = 8"
definition USART_CR1_PS :: u32 where "USART_CR1_PS = 0x200"
definition USART_CR1_PCE :: u32 where "USART_CR1_PCE = 0x400"
definition USART_CR1_WAKE :: u32 where "USART_CR1_WAKE = 0x800"
definition USART_CR1_M :: u32 where "USART_CR1_M = 0x1000"
definition USART_CR1_MME :: u32 where "USART_CR1_MME = 0x2000"
definition USART_CR1_OVER8 :: u32 where "USART_CR1_OVER8 = 0x8000"
definition UART_CR1_FIELDS :: u32 where "UART_CR1_FIELDS = 0x960C"
definition USART_CR2_ADDM7 :: u32 where "USART_CR2_ADDM7 = 0x10"
definition USART_CR2_LBDL :: u32 where "USART_CR2_LBDL = 0x20"
definition USART_CR2_CLKEN :: u32 where "USART_CR2_CLKEN = 0x800"
definition USART_CR2_STOP :: u32 where "USART_CR2_STOP = 0x3000"
definition USART_CR2_LINEN :: u32 where "USART_CR2_LINEN = 0x4000"
definition USART_CR2_SWAP :: u32 where "USART_CR2_SWAP = 0x8000"
definition USART_CR2_RXINV :: u32 where "USART_CR2_RXINV = 0x10000"
definition USART_CR2_TXINV :: u32 where "USART_CR2_TXINV = 0x20000"
definition USART_CR2_DATAINV :: u32 where "USART_CR2_DATAINV = 0x40000"
definition USART_CR2_MSBFIRST :: u32 where "USART_CR2_MSBFIRST = 0x80000"
definition USART_CR2_ABREN :: u32 where "USART_CR2_ABREN = 0x100000"
definition USART_CR2_ABRMODE :: u32 where "USART_CR2_ABRMODE = 0x600000"
definition USART_CR2_ADD :: u32 where "USART_CR2_ADD = 0xFF000000"
definition USART_CR3_IREN :: u32 where "USART_CR3_IREN = 2"
definition USART_CR3_HDSEL :: u32 where "USART_CR3_HDSEL = 8"
definition USART_CR3_SCEN :: u32 where "USART_CR3_SCEN = 0x20"
definition USART_CR3_RTSE :: u32 where "USART_CR3_RTSE = 0x100"
definition USART_CR3_CTSE :: u32 where "USART_CR3_CTSE = 0x200"
definition USART_CR3_ONEBIT :: u32 where "USART_CR3_ONEBIT = 0x800"
definition USART_CR3_OVRDIS :: u32 where "USART_CR3_OVRDIS = 0x1000"
definition USART_CR3_DDRE :: u32 where "USART_CR3_DDRE = 0x2000"
definition USART_ISR_TEACK :: u32 where "USART_ISR_TEACK = 0x200000"
definition USART_ISR_REACK :: u32 where "USART_ISR_REACK = 0x400000"
definition UART_FLAG_TXE :: u32 where "UART_FLAG_TXE = 0x80"
definition UART_FLAG_TC :: u32 where "UART_FLAG_TC = 0x40"
definition UART_FLAG_RXNE :: u32 where "UART_FLAG_RXNE = 0x20"
definition UART_CLEAR_PEF :: u32 where "UART_CLEAR_PEF = 1"
definition UART_CLEAR_FEF :: u32 where "UART_CLEAR_FEF = 2"
definition UART_CLEAR_NEF :: u32 where "UART_CLEAR_NEF = 4"
definition UART_CLEAR_OREF :: u32 where "UART_CLEAR_OREF = 8"
definition UART_CLEAR_WUF :: u32 where "UART_CLEAR_WUF = 0x100000"
definition UART_SENDBREAK_REQUEST :: u32 where "UART_SENDBREAK_REQUEST = 2"
definition UART_MUTE_MODE_REQUEST :: u32 where "UART_MUTE_MODE_REQUEST = 4"
definition UART_RXDATA_FLUSH_REQUEST :: u32 where "UART_RXDATA_FLUSH_REQUEST = 8"
definition UART_WORDLENGTH_8B :: u32 where "UART_WORDLENGTH_8B = 0"
definition UART_WORDLENGTH_9B :: u32 where "UART_WORDLENGTH_9B = 0x1000"
definition UART_PARITY_NONE :: u32 where "UART_PARITY_NONE = 0"
definition UART_STOPBITS_1 :: u32 where "UART_STOPBITS_1 = 0"
definition UART_MODE_TX_RX :: u32 where "UART_MODE_TX_RX = 0xC"
definition UART_HWCONTROL_NONE :: u32 where "UART_HWCONTROL_NONE = 0"
definition UART_OVERSAMPLING_16 :: u32 where "UART_OVERSAMPLING_16 = 0"
definition UART_OVERSAMPLING_8 :: u32 where "UART_OVERSAMPLING_8 = 0x8000"
definition UART_ONE_BIT_SAMPLE_DISABLE :: u32 where "UART_ONE_BIT_SAMPLE_DISABLE = 0"
definition UART_WAKEUPMETHOD_ADDRESSMARK :: u32 where "UART_WAKEUPMETHOD_ADDRESSMARK = 0x800"
definition UART_ADVFEATURE_NO_INIT :: u32 where "UART_ADVFEATURE_NO_INIT = 0"
definition UART_ADVFEATURE_TXINVERT_INIT :: u32 where "UART_ADVFEATURE_TXINVERT_INIT = 1"
definition UART_ADVFEATURE_RXINVERT_INIT :: u32 where "UART_ADVFEATURE_RXINVERT_INIT = 2"
definition UART_ADVFEATURE_DATAINVERT_INIT :: u32 where "UART_ADVFEATURE_DATAINVERT_INIT = 4"
definition UART_ADVFEATURE_SWAP_INIT :: u32 where "UART_ADVFEATURE_SWAP_INIT = 8"
definition UART_ADVFEATURE_RXOVERRUNDISABLE_INIT :: u32 where "UART_ADVFEATURE_RXOVERRUNDISABLE_INIT = 0x10"
definition UART_ADVFEATURE_DMADISABLEONERROR_INIT :: u32 where "UART_ADVFEATURE_DMADISABLEONERROR_INIT = 0x20"
definition UART_ADVFEATURE_AUTOBAUDRATE_INIT :: u32 where "UART_ADVFEATURE_AUTOBAUDRATE_INIT = 0x40"
definition UART_ADVFEATURE_MSBFIRST_INIT :: u32 where "UART_ADVFEATURE_MSBFIRST_INIT = 0x80"
definition UART_ADVFEATURE_AUTOBAUDRATE_ENABLE :: u32 where "UART_ADVFEATURE_AUTOBAUDRATE_ENABLE = 0x100000"
definition UART_TEACK_REACK_TIMEOUT :: u32 where "UART_TEACK_REACK_TIMEOUT = 1000"
definition HAL_UART_ERROR_NONE :: u32 where "HAL_UART_ERROR_NONE = 0"
definition HAL_UART_ERROR_PE :: u32 where "HAL_UART_ERROR_PE = 1"
definition HAL_UART_ERROR_NE :: u32 where "HAL_UART_ERROR_NE = 2"
definition HAL_UART_ERROR_FE :: u32 where "HAL_UART_ERROR_FE = 4"
definition HAL_UART_ERROR_ORE :: u32 where "HAL_UART_ERROR_ORE = 8"
definition RCC_USART1CLKSOURCE_PCLK2 :: u32 where "RCC_USART1CLKSOURCE_PCLK2 = 0"
definition RCC_USART1CLKSOURCE_SYSCLK :: u32 where "RCC_USART1CLKSOURCE_SYSCLK = 1"
definition RCC_USART1CLKSOURCE_LSE :: u32 where "RCC_USART1CLKSOURCE_LSE = 2"
definition RCC_USART1CLKSOURCE_HSI :: u32 where "RCC_USART1CLKSOURCE_HSI = 3"
definition RCC_USART2CLKSOURCE_PCLK1 :: u32 where "RCC_USART2CLKSOURCE_PCLK1 = 0"
definition RCC_USART2CLKSOURCE_SYSCLK :: u32 where "RCC_USART2CLKSOURCE_SYSCLK = 0x10000"
definition RCC_USART2CLKSOURCE_LSE :: u32 where "RCC_USART2CLKSOURCE_LSE = 0x20000"
definition RCC_USART2CLKSOURCE_HSI :: u32 where "RCC_USART2CLKSOURCE_HSI = 0x30000"
definition RCC_USART3CLKSOURCE_PCLK1 :: u32 where "RCC_USART3CLKSOURCE_PCLK1 = 0"
definition RCC_USART3CLKSOURCE_SYSCLK :: u32 where "RCC_USART3CLKSOURCE_SYSCLK = 0x40000"
definition RCC_USART3CLKSOURCE_LSE :: u32 where "RCC_USART3CLKSOURCE_LSE = 0x80000"
definition RCC_USART3CLKSOURCE_HSI :: u32 where "RCC_USART3CLKSOURCE_HSI = 0xC0000"
definition LSE_VALUE :: u32 where "LSE_VALUE = 32768"
definition UART_IT_PE :: u16 where "UART_IT_PE = 0x0028"
definition UART_IT_TXE :: u16 where "UART_IT_TXE = 0x0727"
definition UART_IT_TC :: u16 where "UART_IT_TC = 0x0626"
definition UART_IT_RXNE :: u16 where "UART_IT_RXNE = 0x0525"
definition UART_IT_WUF :: u16 where "UART_IT_WUF = 0x1476"
definition UART_IT_ERR :: u16 where "UART_IT_ERR = 0x0060"
definition UART_IT_ORE :: u16 where "UART_IT_ORE = 0x0300"
definition UART_IT_NE :: u16 where "UART_IT_NE = 0x0200"
definition UART_IT_FE :: u16 where "UART_IT_FE = 0x0100"
definition UART_IT_MASK :: u16 where "UART_IT_MASK = 0x001F"

lemmas uart_consts = USART_CR1_UE_def USART_CR1_RE_def USART_CR1_TE_def USART_CR1_PS_def USART_CR1_PCE_def USART_CR1_WAKE_def
  USART_CR1_M_def USART_CR1_MME_def USART_CR1_OVER8_def UART_CR1_FIELDS_def USART_CR2_ADDM7_def
  USART_CR2_LBDL_def USART_CR2_CLKEN_def USART_CR2_STOP_def USART_CR2_LINEN_def USART_CR2_SWAP_def
  USART_CR2_RXINV_def USART_CR2_TXINV_def USART_CR2_DATAINV_def USART_CR2_MSBFIRST_def USART_CR2_ABREN_def
  USART_CR2_ABRMODE_def USART_CR2_ADD_def USART_CR3_IREN_def USART_CR3_HDSEL_def USART_CR3_SCEN_def
  USART_CR3_RTSE_def USART_CR3_CTSE_def USART_CR3_ONEBIT_def USART_CR3_OVRDIS_def USART_CR3_DDRE_def
  USART_ISR_TEACK_def USART_ISR_REACK_def UART_FLAG_TXE_def UART_FLAG_TC_def UART_FLAG_RXNE_def
  UART_CLEAR_PEF_def UART_CLEAR_FEF_def UART_CLEAR_NEF_def UART_CLEAR_OREF_def UART_CLEAR_WUF_def
  UART_SENDBREAK_REQUEST_def UART_MUTE_MODE_REQUEST_def UART_RXDATA_FLUSH_REQUEST_def
  UART_WORDLENGTH_8B_def UART_WORDLENGTH_9B_def UART_PARITY_NONE_def UART_STOPBITS_1_def
  UART_MODE_TX_RX_def UART_HWCONTROL_NONE_def UART_OVERSAMPLING_16_def UART_OVERSAMPLING_8_def
  UART_ONE_BIT_SAMPLE_DISABLE_def UART_WAKEUPMETHOD_ADDRESSMARK_def UART_ADVFEATURE_NO_INIT_def
  UART_ADVFEATURE_TXINVERT_INIT_def UART_ADVFEATURE_RXINVERT_INIT_def UART_ADVFEATURE_DATAINVERT_INIT_def
  UART_ADVFEATURE_SWAP_INIT_def UART_ADVFEATURE_RXOVERRUNDISABLE_INIT_def
  UART_ADVFEATURE_DMADISABLEONERROR_INIT_def UART_ADVFEATURE_AUTOBAUDRATE_INIT_def
  UART_ADVFEATURE_MSBFIRST_INIT_def UART_ADVFEATURE_AUTOBAUDRATE_ENABLE_def UART_TEACK_REACK_TIMEOUT_def
  HAL_UART_ERROR_NONE_def HAL_UART_ERROR_PE_def HAL_UART_ERROR_NE_def HAL_UART_ERROR_FE_def
  HAL_UART_ERROR_ORE_def
  RCC_USART1CLKSOURCE_PCLK2_def RCC_USART1CLKSOURCE_SYSCLK_def RCC_USART1CLKSOURCE_LSE_def
  RCC_USART1CLKSOURCE_HSI_def RCC_USART2CLKSOURCE_PCLK1_def RCC_USART2CLKSOURCE_SYSCLK_def
  RCC_USART2CLKSOURCE_LSE_def RCC_USART2CLKSOURCE_HSI_def RCC_USART3CLKSOURCE_PCLK1_def
  RCC_USART3CLKSOURCE_SYSCLK_def RCC_USART3CLKSOURCE_LSE_def RCC_USART3CLKSOURCE_HSI_def LSE_VALUE_def
  UART_IT_PE_def UART_IT_TXE_def UART_IT_TC_def UART_IT_RXNE_def UART_IT_WUF_def UART_IT_ERR_def
  UART_IT_ORE_def UART_IT_NE_def UART_IT_FE_def UART_IT_MASK_def

section \<open>The handle\<close>

datatype usart_instance = USART1 | USART2 | USART3

record UART_InitTypeDef =
  BaudRate :: u32
  WordLength :: u32
  StopBits :: u32
  Parity :: u32
  ui_Mode :: u32
  HwFlowCtl :: u32
  OverSampling :: u32
  OneBitSampling :: u32

record UART_AdvFeatureInitTypeDef =
  AdvFeatureInit :: u32
  TxPinLevelInvert :: u32
  RxPinLevelInvert :: u32
  DataInvert :: u32
  Swap :: u32
  OverrunDisable :: u32
  DMADisableonRxError :: u32
  AutoBaudRateEnable :: u32
  AutoBaudRateMode :: u32
  MSBFirst :: u32

datatype HAL_UART_StateTypeDef =
    HAL_UART_STATE_RESET | HAL_UART_STATE_READY | HAL_UART_STATE_BUSY | HAL_UART_STATE_BUSY_TX
  | HAL_UART_STATE_BUSY_RX

text \<open>The numeric values of the states, which \<^verbatim>\<open>HAL_UART_GetState\<close> combines.\<close>
fun uart_state_code :: "HAL_UART_StateTypeDef \<Rightarrow> u32" where
  "uart_state_code HAL_UART_STATE_RESET = 0"
| "uart_state_code HAL_UART_STATE_READY = 0x20"
| "uart_state_code HAL_UART_STATE_BUSY = 0x24"
| "uart_state_code HAL_UART_STATE_BUSY_TX = 0x21"
| "uart_state_code HAL_UART_STATE_BUSY_RX = 0x22"

datatype UART_ClockSourceTypeDef =
    UART_CLOCKSOURCE_PCLK1 | UART_CLOCKSOURCE_PCLK2 | UART_CLOCKSOURCE_HSI | UART_CLOCKSOURCE_SYSCLK
  | UART_CLOCKSOURCE_LSE | UART_CLOCKSOURCE_UNDEFINED

datatype uart_io = TDR_write u16 | RDR_read | ICR_write u32 | RQR_set u32

datatype uart_callback =
    UART_TxCpltCallback | UART_RxCpltCallback | UART_ErrorCallback | UART_WakeupCallback | UART_TxHalfCpltCallback
  | UART_RxHalfCpltCallback

record UART_HandleTypeDef =
  uart_Instance :: usart_instance
  uart_CR1 :: u32
  uart_CR2 :: u32
  uart_CR3 :: u32
  uart_BRR :: u32
  uart_Init :: UART_InitTypeDef
  AdvancedInit :: UART_AdvFeatureInitTypeDef
  uart_pTxBuffPtr :: u32
  uart_TxXferSize :: u16
  uart_TxXferCount :: u16
  uart_pRxBuffPtr :: u32
  uart_RxXferSize :: u16
  uart_RxXferCount :: u16
  uart_Mask :: u16
  uart_Lock :: HAL_LockTypeDef
  gState :: HAL_UART_StateTypeDef
  RxState :: HAL_UART_StateTypeDef
  uart_ErrorCode :: u32
  uart_mem :: mem
  uart_now :: time
  uart_io :: "uart_io list"
  uart_cb :: "uart_callback list"

type_synonym uart = UART_HandleTypeDef
type_synonym uart_op = "uart \<Rightarrow> (HAL_StatusTypeDef \<times> uart) option"

definition uart_log :: "uart_io \<Rightarrow> uart \<Rightarrow> uart" where
  "uart_log x h = h\<lparr>uart_io := uart_io h @ [x]\<rparr>"

definition uart_callback :: "uart_callback \<Rightarrow> uart \<Rightarrow> uart" where
  "uart_callback k h = h\<lparr>uart_cb := uart_cb h @ [k]\<rparr>"

text \<open>An interrupt code holds the number of its control register in bits 5 and 6 and the bit number below.\<close>
definition uart_it_bit :: "u16 \<Rightarrow> u32" where
  "uart_it_bit it = push_bit (unat (it AND UART_IT_MASK)) 1"

definition uart_it_reg :: "u16 \<Rightarrow> u8" where
  "uart_it_reg it = drop_bit 5 (ucast it)"

definition uart_ENABLE_IT :: "u16 \<Rightarrow> uart \<Rightarrow> uart" where
  "uart_ENABLE_IT it h =
     (if uart_it_reg it = 1 then h\<lparr>uart_CR1 := uart_CR1 h OR uart_it_bit it\<rparr>
      else if uart_it_reg it = 2 then h\<lparr>uart_CR2 := uart_CR2 h OR uart_it_bit it\<rparr>
      else h\<lparr>uart_CR3 := uart_CR3 h OR uart_it_bit it\<rparr>)"

definition uart_DISABLE_IT :: "u16 \<Rightarrow> uart \<Rightarrow> uart" where
  "uart_DISABLE_IT it h =
     (if uart_it_reg it = 1 then h\<lparr>uart_CR1 := uart_CR1 h AND NOT (uart_it_bit it)\<rparr>
      else if uart_it_reg it = 2 then h\<lparr>uart_CR2 := uart_CR2 h AND NOT (uart_it_bit it)\<rparr>
      else h\<lparr>uart_CR3 := uart_CR3 h AND NOT (uart_it_bit it)\<rparr>)"

text \<open>\<^verbatim>\<open>__HAL_UART_GET_IT(...) != RESET\<close>, of the value read from \<^verbatim>\<open>ISR\<close>.\<close>
definition uart_GET_IT :: "u32 \<Rightarrow> u16 \<Rightarrow> bool" where
  "uart_GET_IT isr it \<longleftrightarrow> isr AND push_bit (unat (drop_bit 8 it)) 1 \<noteq> 0"

definition uart_GET_IT_SOURCE :: "uart \<Rightarrow> u16 \<Rightarrow> bool" where
  "uart_GET_IT_SOURCE h it \<longleftrightarrow>
     (if uart_it_reg it = 1 then uart_CR1 h else if uart_it_reg it = 2 then uart_CR2 h else uart_CR3 h)
       AND uart_it_bit it \<noteq> 0"

definition uart_ENABLE :: "uart \<Rightarrow> uart" where
  "uart_ENABLE h = h\<lparr>uart_CR1 := uart_CR1 h OR USART_CR1_UE\<rparr>"

definition uart_DISABLE :: "uart \<Rightarrow> uart" where
  "uart_DISABLE h = h\<lparr>uart_CR1 := uart_CR1 h AND NOT USART_CR1_UE\<rparr>"

definition UART_DIV_SAMPLING8 :: "u32 \<Rightarrow> u32 \<Rightarrow> u32" where
  "UART_DIV_SAMPLING8 pclk baud = (pclk * 2 + baud div 2) div baud"

definition UART_DIV_SAMPLING16 :: "u32 \<Rightarrow> u32 \<Rightarrow> u32" where
  "UART_DIV_SAMPLING16 pclk baud = (pclk + baud div 2) div baud"

text \<open>The device has three USARTs, each with four clock sources.\<close>
definition UART_GETCLOCKSOURCE :: "rcc \<Rightarrow> usart_instance \<Rightarrow> UART_ClockSourceTypeDef" where
  "UART_GETCLOCKSOURCE r i =
     (case i of
        USART1 \<Rightarrow> let src = rcc_CFGR3 r AND RCC_CFGR3_USART1SW
                  in if src = RCC_USART1CLKSOURCE_PCLK2 then UART_CLOCKSOURCE_PCLK2
                     else if src = RCC_USART1CLKSOURCE_HSI then UART_CLOCKSOURCE_HSI
                     else if src = RCC_USART1CLKSOURCE_SYSCLK then UART_CLOCKSOURCE_SYSCLK
                     else if src = RCC_USART1CLKSOURCE_LSE then UART_CLOCKSOURCE_LSE
                     else UART_CLOCKSOURCE_UNDEFINED
      | USART2 \<Rightarrow> let src = rcc_CFGR3 r AND RCC_CFGR3_USART2SW
                  in if src = RCC_USART2CLKSOURCE_PCLK1 then UART_CLOCKSOURCE_PCLK1
                     else if src = RCC_USART2CLKSOURCE_HSI then UART_CLOCKSOURCE_HSI
                     else if src = RCC_USART2CLKSOURCE_SYSCLK then UART_CLOCKSOURCE_SYSCLK
                     else if src = RCC_USART2CLKSOURCE_LSE then UART_CLOCKSOURCE_LSE
                     else UART_CLOCKSOURCE_UNDEFINED
      | USART3 \<Rightarrow> let src = rcc_CFGR3 r AND RCC_CFGR3_USART3SW
                  in if src = RCC_USART3CLKSOURCE_PCLK1 then UART_CLOCKSOURCE_PCLK1
                     else if src = RCC_USART3CLKSOURCE_HSI then UART_CLOCKSOURCE_HSI
                     else if src = RCC_USART3CLKSOURCE_SYSCLK then UART_CLOCKSOURCE_SYSCLK
                     else if src = RCC_USART3CLKSOURCE_LSE then UART_CLOCKSOURCE_LSE
                     else UART_CLOCKSOURCE_UNDEFINED)"

definition UART_MASK_COMPUTATION :: "uart \<Rightarrow> uart" where
  "UART_MASK_COMPUTATION h =
     (if WordLength (uart_Init h) = UART_WORDLENGTH_9B
      then h\<lparr>uart_Mask := (if Parity (uart_Init h) = UART_PARITY_NONE then 0x1FF else 0xFF)\<rparr>
      else if WordLength (uart_Init h) = UART_WORDLENGTH_8B
      then h\<lparr>uart_Mask := (if Parity (uart_Init h) = UART_PARITY_NONE then 0xFF else 0x7F)\<rparr>
      else h)"

lemmas uart_macros = uart_log_def uart_callback_def uart_ENABLE_IT_def uart_DISABLE_IT_def uart_ENABLE_def
  uart_DISABLE_def uart_it_bit_def uart_it_reg_def

section \<open>Set-up\<close>

text \<open>The frequency of a clock source, read when the register is computed; \<open>None\<close> for an undefined source.\<close>
definition uart_clock :: "rcc_hw \<Rightarrow> rcc \<Rightarrow> UART_ClockSourceTypeDef \<Rightarrow> u32 option" where
  "uart_clock rhw r src =
     (case src of UART_CLOCKSOURCE_PCLK1 \<Rightarrow> Some (HAL_RCC_GetPCLK1Freq r)
      | UART_CLOCKSOURCE_PCLK2 \<Rightarrow> Some (HAL_RCC_GetPCLK2Freq r)
      | UART_CLOCKSOURCE_HSI \<Rightarrow> Some HSI_VALUE
      | UART_CLOCKSOURCE_SYSCLK \<Rightarrow> Some (HAL_RCC_GetSysClockFreq rhw r)
      | UART_CLOCKSOURCE_LSE \<Rightarrow> Some LSE_VALUE
      | UART_CLOCKSOURCE_UNDEFINED \<Rightarrow> None)"

definition UART_SetConfig :: "rcc_hw \<Rightarrow> rcc \<Rightarrow> uart \<Rightarrow> HAL_StatusTypeDef \<times> uart" where
  "UART_SetConfig rhw r h =
     (let i = uart_Init h;
          h1 = h\<lparr>uart_CR1 := MODIFY_REG (uart_CR1 h) UART_CR1_FIELDS
                    (WordLength i OR Parity i OR ui_Mode i OR OverSampling i),
                 uart_CR2 := MODIFY_REG (uart_CR2 h) USART_CR2_STOP (StopBits i),
                 uart_CR3 := MODIFY_REG (uart_CR3 h) (USART_CR3_RTSE OR USART_CR3_CTSE OR USART_CR3_ONEBIT)
                    (HwFlowCtl i OR OneBitSampling i)\<rparr>;
          clk = uart_clock rhw r (UART_GETCLOCKSOURCE r (uart_Instance h1))
      in if OverSampling i = UART_OVERSAMPLING_8
         then let usartdiv = (case clk of Some f \<Rightarrow> ucast (UART_DIV_SAMPLING8 f (BaudRate i)) | None \<Rightarrow> (0 :: u16));
                  brrtemp = (usartdiv AND 0xFFF0) OR drop_bit 1 (usartdiv AND 0xF)
              in (if clk = None then HAL_ERROR else HAL_OK, h1\<lparr>uart_BRR := ucast brrtemp\<rparr>)
         else case clk of
                Some f \<Rightarrow> (HAL_OK, h1\<lparr>uart_BRR := ucast (ucast (UART_DIV_SAMPLING16 f (BaudRate i)) :: u16)\<rparr>)
              | None \<Rightarrow> (HAL_ERROR, h1))"

text \<open>\<^verbatim>\<open>if (HAL_IS_BIT_SET(AdvFeatureInit, feature)) MODIFY_REG(CR2, mask, v);\<close>\<close>
definition uart_adv_CR2 :: "u32 \<Rightarrow> u32 \<Rightarrow> (UART_AdvFeatureInitTypeDef \<Rightarrow> u32) \<Rightarrow> uart \<Rightarrow> uart" where
  "uart_adv_CR2 feature msk v h =
     (if AdvFeatureInit (AdvancedInit h) AND feature = feature
      then h\<lparr>uart_CR2 := MODIFY_REG (uart_CR2 h) msk (v (AdvancedInit h))\<rparr> else h)"

definition uart_adv_CR3 :: "u32 \<Rightarrow> u32 \<Rightarrow> (UART_AdvFeatureInitTypeDef \<Rightarrow> u32) \<Rightarrow> uart \<Rightarrow> uart" where
  "uart_adv_CR3 feature msk v h =
     (if AdvFeatureInit (AdvancedInit h) AND feature = feature
      then h\<lparr>uart_CR3 := MODIFY_REG (uart_CR3 h) msk (v (AdvancedInit h))\<rparr> else h)"

definition UART_AdvFeatureConfig :: "uart \<Rightarrow> uart" where
  "UART_AdvFeatureConfig h =
     (let h1 = uart_adv_CR2 UART_ADVFEATURE_TXINVERT_INIT USART_CR2_TXINV TxPinLevelInvert h;
          h2 = uart_adv_CR2 UART_ADVFEATURE_RXINVERT_INIT USART_CR2_RXINV RxPinLevelInvert h1;
          h3 = uart_adv_CR2 UART_ADVFEATURE_DATAINVERT_INIT USART_CR2_DATAINV DataInvert h2;
          h4 = uart_adv_CR2 UART_ADVFEATURE_SWAP_INIT USART_CR2_SWAP Swap h3;
          h5 = uart_adv_CR3 UART_ADVFEATURE_RXOVERRUNDISABLE_INIT USART_CR3_OVRDIS OverrunDisable h4;
          h6 = uart_adv_CR3 UART_ADVFEATURE_DMADISABLEONERROR_INIT USART_CR3_DDRE DMADisableonRxError h5;
          h7 = uart_adv_CR2 UART_ADVFEATURE_AUTOBAUDRATE_INIT USART_CR2_ABREN AutoBaudRateEnable h6;
          h8 = (if AutoBaudRateEnable (AdvancedInit h7) = UART_ADVFEATURE_AUTOBAUDRATE_ENABLE
                then uart_adv_CR2 UART_ADVFEATURE_AUTOBAUDRATE_INIT USART_CR2_ABRMODE AutoBaudRateMode h7 else h7)
      in uart_adv_CR2 UART_ADVFEATURE_MSBFIRST_INIT USART_CR2_MSBFIRST MSBFirst h8)"

text \<open>\<open>until\<close> is the state of the flag that ends the wait: the negation of the argument \<^verbatim>\<open>Status\<close>.\<close>
definition UART_WaitOnFlagUntilTimeout :: "hw \<Rightarrow> u32 \<Rightarrow> bool \<Rightarrow> u32 \<Rightarrow> uart_op" where
  "UART_WaitOnFlagUntilTimeout hw Flag until Timeout h =
     do { (ok, t) \<leftarrow> wait_beyond hw (\<lambda>t. (hw_SR hw t AND Flag = Flag) = until) Timeout (uart_now h);
          let h1 = h\<lparr>uart_now := t\<rparr>;
          Some (if ok then (HAL_OK, h1)
                else (HAL_TIMEOUT,
                      (uart_DISABLE_IT UART_IT_ERR (uart_DISABLE_IT UART_IT_PE (uart_DISABLE_IT UART_IT_RXNE
                         (uart_DISABLE_IT UART_IT_TXE h1))))
                        \<lparr>gState := HAL_UART_STATE_READY, RxState := HAL_UART_STATE_READY, uart_Lock := HAL_UNLOCKED\<rparr>)) }"

definition UART_CheckIdleState :: "hw \<Rightarrow> uart_op" where
  "UART_CheckIdleState hw h0 =
     do { let h = h0\<lparr>uart_ErrorCode := HAL_UART_ERROR_NONE\<rparr>;
          (st1, h1) \<leftarrow> (if uart_CR1 h AND USART_CR1_TE = USART_CR1_TE
                        then UART_WaitOnFlagUntilTimeout hw USART_ISR_TEACK True UART_TEACK_REACK_TIMEOUT h
                        else Some (HAL_OK, h));
          if st1 \<noteq> HAL_OK then Some (HAL_TIMEOUT, h1)
          else do {
            (st2, h2) \<leftarrow> (if uart_CR1 h1 AND USART_CR1_RE = USART_CR1_RE
                          then UART_WaitOnFlagUntilTimeout hw USART_ISR_REACK True UART_TEACK_REACK_TIMEOUT h1
                          else Some (HAL_OK, h1));
            Some (if st2 \<noteq> HAL_OK then (HAL_TIMEOUT, h2)
                  else (HAL_OK, h2\<lparr>gState := HAL_UART_STATE_READY, RxState := HAL_UART_STATE_READY,
                                   uart_Lock := HAL_UNLOCKED\<rparr>)) } }"

text \<open>What the four set-up functions share; \<open>mode\<close> are the register changes of the mode, \<open>msp\<close> the low-level
  set-up.  The null check of the handle has no counterpart.\<close>
definition uart_set_up :: "(uart \<Rightarrow> uart) \<Rightarrow> (uart \<Rightarrow> uart) \<Rightarrow> rcc_hw \<Rightarrow> rcc \<Rightarrow> hw \<Rightarrow> uart_op" where
  "uart_set_up mode msp rhw r hw h =
     (let h1 = (if gState h = HAL_UART_STATE_RESET then msp (h\<lparr>uart_Lock := HAL_UNLOCKED\<rparr>) else h);
          h2 = uart_DISABLE (h1\<lparr>gState := HAL_UART_STATE_BUSY\<rparr>);
          (st, h3) = UART_SetConfig rhw r h2
      in if st = HAL_ERROR then Some (HAL_ERROR, h3)
         else let h4 = (if AdvFeatureInit (AdvancedInit h3) \<noteq> UART_ADVFEATURE_NO_INIT
                        then UART_AdvFeatureConfig h3 else h3)
              in UART_CheckIdleState hw (uart_ENABLE (mode h4)))"

definition HAL_UART_Init :: "(uart \<Rightarrow> uart) \<Rightarrow> rcc_hw \<Rightarrow> rcc \<Rightarrow> hw \<Rightarrow> uart_op" where
  "HAL_UART_Init msp = uart_set_up (\<lambda>h. h\<lparr>
     uart_CR2 := uart_CR2 h AND NOT (USART_CR2_LINEN OR USART_CR2_CLKEN),
     uart_CR3 := uart_CR3 h AND NOT (USART_CR3_SCEN OR USART_CR3_HDSEL OR USART_CR3_IREN)\<rparr>) msp"

definition HAL_HalfDuplex_Init :: "(uart \<Rightarrow> uart) \<Rightarrow> rcc_hw \<Rightarrow> rcc \<Rightarrow> hw \<Rightarrow> uart_op" where
  "HAL_HalfDuplex_Init msp = uart_set_up (\<lambda>h. h\<lparr>
     uart_CR2 := uart_CR2 h AND NOT (USART_CR2_LINEN OR USART_CR2_CLKEN),
     uart_CR3 := (uart_CR3 h AND NOT (USART_CR3_IREN OR USART_CR3_SCEN)) OR USART_CR3_HDSEL\<rparr>) msp"

definition HAL_LIN_Init :: "(uart \<Rightarrow> uart) \<Rightarrow> u32 \<Rightarrow> rcc_hw \<Rightarrow> rcc \<Rightarrow> hw \<Rightarrow> uart_op" where
  "HAL_LIN_Init msp BreakDetectLength rhw r hw h =
     (if OverSampling (uart_Init h) = UART_OVERSAMPLING_8 then Some (HAL_ERROR, h)
      else if WordLength (uart_Init h) \<noteq> UART_WORDLENGTH_8B then Some (HAL_ERROR, h)
      else uart_set_up (\<lambda>h. h\<lparr>
             uart_CR2 := MODIFY_REG ((uart_CR2 h AND NOT USART_CR2_CLKEN) OR USART_CR2_LINEN) USART_CR2_LBDL
                           BreakDetectLength,
             uart_CR3 := uart_CR3 h AND NOT (USART_CR3_HDSEL OR USART_CR3_IREN OR USART_CR3_SCEN)\<rparr>) msp rhw r hw h)"

definition HAL_MultiProcessor_Init :: "(uart \<Rightarrow> uart) \<Rightarrow> u8 \<Rightarrow> u32 \<Rightarrow> rcc_hw \<Rightarrow> rcc \<Rightarrow> hw \<Rightarrow> uart_op" where
  "HAL_MultiProcessor_Init msp Address WakeUpMethod = uart_set_up (\<lambda>h.
     let cr2 = uart_CR2 h AND NOT (USART_CR2_LINEN OR USART_CR2_CLKEN)
     in h\<lparr>uart_CR2 := (if WakeUpMethod = UART_WAKEUPMETHOD_ADDRESSMARK
                       then MODIFY_REG cr2 USART_CR2_ADD (push_bit 24 (ucast Address)) else cr2),
          uart_CR3 := uart_CR3 h AND NOT (USART_CR3_SCEN OR USART_CR3_HDSEL OR USART_CR3_IREN),
          uart_CR1 := MODIFY_REG (uart_CR1 h) USART_CR1_WAKE WakeUpMethod\<rparr>) msp"

definition HAL_UART_DeInit :: "(uart \<Rightarrow> uart) \<Rightarrow> uart \<Rightarrow> HAL_StatusTypeDef \<times> uart" where
  "HAL_UART_DeInit msp_deinit h =
     (let h1 = (uart_DISABLE (h\<lparr>gState := HAL_UART_STATE_BUSY\<rparr>))\<lparr>uart_CR1 := 0, uart_CR2 := 0, uart_CR3 := 0\<rparr>
      in (HAL_OK, (msp_deinit h1)\<lparr>uart_ErrorCode := HAL_UART_ERROR_NONE, gState := HAL_UART_STATE_RESET,
                     RxState := HAL_UART_STATE_RESET, uart_Lock := HAL_UNLOCKED\<rparr>))"

section \<open>Blocking transfers\<close>

definition uart_9bit :: "uart \<Rightarrow> bool" where
  "uart_9bit h \<longleftrightarrow> WordLength (uart_Init h) = UART_WORDLENGTH_9B \<and> Parity (uart_Init h) = UART_PARITY_NONE"

text \<open>The value sent from address \<open>p\<close>, and the step of the pointer.\<close>
definition uart_item :: "uart \<Rightarrow> u32 \<Rightarrow> u16" where
  "uart_item h p = (if uart_9bit h then mem_read16 (uart_mem h) p AND 0x1FF else ucast (uart_mem h p))"

definition uart_step :: "uart \<Rightarrow> u32" where
  "uart_step h = (if uart_9bit h then 2 else 1)"

text \<open>\<^verbatim>\<open>while(huart->TxXferCount > 0)\<close>: the first argument is the number of passes left, which the counter equals.\<close>
fun uart_tx_loop :: "nat \<Rightarrow> hw \<Rightarrow> u32 \<Rightarrow> u32 \<Rightarrow> uart_op" where
  "uart_tx_loop 0 hw Timeout pData h = Some (HAL_OK, h)"
| "uart_tx_loop (Suc n) hw Timeout pData h =
     do { (st, h1) \<leftarrow> UART_WaitOnFlagUntilTimeout hw UART_FLAG_TXE True Timeout
                        (h\<lparr>uart_TxXferCount := uart_TxXferCount h - 1\<rparr>);
          if st \<noteq> HAL_OK then Some (HAL_TIMEOUT, h1)
          else uart_tx_loop n hw Timeout (pData + uart_step h1) (uart_log (TDR_write (uart_item h1 pData)) h1) }"

definition HAL_UART_Transmit :: "hw \<Rightarrow> u32 \<Rightarrow> u16 \<Rightarrow> u32 \<Rightarrow> uart_op" where
  "HAL_UART_Transmit hw pData Size Timeout h =
     (if gState h \<noteq> HAL_UART_STATE_READY then Some (HAL_BUSY, h)
      else if pData = NULL \<or> Size = 0 then Some (HAL_ERROR, h)
      else if uart_Lock h = HAL_LOCKED then Some (HAL_BUSY, h)
      else do {
        (st, h1) \<leftarrow> uart_tx_loop (unat Size) hw Timeout pData
          (h\<lparr>uart_Lock := HAL_LOCKED, uart_ErrorCode := HAL_UART_ERROR_NONE, gState := HAL_UART_STATE_BUSY_TX,
             uart_TxXferSize := Size, uart_TxXferCount := Size\<rparr>);
        if st \<noteq> HAL_OK then Some (HAL_TIMEOUT, h1)
        else do {
          (st2, h2) \<leftarrow> UART_WaitOnFlagUntilTimeout hw UART_FLAG_TC True Timeout h1;
          Some (if st2 \<noteq> HAL_OK then (HAL_TIMEOUT, h2)
                else (HAL_OK, h2\<lparr>gState := HAL_UART_STATE_READY, uart_Lock := HAL_UNLOCKED\<rparr>)) } })"

text \<open>One received item, stored at \<open>p\<close>.\<close>
definition uart_get :: "hw \<Rightarrow> u32 \<Rightarrow> uart \<Rightarrow> uart" where
  "uart_get hw p h =
     (let v = hw_DR hw (uart_now h); h1 = (uart_log RDR_read h)\<lparr>uart_now := Suc (uart_now h)\<rparr>
      in if uart_9bit h
         then let w = v AND ucast (uart_Mask h)
              in h1\<lparr>uart_mem := (uart_mem h)(p := ucast w, p + 1 := ucast (drop_bit 8 w))\<rparr>
         else h1\<lparr>uart_mem := (uart_mem h)(p := ucast (v AND ucast (ucast (uart_Mask h) :: u8)))\<rparr>)"

fun uart_rx_loop :: "nat \<Rightarrow> hw \<Rightarrow> u32 \<Rightarrow> u32 \<Rightarrow> uart_op" where
  "uart_rx_loop 0 hw Timeout pData h = Some (HAL_OK, h)"
| "uart_rx_loop (Suc n) hw Timeout pData h =
     do { (st, h1) \<leftarrow> UART_WaitOnFlagUntilTimeout hw UART_FLAG_RXNE True Timeout
                        (h\<lparr>uart_RxXferCount := uart_RxXferCount h - 1\<rparr>);
          if st \<noteq> HAL_OK then Some (HAL_TIMEOUT, h1)
          else uart_rx_loop n hw Timeout (pData + uart_step h1) (uart_get hw pData h1) }"

definition HAL_UART_Receive :: "hw \<Rightarrow> u32 \<Rightarrow> u16 \<Rightarrow> u32 \<Rightarrow> uart_op" where
  "HAL_UART_Receive hw pData Size Timeout h =
     (if RxState h \<noteq> HAL_UART_STATE_READY then Some (HAL_BUSY, h)
      else if pData = NULL \<or> Size = 0 then Some (HAL_ERROR, h)
      else if uart_Lock h = HAL_LOCKED then Some (HAL_BUSY, h)
      else do {
        (st, h1) \<leftarrow> uart_rx_loop (unat Size) hw Timeout pData (UART_MASK_COMPUTATION
          (h\<lparr>uart_Lock := HAL_LOCKED, uart_ErrorCode := HAL_UART_ERROR_NONE, RxState := HAL_UART_STATE_BUSY_RX,
             uart_RxXferSize := Size, uart_RxXferCount := Size\<rparr>));
        Some (if st \<noteq> HAL_OK then (HAL_TIMEOUT, h1)
              else (HAL_OK, h1\<lparr>RxState := HAL_UART_STATE_READY, uart_Lock := HAL_UNLOCKED\<rparr>)) })"

section \<open>Interrupt-driven transfers\<close>

definition HAL_UART_Transmit_IT :: "u32 \<Rightarrow> u16 \<Rightarrow> uart \<Rightarrow> HAL_StatusTypeDef \<times> uart" where
  "HAL_UART_Transmit_IT pData Size h =
     (if gState h \<noteq> HAL_UART_STATE_READY then (HAL_BUSY, h)
      else if pData = NULL \<or> Size = 0 then (HAL_ERROR, h)
      else if uart_Lock h = HAL_LOCKED then (HAL_BUSY, h)
      else (HAL_OK, uart_ENABLE_IT UART_IT_TXE
              (h\<lparr>uart_pTxBuffPtr := pData, uart_TxXferSize := Size, uart_TxXferCount := Size,
                 uart_ErrorCode := HAL_UART_ERROR_NONE, gState := HAL_UART_STATE_BUSY_TX, uart_Lock := HAL_UNLOCKED\<rparr>)))"

definition HAL_UART_Receive_IT :: "u32 \<Rightarrow> u16 \<Rightarrow> uart \<Rightarrow> HAL_StatusTypeDef \<times> uart" where
  "HAL_UART_Receive_IT pData Size h =
     (if RxState h \<noteq> HAL_UART_STATE_READY then (HAL_BUSY, h)
      else if pData = NULL \<or> Size = 0 then (HAL_ERROR, h)
      else if uart_Lock h = HAL_LOCKED then (HAL_BUSY, h)
      else let h1 = UART_MASK_COMPUTATION (h\<lparr>uart_Lock := HAL_LOCKED, uart_pRxBuffPtr := pData,
                      uart_RxXferSize := Size, uart_RxXferCount := Size\<rparr>);
               h2 = h1\<lparr>uart_ErrorCode := HAL_UART_ERROR_NONE, RxState := HAL_UART_STATE_BUSY_RX\<rparr>;
               h3 = (uart_ENABLE_IT UART_IT_ERR (uart_ENABLE_IT UART_IT_PE h2))\<lparr>uart_Lock := HAL_UNLOCKED\<rparr>
           in (HAL_OK, uart_ENABLE_IT UART_IT_RXNE h3))"

definition UART_Transmit_IT :: "uart \<Rightarrow> HAL_StatusTypeDef \<times> uart" where
  "UART_Transmit_IT h =
     (if gState h = HAL_UART_STATE_BUSY_TX
      then if uart_TxXferCount h = 0
           then (HAL_OK, uart_ENABLE_IT UART_IT_TC (uart_DISABLE_IT UART_IT_TXE h))
           else (HAL_OK, (uart_log (TDR_write (uart_item h (uart_pTxBuffPtr h))) h)
                   \<lparr>uart_pTxBuffPtr := uart_pTxBuffPtr h + uart_step h, uart_TxXferCount := uart_TxXferCount h - 1\<rparr>)
      else (HAL_BUSY, h))"

definition UART_EndTransmit_IT :: "uart \<Rightarrow> HAL_StatusTypeDef \<times> uart" where
  "UART_EndTransmit_IT h =
     (HAL_OK, uart_callback UART_TxCpltCallback ((uart_DISABLE_IT UART_IT_TC h)\<lparr>gState := HAL_UART_STATE_READY\<rparr>))"

definition UART_Receive_IT :: "hw \<Rightarrow> uart \<Rightarrow> HAL_StatusTypeDef \<times> uart" where
  "UART_Receive_IT hw h =
     (if RxState h = HAL_UART_STATE_BUSY_RX
      then let h1 = (uart_get hw (uart_pRxBuffPtr h) h)\<lparr>uart_pRxBuffPtr := uart_pRxBuffPtr h + uart_step h,
                      uart_RxXferCount := uart_RxXferCount h - 1\<rparr>
           in if uart_RxXferCount h1 = 0
              then (HAL_OK, uart_callback UART_RxCpltCallback
                      ((uart_DISABLE_IT UART_IT_ERR (uart_DISABLE_IT UART_IT_PE (uart_DISABLE_IT UART_IT_RXNE h1)))
                         \<lparr>RxState := HAL_UART_STATE_READY\<rparr>))
              else (HAL_OK, h1)
      else (HAL_BUSY, uart_log (RQR_set UART_RXDATA_FLUSH_REQUEST) h))"

text \<open>One of the checks of the handler: \<^verbatim>\<open>ISR\<close> is read afresh for each.\<close>
definition uart_check :: "hw \<Rightarrow> u16 \<Rightarrow> u16 \<Rightarrow> (uart \<Rightarrow> uart) \<Rightarrow> uart \<Rightarrow> uart" where
  "uart_check hw it source handle h =
     (let h1 = h\<lparr>uart_now := Suc (uart_now h)\<rparr>
      in if uart_GET_IT (hw_SR hw (uart_now h)) it \<and> uart_GET_IT_SOURCE h1 source then handle h1 else h1)"

definition uart_error :: "u32 \<Rightarrow> u32 \<Rightarrow> uart \<Rightarrow> uart" where
  "uart_error clr err h = (uart_log (ICR_write clr) h)\<lparr>uart_ErrorCode := uart_ErrorCode h OR err\<rparr>"

definition HAL_UART_IRQHandler :: "hw \<Rightarrow> uart \<Rightarrow> uart" where
  "HAL_UART_IRQHandler hw h =
     (let h1 = uart_check hw UART_IT_PE UART_IT_PE (uart_error UART_CLEAR_PEF HAL_UART_ERROR_PE) h;
          h2 = uart_check hw UART_IT_FE UART_IT_ERR (uart_error UART_CLEAR_FEF HAL_UART_ERROR_FE) h1;
          h3 = uart_check hw UART_IT_NE UART_IT_ERR (uart_error UART_CLEAR_NEF HAL_UART_ERROR_NE) h2;
          h4 = uart_check hw UART_IT_ORE UART_IT_ERR (uart_error UART_CLEAR_OREF HAL_UART_ERROR_ORE) h3;
          h5 = uart_check hw UART_IT_WUF UART_IT_WUF (\<lambda>h. uart_callback UART_WakeupCallback
                 ((uart_log (ICR_write UART_CLEAR_WUF) h)\<lparr>gState := HAL_UART_STATE_READY,
                    RxState := HAL_UART_STATE_READY\<rparr>)) h4;
          h6 = uart_check hw UART_IT_RXNE UART_IT_RXNE (\<lambda>h. snd (UART_Receive_IT hw h)) h5;
          h7 = uart_check hw UART_IT_TXE UART_IT_TXE (\<lambda>h. snd (UART_Transmit_IT h)) h6;
          h8 = uart_check hw UART_IT_TC UART_IT_TC (\<lambda>h. snd (UART_EndTransmit_IT h)) h7
      in if uart_ErrorCode h8 \<noteq> HAL_UART_ERROR_NONE
         then uart_callback UART_ErrorCallback (h8\<lparr>gState := HAL_UART_STATE_READY, RxState := HAL_UART_STATE_READY\<rparr>)
         else h8)"

section \<open>Modes and state\<close>

definition HAL_MultiProcessor_EnableMuteMode :: "hw \<Rightarrow> uart_op" where
  "HAL_MultiProcessor_EnableMuteMode hw h =
     (if uart_Lock h = HAL_LOCKED then Some (HAL_BUSY, h)
      else UART_CheckIdleState hw (h\<lparr>uart_Lock := HAL_LOCKED, uart_CR1 := uart_CR1 h OR USART_CR1_MME,
             gState := HAL_UART_STATE_READY\<rparr>))"

definition HAL_MultiProcessor_DisableMuteMode :: "hw \<Rightarrow> uart_op" where
  "HAL_MultiProcessor_DisableMuteMode hw h =
     (if uart_Lock h = HAL_LOCKED then Some (HAL_BUSY, h)
      else UART_CheckIdleState hw (h\<lparr>uart_Lock := HAL_LOCKED, uart_CR1 := uart_CR1 h AND NOT USART_CR1_MME,
             gState := HAL_UART_STATE_READY\<rparr>))"

definition HAL_MultiProcessor_EnterMuteMode :: "uart \<Rightarrow> uart" where
  "HAL_MultiProcessor_EnterMuteMode h = uart_log (RQR_set UART_MUTE_MODE_REQUEST) h"

text \<open>\<^verbatim>\<open>__HAL_LOCK\<close>, the change, ready, \<^verbatim>\<open>__HAL_UNLOCK\<close>.\<close>
definition uart_locked :: "(uart \<Rightarrow> uart) \<Rightarrow> uart \<Rightarrow> HAL_StatusTypeDef \<times> uart" where
  "uart_locked change h =
     (if uart_Lock h = HAL_LOCKED then (HAL_BUSY, h)
      else (HAL_OK, (change (h\<lparr>uart_Lock := HAL_LOCKED, gState := HAL_UART_STATE_BUSY\<rparr>))
              \<lparr>gState := HAL_UART_STATE_READY, uart_Lock := HAL_UNLOCKED\<rparr>))"

definition HAL_HalfDuplex_EnableTransmitter :: "uart \<Rightarrow> HAL_StatusTypeDef \<times> uart" where
  "HAL_HalfDuplex_EnableTransmitter =
     uart_locked (\<lambda>h. h\<lparr>uart_CR1 := (uart_CR1 h AND NOT (USART_CR1_TE OR USART_CR1_RE)) OR USART_CR1_TE\<rparr>)"

definition HAL_HalfDuplex_EnableReceiver :: "uart \<Rightarrow> HAL_StatusTypeDef \<times> uart" where
  "HAL_HalfDuplex_EnableReceiver =
     uart_locked (\<lambda>h. h\<lparr>uart_CR1 := (uart_CR1 h AND NOT (USART_CR1_TE OR USART_CR1_RE)) OR USART_CR1_RE\<rparr>)"

definition HAL_LIN_SendBreak :: "uart \<Rightarrow> HAL_StatusTypeDef \<times> uart" where
  "HAL_LIN_SendBreak = uart_locked (uart_log (RQR_set UART_SENDBREAK_REQUEST))"

definition HAL_UART_GetState :: "uart \<Rightarrow> u32" where
  "HAL_UART_GetState h = uart_state_code (gState h) OR uart_state_code (RxState h)"

definition HAL_UART_GetError :: "uart \<Rightarrow> u32" where
  "HAL_UART_GetError h = uart_ErrorCode h"

section \<open>Lemmas\<close>

text \<open>The values written to the transmit data register.\<close>
definition uart_sent :: "uart \<Rightarrow> u16 list" where
  "uart_sent h = concat (map (\<lambda>x. case x of TDR_write v \<Rightarrow> [v] | _ \<Rightarrow> []) (uart_io h))"

lemma uart_sent_log [simp]:
  "uart_sent (uart_log (TDR_write v) h) = uart_sent h @ [v]"
  by (simp add: uart_sent_def uart_log_def)

lemma uart_sent_io: "uart_io h' = uart_io h \<Longrightarrow> uart_sent h' = uart_sent h"
  by (simp add: uart_sent_def)

lemma uart_sent_fields [simp]:
  "uart_sent (h\<lparr>uart_now := t\<rparr>) = uart_sent h" "uart_sent (h\<lparr>uart_TxXferCount := c\<rparr>) = uart_sent h"
  "uart_sent (h\<lparr>gState := s\<rparr>) = uart_sent h" "uart_sent (h\<lparr>uart_Lock := l\<rparr>) = uart_sent h"
  by (simp_all add: uart_sent_def)

text \<open>A wait changes nothing but the time when it succeeds, and gives up both directions when it times out.\<close>
lemma uart_wait_cases:
  assumes "UART_WaitOnFlagUntilTimeout hw Flag until Timeout h = Some (st, h')"
  obtains (ok) t where "st = HAL_OK" "h' = h\<lparr>uart_now := t\<rparr>" "(hw_SR hw (t - 1) AND Flag = Flag) = until"
    | (timeout) "st = HAL_TIMEOUT" "gState h' = HAL_UART_STATE_READY" "RxState h' = HAL_UART_STATE_READY"
        "uart_Lock h' = HAL_UNLOCKED" "uart_io h' = uart_io h"
proof -
  obtain b t where w: "wait_beyond hw (\<lambda>t. (hw_SR hw t AND Flag = Flag) = until) Timeout (uart_now h) = Some (b, t)"
    using assms by (auto simp: UART_WaitOnFlagUntilTimeout_def bind_eq_Some_conv)
  show thesis
  proof (cases b)
    case True
    then have "(hw_SR hw (t - 1) AND Flag = Flag) = until"
      using w unfolding wait_beyond_def by (auto dest!: poll_success)
    with True show thesis using assms w ok by (auto simp: UART_WaitOnFlagUntilTimeout_def Let_def)
  next
    case False
    then show thesis using assms w timeout
      by (auto simp: UART_WaitOnFlagUntilTimeout_def Let_def uart_DISABLE_IT_def)
  qed
qed

lemma uart_wait_returns:
  assumes "tick_advances hw" "Timeout \<noteq> HAL_MAX_DELAY"
  shows "\<exists>st h'. UART_WaitOnFlagUntilTimeout hw Flag until Timeout h = Some (st, h')"
proof -
  obtain b t where
    "wait_beyond hw (\<lambda>t. (hw_SR hw t AND Flag = Flag) = until) Timeout (uart_now h) = Some (b, t)"
    using wait_beyond_returns [OF assms] by blast
  then show ?thesis by (cases b) (simp_all add: UART_WaitOnFlagUntilTimeout_def Let_def)
qed

text \<open>The transmit loop sends the items in order, all of them when it ends well.\<close>
lemma uart_tx_loop_result:
  assumes "uart_tx_loop n hw Timeout p h = Some (st, h')" "\<not> uart_9bit h"
  shows "\<exists>k. uart_sent h' = uart_sent h @ map ucast (mem_bytes (uart_mem h) p k) \<and>
    (if st = HAL_OK then k = n
     else st = HAL_TIMEOUT \<and> k < n \<and> gState h' = HAL_UART_STATE_READY \<and> RxState h' = HAL_UART_STATE_READY
       \<and> uart_Lock h' = HAL_UNLOCKED)"
  using assms
proof (induction n arbitrary: p h)
  case 0
  then show ?case by simp
next
  case (Suc n)
  let ?h = "h\<lparr>uart_TxXferCount := uart_TxXferCount h - 1\<rparr>"
  obtain st1 h1 where w: "UART_WaitOnFlagUntilTimeout hw UART_FLAG_TXE True Timeout ?h = Some (st1, h1)"
    using Suc.prems(1) by (auto simp: bind_eq_Some_conv)
  from w show ?case
  proof (cases rule: uart_wait_cases)
    case (ok t)
    let ?h1 = "uart_log (TDR_write (uart_item h1 p)) h1"
    have n9: "\<not> uart_9bit ?h1" "\<not> uart_9bit h1" and m: "uart_mem ?h1 = uart_mem h"
      using Suc.prems(2) ok(2) by (simp_all add: uart_9bit_def uart_log_def)
    have "uart_tx_loop n hw Timeout (p + 1) ?h1 = Some (st, h')"
      using Suc.prems(1) w ok(1) n9(2) by (simp add: uart_step_def)
    then obtain k where k: "uart_sent h' = uart_sent ?h1 @ map ucast (mem_bytes (uart_mem ?h1) (p + 1) k)"
      "if st = HAL_OK then k = n
       else st = HAL_TIMEOUT \<and> k < n \<and> gState h' = HAL_UART_STATE_READY \<and> RxState h' = HAL_UART_STATE_READY
         \<and> uart_Lock h' = HAL_UNLOCKED"
      using Suc.IH n9(1) by blast
    have "uart_sent ?h1 = uart_sent h @ [ucast (uart_mem h p)]"
      using n9(2) ok(2) by (simp add: uart_item_def)
    then have "uart_sent h' = uart_sent h @ map ucast (mem_bytes (uart_mem h) p (Suc k))"
      using k(1) m by (simp add: mem_bytes_Suc)
    with k(2) show ?thesis by (intro exI [of _ "Suc k"]) (simp split: if_splits)
  next
    case timeout
    then have "st = HAL_TIMEOUT" "h' = h1" using Suc.prems(1) w by auto
    moreover have "uart_sent h1 = uart_sent h" using timeout(5) by (intro uart_sent_io) simp
    ultimately show ?thesis using timeout by (intro exI [of _ 0]) simp
  qed
qed

lemma uart_tx_loop_returns:
  assumes "tick_advances hw" "Timeout \<noteq> HAL_MAX_DELAY"
  shows "\<exists>st h'. uart_tx_loop n hw Timeout p h = Some (st, h')"
proof (induction n arbitrary: p h)
  case (Suc n)
  obtain st h' where "UART_WaitOnFlagUntilTimeout hw UART_FLAG_TXE True Timeout
      (h\<lparr>uart_TxXferCount := uart_TxXferCount h - 1\<rparr>) = Some (st, h')"
    using uart_wait_returns [OF assms] by blast
  with Suc.IH show ?case by simp
qed simp

text \<open>The division rounds to the nearest divisor.\<close>
lemma rounded_division:
  fixes f b :: nat
  assumes "0 < b"
  shows "2 * \<bar>int ((f + b div 2) div b) * int b - int f\<bar> \<le> int b"
proof -
  let ?q = "(f + b div 2) div b"
  have "?q * b \<le> f + b div 2" by simp
  moreover have "f + b div 2 < Suc ?q * b" using assms by (metis dividend_less_div_times mult_Suc add.commute)
  ultimately have "?q * b \<le> f + b div 2" "f + b div 2 < ?q * b + b" by simp_all
  then have "2 * \<bar>int (?q * b) - int f\<bar> \<le> int b" by presburger
  then show ?thesis by simp
qed

text \<open>What the handler does in the repeated situation of \<open>uart_error_storm\<close> below.\<close>
lemma txe_skips:
  "\<not> uart_GET_IT UART_FLAG_TXE UART_IT_PE" "\<not> uart_GET_IT UART_FLAG_TXE UART_IT_FE"
  "\<not> uart_GET_IT UART_FLAG_TXE UART_IT_NE" "\<not> uart_GET_IT UART_FLAG_TXE UART_IT_ORE"
  "\<not> uart_GET_IT UART_FLAG_TXE UART_IT_WUF" "\<not> uart_GET_IT UART_FLAG_TXE UART_IT_RXNE"
  "\<not> uart_GET_IT UART_FLAG_TXE UART_IT_TC"
  by (simp_all add: uart_GET_IT_def uart_consts)

lemma txe_set: "uart_GET_IT UART_FLAG_TXE UART_IT_TXE"
  by (simp add: uart_GET_IT_def uart_consts)

lemma it_source [simp]:
  "uart_GET_IT_SOURCE h UART_IT_TXE \<longleftrightarrow> uart_CR1 h AND 0x80 \<noteq> 0"
  "uart_GET_IT_SOURCE h UART_IT_PE \<longleftrightarrow> uart_CR1 h AND 0x100 \<noteq> 0"
  by (simp_all add: uart_GET_IT_SOURCE_def uart_it_reg_def uart_it_bit_def uart_consts)

text \<open>The checks of the handler that do not fire only take time.\<close>
lemma uart_check_skip:
  "\<not> uart_GET_IT (hw_SR hw (uart_now h)) it \<Longrightarrow> uart_check hw it src f h = h\<lparr>uart_now := Suc (uart_now h)\<rparr>"
  by (simp add: uart_check_def)

lemma irq_txe_not_busy:
  assumes "\<And>t. uart_now h \<le> t \<Longrightarrow> hw_SR hw t = UART_FLAG_TXE"
    and "gState h \<noteq> HAL_UART_STATE_BUSY_TX" "uart_ErrorCode h \<noteq> 0"
  shows "HAL_UART_IRQHandler hw h = uart_callback UART_ErrorCallback
    (h\<lparr>uart_now := uart_now h + 8, gState := HAL_UART_STATE_READY, RxState := HAL_UART_STATE_READY\<rparr>)"
proof -
  have "uart_check hw UART_IT_TXE UART_IT_TXE (\<lambda>h. snd (UART_Transmit_IT h)) (h\<lparr>uart_now := t\<rparr>)
      = h\<lparr>uart_now := Suc t\<rparr>" for t
    using assms(2) by (simp add: uart_check_def UART_Transmit_IT_def Let_def)
  then show ?thesis
    using assms(1,3) by (simp add: HAL_UART_IRQHandler_def Let_def uart_check_skip txe_skips HAL_UART_ERROR_NONE_def)
      (simp add: numeral_eq_Suc)
qed

lemma or_error_nonzero: "e OR HAL_UART_ERROR_PE \<noteq> 0" for e :: u32
proof
  assume "e OR HAL_UART_ERROR_PE = 0"
  then have "bit (e OR HAL_UART_ERROR_PE) 0 = bit (0 :: u32) 0" by simp
  then show False by (simp add: bit_simps HAL_UART_ERROR_PE_def)
qed

lemma irq_pe_while_sending:
  assumes "uart_GET_IT (hw_SR hw (uart_now h)) UART_IT_PE" "uart_GET_IT_SOURCE h UART_IT_PE"
    and "\<And>t. uart_now h < t \<Longrightarrow> hw_SR hw t = UART_FLAG_TXE" "uart_GET_IT_SOURCE h UART_IT_TXE"
    and "gState h = HAL_UART_STATE_BUSY_TX" "uart_TxXferCount h \<noteq> 0"
  shows "gState (HAL_UART_IRQHandler hw h) = HAL_UART_STATE_READY" "uart_ErrorCode (HAL_UART_IRQHandler hw h) \<noteq> 0"
    "uart_GET_IT_SOURCE (HAL_UART_IRQHandler hw h) UART_IT_TXE" "uart_now (HAL_UART_IRQHandler hw h) = uart_now h + 8"
proof -
  let ?h1 = "uart_error UART_CLEAR_PEF HAL_UART_ERROR_PE (h\<lparr>uart_now := Suc (uart_now h)\<rparr>)"
  have pe: "uart_check hw UART_IT_PE UART_IT_PE (uart_error UART_CLEAR_PEF HAL_UART_ERROR_PE) h = ?h1"
    using assms(1,2) by (simp add: uart_check_def Let_def)
  have n: "uart_now ?h1 = Suc (uart_now h)" by (simp add: uart_error_def uart_log_def)
  have tx: "uart_check hw UART_IT_TXE UART_IT_TXE (\<lambda>h. snd (UART_Transmit_IT h)) (?h1\<lparr>uart_now := t\<rparr>)
      = (uart_log (TDR_write (uart_item ?h1 (uart_pTxBuffPtr h))) ?h1)\<lparr>uart_now := Suc t,
          uart_pTxBuffPtr := uart_pTxBuffPtr h + uart_step ?h1, uart_TxXferCount := uart_TxXferCount h - 1\<rparr>"
    if "uart_now h < t" for t
    using assms(3) [OF that] assms(4-6)
    by (simp add: uart_check_def UART_Transmit_IT_def Let_def uart_error_def uart_log_def
        uart_item_def uart_9bit_def uart_step_def txe_set)
  have "HAL_UART_IRQHandler hw h = uart_callback UART_ErrorCallback
    ((uart_log (TDR_write (uart_item ?h1 (uart_pTxBuffPtr h))) ?h1)\<lparr>uart_pTxBuffPtr := uart_pTxBuffPtr h + uart_step ?h1,
          uart_TxXferCount := uart_TxXferCount h - 1, uart_now := uart_now h + 8,
          gState := HAL_UART_STATE_READY, RxState := HAL_UART_STATE_READY\<rparr>)"
    by (simp add: HAL_UART_IRQHandler_def pe n)
      (simp add: Let_def uart_check_skip txe_skips assms(3) n tx, simp add: uart_error_def uart_log_def
        or_error_nonzero HAL_UART_ERROR_NONE_def, simp add: numeral_eq_Suc)
  then show "gState (HAL_UART_IRQHandler hw h) = HAL_UART_STATE_READY"
    "uart_ErrorCode (HAL_UART_IRQHandler hw h) \<noteq> 0"
    "uart_GET_IT_SOURCE (HAL_UART_IRQHandler hw h) UART_IT_TXE" "uart_now (HAL_UART_IRQHandler hw h) = uart_now h + 8"
    using assms(4) by (simp_all add: uart_callback_def uart_log_def uart_error_def or_error_nonzero)
qed

section \<open>Properties\<close>

text \<open>The baud rate register holds the quotient of the clock and the baud rate, rounded to nearest, cut to its
  16 bits; within the range of the register the rate is off by at most half a baud interval of the clock, and the
  rate is silently wrong beyond it.\<close>
lemma uart_baud_rate:
  assumes "uart_clock rhw r (UART_GETCLOCKSOURCE r (uart_Instance h)) = Some f"
    and "OverSampling (uart_Init h) = UART_OVERSAMPLING_16"
    and "b = unat (BaudRate (uart_Init h))" "0 < b" "unat f + b div 2 < 2 ^ 32"
    and "UART_SetConfig rhw r h = (st, h')"
  shows "st = HAL_OK \<and> unat (uart_BRR h') = ((unat f + b div 2) div b) mod 2 ^ 16
    \<and> (unat f + b div 2 < 2 ^ 16 * b \<longrightarrow> 2 * \<bar>int (unat (uart_BRR h')) * int b - int (unat f)\<bar> \<le> int b)"
proof -
  let ?d = "UART_DIV_SAMPLING16 f (BaudRate (uart_Init h))"
  have d: "unat ?d = (unat f + b div 2) div b"
    using assms(3,5) by (simp add: UART_DIV_SAMPLING16_def unat_div_distrib unat_word_ariths)
  have r: "st = HAL_OK" "uart_BRR h' = ucast (ucast ?d :: u16)"
    using assms(1,2,6) by (auto simp: UART_SetConfig_def Let_def uart_consts)
  have m: "unat (uart_BRR h') = ((unat f + b div 2) div b) mod 2 ^ 16"
    by (simp add: r(2) d [symmetric] unsigned_ucast_eq take_bit_eq_mod unat_mod_distrib)
  have "2 * \<bar>int (unat (uart_BRR h')) * int b - int (unat f)\<bar> \<le> int b" if "unat f + b div 2 < 2 ^ 16 * b"
  proof -
    have "(unat f + b div 2) div b < 2 ^ 16" using that assms(4) by (simp add: less_mult_imp_div_less)
    then have "unat (uart_BRR h') = (unat f + b div 2) div b" using m by simp
    then show ?thesis using rounded_division [OF assms(4), of "unat f"] by simp
  qed
  with r(1) m show ?thesis by blast
qed

definition ex_uart :: uart where
  "ex_uart = \<lparr>uart_Instance = USART1, uart_CR1 = 0, uart_CR2 = 0, uart_CR3 = 0, uart_BRR = 0,
     uart_Init = \<lparr>BaudRate = 115200, WordLength = 0, StopBits = 0, Parity = 0, ui_Mode = 0xC, HwFlowCtl = 0,
       OverSampling = 0, OneBitSampling = 0\<rparr>,
     AdvancedInit = \<lparr>AdvFeatureInit = 0, TxPinLevelInvert = 0, RxPinLevelInvert = 0, DataInvert = 0, Swap = 0,
       OverrunDisable = 0, DMADisableonRxError = 0, AutoBaudRateEnable = 0, AutoBaudRateMode = 0, MSBFirst = 0\<rparr>,
     uart_pTxBuffPtr = 0, uart_TxXferSize = 0, uart_TxXferCount = 0, uart_pRxBuffPtr = 0, uart_RxXferSize = 0,
     uart_RxXferCount = 0, uart_Mask = 0, uart_Lock = HAL_UNLOCKED, gState = HAL_UART_STATE_READY,
     RxState = HAL_UART_STATE_READY, uart_ErrorCode = 0, uart_mem = (\<lambda>_. 69), uart_now = 0, uart_io = [], uart_cb = []\<rparr>"

text \<open>A clock tree in which the PLL drives the system at 72 MHz and the UART runs from the system clock.\<close>
definition ex_rcc :: rcc where
  "ex_rcc = \<lparr>rcc_CR = 0, rcc_CFGR = 0x110400, rcc_CFGR2 = 0, rcc_CFGR3 = 1, rcc_CIR = 0, rcc_BDCR = 0, rcc_CSR = 0,
     rcc_AHBENR = 0, rcc_APB1ENR = 0, rcc_APB2ENR = 0, pwr_CR = 0, flash_ACR = 0, SystemCoreClock = 72000000, rcc_core = ex_core, rcc_now = 0\<rparr>"

definition ex_rcc_hw :: rcc_hw where
  "ex_rcc_hw = \<lparr>rh_base = ticking_hw 0, rh_ready = (\<lambda>_ _. True), rh_SWS = (\<lambda>_. RCC_SYSCLKSOURCE_STATUS_PLLCLK),
     rh_DBP = (\<lambda>_. True), rh_ACR = (\<lambda>_ v. v)\<rparr>"

lemma ex_uart_clock: "uart_clock ex_rcc_hw ex_rcc (UART_GETCLOCKSOURCE ex_rcc USART1) = Some 72000000"
  by (simp add: ex_rcc_hw_def ex_rcc_def uart_clock_def UART_GETCLOCKSOURCE_def uart_consts rcc_consts periph_consts
      HAL_RCC_GetSysClockFreq_def rcc_pll_mul_code_def rcc_prediv_code_def aPLLMULFactorTable_def
      aPredivFactorTable_def)

lemma uart_baud_rate_witness: "unat (uart_BRR (snd (UART_SetConfig ex_rcc_hw ex_rcc ex_uart))) = 625"
proof -
  have "unat (uart_BRR (snd (UART_SetConfig ex_rcc_hw ex_rcc ex_uart))) = ((72000000 + 115200 div 2) div 115200) mod 2 ^ 16"
    using uart_baud_rate [of ex_rcc_hw ex_rcc ex_uart 72000000 115200 "fst (UART_SetConfig ex_rcc_hw ex_rcc ex_uart)"
        "snd (UART_SetConfig ex_rcc_hw ex_rcc ex_uart)"] ex_uart_clock
    by (simp add: ex_uart_def uart_consts)
  then show ?thesis by simp
qed

text \<open>A blocking transmission of bytes with a finite time-out returns when the tick runs; it reports success
  when all bytes were written to the data register in order, and otherwise a time-out after a prefix of them, and
  in both cases the driver is ready and unlocked again.\<close>
lemma uart_blocking_transmit:
  assumes "tick_advances hw" "Timeout \<noteq> HAL_MAX_DELAY" "\<not> uart_9bit h"
    and "gState h = HAL_UART_STATE_READY" "uart_Lock h = HAL_UNLOCKED" "pData \<noteq> NULL" "Size \<noteq> 0"
  shows "\<exists>st h' k. HAL_UART_Transmit hw pData Size Timeout h = Some (st, h')
    \<and> uart_sent h' = uart_sent h @ map ucast (mem_bytes (uart_mem h) pData k)
    \<and> (st = HAL_OK \<and> k = unat Size \<or> st = HAL_TIMEOUT \<and> k \<le> unat Size)
    \<and> gState h' = HAL_UART_STATE_READY \<and> uart_Lock h' = HAL_UNLOCKED"
proof -
  let ?h = "h\<lparr>uart_Lock := HAL_LOCKED, uart_ErrorCode := HAL_UART_ERROR_NONE, gState := HAL_UART_STATE_BUSY_TX,
             uart_TxXferSize := Size, uart_TxXferCount := Size\<rparr>"
  have n9: "\<not> uart_9bit ?h" using assms(3) by (simp add: uart_9bit_def)
  have s: "uart_sent ?h = uart_sent h" by (intro uart_sent_io) simp
  obtain st1 h1 where l: "uart_tx_loop (unat Size) hw Timeout pData ?h = Some (st1, h1)"
    using uart_tx_loop_returns [OF assms(1,2)] by blast
  obtain st2 h2 where w: "UART_WaitOnFlagUntilTimeout hw UART_FLAG_TC True Timeout h1 = Some (st2, h2)"
    using uart_wait_returns [OF assms(1,2)] by blast
  have t: "HAL_UART_Transmit hw pData Size Timeout h =
    (if st1 \<noteq> HAL_OK then Some (HAL_TIMEOUT, h1)
     else Some (if st2 \<noteq> HAL_OK then (HAL_TIMEOUT, h2)
                else (HAL_OK, h2\<lparr>gState := HAL_UART_STATE_READY, uart_Lock := HAL_UNLOCKED\<rparr>)))"
    using assms(4-7) l w by (simp add: HAL_UART_Transmit_def)
  from uart_tx_loop_result [OF l n9] obtain k where
    k: "uart_sent h1 = uart_sent ?h @ map ucast (mem_bytes (uart_mem ?h) pData k)"
      "if st1 = HAL_OK then k = unat Size else st1 = HAL_TIMEOUT \<and> k < unat Size \<and> gState h1 = HAL_UART_STATE_READY
         \<and> RxState h1 = HAL_UART_STATE_READY \<and> uart_Lock h1 = HAL_UNLOCKED" by blast
  show ?thesis
  proof (cases "st1 = HAL_OK")
    case False
    then show ?thesis using t k s by (intro exI [of _ HAL_TIMEOUT] exI [of _ h1] exI [of _ k]) simp
  next
    case ok: True
    from w show ?thesis
    proof (cases rule: uart_wait_cases)
      case (ok t1)
      then show ?thesis using t k s \<open>st1 = HAL_OK\<close>
        by (intro exI [of _ HAL_OK] exI [of _ "h2\<lparr>gState := HAL_UART_STATE_READY, uart_Lock := HAL_UNLOCKED\<rparr>"]
            exI [of _ k]) simp
    next
      case timeout
      have "uart_sent h2 = uart_sent h1" using timeout(5) by (rule uart_sent_io)
      then show ?thesis using t k s timeout \<open>st1 = HAL_OK\<close>
        by (intro exI [of _ HAL_TIMEOUT] exI [of _ h2] exI [of _ k]) simp
    qed
  qed
qed

lemma uart_blocking_transmit_witness:
  "\<exists>st h'. HAL_UART_Transmit (ticking_hw 0xC0) 0x100 1 0xFFFF ex_uart = Some (st, h')
    \<and> gState h' = HAL_UART_STATE_READY"
  using uart_blocking_transmit [of "ticking_hw 0xC0" "0xFFFF" ex_uart "0x100" 1] ticking_hw_advances
  by (force simp: ex_uart_def uart_9bit_def uart_consts HAL_MAX_DELAY_def NULL_def)


definition ex_uart_sending :: uart where
  "ex_uart_sending = ex_uart\<lparr>uart_CR1 := 0x18D, gState := HAL_UART_STATE_BUSY_TX, uart_TxXferCount := 5\<rparr>"

definition ex_hw_pe :: hw where
  "ex_hw_pe = \<lparr>hw_tick = of_nat, hw_SR = (\<lambda>t. if t = 0 then 1 else UART_FLAG_TXE), hw_DR = (\<lambda>_. 0)\<rparr>"


end
