(* ===== verification/Queues.thy ===== *)
theory Queues
  imports Main
begin

text \<open>
  The contracts of the two ring buffers on the path of a frame.  \<open>fifo\<close> is what a client of a
  bounded buffer relies on while there is room: elements come out in the order in which they went
  in.  \<open>elem\<close> says which elements a client may write.  \<open>reserve\<close> is the number of elements the reader never gets to see as long as nothing newer
  arrives (0 for the firmware's frame buffer, 1 for the driver's cycle buffer).  \<open>drop_oldest\<close>
  extends it with the behaviour of a full buffer that evicts its oldest element.
\<close>

locale fifo =
  fixes enq :: "'a \<Rightarrow> 'q \<Rightarrow> 'q" and deq :: "'q \<Rightarrow> 'q" and first :: "'q \<Rightarrow> 'a"
    and queue :: "'q \<Rightarrow> 'a list" and ready :: "'q \<Rightarrow> bool" and invar :: "'q \<Rightarrow> bool"
    and elem :: "'a \<Rightarrow> bool" and reserve :: nat and cap :: nat
  assumes cap_pos: "0 < cap"
    and queue_cap: "invar q \<Longrightarrow> length (queue q) \<le> cap"
    and ready_iff: "invar q \<Longrightarrow> ready q \<longleftrightarrow> reserve < length (queue q)"
    and enq_room: "invar q \<Longrightarrow> elem x \<Longrightarrow> length (queue q) < cap \<Longrightarrow> queue (enq x q) = queue q @ [x]"
    and invar_enq_room: "invar q \<Longrightarrow> elem x \<Longrightarrow> length (queue q) < cap \<Longrightarrow> invar (enq x q)"
    and queue_deq: "invar q \<Longrightarrow> ready q \<Longrightarrow> queue q = first q # queue (deq q)"
    and invar_deq: "invar q \<Longrightarrow> ready q \<Longrightarrow> invar (deq q)"
begin

text \<open>Writes that fit are appended.\<close>
lemma enqs_room:
  assumes "invar q" "\<forall>x \<in> set xs. elem x" "length (queue q) + length xs \<le> cap"
  shows "queue (fold enq xs q) = queue q @ xs \<and> invar (fold enq xs q)"
  using assms
  by (induction xs arbitrary: q) (simp_all add: enq_room invar_enq_room)

text \<open>Draining returns the oldest elements in order and removes exactly them.\<close>
lemma drain:
  assumes "invar q" "n + reserve \<le> length (queue q)"
  shows "map (\<lambda>i. first ((deq ^^ i) q)) [0..<n] = take n (queue q)
    \<and> queue ((deq ^^ n) q) = drop n (queue q) \<and> invar ((deq ^^ n) q)"
  using assms(2)
proof (induction n)
  case 0
  then show ?case using assms(1) by simp
next
  case (Suc n)
  let ?q = "(deq ^^ n) q"
  have IH: "map (\<lambda>i. first ((deq ^^ i) q)) [0..<n] = take n (queue q)"
    "queue ?q = drop n (queue q)" "invar ?q"
    using Suc by simp_all
  have "ready ?q"
    using Suc.prems IH by (simp add: ready_iff)
  then have split: "drop n (queue q) = first ?q # queue (deq ?q)" and inv: "invar (deq ?q)"
    using IH by (simp_all flip: queue_deq add: invar_deq)
  have "n < length (queue q)" using Suc.prems by simp
  then show ?case
    using IH(1) split inv nth_via_drop [OF split]
    by (simp add: take_Suc_conv_app_nth drop_Suc tl_drop [symmetric])
qed

text \<open>What is written into a buffer with enough room is what is read back.\<close>
lemma write_then_read:
  assumes "invar q" "queue q = []" "reserve = 0" "\<forall>x \<in> set xs. elem x" "length xs \<le> cap"
  shows "map (\<lambda>i. first ((deq ^^ i) (fold enq xs q))) [0..<length xs] = xs"
  using enqs_room [OF assms(1,4)] drain [of "fold enq xs q" "length xs"] assms by simp

end

locale drop_oldest = fifo +
  assumes enq_full: "invar q \<Longrightarrow> elem x \<Longrightarrow> length (queue q) = cap \<Longrightarrow> queue (enq x q) = tl (queue q) @ [x]"
    and invar_enq_full: "invar q \<Longrightarrow> elem x \<Longrightarrow> length (queue q) = cap \<Longrightarrow> invar (enq x q)"
begin

lemma queue_enq:
  "invar q \<Longrightarrow> elem x \<Longrightarrow> queue (enq x q) = (if length (queue q) = cap then tl (queue q) else queue q) @ [x]"
  using enq_room [of q x] enq_full [of q x] queue_cap [of q] by simp

lemma invar_enq: "invar q \<Longrightarrow> elem x \<Longrightarrow> invar (enq x q)"
  using invar_enq_room [of q x] invar_enq_full [of q x] queue_cap [of q] by fastforce

lemma invar_enqs: "invar q \<Longrightarrow> \<forall>x \<in> set xs. elem x \<Longrightarrow> invar (fold enq xs q)"
  by (induction xs arbitrary: q) (simp_all add: invar_enq)

text \<open>A burst of writes keeps the newest \<open>cap\<close> elements.\<close>
lemma queue_enqs:
  assumes "invar q" "\<forall>x \<in> set xs. elem x"
  shows "queue (fold enq xs q) = drop (length (queue q) + length xs - cap) (queue q @ xs)"
  using assms
proof (induction xs arbitrary: q)
  case Nil
  then show ?case using queue_cap by simp
next
  case (Cons x xs)
  have "queue (fold enq (x # xs) q)
      = drop (length (queue (enq x q)) + length xs - cap) (queue (enq x q) @ xs)"
    using Cons invar_enq by simp
  also have "\<dots> = drop (length (queue q) + length (x # xs) - cap) (queue q @ x # xs)"
  proof (cases "length (queue q) = cap")
    case True
    then obtain y ys where "queue q = y # ys" using cap_pos by (cases "queue q") auto
    then show ?thesis using True Cons.prems by (simp add: queue_enq Suc_diff_le)
  next
    case False
    then show ?thesis using Cons.prems queue_cap [of q] by (simp add: queue_enq)
  qed
  finally show ?case .
qed

text \<open>After a burst, the reader gets the newest elements, oldest first.\<close>
lemma burst_then_drain:
  assumes "invar q" "\<forall>x \<in> set xs. elem x" "n + reserve \<le> min (length (queue q) + length xs) cap"
  shows "map (\<lambda>i. first ((deq ^^ i) (fold enq xs q))) [0..<n]
       = take n (drop (length (queue q) + length xs - cap) (queue q @ xs))"
proof -
  have "length (queue (fold enq xs q)) = min (length (queue q) + length xs) cap"
    using queue_enqs [OF assms(1,2)] by (simp del: drop_append)
  with assms(3) have "n + reserve \<le> length (queue (fold enq xs q))" by simp
  then show ?thesis
    using drain [OF invar_enqs [OF assms(1,2)], of n] queue_enqs [OF assms(1,2)]
    by (simp del: drop_append)
qed

end

end
