(* ===== verification/Frame_Buffer.thy ===== *)
theory Frame_Buffer
  imports Queues Prelude
begin

text \<open>
  The firmware's frame buffer (\<^verbatim>\<open>runtime_config.h\<close>, \<^verbatim>\<open>runtime_config.c\<close>) and the code that works on
  it (\<^verbatim>\<open>opq.c\<close>): the conversion-complete callback that stores samples and closes frames, the GPS
  capture callback, and the main loop that hands closed frames to the SPI driver.  Out-of-range
  accesses are \<open>None\<close>.  The callbacks are given statement by statement, so that the relation
  \<open>fstep\<close> can let the interrupts pre-empt each other and the main loop the way their priorities
  allow: TIM4 (priority 0) anywhere, the SDADC callback (priority 1) anywhere in the main loop.
\<close>

section \<open>Data\<close>

definition FRAME_BUFFER_SIZE :: nat where "FRAME_BUFFER_SIZE = 4"
definition FRAME_DATA_COUNT :: nat where "FRAME_DATA_COUNT = 200"
definition OPQ_GPS_THIS_FRAME :: u32 where "OPQ_GPS_THIS_FRAME = 1"

lemmas fb_consts = FRAME_BUFFER_SIZE_def FRAME_DATA_COUNT_def OPQ_GPS_THIS_FRAME_def

record OPQ_Frame =
  fdata :: "u16 list"
  last_gps_counter :: u16
  current_counter :: u16
  flags :: u32

record OPQ_Frame_Buffer =
  frames :: "OPQ_Frame list"
  head :: u8
  tail :: u8
  currentSample :: u8
  gps_pulse_flag :: u8
  gps_last_counter :: u16

text \<open>\<^verbatim>\<open>init_OPQ_RunTime\<close>.\<close>
definition init_OPQ_RunTime :: "OPQ_Frame_Buffer \<Rightarrow> OPQ_Frame_Buffer" where
  "init_OPQ_RunTime b = b\<lparr>head := 0, tail := 0, currentSample := 0\<rparr>"

text \<open>\<^verbatim>\<open>i++; if (i >= FRAME_BUFFER_SIZE) i = 0;\<close> on \<^verbatim>\<open>uint8_t\<close>.\<close>
definition fb_next :: "u8 \<Rightarrow> u8" where
  "fb_next i = (let j = i + 1 in if j \<ge> 4 then 0 else j)"

text \<open>A change of the frame at \<^verbatim>\<open>head\<close>.\<close>
definition fb_at_head :: "(OPQ_Frame \<Rightarrow> OPQ_Frame) \<Rightarrow> OPQ_Frame_Buffer \<Rightarrow> OPQ_Frame_Buffer option" where
  "fb_at_head f b =
     (let i = unat (head b)
      in if i < length (frames b) then Some (b\<lparr>frames := (frames b)[i := f (frames b ! i)]\<rparr>) else None)"

section \<open>The conversion-complete callback\<close>

text \<open>\<^verbatim>\<open>frames[head].data[currentSample] = InjConvValue; currentSample++;\<close>\<close>
definition cb_store :: "u16 \<Rightarrow> OPQ_Frame_Buffer \<Rightarrow> OPQ_Frame_Buffer option" where
  "cb_store v b =
     (if unat (currentSample b) < FRAME_DATA_COUNT
      then do { b1 \<leftarrow> fb_at_head (\<lambda>f. f\<lparr>fdata := (fdata f)[unat (currentSample b) := v]\<rparr>) b;
                Some (b1\<lparr>currentSample := currentSample b1 + 1\<rparr>) }
      else None)"

definition cb_full :: "OPQ_Frame_Buffer \<Rightarrow> bool" where
  "cb_full b \<longleftrightarrow> currentSample b \<ge> 200"

definition cb_gps :: "OPQ_Frame_Buffer \<Rightarrow> OPQ_Frame_Buffer option" where
  "cb_gps b = fb_at_head (\<lambda>f. f\<lparr>last_gps_counter := gps_last_counter b\<rparr>) b"

text \<open>\<open>cnt\<close> is the counter register of TIM4, cut to 16 bits by the assignment.\<close>
definition cb_count :: "u32 \<Rightarrow> OPQ_Frame_Buffer \<Rightarrow> OPQ_Frame_Buffer option" where
  "cb_count cnt b = fb_at_head (\<lambda>f. f\<lparr>current_counter := ucast cnt\<rparr>) b"

definition cb_clear :: "OPQ_Frame_Buffer \<Rightarrow> OPQ_Frame_Buffer option" where
  "cb_clear b = fb_at_head (\<lambda>f. f\<lparr>flags := 0\<rparr>) b"

definition cb_flag :: "OPQ_Frame_Buffer \<Rightarrow> OPQ_Frame_Buffer option" where
  "cb_flag b =
     (if gps_pulse_flag b \<noteq> 0
      then fb_at_head (\<lambda>f. f\<lparr>flags := OPQ_GPS_THIS_FRAME\<rparr>) (b\<lparr>gps_pulse_flag := 0\<rparr>)
      else Some b)"

definition cb_close :: "OPQ_Frame_Buffer \<Rightarrow> OPQ_Frame_Buffer" where
  "cb_close b = b\<lparr>currentSample := 0, head := fb_next (head b)\<rparr>"

text \<open>The whole callback, run without a GPS capture in between: \<open>v\<close> is the converted value.\<close>
definition HAL_SDADC_InjectedConvCpltCallback ::
  "u32 \<Rightarrow> u16 \<Rightarrow> OPQ_Frame_Buffer \<Rightarrow> OPQ_Frame_Buffer option" where
  "HAL_SDADC_InjectedConvCpltCallback cnt v b =
     do { b1 \<leftarrow> cb_store v b;
          if cb_full b1
          then do { b2 \<leftarrow> cb_gps b1; b3 \<leftarrow> cb_count cnt b2; b4 \<leftarrow> cb_clear b3; b5 \<leftarrow> cb_flag b4;
                    Some (cb_close b5) }
          else Some b1 }"

text \<open>The capture callback: \<open>captured\<close> is the capture register.\<close>
definition HAL_TIM_IC_CaptureCallback :: "u32 \<Rightarrow> OPQ_Frame_Buffer \<Rightarrow> OPQ_Frame_Buffer" where
  "HAL_TIM_IC_CaptureCallback captured b = b\<lparr>gps_pulse_flag := 1, gps_last_counter := ucast captured\<rparr>"

section \<open>The main loop\<close>

text \<open>The buffer as the main loop sees it: is there a frame to send, the frame at \<^verbatim>\<open>tail\<close>, and the advance of
  \<^verbatim>\<open>tail\<close>.\<close>
definition fb_nonempty :: "OPQ_Frame_Buffer \<Rightarrow> bool" where
  "fb_nonempty b \<longleftrightarrow> head b \<noteq> tail b"

definition fb_first :: "OPQ_Frame_Buffer \<Rightarrow> OPQ_Frame" where
  "fb_first b = frames b ! unat (tail b)"

definition fb_pop :: "OPQ_Frame_Buffer \<Rightarrow> OPQ_Frame_Buffer" where
  "fb_pop b = b\<lparr>tail := fb_next (tail b)\<rparr>"

section \<open>The bytes of a frame\<close>

text \<open>The layout of \<^verbatim>\<open>OPQ_Frame\<close> in memory: no padding, little-endian.\<close>
definition frame_bytes :: "OPQ_Frame \<Rightarrow> u8 list" where
  "frame_bytes f = concat (map bytes16 (fdata f)) @ bytes16 (last_gps_counter f)
     @ bytes16 (current_counter f) @ bytes32 (flags f)"

definition sizeof_OPQ_Frame :: nat where "sizeof_OPQ_Frame = 408"

text \<open>Reading the structure back from its bytes.\<close>
fun read16 :: "u8 list \<Rightarrow> u16" where
  "read16 (a # b # _) = ucast a OR push_bit 8 (ucast b)"
| "read16 _ = 0"

fun read32 :: "u8 list \<Rightarrow> u32" where
  "read32 (a # b # c # d # _) =
     ucast a OR push_bit 8 (ucast b) OR push_bit 16 (ucast c) OR push_bit 24 (ucast d)"
| "read32 _ = 0"

definition frame_of_bytes :: "u8 list \<Rightarrow> OPQ_Frame" where
  "frame_of_bytes bs =
     \<lparr>fdata = map (\<lambda>i. read16 (drop (2 * i) bs)) [0..<FRAME_DATA_COUNT],
      last_gps_counter = read16 (drop (2 * FRAME_DATA_COUNT) bs),
      current_counter = read16 (drop (2 * FRAME_DATA_COUNT + 2) bs),
      flags = read32 (drop (2 * FRAME_DATA_COUNT + 4) bs)\<rparr>"

section \<open>Interleavings\<close>

text \<open>Program points of the conversion-complete callback and of the main loop.\<close>
datatype isr_pc = I_idle | I_gps | I_count | I_clear | I_flag | I_close
datatype main_pc = M_check | M_send | M_tail | M_pin

text \<open>
  The firmware at run time.  \<open>spi_ready\<close>: \<^verbatim>\<open>HAL_SPI_GetState\<close> returns \<^verbatim>\<open>HAL_SPI_STATE_READY\<close>;
  \<open>sending\<close>: the slot whose bytes the SPI interrupt is reading; \<open>pa0\<close>: the data-ready pin.  History:
  \<open>completed\<close> the frames closed so far, \<open>sent\<close> the frames handed to the SPI driver as they were at
  that moment, \<open>overruns\<close> how often a frame was closed into a full buffer, \<open>torn\<close> whether a sample
  was stored into the slot being sent.
\<close>
record fw =
  fbuf :: OPQ_Frame_Buffer
  isr :: isr_pc
  mpc :: main_pc
  spi_ready :: bool
  sending :: "nat option"
  pa0 :: bool
  completed :: "OPQ_Frame list"
  sent :: "OPQ_Frame list"
  overruns :: nat
  torn :: bool

definition fw_init :: "OPQ_Frame_Buffer \<Rightarrow> fw" where
  "fw_init b = \<lparr>fbuf = init_OPQ_RunTime b, isr = I_idle, mpc = M_check, spi_ready = True,
     sending = None, pa0 = False, completed = [], sent = [], overruns = 0, torn = False\<rparr>"

inductive fstep :: "fw \<Rightarrow> fw \<Rightarrow> bool" where
  sample: "isr s = I_idle \<Longrightarrow> cb_store v (fbuf s) = Some b \<Longrightarrow>
     fstep s (s\<lparr>fbuf := b, isr := (if cb_full b then I_gps else I_idle),
       torn := (torn s \<or> sending s = Some (unat (head (fbuf s))))\<rparr>)"
| gps: "isr s = I_gps \<Longrightarrow> cb_gps (fbuf s) = Some b \<Longrightarrow> fstep s (s\<lparr>fbuf := b, isr := I_count\<rparr>)"
| count: "isr s = I_count \<Longrightarrow> cb_count cnt (fbuf s) = Some b \<Longrightarrow> fstep s (s\<lparr>fbuf := b, isr := I_clear\<rparr>)"
| clear: "isr s = I_clear \<Longrightarrow> cb_clear (fbuf s) = Some b \<Longrightarrow> fstep s (s\<lparr>fbuf := b, isr := I_flag\<rparr>)"
| flag: "isr s = I_flag \<Longrightarrow> cb_flag (fbuf s) = Some b \<Longrightarrow> fstep s (s\<lparr>fbuf := b, isr := I_close\<rparr>)"
| close: "isr s = I_close \<Longrightarrow>
     fstep s (s\<lparr>fbuf := cb_close (fbuf s), isr := I_idle,
       completed := completed s @ [frames (fbuf s) ! unat (head (fbuf s))],
       overruns := overruns s + (if fb_next (head (fbuf s)) = tail (fbuf s) then 1 else 0)\<rparr>)"
| capture: "fstep s (s\<lparr>fbuf := HAL_TIM_IC_CaptureCallback c (fbuf s)\<rparr>)"
| m_check: "isr s = I_idle \<Longrightarrow> mpc s = M_check \<Longrightarrow> spi_ready s \<Longrightarrow> fb_nonempty (fbuf s) \<Longrightarrow>
     fstep s (s\<lparr>mpc := M_send\<rparr>)"
| m_send: "isr s = I_idle \<Longrightarrow> mpc s = M_send \<Longrightarrow>
     fstep s (s\<lparr>mpc := M_tail, spi_ready := False, sending := Some (unat (tail (fbuf s))),
       sent := sent s @ [fb_first (fbuf s)]\<rparr>)"
| m_tail: "isr s = I_idle \<Longrightarrow> mpc s = M_tail \<Longrightarrow> fstep s (s\<lparr>mpc := M_pin, fbuf := fb_pop (fbuf s)\<rparr>)"
| m_pin: "isr s = I_idle \<Longrightarrow> mpc s = M_pin \<Longrightarrow> fstep s (s\<lparr>mpc := M_check, pa0 := True\<rparr>)"
| spi_half: "sending s \<noteq> None \<Longrightarrow> pa0 s \<Longrightarrow> fstep s (s\<lparr>pa0 := False\<rparr>)"
| spi_done: "sending s \<noteq> None \<Longrightarrow> fstep s (s\<lparr>sending := None, spi_ready := True\<rparr>)"

inductive freach :: "OPQ_Frame_Buffer \<Rightarrow> fw \<Rightarrow> bool" for b where
  start: "freach b (fw_init b)"
| step: "freach b s \<Longrightarrow> fstep s t \<Longrightarrow> freach b t"

section \<open>Well-formedness\<close>

definition fb_shape :: "OPQ_Frame_Buffer \<Rightarrow> bool" where
  "fb_shape b \<longleftrightarrow> length (frames b) = FRAME_BUFFER_SIZE
     \<and> (\<forall>f \<in> set (frames b). length (fdata f) = FRAME_DATA_COUNT)
     \<and> unat (head b) < FRAME_BUFFER_SIZE \<and> unat (tail b) < FRAME_BUFFER_SIZE"

definition fb_ok :: "OPQ_Frame_Buffer \<Rightarrow> bool" where
  "fb_ok b \<longleftrightarrow> fb_shape b \<and> unat (currentSample b) < FRAME_DATA_COUNT"

text \<open>The closed frames not yet taken by the main loop, oldest first.\<close>
definition fb_queue :: "OPQ_Frame_Buffer \<Rightarrow> OPQ_Frame list" where
  "fb_queue b = ring_list FRAME_BUFFER_SIZE (frames b) (unat (tail b)) (unat (head b))"

lemma u8_small: "unat i < 4 \<Longrightarrow> i = 0 \<or> i = 1 \<or> i = 2 \<or> i = 3" for i :: u8
proof -
  assume "unat i < 4"
  then have "unat i = 0 \<or> unat i = 1 \<or> unat i = 2 \<or> unat i = 3" by auto
  then show ?thesis by (auto simp: word_unat_eq_iff)
qed

lemma fb_next_unat: "unat i < FRAME_BUFFER_SIZE \<Longrightarrow> unat (fb_next i) = ring_next FRAME_BUFFER_SIZE (unat i)"
  using u8_small [of i] by (auto simp: fb_consts fb_next_def ring_next_def Let_def word_le_nat_alt)

lemma fb_next_less [simp]: "unat i < FRAME_BUFFER_SIZE \<Longrightarrow> unat (fb_next i) < FRAME_BUFFER_SIZE"
  by (simp add: fb_next_unat ring_next_less fb_consts)

lemma fb_shape_frame: "fb_shape b \<Longrightarrow> i < FRAME_BUFFER_SIZE \<Longrightarrow> length (fdata (frames b ! i)) = FRAME_DATA_COUNT"
  by (simp add: fb_shape_def)

lemma fb_shape_update:
  "fb_shape b \<Longrightarrow> length (fdata f) = FRAME_DATA_COUNT \<Longrightarrow> fb_shape (b\<lparr>frames := (frames b)[i := f]\<rparr>)"
  by (auto simp: fb_shape_def dest!: set_update_subset_insert [THEN subsetD])

lemma fb_shape_simps [simp]:
  "fb_shape (b\<lparr>currentSample := n\<rparr>) = fb_shape b" "fb_shape (b\<lparr>gps_pulse_flag := g\<rparr>) = fb_shape b"
  "fb_shape (b\<lparr>gps_last_counter := c\<rparr>) = fb_shape b"
  by (simp_all add: fb_shape_def)

text \<open>In range, a change of the head frame always succeeds.\<close>
lemma fb_at_head_Some:
  "fb_shape b \<Longrightarrow> fb_at_head f b =
     Some (b\<lparr>frames := (frames b)[unat (head b) := f (frames b ! unat (head b))]\<rparr>)"
  by (simp add: fb_at_head_def fb_shape_def Let_def)

section \<open>One cycle of samples\<close>

fun run_callbacks :: "u32 \<Rightarrow> u16 list \<Rightarrow> OPQ_Frame_Buffer \<Rightarrow> OPQ_Frame_Buffer option" where
  "run_callbacks cnt [] b = Some b"
| "run_callbacks cnt (v # vs) b =
     do { b1 \<leftarrow> HAL_SDADC_InjectedConvCpltCallback cnt v b; run_callbacks cnt vs b1 }"

lemma run_callbacks_append:
  "run_callbacks cnt (vs @ ws) b = do { b1 \<leftarrow> run_callbacks cnt vs b; run_callbacks cnt ws b1 }"
  by (induction vs arbitrary: b) (simp_all split: Option.bind_splits)

text \<open>The buffer after \<open>vs\<close> has been stored at the sample index.\<close>
definition stored :: "u16 list \<Rightarrow> OPQ_Frame_Buffer \<Rightarrow> OPQ_Frame_Buffer" where
  "stored vs b =
     (let i = unat (head b); n = unat (currentSample b); d = fdata (frames b ! i)
      in b\<lparr>frames := (frames b)[i := (frames b ! i)\<lparr>fdata := take n d @ vs @ drop (n + length vs) d\<rparr>],
           currentSample := currentSample b + of_nat (length vs)\<rparr>)"

lemma currentSample_add:
  "unat c + k < 256 \<Longrightarrow> unat (c + of_nat k) = unat c + k" for c :: u8
  by (simp add: unat_word_ariths unsigned_of_nat take_bit_nat_eq_self)

lemma cb_store_stored: "fb_ok b \<Longrightarrow> cb_store v b = Some (stored [v] b)"
  by (auto simp: cb_store_def fb_ok_def fb_at_head_Some stored_def Let_def upd_conv_take_nth_drop
      fb_shape_frame fb_shape_def)

lemma stored_shape:
  assumes "fb_ok b" "unat (currentSample b) + length vs \<le> FRAME_DATA_COUNT"
  shows "fb_shape (stored vs b)" "unat (currentSample (stored vs b)) = unat (currentSample b) + length vs"
proof -
  let ?d = "fdata (frames b ! unat (head b))"
  have "length ?d = FRAME_DATA_COUNT" using assms(1) fb_shape_frame by (auto simp: fb_ok_def fb_shape_def)
  with assms have "fb_shape (b\<lparr>frames := (frames b)[unat (head b) := (frames b ! unat (head b))
      \<lparr>fdata := take (unat (currentSample b)) ?d @ vs @ drop (unat (currentSample b) + length vs) ?d\<rparr>]\<rparr>)"
    by (intro fb_shape_update) (simp_all add: fb_ok_def)
  then show "fb_shape (stored vs b)" by (simp add: stored_def Let_def)
  show "unat (currentSample (stored vs b)) = unat (currentSample b) + length vs"
    using assms(2) currentSample_add [of "currentSample b" "length vs"]
    by (simp add: stored_def Let_def FRAME_DATA_COUNT_def)
qed

lemma stored_append:
  assumes "fb_ok b" "unat (currentSample b) + length (vs @ ws) \<le> FRAME_DATA_COUNT"
  shows "stored ws (stored vs b) = stored (vs @ ws) b"
proof -
  have l: "length (fdata (frames b ! unat (head b))) = FRAME_DATA_COUNT" "unat (head b) < length (frames b)"
    using assms(1) fb_shape_frame by (auto simp: fb_ok_def fb_shape_def)
  have n: "unat (currentSample b + of_nat (length vs)) = unat (currentSample b) + length vs"
    using assms(2) by (intro currentSample_add) (simp add: FRAME_DATA_COUNT_def)
  show ?thesis using assms(2) l n
    by (simp add: stored_def Let_def) (simp add: add_ac)
qed

text \<open>Samples that do not complete the frame are stored one after the other.\<close>
lemma run_callbacks_partial:
  assumes "fb_ok b" "unat (currentSample b) + length vs < FRAME_DATA_COUNT"
  shows "run_callbacks cnt vs b = Some (stored vs b)"
  using assms(2)
proof (induction vs rule: rev_induct)
  case Nil
  then show ?case by (simp add: stored_def Let_def)
next
  case (snoc v vs)
  have ok: "fb_ok (stored vs b)"
    using stored_shape [OF assms(1), of vs] snoc.prems by (simp add: fb_ok_def)
  have st: "cb_store v (stored vs b) = Some (stored (vs @ [v]) b)"
    using cb_store_stored [OF ok] stored_append [OF assms(1), of vs "[v]"] snoc.prems by simp
  have "\<not> cb_full (stored (vs @ [v]) b)"
    using stored_shape(2) [OF assms(1), of "vs @ [v]"] snoc.prems
    by (simp add: cb_full_def word_le_nat_alt FRAME_DATA_COUNT_def)
  then show ?case
    using snoc st by (simp add: run_callbacks_append HAL_SDADC_InjectedConvCpltCallback_def)
qed

text \<open>The frame that a cycle of samples produces.\<close>
definition cycle_frame :: "u32 \<Rightarrow> u16 list \<Rightarrow> OPQ_Frame_Buffer \<Rightarrow> OPQ_Frame" where
  "cycle_frame cnt vs b =
     \<lparr>fdata = vs, last_gps_counter = gps_last_counter b, current_counter = ucast cnt,
      flags = (if gps_pulse_flag b \<noteq> 0 then OPQ_GPS_THIS_FRAME else 0)\<rparr>"

lemma closing_callbacks:
  assumes "fb_shape b"
  shows "do { b2 \<leftarrow> cb_gps b; b3 \<leftarrow> cb_count cnt b2; b4 \<leftarrow> cb_clear b3; b5 \<leftarrow> cb_flag b4; Some (cb_close b5) }
    = Some (b\<lparr>frames := (frames b)[unat (head b) := cycle_frame cnt (fdata (frames b ! unat (head b))) b],
        currentSample := 0, head := fb_next (head b), gps_pulse_flag := 0\<rparr>)"
proof -
  have i: "unat (head b) < length (frames b)" using assms by (simp add: fb_shape_def)
  have frame: "f\<lparr>last_gps_counter := g, current_counter := c, flags := x\<rparr>
      = \<lparr>fdata = fdata f, last_gps_counter = g, current_counter = c, flags = x\<rparr>" for f :: OPQ_Frame and g c x
    by (cases f) simp
  show ?thesis
    using i by (cases b) (simp add: cb_gps_def cb_count_def cb_clear_def cb_flag_def cb_close_def fb_at_head_def
        Let_def cycle_frame_def frame)
qed

lemma cycle_result:
  assumes "fb_ok b" "currentSample b = 0" "length vs = FRAME_DATA_COUNT"
  shows "run_callbacks cnt vs b =
    Some (b\<lparr>frames := (frames b)[unat (head b) := cycle_frame cnt vs b],
            head := fb_next (head b), gps_pulse_flag := 0\<rparr>)"
proof -
  obtain us v where vs: "vs = us @ [v]" using assms(3) by (cases vs rule: rev_cases) (auto simp: fb_consts)
  have us: "unat (currentSample b) + length us < FRAME_DATA_COUNT" using assms(2,3) vs by simp
  have ok: "fb_ok (stored us b)" using stored_shape [OF assms(1), of us] us by (simp add: fb_ok_def)
  have st: "cb_store v (stored us b) = Some (stored vs b)"
    using cb_store_stored [OF ok] stored_append [OF assms(1), of us "[v]"] us vs by simp
  have sh: "fb_shape (stored vs b)" "unat (currentSample (stored vs b)) = FRAME_DATA_COUNT"
    using stored_shape [OF assms(1), of vs] assms(2,3) by simp_all
  then have full: "cb_full (stored vs b)" by (simp add: cb_full_def word_le_nat_alt FRAME_DATA_COUNT_def)
  have d: "length (fdata (frames b ! unat (head b))) = FRAME_DATA_COUNT" "unat (head b) < length (frames b)"
    using assms(1) fb_shape_frame by (auto simp: fb_ok_def fb_shape_def)
  have "run_callbacks cnt vs b = HAL_SDADC_InjectedConvCpltCallback cnt v (stored us b)"
    unfolding vs run_callbacks_append run_callbacks_partial [OF assms(1) us] by (simp split: Option.bind_splits)
  also have "\<dots> = Some ((stored vs b)\<lparr>frames := (frames (stored vs b))[unat (head (stored vs b)) :=
        cycle_frame cnt (fdata (frames (stored vs b) ! unat (head (stored vs b)))) (stored vs b)],
        currentSample := 0, head := fb_next (head (stored vs b)), gps_pulse_flag := 0\<rparr>)"
    by (simp add: HAL_SDADC_InjectedConvCpltCallback_def st full closing_callbacks [OF sh(1)])
  finally show ?thesis
    using assms(2,3) d by (simp add: stored_def Let_def cycle_frame_def)
qed

section \<open>The frame buffer as a queue\<close>

text \<open>A cycle of samples with the counter value at its end, as the client of the queue sees it.\<close>
definition fb_enq :: "u16 list \<times> u32 \<Rightarrow> OPQ_Frame_Buffer \<Rightarrow> OPQ_Frame_Buffer" where
  "fb_enq x b = the (run_callbacks (snd x) (fst x) b)"

definition fb_content :: "OPQ_Frame \<Rightarrow> u16 list \<times> u32" where
  "fb_content f = (fdata f, ucast (current_counter f))"

definition fb_between :: "OPQ_Frame_Buffer \<Rightarrow> bool" where
  "fb_between b \<longleftrightarrow> fb_ok b \<and> currentSample b = 0"

lemma fb_enq_eq:
  assumes "fb_between b" "length vs = FRAME_DATA_COUNT"
  shows "run_callbacks cnt vs b = Some (fb_enq (vs, cnt) b)"
    "fb_enq (vs, cnt) b = b\<lparr>frames := (frames b)[unat (head b) := cycle_frame cnt vs b],
       head := fb_next (head b), gps_pulse_flag := 0\<rparr>"
  using cycle_result [of b vs cnt] assms by (simp_all add: fb_enq_def fb_between_def)

lemma fb_enq_between:
  assumes "fb_between b" "length vs = FRAME_DATA_COUNT"
  shows "fb_between (fb_enq (vs, cnt) b)"
  using assms fb_shape_update [of b "cycle_frame cnt vs b" "unat (head b)"]
  by (simp add: fb_enq_eq fb_between_def fb_ok_def cycle_frame_def) (simp add: fb_shape_def)

lemma fb_queue_enq:
  assumes "fb_between b" "length vs = FRAME_DATA_COUNT" "fb_next (head b) \<noteq> tail b"
  shows "fb_queue (fb_enq (vs, cnt) b) = fb_queue b @ [cycle_frame cnt vs b]"
proof -
  have sh: "fb_shape b" using assms(1) by (simp add: fb_between_def fb_ok_def)
  then have "ring_next FRAME_BUFFER_SIZE (unat (head b)) \<noteq> unat (tail b)"
    using assms(3) fb_next_unat [of "head b"] by (metis fb_shape_def word_unat_eq_iff)
  then show ?thesis
    using sh ring_list_enq [of "unat (tail b)" FRAME_BUFFER_SIZE "unat (head b)" "frames b" "cycle_frame cnt vs b"]
    by (simp add: fb_queue_def fb_enq_eq [OF assms(1,2)] fb_next_unat fb_shape_def)
qed

lemma fb_full_iff:
  "fb_shape b \<Longrightarrow> fb_next (head b) = tail b \<longleftrightarrow> length (fb_queue b) = FRAME_BUFFER_SIZE - 1"
  using fb_next_unat [of "head b"] ring_len_full [of "unat (tail b)" FRAME_BUFFER_SIZE "unat (head b)"]
  by (simp add: fb_queue_def fb_shape_def word_unat_eq_iff)

lemma fb_nonempty_iff: "fb_shape b \<Longrightarrow> fb_nonempty b \<longleftrightarrow> fb_queue b \<noteq> []"
  using ring_len_0 [of "unat (tail b)" FRAME_BUFFER_SIZE "unat (head b)"]
  by (auto simp: fb_nonempty_def fb_queue_def fb_shape_def word_unat_eq_iff simp flip: length_0_conv)

lemma fb_queue_less: "fb_shape b \<Longrightarrow> length (fb_queue b) < FRAME_BUFFER_SIZE"
  by (simp add: fb_queue_def fb_shape_def ring_len_less)

lemma fb_pop_shape: "fb_shape b \<Longrightarrow> fb_shape (fb_pop b)"
  by (simp add: fb_shape_def fb_pop_def)

lemma fb_queue_pop:
  assumes "fb_shape b" "fb_queue b \<noteq> []"
  shows "fb_queue b = fb_first b # fb_queue (fb_pop b)"
proof -
  have "unat (tail b) \<noteq> unat (head b)"
    using assms(2) fb_nonempty_iff [OF assms(1)] by (simp add: fb_nonempty_def word_unat_eq_iff eq_commute)
  then show ?thesis
    using assms(1) ring_list_deq [of "unat (tail b)" FRAME_BUFFER_SIZE "unat (head b)" "frames b"]
    by (simp add: fb_queue_def fb_pop_def fb_first_def fb_next_unat fb_shape_def)
qed

interpretation fq: fifo fb_enq fb_pop "\<lambda>b. fb_content (fb_first b)" "\<lambda>b. map fb_content (fb_queue b)"
  fb_nonempty fb_between "\<lambda>x. length (fst x) = FRAME_DATA_COUNT \<and> snd x = ucast (ucast (snd x) :: u16)"
  0 "FRAME_BUFFER_SIZE - 1"
proof
  show "0 < FRAME_BUFFER_SIZE - 1" by (simp add: fb_consts)
  fix b x
  assume b: "fb_between b"
  then have sh: "fb_shape b" by (simp add: fb_between_def fb_ok_def)
  show "length (map fb_content (fb_queue b)) \<le> FRAME_BUFFER_SIZE - 1" using fb_queue_less [OF sh] by simp
  show "fb_nonempty b = (0 < length (map fb_content (fb_queue b)))" using fb_nonempty_iff [OF sh] by simp
  show "map fb_content (fb_queue (fb_enq x b)) = map fb_content (fb_queue b) @ [x]"
    and "fb_between (fb_enq x b)"
    if x: "length (fst x) = FRAME_DATA_COUNT \<and> snd x = ucast (ucast (snd x) :: u16)"
      and room: "length (map fb_content (fb_queue b)) < FRAME_BUFFER_SIZE - 1"
  proof -
    have "fb_next (head b) \<noteq> tail b" using fb_full_iff [OF sh] room by simp
    then show "map fb_content (fb_queue (fb_enq x b)) = map fb_content (fb_queue b) @ [x]"
      using fb_queue_enq [OF b, of "fst x" "snd x"] x by (simp add: fb_content_def cycle_frame_def prod_eq_iff)
    show "fb_between (fb_enq x b)" using fb_enq_between [OF b, of "fst x" "snd x"] x by simp
  qed
  assume "fb_nonempty b"
  then have ne: "fb_queue b \<noteq> []" using fb_nonempty_iff [OF sh] by simp
  show "map fb_content (fb_queue b) = fb_content (fb_first b) # map fb_content (fb_queue (fb_pop b))"
    using fb_queue_pop [OF sh ne] by simp
  show "fb_between (fb_pop b)"
    using b fb_pop_shape [OF sh] by (simp add: fb_between_def fb_ok_def) (simp add: fb_pop_def)
qed

section \<open>Bytes\<close>

lemma bytes16_length [simp]: "length (bytes16 v) = 2" by (simp add: bytes16_def)
lemma bytes32_length [simp]: "length (bytes32 v) = 4" by (simp add: bytes32_def)

lemma read16_bytes16 [simp]: "read16 (bytes16 v @ xs) = v"
proof -
  have "(ucast (ucast v :: u8) :: u16) OR push_bit 8 (ucast (ucast (drop_bit 8 v) :: u8)) = v"
    by (rule bit_word_eqI) (auto simp: bit_simps)
  then show ?thesis by (simp add: bytes16_def)
qed

lemma read32_bytes32 [simp]: "read32 (bytes32 v) = v"
proof -
  have "(ucast (ucast v :: u8) :: u32) OR push_bit 8 (ucast (ucast (drop_bit 8 v) :: u8))
      OR push_bit 16 (ucast (ucast (drop_bit 16 v) :: u8)) OR push_bit 24 (ucast (ucast (drop_bit 24 v) :: u8)) = v"
  proof (rule bit_word_eqI)
    fix n
    assume "n < LENGTH(32)"
    then consider "n < 8" | "8 \<le> n" "n < 16" | "16 \<le> n" "n < 24" | "24 \<le> n" "n < 32" by fastforce
    then show "bit ((ucast (ucast v :: u8) :: u32) OR push_bit 8 (ucast (ucast (drop_bit 8 v) :: u8))
      OR push_bit 16 (ucast (ucast (drop_bit 16 v) :: u8)) OR push_bit 24 (ucast (ucast (drop_bit 24 v) :: u8))) n = bit v n"
      by cases (auto simp: bit_simps)
  qed
  then show ?thesis by (simp add: bytes32_def)
qed

lemma concat_bytes16_length: "length (concat (map bytes16 vs)) = 2 * length vs"
  by (induction vs) simp_all

lemma read16_samples:
  "i < length vs \<Longrightarrow> read16 (drop (2 * i) (concat (map bytes16 vs) @ rest)) = vs ! i"
proof (induction vs arbitrary: i)
  case (Cons v vs)
  then show ?case by (cases i) simp_all
qed simp

text \<open>\<^verbatim>\<open>sizeof(OPQ_Frame)\<close>.\<close>
lemma frame_bytes_length: "length (fdata f) = FRAME_DATA_COUNT \<Longrightarrow> length (frame_bytes f) = sizeof_OPQ_Frame"
  by (simp add: frame_bytes_def concat_bytes16_length sizeof_OPQ_Frame_def fb_consts)

lemma frame_of_bytes_frame_bytes:
  assumes "length (fdata f) = FRAME_DATA_COUNT"
  shows "frame_of_bytes (frame_bytes f) = f"
proof -
  have l: "length (concat (map bytes16 (fdata f))) = 2 * FRAME_DATA_COUNT"
    using assms by (simp add: concat_bytes16_length)
  have "map (\<lambda>i. read16 (drop (2 * i) (frame_bytes f))) [0..<FRAME_DATA_COUNT] = fdata f"
    using assms by (intro nth_equalityI) (simp_all add: frame_bytes_def read16_samples del: drop_append)
  then show ?thesis
    by (simp add: frame_of_bytes_def) (simp add: frame_bytes_def l)
qed

section \<open>The invariant of the firmware at run time\<close>

text \<open>The shape of the buffer: the sample index is in range whenever the callback may start.\<close>
definition shape_inv :: "fw \<Rightarrow> bool" where
  "shape_inv s \<longleftrightarrow> fb_shape (fbuf s) \<and> (isr s = I_idle \<longrightarrow> unat (currentSample (fbuf s)) < FRAME_DATA_COUNT)"

text \<open>Without an overrun the frames handed over plus the queue are the frames closed.\<close>
definition order_inv :: "fw \<Rightarrow> bool" where
  "order_inv s \<longleftrightarrow> (overruns s = 0 \<longrightarrow>
     completed s = sent s @ (if mpc s = M_tail then tl (fb_queue (fbuf s)) else fb_queue (fbuf s))
     \<and> (mpc s = M_send \<or> mpc s = M_tail \<longrightarrow> fb_queue (fbuf s) \<noteq> []))"

text \<open>The slot under transmission is the one last taken and holds the frame that was taken.\<close>
definition send_inv :: "fw \<Rightarrow> bool" where
  "send_inv s \<longleftrightarrow> (spi_ready s \<longleftrightarrow> sending s = None) \<and> (mpc s = M_send \<longrightarrow> spi_ready s)
     \<and> (\<forall>i. sending s = Some i \<longrightarrow> i < FRAME_BUFFER_SIZE \<and> sent s \<noteq> []
          \<and> (if mpc s = M_tail then unat (tail (fbuf s)) = i
             else unat (tail (fbuf s)) = ring_next FRAME_BUFFER_SIZE i)
          \<and> (\<not> torn s \<longrightarrow> frames (fbuf s) ! i = last (sent s)
               \<and> (isr s \<noteq> I_idle \<longrightarrow> unat (head (fbuf s)) \<noteq> i)))"

text \<open>What the statements of the callback that write the head frame have in common.\<close>
definition head_write :: "OPQ_Frame_Buffer \<Rightarrow> OPQ_Frame_Buffer \<Rightarrow> bool" where
  "head_write b b' \<longleftrightarrow> head b' = head b \<and> tail b' = tail b \<and> fb_shape b'
     \<and> (\<exists>f. frames b' = (frames b)[unat (head b) := f])"

lemma head_write_at_head:
  assumes "fb_shape b" "\<And>f. length (fdata (g f)) = length (fdata f)" "fb_at_head g b = Some b'"
  shows "head_write b b' \<and> currentSample b' = currentSample b"
proof -
  have b': "b' = b\<lparr>frames := (frames b)[unat (head b) := g (frames b ! unat (head b))]\<rparr>"
    using fb_at_head_Some [OF assms(1), of g] assms(3) by simp
  have "length (fdata (g (frames b ! unat (head b)))) = FRAME_DATA_COUNT"
    using assms(1,2) fb_shape_frame [OF assms(1), of "unat (head b)"] by (simp add: fb_shape_def)
  then show ?thesis
    using fb_shape_update [OF assms(1), of "g (frames b ! unat (head b))" "unat (head b)"]
    by (auto simp: head_write_def b')
qed

lemma head_write_callbacks:
  assumes "fb_shape b"
  shows "cb_gps b = Some b' \<Longrightarrow> head_write b b'" "cb_count c b = Some b' \<Longrightarrow> head_write b b'"
    "cb_clear b = Some b' \<Longrightarrow> head_write b b'" "cb_flag b = Some b' \<Longrightarrow> head_write b b'"
proof -
  show "cb_flag b = Some b' \<Longrightarrow> head_write b b'"
  proof (cases "gps_pulse_flag b \<noteq> 0")
    case True
    moreover assume "cb_flag b = Some b'"
    ultimately have "head_write (b\<lparr>gps_pulse_flag := 0\<rparr>) b'"
      using assms head_write_at_head [of "b\<lparr>gps_pulse_flag := 0\<rparr>" "\<lambda>f. f\<lparr>flags := OPQ_GPS_THIS_FRAME\<rparr>" b']
      by (simp add: cb_flag_def)
    then show ?thesis by (simp add: head_write_def)
  next
    case False
    moreover assume "cb_flag b = Some b'"
    ultimately have "b' = b" by (simp add: cb_flag_def)
    then show ?thesis using assms by (auto simp: head_write_def intro: exI [of _ "frames b ! unat (head b)"])
  qed
qed (use head_write_at_head [OF assms, of "\<lambda>f. f\<lparr>last_gps_counter := gps_last_counter b\<rparr>" b']
      head_write_at_head [OF assms, of "\<lambda>f. f\<lparr>current_counter := ucast c\<rparr>" b']
      head_write_at_head [OF assms, of "\<lambda>f. f\<lparr>flags := 0\<rparr>" b']
    in \<open>simp_all add: cb_gps_def cb_count_def cb_clear_def\<close>)

lemma head_write_store:
  assumes "fb_ok b" "cb_store v b = Some b'"
  shows "head_write b b' \<and> unat (currentSample b') = unat (currentSample b) + 1"
proof -
  have b': "b' = stored [v] b" using cb_store_stored [OF assms(1)] assms(2) by simp
  have "fb_shape b'" "unat (currentSample b') = unat (currentSample b) + 1"
    using stored_shape [OF assms(1), of "[v]"] assms(1) by (simp_all add: b' fb_ok_def)
  then show ?thesis by (auto simp: head_write_def b' stored_def Let_def)
qed

lemma head_write_queue: "fb_shape b \<Longrightarrow> head_write b b' \<Longrightarrow> fb_queue b' = fb_queue b"
  by (auto simp: head_write_def fb_queue_def fb_shape_def ring_list_update)

lemma head_write_other: "head_write b b' \<Longrightarrow> unat (head b) \<noteq> i \<Longrightarrow> frames b' ! i = frames b ! i"
  by (auto simp: head_write_def)

lemma capture_simps [simp]:
  "fb_shape (HAL_TIM_IC_CaptureCallback c b) = fb_shape b" "fb_queue (HAL_TIM_IC_CaptureCallback c b) = fb_queue b"
  "head (HAL_TIM_IC_CaptureCallback c b) = head b" "tail (HAL_TIM_IC_CaptureCallback c b) = tail b"
  "currentSample (HAL_TIM_IC_CaptureCallback c b) = currentSample b"
  "frames (HAL_TIM_IC_CaptureCallback c b) = frames b"
  by (simp_all add: HAL_TIM_IC_CaptureCallback_def fb_queue_def)

lemma close_shape: "fb_shape b \<Longrightarrow> fb_shape (cb_close b)"
  by (simp add: fb_shape_def cb_close_def)

text \<open>Closing a frame into a buffer with room appends it.\<close>
lemma close_queue:
  assumes "fb_shape b" "fb_next (head b) \<noteq> tail b"
  shows "fb_queue (cb_close b) = fb_queue b @ [frames b ! unat (head b)]"
proof -
  have "ring_next FRAME_BUFFER_SIZE (unat (head b)) \<noteq> unat (tail b)"
    using assms fb_next_unat [of "head b"] by (metis fb_shape_def word_unat_eq_iff)
  then show ?thesis
    using assms(1) ring_list_enq [of "unat (tail b)" FRAME_BUFFER_SIZE "unat (head b)" "frames b" "frames b ! unat (head b)"]
    by (simp add: fb_queue_def cb_close_def fb_next_unat fb_shape_def)
qed

lemma shape_inv_step:
  assumes "fstep s t" "shape_inv s"
  shows "shape_inv t"
proof -
  have sh: "fb_shape (fbuf s)" using assms(2) by (simp add: shape_inv_def)
  note hw = head_write_callbacks [OF sh]
  from assms(1) show ?thesis
  proof (cases rule: fstep.cases)
    case (sample v b)
    then have "head_write (fbuf s) b \<and> unat (currentSample b) = unat (currentSample (fbuf s)) + 1"
      using assms(2) by (intro head_write_store) (simp_all add: shape_inv_def fb_ok_def)
    then show ?thesis using sample
      by (auto simp: shape_inv_def head_write_def cb_full_def word_le_nat_alt FRAME_DATA_COUNT_def)
  next
    case close
    then show ?thesis using close_shape [OF sh] by (simp add: shape_inv_def cb_close_def FRAME_DATA_COUNT_def)
  next
    case m_tail
    then show ?thesis using assms(2) fb_pop_shape [OF sh] by (simp add: shape_inv_def) (simp add: fb_pop_def)
  qed (use assms(2) hw(1-4) in \<open>simp_all add: shape_inv_def head_write_def\<close>)
qed

lemma order_inv_step:
  assumes "fstep s t" "shape_inv s" "order_inv s"
  shows "order_inv t"
proof -
  have sh: "fb_shape (fbuf s)" using assms(2) by (simp add: shape_inv_def)
  from assms(1) show ?thesis
  proof (cases rule: fstep.cases)
    case (sample v b)
    then have "head_write (fbuf s) b"
      using assms(2) head_write_store [of "fbuf s" v b] by (simp add: shape_inv_def fb_ok_def)
    then show ?thesis using sample assms(3) head_write_queue [OF sh] by (simp add: order_inv_def)
  next
    case close
    show ?thesis
    proof (cases "fb_next (head (fbuf s)) = tail (fbuf s)")
      case True
      then show ?thesis using close by (simp add: order_inv_def)
    next
      case False
      then show ?thesis using close assms(3) close_queue [OF sh False] by (simp add: order_inv_def)
    qed
  next
    case m_check
    then show ?thesis using assms(3) fb_nonempty_iff [OF sh] by (simp add: order_inv_def)
  next
    case m_send
    then show ?thesis using assms(3) fb_queue_pop [OF sh]
      by (cases "fb_queue (fbuf s)") (auto simp: order_inv_def)
  next
    case m_tail
    then show ?thesis using assms(3) fb_queue_pop [OF sh] by (auto simp: order_inv_def)
  qed (use assms(3) head_write_callbacks [OF sh] head_write_queue [OF sh] in \<open>auto simp: order_inv_def\<close>)
qed

lemma send_inv_head_write:
  assumes "send_inv s" "head_write (fbuf s) b" "sending s = Some (unat (head (fbuf s))) \<Longrightarrow> torn s"
  shows "send_inv (s\<lparr>fbuf := b, isr := p\<rparr>)"
proof -
  have ht: "head b = head (fbuf s)" "tail b = tail (fbuf s)" using assms(2) by (simp_all add: head_write_def)
  have other: "frames b ! i = frames (fbuf s) ! i" if "sending s = Some i" "\<not> torn s" for i
    using head_write_other [OF assms(2), of i] assms(3) that by metis
  show ?thesis
    using assms(1,3) other unfolding send_inv_def by (auto simp: ht)
qed

lemma send_inv_step:
  assumes "fstep s t" "shape_inv s" "send_inv s"
  shows "send_inv t"
proof -
  have sh: "fb_shape (fbuf s)" using assms(2) by (simp add: shape_inv_def)
  have busy: "isr s \<noteq> I_idle \<Longrightarrow> sending s = Some (unat (head (fbuf s))) \<Longrightarrow> torn s"
    using assms(3) by (auto simp: send_inv_def)
  from assms(1) show ?thesis
  proof (cases rule: fstep.cases)
    case (sample v b)
    let ?s = "s\<lparr>torn := torn s \<or> sending s = Some (unat (head (fbuf s)))\<rparr>"
    have "head_write (fbuf s) b"
      using sample assms(2) head_write_store [of "fbuf s" v b] by (simp add: shape_inv_def fb_ok_def)
    moreover have "send_inv ?s" using assms(3) by (auto simp: send_inv_def)
    ultimately have "send_inv (?s\<lparr>fbuf := b, isr := if cb_full b then I_gps else I_idle\<rparr>)"
      by (intro send_inv_head_write) auto
    moreover have "t = ?s\<lparr>fbuf := b, isr := if cb_full b then I_gps else I_idle\<rparr>"
      unfolding sample(1) by (cases s) simp
    ultimately show ?thesis by simp
  next
    case (gps b)
    then show ?thesis using assms(3) busy head_write_callbacks(1) [OF sh]
      by (auto intro!: send_inv_head_write)
  next
    case (count c b)
    then show ?thesis using assms(3) busy head_write_callbacks(2) [OF sh]
      by (auto intro!: send_inv_head_write)
  next
    case (clear b)
    then show ?thesis using assms(3) busy head_write_callbacks(3) [OF sh]
      by (auto intro!: send_inv_head_write)
  next
    case (flag b)
    then show ?thesis using assms(3) busy head_write_callbacks(4) [OF sh]
      by (auto intro!: send_inv_head_write)
  next
    case m_send
    then show ?thesis using assms(3) sh by (auto simp: send_inv_def fb_first_def fb_shape_def)
  next
    case m_tail
    then show ?thesis using assms(3) sh
      by (auto simp: send_inv_def fb_pop_def fb_next_unat fb_shape_def)
  qed (use assms(3) in \<open>auto simp: send_inv_def cb_close_def\<close>)
qed

lemma freach_inv:
  assumes "freach b s" "length (frames b) = FRAME_BUFFER_SIZE" "\<forall>f \<in> set (frames b). length (fdata f) = FRAME_DATA_COUNT"
  shows "shape_inv s \<and> order_inv s \<and> send_inv s"
  using assms(1)
proof (induction rule: freach.induct)
  case start
  show ?case
    using assms(2,3)
    by (auto simp: fw_init_def init_OPQ_RunTime_def shape_inv_def order_inv_def send_inv_def fb_shape_def
        fb_queue_def ring_list_def ring_len_def fb_consts)
next
  case (step s t)
  then show ?case using shape_inv_step order_inv_step send_inv_step by blast
qed

section \<open>Overrun and the GPS race\<close>

lemma fb_next_4: "unat i < 4 \<Longrightarrow> fb_next (fb_next (fb_next (fb_next i))) = i"
  using u8_small [of i] by (auto simp: fb_next_def Let_def word_le_nat_alt)

lemma fb_enqs_between:
  "fb_between b \<Longrightarrow> \<forall>x \<in> set xs. length (fst x) = FRAME_DATA_COUNT \<Longrightarrow> fb_between (fold fb_enq xs b)"
  by (induction xs arbitrary: b) (use fb_enq_between in auto)

lemma fb_enq_head_tail:
  "fb_between b \<Longrightarrow> length (fst x) = FRAME_DATA_COUNT \<Longrightarrow>
     head (fb_enq x b) = fb_next (head b) \<and> tail (fb_enq x b) = tail b"
  using fb_enq_eq(2) [of b "fst x" "snd x"] by simp

lemma fb_enqs_4:
  assumes "fb_between b" "length xs = 4" "\<forall>x \<in> set xs. length (fst x) = FRAME_DATA_COUNT"
  shows "head (fold fb_enq xs b) = head b \<and> tail (fold fb_enq xs b) = tail b"
proof -
  obtain x1 x2 x3 x4 where xs: "xs = [x1, x2, x3, x4]"
    using assms(2) by (auto simp: length_Suc_conv numeral_eq_Suc)
  define b1 where "b1 = fb_enq x1 b"
  define b2 where "b2 = fb_enq x2 b1"
  define b3 where "b3 = fb_enq x3 b2"
  have bt: "fb_between b1" "fb_between b2" "fb_between b3"
    using fb_enqs_between [OF assms(1), of "[x1]"] fb_enqs_between [OF assms(1), of "[x1, x2]"]
      fb_enqs_between [OF assms(1), of "[x1, x2, x3]"] assms(3)
    by (simp_all add: xs b1_def b2_def b3_def)
  have "unat (head b) < 4" using assms(1) by (simp add: fb_between_def fb_ok_def fb_shape_def fb_consts)
  then show ?thesis
    using fb_enq_head_tail [OF assms(1), of x1] fb_enq_head_tail [OF bt(1), of x2]
      fb_enq_head_tail [OF bt(2), of x3] fb_enq_head_tail [OF bt(3), of x4] assms(3) fb_next_4
    by (simp add: xs b1_def b2_def b3_def)
qed

text \<open>The steps of a callback that has already copied the GPS counter, with a capture in between.\<close>
lemma capture_before_flag:
  fixes c cnt :: u32
  assumes "shape_inv s" "isr s = I_count"
  shows "\<exists>t. fstep\<^sup>*\<^sup>* s t \<and> isr t = I_idle \<and> completed t = completed s @
      [(frames (fbuf s) ! unat (head (fbuf s)))\<lparr>current_counter := ucast cnt, flags := OPQ_GPS_THIS_FRAME\<rparr>]
    \<and> gps_last_counter (fbuf t) = ucast c \<and> gps_pulse_flag (fbuf t) = 0
    \<and> head (fbuf t) = fb_next (head (fbuf s)) \<and> tail (fbuf t) = tail (fbuf s)
    \<and> overruns t = overruns s + (if fb_next (head (fbuf s)) = tail (fbuf s) then 1 else 0)
    \<and> sent t = sent s \<and> mpc t = mpc s \<and> spi_ready t = spi_ready s \<and> torn t = torn s"
proof -
  let ?i = "unat (head (fbuf s))"
  have i: "?i < length (frames (fbuf s))" using assms(1) by (simp add: shape_inv_def fb_shape_def)
  define s1 where "s1 = s\<lparr>fbuf := HAL_TIM_IC_CaptureCallback c (fbuf s)\<rparr>"
  define s2 where "s2 = s1\<lparr>fbuf := the (cb_count cnt (fbuf s1)), isr := I_clear\<rparr>"
  define s3 where "s3 = s2\<lparr>fbuf := the (cb_clear (fbuf s2)), isr := I_flag\<rparr>"
  define s4 where "s4 = s3\<lparr>fbuf := the (cb_flag (fbuf s3)), isr := I_close\<rparr>"
  define s5 where "s5 = s4\<lparr>fbuf := cb_close (fbuf s4), isr := I_idle,
       completed := completed s4 @ [frames (fbuf s4) ! unat (head (fbuf s4))],
       overruns := overruns s4 + (if fb_next (head (fbuf s4)) = tail (fbuf s4) then 1 else 0)\<rparr>"
  note defs = s2_def s3_def s4_def s1_def cb_count_def cb_clear_def cb_flag_def fb_at_head_def Let_def
    HAL_TIM_IC_CaptureCallback_def
  have f2: "cb_count cnt (fbuf s1) = Some (fbuf s2)" using i by (simp add: defs)
  have f3: "cb_clear (fbuf s2) = Some (fbuf s3)" using i by (simp add: defs)
  have f4: "cb_flag (fbuf s3) = Some (fbuf s4)" using i by (simp add: defs)
  have "fstep s s1" unfolding s1_def by (rule fstep.capture)
  moreover have "fstep s1 s2" using fstep.count [OF _ f2] assms(2) by (simp add: s1_def s2_def)
  moreover have "fstep s2 s3" using fstep.clear [OF _ f3] by (simp add: s2_def s3_def)
  moreover have "fstep s3 s4" using fstep.flag [OF _ f4] by (simp add: s3_def s4_def)
  moreover have "fstep s4 s5" unfolding s5_def by (rule fstep.close) (simp add: s4_def)
  ultimately have "fstep\<^sup>*\<^sup>* s s5" by (meson converse_rtranclp_into_rtranclp rtranclp.rtrancl_refl)
  moreover have "completed s5 = completed s @ [(frames (fbuf s) ! ?i)\<lparr>current_counter := ucast cnt, flags := OPQ_GPS_THIS_FRAME\<rparr>]"
    using i by (simp add: s5_def defs)
  moreover have "gps_last_counter (fbuf s5) = ucast c" "gps_pulse_flag (fbuf s5) = 0" "isr s5 = I_idle"
    using i by (simp_all add: s5_def defs cb_close_def)
  moreover have "head (fbuf s5) = fb_next (head (fbuf s))" "tail (fbuf s5) = tail (fbuf s)"
    "overruns s5 = overruns s + (if fb_next (head (fbuf s)) = tail (fbuf s) then 1 else 0)"
    "sent s5 = sent s" "mpc s5 = mpc s" "spi_ready s5 = spi_ready s" "torn s5 = torn s"
    using i by (simp_all add: s5_def defs cb_close_def)
  ultimately show ?thesis by blast
qed

lemma samples_reach:
  assumes "freach b s" "shape_inv s" "isr s = I_idle" "sending s = None"
    "unat (currentSample (fbuf s)) + length vs < FRAME_DATA_COUNT"
  shows "freach b (s\<lparr>fbuf := stored vs (fbuf s)\<rparr>)"
  using assms(5)
proof (induction vs rule: rev_induct)
  case Nil
  have "s\<lparr>fbuf := stored [] (fbuf s)\<rparr> = s" by (cases s) (simp add: stored_def Let_def)
  then show ?case using assms(1) by simp
next
  case (snoc v vs)
  let ?t = "s\<lparr>fbuf := stored vs (fbuf s)\<rparr>" and ?b = "stored (vs @ [v]) (fbuf s)"
  have ok: "fb_ok (fbuf s)" using assms(2,3) by (simp add: shape_inv_def fb_ok_def)
  have okt: "fb_ok (stored vs (fbuf s))"
    using stored_shape [OF ok, of vs] snoc.prems by (simp add: fb_ok_def)
  have st: "cb_store v (fbuf ?t) = Some ?b"
    using cb_store_stored [OF okt] stored_append [OF ok, of vs "[v]"] snoc.prems by simp
  have nf: "\<not> cb_full ?b"
    using stored_shape(2) [OF ok, of "vs @ [v]"] snoc.prems
    by (simp add: cb_full_def word_le_nat_alt FRAME_DATA_COUNT_def)
  have "fstep ?t (?t\<lparr>fbuf := ?b, isr := (if cb_full ?b then I_gps else I_idle),
      torn := (torn ?t \<or> sending ?t = Some (unat (head (fbuf ?t))))\<rparr>)"
    by (rule fstep.sample [OF _ st]) (simp add: assms(3))
  moreover have "?t\<lparr>fbuf := ?b, isr := (if cb_full ?b then I_gps else I_idle),
      torn := (torn ?t \<or> sending ?t = Some (unat (head (fbuf ?t))))\<rparr> = s\<lparr>fbuf := ?b\<rparr>"
    using assms(3,4) nf by (cases s) simp
  ultimately show ?case using freach.step [OF snoc.IH] snoc.prems by simp
qed

section \<open>A concrete buffer\<close>

definition ex_fb :: OPQ_Frame_Buffer where
  "ex_fb = \<lparr>frames = replicate 4 \<lparr>fdata = replicate 200 0, last_gps_counter = 0, current_counter = 0, flags = 0\<rparr>,
     head = 0, tail = 0, currentSample = 0, gps_pulse_flag = 0, gps_last_counter = 0\<rparr>"

lemma ex_fb_shape:
  "length (frames ex_fb) = FRAME_BUFFER_SIZE" "\<forall>f \<in> set (frames ex_fb). length (fdata f) = FRAME_DATA_COUNT"
  "fb_between ex_fb" "init_OPQ_RunTime ex_fb = ex_fb" "fb_queue ex_fb = []"
  by (simp_all add: ex_fb_def fb_consts fb_between_def fb_ok_def fb_shape_def init_OPQ_RunTime_def
      fb_queue_def ring_list_def ring_len_def)

text \<open>A state in which the callback of the last sample has just copied the GPS counter.\<close>
lemma ex_before_count:
  "\<exists>s. freach ex_fb s \<and> isr s = I_count \<and> completed s = [] \<and> overruns s = 0 \<and> sent s = [] \<and> mpc s = M_check
     \<and> spi_ready s \<and> \<not> torn s \<and> head (fbuf s) = 0 \<and> tail (fbuf s) = 0
     \<and> last_gps_counter (frames (fbuf s) ! unat (head (fbuf s))) = 0"
proof -
  let ?z = "fw_init ex_fb"
  have z: "fbuf ?z = ex_fb" "isr ?z = I_idle" "sending ?z = None" "completed ?z = []" "overruns ?z = 0"
    "sent ?z = []" "mpc ?z = M_check" "spi_ready ?z" "\<not> torn ?z"
    by (simp_all add: fw_init_def ex_fb_shape)
  have inv: "shape_inv ?z" using freach_inv [OF freach.start ex_fb_shape(1,2)] by simp
  define s1 where "s1 = ?z\<lparr>fbuf := stored (replicate 199 0) ex_fb\<rparr>"
  have "unat (currentSample ex_fb) + length (replicate 199 (0 :: u16)) < FRAME_DATA_COUNT"
    by (simp add: ex_fb_def fb_consts)
  then have r1: "freach ex_fb s1"
    using samples_reach [OF freach.start inv z(2,3), of "replicate 199 0"] z(1) unfolding s1_def by simp
  have i1: "shape_inv s1" using freach_inv [OF r1 ex_fb_shape(1,2)] by simp
  have isr1: "isr s1 = I_idle" by (simp add: s1_def z(2))
  then have ok1: "fb_ok (fbuf s1)" using i1 by (simp add: shape_inv_def fb_ok_def)
  have okz: "fb_ok ex_fb" using ex_fb_shape(3) by (simp add: fb_between_def)
  have cs1: "unat (currentSample (fbuf s1)) = 199"
    using stored_shape(2) [OF okz, of "replicate 199 0"] by (simp add: s1_def ex_fb_def fb_consts)
  have full: "cb_full (stored [0] (fbuf s1))"
    using stored_shape(2) [OF ok1, of "[0]"] cs1 by (simp add: cb_full_def word_le_nat_alt fb_consts)
  define s2 where "s2 = s1\<lparr>fbuf := stored [0] (fbuf s1), isr := I_gps,
      torn := (torn s1 \<or> sending s1 = Some (unat (head (fbuf s1))))\<rparr>"
  have "fstep s1 s2"
    using fstep.sample [OF isr1 cb_store_stored [OF ok1], of 0] full by (simp add: s2_def)
  then have r2: "freach ex_fb s2" using freach.step [OF r1] by blast
  have sh2: "fb_shape (fbuf s2)" using freach_inv [OF r2 ex_fb_shape(1,2)] by (simp add: shape_inv_def)
  let ?b = "(fbuf s2)\<lparr>frames := (frames (fbuf s2))[unat (head (fbuf s2)) :=
      (frames (fbuf s2) ! unat (head (fbuf s2)))\<lparr>last_gps_counter := gps_last_counter (fbuf s2)\<rparr>]\<rparr>"
  have g: "cb_gps (fbuf s2) = Some ?b" using fb_at_head_Some [OF sh2] by (simp add: cb_gps_def)
  have "fstep s2 (s2\<lparr>fbuf := ?b, isr := I_count\<rparr>)" by (rule fstep.gps [OF _ g]) (simp add: s2_def)
  then have "freach ex_fb (s2\<lparr>fbuf := ?b, isr := I_count\<rparr>)" using freach.step [OF r2] by blast
  moreover have "gps_last_counter (fbuf s2) = 0"
    by (simp add: s2_def s1_def stored_def Let_def ex_fb_def)
  moreover have "completed s2 = []" "overruns s2 = 0" "sent s2 = []" "mpc s2 = M_check" "spi_ready s2" "\<not> torn s2"
    by (simp_all add: s2_def s1_def z)
  moreover have "head (fbuf s2) = 0" "tail (fbuf s2) = 0"
    by (simp_all add: s2_def s1_def stored_def Let_def ex_fb_def)
  moreover have "unat (head (fbuf s2)) < length (frames (fbuf s2))" using sh2 by (simp add: fb_shape_def)
  ultimately show ?thesis by (intro exI [of _ "s2\<lparr>fbuf := ?b, isr := I_count\<rparr>"]) simp
qed

text \<open>A state in which the first frame has just been handed to the SPI driver.\<close>
lemma ex_sending:
  "\<exists>s f. freach ex_fb s \<and> completed s = [f] \<and> sent s = [f] \<and> overruns s = 0 \<and> \<not> torn s
     \<and> sending s = Some 0 \<and> mpc s = M_tail"
proof -
  obtain s where s: "freach ex_fb s" "isr s = I_count" "completed s = []" "overruns s = 0" "sent s = []"
    "mpc s = M_check" "spi_ready s" "\<not> torn s" "head (fbuf s) = 0" "tail (fbuf s) = 0"
    using ex_before_count by blast
  have "shape_inv s" using freach_inv [OF s(1) ex_fb_shape(1,2)] by blast
  from capture_before_flag [OF this s(2), of 0 0] obtain t where t: "fstep\<^sup>*\<^sup>* s t" "isr t = I_idle"
    "length (completed t) = 1" "head (fbuf t) = 1" "tail (fbuf t) = 0" "overruns t = 0" "sent t = []"
    "mpc t = M_check" "spi_ready t" "\<not> torn t"
    using s by (fastforce simp: fb_next_def Let_def word_le_nat_alt)
  have rt: "freach ex_fb t" using t(1) s(1) by (induction rule: rtranclp_induct) (auto intro: freach.step)
  define u where "u = t\<lparr>mpc := M_send\<rparr>"
  have "fstep t u" unfolding u_def using t by (intro fstep.m_check) (simp_all add: fb_nonempty_def)
  then have ru: "freach ex_fb u" by (rule freach.step [OF rt])
  define v where "v = u\<lparr>mpc := M_tail, spi_ready := False, sending := Some (unat (tail (fbuf u))),
       sent := sent u @ [fb_first (fbuf u)]\<rparr>"
  have "fstep u v" unfolding v_def using t by (intro fstep.m_send) (simp_all add: u_def)
  then have rv: "freach ex_fb v" by (rule freach.step [OF ru])
  have v: "overruns v = 0" "\<not> torn v" "sending v = Some 0" "mpc v = M_tail" "length (completed v) = 1" "length (sent v) = 1"
    using t by (simp_all add: v_def u_def)
  obtain f g where fg: "completed v = [f]" "sent v = [g]"
    using v(5,6) by (auto simp: length_Suc_conv)
  have "order_inv v" using freach_inv [OF rv ex_fb_shape(1,2)] by blast
  then have "g = f" using v fg by (simp add: order_inv_def)
  then show ?thesis using rv v fg by blast
qed

section \<open>Properties\<close>

text \<open>C12: a cycle of 200 samples closes one frame: its data are the samples in the order of the
  conversions, its counters the last GPS capture and the timer at the last sample, its flag tells
  whether a GPS pulse arrived since the previous frame; the pulse flag is cleared, the head moves on,
  every other slot and the tail are left alone, and no access is out of range.\<close>
theorem cycle_closes_frame:
  assumes "fb_ok b" "currentSample b = 0" "length vs = FRAME_DATA_COUNT"
  shows "\<exists>b'. run_callbacks cnt vs b = Some b'
    \<and> frames b' ! unat (head b) = \<lparr>fdata = vs, last_gps_counter = gps_last_counter b, current_counter = ucast cnt,
        flags = (if gps_pulse_flag b \<noteq> 0 then OPQ_GPS_THIS_FRAME else 0)\<rparr>
    \<and> (\<forall>i. i \<noteq> unat (head b) \<longrightarrow> frames b' ! i = frames b ! i)
    \<and> unat (head b') = (unat (head b) + 1) mod 4 \<and> tail b' = tail b \<and> currentSample b' = 0
    \<and> gps_pulse_flag b' = 0 \<and> fb_ok b'"
proof -
  let ?b = "b\<lparr>frames := (frames b)[unat (head b) := cycle_frame cnt vs b], head := fb_next (head b), gps_pulse_flag := 0\<rparr>"
  have b: "fb_between b" using assms by (simp add: fb_between_def)
  have "fb_ok ?b"
    using fb_enq_between [OF b assms(3), of cnt] fb_enq_eq(2) [OF b assms(3), of cnt] by (simp add: fb_between_def)
  moreover have "unat (fb_next (head b)) = (unat (head b) + 1) mod 4" "unat (head b) < length (frames b)"
    using assms(1) fb_next_unat [of "head b"] ring_next_mod [of "unat (head b)" 4]
    by (simp_all add: fb_ok_def fb_shape_def fb_consts)
  ultimately show ?thesis
    unfolding cycle_result [OF assms] using assms(2) by (intro exI [of _ ?b]) (simp add: cycle_frame_def)
qed

theorem cycle_closes_frame_witness:
  "\<exists>b'. run_callbacks 7 (replicate 200 5) ex_fb = Some b' \<and> fdata (frames b' ! 0) = replicate 200 5
     \<and> current_counter (frames b' ! 0) = 7 \<and> unat (head b') = 1"
proof -
  have "fb_ok ex_fb" "currentSample ex_fb = 0" "length (replicate 200 (5 :: u16)) = FRAME_DATA_COUNT"
    "unat (head ex_fb) = 0"
    using ex_fb_shape(3) by (simp_all add: fb_between_def fb_consts ex_fb_def)
  from cycle_closes_frame [OF this(1-3), of 7] this(4) show ?thesis by auto
qed

text \<open>C13: whatever the interleaving of conversions, GPS captures, main loop and SPI, the indices of the frame
  buffer stay in range: the conversion-complete callback can always run and never stores outside the
  frame it is filling.\<close>
theorem firmware_indices_in_range:
  assumes "freach b s" "length (frames b) = FRAME_BUFFER_SIZE"
    "\<forall>f \<in> set (frames b). length (fdata f) = FRAME_DATA_COUNT"
  shows "unat (head (fbuf s)) < FRAME_BUFFER_SIZE \<and> unat (tail (fbuf s)) < FRAME_BUFFER_SIZE
    \<and> length (frames (fbuf s)) = FRAME_BUFFER_SIZE
    \<and> (isr s = I_idle \<longrightarrow> (\<forall>v. \<exists>t b'. cb_store v (fbuf s) = Some b' \<and> fstep s t \<and> fbuf t = b'
          \<and> unat (currentSample b') \<le> FRAME_DATA_COUNT))"
proof -
  have inv: "shape_inv s" using freach_inv [OF assms] by blast
  have "\<exists>t b'. cb_store v (fbuf s) = Some b' \<and> fstep s t \<and> fbuf t = b' \<and> unat (currentSample b') \<le> FRAME_DATA_COUNT"
    if idle: "isr s = I_idle" for v
  proof -
    have ok: "fb_ok (fbuf s)" using inv idle by (simp add: shape_inv_def fb_ok_def)
    have "unat (currentSample (stored [v] (fbuf s))) \<le> FRAME_DATA_COUNT"
      using stored_shape(2) [OF ok, of "[v]"] ok by (simp add: fb_ok_def)
    then show ?thesis using fstep.sample [OF idle cb_store_stored [OF ok]] cb_store_stored [OF ok] by fastforce
  qed
  then show ?thesis using inv by (simp add: shape_inv_def fb_shape_def)
qed

theorem firmware_indices_in_range_witness:
  "\<exists>s. freach ex_fb s \<and> isr s = I_count \<and> unat (head (fbuf s)) < FRAME_BUFFER_SIZE"
proof -
  obtain s where s: "freach ex_fb s" "isr s = I_count" using ex_before_count by blast
  with firmware_indices_in_range [OF s(1) ex_fb_shape(1,2)] show ?thesis by blast
qed

text \<open>C14: as long as no frame was closed into a full buffer, the frames handed to the SPI driver are the closed
  frames in the order in which they were closed, none skipped or repeated, and at most three are
  waiting.\<close>
theorem frames_sent_in_order:
  assumes "freach b s" "length (frames b) = FRAME_BUFFER_SIZE"
    "\<forall>f \<in> set (frames b). length (fdata f) = FRAME_DATA_COUNT" and "overruns s = 0"
  shows "prefix (sent s) (completed s) \<and> length (completed s) \<le> length (sent s) + 3"
proof -
  have inv: "shape_inv s" "order_inv s" using freach_inv [OF assms(1-3)] by blast+
  then have "length (fb_queue (fbuf s)) < 4"
    using fb_queue_less [of "fbuf s"] by (simp add: shape_inv_def fb_consts)
  with inv(2) assms(4) show ?thesis by (auto simp: order_inv_def split: if_splits)
qed

theorem frames_sent_in_order_witness:
  "\<exists>s f. freach ex_fb s \<and> completed s = [f] \<and> overruns s = 0 \<and> prefix (sent s) [f] \<and> sent s \<noteq> []"
proof -
  obtain s f where s: "freach ex_fb s" "completed s = [f]" "sent s = [f]" "overruns s = 0" using ex_sending by blast
  with frames_sent_in_order [OF s(1) ex_fb_shape(1,2) s(4)] show ?thesis by (intro exI [of _ s] exI [of _ f]) simp
qed





text \<open>C17: there is no check for a full buffer: four cycles recorded without the main loop taking one bring the
  head back to the tail, and the buffer looks empty, so all four frames are lost.\<close>
theorem overrun_loses_four_frames:
  assumes "fb_between b" "fb_queue b = []" "length xs = 4"
    and "\<forall>x \<in> set xs. length (fst x) = FRAME_DATA_COUNT"
  shows "fb_queue (fold fb_enq xs b) = [] \<and> \<not> fb_nonempty (fold fb_enq xs b) \<and> fb_between (fold fb_enq xs b)"
proof -
  have bt: "fb_between (fold fb_enq xs b)" using fb_enqs_between [OF assms(1,4)] .
  have "\<not> fb_nonempty b" using assms(1,2) fb_nonempty_iff [of b] by (simp add: fb_between_def fb_ok_def)
  then have "\<not> fb_nonempty (fold fb_enq xs b)"
    using fb_enqs_4 [OF assms(1,3,4)] by (simp add: fb_nonempty_def)
  with bt show ?thesis using fb_nonempty_iff [of "fold fb_enq xs b"] by (simp add: fb_between_def fb_ok_def)
qed

theorem overrun_loses_four_frames_witness:
  "fb_queue (fold fb_enq (replicate 4 (replicate 200 1, 5)) ex_fb) = []"
  using overrun_loses_four_frames [OF ex_fb_shape(3,5), of "replicate 4 (replicate 200 1, 5)"] by (simp add: fb_consts)

text \<open>C18: TIM4 pre-empts the conversion callback, and the callback copies the captured counter before it tests the
  pulse flag: a pulse that arrives in between is reported with the frame, but with the counter of an
  earlier pulse, and the flag is gone when the right counter is stored into the next frame.\<close>
theorem gps_pulse_reported_with_stale_counter:
  assumes "freach b s" "length (frames b) = FRAME_BUFFER_SIZE"
    "\<forall>f \<in> set (frames b). length (fdata f) = FRAME_DATA_COUNT" and "isr s = I_count"
  shows "\<exists>t f. fstep\<^sup>*\<^sup>* s t \<and> isr t = I_idle \<and> completed t = completed s @ [f] \<and> flags f = OPQ_GPS_THIS_FRAME
    \<and> last_gps_counter f = last_gps_counter (frames (fbuf s) ! unat (head (fbuf s)))
    \<and> gps_last_counter (fbuf t) = ucast (c :: u32) \<and> gps_pulse_flag (fbuf t) = 0"
proof -
  have "shape_inv s" using freach_inv [OF assms(1-3)] by blast
  from capture_before_flag [OF this assms(4), of 0 c] show ?thesis by force
qed

theorem gps_pulse_reported_with_stale_counter_witness:
  "\<exists>s t f. freach ex_fb s \<and> fstep\<^sup>*\<^sup>* s t \<and> completed t = [f] \<and> flags f = OPQ_GPS_THIS_FRAME \<and> last_gps_counter f = 0
     \<and> gps_last_counter (fbuf t) = 1000 \<and> gps_pulse_flag (fbuf t) = 0"
proof -
  obtain s where s: "freach ex_fb s" "isr s = I_count" "completed s = []"
    "last_gps_counter (frames (fbuf s) ! unat (head (fbuf s))) = 0" using ex_before_count by blast
  have "ucast (1000 :: u32) = (1000 :: u16)" by simp
  with gps_pulse_reported_with_stale_counter [OF s(1) ex_fb_shape(1,2) s(2), of 1000] s show ?thesis by fastforce
qed



end
