(* ===== verification/Firmware.thy ===== *)
theory Firmware
  imports Sdadc_States Spi_Transfer Hal_Gpio Hal_Tim Hal_Uart Frame_Buffer
begin

text \<open>
  The firmware around the drivers: the set-up of clocks and peripherals (\<^verbatim>\<open>peripheral_config.c\<close>), the low-level
  set-up of each peripheral (\<^verbatim>\<open>stm32f3xx_hal_msp.c\<close>), the interrupt handlers (\<^verbatim>\<open>stm32f3xx_it.c\<close>) and \<^verbatim>\<open>main\<close>
  (\<^verbatim>\<open>opq.c\<close>), on the state of the whole board.  The low-level set-up functions do not touch the handle they are
  called with, so they are run on the board beside the driver functions, which get the identity in their place.
\<close>

section \<open>Constants\<close>

definition GPIO_PIN_0 :: u16 where "GPIO_PIN_0 = 0x0001"
definition GPIO_PIN_1 :: u16 where "GPIO_PIN_1 = 0x0002"
definition GPIO_PIN_2 :: u16 where "GPIO_PIN_2 = 0x0004"
definition GPIO_PIN_3 :: u16 where "GPIO_PIN_3 = 0x0008"
definition GPIO_PIN_4 :: u16 where "GPIO_PIN_4 = 0x0010"
definition GPIO_PIN_6 :: u16 where "GPIO_PIN_6 = 0x0040"
definition GPIO_PIN_7 :: u16 where "GPIO_PIN_7 = 0x0080"
definition GPIO_PIN_8 :: u16 where "GPIO_PIN_8 = 0x0100"
definition GPIO_PIN_9 :: u16 where "GPIO_PIN_9 = 0x0200"
definition GPIO_PIN_10 :: u16 where "GPIO_PIN_10 = 0x0400"
definition GPIO_AF2_TIM4 :: u32 where "GPIO_AF2_TIM4 = 2"
definition GPIO_AF6_SPI3 :: u32 where "GPIO_AF6_SPI3 = 6"
definition GPIO_AF7_USART1 :: u32 where "GPIO_AF7_USART1 = 7"
definition RCC_AHBENR_GPIOAEN :: u32 where "RCC_AHBENR_GPIOAEN = 0x20000"
definition RCC_AHBENR_GPIOBEN :: u32 where "RCC_AHBENR_GPIOBEN = 0x40000"
definition RCC_AHBENR_GPIOEEN :: u32 where "RCC_AHBENR_GPIOEEN = 0x200000"
definition RCC_AHBENR_GPIOFEN :: u32 where "RCC_AHBENR_GPIOFEN = 0x400000"
definition RCC_APB1ENR_TIM2EN :: u32 where "RCC_APB1ENR_TIM2EN = 1"
definition RCC_APB1ENR_TIM4EN :: u32 where "RCC_APB1ENR_TIM4EN = 4"
definition RCC_APB1ENR_SPI3EN :: u32 where "RCC_APB1ENR_SPI3EN = 0x8000"
definition RCC_APB2ENR_USART1EN :: u32 where "RCC_APB2ENR_USART1EN = 0x4000"
definition RCC_APB2ENR_SDADC2EN :: u32 where "RCC_APB2ENR_SDADC2EN = 0x2000000"
definition RCC_SDADCSYSCLK_DIV12 :: u32 where "RCC_SDADCSYSCLK_DIV12 = 0xA8000000"
definition PWR_SDADC_ANALOG2 :: u32 where "PWR_SDADC_ANALOG2 = 0x400"
definition FLASH_ACR_PRFTBE :: u32 where "FLASH_ACR_PRFTBE = 0x10"
definition SDADC_LOWPOWER_NONE :: u32 where "SDADC_LOWPOWER_NONE = 0"
definition SDADC_FAST_CONV_DISABLE :: u32 where "SDADC_FAST_CONV_DISABLE = 0"
definition SDADC_SLOW_CLOCK_DISABLE :: u32 where "SDADC_SLOW_CLOCK_DISABLE = 0"
definition SDADC_VREF_EXT :: u32 where "SDADC_VREF_EXT = 0"
definition SDADC_CONF_INDEX_0 :: u32 where "SDADC_CONF_INDEX_0 = 0"
definition SDADC_INPUT_MODE_DIFF :: u32 where "SDADC_INPUT_MODE_DIFF = 0"
definition SDADC_GAIN_1 :: u32 where "SDADC_GAIN_1 = 0"
definition SDADC_COMMON_MODE_VDDA_2 :: u32 where "SDADC_COMMON_MODE_VDDA_2 = 0x40000000"
definition SDADC_CALIBRATION_SEQ_1 :: u32 where "SDADC_CALIBRATION_SEQ_1 = 0"
definition SPI_POLARITY_LOW :: u32 where "SPI_POLARITY_LOW = 0"
definition SPI_PHASE_1EDGE :: u32 where "SPI_PHASE_1EDGE = 0"
definition SPI_NSS_HARD_INPUT :: u32 where "SPI_NSS_HARD_INPUT = 0"
definition SPI_NSS_PULSE_DISABLE :: u32 where "SPI_NSS_PULSE_DISABLE = 0"
definition SPI_FIRSTBIT_MSB :: u32 where "SPI_FIRSTBIT_MSB = 0"
definition SPI_TIMODE_DISABLE :: u32 where "SPI_TIMODE_DISABLE = 0"

lemmas pin_consts = GPIO_PIN_0_def GPIO_PIN_1_def GPIO_PIN_2_def GPIO_PIN_3_def GPIO_PIN_4_def GPIO_PIN_6_def
  GPIO_PIN_7_def GPIO_PIN_8_def GPIO_PIN_9_def GPIO_PIN_10_def
lemmas fw_sd_consts = SDADC_LOWPOWER_NONE_def SDADC_FAST_CONV_DISABLE_def SDADC_SLOW_CLOCK_DISABLE_def
  SDADC_VREF_EXT_def SDADC_CONF_INDEX_0_def SDADC_INPUT_MODE_DIFF_def SDADC_GAIN_1_def
  SDADC_COMMON_MODE_VDDA_2_def SDADC_CALIBRATION_SEQ_1_def
lemmas fw_spi_consts = SPI_POLARITY_LOW_def SPI_PHASE_1EDGE_def SPI_NSS_HARD_INPUT_def SPI_NSS_PULSE_DISABLE_def
  SPI_FIRSTBIT_MSB_def SPI_TIMODE_DISABLE_def

section \<open>The board\<close>

datatype port = GPIOA | GPIOB | GPIOC | GPIOD | GPIOE | GPIOF

datatype spi_instance = SPI1 | SPI2 | SPI3

text \<open>The globals of the firmware and the registers outside of the handles.  The clock controller holds the state of
  the core as well.\<close>
record board =
  b_rcc :: rcc
  b_gpio :: "port \<Rightarrow> GPIO_TypeDef"
  b_exti :: exti
  hsdadc2 :: sdadc
  hspi3 :: spi
  htim2 :: tim
  htim4 :: tim
  huart1 :: uart
  frameBuffer :: OPQ_Frame_Buffer

text \<open>The hardware environments of the peripherals, and the counter of TIM4.\<close>
record board_hw =
  e_rcc :: rcc_hw
  e_sdadc :: hw
  e_spi :: hw
  e_uart :: hw
  e_tim4 :: tim_hw
  e_CNT4 :: "time \<Rightarrow> u32"

text \<open>What the members of local structures hold that the code does not set.\<close>
record stack =
  s_osc :: RCC_OscInitTypeDef
  s_periph :: RCC_PeriphCLKInitTypeDef
  s_gpio :: GPIO_InitTypeDef

definition GPIO_GET_INDEX :: "port \<Rightarrow> u32" where
  "GPIO_GET_INDEX p = (case p of GPIOA \<Rightarrow> 0 | GPIOB \<Rightarrow> 1 | GPIOC \<Rightarrow> 2 | GPIOD \<Rightarrow> 3 | GPIOE \<Rightarrow> 4 | GPIOF \<Rightarrow> 5)"

definition on_port :: "port \<Rightarrow> (GPIO_TypeDef \<times> exti \<Rightarrow> GPIO_TypeDef \<times> exti) \<Rightarrow> board \<Rightarrow> board" where
  "on_port p f b = (let (g, e) = f (b_gpio b p, b_exti b) in b\<lparr>b_gpio := (b_gpio b)(p := g), b_exti := e\<rparr>)"

definition port_init :: "port \<Rightarrow> GPIO_InitTypeDef \<Rightarrow> board \<Rightarrow> board" where
  "port_init p i = on_port p (HAL_GPIO_Init (GPIO_GET_INDEX p) i)"

definition port_deinit :: "port \<Rightarrow> u16 \<Rightarrow> board \<Rightarrow> board" where
  "port_deinit p pins = on_port p (HAL_GPIO_DeInit (GPIO_GET_INDEX p) (ucast pins))"

definition port_write :: "port \<Rightarrow> u16 \<Rightarrow> GPIO_PinState \<Rightarrow> board \<Rightarrow> board" where
  "port_write p pins st b = b\<lparr>b_gpio := (b_gpio b)(p := HAL_GPIO_WritePin pins st (b_gpio b p))\<rparr>"

definition on_rcc :: "(rcc \<Rightarrow> rcc) \<Rightarrow> board \<Rightarrow> board" where
  "on_rcc f b = b\<lparr>b_rcc := f (b_rcc b)\<rparr>"

definition on_core :: "(core \<Rightarrow> core) \<Rightarrow> board \<Rightarrow> board" where
  "on_core f = on_rcc (\<lambda>r. r\<lparr>rcc_core := f (rcc_core r)\<rparr>)"

definition AHB_enable :: "u32 \<Rightarrow> board \<Rightarrow> board" where
  "AHB_enable m = on_rcc (\<lambda>r. r\<lparr>rcc_AHBENR := rcc_AHBENR r OR m\<rparr>)"

definition APB1_enable :: "u32 \<Rightarrow> board \<Rightarrow> board" where
  "APB1_enable m = on_rcc (\<lambda>r. r\<lparr>rcc_APB1ENR := rcc_APB1ENR r OR m\<rparr>)"

definition APB1_disable :: "u32 \<Rightarrow> board \<Rightarrow> board" where
  "APB1_disable m = on_rcc (\<lambda>r. r\<lparr>rcc_APB1ENR := rcc_APB1ENR r AND NOT m\<rparr>)"

definition APB2_enable :: "u32 \<Rightarrow> board \<Rightarrow> board" where
  "APB2_enable m = on_rcc (\<lambda>r. r\<lparr>rcc_APB2ENR := rcc_APB2ENR r OR m\<rparr>)"

definition APB2_disable :: "u32 \<Rightarrow> board \<Rightarrow> board" where
  "APB2_disable m = on_rcc (\<lambda>r. r\<lparr>rcc_APB2ENR := rcc_APB2ENR r AND NOT m\<rparr>)"

lemmas board_defs = on_port_def port_init_def port_deinit_def port_write_def on_rcc_def on_core_def AHB_enable_def
  APB1_enable_def APB1_disable_def APB2_enable_def APB2_disable_def

section \<open>Low-level set-up\<close>

definition HAL_SDADC_MspInit :: "stack \<Rightarrow> sdadc_instance \<Rightarrow> board \<Rightarrow> board" where
  "HAL_SDADC_MspInit s i b =
     (if i = SDADC2
      then let b1 = APB2_enable RCC_APB2ENR_SDADC2EN b;
               b2 = port_init GPIOE ((s_gpio s)\<lparr>gi_Pin := ucast (GPIO_PIN_8 OR GPIO_PIN_9), gi_Mode := GPIO_MODE_ANALOG,
                      gi_Pull := GPIO_NOPULL\<rparr>) b1;
               b3 = on_core (\<lambda>c. HAL_NVIC_EnableIRQ SDADC2_IRQn (HAL_NVIC_SetPriority SDADC2_IRQn 1 0 c)) b2;
               b4 = APB1_enable RCC_APB1ENR_TIM2EN b3;
               t0 = (htim2 b4)\<lparr>tim_Instance := TIM2, tim_Init := (tim_Init (htim2 b4))\<lparr>ClockDivision := 0,
                      CounterMode := TIM_COUNTERMODE_UP, Period := 6000 - 1, Prescaler := 0\<rparr>\<rparr>;
               t1 = snd (HAL_TIM_PWM_Init id t0);
               oc = \<lparr>OCMode = TIM_OCMODE_PWM1, Pulse = 3000, OCPolarity = TIM_OCPOLARITY_HIGH, OCNPolarity = 0,
                     OCFastMode = TIM_OCFAST_ENABLE, OCIdleState = 0, OCNIdleState = 0\<rparr>
           in b4\<lparr>htim2 := snd (HAL_TIM_PWM_ConfigChannel oc TIM_CHANNEL_3 t1)\<rparr>
      else b)"

definition HAL_SDADC_MspDeInit :: "sdadc_instance \<Rightarrow> board \<Rightarrow> board" where
  "HAL_SDADC_MspDeInit i b =
     (if i = SDADC2 then port_deinit GPIOE (GPIO_PIN_8 OR GPIO_PIN_9) (APB2_disable RCC_APB2ENR_SDADC2EN b) else b)"

definition HAL_SPI_MspInit :: "spi_instance \<Rightarrow> board \<Rightarrow> board" where
  "HAL_SPI_MspInit i b =
     (if i = SPI3
      then let b1 = APB1_enable RCC_APB1ENR_SPI3EN b;
               b2 = port_init GPIOA \<lparr>gi_Pin = ucast (GPIO_PIN_1 OR GPIO_PIN_2 OR GPIO_PIN_3 OR GPIO_PIN_4),
                      gi_Mode = GPIO_MODE_AF_PP, gi_Pull = GPIO_NOPULL, gi_Speed = GPIO_SPEED_FREQ_HIGH,
                      gi_Alternate = GPIO_AF6_SPI3\<rparr> b1
           in on_core (\<lambda>c. HAL_NVIC_EnableIRQ SPI3_IRQn (HAL_NVIC_SetPriority SPI3_IRQn 0 0 c)) b2
      else b)"

definition HAL_SPI_MspDeInit :: "spi_instance \<Rightarrow> board \<Rightarrow> board" where
  "HAL_SPI_MspDeInit i b =
     (if i = SPI3
      then port_deinit GPIOA (GPIO_PIN_1 OR GPIO_PIN_2 OR GPIO_PIN_3 OR GPIO_PIN_4) (APB1_disable RCC_APB1ENR_SPI3EN b)
      else b)"

definition HAL_UART_MspInit :: "usart_instance \<Rightarrow> board \<Rightarrow> board" where
  "HAL_UART_MspInit i b =
     (if i = USART1
      then port_init GPIOA \<lparr>gi_Pin = ucast (GPIO_PIN_9 OR GPIO_PIN_10), gi_Mode = GPIO_MODE_AF_PP,
             gi_Pull = GPIO_PULLUP, gi_Speed = GPIO_SPEED_FREQ_HIGH, gi_Alternate = GPIO_AF7_USART1\<rparr>
             (APB2_enable RCC_APB2ENR_USART1EN b)
      else b)"

definition HAL_UART_MspDeInit :: "usart_instance \<Rightarrow> board \<Rightarrow> board" where
  "HAL_UART_MspDeInit i b =
     (if i = USART1 then port_deinit GPIOA (GPIO_PIN_9 OR GPIO_PIN_10) (APB2_disable RCC_APB2ENR_USART1EN b) else b)"

definition HAL_TIM_IC_MspInit :: "tim_instance \<Rightarrow> board \<Rightarrow> board" where
  "HAL_TIM_IC_MspInit i b =
     (let b1 = (if i = TIM4
                then port_init GPIOB \<lparr>gi_Pin = ucast GPIO_PIN_6, gi_Mode = GPIO_MODE_AF_PP, gi_Pull = GPIO_PULLUP,
                       gi_Speed = GPIO_SPEED_FREQ_HIGH, gi_Alternate = GPIO_AF2_TIM4\<rparr>
                       (AHB_enable RCC_AHBENR_GPIOBEN (APB1_enable RCC_APB1ENR_TIM4EN b))
                else b)
      in on_core (\<lambda>c. HAL_NVIC_EnableIRQ TIM4_IRQn (HAL_NVIC_SetPriority TIM4_IRQn 0 1 c)) b1)"

text \<open>\<^verbatim>\<open>HAL_Init\<close> with \<^verbatim>\<open>HAL_MspInit\<close> on the board: the flash prefetch buffer, the clock of the system configuration
  controller, and the core.\<close>
definition board_HAL_Init :: "board \<Rightarrow> board" where
  "board_HAL_Init b =
     (let b1 = on_rcc (\<lambda>r. r\<lparr>flash_ACR := flash_ACR r OR FLASH_ACR_PRFTBE\<rparr>) b;
          b2 = on_core (\<lambda>c. snd (HAL_Init (SystemCoreClock (b_rcc b1)) c)) b1
      in b2\<lparr>b_exti := (b_exti b2)\<lparr>syscfg_clk := True\<rparr>\<rparr>)"

section \<open>Set-up of the peripherals\<close>

text \<open>\<^verbatim>\<open>Error_Handler\<close> sends \<^verbatim>\<open>E\<close> for ever: the call does not return.\<close>
definition Error_Handler :: "'a option" where
  "Error_Handler = None"

text \<open>\<^verbatim>\<open>if (f(...) != HAL_OK) Error_Handler();\<close>\<close>
definition or_die :: "(HAL_StatusTypeDef \<times> 'a) option \<Rightarrow> 'a option" where
  "or_die m = do { (st, x) \<leftarrow> m; if st \<noteq> HAL_OK then Error_Handler else Some x }"

definition RCC_OscInitStruct :: "stack \<Rightarrow> RCC_OscInitTypeDef" where
  "RCC_OscInitStruct s = (s_osc s)\<lparr>OscillatorType := RCC_OSCILLATORTYPE_HSE, HSEState := RCC_HSE_BYPASS,
     HSEPredivValue := RCC_HSE_PREDIV_DIV1,
     PLL := \<lparr>PLLState = RCC_PLL_ON, PLLSource = RCC_PLLSOURCE_HSE, PLLMUL = RCC_PLL_MUL6\<rparr>\<rparr>"

definition RCC_ClkInitStruct :: RCC_ClkInitTypeDef where
  "RCC_ClkInitStruct =
     \<lparr>ClockType = RCC_CLOCKTYPE_HCLK OR RCC_CLOCKTYPE_SYSCLK OR RCC_CLOCKTYPE_PCLK1 OR RCC_CLOCKTYPE_PCLK2,
      SYSCLKSource = RCC_SYSCLKSOURCE_PLLCLK, AHBCLKDivider = RCC_SYSCLK_DIV1,
      APB1CLKDivider = RCC_HCLK_DIV2, APB2CLKDivider = RCC_HCLK_DIV1\<rparr>"

definition PeriphClkInit :: "stack \<Rightarrow> RCC_PeriphCLKInitTypeDef" where
  "PeriphClkInit s = (s_periph s)\<lparr>PeriphClockSelection := RCC_PERIPHCLK_USART1 OR RCC_PERIPHCLK_SDADC,
     Usart1ClockSelection := RCC_USART1CLKSOURCE_SYSCLK, SdadcClockSelection := RCC_SDADCSYSCLK_DIV12\<rparr>"

definition SystemClock_Config :: "stack \<Rightarrow> board_hw \<Rightarrow> board \<Rightarrow> board option" where
  "SystemClock_Config s e b =
     do { r1 \<leftarrow> or_die (HAL_RCC_OscConfig (e_rcc e) (RCC_OscInitStruct s) (b_rcc b));
          r2 \<leftarrow> or_die (HAL_RCC_ClockConfig (e_rcc e) RCC_ClkInitStruct FLASH_LATENCY_2 r1);
          r3 \<leftarrow> or_die (HAL_RCCEx_PeriphCLKConfig (e_rcc e) (PeriphClkInit s) r2);
          Some (b\<lparr>b_rcc := HAL_PWREx_EnableSDADC PWR_SDADC_ANALOG2 r3\<rparr>) }"

text \<open>The calls of \<^verbatim>\<open>MX_SDADC2_Init\<close> on the handle.\<close>
definition sdadc2_setup :: "hw \<Rightarrow> sdadc \<Rightarrow> sdadc option" where
  "sdadc2_setup hw h0 =
     do { h1 \<leftarrow> or_die (HAL_SDADC_Init id hw h0);
          h2 \<leftarrow> or_die (HAL_SDADC_PrepareChannelConfig hw SDADC_CONF_INDEX_0
                  \<lparr>InputMode = SDADC_INPUT_MODE_DIFF, Gain = SDADC_GAIN_1, CommonMode = SDADC_COMMON_MODE_VDDA_2,
                   Offset = 0\<rparr> h1);
          h3 \<leftarrow> or_die (HAL_SDADC_AssociateChannelConfig hw SDADC_CHANNEL_8 SDADC_CONF_INDEX_0 h2);
          h4 \<leftarrow> or_die (Some (HAL_SDADC_InjectedConfigChannel SDADC_CHANNEL_8 SDADC_CONTINUOUS_CONV_OFF h3));
          h5 \<leftarrow> or_die (Some (HAL_SDADC_SelectInjectedTrigger SDADC_EXTERNAL_TRIGGER h4));
          h6 \<leftarrow> or_die (HAL_SDADC_SelectInjectedExtTrigger hw SDADC_EXT_TRIG_TIM2_CC3 SDADC_EXT_TRIG_RISING_EDGE h5);
          h7 \<leftarrow> or_die (HAL_SDADC_CalibrationStart hw SDADC_CALIBRATION_SEQ_1 h6);
          h8 \<leftarrow> or_die (HAL_SDADC_PollForCalibEvent hw HAL_MAX_DELAY h7);
          or_die (HAL_SDADC_InjectedStart_IT hw h8) }"

definition MX_SDADC2_Init :: "stack \<Rightarrow> board_hw \<Rightarrow> board \<Rightarrow> board option" where
  "MX_SDADC2_Init s e b =
     do { let b1 = HAL_SDADC_MspInit s SDADC2 b;
          h \<leftarrow> sdadc2_setup (e_sdadc e) ((hsdadc2 b1)\<lparr>sd_Instance := SDADC2,
                 sd_Init := \<lparr>IdleLowPowerMode = SDADC_LOWPOWER_NONE, FastConversionMode = SDADC_FAST_CONV_DISABLE,
                   SlowClockMode = SDADC_SLOW_CLOCK_DISABLE, ReferenceVoltage = SDADC_VREF_EXT\<rparr>,
                 RegularContMode := SDADC_CONTINUOUS_CONV_OFF, InjectedContMode := SDADC_CONTINUOUS_CONV_OFF\<rparr>);
          t \<leftarrow> or_die (Some (HAL_TIM_PWM_Start TIM_CHANNEL_3 (htim2 b1)));
          Some (b1\<lparr>hsdadc2 := h, htim2 := t\<rparr>) }"

definition MX_SPI3_Init :: "board \<Rightarrow> board option" where
  "MX_SPI3_Init b =
     do { let h0 = (hspi3 b)\<lparr>spi_Init := (spi_Init (hspi3 b))\<lparr>spi_Mode := SPI_MODE_SLAVE,
                 spi_Direction := SPI_DIRECTION_2LINES, spi_DataSize := SPI_DATASIZE_8BIT,
                 spi_CLKPolarity := SPI_POLARITY_LOW, spi_CLKPhase := SPI_PHASE_1EDGE, spi_NSS := SPI_NSS_HARD_INPUT,
                 spi_FirstBit := SPI_FIRSTBIT_MSB, spi_TIMode := SPI_TIMODE_DISABLE,
                 spi_CRCCalculation := SPI_CRCCALCULATION_DISABLE, spi_CRCPolynomial := 7,
                 spi_CRCLength := SPI_CRC_LENGTH_DATASIZE, spi_NSSPMode := SPI_NSS_PULSE_DISABLE\<rparr>\<rparr>;
          let b1 = (if spi_State h0 = HAL_SPI_STATE_RESET then HAL_SPI_MspInit SPI3 b else b);
          h \<leftarrow> or_die (Some (HAL_SPI_Init id h0));
          Some (b1\<lparr>hspi3 := h\<rparr>) }"

definition MX_USART1_UART_Init :: "board_hw \<Rightarrow> board \<Rightarrow> board option" where
  "MX_USART1_UART_Init e b =
     do { let h0 = (huart1 b)\<lparr>uart_Instance := USART1,
                 uart_Init := \<lparr>BaudRate = 115200, WordLength = UART_WORDLENGTH_8B, StopBits = UART_STOPBITS_1,
                   Parity = UART_PARITY_NONE, ui_Mode = UART_MODE_TX_RX, HwFlowCtl = UART_HWCONTROL_NONE,
                   OverSampling = UART_OVERSAMPLING_16, OneBitSampling = UART_ONE_BIT_SAMPLE_DISABLE\<rparr>,
                 AdvancedInit := (AdvancedInit (huart1 b))\<lparr>AdvFeatureInit := UART_ADVFEATURE_NO_INIT\<rparr>\<rparr>;
          let b1 = (if gState h0 = HAL_UART_STATE_RESET then HAL_UART_MspInit USART1 b else b);
          h \<leftarrow> or_die (HAL_UART_Init id (e_rcc e) (b_rcc b1) (e_uart e) h0);
          Some (b1\<lparr>huart1 := h\<rparr>) }"

definition MX_GPIO_Init :: "stack \<Rightarrow> board \<Rightarrow> board" where
  "MX_GPIO_Init s b =
     (let b1 = AHB_enable RCC_AHBENR_GPIOBEN (AHB_enable RCC_AHBENR_GPIOEEN (AHB_enable RCC_AHBENR_GPIOAEN
                 (AHB_enable RCC_AHBENR_GPIOFEN b)));
          b2 = port_write GPIOF (GPIO_PIN_6 OR GPIO_PIN_7) GPIO_PIN_RESET (port_write GPIOA GPIO_PIN_0 GPIO_PIN_RESET b1);
          i1 = (s_gpio s)\<lparr>gi_Pin := ucast GPIO_PIN_0, gi_Mode := GPIO_MODE_OUTPUT_PP, gi_Pull := GPIO_NOPULL,
                 gi_Speed := GPIO_SPEED_FREQ_LOW\<rparr>;
          b3 = port_init GPIOA i1 b2;
          i2 = i1\<lparr>gi_Pin := ucast (GPIO_PIN_6 OR GPIO_PIN_7), gi_Mode := GPIO_MODE_OUTPUT_PP, gi_Pull := GPIO_NOPULL,
                 gi_Speed := GPIO_SPEED_FREQ_LOW\<rparr>;
          b4 = port_init GPIOF i2 b3
      in port_init GPIOB (i2\<lparr>gi_Pin := ucast GPIO_PIN_6, gi_Mode := GPIO_MODE_INPUT, gi_Pull := GPIO_NOPULL\<rparr>) b4)"

definition MX_GPS_Init :: "board \<Rightarrow> board" where
  "MX_GPS_Init b =
     (let t0 = (htim4 b)\<lparr>tim_Instance := TIM4, tim_Init := (tim_Init (htim4 b))\<lparr>Period := 60000 - 1,
                 Prescaler := 1200 - 1, ClockDivision := 0, CounterMode := TIM_COUNTERMODE_UP\<rparr>\<rparr>;
          b1 = (if tim_State t0 = HAL_TIM_STATE_RESET then HAL_TIM_IC_MspInit TIM4 b else b);
          t1 = snd (HAL_TIM_IC_Init id t0);
          t2 = snd (HAL_TIM_IC_ConfigChannel \<lparr>ICPolarity = TIM_ICPOLARITY_RISING, ICSelection = TIM_ICSELECTION_DIRECTTI,
                 ICPrescaler = TIM_ICPSC_DIV1, ICFilter = 0\<rparr> TIM_CHANNEL_1 t1)
      in b1\<lparr>htim4 := snd (HAL_TIM_IC_Start_IT TIM_CHANNEL_1 t2)\<rparr>)"

text \<open>The part of \<^verbatim>\<open>main\<close> before its loop.\<close>
definition main_setup :: "stack \<Rightarrow> board_hw \<Rightarrow> board \<Rightarrow> board option" where
  "main_setup s e b0 =
     do { b1 \<leftarrow> SystemClock_Config s e (board_HAL_Init b0);
          b2 \<leftarrow> MX_SPI3_Init (MX_GPIO_Init s b1);
          b3 \<leftarrow> MX_USART1_UART_Init e b2;
          b4 \<leftarrow> MX_SDADC2_Init s e b3;
          let b5 = MX_GPS_Init b4;
          let b6 = b5\<lparr>frameBuffer := init_OPQ_RunTime (frameBuffer b5)\<rparr>;
          Some (port_write GPIOA GPIO_PIN_0 GPIO_PIN_RESET b6) }"

section \<open>The main loop\<close>

text \<open>The frames in memory: \<open>base\<close> is the address of \<^verbatim>\<open>frameBuffer.frames\<close>.  The SPI driver reads the memory as
  it is when it runs.\<close>
definition frame_addr :: "u32 \<Rightarrow> u8 \<Rightarrow> u32" where
  "frame_addr base i = base + of_nat (sizeof_OPQ_Frame * unat i)"

definition frames_mem :: "u32 \<Rightarrow> OPQ_Frame_Buffer \<Rightarrow> mem \<Rightarrow> mem" where
  "frames_mem base fb m a =
     (let k = unat (a - base); bytes = concat (map frame_bytes (frames fb))
      in if k < length bytes then bytes ! k else m a)"

definition spi_view :: "u32 \<Rightarrow> board \<Rightarrow> spi" where
  "spi_view base b = (hspi3 b)\<lparr>spi_mem := frames_mem base (frameBuffer b) (spi_mem (hspi3 b))\<rparr>"

text \<open>One pass of the loop, run without an interrupt; the interleaved version is \<open>fstep\<close>.\<close>
definition main_pass :: "u32 \<Rightarrow> board \<Rightarrow> board" where
  "main_pass base b =
     (if HAL_SPI_GetState (hspi3 b) = HAL_SPI_STATE_READY \<and> fb_nonempty (frameBuffer b)
      then let h = snd (HAL_SPI_Transmit_IT (frame_addr base (tail (frameBuffer b))) (of_nat sizeof_OPQ_Frame)
                     (spi_view base b))
           in port_write GPIOA GPIO_PIN_0 GPIO_PIN_SET (b\<lparr>hspi3 := h, frameBuffer := fb_pop (frameBuffer b)\<rparr>)
      else b)"

section \<open>Interrupt handlers\<close>

definition SysTick_Handler :: "board \<Rightarrow> board" where
  "SysTick_Handler = on_core HAL_IncTick"

text \<open>The callbacks the firmware defines; the others are the empty ones of the drivers.  An access out of range in
  the callback is \<open>None\<close>.\<close>
definition sdadc_callbacks ::
  "board_hw \<Rightarrow> sd_callback \<Rightarrow> sdadc \<times> OPQ_Frame_Buffer option \<Rightarrow> sdadc \<times> OPQ_Frame_Buffer option" where
  "sdadc_callbacks e k x =
     (let (h, s) = x
      in case k of
           InjectedConvCpltCallback \<Rightarrow>
             let (v, _, h1) = HAL_SDADC_InjectedGetValue (e_sdadc e) h
             in (h1, do { fb \<leftarrow> s; HAL_SDADC_InjectedConvCpltCallback (e_CNT4 e (sd_now h1)) (ucast v) fb })
         | _ \<Rightarrow> (h, s))"

definition SDADC2_IRQHandler :: "board_hw \<Rightarrow> board \<Rightarrow> board option" where
  "SDADC2_IRQHandler e b =
     (let (h, s) = HAL_SDADC_IRQHandler (sdadc_callbacks e) (e_sdadc e) (hsdadc2 b, Some (frameBuffer b))
      in do { fb \<leftarrow> s; Some (b\<lparr>hsdadc2 := h, frameBuffer := fb\<rparr>) })"

definition tim4_callbacks ::
  "board_hw \<Rightarrow> tim_callback \<Rightarrow> tim \<times> OPQ_Frame_Buffer \<Rightarrow> tim \<times> OPQ_Frame_Buffer" where
  "tim4_callbacks e k x =
     (let (h, fb) = x
      in case k of
           IC_CaptureCallback \<Rightarrow>
             let (v, h1) = HAL_TIM_ReadCapturedValue (e_tim4 e) TIM_CHANNEL_1 h in (h1, HAL_TIM_IC_CaptureCallback v fb)
         | _ \<Rightarrow> (h, fb))"

definition TIM4_IRQHandler :: "board_hw \<Rightarrow> board \<Rightarrow> board" where
  "TIM4_IRQHandler e b =
     (let (h, fb) = HAL_TIM_IRQHandler (tim4_callbacks e) (e_tim4 e) (htim4 b, frameBuffer b)
      in b\<lparr>htim4 := h, frameBuffer := fb\<rparr>)"

definition SPI3_IRQHandler :: "u32 \<Rightarrow> board_hw \<Rightarrow> board \<Rightarrow> board option" where
  "SPI3_IRQHandler base e b =
     do { let b1 = (if TxXferSize (hspi3 b) div 2 = TxXferCount (hspi3 b)
                    then port_write GPIOA GPIO_PIN_0 GPIO_PIN_RESET b else b);
          h \<leftarrow> HAL_SPI_IRQHandler (e_spi e) (spi_view base b1);
          Some (b1\<lparr>hspi3 := h\<rparr>) }"

end
