(* ===== verification/Startup.thy ===== *)
theory Startup
  imports Firmware
begin

text \<open>
  What the board looks like after start-up: the clock tree, the interrupt priorities and the sampling path from the
  converter interrupt to the frame buffer.
\<close>

section \<open>Clocks\<close>

lemma rcc_then_OK:
  "rcc_then a b r = Some (HAL_OK, r') \<longleftrightarrow> (\<exists>r1. a r = Some (HAL_OK, r1) \<and> b r1 = Some (HAL_OK, r'))"
  by (auto simp: rcc_then_def split: bind_splits if_splits)

lemma rcc_do_OK [simp]: "rcc_do f r = Some (st, r') \<longleftrightarrow> st = HAL_OK \<and> r' = f r"
  by (auto simp: rcc_do_def)

lemma rcc_wait_OK:
  assumes "rcc_wait hw c T r = Some (HAL_OK, r')"
  shows "\<exists>t>rcc_now r. c t \<and> r' = r\<lparr>rcc_now := Suc t\<rparr>"
proof -
  obtain ok t where w: "wait_beyond (rh_base hw) c T (rcc_now r) = Some (ok, t)"
    using assms unfolding rcc_wait_def by (cases "wait_beyond (rh_base hw) c T (rcc_now r)") auto
  with assms have ok: "ok" and r': "r' = r\<lparr>rcc_now := t\<rparr>" by (simp_all add: rcc_wait_def split: if_splits)
  from w ok obtain n where "Suc (rcc_now r) \<le> n" "t = Suc n" "c n"
    unfolding wait_beyond_def by (auto dest: poll_success)
  with r' show ?thesis by (auto simp: Suc_le_eq)
qed

lemma or_die_Some [simp]: "or_die m = Some x \<longleftrightarrow> m = Some (HAL_OK, x)"
  by (auto simp: or_die_def Error_Handler_def split: bind_splits if_splits)

lemma or_die_OK [simp]: "or_die (Some (HAL_OK, x)) = Some x"
  by simp

lemma or_die_None: "or_die m = None \<longleftrightarrow> m = None \<or> (\<exists>st x. m = Some (st, x) \<and> st \<noteq> HAL_OK)"
  by (cases m) (auto simp: or_die_def Error_Handler_def)

text \<open>On a running tick every call of the clock driver returns.\<close>
definition returns :: "'a option \<Rightarrow> bool" where
  "returns x \<longleftrightarrow> x \<noteq> None"

lemma returns_simps [simp]:
  "returns (Some x)" "returns (rcc_do f r)" "returns (if c then x1 else x2) \<longleftrightarrow> (if c then returns x1 else returns x2)"
  by (simp_all add: returns_def rcc_do_def)

lemma returns_then [simp]: "returns (a r) \<Longrightarrow> (\<And>r. returns (b r)) \<Longrightarrow> returns (rcc_then a b r)"
  by (cases "a r") (auto simp: returns_def rcc_then_def)

lemma returns_wait: "tick_advances (rh_base hw) \<Longrightarrow> T \<noteq> HAL_MAX_DELAY \<Longrightarrow> returns (rcc_wait hw c T r)"
  unfolding returns_def rcc_wait_def using wait_beyond_returns [of "rh_base hw" T c "rcc_now r"] by auto

lemma rcc_timeouts [simp]:
  "HSE_TIMEOUT_VALUE \<noteq> HAL_MAX_DELAY" "HSI_TIMEOUT_VALUE \<noteq> HAL_MAX_DELAY" "LSI_TIMEOUT_VALUE \<noteq> HAL_MAX_DELAY"
  "RCC_LSE_TIMEOUT_VALUE \<noteq> HAL_MAX_DELAY" "PLL_TIMEOUT_VALUE \<noteq> HAL_MAX_DELAY"
  "RCC_DBP_TIMEOUT_VALUE \<noteq> HAL_MAX_DELAY" "CLOCKSWITCH_TIMEOUT_VALUE \<noteq> HAL_MAX_DELAY"
  by (simp_all add: rcc_consts HAL_MAX_DELAY_def)

lemma OscConfig_returns:
  assumes "tick_advances (rh_base hw)"
  shows "returns (HAL_RCC_OscConfig hw s r)"
proof -
  note w [simp] = returns_wait [OF assms]
  have "returns (osc_HSE hw s r)" "returns (osc_HSI hw s r)" "returns (osc_LSI hw s r)" "returns (osc_PLL hw s r)" for r
    by (simp_all add: osc_HSE_def osc_HSI_def osc_LSI_def osc_PLL_def)
  moreover have "returns (rcc_backup_access hw r)" for r by (simp add: rcc_backup_access_def)
  then have "returns (osc_LSE hw s r)" for r by (simp add: osc_LSE_def Let_def)
  ultimately show ?thesis unfolding HAL_RCC_OscConfig_def by simp
qed

lemma ClockConfig_returns:
  assumes "tick_advances (rh_base hw)"
  shows "returns (HAL_RCC_ClockConfig hw s l r)"
proof -
  have "returns (rcc_latency hw f l r)" for f r by (simp add: rcc_latency_def Let_def)
  moreover have "returns (clk_SYSCLK hw s r)" for r using assms by (simp add: clk_SYSCLK_def returns_wait)
  ultimately show ?thesis unfolding HAL_RCC_ClockConfig_def by simp
qed

text \<open>The clock tree as the registers and the environment describe it.\<close>
lemma osc_skipped:
  "osc_HSI hw (RCC_OscInitStruct s) r = Some (HAL_OK, r)" "osc_LSI hw (RCC_OscInitStruct s) r = Some (HAL_OK, r)"
  "osc_LSE hw (RCC_OscInitStruct s) r = Some (HAL_OK, r)"
  by (simp_all add: osc_HSI_def osc_LSI_def osc_LSE_def RCC_OscInitStruct_def rcc_consts)

lemma HSE_CONFIG_BYPASS: "RCC_HSE_CONFIG RCC_HSE_BYPASS r = rcc_set_CR RCC_CR_HSEON (rcc_set_CR RCC_CR_HSEBYP r)"
  by (simp add: RCC_HSE_CONFIG_def) (simp add: rcc_consts)

lemma osc_HSE_result:
  assumes "osc_HSE hw (RCC_OscInitStruct s) r = Some (HAL_OK, r')"
    "rh_SWS hw (rcc_now r) = RCC_SYSCLKSOURCE_STATUS_HSI" "rh_SWS hw (Suc (rcc_now r)) = RCC_SYSCLKSOURCE_STATUS_HSI"
  obtains t where "rcc_now r < t" "rh_ready hw HSERDY t"
    "r' = (RCC_HSE_PREDIV_CONFIG RCC_HSE_PREDIV_DIV1 (RCC_HSE_CONFIG RCC_HSE_BYPASS r))\<lparr>rcc_now := Suc t\<rparr>"
proof -
  have "\<not> rcc_in_use hw RCC_SYSCLKSOURCE_STATUS_HSE RCC_PLLSOURCE_HSE r"
    using assms(2,3) by (simp add: rcc_in_use_def rcc_consts)
  then have "rcc_wait hw (rh_ready hw HSERDY) HSE_TIMEOUT_VALUE
     (RCC_HSE_PREDIV_CONFIG RCC_HSE_PREDIV_DIV1 (RCC_HSE_CONFIG RCC_HSE_BYPASS (rcc_tick 2 r))) = Some (HAL_OK, r')"
    using assms(1) by (simp add: osc_HSE_def RCC_OscInitStruct_def rcc_then_OK) (simp add: rcc_consts)
  from rcc_wait_OK [OF this] obtain t where t: "Suc (Suc (rcc_now r)) < t" "rh_ready hw HSERDY t"
    "r' = (RCC_HSE_PREDIV_CONFIG RCC_HSE_PREDIV_DIV1 (RCC_HSE_CONFIG RCC_HSE_BYPASS (rcc_tick 2 r)))\<lparr>rcc_now := Suc t\<rparr>"
    by (auto simp: HSE_CONFIG_BYPASS RCC_HSE_PREDIV_CONFIG_def rcc_set_CR_def rcc_tick_def)
  show ?thesis
    by (rule that [of t]) (use t in \<open>simp_all add: HSE_CONFIG_BYPASS RCC_HSE_PREDIV_CONFIG_def rcc_set_CR_def rcc_tick_def\<close>)
qed

lemma osc_PLL_result:
  assumes "osc_PLL hw (RCC_OscInitStruct s) r = Some (HAL_OK, r')"
  obtains t where "rcc_now r < t" "rh_ready hw PLLRDY t"
    "r' = (rcc_set_CR RCC_CR_PLLON (RCC_PLL_CONFIG RCC_PLLSOURCE_HSE RCC_PLL_MUL6 (rcc_clear_CR RCC_CR_PLLON r)))\<lparr>rcc_now := Suc t\<rparr>"
proof -
  have "PLLState (PLL (RCC_OscInitStruct s)) \<noteq> RCC_PLL_NONE" "PLLState (PLL (RCC_OscInitStruct s)) = RCC_PLL_ON"
    by (simp_all add: RCC_OscInitStruct_def) (simp add: rcc_consts)
  then obtain r1 where
    r1: "rcc_wait hw (\<lambda>t. \<not> rh_ready hw PLLRDY t) PLL_TIMEOUT_VALUE (rcc_clear_CR RCC_CR_PLLON (rcc_tick 1 r)) = Some (HAL_OK, r1)"
    and r2: "rcc_wait hw (rh_ready hw PLLRDY) PLL_TIMEOUT_VALUE
      (rcc_set_CR RCC_CR_PLLON (RCC_PLL_CONFIG RCC_PLLSOURCE_HSE RCC_PLL_MUL6 r1)) = Some (HAL_OK, r')"
    using assms by (simp add: osc_PLL_def rcc_then_OK RCC_OscInitStruct_def split: if_splits) blast
  from rcc_wait_OK [OF r1] obtain t1 where t1: "Suc (rcc_now r) < t1"
    "r1 = (rcc_clear_CR RCC_CR_PLLON (rcc_tick 1 r))\<lparr>rcc_now := Suc t1\<rparr>"
    by (auto simp: rcc_clear_CR_def rcc_tick_def)
  from rcc_wait_OK [OF r2] obtain t where t: "Suc t1 < t" "rh_ready hw PLLRDY t"
    "r' = (rcc_set_CR RCC_CR_PLLON (RCC_PLL_CONFIG RCC_PLLSOURCE_HSE RCC_PLL_MUL6 r1))\<lparr>rcc_now := Suc t\<rparr>"
    using t1(2) by (auto simp: rcc_macros)
  show ?thesis by (rule that [of t]) (use t1 t in \<open>simp_all add: rcc_macros\<close>)
qed

lemma modify_get_sub: "m' AND m = m' \<Longrightarrow> MODIFY_REG c m v AND m' = v AND m'"
proof -
  assume "m' AND m = m'"
  then have "bit m' i \<Longrightarrow> bit m i" for i by (metis bit_and_iff)
  then show ?thesis by (intro bit_word_eqI) (auto simp: MODIFY_REG_def bit_simps)
qed

lemma modify_get_other: "m' AND m = 0 \<Longrightarrow> v AND m' = 0 \<Longrightarrow> MODIFY_REG c m v AND m' = c AND m'"
proof -
  assume "m' AND m = 0" "v AND m' = 0"
  then have "bit m' i \<Longrightarrow> \<not> bit m i \<and> \<not> bit v i" for i by (metis bit_and_iff bit_0_eq bot_apply bot_bool_def)
  then show ?thesis by (intro bit_word_eqI) (auto simp: MODIFY_REG_def bit_simps)
qed

text \<open>The configuration register after the bus clocks are set, and its fields.\<close>
definition clock_CFGR :: "u32 \<Rightarrow> u32" where
  "clock_CFGR c = MODIFY_REG (MODIFY_REG (MODIFY_REG (MODIFY_REG (MODIFY_REG c
     (RCC_CFGR_PLLMUL OR RCC_CFGR_PLLSRC) (RCC_PLL_MUL6 OR RCC_PLLSOURCE_HSE))
     RCC_CFGR_HPRE RCC_SYSCLK_DIV1) RCC_CFGR_SW RCC_SYSCLKSOURCE_PLLCLK)
     RCC_CFGR_PPRE1 RCC_HCLK_DIV2) RCC_CFGR_PPRE2 (push_bit 3 RCC_HCLK_DIV1)"

lemma clock_CFGR_fields:
  "clock_CFGR c AND RCC_CFGR_PLLMUL = RCC_PLL_MUL6" "clock_CFGR c AND RCC_CFGR_PLLSRC = RCC_PLLSOURCE_HSE"
  "clock_CFGR c AND RCC_CFGR_HPRE = 0" "clock_CFGR c AND RCC_CFGR_SW = RCC_SYSCLKSOURCE_PLLCLK"
  "clock_CFGR c AND RCC_CFGR_PPRE1 = RCC_HCLK_DIV2" "clock_CFGR c AND RCC_CFGR_PPRE2 = 0"
  by (simp_all add: clock_CFGR_def modify_get_sub modify_get_other rcc_consts)

definition full_CFGR :: "u32 \<Rightarrow> u32" where
  "full_CFGR c = MODIFY_REG (clock_CFGR c) RCC_CFGR_SDADCPRE RCC_SDADCSYSCLK_DIV12"

lemma full_CFGR_fields:
  "full_CFGR c AND RCC_CFGR_PLLMUL = RCC_PLL_MUL6" "full_CFGR c AND RCC_CFGR_PLLSRC = RCC_PLLSOURCE_HSE"
  "full_CFGR c AND RCC_CFGR_HPRE = 0" "full_CFGR c AND RCC_CFGR_SW = RCC_SYSCLKSOURCE_PLLCLK"
  "full_CFGR c AND RCC_CFGR_PPRE1 = RCC_HCLK_DIV2" "full_CFGR c AND RCC_CFGR_PPRE2 = 0"
  by (simp_all add: full_CFGR_def clock_CFGR_def modify_get_sub modify_get_other rcc_consts periph_consts
      RCC_SDADCSYSCLK_DIV12_def)

lemma full_CFGR_SDADC: "full_CFGR c AND RCC_CFGR_SDADCPRE = RCC_SDADCSYSCLK_DIV12"
  by (simp add: full_CFGR_def modify_get_sub) (simp add: periph_consts RCC_SDADCSYSCLK_DIV12_def)

text \<open>With these fields and the PLL as the source, the frequencies are those of a 72 MHz system.\<close>
lemma pll_72MHz:
  assumes "rcc_CFGR r = clock_CFGR c \<or> rcc_CFGR r = full_CFGR c" "rcc_CFGR2 r = MODIFY_REG c2 RCC_CFGR2_PREDIV RCC_HSE_PREDIV_DIV1"
    "rh_SWS hw (rcc_now r) = RCC_SYSCLKSOURCE_STATUS_PLLCLK"
  shows "HAL_RCC_GetSysClockFreq hw r = 72000000" "rcc_hclk f r = f"
    "HAL_RCC_GetPCLK1Freq r = drop_bit 1 (SystemCoreClock r)" "HAL_RCC_GetPCLK2Freq r = SystemCoreClock r"
proof -
  have f: "rcc_CFGR r AND RCC_CFGR_PLLMUL = RCC_PLL_MUL6" "rcc_CFGR r AND RCC_CFGR_PLLSRC = RCC_PLLSOURCE_HSE"
    "rcc_CFGR r AND RCC_CFGR_HPRE = 0" "rcc_CFGR r AND RCC_CFGR_PPRE1 = RCC_HCLK_DIV2" "rcc_CFGR r AND RCC_CFGR_PPRE2 = 0"
    using assms(1) by (auto simp: clock_CFGR_fields full_CFGR_fields)
  have "rcc_CFGR2 r AND RCC_CFGR2_PREDIV = 0" using assms(2) by (simp add: modify_get_sub) (simp add: rcc_consts)
  then show "HAL_RCC_GetSysClockFreq hw r = 72000000"
    using assms(3) f by (simp add: HAL_RCC_GetSysClockFreq_def rcc_pll_mul_code_def rcc_prediv_code_def)
      (simp add: rcc_consts aPLLMULFactorTable_def aPredivFactorTable_def)
  show "rcc_hclk f r = f" "HAL_RCC_GetPCLK2Freq r = SystemCoreClock r"
    by (simp_all add: rcc_hclk_def HAL_RCC_GetPCLK2Freq_def HAL_RCC_GetHCLKFreq_def f AHBPrescTable_def APBPrescTable_def)
  show "HAL_RCC_GetPCLK1Freq r = drop_bit 1 (SystemCoreClock r)"
    by (simp add: HAL_RCC_GetPCLK1Freq_def HAL_RCC_GetHCLKFreq_def f) (simp add: RCC_HCLK_DIV2_def APBPrescTable_def)
qed

text \<open>The clock switch of the hardware: it starts on the internal oscillator and keeps the PLL once it is on it.\<close>
definition clock_switch :: "rcc_hw \<Rightarrow> time \<Rightarrow> bool" where
  "clock_switch hw t0 \<longleftrightarrow> rh_SWS hw t0 = RCC_SYSCLKSOURCE_STATUS_HSI \<and> rh_SWS hw (Suc t0) = RCC_SYSCLKSOURCE_STATUS_HSI
     \<and> (\<forall>t t'. t0 \<le> t \<longrightarrow> t \<le> t' \<longrightarrow> rh_SWS hw t = RCC_SYSCLKSOURCE_STATUS_PLLCLK
           \<longrightarrow> rh_SWS hw t' = RCC_SYSCLKSOURCE_STATUS_PLLCLK)"

lemma periph_result:
  "HAL_RCCEx_PeriphCLKConfig hw (PeriphClkInit s) r = Some (HAL_OK,
     r\<lparr>rcc_CFGR3 := MODIFY_REG (rcc_CFGR3 r) RCC_CFGR3_USART1SW RCC_USART1CLKSOURCE_SYSCLK,
       rcc_CFGR := MODIFY_REG (rcc_CFGR r) RCC_CFGR_SDADCPRE RCC_SDADCSYSCLK_DIV12\<rparr>)"
  by (simp add: HAL_RCCEx_PeriphCLKConfig_def PeriphClkInit_def rcc_then_def periph_RTC_def rcc_do_def periph_CFGR3_def
      periph_CFGR_def rcc_modify_CFGR_def Let_def RCC_PERIPHCLK_USART1_def RCC_PERIPHCLK_USART2_def
      RCC_PERIPHCLK_USART3_def RCC_PERIPHCLK_I2C1_def RCC_PERIPHCLK_I2C2_def RCC_PERIPHCLK_ADC1_def
      RCC_PERIPHCLK_CEC_def RCC_PERIPHCLK_SDADC_def RCC_PERIPHCLK_RTC_def RCC_PERIPHCLK_USB_def)

lemma latency_result:
  "rcc_latency hw f l r = Some (HAL_OK, r') \<Longrightarrow> \<exists>a t. r' = r\<lparr>flash_ACR := a, rcc_now := t\<rparr> \<and> rcc_now r < t
     \<and> (f l (rh_ACR hw (rcc_now r) (flash_ACR r) AND FLASH_ACR_LATENCY)
        \<longrightarrow> a = (flash_ACR r AND NOT FLASH_ACR_LATENCY) OR l \<and> rh_ACR hw (Suc (rcc_now r)) a AND FLASH_ACR_LATENCY = l)
     \<and> (\<not> f l (rh_ACR hw (rcc_now r) (flash_ACR r) AND FLASH_ACR_LATENCY) \<longrightarrow> a = flash_ACR r)"
  by (auto simp: rcc_latency_def Let_def rcc_tick_def split: if_splits
      intro: exI [of _ "flash_ACR r"] exI [of _ "Suc (rcc_now r)"] exI [of _ "Suc (Suc (rcc_now r))"])

lemma clk_steps:
  "clk_HCLK RCC_ClkInitStruct r = rcc_modify_CFGR RCC_CFGR_HPRE RCC_SYSCLK_DIV1 r"
  "clk_PCLK1 RCC_ClkInitStruct r = rcc_modify_CFGR RCC_CFGR_PPRE1 RCC_HCLK_DIV2 r"
  "clk_PCLK2 RCC_ClkInitStruct r = rcc_modify_CFGR RCC_CFGR_PPRE2 (push_bit 3 RCC_HCLK_DIV1) r"
  by (simp_all add: clk_HCLK_def clk_PCLK1_def clk_PCLK2_def RCC_ClkInitStruct_def RCC_CLOCKTYPE_SYSCLK_def
      RCC_CLOCKTYPE_HCLK_def RCC_CLOCKTYPE_PCLK1_def RCC_CLOCKTYPE_PCLK2_def)

lemma clk_SYSCLK_result:
  assumes "clk_SYSCLK hw RCC_ClkInitStruct r = Some (HAL_OK, r')"
  obtains t where "rcc_now r < t" "rh_SWS hw t = RCC_SYSCLKSOURCE_STATUS_PLLCLK"
    "r' = (rcc_modify_CFGR RCC_CFGR_SW RCC_SYSCLKSOURCE_PLLCLK r)\<lparr>rcc_now := Suc t\<rparr>"
proof -
  have st: "ClockType RCC_ClkInitStruct AND RCC_CLOCKTYPE_SYSCLK = RCC_CLOCKTYPE_SYSCLK"
    "source_status RCC_SYSCLKSOURCE_PLLCLK = RCC_SYSCLKSOURCE_STATUS_PLLCLK" "SYSCLKSource RCC_ClkInitStruct = RCC_SYSCLKSOURCE_PLLCLK"
    by (simp_all add: RCC_ClkInitStruct_def source_status_def) (simp_all add: rcc_consts)
  have "rcc_wait hw (\<lambda>t. rh_SWS hw t = RCC_SYSCLKSOURCE_STATUS_PLLCLK) CLOCKSWITCH_TIMEOUT_VALUE
      (rcc_modify_CFGR RCC_CFGR_SW RCC_SYSCLKSOURCE_PLLCLK (rcc_tick 1 r)) = Some (HAL_OK, r')"
    using assms by (simp add: clk_SYSCLK_def st split: if_splits)
  from rcc_wait_OK [OF this] obtain t where t: "Suc (rcc_now r) < t" "rh_SWS hw t = RCC_SYSCLKSOURCE_STATUS_PLLCLK"
    "r' = (rcc_modify_CFGR RCC_CFGR_SW RCC_SYSCLKSOURCE_PLLCLK (rcc_tick 1 r))\<lparr>rcc_now := Suc t\<rparr>"
    by (auto simp: rcc_modify_CFGR_def rcc_tick_def)
  show ?thesis by (rule that [of t]) (use t in \<open>simp_all add: rcc_modify_CFGR_def rcc_tick_def\<close>)
qed

lemma osc_result:
  assumes "HAL_RCC_OscConfig hw (RCC_OscInitStruct s) r = Some (HAL_OK, r')" "clock_switch hw (rcc_now r)"
  shows "rcc_CFGR r' = MODIFY_REG (rcc_CFGR r) (RCC_CFGR_PLLMUL OR RCC_CFGR_PLLSRC) (RCC_PLL_MUL6 OR RCC_PLLSOURCE_HSE)"
    "rcc_CFGR2 r' = MODIFY_REG (rcc_CFGR2 r) RCC_CFGR2_PREDIV RCC_HSE_PREDIV_DIV1"
    "rcc_CFGR3 r' = rcc_CFGR3 r" "rcc_core r' = rcc_core r" "rcc_now r < rcc_now r'"
proof -
  obtain r1 where r1: "osc_HSE hw (RCC_OscInitStruct s) r = Some (HAL_OK, r1)"
    and r2: "osc_PLL hw (RCC_OscInitStruct s) r1 = Some (HAL_OK, r')"
    using assms(1) by (auto simp: HAL_RCC_OscConfig_def rcc_then_OK osc_skipped)
  obtain t1 where t1: "rcc_now r < t1"
    "r1 = (RCC_HSE_PREDIV_CONFIG RCC_HSE_PREDIV_DIV1 (RCC_HSE_CONFIG RCC_HSE_BYPASS r))\<lparr>rcc_now := Suc t1\<rparr>"
    using r1 assms(2) unfolding clock_switch_def by (elim osc_HSE_result) auto
  obtain t2 where t2: "rcc_now r1 < t2"
    "r' = (rcc_set_CR RCC_CR_PLLON (RCC_PLL_CONFIG RCC_PLLSOURCE_HSE RCC_PLL_MUL6 (rcc_clear_CR RCC_CR_PLLON r1)))\<lparr>rcc_now := Suc t2\<rparr>"
    using r2 by (rule osc_PLL_result)
  show "rcc_CFGR r' = MODIFY_REG (rcc_CFGR r) (RCC_CFGR_PLLMUL OR RCC_CFGR_PLLSRC) (RCC_PLL_MUL6 OR RCC_PLLSOURCE_HSE)"
    "rcc_CFGR2 r' = MODIFY_REG (rcc_CFGR2 r) RCC_CFGR2_PREDIV RCC_HSE_PREDIV_DIV1"
    "rcc_CFGR3 r' = rcc_CFGR3 r" "rcc_core r' = rcc_core r" "rcc_now r < rcc_now r'"
    using t1 t2 by (simp_all add: HSE_CONFIG_BYPASS rcc_set_CR_def rcc_clear_CR_def rcc_modify_CFGR_def RCC_PLL_CONFIG_def
        RCC_HSE_PREDIV_CONFIG_def)
qed

lemma bus_result:
  assumes "HAL_RCC_ClockConfig hw RCC_ClkInitStruct l r = Some (HAL_OK, r')"
    "\<And>t t'. rcc_now r \<le> t \<Longrightarrow> t \<le> t' \<Longrightarrow> rh_SWS hw t = RCC_SYSCLKSOURCE_STATUS_PLLCLK \<Longrightarrow> rh_SWS hw t' = RCC_SYSCLKSOURCE_STATUS_PLLCLK"
    "rcc_CFGR r = MODIFY_REG c (RCC_CFGR_PLLMUL OR RCC_CFGR_PLLSRC) (RCC_PLL_MUL6 OR RCC_PLLSOURCE_HSE)"
    "rcc_CFGR2 r = MODIFY_REG c2 RCC_CFGR2_PREDIV RCC_HSE_PREDIV_DIV1"
  shows "rcc_CFGR r' = clock_CFGR c" "rcc_CFGR2 r' = rcc_CFGR2 r" "rcc_CFGR3 r' = rcc_CFGR3 r"
    "rcc_core r' = snd (HAL_InitTick 72000000 TICK_INT_PRIORITY (rcc_core r))" "SystemCoreClock r' = 72000000"
    "rh_SWS hw (rcc_now r') = RCC_SYSCLKSOURCE_STATUS_PLLCLK"
proof -
  obtain r1 r2 r3 where r1: "rcc_latency hw (>) l r = Some (HAL_OK, r1)"
    and r2: "clk_SYSCLK hw RCC_ClkInitStruct (rcc_modify_CFGR RCC_CFGR_HPRE RCC_SYSCLK_DIV1 r1) = Some (HAL_OK, r2)"
    and r3: "rcc_latency hw (<) l r2 = Some (HAL_OK, r3)"
    and r': "r' = rcc_new_time_base hw (rcc_modify_CFGR RCC_CFGR_PPRE2 (push_bit 3 RCC_HCLK_DIV1)
      (rcc_modify_CFGR RCC_CFGR_PPRE1 RCC_HCLK_DIV2 r3))" (is "_ = rcc_new_time_base hw ?r4")
    using assms(1) by (auto simp: HAL_RCC_ClockConfig_def rcc_then_OK clk_steps)
  obtain a1 t1 where l1: "r1 = r\<lparr>flash_ACR := a1, rcc_now := t1\<rparr>" "rcc_now r < t1" using latency_result [OF r1] by blast
  obtain t2 where l2: "t1 < t2" "rh_SWS hw t2 = RCC_SYSCLKSOURCE_STATUS_PLLCLK"
    "r2 = (rcc_modify_CFGR RCC_CFGR_SW RCC_SYSCLKSOURCE_PLLCLK (rcc_modify_CFGR RCC_CFGR_HPRE RCC_SYSCLK_DIV1 r1))\<lparr>rcc_now := Suc t2\<rparr>"
    using r2 l1(1) by (elim clk_SYSCLK_result) (simp add: rcc_modify_CFGR_def)
  obtain a3 t3 where l3: "r3 = r2\<lparr>flash_ACR := a3, rcc_now := t3\<rparr>" "Suc t2 < t3"
    using latency_result [OF r3] l2(3) by auto
  have f: "rcc_CFGR ?r4 = clock_CFGR c" "rcc_CFGR2 ?r4 = rcc_CFGR2 r" "rcc_CFGR3 ?r4 = rcc_CFGR3 r"
    "rcc_core ?r4 = rcc_core r" "rcc_now ?r4 = t3"
    using l1 l2(3) l3 assms(3) by (simp_all add: rcc_modify_CFGR_def clock_CFGR_def)
  have sws: "rh_SWS hw t = RCC_SYSCLKSOURCE_STATUS_PLLCLK" if "t3 \<le> t" for t
    using assms(2) [of t2 t] l1(2) l2 l3(2) that by simp
  then have "HAL_RCC_GetSysClockFreq hw ?r4 = 72000000" "rcc_hclk x ?r4 = x" for x
    using pll_72MHz [of ?r4 c c2 hw] f assms(4) by simp_all
  then show "rcc_CFGR r' = clock_CFGR c" "rcc_CFGR2 r' = rcc_CFGR2 r" "rcc_CFGR3 r' = rcc_CFGR3 r"
    "rcc_core r' = snd (HAL_InitTick 72000000 TICK_INT_PRIORITY (rcc_core r))" "SystemCoreClock r' = 72000000"
    "rh_SWS hw (rcc_now r') = RCC_SYSCLKSOURCE_STATUS_PLLCLK"
    using f sws by (simp_all add: r' rcc_new_time_base_def Let_def)
qed

text \<open>The start-up configuration of the clocks.\<close>
lemma clock_result:
  assumes "SystemClock_Config s e b = Some b'" "clock_switch (e_rcc e) (rcc_now (b_rcc b))"
  shows "rcc_CFGR (b_rcc b') = full_CFGR (rcc_CFGR (b_rcc b))"
    "rcc_CFGR2 (b_rcc b') = MODIFY_REG (rcc_CFGR2 (b_rcc b)) RCC_CFGR2_PREDIV RCC_HSE_PREDIV_DIV1"
    "rcc_CFGR3 (b_rcc b') = MODIFY_REG (rcc_CFGR3 (b_rcc b)) RCC_CFGR3_USART1SW RCC_USART1CLKSOURCE_SYSCLK"
    "rcc_core (b_rcc b') = snd (HAL_InitTick 72000000 TICK_INT_PRIORITY (rcc_core (b_rcc b)))"
    "SystemCoreClock (b_rcc b') = 72000000"
    "rh_SWS (e_rcc e) (rcc_now (b_rcc b')) = RCC_SYSCLKSOURCE_STATUS_PLLCLK"
    "b' = b\<lparr>b_rcc := b_rcc b'\<rparr>"
proof -
  obtain r1 r2 where r1: "HAL_RCC_OscConfig (e_rcc e) (RCC_OscInitStruct s) (b_rcc b) = Some (HAL_OK, r1)"
    and r2: "HAL_RCC_ClockConfig (e_rcc e) RCC_ClkInitStruct FLASH_LATENCY_2 r1 = Some (HAL_OK, r2)"
    and b': "b' = b\<lparr>b_rcc := HAL_PWREx_EnableSDADC PWR_SDADC_ANALOG2
      (r2\<lparr>rcc_CFGR3 := MODIFY_REG (rcc_CFGR3 r2) RCC_CFGR3_USART1SW RCC_USART1CLKSOURCE_SYSCLK,
        rcc_CFGR := MODIFY_REG (rcc_CFGR r2) RCC_CFGR_SDADCPRE RCC_SDADCSYSCLK_DIV12\<rparr>)\<rparr>"
    using assms(1) by (auto simp: SystemClock_Config_def periph_result split: bind_splits)
  note o = osc_result [OF r1 assms(2)]
  note c = bus_result [OF r2 _ o(1) o(2)]
  have "rh_SWS (e_rcc e) t' = RCC_SYSCLKSOURCE_STATUS_PLLCLK"
    if "rcc_now r1 \<le> t" "t \<le> t'" "rh_SWS (e_rcc e) t = RCC_SYSCLKSOURCE_STATUS_PLLCLK" for t t'
    using assms(2) o(5) that unfolding clock_switch_def by (meson less_imp_le_nat order_trans)
  note c' = c [OF this]
  show "rcc_CFGR (b_rcc b') = full_CFGR (rcc_CFGR (b_rcc b))"
    "rcc_CFGR2 (b_rcc b') = MODIFY_REG (rcc_CFGR2 (b_rcc b)) RCC_CFGR2_PREDIV RCC_HSE_PREDIV_DIV1"
    "rcc_CFGR3 (b_rcc b') = MODIFY_REG (rcc_CFGR3 (b_rcc b)) RCC_CFGR3_USART1SW RCC_USART1CLKSOURCE_SYSCLK"
    "rcc_core (b_rcc b') = snd (HAL_InitTick 72000000 TICK_INT_PRIORITY (rcc_core (b_rcc b)))"
    "SystemCoreClock (b_rcc b') = 72000000"
    "rh_SWS (e_rcc e) (rcc_now (b_rcc b')) = RCC_SYSCLKSOURCE_STATUS_PLLCLK"
    "b' = b\<lparr>b_rcc := b_rcc b'\<rparr>"
    using c' o by (simp_all add: b' HAL_PWREx_EnableSDADC_def full_CFGR_def)
qed

lemma InitTick_72MHz: "ST_LOAD (snd (HAL_InitTick 72000000 p c)) = 71999"
  by (simp add: HAL_InitTick_def HAL_SYSTICK_Config_def SysTick_Config_def Let_def SysTick_LOAD_RELOAD_Msk_def
      HAL_NVIC_SetPriority_def NVIC_SetPriority_def)

lemma usart1_from_SYSCLK:
  "rcc_CFGR3 r = MODIFY_REG c RCC_CFGR3_USART1SW RCC_USART1CLKSOURCE_SYSCLK \<Longrightarrow>
     uart_clock hw r (UART_GETCLOCKSOURCE r USART1) = Some (HAL_RCC_GetSysClockFreq hw r)"
proof -
  assume "rcc_CFGR3 r = MODIFY_REG c RCC_CFGR3_USART1SW RCC_USART1CLKSOURCE_SYSCLK"
  then have "rcc_CFGR3 r AND RCC_CFGR3_USART1SW = RCC_USART1CLKSOURCE_SYSCLK AND RCC_CFGR3_USART1SW"
    by (simp add: modify_get_sub)
  then show ?thesis by (simp add: uart_clock_def UART_GETCLOCKSOURCE_def) (simp add: uart_consts periph_consts)
qed

section \<open>The converter\<close>

text \<open>The handle as the injected conversions of the firmware need it: started with the interrupt on, waiting for the
  external trigger, and without regular conversions.\<close>
definition sampling :: "sdadc \<Rightarrow> bool" where
  "sampling h \<longleftrightarrow> sd_State h = HAL_SDADC_STATE_INJ \<and> InjectedTrigger h = SDADC_EXTERNAL_TRIGGER
     \<and> \<not> bit (sd_CR1 h) 3 \<and> bit (sd_CR1 h) 1"

definition sd_phase :: "sdadc \<Rightarrow> HAL_SDADC_StateTypeDef \<times> u32 \<times> bool \<times> bool" where
  "sd_phase h = (sd_State h, InjectedTrigger h, bit (sd_CR1 h) 3, bit (sd_CR1 h) 1)"

lemma sd_phase_simps [simp]:
  "sd_phase (h\<lparr>sd_CONFR := v1\<rparr>) = sd_phase h" "sd_phase (h\<lparr>sd_CONFCHR1 := v2\<rparr>) = sd_phase h"
  "sd_phase (h\<lparr>sd_CONFCHR2 := v2\<rparr>) = sd_phase h" "sd_phase (h\<lparr>sd_CR2 := v2\<rparr>) = sd_phase h"
  "sd_phase (h\<lparr>sd_JCHGR := v2\<rparr>) = sd_phase h" "sd_phase (h\<lparr>InjectedContMode := v2\<rparr>) = sd_phase h"
  "sd_phase (h\<lparr>InjectedChannelsNbr := v2\<rparr>) = sd_phase h" "sd_phase (h\<lparr>InjConvRemaining := v2\<rparr>) = sd_phase h"
  "sd_phase (h\<lparr>ExtTriggerEdge := v2\<rparr>) = sd_phase h" "sd_phase (h\<lparr>sd_now := v3\<rparr>) = sd_phase h"
  "sd_phase (h\<lparr>sd_io := v4\<rparr>) = sd_phase h"
  by (simp_all add: sd_phase_def)

lemma init_mode_phase:
  assumes "sd_in_init_mode hw change h = Some (HAL_OK, h')" "\<And>x. sd_phase (change x) = sd_phase x"
  shows "sd_phase h' = sd_phase h"
proof -
  obtain t where h': "h' = SDADC_ExitInitMode (change ((sd_or_CR1 SDADC_CR1_INIT h)\<lparr>sd_now := t\<rparr>))"
    using assms(1) by (rule sd_in_init_mode_cases) simp_all
  define x where "x = change ((sd_or_CR1 SDADC_CR1_INIT h)\<lparr>sd_now := t\<rparr>)"
  have "sd_phase x = sd_phase h"
    unfolding x_def assms(2) by (simp add: sd_phase_def sd_or_CR1_def SDADC_CR1_INIT_def bit_simps)
  then show ?thesis unfolding h' x_def [symmetric]
    by (simp add: sd_phase_def SDADC_ExitInitMode_def sd_clear_CR1_def SDADC_CR1_INIT_def bit_simps)
qed

lemma sdadc_Init_result:
  assumes "HAL_SDADC_Init id hw h = Some (HAL_OK, h')" "IdleLowPowerMode (sd_Init h) = 0" "SlowClockMode (sd_Init h) = 0"
    "sd_Instance h = SDADC2"
  shows "sd_phase h' = (HAL_SDADC_STATE_READY, SDADC_SOFTWARE_TRIGGER, bit (sd_CR1 h) 3, bit (sd_CR1 h) 1)"
  using assms
  by (auto simp: HAL_SDADC_Init_def Let_def sd_refv_def sd_set_refv_def sd_macros bit_simps sd_phase_def
      SDADC_CR1_SBI_def SDADC_CR1_PDI_def SDADC_CR1_SLOWCK_def split: if_splits Option.bind_splits)

lemma sdadc2_setup_sampling:
  assumes "sdadc2_setup hw h = Some h'" "IdleLowPowerMode (sd_Init h) = 0" "SlowClockMode (sd_Init h) = 0"
    "sd_Instance h = SDADC2" "\<not> bit (sd_CR1 h) 3" "\<not> bit (sd_CR1 h) 1"
  shows "sampling h'"
proof -
  obtain h1 h2 h3 h4 h5 h6 h7 h8 where
    h1: "HAL_SDADC_Init id hw h = Some (HAL_OK, h1)" and
    h2: "HAL_SDADC_PrepareChannelConfig hw SDADC_CONF_INDEX_0
        \<lparr>InputMode = SDADC_INPUT_MODE_DIFF, Gain = SDADC_GAIN_1, CommonMode = SDADC_COMMON_MODE_VDDA_2, Offset = 0\<rparr> h1
        = Some (HAL_OK, h2)" and
    h3: "HAL_SDADC_AssociateChannelConfig hw SDADC_CHANNEL_8 SDADC_CONF_INDEX_0 h2 = Some (HAL_OK, h3)" and
    h4: "HAL_SDADC_InjectedConfigChannel SDADC_CHANNEL_8 SDADC_CONTINUOUS_CONV_OFF h3 = (HAL_OK, h4)" and
    h5: "HAL_SDADC_SelectInjectedTrigger SDADC_EXTERNAL_TRIGGER h4 = (HAL_OK, h5)" and
    h6: "HAL_SDADC_SelectInjectedExtTrigger hw SDADC_EXT_TRIG_TIM2_CC3 SDADC_EXT_TRIG_RISING_EDGE h5 = Some (HAL_OK, h6)" and
    h7: "HAL_SDADC_CalibrationStart hw SDADC_CALIBRATION_SEQ_1 h6 = Some (HAL_OK, h7)" and
    h8: "HAL_SDADC_PollForCalibEvent hw HAL_MAX_DELAY h7 = Some (HAL_OK, h8)" and
    h9: "HAL_SDADC_InjectedStart_IT hw h8 = Some (HAL_OK, h')"
    using assms(1) by (auto simp: sdadc2_setup_def split: Option.bind_splits)
  note i = sdadc_Init_result [OF h1 assms(2,3,4)]
  let ?ready = "\<lambda>x tr. sd_phase x = (HAL_SDADC_STATE_READY, tr, False, False)"
  have 1: "?ready h1 SDADC_SOFTWARE_TRIGGER" using i assms(5,6) by simp
  have "sd_in_init_mode hw (\<lambda>h. h\<lparr>sd_CONFR := (sd_CONFR h)(SDADC_CONF_INDEX_0 := SDADC_INPUT_MODE_DIFF OR SDADC_GAIN_1
      OR SDADC_COMMON_MODE_VDDA_2 OR 0)\<rparr>) h1 = Some (HAL_OK, h2)"
    using h2 by (simp add: HAL_SDADC_PrepareChannelConfig_def split: if_splits)
  then have 2: "sd_phase h2 = sd_phase h1" by (rule init_mode_phase) simp
  have "sd_in_init_mode hw (\<lambda>h. h\<lparr>sd_CONFCHR2 := SDADC_CONF_INDEX_0\<rparr>) h2 = Some (HAL_OK, h3)"
    using h3 by (simp add: HAL_SDADC_AssociateChannelConfig_def split: if_splits)
  then have 3: "sd_phase h3 = sd_phase h2" by (rule init_mode_phase) simp
  have 4: "sd_phase h4 = sd_phase h3"
    using h4 by (auto simp: HAL_SDADC_InjectedConfigChannel_def sd_macros Let_def split: if_splits)
  have 5: "?ready h5 SDADC_EXTERNAL_TRIGGER"
    using h5 1 2 3 4 by (auto simp: HAL_SDADC_SelectInjectedTrigger_def sd_phase_def split: if_splits)
  have "sd_in_init_mode hw (\<lambda>h. (sd_or_CR2 SDADC_EXT_TRIG_TIM2_CC3 (sd_clear_CR2 SDADC_CR2_JEXTSEL h))
      \<lparr>ExtTriggerEdge := SDADC_EXT_TRIG_RISING_EDGE\<rparr>) h5 = Some (HAL_OK, h6)"
    using h6 by (simp add: HAL_SDADC_SelectInjectedExtTrigger_def split: if_splits)
  then have 6: "sd_phase h6 = sd_phase h5" by (rule init_mode_phase) (simp add: sd_macros)
  obtain g7 where g7: "sd_in_init_mode hw (\<lambda>h. sd_or_CR2 SDADC_CALIBRATION_SEQ_1 (sd_clear_CR2 SDADC_CR2_CALIBCNT h)) h6 = Some (HAL_OK, g7)"
    "h7 = (sd_or_CR2 SDADC_CR2_STARTCALIB (sd_or_CR1 0 g7))\<lparr>sd_State := HAL_SDADC_STATE_CALIB\<rparr>"
    using h7 by (auto simp: HAL_SDADC_CalibrationStart_def sd_calibrate_def split: if_splits Option.bind_splits)
  have "sd_phase g7 = sd_phase h6" using g7(1) by (rule init_mode_phase) (simp add: sd_macros)
  then have 7: "sd_phase h7 = (HAL_SDADC_STATE_CALIB, SDADC_EXTERNAL_TRIGGER, False, False)"
    using 5 6 by (simp add: g7(2) sd_phase_def sd_macros)
  have 8: "?ready h8 SDADC_EXTERNAL_TRIGGER"
    using h8 7 by (auto simp: HAL_SDADC_PollForCalibEvent_def sd_phase_def sd_macros Let_def split: if_splits Option.bind_splits)
  define g8 where "g8 = (sd_or_CR1 (SDADC_CR1_JEOCIE OR SDADC_CR1_JOVRIE) h8)\<lparr>InjConvRemaining := InjectedChannelsNbr h8\<rparr>"
  have p8: "sd_phase g8 = (HAL_SDADC_STATE_READY, SDADC_EXTERNAL_TRIGGER, False, True)"
    using 8 by (simp add: g8_def sd_phase_def sd_or_CR1_def SDADC_CR1_JEOCIE_def SDADC_CR1_JOVRIE_def bit_simps)
  let ?f = "\<lambda>h. if InjectedTrigger h = SDADC_SYNCHRONOUS_TRIGGER then sd_or_CR1 SDADC_CR1_JSYNC h else sd_or_CR2 (ExtTriggerEdge h) h"
  have "SDADC_EXTERNAL_TRIGGER \<noteq> SDADC_SOFTWARE_TRIGGER" by (simp add: sd_consts)
  then obtain g9 where g9: "sd_in_init_mode hw ?f g8 = Some (HAL_OK, g9)"
    "h' = g9\<lparr>sd_State := (if sd_State g9 = HAL_SDADC_STATE_READY then HAL_SDADC_STATE_INJ else HAL_SDADC_STATE_REG_INJ)\<rparr>"
    using h9 p8 by (auto simp: HAL_SDADC_InjectedStart_IT_def SDADC_InjConvStart_def g8_def sd_phase_def sd_or_CR1_def
        split: if_splits Option.bind_splits)
  have "sd_phase g9 = sd_phase g8"
    using g9(1) by (rule init_mode_phase) (simp add: sd_phase_def sd_macros SDADC_CR1_JSYNC_def bit_simps)
  then show ?thesis using p8 by (simp add: g9(2) sampling_def sd_phase_def)
qed

section \<open>The board during start-up\<close>

lemma on_port_fields [simp]:
  "b_rcc (on_port p f b) = b_rcc b" "hsdadc2 (on_port p f b) = hsdadc2 b" "hspi3 (on_port p f b) = hspi3 b"
  "htim2 (on_port p f b) = htim2 b" "htim4 (on_port p f b) = htim4 b" "huart1 (on_port p f b) = huart1 b"
  "frameBuffer (on_port p f b) = frameBuffer b"
  by (simp_all add: on_port_def Let_def split_def)

lemma on_rcc_fields [simp]:
  "b_rcc (on_rcc g b) = g (b_rcc b)" "hsdadc2 (on_rcc g b) = hsdadc2 b" "hspi3 (on_rcc g b) = hspi3 b"
  "htim2 (on_rcc g b) = htim2 b" "htim4 (on_rcc g b) = htim4 b" "huart1 (on_rcc g b) = huart1 b"
  "frameBuffer (on_rcc g b) = frameBuffer b" "b_gpio (on_rcc g b) = b_gpio b"
  by (simp_all add: on_rcc_def)

lemmas setup_defs = port_init_def port_write_def on_core_def AHB_enable_def APB1_enable_def APB2_enable_def

text \<open>The grouping and the priorities an interrupt controller has.\<close>
definition prio_is :: "core \<Rightarrow> (IRQn_Type \<Rightarrow> u32) \<Rightarrow> bool" where
  "prio_is c f \<longleftrightarrow> NVIC_GetPriorityGrouping c = 3 \<and> (\<forall>irq. irq_valid irq \<longrightarrow> NVIC_GetPriority irq c = f irq)"

lemma prio_is_set:
  assumes "prio_is c f" "irq_valid irq" "p AND 0xF = p"
  shows "prio_is (HAL_NVIC_EnableIRQ i (HAL_NVIC_SetPriority irq p q c)) (f(irq := p))"
proof -
  have t: "take_bit 4 p = p" using assms(3) by (simp add: take_bit_eq_mask mask_eq_exp_minus_1)
  have "NVIC_GetPriority irq' (NVIC_SetPriority irq p c) = (f(irq := p)) irq'" if "irq_valid irq'" for irq'
  proof (cases "irq' = irq")
    case True
    then show ?thesis by (simp add: GetPriority_Set_same t)
  next
    case False
    then show ?thesis using that assms by (simp add: GetPriority_Set_other prio_is_def)
  qed
  moreover have "HAL_NVIC_SetPriority irq p q c = NVIC_SetPriority irq p c"
    using assms(1,3) by (simp add: HAL_SetPriority_group4 prio_is_def)
  ultimately show ?thesis using assms(1) by (simp add: prio_is_def HAL_NVIC_EnableIRQ_def)
qed

lemma prio_is_tick:
  assumes "prio_is c f" "p AND 0xF = p"
  shows "prio_is (snd (HAL_InitTick clk p c)) (f(SysTick_IRQn := p))"
  using assms InitTick_priority [where c = c and clk = clk and p = p] by (auto simp: prio_is_def)

lemma HAL_Init_grouping: "NVIC_GetPriorityGrouping (snd (HAL_Init clk c)) = 3"
  by (simp add: HAL_Init_def HAL_MspInit_def HAL_NVIC_SetPriorityGrouping_def HAL_NVIC_SetPriority_def
      HAL_InitTick_def HAL_SYSTICK_Config_def NVIC_PRIORITYGROUP_4_def Let_def)

lemma prio_is_any: "NVIC_GetPriorityGrouping c = 3 \<Longrightarrow> prio_is c (\<lambda>irq. NVIC_GetPriority irq c)"
  by (simp add: prio_is_def)

text \<open>The fields of the board after each step of the set-up.\<close>
lemma SPI3_Init_result:
  assumes "MX_SPI3_Init b = Some b'"
  shows "hsdadc2 b' = hsdadc2 b" "htim2 b' = htim2 b" "htim4 b' = htim4 b" "frameBuffer b' = frameBuffer b"
    "spi_State (hspi3 b) = HAL_SPI_STATE_RESET \<Longrightarrow> rcc_core (b_rcc b') =
       HAL_NVIC_EnableIRQ SPI3_IRQn (HAL_NVIC_SetPriority SPI3_IRQn 0 0 (rcc_core (b_rcc b)))"
  using assms by (auto simp: MX_SPI3_Init_def HAL_SPI_MspInit_def setup_defs Let_def split: Option.bind_splits)

text \<open>The SPI driver ready for an interrupt-driven transmission of bytes.\<close>
definition spi_idle :: "spi \<Rightarrow> bool" where
  "spi_idle h \<longleftrightarrow> spi_State h = HAL_SPI_STATE_READY \<and> spi_Lock h = HAL_UNLOCKED
     \<and> spi_DataSize (spi_Init h) = SPI_DATASIZE_8BIT \<and> \<not> spi_crc_on h \<and> spi_CR2 h AND SPI_IT_RXNE = 0"

lemma SPI3_Init_idle:
  assumes "MX_SPI3_Init b = Some b'" "spi_State (hspi3 b) = HAL_SPI_STATE_RESET"
  shows "spi_idle (hspi3 b')"
proof -
  obtain h0 where h: "HAL_SPI_Init id h0 = (HAL_OK, hspi3 b')" "spi_State h0 = HAL_SPI_STATE_RESET"
    "spi_DataSize (spi_Init h0) = SPI_DATASIZE_8BIT" "spi_CRCCalculation (spi_Init h0) = SPI_CRCCALCULATION_DISABLE"
    "spi_NSS (spi_Init h0) = 0" "spi_TIMode (spi_Init h0) = 0" "spi_NSSPMode (spi_Init h0) = 0"
    using assms by (auto simp: MX_SPI3_Init_def Let_def fw_spi_consts split: Option.bind_splits)
  then have "hspi3 b' = snd (HAL_SPI_Init id h0)" by simp
  with h(2-) show ?thesis
    by (simp add: HAL_SPI_Init_def spi_idle_def spi_crc_on_def spi_DISABLE_def Let_def) (simp add: spi_consts)
qed

lemma UART_Init_result:
  assumes "MX_USART1_UART_Init e b = Some b'"
  shows "hsdadc2 b' = hsdadc2 b" "htim2 b' = htim2 b" "htim4 b' = htim4 b" "frameBuffer b' = frameBuffer b"
    "hspi3 b' = hspi3 b" "rcc_core (b_rcc b') = rcc_core (b_rcc b)"
  using assms by (auto simp: MX_USART1_UART_Init_def HAL_UART_MspInit_def setup_defs Let_def split: Option.bind_splits)

lemma GPIO_Init_result [simp]:
  "hsdadc2 (MX_GPIO_Init s b) = hsdadc2 b" "htim2 (MX_GPIO_Init s b) = htim2 b" "htim4 (MX_GPIO_Init s b) = htim4 b"
  "frameBuffer (MX_GPIO_Init s b) = frameBuffer b" "hspi3 (MX_GPIO_Init s b) = hspi3 b"
  "rcc_core (b_rcc (MX_GPIO_Init s b)) = rcc_core (b_rcc b)" "huart1 (MX_GPIO_Init s b) = huart1 b"
  by (simp_all add: MX_GPIO_Init_def setup_defs Let_def)

lemma PWM_ConfigChannel_base:
  "tim_PSC (snd (HAL_TIM_PWM_ConfigChannel c TIM_CHANNEL_3 h)) = tim_PSC h"
  "tim_ARR (snd (HAL_TIM_PWM_ConfigChannel c TIM_CHANNEL_3 h)) = tim_ARR h"
proof -
  have "tim_PSC (TIM_OC3_SetConfig c h) = tim_PSC h" "tim_ARR (TIM_OC3_SetConfig c h) = tim_ARR h" for h
    by (simp_all add: TIM_OC3_SetConfig_def Let_def)
  moreover have "TIM_CHANNEL_3 \<noteq> TIM_CHANNEL_1" "TIM_CHANNEL_3 \<noteq> TIM_CHANNEL_2" by (simp_all add: tim_consts)
  ultimately show "tim_PSC (snd (HAL_TIM_PWM_ConfigChannel c TIM_CHANNEL_3 h)) = tim_PSC h"
    "tim_ARR (snd (HAL_TIM_PWM_ConfigChannel c TIM_CHANNEL_3 h)) = tim_ARR h"
    by (simp_all add: HAL_TIM_PWM_ConfigChannel_def tim_locked_def Let_def)
qed

lemma PWM_Init_base:
  "tim_PSC (snd (HAL_TIM_PWM_Init id h)) = Prescaler (tim_Init h)" "tim_ARR (snd (HAL_TIM_PWM_Init id h)) = Period (tim_Init h)"
  "tim_PSC (snd (HAL_TIM_IC_Init id h)) = Prescaler (tim_Init h)" "tim_ARR (snd (HAL_TIM_IC_Init id h)) = Period (tim_Init h)"
proof -
  have "tim_PSC (TIM_Base_SetConfig i h) = Prescaler i" "tim_ARR (TIM_Base_SetConfig i h) = Period i" for i h
    by (simp_all add: TIM_Base_SetConfig_def tim_log_def Let_def)
  then show "tim_PSC (snd (HAL_TIM_PWM_Init id h)) = Prescaler (tim_Init h)"
    "tim_ARR (snd (HAL_TIM_PWM_Init id h)) = Period (tim_Init h)"
    "tim_PSC (snd (HAL_TIM_IC_Init id h)) = Prescaler (tim_Init h)" "tim_ARR (snd (HAL_TIM_IC_Init id h)) = Period (tim_Init h)"
    by (simp_all add: HAL_TIM_PWM_Init_def HAL_TIM_IC_Init_def tim_set_up_def Let_def)
qed

lemma SDADC2_Init_result:
  assumes "MX_SDADC2_Init s e b = Some b'" "\<not> bit (sd_CR1 (hsdadc2 b)) 3" "\<not> bit (sd_CR1 (hsdadc2 b)) 1"
  shows "sampling (hsdadc2 b')" "htim4 b' = htim4 b" "frameBuffer b' = frameBuffer b" "hspi3 b' = hspi3 b"
    "rcc_core (b_rcc b') = HAL_NVIC_EnableIRQ SDADC2_IRQn (HAL_NVIC_SetPriority SDADC2_IRQn 1 0 (rcc_core (b_rcc b)))"
    "tim_running (htim2 b')" "tim_PSC (htim2 b') = 0" "tim_ARR (htim2 b') = 5999"
proof -
  let ?h = "(hsdadc2 (HAL_SDADC_MspInit s SDADC2 b))\<lparr>sd_Instance := SDADC2,
     sd_Init := \<lparr>IdleLowPowerMode = SDADC_LOWPOWER_NONE, FastConversionMode = SDADC_FAST_CONV_DISABLE,
       SlowClockMode = SDADC_SLOW_CLOCK_DISABLE, ReferenceVoltage = SDADC_VREF_EXT\<rparr>,
     RegularContMode := SDADC_CONTINUOUS_CONV_OFF, InjectedContMode := SDADC_CONTINUOUS_CONV_OFF\<rparr>"
  let ?b = "HAL_SDADC_MspInit s SDADC2 b"
  obtain h where h: "sdadc2_setup (e_sdadc e) ?h = Some h"
    and b': "b' = ?b\<lparr>hsdadc2 := h, htim2 := snd (HAL_TIM_PWM_Start TIM_CHANNEL_3 (htim2 ?b))\<rparr>"
    using assms(1) by (auto simp: MX_SDADC2_Init_def HAL_TIM_PWM_Start_def Let_def split: Option.bind_splits)
  have m: "hsdadc2 ?b = hsdadc2 b" "htim4 ?b = htim4 b" "frameBuffer ?b = frameBuffer b" "hspi3 ?b = hspi3 b"
    "rcc_core (b_rcc ?b) = HAL_NVIC_EnableIRQ SDADC2_IRQn (HAL_NVIC_SetPriority SDADC2_IRQn 1 0 (rcc_core (b_rcc b)))"
    by (simp_all add: HAL_SDADC_MspInit_def setup_defs Let_def)
  have t: "tim_PSC (htim2 ?b) = 0" "tim_ARR (htim2 ?b) = 5999"
    by (simp_all add: HAL_SDADC_MspInit_def setup_defs Let_def PWM_ConfigChannel_base PWM_Init_base)
  show "sampling (hsdadc2 b')"
    using sdadc2_setup_sampling [OF h] assms(2,3) by (simp add: b' m fw_sd_consts)
  show "htim4 b' = htim4 b" "frameBuffer b' = frameBuffer b" "hspi3 b' = hspi3 b"
    "rcc_core (b_rcc b') = HAL_NVIC_EnableIRQ SDADC2_IRQn (HAL_NVIC_SetPriority SDADC2_IRQn 1 0 (rcc_core (b_rcc b)))"
    by (simp_all add: b' m)
  show "tim_running (htim2 b')" "tim_PSC (htim2 b') = 0" "tim_ARR (htim2 b') = 5999"
    using t by (simp_all add: b' HAL_TIM_PWM_Start_def tim_ENABLE_def tim_output_on_def TIM_CCxChannelCmd_def tim_running_def
        tim_MOE_ENABLE_def TIM_CR1_CEN_def bit_simps)
qed

lemma GPS_Init_hspi3 [simp]: "hspi3 (MX_GPS_Init b) = hspi3 b"
  by (simp add: MX_GPS_Init_def HAL_TIM_IC_MspInit_def setup_defs Let_def)

lemma GPS_Init_result:
  shows "hsdadc2 (MX_GPS_Init b) = hsdadc2 b" "htim2 (MX_GPS_Init b) = htim2 b" "frameBuffer (MX_GPS_Init b) = frameBuffer b"
    "tim_State (htim4 b) = HAL_TIM_STATE_RESET \<Longrightarrow> rcc_core (b_rcc (MX_GPS_Init b)) =
       HAL_NVIC_EnableIRQ TIM4_IRQn (HAL_NVIC_SetPriority TIM4_IRQn 0 1 (rcc_core (b_rcc b)))"
    "tim_running (htim4 (MX_GPS_Init b))" "tim_PSC (htim4 (MX_GPS_Init b)) = 1199" "tim_ARR (htim4 (MX_GPS_Init b)) = 59999"
proof -
  let ?t = "htim4 (MX_GPS_Init b)"
  show "hsdadc2 (MX_GPS_Init b) = hsdadc2 b" "htim2 (MX_GPS_Init b) = htim2 b" "frameBuffer (MX_GPS_Init b) = frameBuffer b"
    "tim_State (htim4 b) = HAL_TIM_STATE_RESET \<Longrightarrow> rcc_core (b_rcc (MX_GPS_Init b)) =
       HAL_NVIC_EnableIRQ TIM4_IRQn (HAL_NVIC_SetPriority TIM4_IRQn 0 1 (rcc_core (b_rcc b)))"
    by (simp_all add: MX_GPS_Init_def HAL_TIM_IC_MspInit_def setup_defs Let_def)
  show "tim_running ?t" by (simp add: MX_GPS_Init_def HAL_TIM_IC_Start_IT_def Let_def)
  show "tim_PSC ?t = 1199" "tim_ARR ?t = 59999"
    by (simp_all add: MX_GPS_Init_def HAL_TIM_IC_Start_IT_def tim_ENABLE_def TIM_CCxChannelCmd_def tim_ENABLE_IT_def
        HAL_TIM_IC_ConfigChannel_def tim_locked_def TIM_TI1_SetConfig_def HAL_TIM_IC_Init_def tim_set_up_def
        TIM_Base_SetConfig_def tim_log_def Let_def)
qed

text \<open>The board as the reset leaves it, as far as the start-up depends on it.\<close>
definition at_reset :: "board \<Rightarrow> bool" where
  "at_reset b \<longleftrightarrow> spi_State (hspi3 b) = HAL_SPI_STATE_RESET \<and> tim_State (htim4 b) = HAL_TIM_STATE_RESET
     \<and> sd_CR1 (hsdadc2 b) = 0"

lemma HAL_Init_fields [simp]:
  "hsdadc2 (board_HAL_Init b) = hsdadc2 b" "htim2 (board_HAL_Init b) = htim2 b" "htim4 (board_HAL_Init b) = htim4 b"
  "frameBuffer (board_HAL_Init b) = frameBuffer b" "hspi3 (board_HAL_Init b) = hspi3 b"
  "rcc_now (b_rcc (board_HAL_Init b)) = rcc_now (b_rcc b)"
  "NVIC_GetPriorityGrouping (rcc_core (b_rcc (board_HAL_Init b))) = 3"
  by (simp_all add: board_HAL_Init_def setup_defs HAL_Init_grouping Let_def)

lemma main_setup_steps:
  assumes "main_setup s e b0 = Some b"
  obtains b1 b2 b3 b4 where "SystemClock_Config s e (board_HAL_Init b0) = Some b1"
    "MX_SPI3_Init (MX_GPIO_Init s b1) = Some b2" "MX_USART1_UART_Init e b2 = Some b3" "MX_SDADC2_Init s e b3 = Some b4"
    "hsdadc2 b = hsdadc2 (MX_GPS_Init b4)" "htim2 b = htim2 (MX_GPS_Init b4)" "htim4 b = htim4 (MX_GPS_Init b4)"
    "b_rcc b = b_rcc (MX_GPS_Init b4)" "frameBuffer b = init_OPQ_RunTime (frameBuffer b4)" "hspi3 b = hspi3 b4"
  using assms
  by (auto simp: main_setup_def Let_def port_write_def GPS_Init_result(3) split: Option.bind_splits)

lemma main_setup_result:
  assumes "main_setup s e b0 = Some b" "at_reset b0" "clock_switch (e_rcc e) (rcc_now (b_rcc b0))"
  shows "sampling (hsdadc2 b)" "tim_running (htim2 b)" "tim_PSC (htim2 b) = 0" "tim_ARR (htim2 b) = 5999"
    "tim_running (htim4 b)" "tim_PSC (htim4 b) = 1199" "tim_ARR (htim4 b) = 59999"
    "frameBuffer b = init_OPQ_RunTime (frameBuffer b0)" "spi_idle (hspi3 b)"
    "\<exists>f. prio_is (rcc_core (b_rcc b)) (f(SysTick_IRQn := 0, SPI3_IRQn := 0, SDADC2_IRQn := 1, TIM4_IRQn := 0))"
proof -
  from assms(1) obtain b1 b2 b3 b4 where s: "SystemClock_Config s e (board_HAL_Init b0) = Some b1"
    "MX_SPI3_Init (MX_GPIO_Init s b1) = Some b2" "MX_USART1_UART_Init e b2 = Some b3" "MX_SDADC2_Init s e b3 = Some b4"
    and b: "hsdadc2 b = hsdadc2 (MX_GPS_Init b4)" "htim2 b = htim2 (MX_GPS_Init b4)" "htim4 b = htim4 (MX_GPS_Init b4)"
    "b_rcc b = b_rcc (MX_GPS_Init b4)" "frameBuffer b = init_OPQ_RunTime (frameBuffer b4)" "hspi3 b = hspi3 b4"
    by (rule main_setup_steps)
  have "clock_switch (e_rcc e) (rcc_now (b_rcc (board_HAL_Init b0)))" using assms(3) by simp
  note c = clock_result [OF s(1) this]
  have f1: "hsdadc2 b1 = hsdadc2 b0" "htim4 b1 = htim4 b0" "hspi3 b1 = hspi3 b0" "frameBuffer b1 = frameBuffer b0"
    using arg_cong [OF c(7), of hsdadc2] arg_cong [OF c(7), of htim4] arg_cong [OF c(7), of hspi3]
      arg_cong [OF c(7), of frameBuffer] by simp_all
  note r = SPI3_Init_result [OF s(2)] UART_Init_result [OF s(3)]
  have i: "\<not> bit (sd_CR1 (hsdadc2 b3)) 3" "\<not> bit (sd_CR1 (hsdadc2 b3)) 1"
    using r f1 assms(2) by (simp_all add: at_reset_def)
  note a = SDADC2_Init_result [OF s(4) i]
  show "sampling (hsdadc2 b)" "tim_running (htim2 b)" "tim_PSC (htim2 b) = 0" "tim_ARR (htim2 b) = 5999"
    "tim_running (htim4 b)" "tim_PSC (htim4 b) = 1199" "tim_ARR (htim4 b) = 59999"
    "frameBuffer b = init_OPQ_RunTime (frameBuffer b0)" "spi_idle (hspi3 b)"
    using a r f1 b SPI3_Init_idle [OF s(2)] assms(2) [unfolded at_reset_def] GPS_Init_result [of b4] by simp_all
  let ?f = "\<lambda>irq. NVIC_GetPriority irq (rcc_core (b_rcc (board_HAL_Init b0)))"
  have v: "irq_valid SPI3_IRQn" "irq_valid SDADC2_IRQn" "irq_valid TIM4_IRQn" by (simp_all add: irq_valid_def irqn_defs)
  have "prio_is (rcc_core (b_rcc b1)) (?f(SysTick_IRQn := 0))"
    unfolding c(4) TICK_INT_PRIORITY_def by (rule prio_is_tick) (simp_all add: prio_is_any)
  then have "prio_is (rcc_core (b_rcc b3)) (?f(SysTick_IRQn := 0, SPI3_IRQn := 0))"
    using r f1 assms(2) prio_is_set [OF _ v(1)] by (simp add: at_reset_def)
  then have "prio_is (rcc_core (b_rcc b4)) (?f(SysTick_IRQn := 0, SPI3_IRQn := 0, SDADC2_IRQn := 1))"
    unfolding a(5) by (rule prio_is_set [OF _ v(2)]) simp
  then have "prio_is (rcc_core (b_rcc b)) (?f(SysTick_IRQn := 0, SPI3_IRQn := 0, SDADC2_IRQn := 1, TIM4_IRQn := 0))"
    using r f1 a assms(2) GPS_Init_result(4) [of b4] prio_is_set [OF _ v(3)] by (simp add: b at_reset_def)
  then show "\<exists>f. prio_is (rcc_core (b_rcc b)) (f(SysTick_IRQn := 0, SPI3_IRQn := 0, SDADC2_IRQn := 1, TIM4_IRQn := 0))"
    by (rule exI [of _ ?f])
qed

section \<open>The sampling path\<close>

text \<open>The sample of the \<open>k\<close>-th interrupt: the data field of the injected data register when the callback reads it.\<close>
definition sample :: "board_hw \<Rightarrow> time \<Rightarrow> nat \<Rightarrow> u16" where
  "sample e t k = ucast (hw_DR (e_sdadc e) (t + 3 * k + 2) AND SDADC_JDATAR_JDATA)"

text \<open>\<open>n\<close> converter interrupts one after the other.\<close>
fun conversions :: "board_hw \<Rightarrow> nat \<Rightarrow> board \<Rightarrow> board option" where
  "conversions e 0 b = Some b"
| "conversions e (Suc n) b = do { b1 \<leftarrow> conversions e n b; SDADC2_IRQHandler e b1 }"

definition conversion_ready :: "board_hw \<Rightarrow> bool" where
  "conversion_ready e \<longleftrightarrow> (\<forall>t. hw_SR (e_sdadc e) t AND SDADC_ISR_JEOCF = SDADC_ISR_JEOCF)"

lemma SDADC2_IRQHandler_samples:
  assumes "sampling (hsdadc2 b)" "conversion_ready e"
  shows "\<exists>h. SDADC2_IRQHandler e b = do { fb \<leftarrow> HAL_SDADC_InjectedConvCpltCallback (e_CNT4 e (sd_now (hsdadc2 b) + 3))
           (sample e (sd_now (hsdadc2 b)) 0) (frameBuffer b); Some (b\<lparr>hsdadc2 := h, frameBuffer := fb\<rparr>) }
     \<and> sampling h \<and> sd_now h = sd_now (hsdadc2 b) + 3"
proof -
  let ?h = "hsdadc2 b"
  let ?h1 = "sd_drop JDATAR_read (sd_tick (sd_tick ?h))"
  let ?s1 = "HAL_SDADC_InjectedConvCpltCallback (e_CNT4 e (sd_now ?h + 3)) (sample e (sd_now ?h) 0) (frameBuffer b)"
  have "sd_CR1 ?h AND 8 = 0" using pin_bit [of "sd_CR1 ?h" 3] assms(1) by (simp add: sampling_def)
  moreover have "sd_CR1 ?h AND push_bit 1 1 = push_bit 1 1"
    using assms(1) unfolding sampling_def by (auto intro!: bit_word_eqI simp: bit_simps)
  ultimately have m: "sd_CR1 ?h AND SDADC_CR1_REOCIE = 0" "sd_CR1 ?h AND SDADC_CR1_JEOCIE = SDADC_CR1_JEOCIE"
    by (simp_all add: SDADC_CR1_REOCIE_def SDADC_CR1_JEOCIE_def)
  have "sdadc_callbacks e InjectedConvCpltCallback (sd_tick (sd_tick ?h), Some (frameBuffer b)) = (?h1, ?s1)"
    by (simp add: sdadc_callbacks_def HAL_SDADC_InjectedGetValue_def sd_drop_def sd_log_def sd_tick_def sample_def Let_def
        numeral_eq_Suc)
  then have "HAL_SDADC_IRQHandler (sdadc_callbacks e) (e_sdadc e) (?h, Some (frameBuffer b)) = (sd_inj_count ?h1, ?s1)"
    using assms m by (intro irq_external) (simp_all add: conversion_ready_def sampling_def sd_drop_def sd_log_def sd_tick_def)
  moreover have "sampling (sd_inj_count ?h1)" "sd_now (sd_inj_count ?h1) = sd_now ?h + 3"
    using assms(1) by (simp_all add: sampling_def sd_inj_count_def sd_drop_def sd_log_def sd_tick_def Let_def)
  ultimately show ?thesis by (intro exI [of _ "sd_inj_count ?h1"]) (simp add: SDADC2_IRQHandler_def)
qed

lemma conversions_partial:
  assumes "sampling (hsdadc2 b)" "conversion_ready e" "fb_ok (frameBuffer b)"
    "unat (currentSample (frameBuffer b)) + n < FRAME_DATA_COUNT"
  shows "\<exists>h. conversions e n b = Some (b\<lparr>hsdadc2 := h,
      frameBuffer := stored (map (sample e (sd_now (hsdadc2 b))) [0..<n]) (frameBuffer b)\<rparr>)
    \<and> sampling h \<and> sd_now h = sd_now (hsdadc2 b) + 3 * n"
  using assms(4)
proof (induction n)
  case 0
  then show ?case using assms(1) run_callbacks_partial [OF assms(3), of "[]" 0] by (intro exI [of _ "hsdadc2 b"]) simp
next
  case (Suc n)
  let ?vs = "\<lambda>n. map (sample e (sd_now (hsdadc2 b))) [0..<n]"
  from Suc obtain h where h: "conversions e n b = Some (b\<lparr>hsdadc2 := h, frameBuffer := stored (?vs n) (frameBuffer b)\<rparr>)"
    "sampling h" "sd_now h = sd_now (hsdadc2 b) + 3 * n" by auto
  have v: "sample e (sd_now h) 0 = sample e (sd_now (hsdadc2 b)) n" by (simp add: sample_def h(3))
  have "HAL_SDADC_InjectedConvCpltCallback c (sample e (sd_now h) 0) (stored (?vs n) (frameBuffer b))
      = Some (stored (?vs (Suc n)) (frameBuffer b))" for c
    using run_callbacks_partial [OF assms(3), of "?vs (Suc n)" c] run_callbacks_partial [OF assms(3), of "?vs n" c] Suc.prems
    by (simp add: run_callbacks_append v split: Option.bind_splits)
  with SDADC2_IRQHandler_samples [of "b\<lparr>hsdadc2 := h, frameBuffer := stored (?vs n) (frameBuffer b)\<rparr>" e]
  show ?case using h assms(2) by auto
qed

lemma conversions_cycle:
  assumes "sampling (hsdadc2 b)" "conversion_ready e" "fb_between (frameBuffer b)"
  shows "\<exists>h. conversions e 200 b = Some (b\<lparr>hsdadc2 := h, frameBuffer := (frameBuffer b)
      \<lparr>frames := (frames (frameBuffer b))[unat (head (frameBuffer b)) := cycle_frame (e_CNT4 e (sd_now (hsdadc2 b) + 600))
          (map (sample e (sd_now (hsdadc2 b))) [0..<200]) (frameBuffer b)],
        head := fb_next (head (frameBuffer b)), gps_pulse_flag := 0\<rparr>\<rparr>)
    \<and> sampling h \<and> sd_now h = sd_now (hsdadc2 b) + 600"
proof -
  let ?vs = "\<lambda>n. map (sample e (sd_now (hsdadc2 b))) [0..<n]"
  have ok: "fb_ok (frameBuffer b)" "currentSample (frameBuffer b) = 0" using assms(3) by (simp_all add: fb_between_def)
  obtain h where h: "conversions e 199 b = Some (b\<lparr>hsdadc2 := h, frameBuffer := stored (?vs 199) (frameBuffer b)\<rparr>)"
    "sampling h" "sd_now h = sd_now (hsdadc2 b) + 597"
    using conversions_partial [OF assms(1,2) ok(1), of 199] ok(2) by (auto simp: FRAME_DATA_COUNT_def)
  have v: "sample e (sd_now h) 0 = sample e (sd_now (hsdadc2 b)) 199" by (simp add: sample_def h(3))
  have s: "?vs 200 = ?vs 199 @ [sample e (sd_now (hsdadc2 b)) 199]" using upt_Suc_append [of 0 199] by simp
  let ?cnt = "e_CNT4 e (sd_now h + 3)"
  have "run_callbacks ?cnt (?vs 199) (frameBuffer b) = Some (stored (?vs 199) (frameBuffer b))"
    using run_callbacks_partial [OF ok(1), of "?vs 199"] ok(2) by (simp add: FRAME_DATA_COUNT_def)
  moreover have "length (?vs 200) = FRAME_DATA_COUNT" by (simp add: FRAME_DATA_COUNT_def)
  note cycle_result [OF ok this, of ?cnt]
  ultimately have "HAL_SDADC_InjectedConvCpltCallback ?cnt (sample e (sd_now h) 0) (stored (?vs 199) (frameBuffer b))
     = Some ((frameBuffer b)\<lparr>frames := (frames (frameBuffer b))[unat (head (frameBuffer b)) := cycle_frame ?cnt (?vs 200) (frameBuffer b)],
        head := fb_next (head (frameBuffer b)), gps_pulse_flag := 0\<rparr>)"
    unfolding s v by (simp add: run_callbacks_append split: Option.bind_splits)
  moreover have "conversions e 200 b = SDADC2_IRQHandler e (b\<lparr>hsdadc2 := h, frameBuffer := stored (?vs 199) (frameBuffer b)\<rparr>)"
    using h(1) conversions.simps(2) [of e 199 b] by simp
  ultimately show ?thesis
    using SDADC2_IRQHandler_samples [of "b\<lparr>hsdadc2 := h, frameBuffer := stored (?vs 199) (frameBuffer b)\<rparr>" e] h assms(2)
    by (auto simp: add.assoc)
qed

section \<open>A concrete start-up\<close>

text \<open>An environment in which every peripheral answers at once: the PLL locks at instant 8, the clock switch follows at
  instant 9, the converter and the UART are ready when asked and a conversion is always complete.\<close>
definition ex_clock_hw :: rcc_hw where
  "ex_clock_hw = ex_rcc_hw\<lparr>rh_ready := (\<lambda>f t. f \<noteq> PLLRDY \<or> 8 \<le> t),
     rh_SWS := (\<lambda>t. if t < 9 then RCC_SYSCLKSOURCE_STATUS_HSI else RCC_SYSCLKSOURCE_STATUS_PLLCLK)\<rparr>"

lemma ex_clock_switch: "clock_switch ex_clock_hw 0"
  by (auto simp: clock_switch_def ex_clock_hw_def rcc_consts split: if_splits)

lemma ex_clock_ticks: "tick_advances (rh_base ex_clock_hw)"
  by (simp add: ex_clock_hw_def ex_rcc_hw_def ticking_hw_advances)

lemma rcc_wait_now: "c (Suc (rcc_now r)) \<Longrightarrow> rcc_wait hw c T r = Some (HAL_OK, r\<lparr>rcc_now := Suc (Suc (rcc_now r))\<rparr>)"
  by (simp add: rcc_wait_def wait_beyond_def)

lemma ex_clock_hw_simps:
  "rh_ready ex_clock_hw f t \<longleftrightarrow> f \<noteq> PLLRDY \<or> 8 \<le> t" "rh_ACR ex_clock_hw t v = v"
  "rh_SWS ex_clock_hw t = (if t < 9 then RCC_SYSCLKSOURCE_STATUS_HSI else RCC_SYSCLKSOURCE_STATUS_PLLCLK)"
  by (simp_all add: ex_clock_hw_def ex_rcc_hw_def)

lemma ex_osc:
  assumes "rcc_now r = 0"
  shows "\<exists>r'. HAL_RCC_OscConfig ex_clock_hw (RCC_OscInitStruct s) r = Some (HAL_OK, r') \<and> rcc_now r' = 9 \<and> flash_ACR r' = flash_ACR r"
proof -
  have "\<exists>r'. osc_HSE ex_clock_hw (RCC_OscInitStruct s) r = Some (HAL_OK, r') \<and> rcc_now r' = 4 \<and> flash_ACR r' = flash_ACR r"
    using assms
    by (simp add: osc_HSE_def RCC_OscInitStruct_def rcc_then_def rcc_do_def rcc_in_use_def ex_clock_hw_simps rcc_wait_now
        HSE_CONFIG_BYPASS rcc_set_CR_def RCC_HSE_PREDIV_CONFIG_def rcc_tick_def)
      (simp add: rcc_consts)
  moreover have "\<exists>r'. osc_PLL ex_clock_hw (RCC_OscInitStruct s) r = Some (HAL_OK, r') \<and> rcc_now r' = 9 \<and> flash_ACR r' = flash_ACR r"
    if "rcc_now r = 4" for r
    using that
    by (simp add: osc_PLL_def RCC_OscInitStruct_def rcc_then_def rcc_do_def ex_clock_hw_simps rcc_wait_now
        RCC_PLL_CONFIG_def rcc_modify_CFGR_def rcc_set_CR_def rcc_clear_CR_def rcc_tick_def)
      (simp add: rcc_consts)
  ultimately show ?thesis by (fastforce simp: HAL_RCC_OscConfig_def rcc_then_OK osc_skipped)
qed

lemma ex_bus:
  assumes "rcc_now r = 9" "flash_ACR r = 0x10"
  shows "\<exists>r'. HAL_RCC_ClockConfig ex_clock_hw RCC_ClkInitStruct FLASH_LATENCY_2 r = Some (HAL_OK, r')"
proof -
  have st: "ClockType RCC_ClkInitStruct AND RCC_CLOCKTYPE_SYSCLK = RCC_CLOCKTYPE_SYSCLK"
    "source_status (SYSCLKSource RCC_ClkInitStruct) = RCC_SYSCLKSOURCE_STATUS_PLLCLK"
    "source_flag (SYSCLKSource RCC_ClkInitStruct) = PLLRDY"
    by (simp_all add: RCC_ClkInitStruct_def source_status_def source_flag_def rcc_consts)
  have "rcc_latency ex_clock_hw (>) FLASH_LATENCY_2 r = Some (HAL_OK, r\<lparr>flash_ACR := 0x12, rcc_now := 11\<rparr>)"
    using assms by (simp add: rcc_latency_def ex_clock_hw_simps rcc_consts rcc_tick_def Let_def)
  moreover have "rcc_latency ex_clock_hw (<) FLASH_LATENCY_2 r' = Some (HAL_OK, rcc_tick 1 r')" if "flash_ACR r' = 0x12" for r'
    using that by (simp add: rcc_latency_def ex_clock_hw_simps rcc_consts)
  moreover have "clk_SYSCLK ex_clock_hw RCC_ClkInitStruct r' = Some (HAL_OK,
      (rcc_modify_CFGR RCC_CFGR_SW (SYSCLKSource RCC_ClkInitStruct) r')\<lparr>rcc_now := 14\<rparr>)" if "rcc_now r' = 11" for r'
    using that by (simp add: clk_SYSCLK_def st ex_clock_hw_simps rcc_wait_now rcc_modify_CFGR_def rcc_tick_def)
  ultimately show ?thesis
    by (simp add: HAL_RCC_ClockConfig_def rcc_then_def rcc_do_def clk_steps rcc_modify_CFGR_def)
qed

definition ex_main_hw :: board_hw where
  "ex_main_hw = \<lparr>e_rcc = ex_clock_hw, e_sdadc = \<lparr>hw_tick = of_nat, hw_SR = (\<lambda>_. 0x80000003), hw_DR = of_nat\<rparr>, e_spi = ex_hw,
     e_uart = ticking_hw (- 1), e_tim4 = \<lparr>th_SR = (\<lambda>_. 0), th_CCR = (\<lambda>_ _. 0)\<rparr>, e_CNT4 = of_nat\<rparr>"

definition ex_stack :: stack where
  "ex_stack = \<lparr>s_osc = HAL_RCC_GetOscConfig ex_rcc,
     s_periph = \<lparr>PeriphClockSelection = 0, RTCClockSelection = 0, Usart1ClockSelection = 0, Usart2ClockSelection = 0,
       Usart3ClockSelection = 0, I2c1ClockSelection = 0, I2c2ClockSelection = 0, Adc1ClockSelection = 0,
       SdadcClockSelection = 0, CecClockSelection = 0, USBClockSelection = 0\<rparr>,
     s_gpio = \<lparr>gi_Pin = 0, gi_Mode = 0, gi_Pull = 0, gi_Speed = 0, gi_Alternate = 0\<rparr>\<rparr>"

definition ex_board :: board where
  "ex_board = \<lparr>b_rcc = ex_rcc\<lparr>rcc_CFGR := 0, rcc_CFGR3 := 0, SystemCoreClock := HSI_VALUE\<rparr>,
     b_gpio = (\<lambda>_. fst ex_gpio), b_exti = snd ex_gpio, hsdadc2 = ex_sdadc,
     hspi3 = ex_spi\<lparr>spi_CR2 := 0, spi_State := HAL_SPI_STATE_RESET\<rparr>,
     htim2 = ex_tim\<lparr>tim_CR1 := 0, tim_CCER := 0, tim_State := HAL_TIM_STATE_RESET\<rparr>,
     htim4 = ex_tim\<lparr>tim_CR1 := 0, tim_CCER := 0, tim_State := HAL_TIM_STATE_RESET\<rparr>,
     huart1 = ex_uart\<lparr>gState := HAL_UART_STATE_RESET\<rparr>, frameBuffer = ex_fb\<rparr>"

lemma ex_board_reset: "at_reset ex_board" "rcc_now (b_rcc ex_board) = 0" "clock_switch (e_rcc ex_main_hw) (rcc_now (b_rcc ex_board))"
  using ex_clock_switch by (simp_all add: at_reset_def ex_board_def ex_tim_def ex_sdadc_def ex_main_hw_def ex_rcc_def)

lemma ex_clock: "\<exists>b. SystemClock_Config s ex_main_hw (board_HAL_Init ex_board) = Some b"
proof -
  have "rcc_now (b_rcc (board_HAL_Init ex_board)) = 0" by (simp add: ex_board_reset)
  from ex_osc [OF this, of s] obtain r1 where
    r1: "HAL_RCC_OscConfig ex_clock_hw (RCC_OscInitStruct s) (b_rcc (board_HAL_Init ex_board)) = Some (HAL_OK, r1)"
    "rcc_now r1 = 9" "flash_ACR r1 = flash_ACR (b_rcc (board_HAL_Init ex_board))" by blast
  moreover have "flash_ACR (b_rcc (board_HAL_Init ex_board)) = 0x10"
    by (simp add: board_HAL_Init_def setup_defs ex_board_def ex_rcc_def FLASH_ACR_PRFTBE_def Let_def)
  ultimately obtain r2 where "HAL_RCC_ClockConfig ex_clock_hw RCC_ClkInitStruct FLASH_LATENCY_2 r1 = Some (HAL_OK, r2)"
    using ex_bus by fastforce
  with r1(1) show ?thesis by (simp add: SystemClock_Config_def periph_result ex_main_hw_def)
qed

lemma ex_mode:
  "sd_in_init_mode (e_sdadc ex_main_hw) change h =
     Some (HAL_OK, SDADC_ExitInitMode (change ((sd_or_CR1 SDADC_CR1_INIT h)\<lparr>sd_now := Suc (Suc (sd_now h))\<rparr>)))"
  by (simp add: sd_in_init_mode_def SDADC_EnterInitMode_def wait_beyond_def ex_main_hw_def sd_or_CR1_def SDADC_ISR_INITRDY_def)

lemma ex_sdadc_setup:
  assumes "sd_Instance h = SDADC2" "sd1_CR1 h = 0" "ReferenceVoltage (sd_Init h) = 0"
  shows "\<exists>h'. sdadc2_setup (e_sdadc ex_main_hw) h = Some h'"
proof -
  let ?hw = "e_sdadc ex_main_hw"
  let ?rdy = "\<lambda>h. sd_State h = HAL_SDADC_STATE_READY \<and> sd_Instance h = SDADC2"
  note m = ex_mode SDADC_ExitInitMode_def sd_macros
  have 1: "\<exists>h'. HAL_SDADC_Init id ?hw h = Some (HAL_OK, h') \<and> ?rdy h'"
    using assms by (simp add: HAL_SDADC_Init_def Let_def sd_refv_def sd_macros ex_main_hw_def SDADC_ISR_STABIP_def)
  have 2: "\<exists>h'. HAL_SDADC_PrepareChannelConfig ?hw i p h = Some (HAL_OK, h') \<and> ?rdy h'" if "?rdy h" for h i p
    using that by (simp add: HAL_SDADC_PrepareChannelConfig_def m)
  have 3: "\<exists>h'. HAL_SDADC_AssociateChannelConfig ?hw SDADC_CHANNEL_8 i h = Some (HAL_OK, h') \<and> ?rdy h'" if "?rdy h" for h i
    using that by (simp add: HAL_SDADC_AssociateChannelConfig_def m)
  have 4: "\<exists>h'. HAL_SDADC_InjectedConfigChannel c k h = (HAL_OK, h') \<and> ?rdy h'" if "?rdy h" for h c k
    using that by (simp add: HAL_SDADC_InjectedConfigChannel_def sd_configurable_def sd_macros Let_def)
  have 5: "\<exists>h'. HAL_SDADC_SelectInjectedTrigger c h = (HAL_OK, h') \<and> ?rdy h'" if "?rdy h" for h c
    using that by (simp add: HAL_SDADC_SelectInjectedTrigger_def)
  have 6: "\<exists>h'. HAL_SDADC_SelectInjectedExtTrigger ?hw c k h = Some (HAL_OK, h') \<and> ?rdy h'" if "?rdy h" for h c k
    using that by (simp add: HAL_SDADC_SelectInjectedExtTrigger_def m)
  have 7: "\<exists>h'. HAL_SDADC_CalibrationStart ?hw c h = Some (HAL_OK, h') \<and> sd_State h' = HAL_SDADC_STATE_CALIB" if "?rdy h" for h c
    using that by (simp add: HAL_SDADC_CalibrationStart_def sd_calibrate_def m)
  have 8: "\<exists>h'. HAL_SDADC_PollForCalibEvent ?hw T h = Some (HAL_OK, h') \<and> sd_State h' = HAL_SDADC_STATE_READY"
    if "sd_State h = HAL_SDADC_STATE_CALIB" for h T
    using that by (simp add: HAL_SDADC_PollForCalibEvent_def wait_beyond_def ex_main_hw_def SDADC_ISR_EOCALF_def sd_macros)
  have 9: "\<exists>h'. HAL_SDADC_InjectedStart_IT ?hw h = Some (HAL_OK, h')" if "sd_State h = HAL_SDADC_STATE_READY" for h
    using that by (simp add: HAL_SDADC_InjectedStart_IT_def SDADC_InjConvStart_def m Let_def)
  obtain h1 where h1: "HAL_SDADC_Init id ?hw h = Some (HAL_OK, h1)" "?rdy h1" using 1 by blast
  obtain h2 where h2: "HAL_SDADC_PrepareChannelConfig ?hw SDADC_CONF_INDEX_0 \<lparr>InputMode = SDADC_INPUT_MODE_DIFF,
      Gain = SDADC_GAIN_1, CommonMode = SDADC_COMMON_MODE_VDDA_2, Offset = 0\<rparr> h1 = Some (HAL_OK, h2)" "?rdy h2"
    using 2 [OF h1(2)] by blast
  obtain h3 where h3: "HAL_SDADC_AssociateChannelConfig ?hw SDADC_CHANNEL_8 SDADC_CONF_INDEX_0 h2 = Some (HAL_OK, h3)" "?rdy h3"
    using 3 [OF h2(2)] by blast
  obtain h4 where h4: "HAL_SDADC_InjectedConfigChannel SDADC_CHANNEL_8 SDADC_CONTINUOUS_CONV_OFF h3 = (HAL_OK, h4)" "?rdy h4"
    using 4 [OF h3(2)] by blast
  obtain h5 where h5: "HAL_SDADC_SelectInjectedTrigger SDADC_EXTERNAL_TRIGGER h4 = (HAL_OK, h5)" "?rdy h5"
    using 5 [OF h4(2)] by blast
  obtain h6 where h6: "HAL_SDADC_SelectInjectedExtTrigger ?hw SDADC_EXT_TRIG_TIM2_CC3 SDADC_EXT_TRIG_RISING_EDGE h5 = Some (HAL_OK, h6)"
    "?rdy h6" using 6 [OF h5(2)] by blast
  obtain h7 where h7: "HAL_SDADC_CalibrationStart ?hw SDADC_CALIBRATION_SEQ_1 h6 = Some (HAL_OK, h7)" "sd_State h7 = HAL_SDADC_STATE_CALIB"
    using 7 [OF h6(2)] by blast
  obtain h8 where h8: "HAL_SDADC_PollForCalibEvent ?hw HAL_MAX_DELAY h7 = Some (HAL_OK, h8)" "sd_State h8 = HAL_SDADC_STATE_READY"
    using 8 [OF h7(2)] by blast
  obtain h9 where h9: "HAL_SDADC_InjectedStart_IT ?hw h8 = Some (HAL_OK, h9)" using 9 [OF h8(2)] by blast
  show ?thesis by (simp add: sdadc2_setup_def h1 h2 h3 h4 h5 h6 h7 h8 h9)
qed

lemma ex_idle: "\<exists>h'. UART_CheckIdleState (e_uart ex_main_hw) h = Some (HAL_OK, h')"
proof -
  have "UART_WaitOnFlagUntilTimeout (e_uart ex_main_hw) f True T h = Some (HAL_OK, h\<lparr>uart_now := Suc (Suc (uart_now h))\<rparr>)" for f T h
    by (simp add: UART_WaitOnFlagUntilTimeout_def wait_beyond_def ex_main_hw_def ticking_hw_def)
  then show ?thesis by (simp add: UART_CheckIdleState_def Let_def)
qed

lemma ex_uart_init:
  assumes "rcc_CFGR3 (b_rcc b) = MODIFY_REG c RCC_CFGR3_USART1SW RCC_USART1CLKSOURCE_SYSCLK"
  shows "\<exists>b'. MX_USART1_UART_Init ex_main_hw b = Some b'"
proof -
  have "rcc_CFGR3 (b_rcc (HAL_UART_MspInit USART1 b)) = rcc_CFGR3 (b_rcc b)"
    by (simp add: HAL_UART_MspInit_def setup_defs)
  note clk = usart1_from_SYSCLK [OF assms] usart1_from_SYSCLK [OF this [unfolded assms]]
  have i: "\<exists>h'. HAL_UART_Init id rhw r (e_uart ex_main_hw) h = Some (HAL_OK, h')"
    if "uart_clock rhw r (UART_GETCLOCKSOURCE r USART1) = Some f" "uart_Instance h = USART1"
      "OverSampling (uart_Init h) \<noteq> UART_OVERSAMPLING_8" for rhw r f h
  proof -
    define g where "g = uart_DISABLE ((if gState h = HAL_UART_STATE_RESET then id (h\<lparr>uart_Lock := HAL_UNLOCKED\<rparr>) else h)
      \<lparr>gState := HAL_UART_STATE_BUSY\<rparr>)"
    have "uart_Instance g = USART1" "OverSampling (uart_Init g) \<noteq> UART_OVERSAMPLING_8"
      using that(2,3) by (simp_all add: g_def uart_DISABLE_def)
    then have "fst (UART_SetConfig rhw r g) = HAL_OK" using that(1) by (simp add: UART_SetConfig_def Let_def)
    then show ?thesis
      using ex_idle unfolding HAL_UART_Init_def uart_set_up_def Let_def g_def [symmetric]
      by (cases "UART_SetConfig rhw r g") simp
  qed
  define h0 where "h0 = (huart1 b)\<lparr>uart_Instance := USART1,
     uart_Init := \<lparr>BaudRate = 115200, WordLength = UART_WORDLENGTH_8B, StopBits = UART_STOPBITS_1,
       Parity = UART_PARITY_NONE, ui_Mode = UART_MODE_TX_RX, HwFlowCtl = UART_HWCONTROL_NONE,
       OverSampling = UART_OVERSAMPLING_16, OneBitSampling = UART_ONE_BIT_SAMPLE_DISABLE\<rparr>,
     AdvancedInit := (AdvancedInit (huart1 b))\<lparr>AdvFeatureInit := UART_ADVFEATURE_NO_INIT\<rparr>\<rparr>"
  have "uart_Instance h0 = USART1" "OverSampling (uart_Init h0) \<noteq> UART_OVERSAMPLING_8"
    by (simp_all add: h0_def uart_consts)
  then obtain h1 h2 where
    "HAL_UART_Init id (e_rcc ex_main_hw) (b_rcc (HAL_UART_MspInit USART1 b)) (e_uart ex_main_hw) h0 = Some (HAL_OK, h1)"
    "HAL_UART_Init id (e_rcc ex_main_hw) (b_rcc b) (e_uart ex_main_hw) h0 = Some (HAL_OK, h2)"
    using i clk by meson
  then show ?thesis unfolding MX_USART1_UART_Init_def Let_def h0_def [symmetric] by simp
qed

lemma ex_main: "\<exists>b. main_setup ex_stack ex_main_hw ex_board = Some b"
proof -
  obtain b1 where b1: "SystemClock_Config ex_stack ex_main_hw (board_HAL_Init ex_board) = Some b1" using ex_clock by blast
  note c = clock_result [OF b1]
  have sw: "clock_switch (e_rcc ex_main_hw) (rcc_now (b_rcc (board_HAL_Init ex_board)))" using ex_board_reset(3) by simp
  obtain b2 where b2: "MX_SPI3_Init (MX_GPIO_Init ex_stack b1) = Some b2" "rcc_CFGR3 (b_rcc b2) = rcc_CFGR3 (b_rcc b1)"
    by (auto simp: MX_SPI3_Init_def HAL_SPI_Init_def HAL_SPI_MspInit_def MX_GPIO_Init_def setup_defs Let_def)
  obtain b3 where b3: "MX_USART1_UART_Init ex_main_hw b2 = Some b3"
    using ex_uart_init [of b2] b2(2) c(3) [OF sw] by auto
  have "hsdadc2 b3 = ex_sdadc"
    using UART_Init_result(1) [OF b3] SPI3_Init_result(1) [OF b2(1)] arg_cong [OF c(7) [OF sw], of hsdadc2]
    by (simp add: ex_board_def)
  then have m: "hsdadc2 (HAL_SDADC_MspInit ex_stack SDADC2 b3) = ex_sdadc"
    by (simp add: HAL_SDADC_MspInit_def setup_defs Let_def)
  have "\<exists>b4. MX_SDADC2_Init ex_stack ex_main_hw b3 = Some b4"
    using ex_sdadc_setup [of "ex_sdadc\<lparr>sd_Instance := SDADC2,
      sd_Init := \<lparr>IdleLowPowerMode = SDADC_LOWPOWER_NONE, FastConversionMode = SDADC_FAST_CONV_DISABLE,
        SlowClockMode = SDADC_SLOW_CLOCK_DISABLE, ReferenceVoltage = SDADC_VREF_EXT\<rparr>,
      RegularContMode := SDADC_CONTINUOUS_CONV_OFF, InjectedContMode := SDADC_CONTINUOUS_CONV_OFF\<rparr>"]
    by (auto simp: MX_SDADC2_Init_def m Let_def HAL_TIM_PWM_Start_def SDADC_VREF_EXT_def ex_sdadc_def)
  then show ?thesis using b1 b2 b3 by (auto simp: main_setup_def Let_def)
qed

section \<open>Properties\<close>

text \<open>C28: the start-up configuration of the clocks either ends in the error handler because one of the two driver
  calls reported a failure, or leaves a 72 MHz system: core and AHB and APB2 at 72 MHz, APB1 at 36 MHz, a tick of
  one millisecond, USART1 clocked by the system clock and the converter by its twelfth part (6 MHz).\<close>
theorem clock_tree:
  assumes "tick_advances (rh_base (e_rcc e))" "clock_switch (e_rcc e) (rcc_now (b_rcc b))"
  shows "case SystemClock_Config s e b of
      None \<Rightarrow> \<exists>st r. st \<noteq> HAL_OK \<and> (HAL_RCC_OscConfig (e_rcc e) (RCC_OscInitStruct s) (b_rcc b) = Some (st, r)
        \<or> (\<exists>r1. HAL_RCC_OscConfig (e_rcc e) (RCC_OscInitStruct s) (b_rcc b) = Some (HAL_OK, r1)
             \<and> HAL_RCC_ClockConfig (e_rcc e) RCC_ClkInitStruct FLASH_LATENCY_2 r1 = Some (st, r)))
    | Some b' \<Rightarrow> HAL_RCC_GetSysClockFreq (e_rcc e) (b_rcc b') = 72000000
        \<and> HAL_RCC_GetHCLKFreq (b_rcc b') = 72000000 \<and> HAL_RCC_GetPCLK1Freq (b_rcc b') = 36000000
        \<and> HAL_RCC_GetPCLK2Freq (b_rcc b') = 72000000 \<and> ST_LOAD (rcc_core (b_rcc b')) + 1 = 72000000 div 1000
        \<and> uart_clock (e_rcc e) (b_rcc b') (UART_GETCLOCKSOURCE (b_rcc b') USART1) = Some 72000000
        \<and> rcc_CFGR (b_rcc b') AND RCC_CFGR_SDADCPRE = RCC_SDADCSYSCLK_DIV12"
proof (cases "SystemClock_Config s e b")
  case None
  obtain st1 r1 where osc: "HAL_RCC_OscConfig (e_rcc e) (RCC_OscInitStruct s) (b_rcc b) = Some (st1, r1)"
    using OscConfig_returns [OF assms(1)] by (force simp: returns_def)
  obtain st2 r2 where bus: "HAL_RCC_ClockConfig (e_rcc e) RCC_ClkInitStruct FLASH_LATENCY_2 r1 = Some (st2, r2)"
    using ClockConfig_returns [OF assms(1)] by (force simp: returns_def)
  show ?thesis using None osc bus
    by (cases "st1 = HAL_OK"; cases "st2 = HAL_OK")
      (auto simp: SystemClock_Config_def or_die_def Error_Handler_def periph_result)
next
  case (Some b')
  note c = clock_result [OF Some assms(2)]
  note p = pll_72MHz [OF disjI2 [OF c(1)] c(2) c(6)]
  show ?thesis
    using Some c p usart1_from_SYSCLK [OF c(3)]
    by (simp add: HAL_RCC_GetHCLKFreq_def InitTick_72MHz full_CFGR_SDADC)
qed

theorem clock_tree_witness:
  "\<exists>b'. SystemClock_Config ex_stack ex_main_hw (board_HAL_Init ex_board) = Some b' \<and> HAL_RCC_GetPCLK1Freq (b_rcc b') = 36000000"
proof -
  obtain b' where "SystemClock_Config ex_stack ex_main_hw (board_HAL_Init ex_board) = Some b'" using ex_clock by blast
  moreover have "tick_advances (rh_base (e_rcc ex_main_hw))" "clock_switch (e_rcc ex_main_hw) (rcc_now (b_rcc (board_HAL_Init ex_board)))"
    using ex_clock_ticks ex_board_reset(3) by (simp_all add: ex_main_hw_def)
  note clock_tree [OF this, of ex_stack]
  ultimately show ?thesis by simp
qed

text \<open>After the start-up the interrupts of the SPI, of the GPS timer and of the tick interrupt the handler of the
  converter, and none of these three interrupts another: the GPS capture can fall into the middle of the
  conversion-complete callback, and the tick stands still while the SPI handler waits.\<close>
lemma startup_priorities:
  assumes "main_setup s e b0 = Some b" "at_reset b0" "clock_switch (e_rcc e) (rcc_now (b_rcc b0))"
  shows "(\<forall>i \<in> {SPI3_IRQn, TIM4_IRQn, SysTick_IRQn}. preempts (rcc_core (b_rcc b)) i SDADC2_IRQn
      \<and> \<not> preempts (rcc_core (b_rcc b)) SDADC2_IRQn i
      \<and> (\<forall>j \<in> {SPI3_IRQn, TIM4_IRQn, SysTick_IRQn}. \<not> preempts (rcc_core (b_rcc b)) i j))"
proof -
  obtain f where f: "prio_is (rcc_core (b_rcc b)) (f(SysTick_IRQn := 0, SPI3_IRQn := 0, SDADC2_IRQn := 1, TIM4_IRQn := 0))"
    using main_setup_result(10) [OF assms] by blast
  have "irq_valid SPI3_IRQn" "irq_valid SDADC2_IRQn" "irq_valid TIM4_IRQn" "irq_valid SysTick_IRQn"
    by (simp_all add: irq_valid_def irqn_defs)
  then have p: "NVIC_GetPriority SPI3_IRQn (rcc_core (b_rcc b)) = 0" "NVIC_GetPriority TIM4_IRQn (rcc_core (b_rcc b)) = 0"
    "NVIC_GetPriority SysTick_IRQn (rcc_core (b_rcc b)) = 0" "NVIC_GetPriority SDADC2_IRQn (rcc_core (b_rcc b)) = 1"
    using f by (simp_all add: prio_is_def) (simp_all add: irqn_defs)
  have "NVIC_GetPriorityGrouping (rcc_core (b_rcc b)) = 3" using f by (simp add: prio_is_def)
  then show ?thesis by (simp add: preempts_group4 p)
qed

lemma startup_priorities_witness:
  "\<exists>b. main_setup ex_stack ex_main_hw ex_board = Some b \<and> preempts (rcc_core (b_rcc b)) TIM4_IRQn SDADC2_IRQn
     \<and> \<not> preempts (rcc_core (b_rcc b)) SysTick_IRQn SPI3_IRQn"
proof -
  obtain b where b: "main_setup ex_stack ex_main_hw ex_board = Some b" using ex_main by blast
  from startup_priorities [OF b ex_board_reset(1,3)] b show ?thesis by auto
qed



end
