(* ===== verification/Opq_Driver.thy ===== *)
theory Opq_Driver
  imports Prelude Queues
begin

text \<open>
  The Linux driver \<^verbatim>\<open>Software/kernel/opq_main.c\<close>: the cycle buffer filled by the work queue
  handler and drained by \<^verbatim>\<open>read\<close> on the character device, and the module's set-up and
  tear-down.  The kernel's own services are arguments of the definitions: what \<^verbatim>\<open>spi_read\<close>
  leaves in the slot, how many bytes \<^verbatim>\<open>copy_to_user\<close> could not copy, whether
  \<^verbatim>\<open>down_interruptible\<close> was interrupted, and what the registration calls return.  Interleavings
  of the interrupt, the work queue and any number of readers are the steps of the relation
  \<open>kstep\<close>; a step is one statement between two points at which another thread may run.
\<close>

section \<open>The cycle buffer\<close>

definition OPQ_CYCLE_BUFFER_SIZE :: nat where "OPQ_CYCLE_BUFFER_SIZE = 408"
definition OPQ_CYCLE_BUFFER_COUNT :: nat where "OPQ_CYCLE_BUFFER_COUNT = 10"

type_synonym cycle = "u8 list"

record opq_frame_buffer =
  mutex :: bool
  sem :: nat
  data :: "cycle list"
  writer_pos :: nat
  reader_pos :: nat

text \<open>\<^verbatim>\<open>opq_circ_buffer_init\<close>: \<^verbatim>\<open>kmalloc\<close> leaves the slots with arbitrary contents \<open>junk\<close>.\<close>
definition opq_circ_buffer_init :: "cycle list \<Rightarrow> opq_frame_buffer" where
  "opq_circ_buffer_init junk =
     \<lparr>mutex = False, sem = 0, data = junk, writer_pos = 1, reader_pos = 0\<rparr>"

text \<open>\<^verbatim>\<open>spi_read(..., data[writer_pos], OPQ_CYCLE_BUFFER_SIZE)\<close>; \<open>rd\<close> maps the old contents of
  the slot to the new ones.\<close>
definition wq_spi_read :: "(cycle \<Rightarrow> cycle) \<Rightarrow> opq_frame_buffer \<Rightarrow> opq_frame_buffer" where
  "wq_spi_read rd b =
     b\<lparr>data := (data b)[writer_pos b := rd (data b ! writer_pos b)]\<rparr>"

text \<open>The index update of the work queue handler: advance the writer; if it meets the reader, evict
  the oldest slot and leave the semaphore alone, otherwise release the semaphore.\<close>
definition wq_advance :: "opq_frame_buffer \<Rightarrow> opq_frame_buffer" where
  "wq_advance b =
     (let w = writer_pos b + 1;
          w' = (if w \<ge> OPQ_CYCLE_BUFFER_COUNT then 0 else w);
          b1 = b\<lparr>writer_pos := w'\<rparr>
      in if writer_pos b1 = reader_pos b1
         then (let r = reader_pos b1 + 1;
                   r' = (if r \<ge> OPQ_CYCLE_BUFFER_COUNT then 0 else r)
               in b1\<lparr>reader_pos := r'\<rparr>)
         else b1\<lparr>sem := sem b1 + 1\<rparr>)"

definition mutex_lock :: "opq_frame_buffer \<Rightarrow> opq_frame_buffer" where
  "mutex_lock b = b\<lparr>mutex := True\<rparr>"

definition mutex_unlock :: "opq_frame_buffer \<Rightarrow> opq_frame_buffer" where
  "mutex_unlock b = b\<lparr>mutex := False\<rparr>"

definition opq_wq_spi_reader_handler ::
  "(cycle \<Rightarrow> cycle) \<Rightarrow> opq_frame_buffer \<Rightarrow> opq_frame_buffer" where
  "opq_wq_spi_reader_handler rd b =
     mutex_unlock (wq_advance (wq_spi_read rd (mutex_lock b)))"

section \<open>The character device\<close>

definition ERESTARTSYS :: int where "ERESTARTSYS = 512"
definition ENODEV :: int where "ENODEV = 19"

definition read_clamp :: "nat \<Rightarrow> nat" where
  "read_clamp count = (if count > OPQ_CYCLE_BUFFER_SIZE then OPQ_CYCLE_BUFFER_SIZE else count)"

text \<open>\<^verbatim>\<open>copy_to_user\<close> copies all but the last \<open>nc\<close> of the \<open>count\<close> bytes; the result is what reached
  the user's buffer.\<close>
definition read_copy :: "nat \<Rightarrow> nat \<Rightarrow> opq_frame_buffer \<Rightarrow> u8 list" where
  "read_copy nc count b = take (read_clamp count - nc) (data b ! reader_pos b)"

definition read_advance :: "opq_frame_buffer \<Rightarrow> opq_frame_buffer" where
  "read_advance b =
     (let r = reader_pos b + 1
      in b\<lparr>reader_pos := (if r \<ge> OPQ_CYCLE_BUFFER_COUNT then 0 else r)\<rparr>)"

datatype read_result =
    Blocks                          \<comment> \<open>\<^verbatim>\<open>down_interruptible\<close> sleeps: nothing to read\<close>
  | Returned int "u8 list"          \<comment> \<open>return value and bytes that reached the user\<close>

text \<open>One call of \<^verbatim>\<open>opq_chardev_read\<close> run without interference; \<open>intr\<close>: a signal arrives while
  the call waits on the semaphore.\<close>
definition opq_chardev_read ::
  "bool \<Rightarrow> nat \<Rightarrow> nat \<Rightarrow> opq_frame_buffer \<Rightarrow> read_result \<times> opq_frame_buffer" where
  "opq_chardev_read intr nc count b =
     (if sem b = 0 then (if intr then (Returned (- ERESTARTSYS) [], b) else (Blocks, b))
      else let b1 = mutex_lock (b\<lparr>sem := sem b - 1\<rparr>);
               out = read_copy nc count b1;
               b2 = mutex_unlock (read_advance b1)
           in (Returned (int (read_clamp count)) out, b2))"

definition opq_chardev_write :: "u8 list \<Rightarrow> nat \<Rightarrow> int" where
  "opq_chardev_write buf count = 0"

definition opq_chardev_lseek :: "int \<Rightarrow> int \<Rightarrow> int" where
  "opq_chardev_lseek offset orig = 0"

definition opq_chardev_open :: int where "opq_chardev_open = 0"
definition opq_chardev_release :: int where "opq_chardev_release = 0"

section \<open>Interleavings\<close>

datatype worker_pc = WIdle | WWant | WCrit | WRead
datatype reader_pc = RIdle | RWant nat | RCrit nat | RCopied nat "u8 list"

text \<open>
  \<open>pending\<close>: the work item is queued.  The history fields record what the theorems speak about:
  \<open>written\<close> the frames received so far, \<open>delivered\<close> the slots read so far (whole slots, in the
  order of the reads), \<open>returned\<close> the bytes handed to user space, \<open>evicted\<close> the number of slots
  dropped because the reader was too slow.
\<close>
record kstate =
  cycles :: opq_frame_buffer
  int_cnt :: u32
  pending :: bool
  worker :: worker_pc
  readers :: "nat \<Rightarrow> reader_pc"
  written :: "cycle list"
  delivered :: "cycle list"
  returned :: "(nat \<times> u8 list) list"
  evicted :: nat

definition kinit :: "cycle list \<Rightarrow> kstate" where
  "kinit junk = \<lparr>cycles = opq_circ_buffer_init junk, int_cnt = 0, pending = False,
     worker = WIdle, readers = (\<lambda>_. RIdle), written = [], delivered = [], returned = [],
     evicted = 0\<rparr>"

text \<open>\<^verbatim>\<open>opq_gpio_irq_handler\<close>: count the interrupt and queue the (single) work item.\<close>
definition opq_gpio_irq_handler :: "kstate \<Rightarrow> kstate" where
  "opq_gpio_irq_handler s = s\<lparr>int_cnt := int_cnt s + 1, pending := True\<rparr>"

inductive kstep :: "kstate \<Rightarrow> kstate \<Rightarrow> bool" where
  irq: "kstep s (opq_gpio_irq_handler s)"
| w_start: "pending s \<Longrightarrow> worker s = WIdle \<Longrightarrow>
     kstep s (s\<lparr>pending := False, worker := WWant\<rparr>)"
| w_lock: "worker s = WWant \<Longrightarrow> \<not> mutex (cycles s) \<Longrightarrow>
     kstep s (s\<lparr>cycles := mutex_lock (cycles s), worker := WCrit\<rparr>)"
| w_spi: "worker s = WCrit \<Longrightarrow> length (rd (data (cycles s) ! writer_pos (cycles s))) = OPQ_CYCLE_BUFFER_SIZE \<Longrightarrow>
     kstep s (s\<lparr>cycles := wq_spi_read rd (cycles s), worker := WRead\<rparr>)"
| w_done: "worker s = WRead \<Longrightarrow>
     kstep s (s\<lparr>cycles := mutex_unlock (wq_advance (cycles s)), worker := WIdle,
       written := written s @ [data (cycles s) ! writer_pos (cycles s)],
       evicted := evicted s
         + (if ring_next OPQ_CYCLE_BUFFER_COUNT (writer_pos (cycles s)) = reader_pos (cycles s)
            then 1 else 0)\<rparr>)"
| r_down: "readers s i = RIdle \<Longrightarrow> 0 < sem (cycles s) \<Longrightarrow>
     kstep s (s\<lparr>cycles := (cycles s)\<lparr>sem := sem (cycles s) - 1\<rparr>,
       readers := (readers s)(i := RWant count)\<rparr>)"
| r_lock: "readers s i = RWant count \<Longrightarrow> \<not> mutex (cycles s) \<Longrightarrow>
     kstep s (s\<lparr>cycles := mutex_lock (cycles s), readers := (readers s)(i := RCrit count)\<rparr>)"
| r_copy: "readers s i = RCrit count \<Longrightarrow>
     kstep s (s\<lparr>readers := (readers s)(i := RCopied count (read_copy nc count (cycles s)))\<rparr>)"
| r_done: "readers s i = RCopied count out \<Longrightarrow>
     kstep s (s\<lparr>cycles := mutex_unlock (read_advance (cycles s)),
       readers := (readers s)(i := RIdle),
       delivered := delivered s @ [data (cycles s) ! reader_pos (cycles s)],
       returned := returned s @ [(read_clamp count, out)]\<rparr>)"

inductive kreach :: "cycle list \<Rightarrow> kstate \<Rightarrow> bool" for junk where
  start: "kreach junk (kinit junk)"
| step: "kreach junk s \<Longrightarrow> kstep s t \<Longrightarrow> kreach junk t"

section \<open>Module set-up and tear-down\<close>

text \<open>What the kernel's services answer.  \<open>kmalloc_ok\<close> tells whether the allocation of the named
  object succeeds; the integers are return values, negative or non-zero for an error as the code
  tests them.\<close>
record kernel_env =
  kmalloc_ok :: "string \<Rightarrow> bool"
  ret_alloc_chrdev_region :: int
  ret_cdev_add :: int
  has_spi_master :: bool
  has_spi_device :: bool
  ret_gpio_request :: int
  ret_gpio_direction_input :: int
  ret_gpio_to_irq :: int
  ret_request_irq :: int

text \<open>The calls into the kernel, in the order in which the module makes them.\<close>
datatype kcall =
    Kmalloc string | Kfree string
  | Mutex_init | Sema_init nat
  | Alloc_chrdev_region | Unregister_chrdev_region
  | Cdev_init | Cdev_add | Cdev_del
  | Spi_busnum_to_master nat | Spi_new_device | Spi_setup nat | Spi_unregister_device
  | Gpio_request nat | Gpio_direction_input nat | Gpio_to_irq nat | Gpio_free nat
  | Create_workqueue | Cancel_work_sync | Destroy_workqueue
  | Request_irq u16 | Free_irq u16

datatype kernel_fault = Null_dereference string

definition OPQ_DATA_READY_GPIO :: nat where "OPQ_DATA_READY_GPIO = 18"
definition OPQ_SPI_BUS :: nat where "OPQ_SPI_BUS = 0"
definition OPQ_SPI_BITS_PER_WORD :: nat where "OPQ_SPI_BITS_PER_WORD = 8"

text \<open>\<^verbatim>\<open>irq_any_gpio\<close> is a \<^verbatim>\<open>short int\<close>: the number \<^verbatim>\<open>gpio_to_irq\<close> returns is cut to 16 bits before
  it is compared with 0.\<close>
definition irq_any_gpio :: "kernel_env \<Rightarrow> u16" where
  "irq_any_gpio e = word_of_int (ret_gpio_to_irq e)"

definition opq_init_gpio_int :: "kernel_env \<Rightarrow> kcall list \<times> int" where
  "opq_init_gpio_int e =
     (if ret_gpio_request e \<noteq> 0 then ([Gpio_request OPQ_DATA_READY_GPIO], - ENODEV)
      else if ret_gpio_direction_input e \<noteq> 0 then
        ([Gpio_request OPQ_DATA_READY_GPIO, Gpio_direction_input OPQ_DATA_READY_GPIO], - ENODEV)
      else if sint (irq_any_gpio e) < 0 then
        ([Gpio_request OPQ_DATA_READY_GPIO, Gpio_direction_input OPQ_DATA_READY_GPIO,
          Gpio_to_irq OPQ_DATA_READY_GPIO], - ENODEV)
      else
        ([Gpio_request OPQ_DATA_READY_GPIO, Gpio_direction_input OPQ_DATA_READY_GPIO,
          Gpio_to_irq OPQ_DATA_READY_GPIO, Create_workqueue, Request_irq (irq_any_gpio e)],
         if ret_request_irq e \<noteq> 0 then - ENODEV else 0))"

definition opq_release_gpio_int :: "kernel_env \<Rightarrow> kcall list" where
  "opq_release_gpio_int e =
     [Free_irq (irq_any_gpio e), Gpio_free OPQ_DATA_READY_GPIO, Cancel_work_sync, Destroy_workqueue]"

definition opq_init_spi :: "kernel_env \<Rightarrow> kcall list \<times> int" where
  "opq_init_spi e =
     (if \<not> has_spi_master e then ([Spi_busnum_to_master OPQ_SPI_BUS], - ENODEV)
      else if \<not> has_spi_device e then
        ([Spi_busnum_to_master OPQ_SPI_BUS, Spi_new_device], - ENODEV)
      else
        ([Spi_busnum_to_master OPQ_SPI_BUS, Spi_new_device, Spi_setup OPQ_SPI_BITS_PER_WORD], 0))"

definition opq_release_spi :: "kcall list" where
  "opq_release_spi = [Spi_unregister_device]"

definition opq_init_chardev :: "kernel_env \<Rightarrow> kcall list \<times> int" where
  "opq_init_chardev e =
     (if ret_alloc_chrdev_region e < 0 then ([Alloc_chrdev_region], - 1)
      else ([Alloc_chrdev_region, Cdev_init, Cdev_add], if ret_cdev_add e < 0 then - 1 else 0))"

definition opq_release_chardev :: "kcall list" where
  "opq_release_chardev = [Cdev_del, Unregister_chrdev_region]"

text \<open>The allocations of \<^verbatim>\<open>opq_circ_buffer_init\<close>: each object is used right after it is allocated,
  without a check.\<close>
definition circ_buffer_alloc :: "kernel_env \<Rightarrow> kernel_fault + kcall list" where
  "circ_buffer_alloc e =
     (if \<not> kmalloc_ok e ''cycles'' then Inl (Null_dereference ''cycles'')
      else if \<not> kmalloc_ok e ''mutex'' then Inl (Null_dereference ''mutex'')
      else if \<not> kmalloc_ok e ''sem'' then Inl (Null_dereference ''sem'')
      else Inr [Kmalloc ''cycles'', Kmalloc ''mutex'', Kmalloc ''sem'', Mutex_init, Sema_init 0])"

definition opq_circ_buffer_remove :: "kcall list" where
  "opq_circ_buffer_remove = [Kfree ''mutex'', Kfree ''sem'', Kfree ''cycles'']"

definition opq_module_init :: "kernel_env \<Rightarrow> kernel_fault + kcall list \<times> int" where
  "opq_module_init e =
     (if \<not> kmalloc_ok e ''opq_dev'' then Inl (Null_dereference ''opq_dev'')
      else case circ_buffer_alloc e of
          Inl err \<Rightarrow> Inl err
        | Inr alloc \<Rightarrow>
            Inr (Kmalloc ''opq_dev'' # alloc @ fst (opq_init_chardev e) @ fst (opq_init_spi e)
                 @ fst (opq_init_gpio_int e), 0))"

definition opq_module_exit :: "kernel_env \<Rightarrow> kcall list" where
  "opq_module_exit e =
     opq_release_chardev @ opq_release_spi @ opq_release_gpio_int e @ opq_circ_buffer_remove
     @ [Kfree ''opq_dev'']"

text \<open>Which call acquires the resource that a tear-down call gives back.\<close>
fun acquired_by :: "kcall \<Rightarrow> kcall option" where
  "acquired_by (Kfree x) = Some (Kmalloc x)"
| "acquired_by Unregister_chrdev_region = Some Alloc_chrdev_region"
| "acquired_by Cdev_del = Some Cdev_add"
| "acquired_by Spi_unregister_device = Some Spi_new_device"
| "acquired_by (Gpio_free n) = Some (Gpio_request n)"
| "acquired_by Destroy_workqueue = Some Create_workqueue"
| "acquired_by (Free_irq n) = Some (Request_irq n)"
| "acquired_by _ = None"

definition env_succeeds :: "kernel_env \<Rightarrow> bool" where
  "env_succeeds e \<longleftrightarrow>
     kmalloc_ok e ''opq_dev'' \<and> kmalloc_ok e ''cycles'' \<and> kmalloc_ok e ''mutex'' \<and> kmalloc_ok e ''sem''
     \<and> 0 \<le> ret_alloc_chrdev_region e \<and> 0 \<le> ret_cdev_add e \<and> has_spi_master e \<and> has_spi_device e
     \<and> ret_gpio_request e = 0 \<and> ret_gpio_direction_input e = 0
     \<and> 0 \<le> ret_gpio_to_irq e \<and> ret_gpio_to_irq e < 2 ^ 15 \<and> ret_request_irq e = 0"

section \<open>Invariants\<close>

abbreviation qlen :: "opq_frame_buffer \<Rightarrow> nat" where
  "qlen b \<equiv> ring_len OPQ_CYCLE_BUFFER_COUNT (reader_pos b) (writer_pos b)"

text \<open>The slots from the reader up to the writer, oldest first.\<close>
definition cycle_queue :: "opq_frame_buffer \<Rightarrow> cycle list" where
  "cycle_queue b = ring_list OPQ_CYCLE_BUFFER_COUNT (data b) (reader_pos b) (writer_pos b)"

definition buf_ok :: "opq_frame_buffer \<Rightarrow> bool" where
  "buf_ok b \<longleftrightarrow> length (data b) = OPQ_CYCLE_BUFFER_COUNT
     \<and> writer_pos b < OPQ_CYCLE_BUFFER_COUNT \<and> reader_pos b < OPQ_CYCLE_BUFFER_COUNT
     \<and> reader_pos b \<noteq> writer_pos b"

definition rows_ok :: "opq_frame_buffer \<Rightarrow> bool" where
  "rows_ok b \<longleftrightarrow> list_all (\<lambda>c. length c = OPQ_CYCLE_BUFFER_SIZE) (data b)"

definition busy :: "kstate \<Rightarrow> nat set" where
  "busy s = {i. readers s i \<noteq> RIdle}"

fun r_crit :: "reader_pc \<Rightarrow> bool" where
  "r_crit (RCrit _) = True" | "r_crit (RCopied _ _) = True" | "r_crit _ = False"

fun w_crit :: "worker_pc \<Rightarrow> bool" where
  "w_crit WCrit = True" | "w_crit WRead = True" | "w_crit _ = False"

text \<open>The semaphore, the readers past it and the ring occupancy agree.\<close>
definition sem_inv :: "kstate \<Rightarrow> bool" where
  "sem_inv s \<longleftrightarrow> finite (busy s) \<and> sem (cycles s) + card (busy s) + 1 = qlen (cycles s)"

text \<open>The mutex is held exactly when one thread is in its critical section.\<close>
definition mutex_inv :: "kstate \<Rightarrow> bool" where
  "mutex_inv s \<longleftrightarrow>
     mutex (cycles s) = (w_crit (worker s) \<or> (\<exists>i. r_crit (readers s i)))
     \<and> (w_crit (worker s) \<longrightarrow> (\<forall>i. \<not> r_crit (readers s i)))
     \<and> (\<forall>i j. r_crit (readers s i) \<longrightarrow> r_crit (readers s j) \<longrightarrow> i = j)"

definition copied_inv :: "kstate \<Rightarrow> bool" where
  "copied_inv s \<longleftrightarrow> (\<forall>i count out. readers s i = RCopied count out \<longrightarrow>
     (\<exists>nc. out = read_copy nc count (cycles s)))"

text \<open>A result of \<^verbatim>\<open>read\<close> is a prefix of the delivered slot, never longer than the count returned.\<close>
definition read_ok :: "nat \<times> u8 list \<Rightarrow> cycle \<Rightarrow> bool" where
  "read_ok r slot \<longleftrightarrow> fst r \<le> OPQ_CYCLE_BUFFER_SIZE \<and> (\<exists>nc. snd r = take (fst r - nc) slot)"

text \<open>The slots consumed so far and the ring contents are the initial slot 0 followed by the frames
  received, and the delivered slots are among the consumed ones, in order.\<close>
definition fifo_inv :: "cycle list \<Rightarrow> kstate \<Rightarrow> bool" where
  "fifo_inv junk s \<longleftrightarrow>
     (\<exists>consumed. junk ! 0 # written s = consumed @ cycle_queue (cycles s)
        \<and> subseq (delivered s) consumed
        \<and> length consumed = length (delivered s) + evicted s)"

definition kinv :: "cycle list \<Rightarrow> kstate \<Rightarrow> bool" where
  "kinv junk s \<longleftrightarrow> buf_ok (cycles s) \<and> rows_ok (cycles s) \<and> sem_inv s \<and> mutex_inv s
     \<and> copied_inv s \<and> fifo_inv junk s \<and> list_all2 read_ok (returned s) (delivered s)"

section \<open>Lemmas\<close>

lemmas opq_consts = OPQ_CYCLE_BUFFER_SIZE_def OPQ_CYCLE_BUFFER_COUNT_def
lemmas buf_ops = wq_spi_read_def wq_advance_def mutex_lock_def mutex_unlock_def read_advance_def Let_def

lemma wq_advance_ring:
  "wq_advance b =
     (if ring_next OPQ_CYCLE_BUFFER_COUNT (writer_pos b) = reader_pos b
      then b\<lparr>writer_pos := ring_next OPQ_CYCLE_BUFFER_COUNT (writer_pos b),
             reader_pos := ring_next OPQ_CYCLE_BUFFER_COUNT (reader_pos b)\<rparr>
      else b\<lparr>writer_pos := ring_next OPQ_CYCLE_BUFFER_COUNT (writer_pos b), sem := sem b + 1\<rparr>)"
  by (simp add: wq_advance_def Let_def ring_next_def)

lemma read_advance_ring:
  "read_advance b = b\<lparr>reader_pos := ring_next OPQ_CYCLE_BUFFER_COUNT (reader_pos b)\<rparr>"
  by (simp add: read_advance_def Let_def ring_next_def)

lemma count_pos: "0 < OPQ_CYCLE_BUFFER_COUNT" "1 < OPQ_CYCLE_BUFFER_COUNT"
  by (simp_all add: OPQ_CYCLE_BUFFER_COUNT_def)

text \<open>The two updates of the ring, seen through \<open>cycle_queue\<close>.\<close>

lemma wq_advance_ok: "buf_ok b \<Longrightarrow> buf_ok (wq_advance b)"
  using count_pos ring_next_neq
  by (auto simp: buf_ok_def wq_advance_ring ring_next_less)

lemma wq_spi_read_ok [simp]: "buf_ok (wq_spi_read rd b) = buf_ok b"
  by (simp add: buf_ok_def wq_spi_read_def)

lemma lock_ok [simp]:
  "buf_ok (mutex_lock b) = buf_ok b" "buf_ok (mutex_unlock b) = buf_ok b"
  "rows_ok (mutex_lock b) = rows_ok b" "rows_ok (mutex_unlock b) = rows_ok b"
  "cycle_queue (mutex_lock b) = cycle_queue b" "cycle_queue (mutex_unlock b) = cycle_queue b"
  "read_copy nc c (mutex_lock b) = read_copy nc c b"
  by (simp_all add: buf_ok_def rows_ok_def cycle_queue_def read_copy_def mutex_lock_def mutex_unlock_def)

lemma lock_fields [simp]:
  "data (mutex_lock b) = data b" "data (mutex_unlock b) = data b"
  "sem (mutex_lock b) = sem b" "sem (mutex_unlock b) = sem b"
  "writer_pos (mutex_lock b) = writer_pos b" "writer_pos (mutex_unlock b) = writer_pos b"
  "reader_pos (mutex_lock b) = reader_pos b" "reader_pos (mutex_unlock b) = reader_pos b"
  "mutex (mutex_lock b)" "\<not> mutex (mutex_unlock b)"
  by (simp_all add: mutex_lock_def mutex_unlock_def)

lemma spi_read_fields [simp]:
  "sem (wq_spi_read rd b) = sem b" "writer_pos (wq_spi_read rd b) = writer_pos b"
  "reader_pos (wq_spi_read rd b) = reader_pos b" "mutex (wq_spi_read rd b) = mutex b"
  by (simp_all add: wq_spi_read_def)

lemma spi_read_queue: "buf_ok b \<Longrightarrow> cycle_queue (wq_spi_read rd b) = cycle_queue b"
  by (simp add: cycle_queue_def wq_spi_read_def buf_ok_def ring_list_update)

lemma wq_advance_data [simp]: "data (wq_advance b) = data b" "mutex (wq_advance b) = mutex b"
  by (simp_all add: wq_advance_ring)

lemma read_advance_fields [simp]:
  "data (read_advance b) = data b" "sem (read_advance b) = sem b"
  "writer_pos (read_advance b) = writer_pos b" "mutex (read_advance b) = mutex b"
  by (simp_all add: read_advance_ring)

lemma cycle_queue_length [simp]: "length (cycle_queue b) = qlen b"
  by (simp add: cycle_queue_def)

lemma wq_advance_queue:
  assumes "buf_ok b"
  shows "cycle_queue (wq_advance b) =
    (if qlen b = OPQ_CYCLE_BUFFER_COUNT - 1 then tl (cycle_queue b) else cycle_queue b)
      @ [data b ! writer_pos b]"
proof -
  note b = assms [unfolded buf_ok_def]
  have same: "(data b)[writer_pos b := data b ! writer_pos b] = data b" by simp
  show ?thesis
  proof (cases "ring_next OPQ_CYCLE_BUFFER_COUNT (writer_pos b) = reader_pos b")
    case True
    then show ?thesis
      using b ring_list_evict [OF count_pos(2) _ _ True, of "data b" "data b ! writer_pos b"]
        ring_len_full [of "reader_pos b" OPQ_CYCLE_BUFFER_COUNT "writer_pos b"]
      by (simp add: cycle_queue_def wq_advance_ring)
  next
    case False
    then show ?thesis
      using b ring_list_enq [OF _ _ False, of "data b" "data b ! writer_pos b"]
        ring_len_full [of "reader_pos b" OPQ_CYCLE_BUFFER_COUNT "writer_pos b"]
      by (simp add: cycle_queue_def wq_advance_ring)
  qed
qed

lemma read_advance_queue:
  assumes "buf_ok b"
  shows "cycle_queue b = data b ! reader_pos b # cycle_queue (read_advance b)"
  using assms by (simp add: buf_ok_def cycle_queue_def read_advance_ring ring_list_deq)

lemma read_advance_ok:
  assumes "buf_ok b" "1 < qlen b"
  shows "buf_ok (read_advance b)"
proof -
  have "qlen b = Suc (qlen (read_advance b))"
    using assms(1) by (simp add: buf_ok_def ring_len_deq read_advance_ring)
  then have "0 < qlen (read_advance b)" using assms(2) by simp
  then show ?thesis
    using assms(1) count_pos
    by (auto simp: buf_ok_def read_advance_ring ring_next_less ring_len_def)
qed

lemma rows_ok_simps [simp]:
  "rows_ok (read_advance b) = rows_ok b" "rows_ok (wq_advance b) = rows_ok b"
  by (simp_all add: rows_ok_def)

lemma rows_ok_spi_read:
  "rows_ok b \<Longrightarrow> length (rd (data b ! writer_pos b)) = OPQ_CYCLE_BUFFER_SIZE \<Longrightarrow>
   rows_ok (wq_spi_read rd b)"
  by (simp add: rows_ok_def wq_spi_read_def list_all_iff)
     (metis insert_iff set_update_subset_insert subsetD)

lemma kinv_init:
  assumes "length junk = OPQ_CYCLE_BUFFER_COUNT" "list_all (\<lambda>c. length c = OPQ_CYCLE_BUFFER_SIZE) junk"
  shows "kinv junk (kinit junk)"
proof -
  have "cycle_queue (opq_circ_buffer_init junk) = [junk ! 0]"
    by (simp add: cycle_queue_def opq_circ_buffer_init_def ring_list_def ring_len_def opq_consts)
  moreover have "buf_ok (opq_circ_buffer_init junk)"
    using assms by (simp add: buf_ok_def opq_circ_buffer_init_def opq_consts)
  ultimately show ?thesis
    using assms
    by (simp add: kinv_def kinit_def fifo_inv_def sem_inv_def busy_def mutex_inv_def copied_inv_def
        rows_ok_def ring_len_def opq_circ_buffer_init_def)
qed

lemma busy_upd:
  "readers s i = RIdle \<Longrightarrow> x \<noteq> RIdle \<Longrightarrow> busy (s\<lparr>readers := (readers s)(i := x)\<rparr>) = insert i (busy s)"
  "readers s i \<noteq> RIdle \<Longrightarrow> x \<noteq> RIdle \<Longrightarrow> busy (s\<lparr>readers := (readers s)(i := x)\<rparr>) = busy s"
  "busy (s\<lparr>readers := (readers s)(i := RIdle)\<rparr>) = busy s - {i}"
  by (auto simp: busy_def)

lemma r_crit_upd:
  "r_crit x = r_crit (readers s i) \<Longrightarrow> r_crit (((readers s)(i := x)) j) = r_crit (readers s j)"
  by simp

lemma kinv_irq: "kinv junk s \<Longrightarrow> kinv junk (opq_gpio_irq_handler s)"
  by (simp add: kinv_def opq_gpio_irq_handler_def sem_inv_def busy_def mutex_inv_def copied_inv_def fifo_inv_def)

lemma kinv_w_start: "kinv junk s \<Longrightarrow> worker s = WIdle \<Longrightarrow> kinv junk (s\<lparr>pending := False, worker := WWant\<rparr>)"
  by (simp add: kinv_def sem_inv_def busy_def mutex_inv_def copied_inv_def fifo_inv_def)

lemma kinv_w_lock:
  "kinv junk s \<Longrightarrow> worker s = WWant \<Longrightarrow> \<not> mutex (cycles s) \<Longrightarrow>
   kinv junk (s\<lparr>cycles := mutex_lock (cycles s), worker := WCrit\<rparr>)"
  by (simp add: kinv_def sem_inv_def busy_def mutex_inv_def copied_inv_def fifo_inv_def)

lemma kinv_w_spi:
  assumes "kinv junk s" "worker s = WCrit"
    "length (rd (data (cycles s) ! writer_pos (cycles s))) = OPQ_CYCLE_BUFFER_SIZE"
  shows "kinv junk (s\<lparr>cycles := wq_spi_read rd (cycles s), worker := WRead\<rparr>)"
proof -
  have "\<not> r_crit (readers s i)" for i
    using assms(1,2) by (simp add: kinv_def mutex_inv_def)
  then have "readers s i \<noteq> RCopied c out" for i c out
    by (metis r_crit.simps(2))
  then show ?thesis
    using assms
    by (simp add: kinv_def sem_inv_def busy_def mutex_inv_def copied_inv_def fifo_inv_def
        spi_read_queue rows_ok_spi_read)
qed

lemma qlen_wq_advance:
  assumes "buf_ok b"
  shows "qlen (wq_advance b) = sem (wq_advance b) - sem b + qlen b"
    and "sem b \<le> sem (wq_advance b)"
proof -
  have "length (cycle_queue (wq_advance b)) = sem (wq_advance b) - sem b + qlen b"
    unfolding wq_advance_queue [OF assms]
    using assms count_pos ring_len_full [of "reader_pos b" OPQ_CYCLE_BUFFER_COUNT "writer_pos b"]
    by (auto simp: wq_advance_ring buf_ok_def)
  then show "qlen (wq_advance b) = sem (wq_advance b) - sem b + qlen b" by simp
  show "sem b \<le> sem (wq_advance b)" by (simp add: wq_advance_ring)
qed

lemma fifo_w_done:
  assumes "fifo_inv junk s" "buf_ok (cycles s)"
  shows "fifo_inv junk (s\<lparr>cycles := mutex_unlock (wq_advance (cycles s)), worker := WIdle,
       written := written s @ [data (cycles s) ! writer_pos (cycles s)],
       evicted := evicted s
         + (if ring_next OPQ_CYCLE_BUFFER_COUNT (writer_pos (cycles s)) = reader_pos (cycles s)
            then 1 else 0)\<rparr>)"
proof -
  let ?b = "cycles s" and ?x = "data (cycles s) ! writer_pos (cycles s)"
  from assms(1) obtain c where c: "junk ! 0 # written s = c @ cycle_queue ?b"
    "subseq (delivered s) c" "length c = length (delivered s) + evicted s"
    by (auto simp: fifo_inv_def)
  note full = ring_len_full [of "reader_pos ?b" OPQ_CYCLE_BUFFER_COUNT "writer_pos ?b"]
  show ?thesis
  proof (cases "qlen ?b = OPQ_CYCLE_BUFFER_COUNT - 1")
    case True
    then have ne: "cycle_queue ?b \<noteq> []"
      using count_pos by (metis cycle_queue_length list.size(3) diff_is_0_eq not_le)
    have split: "junk ! 0 # written s @ [?x]
        = (c @ [hd (cycle_queue ?b)]) @ cycle_queue (wq_advance ?b)"
      using c(1) ne True by (cases "cycle_queue ?b") (simp_all add: wq_advance_queue [OF assms(2)] flip: append_Cons)
    have "subseq (delivered s) (c @ [hd (cycle_queue ?b)])"
      using c(2) by (rule subseq_rev_drop_many)
    then show ?thesis
      using split c(3) True full assms(2)
      by (auto simp: fifo_inv_def buf_ok_def intro!: exI [of _ "c @ [hd (cycle_queue ?b)]"])
  next
    case False
    then have "junk ! 0 # written s @ [?x] = c @ cycle_queue (wq_advance ?b)"
      using c(1) by (simp add: wq_advance_queue [OF assms(2)] flip: append_Cons)
    then show ?thesis
      using c(2,3) False full assms(2) by (auto simp: fifo_inv_def buf_ok_def)
  qed
qed

lemma kinv_w_done:
  assumes "kinv junk s" "worker s = WRead"
  shows "kinv junk (s\<lparr>cycles := mutex_unlock (wq_advance (cycles s)), worker := WIdle,
       written := written s @ [data (cycles s) ! writer_pos (cycles s)],
       evicted := evicted s
         + (if ring_next OPQ_CYCLE_BUFFER_COUNT (writer_pos (cycles s)) = reader_pos (cycles s)
            then 1 else 0)\<rparr>)"
proof -
  have ok: "buf_ok (cycles s)" using assms(1) by (simp add: kinv_def)
  have nc: "\<not> r_crit (readers s i)" for i
    using assms by (simp add: kinv_def mutex_inv_def)
  then have "readers s i \<noteq> RCopied c out" for i c out
    by (metis r_crit.simps(2))
  then show ?thesis
    using assms fifo_w_done [OF _ ok, of junk] qlen_wq_advance [OF ok] nc
    by (auto simp: kinv_def sem_inv_def busy_def mutex_inv_def copied_inv_def wq_advance_ok)
qed

lemma kinv_r_down:
  assumes "kinv junk s" "readers s i = RIdle" "0 < sem (cycles s)"
  shows "kinv junk (s\<lparr>cycles := (cycles s)\<lparr>sem := sem (cycles s) - 1\<rparr>,
       readers := (readers s)(i := RWant count)\<rparr>)"
proof -
  have "i \<notin> busy s" using assms(2) by (simp add: busy_def)
  moreover have "busy (s\<lparr>cycles := c, readers := (readers s)(i := RWant count)\<rparr>) = insert i (busy s)" for c
    using assms(2) by (auto simp: busy_def)
  moreover have "r_crit (((readers s)(i := RWant count)) j) = r_crit (readers s j)" for j
    using assms(2) by (intro r_crit_upd) simp
  ultimately show ?thesis
    using assms
    by (simp add: kinv_def buf_ok_def rows_ok_def sem_inv_def mutex_inv_def fifo_inv_def
        cycle_queue_def del: fun_upd_apply) (simp add: copied_inv_def read_copy_def)
qed

lemma kinv_r_lock:
  assumes "kinv junk s" "readers s i = RWant count" "\<not> mutex (cycles s)"
  shows "kinv junk (s\<lparr>cycles := mutex_lock (cycles s), readers := (readers s)(i := RCrit count)\<rparr>)"
proof -
  have "busy (s\<lparr>cycles := c, readers := (readers s)(i := RCrit count)\<rparr>) = busy s" for c
    using assms(2) by (auto simp: busy_def)
  then show ?thesis
    using assms
    by (auto simp: kinv_def sem_inv_def mutex_inv_def copied_inv_def fifo_inv_def)
qed

lemma kinv_r_copy:
  assumes "kinv junk s" "readers s i = RCrit count"
  shows "kinv junk (s\<lparr>readers := (readers s)(i := RCopied count (read_copy nc count (cycles s)))\<rparr>)"
proof -
  have "busy (s\<lparr>readers := (readers s)(i := RCopied count x)\<rparr>) = busy s" for x
    using assms(2) by (auto simp: busy_def)
  moreover have "r_crit (((readers s)(i := RCopied count x)) j) = r_crit (readers s j)" for j x
    using assms(2) by (intro r_crit_upd) simp
  ultimately show ?thesis
    using assms
    by (simp add: kinv_def sem_inv_def mutex_inv_def fifo_inv_def del: fun_upd_apply)
       (auto simp: copied_inv_def)
qed

lemma kinv_r_done:
  assumes inv: "kinv junk s" and pc: "readers s i = RCopied count out"
  shows "kinv junk (s\<lparr>cycles := mutex_unlock (read_advance (cycles s)),
       readers := (readers s)(i := RIdle),
       delivered := delivered s @ [data (cycles s) ! reader_pos (cycles s)],
       returned := returned s @ [(read_clamp count, out)]\<rparr>)" (is "kinv _ ?t")
proof -
  let ?b = "cycles s" and ?x = "data (cycles s) ! reader_pos (cycles s)"
  have ok: "buf_ok ?b" using inv by (simp add: kinv_def)
  have ib: "i \<in> busy s" using pc by (simp add: busy_def)
  have fin: "finite (busy s)" and len: "sem ?b + card (busy s) + 1 = qlen ?b"
    using inv by (simp_all add: kinv_def sem_inv_def)
  have card: "card (busy s) = Suc (card (busy s - {i}))"
    using fin ib by (rule card.remove)
  then have ok': "buf_ok (read_advance ?b)"
    using ok len by (intro read_advance_ok) simp_all
  have "qlen ?b = Suc (qlen (read_advance ?b))"
    using read_advance_queue [OF ok] by (metis cycle_queue_length length_Cons)
  moreover have "busy ?t = busy s - {i}"
    unfolding busy_def by (rule set_eqI) (simp split: if_split)
  ultimately have sem: "sem_inv ?t" using len card fin by (simp add: sem_inv_def)
  have crit: "r_crit (readers s i)" using pc by simp
  have others: "\<not> r_crit (readers s j)" if "j \<noteq> i" for j
    using inv crit that by (auto simp: kinv_def mutex_inv_def)
  then have "readers s j \<noteq> RCopied c o'" if "j \<noteq> i" for j c o'
    using that by (metis r_crit.simps(2))
  then have copied: "copied_inv ?t" by (auto simp: copied_inv_def)
  have "\<not> w_crit (worker s)"
    using inv crit by (auto simp: kinv_def mutex_inv_def)
  then have mut: "mutex_inv ?t" using others by (auto simp: mutex_inv_def)
  obtain nc where out: "out = read_copy nc count ?b"
    using inv pc unfolding kinv_def copied_inv_def by blast
  then have rok: "read_ok (read_clamp count, out) ?x"
    by (auto simp: read_ok_def read_copy_def read_clamp_def)
  obtain c where c: "junk ! 0 # written s = c @ cycle_queue ?b" "subseq (delivered s) c"
    "length c = length (delivered s) + evicted s"
    using inv by (auto simp: kinv_def fifo_inv_def)
  then have "junk ! 0 # written s = (c @ [?x]) @ cycle_queue (read_advance ?b)"
    by (simp add: read_advance_queue [OF ok])
  moreover have "subseq (delivered s @ [?x]) (c @ [?x])"
    using c(2) by (simp add: list_emb_append_mono)
  ultimately have "fifo_inv junk ?t"
    using c(3) by (auto simp: fifo_inv_def intro!: exI [of _ "c @ [?x]"])
  then show ?thesis
    using inv sem mut copied rok ok'
    by (simp add: kinv_def list_all2_appendI)
qed

lemma kinv_step: "kstep s t \<Longrightarrow> kinv junk s \<Longrightarrow> kinv junk t"
  by (induction rule: kstep.induct)
     (blast intro: kinv_irq kinv_w_start kinv_w_lock kinv_w_spi kinv_w_done kinv_r_down kinv_r_lock
       kinv_r_copy kinv_r_done)+

lemma kinv_reach:
  assumes "kreach junk s" "length junk = OPQ_CYCLE_BUFFER_COUNT"
    "list_all (\<lambda>c. length c = OPQ_CYCLE_BUFFER_SIZE) junk"
  shows "kinv junk s"
  using assms(1) by (induction rule: kreach.induct) (auto intro: kinv_init [OF assms(2,3)] kinv_step)

definition idle_ok :: "opq_frame_buffer \<Rightarrow> bool" where
  "idle_ok b \<longleftrightarrow> buf_ok b \<and> qlen b = sem b + 1"

lemma handler_queue:
  assumes "buf_ok b"
  shows "cycle_queue (opq_wq_spi_reader_handler (\<lambda>_. x) b) =
    (if qlen b = OPQ_CYCLE_BUFFER_COUNT - 1 then tl (cycle_queue b) else cycle_queue b) @ [x]"
proof -
  let ?b = "wq_spi_read (\<lambda>_. x) (mutex_lock b)"
  have "data ?b ! writer_pos ?b = x" using assms by (simp add: wq_spi_read_def buf_ok_def)
  then show ?thesis
    using assms wq_advance_queue [of ?b] by (simp add: opq_wq_spi_reader_handler_def spi_read_queue)
qed

lemma handler_ok: "idle_ok b \<Longrightarrow> idle_ok (opq_wq_spi_reader_handler rd b)"
  using qlen_wq_advance [of "wq_spi_read rd (mutex_lock b)"]
  by (auto simp: idle_ok_def opq_wq_spi_reader_handler_def wq_advance_ok)

abbreviation read_state :: "opq_frame_buffer \<Rightarrow> opq_frame_buffer" where
  "read_state b \<equiv> snd (opq_chardev_read False 0 OPQ_CYCLE_BUFFER_SIZE b)"

lemma read_state_queue:
  assumes "idle_ok b" "0 < sem b"
  shows "cycle_queue b = data b ! reader_pos b # cycle_queue (read_state b)"
    and "idle_ok (read_state b)"
proof -
  let ?b1 = "mutex_lock (b\<lparr>sem := sem b - 1\<rparr>)"
  have rs: "read_state b = mutex_unlock (read_advance ?b1)"
    using assms by (simp add: opq_chardev_read_def)
  have b1: "buf_ok ?b1" using assms by (simp add: idle_ok_def buf_ok_def mutex_lock_def)
  have q1: "cycle_queue ?b1 = cycle_queue b" by (simp add: cycle_queue_def mutex_lock_def)
  then show q: "cycle_queue b = data b ! reader_pos b # cycle_queue (read_state b)"
    unfolding rs using read_advance_queue [OF b1] by simp
  have "buf_ok (read_advance ?b1)"
    using assms q1 by (intro read_advance_ok b1) (simp add: idle_ok_def)
  moreover have "qlen (read_state b) = sem (read_state b) + 1"
    using arg_cong [OF q, of length] assms by (simp add: idle_ok_def rs)
  ultimately show "idle_ok (read_state b)" unfolding idle_ok_def by (simp add: rs)
qed

interpretation cyc: drop_oldest "\<lambda>x. opq_wq_spi_reader_handler (\<lambda>_. x)" read_state
  "\<lambda>b. data b ! reader_pos b" cycle_queue "\<lambda>b. 0 < sem b" idle_ok "\<lambda>_. True" 1 "OPQ_CYCLE_BUFFER_COUNT - 1"
proof
  show "0 < OPQ_CYCLE_BUFFER_COUNT - 1" by (simp add: opq_consts)
  fix q :: opq_frame_buffer and x
  assume inv: "idle_ok q"
  then have ok: "buf_ok q" and len: "qlen q = sem q + 1" by (simp_all add: idle_ok_def)
  show "length (cycle_queue q) \<le> OPQ_CYCLE_BUFFER_COUNT - 1"
    using ok ring_len_less [of "reader_pos q" OPQ_CYCLE_BUFFER_COUNT "writer_pos q"]
    by (simp add: buf_ok_def)
  show "(0 < sem q) = (1 < length (cycle_queue q))" using len by simp
  show "cycle_queue (opq_wq_spi_reader_handler (\<lambda>_. x) q) = cycle_queue q @ [x]"
    if "length (cycle_queue q) < OPQ_CYCLE_BUFFER_COUNT - 1"
    using handler_queue [OF ok] that by simp
  show "cycle_queue (opq_wq_spi_reader_handler (\<lambda>_. x) q) = tl (cycle_queue q) @ [x]"
    if "length (cycle_queue q) = OPQ_CYCLE_BUFFER_COUNT - 1"
    using handler_queue [OF ok] that by simp
  show "idle_ok (opq_wq_spi_reader_handler (\<lambda>_. x) q)" using inv by (rule handler_ok)
  then show "idle_ok (opq_wq_spi_reader_handler (\<lambda>_. x) q)" .
  assume "0 < sem q"
  with inv show "cycle_queue q = data q ! reader_pos q # cycle_queue (read_state q)"
    and "idle_ok (read_state q)" by (rule read_state_queue)+
qed

text \<open>Progress of the threads inside their critical sections.\<close>

lemma two_steps: "kstep s t \<Longrightarrow> kstep t u \<Longrightarrow> kstep\<^sup>*\<^sup>* s u"
  by (rule converse_rtranclp_into_rtranclp) auto

lemma crit_reader_finishes:
  assumes "r_crit (readers s i)"
  shows "\<exists>t. kstep\<^sup>*\<^sup>* s t \<and> readers t i = RIdle \<and> length (returned s) < length (returned t)"
proof -
  have fin: "\<exists>t. kstep u t \<and> readers t i = RIdle \<and> length (returned u) < length (returned t)"
    if "readers u i = RCopied c out" for u c out
    by (rule exI, rule conjI, rule kstep.r_done [OF that]) simp
  show ?thesis
  proof (cases "readers s i")
    case (RCrit c)
    let ?u = "s\<lparr>readers := (readers s)(i := RCopied c (read_copy 0 c (cycles s)))\<rparr>"
    have "kstep s ?u" using RCrit by (rule kstep.r_copy)
    moreover obtain t where "kstep ?u t" "readers t i = RIdle" "length (returned s) < length (returned t)"
      using fin [of ?u c "read_copy 0 c (cycles s)"] by auto
    ultimately show ?thesis by (blast intro: two_steps)
  next
    case (RCopied c out)
    from fin [OF this] show ?thesis by blast
  qed (use assms in simp_all)
qed

lemma crit_worker_finishes:
  assumes "w_crit (worker s)"
  shows "\<exists>t. kstep\<^sup>*\<^sup>* s t \<and> \<not> mutex (cycles t) \<and> readers t = readers s \<and> returned t = returned s"
proof -
  have fin: "\<exists>t. kstep u t \<and> \<not> mutex (cycles t) \<and> readers t = readers u \<and> returned t = returned u"
    if "worker u = WRead" for u
    by (rule exI, rule conjI, rule kstep.w_done [OF that]) simp
  show ?thesis
  proof (cases "worker s")
    case WCrit
    let ?u = "s\<lparr>cycles := wq_spi_read (\<lambda>_. replicate OPQ_CYCLE_BUFFER_SIZE 0) (cycles s), worker := WRead\<rparr>"
    have "kstep s ?u" using WCrit by (rule kstep.w_spi) simp
    moreover obtain t where "kstep ?u t" "\<not> mutex (cycles t)" "readers t = readers s" "returned t = returned s"
      using fin [of ?u] by auto
    ultimately show ?thesis by (blast intro: two_steps)
  next
    case WRead
    from fin [OF this] show ?thesis by blast
  qed (use assms in simp_all)
qed

lemma reader_releases:
  assumes "r_crit (readers s j)"
  shows "\<exists>t. kstep\<^sup>*\<^sup>* s t \<and> \<not> mutex (cycles t) \<and> (\<forall>i. i \<noteq> j \<longrightarrow> readers t i = readers s i)
     \<and> length (returned s) \<le> length (returned t)"
proof -
  have fin: "\<exists>t. kstep u t \<and> \<not> mutex (cycles t) \<and> (\<forall>i. i \<noteq> j \<longrightarrow> readers t i = readers u i)
     \<and> length (returned u) \<le> length (returned t)"
    if "readers u j = RCopied c out" for u c out
    by (rule exI, rule conjI, rule kstep.r_done [OF that]) simp
  show ?thesis
  proof (cases "readers s j")
    case (RCrit c)
    let ?u = "s\<lparr>readers := (readers s)(j := RCopied c (read_copy 0 c (cycles s)))\<rparr>"
    have "kstep s ?u" using RCrit by (rule kstep.r_copy)
    moreover obtain t where "kstep ?u t" "\<not> mutex (cycles t)" "\<forall>i. i \<noteq> j \<longrightarrow> readers t i = readers s i"
      "length (returned s) \<le> length (returned t)"
      using fin [of ?u c "read_copy 0 c (cycles s)"] by auto
    ultimately show ?thesis by (blast intro: two_steps)
  next
    case (RCopied c out)
    from fin [OF this] show ?thesis by blast
  qed (use assms in simp_all)
qed

lemma holder_releases:
  assumes inv: "mutex_inv s" and want: "readers s i = RWant count"
  shows "\<exists>t. kstep\<^sup>*\<^sup>* s t \<and> \<not> mutex (cycles t) \<and> readers t i = RWant count
     \<and> length (returned s) \<le> length (returned t)"
proof (cases "mutex (cycles s)")
  case False
  then show ?thesis using want by blast
next
  case True
  with inv consider "w_crit (worker s)" | j where "r_crit (readers s j)"
    by (auto simp: mutex_inv_def)
  then show ?thesis
  proof cases
    case 1
    then show ?thesis using crit_worker_finishes [of s] want by auto
  next
    case (2 j)
    then have "j \<noteq> i" using want by auto
    then show ?thesis using reader_releases [OF 2] want by fastforce
  qed
qed

lemma irq_any_gpio_nonneg:
  "0 \<le> ret_gpio_to_irq e \<Longrightarrow> ret_gpio_to_irq e < 2 ^ 15 \<Longrightarrow> 0 \<le> sint (irq_any_gpio e)"
  by (simp add: irq_any_gpio_def sint_sbintrunc' signed_take_bit_int_eq_self)

lemmas module_defs = opq_module_init_def opq_module_exit_def circ_buffer_alloc_def
  opq_init_chardev_def opq_init_spi_def opq_init_gpio_int_def opq_release_chardev_def
  opq_release_spi_def opq_release_gpio_int_def opq_circ_buffer_remove_def

text \<open>An interrupt whose work item runs undisturbed is one call of the handler; a read that runs
  undisturbed is one call of \<^verbatim>\<open>opq_chardev_read\<close>.\<close>

lemma run_handler:
  assumes "worker s = WIdle" "\<not> mutex (cycles s)" "length x = OPQ_CYCLE_BUFFER_SIZE"
    "writer_pos (cycles s) < length (data (cycles s))"
  shows "\<exists>t. kstep\<^sup>*\<^sup>* s t \<and> cycles t = opq_wq_spi_reader_handler (\<lambda>_. x) (cycles s)
    \<and> worker t = WIdle \<and> readers t = readers s \<and> written t = written s @ [x]
    \<and> delivered t = delivered s \<and> returned t = returned s
    \<and> evicted t = evicted s + (if ring_next OPQ_CYCLE_BUFFER_COUNT (writer_pos (cycles s))
         = reader_pos (cycles s) then 1 else 0)"
proof -
  define s1 where "s1 = opq_gpio_irq_handler s"
  define s2 where "s2 = s1\<lparr>pending := False, worker := WWant\<rparr>"
  define s3 where "s3 = s2\<lparr>cycles := mutex_lock (cycles s2), worker := WCrit\<rparr>"
  define s4 where "s4 = s3\<lparr>cycles := wq_spi_read (\<lambda>_. x) (cycles s3), worker := WRead\<rparr>"
  note defs = s4_def s3_def s2_def s1_def opq_gpio_irq_handler_def
  have "kstep s s1" unfolding s1_def by (rule kstep.irq)
  also have "kstep\<^sup>*\<^sup>* s1 s2"
    unfolding s2_def using assms by (intro r_into_rtranclp kstep.w_start) (simp_all add: defs)
  also have "kstep\<^sup>*\<^sup>* s2 s3"
    unfolding s3_def using assms by (intro r_into_rtranclp kstep.w_lock) (simp_all add: defs)
  also have "kstep\<^sup>*\<^sup>* s3 s4"
    unfolding s4_def using assms by (intro r_into_rtranclp kstep.w_spi) (simp_all add: defs)
  finally have s4: "kstep\<^sup>*\<^sup>* s s4" .
  have "worker s4 = WRead" by (simp add: s4_def)
  from rtranclp.rtrancl_into_rtrancl [OF s4 kstep.w_done [OF this]] show ?thesis
    by (intro exI, rule conjI)
       (use assms(4) in \<open>simp add: defs opq_wq_spi_reader_handler_def wq_spi_read_def\<close>)
qed

lemma run_read:
  assumes "readers s i = RIdle" "\<not> mutex (cycles s)" "0 < sem (cycles s)"
  shows "\<exists>t out b. kstep\<^sup>*\<^sup>* s t \<and> opq_chardev_read False nc count (cycles s) = (Returned (int (read_clamp count)) out, b)
    \<and> cycles t = b \<and> worker t = worker s \<and> readers t = readers s \<and> written t = written s
    \<and> delivered t = delivered s @ [data (cycles s) ! reader_pos (cycles s)]
    \<and> returned t = returned s @ [(read_clamp count, out)] \<and> evicted t = evicted s"
proof -
  define s1 where "s1 = s\<lparr>cycles := (cycles s)\<lparr>sem := sem (cycles s) - 1\<rparr>,
       readers := (readers s)(i := RWant count)\<rparr>"
  define s2 where "s2 = s1\<lparr>cycles := mutex_lock (cycles s1), readers := (readers s1)(i := RCrit count)\<rparr>"
  define s3 where "s3 = s2\<lparr>readers := (readers s2)(i := RCopied count (read_copy nc count (cycles s2)))\<rparr>"
  note defs = s3_def s2_def s1_def
  have "kstep s s1" unfolding s1_def using assms by (intro kstep.r_down) 
  also have "kstep\<^sup>*\<^sup>* s1 s2"
    unfolding s2_def using assms by (intro r_into_rtranclp kstep.r_lock) (simp_all add: defs)
  also have "kstep\<^sup>*\<^sup>* s2 s3"
    unfolding s3_def using assms by (intro r_into_rtranclp kstep.r_copy) (simp_all add: defs)
  finally have s3: "kstep\<^sup>*\<^sup>* s s3" .
  have rd: "readers s3 i = RCopied count (read_copy nc count (cycles s2))" by (simp add: s3_def)
  have same: "(readers s)(i := RIdle) = readers s" using assms(1) by auto
  from rtranclp.rtrancl_into_rtrancl [OF s3 kstep.r_done [OF rd]] show ?thesis
    by (intro exI, rule conjI)
       (use assms same in \<open>simp_all add: defs opq_chardev_read_def Let_def\<close>)
qed

lemma kreach_steps: "kstep\<^sup>*\<^sup>* s t \<Longrightarrow> kreach junk s \<Longrightarrow> kreach junk t"
  by (induction rule: rtranclp_induct) (auto intro: kreach.step)

definition ex_junk :: "cycle list" where
  "ex_junk = replicate 10 (replicate 408 7)"

lemma ex_junk_ok: "length ex_junk = OPQ_CYCLE_BUFFER_COUNT"
  "list_all (\<lambda>c. length c = OPQ_CYCLE_BUFFER_SIZE) ex_junk" "ex_junk ! 0 = replicate 408 7"
  by (simp_all add: ex_junk_def opq_consts list_all_iff)

lemma ex_after_handler:
  "\<exists>s. kreach ex_junk s \<and> worker s = WIdle \<and> readers s = (\<lambda>_. RIdle) \<and> \<not> mutex (cycles s)
    \<and> sem (cycles s) = 1 \<and> written s = [replicate 408 1] \<and> evicted s = 0 \<and> delivered s = [] \<and> returned s = []
    \<and> data (cycles s) ! reader_pos (cycles s) = replicate 408 7"
proof -
  have len: "length (replicate 408 (1::u8)) = OPQ_CYCLE_BUFFER_SIZE" by (simp add: opq_consts)
  have "worker (kinit ex_junk) = WIdle" "\<not> mutex (cycles (kinit ex_junk))"
    "writer_pos (cycles (kinit ex_junk)) < length (data (cycles (kinit ex_junk)))"
    using ex_junk_ok by (simp_all add: kinit_def opq_circ_buffer_init_def opq_consts)
  from run_handler [OF this(1,2) len this(3)] obtain t where
    t: "kstep\<^sup>*\<^sup>* (kinit ex_junk) t"
      "cycles t = opq_wq_spi_reader_handler (\<lambda>_. replicate 408 1) (cycles (kinit ex_junk))"
      "worker t = WIdle" "readers t = readers (kinit ex_junk)" "written t = [replicate 408 1]"
      "delivered t = []" "returned t = []" "evicted t = 0"
    by (auto simp: kinit_def opq_circ_buffer_init_def ring_next_def opq_consts)
  have "kreach ex_junk t" using t(1) kreach.start by (rule kreach_steps)
  then show ?thesis
    using t(2-) ex_junk_ok(3)
    by (intro exI [of _ t])
       (simp add: kinit_def opq_circ_buffer_init_def opq_wq_spi_reader_handler_def buf_ops opq_consts)
qed

lemma ex_after_read:
  "\<exists>s. kreach ex_junk s \<and> evicted s = 0 \<and> written s = [replicate 408 1]
    \<and> delivered s = [replicate 408 7] \<and> returned s = [(16, replicate 16 7)]"
proof -
  obtain s where s: "kreach ex_junk s" "readers s 3 = RIdle" "\<not> mutex (cycles s)" "sem (cycles s) = 1"
    "written s = [replicate 408 1]" "evicted s = 0" "delivered s = []" "returned s = []"
    "data (cycles s) ! reader_pos (cycles s) = replicate 408 7"
    using ex_after_handler by auto
  then have pos: "0 < sem (cycles s)" by simp
  have out: "fst (opq_chardev_read False 0 16 (cycles s)) = Returned 16 (replicate 16 7)"
    using s(4,9) by (simp add: opq_chardev_read_def Let_def read_copy_def read_clamp_def opq_consts)
  from run_read [OF s(2,3) pos, of 0 16] obtain t where
    "kstep\<^sup>*\<^sup>* s t" "written t = written s" "evicted t = evicted s" "delivered t = [replicate 408 7]"
    "returned t = [(read_clamp 16, replicate 16 7)]"
    using s(7,8,9) out by auto
  then show ?thesis
    using s kreach_steps by (intro exI [of _ t]) (auto simp: read_clamp_def opq_consts)
qed

lemma ex_reader_waiting:
  "\<exists>s. kreach ex_junk s \<and> readers s 3 = RWant 16 \<and> returned s = []"
proof -
  obtain s where s: "kreach ex_junk s" "readers s 3 = RIdle" "0 < sem (cycles s)" "returned s = []"
    using ex_after_handler by auto
  from kreach.step [OF s(1) kstep.r_down [OF s(2,3), of 16]] show ?thesis
    using s(4) by (auto intro!: exI)
qed

section \<open>Properties of the cycle buffer\<close>

text \<open>C3: in every state reachable by any interleaving of the data-ready interrupt, the work queue and
  any number of readers, the two positions are in range and different, the semaphore plus the
  readers that have passed it is one less than the number of slots between the positions, and at
  most one thread is between \<^verbatim>\<open>mutex_lock\<close> and \<^verbatim>\<open>mutex_unlock\<close>.\<close>
theorem kernel_ring_invariant:
  assumes "kreach junk s" "length junk = OPQ_CYCLE_BUFFER_COUNT"
    "list_all (\<lambda>c. length c = OPQ_CYCLE_BUFFER_SIZE) junk"
  shows "buf_ok (cycles s) \<and> sem_inv s \<and> mutex_inv s"
  using kinv_reach [OF assms] by (simp add: kinv_def)

theorem kernel_ring_invariant_witness:
  "\<exists>s. kreach ex_junk s \<and> written s = [replicate 408 1] \<and> buf_ok (cycles s) \<and> sem_inv s \<and> mutex_inv s"
proof -
  obtain s where s: "kreach ex_junk s" "written s = [replicate 408 1]" using ex_after_read by blast
  then show ?thesis using kernel_ring_invariant [OF s(1) ex_junk_ok(1,2)] by blast
qed

text \<open>C1: frames reach the readers in the order in which they were received: the slots delivered so
  far form a subsequence of slot 0 as it was at start-up followed by the received frames (none is
  duplicated, reordered or mixed with another), and every frame is accounted for: delivered,
  evicted, or still in the ring.\<close>
theorem read_fifo:
  assumes "kreach junk s" "length junk = OPQ_CYCLE_BUFFER_COUNT"
    "list_all (\<lambda>c. length c = OPQ_CYCLE_BUFFER_SIZE) junk"
  shows "subseq (delivered s) (junk ! 0 # written s)
    \<and> cycle_queue (cycles s) = drop (length (delivered s) + evicted s) (junk ! 0 # written s)
    \<and> length (delivered s) + evicted s + qlen (cycles s) = length (written s) + 1"
proof -
  obtain c where c: "junk ! 0 # written s = c @ cycle_queue (cycles s)" "subseq (delivered s) c"
    "length c = length (delivered s) + evicted s"
    using kinv_reach [OF assms] by (auto simp: kinv_def fifo_inv_def)
  have "length (junk ! 0 # written s) = length c + qlen (cycles s)"
    by (simp only: c(1) length_append cycle_queue_length)
  then have len: "length (delivered s) + evicted s + qlen (cycles s) = length (written s) + 1"
    using c(3) by simp
  from c show ?thesis
    using subseq_rev_drop_many [OF c(2), of "cycle_queue (cycles s)"] len
    by (metis append_eq_conv_conj)
qed

theorem read_fifo_witness:
  "\<exists>s. kreach ex_junk s \<and> delivered s = [replicate 408 7] \<and> evicted s = 0
     \<and> cycle_queue (cycles s) = [replicate 408 1]"
proof -
  obtain s where s: "kreach ex_junk s" "evicted s = 0" "written s = [replicate 408 1]"
    "delivered s = [replicate 408 7]" using ex_after_read by blast
  then show ?thesis using read_fifo [OF s(1) ex_junk_ok(1,2)] by (intro exI [of _ s]) simp
qed

text \<open>C4: every call of \<^verbatim>\<open>read\<close> that returns data returns at most one slot, and what reaches user space is
  a prefix of one whole slot: a reader never sees half of one frame and half of another, whatever
  the other threads do meanwhile.\<close>
theorem reads_are_whole_slots:
  assumes "kreach junk s" "length junk = OPQ_CYCLE_BUFFER_COUNT"
    "list_all (\<lambda>c. length c = OPQ_CYCLE_BUFFER_SIZE) junk"
    and "(n, out) \<in> set (returned s)"
  shows "n \<le> OPQ_CYCLE_BUFFER_SIZE
    \<and> (\<exists>slot \<in> set (junk ! 0 # written s). \<exists>nc. out = take (n - nc) slot)"
proof -
  have all: "list_all2 read_ok (returned s) (delivered s)"
    using kinv_reach [OF assms(1-3)] by (simp add: kinv_def)
  obtain c where c: "junk ! 0 # written s = c @ cycle_queue (cycles s)" "subseq (delivered s) c"
    using kinv_reach [OF assms(1-3)] by (auto simp: kinv_def fifo_inv_def)
  from all assms(4) obtain slot where "slot \<in> set (delivered s)" "read_ok (n, out) slot"
    unfolding list_all2_conv_all_nth in_set_conv_nth by metis
  moreover have "set (delivered s) \<subseteq> set (junk ! 0 # written s)"
    unfolding c(1) using c(2) by (auto dest: list_emb_set)
  ultimately show ?thesis by (auto simp: read_ok_def)
qed

theorem reads_are_whole_slots_witness:
  "\<exists>s. kreach ex_junk s \<and> (16, replicate 16 7) \<in> set (returned s)
     \<and> (\<exists>slot \<in> set (ex_junk ! 0 # written s). \<exists>nc. replicate 16 (7::u8) = take (16 - nc) slot)"
proof -
  obtain s where s: "kreach ex_junk s" "(16, replicate 16 7) \<in> set (returned s)"
    using ex_after_read by fastforce
  then show ?thesis using reads_are_whole_slots [OF s(1) ex_junk_ok(1,2) s(2)] by blast
qed

text \<open>C7: as long as nothing was evicted, the reads lag one frame behind: the first read returns slot 0,
  which the driver never wrote (uninitialised memory of \<^verbatim>\<open>kmalloc\<close>), and read \<open>k + 1\<close> returns
  frame \<open>k\<close>.\<close>
theorem reads_lag_behind_uninitialised_slot:
  assumes "kreach junk s" "length junk = OPQ_CYCLE_BUFFER_COUNT"
    "list_all (\<lambda>c. length c = OPQ_CYCLE_BUFFER_SIZE) junk"
    and "evicted s = 0"
  shows "delivered s = take (length (delivered s)) (junk ! 0 # written s)"
proof -
  obtain c where c: "junk ! 0 # written s = c @ cycle_queue (cycles s)" "subseq (delivered s) c"
    "length c = length (delivered s) + evicted s"
    using kinv_reach [OF assms(1-3)] by (auto simp: kinv_def fifo_inv_def)
  then have "delivered s = c"
    using assms(4) by (simp add: subseq_same_length)
  then show ?thesis using c(1) by simp
qed

theorem reads_lag_behind_uninitialised_slot_witness:
  "\<exists>s. kreach ex_junk s \<and> written s = [replicate 408 1] \<and> returned s = [(16, replicate 16 7)]
     \<and> delivered s = [ex_junk ! 0]"
proof -
  obtain s where s: "kreach ex_junk s" "evicted s = 0" "written s = [replicate 408 1]"
    "delivered s = [replicate 408 7]" "returned s = [(16, replicate 16 7)]" using ex_after_read by blast
  then show ?thesis
    using reads_lag_behind_uninitialised_slot [OF s(1) ex_junk_ok(1,2) s(2)] by (intro exI [of _ s]) simp
qed

text \<open>C5: a reader that has passed the semaphore can always finish: from every reachable state there are
  steps (of the thread that holds the mutex, then of the reader itself) after which its call has
  returned.\<close>
theorem reader_can_finish:
  assumes "kreach junk s" "length junk = OPQ_CYCLE_BUFFER_COUNT"
    "list_all (\<lambda>c. length c = OPQ_CYCLE_BUFFER_SIZE) junk"
    and "readers s i \<noteq> RIdle"
  shows "\<exists>t. kstep\<^sup>*\<^sup>* s t \<and> readers t i = RIdle \<and> length (returned s) < length (returned t)"
proof -
  have inv: "mutex_inv s" using kinv_reach [OF assms(1-3)] by (simp add: kinv_def)
  show ?thesis
  proof (cases "r_crit (readers s i)")
    case True
    then show ?thesis by (rule crit_reader_finishes)
  next
    case False
    then obtain count where w: "readers s i = RWant count"
      using assms(4) by (cases "readers s i") auto
    obtain t where t: "kstep\<^sup>*\<^sup>* s t" "\<not> mutex (cycles t)" "readers t i = RWant count"
      "length (returned s) \<le> length (returned t)"
      using holder_releases [OF inv w] by blast
    let ?u = "t\<lparr>cycles := mutex_lock (cycles t), readers := (readers t)(i := RCrit count)\<rparr>"
    have "kstep t ?u" using t(2,3) by (blast intro: kstep.r_lock)
    moreover obtain v where "kstep\<^sup>*\<^sup>* ?u v" "readers v i = RIdle"
      "length (returned ?u) < length (returned v)"
      using crit_reader_finishes [of ?u i] by auto
    ultimately show ?thesis
      using t(1,4) by (intro exI [of _ v]) (auto intro: rtranclp_trans converse_rtranclp_into_rtranclp)
  qed
qed

theorem reader_can_finish_witness:
  "\<exists>s t. kreach ex_junk s \<and> readers s 3 = RWant 16 \<and> kstep\<^sup>*\<^sup>* s t \<and> readers t 3 = RIdle \<and> returned t \<noteq> []"
proof -
  obtain s where s: "kreach ex_junk s" "readers s 3 = RWant 16" using ex_reader_waiting by blast
  then have "readers s 3 \<noteq> RIdle" by simp
  from reader_can_finish [OF s(1) ex_junk_ok(1,2) this] show ?thesis using s by fastforce
qed

text \<open>C6: a burst of frames that nobody reads, from start-up, leaves the newest nine slots in the ring
  and lets exactly \<open>min n 8\<close> reads through; those reads return the newest slots, oldest first.\<close>
theorem burst_keeps_newest:
  assumes "length junk = OPQ_CYCLE_BUFFER_COUNT"
    and "b = fold (\<lambda>x. opq_wq_spi_reader_handler (\<lambda>_. x)) xs (opq_circ_buffer_init junk)"
  shows "cycle_queue b = drop (length xs - 8) (junk ! 0 # xs) \<and> sem b = min (length xs) 8
    \<and> map (\<lambda>i. data ((read_state ^^ i) b) ! reader_pos ((read_state ^^ i) b)) [0..<sem b]
      = take (sem b) (cycle_queue b)"
proof -
  let ?i = "opq_circ_buffer_init junk"
  have q0: "cycle_queue ?i = [junk ! 0]"
    by (simp add: cycle_queue_def opq_circ_buffer_init_def ring_list_def ring_len_def opq_consts)
  have ok: "idle_ok ?i"
    using assms(1) by (simp add: idle_ok_def buf_ok_def opq_circ_buffer_init_def opq_consts ring_len_def)
  have okb: "idle_ok b" unfolding assms(2) by (rule cyc.invar_enqs [OF ok]) simp
  have q: "cycle_queue b = drop (length xs - 8) (junk ! 0 # xs)"
    using cyc.queue_enqs [OF ok, of xs] by (simp add: q0 assms(2) opq_consts)
  have "sem b + 1 = length (cycle_queue b)" using okb by (simp add: idle_ok_def)
  then have sem: "sem b = min (length xs) 8" using arg_cong [OF q, of length] by simp
  show ?thesis
    using q sem cyc.drain [OF okb, of "sem b"] okb by (simp add: idle_ok_def)
qed

theorem burst_keeps_newest_witness:
  "cycle_queue (fold (\<lambda>x. opq_wq_spi_reader_handler (\<lambda>_. x)) (replicate 12 [1]) (opq_circ_buffer_init ex_junk))
     = replicate 9 [1]"
  using burst_keeps_newest [OF ex_junk_ok(1) refl, of "replicate 12 [1]"] by simp

text \<open>One uninterrupted call of \<^verbatim>\<open>read\<close>: with nothing to read it sleeps, or returns
  \<^verbatim>\<open>-ERESTARTSYS\<close> when a signal arrives, and changes nothing; otherwise it consumes the oldest slot
  and returns the clamped count, also when \<^verbatim>\<open>copy_to_user\<close> could copy only part of it.\<close>
lemma chardev_read_result:
  "opq_chardev_read intr nc count b =
     (if sem b = 0 then (if intr then Returned (- 512) [] else Blocks, b)
      else (Returned (int (min count 408)) (take (min count 408 - nc) (data b ! reader_pos b)),
            b\<lparr>mutex := False, sem := sem b - 1, reader_pos := (if reader_pos b + 1 \<ge> 10 then 0 else reader_pos b + 1)\<rparr>))"
  by (simp add: opq_chardev_read_def Let_def read_copy_def read_clamp_def read_advance_def
      mutex_lock_def mutex_unlock_def opq_consts ERESTARTSYS_def min_def)

section \<open>Properties of set-up and tear-down\<close>

text \<open>When every kernel service succeeds, \<^verbatim>\<open>opq_module_exit\<close> gives back exactly what
  \<^verbatim>\<open>opq_module_init\<close> acquired: every acquiring call has one matching releasing call and the other
  way round.\<close>
lemma module_exit_releases_all:
  assumes "env_succeeds e"
  shows "\<exists>calls. opq_module_init e = Inr (calls, 0)
    \<and> (\<forall>r a. r \<in> set (opq_module_exit e) \<longrightarrow> acquired_by r = Some a \<longrightarrow> count_list calls a = 1)
    \<and> (\<forall>a r. acquired_by r = Some a \<longrightarrow> a \<in> set calls \<longrightarrow> count_list (opq_module_exit e) r = 1)"
proof -
  have irq: "\<not> sint (irq_any_gpio e) < 0"
    using assms irq_any_gpio_nonneg by (simp add: env_succeeds_def not_less)
  obtain calls where calls: "opq_module_init e = Inr (calls, 0)"
    "calls = [Kmalloc ''opq_dev'', Kmalloc ''cycles'', Kmalloc ''mutex'', Kmalloc ''sem'', Mutex_init,
       Sema_init 0, Alloc_chrdev_region, Cdev_init, Cdev_add, Spi_busnum_to_master OPQ_SPI_BUS,
       Spi_new_device, Spi_setup OPQ_SPI_BITS_PER_WORD, Gpio_request OPQ_DATA_READY_GPIO,
       Gpio_direction_input OPQ_DATA_READY_GPIO, Gpio_to_irq OPQ_DATA_READY_GPIO, Create_workqueue,
       Request_irq (irq_any_gpio e)]"
    using assms irq by (simp add: env_succeeds_def module_defs)
  have "count_list calls a = 1" if "r \<in> set (opq_module_exit e)" "acquired_by r = Some a" for r a
    using that unfolding calls(2) by (auto simp: module_defs)
  moreover have "count_list (opq_module_exit e) r = 1" if "acquired_by r = Some a" "a \<in> set calls" for a r
    using that unfolding calls(2) by (cases r) (auto simp: module_defs)
  ultimately show ?thesis using calls(1) by blast
qed

definition ex_env :: "int \<Rightarrow> kernel_env" where
  "ex_env g = \<lparr>kmalloc_ok = (\<lambda>_. True), ret_alloc_chrdev_region = 0, ret_cdev_add = 0,
     has_spi_master = True, has_spi_device = True, ret_gpio_request = g,
     ret_gpio_direction_input = 0, ret_gpio_to_irq = 186, ret_request_irq = 0\<rparr>"

lemma module_exit_releases_all_witness:
  "\<exists>calls. opq_module_init (ex_env 0) = Inr (calls, 0) \<and> count_list calls (Request_irq 186) = 1"
proof -
  have "env_succeeds (ex_env 0)" by (simp add: env_succeeds_def ex_env_def)
  moreover have "Free_irq 186 \<in> set (opq_module_exit (ex_env 0))"
    by (simp add: module_defs ex_env_def irq_any_gpio_def)
  ultimately show ?thesis using module_exit_releases_all [of "ex_env 0"] by fastforce
qed

text \<open>\<^verbatim>\<open>opq_module_init\<close> reports success whenever its four allocations succeed, whatever the other
  calls return; so a data-ready pin that cannot be requested leaves a loaded module whose
  \<^verbatim>\<open>opq_module_exit\<close> frees an interrupt and destroys a work queue that were never created.\<close>
lemma module_init_hides_failure:
  assumes "kmalloc_ok e ''opq_dev''" "kmalloc_ok e ''cycles''" "kmalloc_ok e ''mutex''"
    "kmalloc_ok e ''sem''" and "snd (opq_init_gpio_int e) \<noteq> 0" "ret_request_irq e = 0"
  shows "\<exists>calls. opq_module_init e = Inr (calls, 0)
    \<and> Request_irq (irq_any_gpio e) \<notin> set calls \<and> Create_workqueue \<notin> set calls
    \<and> Free_irq (irq_any_gpio e) \<in> set (opq_module_exit e) \<and> Destroy_workqueue \<in> set (opq_module_exit e)"
  using assms by (auto simp: module_defs split: if_splits)

lemma module_init_hides_failure_witness:
  "\<exists>calls. opq_module_init (ex_env (- 16)) = Inr (calls, 0) \<and> Create_workqueue \<notin> set calls
     \<and> Destroy_workqueue \<in> set (opq_module_exit (ex_env (- 16)))"
proof -
  have "snd (opq_init_gpio_int (ex_env (- 16))) \<noteq> 0"
    by (simp add: opq_init_gpio_int_def ex_env_def ENODEV_def)
  then show ?thesis using module_init_hides_failure [of "ex_env (- 16)"] by (auto simp: ex_env_def)
qed

end
