(* ===== verification/Frame_Path.thy ===== *)
theory Frame_Path
  imports Startup Opq_Driver
begin

text \<open>
  The way of a frame: from the frame buffer through the main loop and the SPI interrupts of the firmware to the data
  register, and from there through the cycle buffer of the Linux driver to a call of \<^verbatim>\<open>read\<close>.
\<close>

section \<open>Frames in memory\<close>

lemma unat_of_nat_u32: "n < 2 ^ 32 \<Longrightarrow> unat (of_nat n :: u32) = n"
  by (simp add: unsigned_of_nat take_bit_nat_eq_self)

lemma u16_of_nat_eq: "n < 2 ^ 16 \<Longrightarrow> (204 :: u16) = of_nat n \<longleftrightarrow> n = 204"
  by (subst word_unat_eq_iff) (auto simp: unsigned_of_nat take_bit_nat_eq_self)

lemma drop_concat_blocks:
  "\<forall>x \<in> set xs. length x = n \<Longrightarrow> drop (n * i) (concat xs) = concat (drop i xs)"
proof (induction xs arbitrary: i)
  case Nil
  then show ?case by simp
next
  case (Cons x xs)
  then show ?case by (cases i) simp_all
qed

lemma nth_concat_blocks:
  assumes "\<forall>x \<in> set xs. length x = n" "i < length xs" "k < n"
  shows "n * i + k < length (concat xs)" "concat xs ! (n * i + k) = xs ! i ! k"
proof -
  have d: "drop (n * i) (concat xs) = xs ! i @ concat (drop (Suc i) xs)"
    using drop_concat_blocks [OF assms(1)] assms(2) by (metis Cons_nth_drop_Suc concat.simps(2))
  have l: "length (xs ! i) = n" using assms(1,2) by simp
  have "k < length (drop (n * i) (concat xs))" unfolding d using l assms(3) by simp
  then show "n * i + k < length (concat xs)" by simp
  then have "concat xs ! (n * i + k) = drop (n * i) (concat xs) ! k" by simp
  also have "\<dots> = xs ! i ! k" unfolding d using l assms(3) by (simp add: nth_append)
  finally show "concat xs ! (n * i + k) = xs ! i ! k" .
qed

lemma frames_mem_frame:
  assumes "fb_shape fb" "unat i < FRAME_BUFFER_SIZE"
  shows "mem_bytes (frames_mem base fb m) (frame_addr base i) sizeof_OPQ_Frame = frame_bytes (frames fb ! unat i)"
proof (rule nth_equalityI)
  have f: "length (fdata (frames fb ! unat i)) = FRAME_DATA_COUNT" using assms by (rule fb_shape_frame)
  have blocks: "\<forall>x \<in> set (map frame_bytes (frames fb)). length x = sizeof_OPQ_Frame"
    using assms(1) by (auto simp: fb_shape_def frame_bytes_length)
  show "length (mem_bytes (frames_mem base fb m) (frame_addr base i) sizeof_OPQ_Frame) = length (frame_bytes (frames fb ! unat i))"
    using frame_bytes_length [OF f] by simp
  fix k assume "k < length (mem_bytes (frames_mem base fb m) (frame_addr base i) sizeof_OPQ_Frame)"
  then have k: "k < sizeof_OPQ_Frame" by simp
  have i: "unat i < length (map frame_bytes (frames fb))" using assms by (simp add: fb_shape_def)
  let ?n = "sizeof_OPQ_Frame * unat i + k"
  have "frame_addr base i + of_nat k - base = (of_nat ?n :: u32)" by (simp add: frame_addr_def)
  moreover have "?n < 2 ^ 32" using k assms(2) by (simp add: sizeof_OPQ_Frame_def FRAME_BUFFER_SIZE_def)
  then have "unat (of_nat ?n :: u32) = ?n" by (rule unat_of_nat_u32)
  ultimately have "unat (frame_addr base i + of_nat k - base) = ?n" by (simp only:)
  then have "frames_mem base fb m (frame_addr base i + of_nat k) = concat (map frame_bytes (frames fb)) ! ?n"
    using nth_concat_blocks(1) [OF blocks i k] by (simp add: frames_mem_def Let_def)
  also have "\<dots> = frame_bytes (frames fb ! unat i) ! k" using nth_concat_blocks(2) [OF blocks i k] i by simp
  finally show "mem_bytes (frames_mem base fb m) (frame_addr base i) sizeof_OPQ_Frame ! k = frame_bytes (frames fb ! unat i) ! k"
    using k by (simp add: mem_bytes_def)
qed

lemma frames_mem_idem [simp]: "frames_mem base fb (frames_mem base fb m) = frames_mem base fb m"
  by (rule ext) (simp add: frames_mem_def Let_def)

section \<open>Transmission\<close>

fun spi_interrupts :: "u32 \<Rightarrow> board_hw \<Rightarrow> nat \<Rightarrow> board \<Rightarrow> board option" where
  "spi_interrupts base e 0 b = Some b"
| "spi_interrupts base e (Suc n) b = do { b1 \<leftarrow> spi_interrupts base e n b; SPI3_IRQHandler base e b1 }"

text \<open>The level of the data-ready line.\<close>
definition data_ready :: "board \<Rightarrow> bool" where
  "data_ready b \<longleftrightarrow> bit (ODR (b_gpio b GPIOA)) 0"

lemma port_write_fields [simp]:
  "hspi3 (port_write p pins st b) = hspi3 b" "frameBuffer (port_write p pins st b) = frameBuffer b"
  by (simp_all add: port_write_def)

lemma port_write_data_ready: "data_ready (port_write GPIOA GPIO_PIN_0 st b) \<longleftrightarrow> st = GPIO_PIN_SET"
  using gpio_write_pin_bits [of GPIO_PIN_0 st "b_gpio b GPIOA" 0]
  by (simp add: data_ready_def port_write_def) (simp add: GPIO_PIN_0_def)

lemma data_ready_hspi3 [simp]: "data_ready (b\<lparr>hspi3 := h\<rparr>) \<longleftrightarrow> data_ready b"
  by (simp add: data_ready_def)

lemma spi_view_same:
  "spi_mem (hspi3 b) = frames_mem base (frameBuffer b) m \<Longrightarrow> spi_view base b = hspi3 b"
  by (cases "hspi3 b") (simp add: spi_view_def)

lemma SPI3_IRQHandler_step:
  assumes "spi_mem (hspi3 b) = frames_mem base (frameBuffer b) m" "HAL_SPI_IRQHandler (e_spi e) (hspi3 b) = Some h"
  obtains b' where "SPI3_IRQHandler base e b = Some b'" "hspi3 b' = h" "frameBuffer b' = frameBuffer b"
    "data_ready b' \<longleftrightarrow> data_ready b \<and> TxXferSize (hspi3 b) div 2 \<noteq> TxXferCount (hspi3 b)"
proof -
  define b1 where "b1 = (if TxXferSize (hspi3 b) div 2 = TxXferCount (hspi3 b)
    then port_write GPIOA GPIO_PIN_0 GPIO_PIN_RESET b else b)"
  have b1: "hspi3 b1 = hspi3 b" "frameBuffer b1 = frameBuffer b"
    "data_ready b1 \<longleftrightarrow> data_ready b \<and> TxXferSize (hspi3 b) div 2 \<noteq> TxXferCount (hspi3 b)"
    by (simp_all add: b1_def port_write_data_ready)
  then have "spi_view base b1 = hspi3 b" using spi_view_same [of b1 base m] assms(1) by simp
  then have "SPI3_IRQHandler base e b = Some (b1\<lparr>hspi3 := h\<rparr>)"
    using assms(2) by (simp add: SPI3_IRQHandler_def b1_def [symmetric] Let_def)
  then show thesis using b1 by (intro that [of "b1\<lparr>hspi3 := h\<rparr>"]) simp_all
qed

text \<open>The board while a frame is being sent: \<open>k\<close> interrupts have been handled since the state \<open>h0\<close> of the driver.\<close>
definition sending_at :: "u32 \<Rightarrow> spi \<Rightarrow> u32 \<Rightarrow> nat \<Rightarrow> board \<Rightarrow> board \<Rightarrow> bool" where
  "sending_at base h0 p k b0 b \<longleftrightarrow> tx_at h0 p sizeof_OPQ_Frame k (hspi3 b) \<and> frameBuffer b = frameBuffer b0
     \<and> (data_ready b \<longleftrightarrow> k \<le> sizeof_OPQ_Frame div 2)"

lemma sending_run:
  assumes "sending_at base h0 p 0 b0 b0" "spi_mem h0 = frames_mem base (frameBuffer b0) m"
    "TxXferSize h0 = of_nat sizeof_OPQ_Frame"
    "spi_CR2 h0 AND SPI_IT_RXNE = 0" "spi_CR2 h0 AND SPI_IT_TXE \<noteq> 0"
    "\<And>t. hw_SR (e_spi e) t AND SPI_FLAG_TXE \<noteq> 0" "k < sizeof_OPQ_Frame"
  shows "\<exists>b. spi_interrupts base e k b0 = Some b \<and> sending_at base h0 p k b0 b"
  using assms(7)
proof (induction k)
  case 0
  then show ?case using assms(1) by simp
next
  case (Suc k)
  then obtain b where b: "spi_interrupts base e k b0 = Some b" "sending_at base h0 p k b0 b" by auto
  have at: "tx_at h0 p sizeof_OPQ_Frame k (hspi3 b)" using b(2) by (simp add: sending_at_def)
  obtain h' where h': "HAL_SPI_IRQHandler (e_spi e) (hspi3 b) = Some h'" "tx_at h0 p sizeof_OPQ_Frame (Suc k) h'"
    using tx8_step [OF at Suc.prems _ assms(4,5) assms(6)] by (auto simp: sizeof_OPQ_Frame_def)
  have m: "spi_mem (hspi3 b) = frames_mem base (frameBuffer b) m"
    using at b(2) assms(2) by (simp add: tx_at_def sending_at_def)
  obtain b' where b': "SPI3_IRQHandler base e b = Some b'" "hspi3 b' = h'" "frameBuffer b' = frameBuffer b"
    "data_ready b' \<longleftrightarrow> data_ready b \<and> TxXferSize (hspi3 b) div 2 \<noteq> TxXferCount (hspi3 b)"
    by (rule SPI3_IRQHandler_step [OF m h'(1)])
  have "TxXferSize (hspi3 b) = 408" "TxXferCount (hspi3 b) = of_nat (408 - k)"
    using at assms(3) by (simp_all add: tx_at_def sizeof_OPQ_Frame_def)
  moreover have "(204 :: u16) = of_nat (408 - k) \<longleftrightarrow> k = 204"
    using Suc.prems by (subst u16_of_nat_eq) (auto simp: sizeof_OPQ_Frame_def)
  ultimately have "data_ready b' \<longleftrightarrow> Suc k \<le> sizeof_OPQ_Frame div 2"
    using b' b(2) by (auto simp: sending_at_def sizeof_OPQ_Frame_def)
  then show ?case using b b' h' by (simp add: sending_at_def)
qed

lemma Transmit_IT_accepted:
  "spi_idle h \<Longrightarrow> p \<noteq> 0 \<Longrightarrow> Size \<noteq> 0 \<Longrightarrow> \<exists>h1. HAL_SPI_Transmit_IT p Size h = (HAL_OK, h1)"
  by (simp add: HAL_SPI_Transmit_IT_def spi_idle_def NULL_def Let_def)

lemma frame_sent:
  assumes b: "fb_shape (frameBuffer b)" "fb_nonempty (frameBuffer b)" "spi_idle (hspi3 b)"
    and p: "frame_addr base (tail (frameBuffer b)) \<noteq> 0"
    and hw: "\<And>t. hw_SR (e_spi e) t AND SPI_FLAG_TXE \<noteq> 0" "tick_advances (e_spi e)"
  shows "\<exists>b'. spi_interrupts base e sizeof_OPQ_Frame (main_pass base b) = Some b'
    \<and> spi_sent (hspi3 b') = spi_sent (hspi3 b) @ frame_bytes (fb_first (frameBuffer b))
    \<and> HAL_SPI_GetState (hspi3 b') = HAL_SPI_STATE_READY \<and> frameBuffer b' = fb_pop (frameBuffer b)
    \<and> data_ready (main_pass base b) \<and> \<not> data_ready b'"
proof -
  let ?fb = "frameBuffer b" and ?p = "frame_addr base (tail (frameBuffer b))" and ?n = sizeof_OPQ_Frame
  let ?v = "spi_view base b"
  have v: "spi_idle ?v" "spi_sent ?v = spi_sent (hspi3 b)" "spi_mem ?v = frames_mem base ?fb (spi_mem (hspi3 b))"
    using b(3) by (simp_all add: spi_idle_def spi_view_def spi_crc_on_def spi_sent_def)
  have "(of_nat ?n :: u16) \<noteq> 0" by (simp add: sizeof_OPQ_Frame_def)
  then obtain h1 where h1: "HAL_SPI_Transmit_IT ?p (of_nat ?n) ?v = (HAL_OK, h1)"
    using Transmit_IT_accepted [OF v(1) p] by blast
  have i: "spi_DataSize (spi_Init ?v) = SPI_DATASIZE_8BIT" "\<not> spi_crc_on ?v" "spi_CR2 ?v AND SPI_IT_RXNE = 0"
    using v(1) by (simp_all add: spi_idle_def)
  note at = Transmit_IT_at [OF h1 i]
  have size: "TxXferSize h1 = of_nat ?n" "unat (of_nat ?n :: u16) = ?n"
    using Transmit_IT_started [OF h1 i(2)] by (simp_all add: sizeof_OPQ_Frame_def)
  define b0 where "b0 = main_pass base b"
  have b0: "hspi3 b0 = h1" "frameBuffer b0 = fb_pop ?fb" "data_ready b0"
    using b(2,3) h1 by (simp_all add: b0_def main_pass_def spi_idle_def HAL_SPI_GetState_def Let_def port_write_data_ready)
  have fm: "frames_mem base (fb_pop ?fb) m = frames_mem base ?fb m" for m
    by (rule ext) (simp add: frames_mem_def fb_pop_def)
  have mem: "spi_mem h1 = frames_mem base (frameBuffer b0) (spi_mem (hspi3 b))" using at(5) v(3) b0(2) fm by simp
  have s0: "sending_at base h1 ?p 0 b0 b0" using at(1) b0 size(2) by (simp add: sending_at_def)
  obtain g where g: "spi_interrupts base e 407 b0 = Some g" "sending_at base h1 ?p 407 b0 g"
    using sending_run [OF s0 mem size(1) at(2,3) hw(1), of 407] by (auto simp: sizeof_OPQ_Frame_def)
  have n: "?n = Suc 407" by (simp add: sizeof_OPQ_Frame_def)
  have gat: "tx_at h1 ?p ?n 407 (hspi3 g)" using g(2) by (simp add: sending_at_def)
  obtain c where c: "HAL_SPI_IRQHandler (e_spi e) (hspi3 g) = SPI_CloseTx_ISR (e_spi e) c"
    "spi_sent c = spi_sent h1 @ mem_bytes (spi_mem h1) ?p ?n"
    using tx8_last [OF gat n at(2,3) hw(1)] by auto
  obtain h2 where h2: "SPI_CloseTx_ISR (e_spi e) c = Some h2" using CloseTx_returns [OF hw(2)] by blast
  have m: "spi_mem (hspi3 g) = frames_mem base (frameBuffer g) (spi_mem (hspi3 b))"
    using gat g(2) mem by (simp add: tx_at_def sending_at_def)
  obtain b' where b': "SPI3_IRQHandler base e g = Some b'" "hspi3 b' = h2" "frameBuffer b' = frameBuffer g"
    "data_ready b' \<longleftrightarrow> data_ready g \<and> TxXferSize (hspi3 g) div 2 \<noteq> TxXferCount (hspi3 g)"
    using SPI3_IRQHandler_step [OF m, of e h2] c(1) h2 by metis
  have "spi_interrupts base e ?n b0 = Some b'" using g(1) b'(1) spi_interrupts.simps(2) [of base e 407 b0] by (simp add: n)
  moreover have "spi_sent h2 = spi_sent (hspi3 b) @ frame_bytes (fb_first ?fb)"
    using CloseTx_result [OF h2] c(2) at(4,5) v(2,3) frames_mem_frame [OF b(1), of "tail ?fb" base] b(1)
    by (simp add: fb_first_def fb_shape_def)
  moreover have "HAL_SPI_GetState h2 = HAL_SPI_STATE_READY" using CloseTx_result [OF h2] by (simp add: HAL_SPI_GetState_def)
  moreover have "\<not> data_ready b'" using g(2) b'(4) by (simp add: sending_at_def sizeof_OPQ_Frame_def)
  ultimately show ?thesis using b' g(2) b0 by (auto simp: b0_def [symmetric] sending_at_def)
qed

section \<open>Reception\<close>

text \<open>A fresh cycle buffer that receives two cycles: the first read returns the slot that was never written, the second
  read the first cycle.\<close>
lemma second_read:
  assumes "length junk = OPQ_CYCLE_BUFFER_COUNT" "length x = OPQ_CYCLE_BUFFER_SIZE"
  shows "fst (opq_chardev_read False 0 OPQ_CYCLE_BUFFER_SIZE (snd (opq_chardev_read False 0 OPQ_CYCLE_BUFFER_SIZE
      (opq_wq_spi_reader_handler (\<lambda>_. y) (opq_wq_spi_reader_handler (\<lambda>_. x) (opq_circ_buffer_init junk))))))
    = Returned (int OPQ_CYCLE_BUFFER_SIZE) x"
  using assms
  by (simp add: opq_chardev_read_def opq_wq_spi_reader_handler_def opq_circ_buffer_init_def buf_ops read_copy_def
      read_clamp_def opq_consts)

end
