(* ===== verification/Hal_Dma.thy ===== *)
theory Hal_Dma
  imports Hal_Def
begin

text \<open>
  The DMA driver (\<^verbatim>\<open>stm32f3xx_hal_dma.c\<close>): initialisation, start, abort, polling and the interrupt handler of
  one channel.  The channel's registers \<^verbatim>\<open>CCR\<close>, \<^verbatim>\<open>CNDTR\<close>, \<^verbatim>\<open>CPAR\<close> and \<^verbatim>\<open>CMAR\<close> are fields of the
  handle; the flags of the controller's \<^verbatim>\<open>ISR\<close> come from the environment, writes to \<^verbatim>\<open>IFCR\<close> are kept in
  \<open>dma_io\<close>.  The function pointers of the handle hold a value of the client's type \<open>'cb\<close>; the argument \<open>call\<close>
  is what calling it does to the handle and to the client's state \<open>'s\<close> (the structure behind \<^verbatim>\<open>Parent\<close>), \<open>None\<close>
  if it does not return.
\<close>

section \<open>Registers and constants\<close>

definition DMA_CCR_EN :: u32 where "DMA_CCR_EN = 1"
definition DMA_CCR_DIR :: u32 where "DMA_CCR_DIR = 0x10"
definition DMA_CCR_CIRC :: u32 where "DMA_CCR_CIRC = 0x20"
definition DMA_CCR_PINC :: u32 where "DMA_CCR_PINC = 0x40"
definition DMA_CCR_MINC :: u32 where "DMA_CCR_MINC = 0x80"
definition DMA_CCR_PSIZE :: u32 where "DMA_CCR_PSIZE = 0x300"
definition DMA_CCR_MSIZE :: u32 where "DMA_CCR_MSIZE = 0xC00"
definition DMA_CCR_PL :: u32 where "DMA_CCR_PL = 0x3000"
definition DMA_CCR_MEM2MEM :: u32 where "DMA_CCR_MEM2MEM = 0x4000"
definition DMA_IT_TC :: u32 where "DMA_IT_TC = 2"
definition DMA_IT_HT :: u32 where "DMA_IT_HT = 4"
definition DMA_IT_TE :: u32 where "DMA_IT_TE = 8"
definition DMA_PERIPH_TO_MEMORY :: u32 where "DMA_PERIPH_TO_MEMORY = 0"
definition DMA_MEMORY_TO_PERIPH :: u32 where "DMA_MEMORY_TO_PERIPH = DMA_CCR_DIR"
definition DMA_MEMORY_TO_MEMORY :: u32 where "DMA_MEMORY_TO_MEMORY = DMA_CCR_MEM2MEM"
definition DMA_MINC_ENABLE :: u32 where "DMA_MINC_ENABLE = DMA_CCR_MINC"
definition DMA_MDATAALIGN_BYTE :: u32 where "DMA_MDATAALIGN_BYTE = 0"
definition DMA_MDATAALIGN_HALFWORD :: u32 where "DMA_MDATAALIGN_HALFWORD = 0x400"
definition DMA_PDATAALIGN_HALFWORD :: u32 where "DMA_PDATAALIGN_HALFWORD = 0x100"
definition DMA_NORMAL :: u32 where "DMA_NORMAL = 0"
definition DMA_CIRCULAR :: u32 where "DMA_CIRCULAR = DMA_CCR_CIRC"
definition HAL_DMA_ERROR_NONE :: u32 where "HAL_DMA_ERROR_NONE = 0"
definition HAL_DMA_ERROR_TE :: u32 where "HAL_DMA_ERROR_TE = 1"
definition HAL_DMA_ERROR_NO_XFER :: u32 where "HAL_DMA_ERROR_NO_XFER = 4"
definition HAL_DMA_ERROR_TIMEOUT :: u32 where "HAL_DMA_ERROR_TIMEOUT = 0x20"
definition HAL_TIMEOUT_DMA_ABORT :: u32 where "HAL_TIMEOUT_DMA_ABORT = 1000"

lemmas dma_consts = DMA_CCR_EN_def DMA_CCR_DIR_def DMA_CCR_CIRC_def DMA_CCR_PINC_def DMA_CCR_MINC_def
  DMA_CCR_PSIZE_def DMA_CCR_MSIZE_def DMA_CCR_PL_def DMA_CCR_MEM2MEM_def DMA_IT_TC_def DMA_IT_HT_def DMA_IT_TE_def
  DMA_PERIPH_TO_MEMORY_def DMA_MEMORY_TO_PERIPH_def DMA_MEMORY_TO_MEMORY_def DMA_MINC_ENABLE_def
  DMA_MDATAALIGN_BYTE_def DMA_MDATAALIGN_HALFWORD_def DMA_PDATAALIGN_HALFWORD_def DMA_NORMAL_def DMA_CIRCULAR_def
  HAL_DMA_ERROR_NONE_def HAL_DMA_ERROR_TE_def HAL_DMA_ERROR_NO_XFER_def HAL_DMA_ERROR_TIMEOUT_def
  HAL_TIMEOUT_DMA_ABORT_def

section \<open>The handle\<close>

datatype dma_channel =
    DMA1_Channel1 | DMA1_Channel2 | DMA1_Channel3 | DMA1_Channel4 | DMA1_Channel5 | DMA1_Channel6 | DMA1_Channel7
  | DMA2_Channel1 | DMA2_Channel2 | DMA2_Channel3 | DMA2_Channel4 | DMA2_Channel5

record DMA_InitTypeDef =
  Direction :: u32
  PeriphInc :: u32
  MemInc :: u32
  PeriphDataAlignment :: u32
  MemDataAlignment :: u32
  dma_Mode :: u32
  Priority :: u32

datatype HAL_DMA_StateTypeDef =
    HAL_DMA_STATE_RESET | HAL_DMA_STATE_READY | HAL_DMA_STATE_READY_HALF | HAL_DMA_STATE_BUSY
  | HAL_DMA_STATE_TIMEOUT | HAL_DMA_STATE_ERROR

datatype HAL_DMA_LevelCompleteTypeDef = HAL_DMA_FULL_TRANSFER | HAL_DMA_HALF_TRANSFER

text \<open>A write to \<^verbatim>\<open>IFCR\<close> of \<^verbatim>\<open>DMA2\<close> (\<open>True\<close>) or \<^verbatim>\<open>DMA1\<close>.\<close>
datatype dma_io = IFCR_write bool u32

record 'cb DMA_HandleTypeDef =
  dma_Instance :: dma_channel
  dma_CCR :: u32
  dma_CNDTR :: u32
  dma_CPAR :: u32
  dma_CMAR :: u32
  dma_Init :: DMA_InitTypeDef
  dma_Lock :: HAL_LockTypeDef
  dma_State :: HAL_DMA_StateTypeDef
  XferCpltCallback :: "'cb option"
  XferHalfCpltCallback :: "'cb option"
  XferErrorCallback :: "'cb option"
  XferAbortCallback :: "'cb option"
  dma_ErrorCode :: u32
  dma_now :: time
  dma_io :: "dma_io list"

type_synonym 'cb dma = "'cb DMA_HandleTypeDef"
type_synonym ('cb, 's) dma_call = "'cb \<Rightarrow> 'cb dma \<times> 's \<Rightarrow> ('cb dma \<times> 's) option"

text \<open>The tick and the flags of the controller; \<open>dh_enabled t\<close>: the \<^verbatim>\<open>EN\<close> bit still reads as set at time \<open>t\<close>,
  although it has been cleared.\<close>
record dma_hw =
  dh_base :: hw
  dh_enabled :: "time \<Rightarrow> bool"

fun DMA_GET_TC_FLAG_INDEX :: "dma_channel \<Rightarrow> u32" where
  "DMA_GET_TC_FLAG_INDEX DMA1_Channel1 = 0x2"
| "DMA_GET_TC_FLAG_INDEX DMA1_Channel2 = 0x20"
| "DMA_GET_TC_FLAG_INDEX DMA1_Channel3 = 0x200"
| "DMA_GET_TC_FLAG_INDEX DMA1_Channel4 = 0x2000"
| "DMA_GET_TC_FLAG_INDEX DMA1_Channel5 = 0x20000"
| "DMA_GET_TC_FLAG_INDEX DMA1_Channel6 = 0x200000"
| "DMA_GET_TC_FLAG_INDEX DMA1_Channel7 = 0x2000000"
| "DMA_GET_TC_FLAG_INDEX DMA2_Channel1 = 0x2"
| "DMA_GET_TC_FLAG_INDEX DMA2_Channel2 = 0x20"
| "DMA_GET_TC_FLAG_INDEX DMA2_Channel3 = 0x200"
| "DMA_GET_TC_FLAG_INDEX DMA2_Channel4 = 0x2000"
| "DMA_GET_TC_FLAG_INDEX DMA2_Channel5 = 0x20000"

fun DMA_GET_HT_FLAG_INDEX :: "dma_channel \<Rightarrow> u32" where
  "DMA_GET_HT_FLAG_INDEX DMA1_Channel1 = 0x4"
| "DMA_GET_HT_FLAG_INDEX DMA1_Channel2 = 0x40"
| "DMA_GET_HT_FLAG_INDEX DMA1_Channel3 = 0x400"
| "DMA_GET_HT_FLAG_INDEX DMA1_Channel4 = 0x4000"
| "DMA_GET_HT_FLAG_INDEX DMA1_Channel5 = 0x40000"
| "DMA_GET_HT_FLAG_INDEX DMA1_Channel6 = 0x400000"
| "DMA_GET_HT_FLAG_INDEX DMA1_Channel7 = 0x4000000"
| "DMA_GET_HT_FLAG_INDEX DMA2_Channel1 = 0x4"
| "DMA_GET_HT_FLAG_INDEX DMA2_Channel2 = 0x40"
| "DMA_GET_HT_FLAG_INDEX DMA2_Channel3 = 0x400"
| "DMA_GET_HT_FLAG_INDEX DMA2_Channel4 = 0x4000"
| "DMA_GET_HT_FLAG_INDEX DMA2_Channel5 = 0x40000"

fun DMA_GET_TE_FLAG_INDEX :: "dma_channel \<Rightarrow> u32" where
  "DMA_GET_TE_FLAG_INDEX DMA1_Channel1 = 0x8"
| "DMA_GET_TE_FLAG_INDEX DMA1_Channel2 = 0x80"
| "DMA_GET_TE_FLAG_INDEX DMA1_Channel3 = 0x800"
| "DMA_GET_TE_FLAG_INDEX DMA1_Channel4 = 0x8000"
| "DMA_GET_TE_FLAG_INDEX DMA1_Channel5 = 0x80000"
| "DMA_GET_TE_FLAG_INDEX DMA1_Channel6 = 0x800000"
| "DMA_GET_TE_FLAG_INDEX DMA1_Channel7 = 0x8000000"
| "DMA_GET_TE_FLAG_INDEX DMA2_Channel1 = 0x8"
| "DMA_GET_TE_FLAG_INDEX DMA2_Channel2 = 0x80"
| "DMA_GET_TE_FLAG_INDEX DMA2_Channel3 = 0x800"
| "DMA_GET_TE_FLAG_INDEX DMA2_Channel4 = 0x8000"
| "DMA_GET_TE_FLAG_INDEX DMA2_Channel5 = 0x80000"

fun DMA_GET_GI_FLAG_INDEX :: "dma_channel \<Rightarrow> u32" where
  "DMA_GET_GI_FLAG_INDEX DMA1_Channel1 = 0x1"
| "DMA_GET_GI_FLAG_INDEX DMA1_Channel2 = 0x10"
| "DMA_GET_GI_FLAG_INDEX DMA1_Channel3 = 0x100"
| "DMA_GET_GI_FLAG_INDEX DMA1_Channel4 = 0x1000"
| "DMA_GET_GI_FLAG_INDEX DMA1_Channel5 = 0x10000"
| "DMA_GET_GI_FLAG_INDEX DMA1_Channel6 = 0x100000"
| "DMA_GET_GI_FLAG_INDEX DMA1_Channel7 = 0x1000000"
| "DMA_GET_GI_FLAG_INDEX DMA2_Channel1 = 0x1"
| "DMA_GET_GI_FLAG_INDEX DMA2_Channel2 = 0x10"
| "DMA_GET_GI_FLAG_INDEX DMA2_Channel3 = 0x100"
| "DMA_GET_GI_FLAG_INDEX DMA2_Channel4 = 0x1000"
| "DMA_GET_GI_FLAG_INDEX DMA2_Channel5 = 0x10000"

fun on_DMA2 :: "dma_channel \<Rightarrow> bool" where
  "on_DMA2 c = (c \<in> {DMA2_Channel1, DMA2_Channel2, DMA2_Channel3, DMA2_Channel4, DMA2_Channel5})"

definition dma_CLEAR_FLAG :: "(dma_channel \<Rightarrow> u32) \<Rightarrow> 'cb dma \<Rightarrow> 'cb dma" where
  "dma_CLEAR_FLAG flag d = d\<lparr>dma_io := dma_io d @ [IFCR_write (on_DMA2 (dma_Instance d)) (flag (dma_Instance d))]\<rparr>"

text \<open>\<^verbatim>\<open>__HAL_DMA_GET_FLAG\<close> at one instant.\<close>
definition dma_flag_at :: "dma_hw \<Rightarrow> (dma_channel \<Rightarrow> u32) \<Rightarrow> 'cb dma \<Rightarrow> time \<Rightarrow> bool" where
  "dma_flag_at hw flag d t \<longleftrightarrow> hw_SR (dh_base hw) t AND flag (dma_Instance d) \<noteq> 0"

definition dma_ENABLE :: "'cb dma \<Rightarrow> 'cb dma" where
  "dma_ENABLE d = d\<lparr>dma_CCR := SET_BIT (dma_CCR d) DMA_CCR_EN\<rparr>"

definition dma_DISABLE :: "'cb dma \<Rightarrow> 'cb dma" where
  "dma_DISABLE d = d\<lparr>dma_CCR := CLEAR_BIT (dma_CCR d) DMA_CCR_EN\<rparr>"

definition dma_ENABLE_IT :: "u32 \<Rightarrow> 'cb dma \<Rightarrow> 'cb dma" where
  "dma_ENABLE_IT it d = d\<lparr>dma_CCR := SET_BIT (dma_CCR d) it\<rparr>"

definition dma_DISABLE_IT :: "u32 \<Rightarrow> 'cb dma \<Rightarrow> 'cb dma" where
  "dma_DISABLE_IT it d = d\<lparr>dma_CCR := CLEAR_BIT (dma_CCR d) it\<rparr>"

definition dma_GET_IT_SOURCE :: "'cb dma \<Rightarrow> u32 \<Rightarrow> bool" where
  "dma_GET_IT_SOURCE d it \<longleftrightarrow> dma_CCR d AND it = it"

lemmas dma_macros = dma_ENABLE_def dma_DISABLE_def dma_ENABLE_IT_def dma_DISABLE_IT_def dma_CLEAR_FLAG_def
  dma_GET_IT_SOURCE_def

section \<open>Initialisation\<close>

text \<open>The bit \<^verbatim>\<open>MEM2MEM\<close> is not in the mask that clears the register.\<close>
definition HAL_DMA_Init :: "'cb dma \<Rightarrow> HAL_StatusTypeDef \<times> 'cb dma" where
  "HAL_DMA_Init d =
     (let d1 = (if dma_State d = HAL_DMA_STATE_RESET then d\<lparr>dma_Lock := HAL_UNLOCKED\<rparr> else d);
          i = dma_Init d1;
          tmp = dma_CCR d1 AND NOT (DMA_CCR_PL OR DMA_CCR_MSIZE OR DMA_CCR_PSIZE OR DMA_CCR_MINC OR DMA_CCR_PINC
                                    OR DMA_CCR_CIRC OR DMA_CCR_DIR);
          tmp1 = tmp OR (Direction i OR PeriphInc i OR MemInc i OR PeriphDataAlignment i OR MemDataAlignment i
                         OR dma_Mode i OR Priority i)
      in (HAL_OK, d1\<lparr>dma_CCR := tmp1, dma_ErrorCode := HAL_DMA_ERROR_NONE, dma_State := HAL_DMA_STATE_READY\<rparr>))"

definition HAL_DMA_DeInit :: "'cb dma \<Rightarrow> HAL_StatusTypeDef \<times> 'cb dma" where
  "HAL_DMA_DeInit d =
     (let d1 = (dma_DISABLE d)\<lparr>dma_CCR := 0, dma_CNDTR := 0, dma_CPAR := 0, dma_CMAR := 0\<rparr>;
          d2 = dma_CLEAR_FLAG DMA_GET_HT_FLAG_INDEX (dma_CLEAR_FLAG DMA_GET_TE_FLAG_INDEX
                 (dma_CLEAR_FLAG DMA_GET_TC_FLAG_INDEX d1))
      in (HAL_OK, d2\<lparr>dma_ErrorCode := HAL_DMA_ERROR_NONE, dma_State := HAL_DMA_STATE_RESET,
                     dma_Lock := HAL_UNLOCKED\<rparr>))"

section \<open>Transfers\<close>

definition DMA_SetConfig :: "u32 \<Rightarrow> u32 \<Rightarrow> u32 \<Rightarrow> 'cb dma \<Rightarrow> 'cb dma" where
  "DMA_SetConfig SrcAddress DstAddress DataLength d =
     (let d1 = d\<lparr>dma_CNDTR := DataLength\<rparr>
      in if Direction (dma_Init d1) = DMA_MEMORY_TO_PERIPH
         then d1\<lparr>dma_CPAR := DstAddress, dma_CMAR := SrcAddress\<rparr>
         else d1\<lparr>dma_CPAR := SrcAddress, dma_CMAR := DstAddress\<rparr>)"

definition HAL_DMA_Start :: "u32 \<Rightarrow> u32 \<Rightarrow> u32 \<Rightarrow> 'cb dma \<Rightarrow> HAL_StatusTypeDef \<times> 'cb dma" where
  "HAL_DMA_Start SrcAddress DstAddress DataLength d =
     (if dma_Lock d = HAL_LOCKED then (HAL_BUSY, d)
      else let d1 = dma_DISABLE (d\<lparr>dma_Lock := HAL_LOCKED, dma_State := HAL_DMA_STATE_BUSY\<rparr>);
               d2 = DMA_SetConfig SrcAddress DstAddress DataLength d1
           in (HAL_OK, dma_ENABLE d2))"

definition HAL_DMA_Start_IT :: "u32 \<Rightarrow> u32 \<Rightarrow> u32 \<Rightarrow> 'cb dma \<Rightarrow> HAL_StatusTypeDef \<times> 'cb dma" where
  "HAL_DMA_Start_IT SrcAddress DstAddress DataLength d =
     (if dma_Lock d = HAL_LOCKED then (HAL_BUSY, d)
      else let d1 = dma_DISABLE (d\<lparr>dma_Lock := HAL_LOCKED, dma_State := HAL_DMA_STATE_BUSY\<rparr>);
               d2 = DMA_SetConfig SrcAddress DstAddress DataLength d1;
               d3 = dma_ENABLE_IT DMA_IT_TE (dma_ENABLE_IT DMA_IT_HT (dma_ENABLE_IT DMA_IT_TC d2))
           in (HAL_OK, dma_ENABLE d3))"

definition HAL_DMA_Abort :: "dma_hw \<Rightarrow> 'cb dma \<Rightarrow> (HAL_StatusTypeDef \<times> 'cb dma) option" where
  "HAL_DMA_Abort hw d =
     do { let d1 = dma_DISABLE d;
          (ok, t) \<leftarrow> wait_beyond (dh_base hw) (\<lambda>t. \<not> dh_enabled hw t) HAL_TIMEOUT_DMA_ABORT (dma_now d1);
          let d2 = d1\<lparr>dma_now := t, dma_Lock := HAL_UNLOCKED\<rparr>;
          Some (if ok then (HAL_OK, d2\<lparr>dma_State := HAL_DMA_STATE_READY\<rparr>)
                else (HAL_TIMEOUT, d2\<lparr>dma_ErrorCode := SET_BIT (dma_ErrorCode d2) HAL_DMA_ERROR_TIMEOUT,
                        dma_State := HAL_DMA_STATE_TIMEOUT\<rparr>)) }"

definition dma_callback :: "('cb, 's) dma_call \<Rightarrow> ('cb dma \<Rightarrow> 'cb option) \<Rightarrow> 'cb dma \<times> 's \<Rightarrow> ('cb dma \<times> 's) option" where
  "dma_callback call f x = (case f (fst x) of None \<Rightarrow> Some x | Some c \<Rightarrow> call c x)"

definition HAL_DMA_Abort_IT ::
  "('cb, 's) dma_call \<Rightarrow> 'cb dma \<times> 's \<Rightarrow> (HAL_StatusTypeDef \<times> 'cb dma \<times> 's) option" where
  "HAL_DMA_Abort_IT call x =
     (let d = fst x in
      if dma_State d \<noteq> HAL_DMA_STATE_BUSY
      then Some (HAL_ERROR, d\<lparr>dma_ErrorCode := HAL_DMA_ERROR_NO_XFER\<rparr>, snd x)
      else let d1 = dma_DISABLE (dma_DISABLE_IT (DMA_IT_TC OR DMA_IT_HT OR DMA_IT_TE) d);
               d2 = (dma_CLEAR_FLAG DMA_GET_GI_FLAG_INDEX d1)\<lparr>dma_State := HAL_DMA_STATE_READY, dma_Lock := HAL_UNLOCKED\<rparr>
           in do { y \<leftarrow> dma_callback call XferAbortCallback (d2, snd x); Some (HAL_OK, y) })"

definition HAL_DMA_PollForTransfer ::
  "dma_hw \<Rightarrow> HAL_DMA_LevelCompleteTypeDef \<Rightarrow> u32 \<Rightarrow> 'cb dma \<Rightarrow> (HAL_StatusTypeDef \<times> 'cb dma) option" where
  "HAL_DMA_PollForTransfer hw CompleteLevel Timeout d =
     (let flag = (if CompleteLevel = HAL_DMA_FULL_TRANSFER then DMA_GET_TC_FLAG_INDEX else DMA_GET_HT_FLAG_INDEX);
          failed = dma_flag_at hw DMA_GET_TE_FLAG_INDEX d;
          tickstart = hw_tick (dh_base hw) (dma_now d)
      in do { (ok, t) \<leftarrow> poll (dma_flag_at hw flag d)
                (\<lambda>t. failed t \<or> tick_passed (dh_base hw) tickstart Timeout t) (Suc (dma_now d));
              let d1 = d\<lparr>dma_now := t, dma_Lock := HAL_UNLOCKED\<rparr>;
              Some (if ok then (HAL_OK, (dma_CLEAR_FLAG flag d1)\<lparr>dma_State :=
                      (if CompleteLevel = HAL_DMA_FULL_TRANSFER then HAL_DMA_STATE_READY else HAL_DMA_STATE_READY_HALF)\<rparr>)
                    else if failed (t - 1) then (HAL_ERROR, (dma_CLEAR_FLAG DMA_GET_TE_FLAG_INDEX d1)
                      \<lparr>dma_ErrorCode := SET_BIT (dma_ErrorCode d1) HAL_DMA_ERROR_TE, dma_State := HAL_DMA_STATE_ERROR\<rparr>)
                    else (HAL_TIMEOUT, d1\<lparr>dma_ErrorCode := SET_BIT (dma_ErrorCode d1) HAL_DMA_ERROR_TIMEOUT,
                      dma_State := HAL_DMA_STATE_TIMEOUT\<rparr>)) })"

section \<open>The interrupt handler\<close>

text \<open>\<^verbatim>\<open>if(__HAL_DMA_GET_FLAG(...) != RESET) { if(__HAL_DMA_GET_IT_SOURCE(...) != RESET) { ... } }\<close>: one of the
  three sections of the handler; each reads \<^verbatim>\<open>ISR\<close> afresh.\<close>
definition dma_irq_section ::
  "dma_hw \<Rightarrow> (dma_channel \<Rightarrow> u32) \<Rightarrow> u32 \<Rightarrow> ('cb dma \<Rightarrow> 'cb dma) \<Rightarrow> ('cb, 's) dma_call \<Rightarrow> ('cb dma \<Rightarrow> 'cb option)
   \<Rightarrow> 'cb dma \<times> 's \<Rightarrow> ('cb dma \<times> 's) option" where
  "dma_irq_section hw flag it handle call callback x =
     (let d = (fst x)\<lparr>dma_now := Suc (dma_now (fst x))\<rparr> in
      if dma_flag_at hw flag d (dma_now (fst x)) \<and> dma_GET_IT_SOURCE d it
      then dma_callback call callback (handle d, snd x)
      else Some (d, snd x))"

definition dma_irq_error :: "'cb dma \<Rightarrow> 'cb dma" where
  "dma_irq_error d =
     (dma_CLEAR_FLAG DMA_GET_TE_FLAG_INDEX (dma_DISABLE_IT DMA_IT_TE d))
       \<lparr>dma_ErrorCode := SET_BIT (dma_ErrorCode d) HAL_DMA_ERROR_TE, dma_State := HAL_DMA_STATE_ERROR,
        dma_Lock := HAL_UNLOCKED\<rparr>"

definition dma_irq_half :: "'cb dma \<Rightarrow> 'cb dma" where
  "dma_irq_half d =
     (let d1 = (if dma_CCR d AND DMA_CCR_CIRC = 0 then dma_DISABLE_IT DMA_IT_HT d else d)
      in (dma_CLEAR_FLAG DMA_GET_HT_FLAG_INDEX d1)\<lparr>dma_State := HAL_DMA_STATE_READY_HALF\<rparr>)"

definition dma_irq_complete :: "'cb dma \<Rightarrow> 'cb dma" where
  "dma_irq_complete d =
     (let d1 = (if dma_CCR d AND DMA_CCR_CIRC = 0 then dma_DISABLE_IT DMA_IT_TC d else d)
      in (dma_CLEAR_FLAG DMA_GET_TC_FLAG_INDEX d1)
           \<lparr>dma_ErrorCode := SET_BIT (dma_ErrorCode d) HAL_DMA_ERROR_NONE, dma_State := HAL_DMA_STATE_READY,
            dma_Lock := HAL_UNLOCKED\<rparr>)"

definition HAL_DMA_IRQHandler :: "('cb, 's) dma_call \<Rightarrow> dma_hw \<Rightarrow> 'cb dma \<times> 's \<Rightarrow> ('cb dma \<times> 's) option" where
  "HAL_DMA_IRQHandler call hw x =
     do { x1 \<leftarrow> dma_irq_section hw DMA_GET_TE_FLAG_INDEX DMA_IT_TE dma_irq_error call XferErrorCallback x;
          x2 \<leftarrow> dma_irq_section hw DMA_GET_HT_FLAG_INDEX DMA_IT_HT dma_irq_half call XferHalfCpltCallback x1;
          dma_irq_section hw DMA_GET_TC_FLAG_INDEX DMA_IT_TC dma_irq_complete call XferCpltCallback x2 }"

definition HAL_DMA_GetState :: "'cb dma \<Rightarrow> HAL_DMA_StateTypeDef" where
  "HAL_DMA_GetState d = dma_State d"

definition HAL_DMA_GetError :: "'cb dma \<Rightarrow> u32" where
  "HAL_DMA_GetError d = dma_ErrorCode d"

text \<open>\<^verbatim>\<open>if(hdma != NULL) HAL_DMA_Abort(hdma);\<close>: the result of the abort is not looked at.\<close>
definition dma_abort_present :: "dma_hw \<Rightarrow> 'cb dma option \<Rightarrow> 'cb dma option option" where
  "dma_abort_present hw d = (case d of None \<Rightarrow> Some None | Some a \<Rightarrow> map_option (Some \<circ> snd) (HAL_DMA_Abort hw a))"

definition dma_circular :: "'cb dma \<Rightarrow> bool" where
  "dma_circular d \<longleftrightarrow> dma_CCR d AND DMA_CCR_CIRC = DMA_CCR_CIRC"

lemma dma_section_cases:
  "dma_irq_section hw flag it handle call f (d, s) =
     (let d1 = d\<lparr>dma_now := Suc (dma_now d)\<rparr>
      in if dma_flag_at hw flag d (dma_now d) \<and> dma_GET_IT_SOURCE d it
         then (case f (handle d1) of None \<Rightarrow> Some (handle d1, s) | Some c \<Rightarrow> call c (handle d1, s))
         else Some (d1, s))"
  by (simp add: dma_irq_section_def dma_callback_def dma_flag_at_def dma_GET_IT_SOURCE_def Let_def)

lemma and_bit_eq: "c AND push_bit n 1 = push_bit n 1 \<longleftrightarrow> bit c n" if "n < 32" for c :: u32
proof
  assume "c AND push_bit n 1 = push_bit n 1"
  from arg_cong [OF this, of "\<lambda>x. bit x n"] that show "bit c n" by (simp add: bit_and_iff bit_exp_iff)
next
  assume "bit c n"
  then show "c AND push_bit n 1 = push_bit n 1"
    by (intro bit_word_eqI) (auto simp: bit_and_iff bit_exp_iff)
qed

lemma dma_source_bits:
  "dma_GET_IT_SOURCE d DMA_IT_TC \<longleftrightarrow> bit (dma_CCR d) 1" "dma_GET_IT_SOURCE d DMA_IT_HT \<longleftrightarrow> bit (dma_CCR d) 2"
  "dma_GET_IT_SOURCE d DMA_IT_TE \<longleftrightarrow> bit (dma_CCR d) 3"
  using and_bit_eq [of 1] and_bit_eq [of 2] and_bit_eq [of 3] by (simp_all add: dma_GET_IT_SOURCE_def dma_consts)

text \<open>The handler at the end of a transfer, when the half-transfer interrupt may be pending as well.\<close>
lemma dma_irq_complete_run:
  assumes "\<not> dma_flag_at hw DMA_GET_TE_FLAG_INDEX d (dma_now d)" "dma_flag_at hw DMA_GET_TC_FLAG_INDEX d (Suc (Suc (dma_now d)))"
    "bit (dma_CCR d) 1" "XferHalfCpltCallback d = Some c" "\<And>d'. call c (d', s) = Some (d', s2)"
  shows "\<exists>d3 s3. s3 \<in> {s, s2} \<and> dma_circular d3 = dma_circular d \<and> XferCpltCallback d3 = XferCpltCallback d
    \<and> dma_Lock d3 = HAL_UNLOCKED \<and> dma_State d3 = HAL_DMA_STATE_READY
    \<and> HAL_DMA_IRQHandler call hw (d, s) = dma_callback call XferCpltCallback (d3, s3)"
proof -
  let ?d1 = "d\<lparr>dma_now := Suc (dma_now d)\<rparr>"
  let ?n = "Suc (Suc (dma_now d))"
  have te: "dma_irq_section hw DMA_GET_TE_FLAG_INDEX DMA_IT_TE dma_irq_error call XferErrorCallback (d, s) = Some (?d1, s)"
    using assms(1) by (simp add: dma_section_cases)
  have circ: "dma_circular (dma_irq_half x) = dma_circular x" "dma_circular (dma_irq_complete x) = dma_circular x" for x :: "'a dma"
    by (auto simp: dma_irq_half_def dma_irq_complete_def dma_macros Let_def hal_simps dma_circular_def dma_consts and.assoc)
  obtain d2 s3 where ht: "dma_irq_section hw DMA_GET_HT_FLAG_INDEX DMA_IT_HT dma_irq_half call XferHalfCpltCallback (?d1, s)
      = Some (d2, s3)" and s3: "s3 \<in> {s, s2}"
    and d2: "dma_now d2 = ?n" "dma_Instance d2 = dma_Instance d" "XferCpltCallback d2 = XferCpltCallback d"
      "bit (dma_CCR d2) 1" "dma_circular d2 = dma_circular d"
  proof (cases "dma_flag_at hw DMA_GET_HT_FLAG_INDEX ?d1 (Suc (dma_now d)) \<and> dma_GET_IT_SOURCE ?d1 DMA_IT_HT")
    case True
    let ?d2 = "dma_irq_half (d\<lparr>dma_now := ?n\<rparr>)"
    have "bit (dma_CCR ?d2) 1"
      using assms(3) by (auto simp: dma_irq_half_def dma_macros Let_def hal_simps bit_and_iff bit_not_iff dma_consts)
    moreover have "dma_circular ?d2 = dma_circular d" by (simp only: circ) (simp add: dma_circular_def)
    ultimately show thesis using True
      by (intro that [of ?d2 s2]) (simp_all add: dma_section_cases assms(4,5) dma_irq_half_def dma_macros Let_def)
  next
    case False
    then show thesis
      by (intro that [of "d\<lparr>dma_now := ?n\<rparr>" s]) (use assms(3) in \<open>auto simp: dma_section_cases dma_circular_def\<close>)
  qed
  let ?d3 = "dma_irq_complete (d2\<lparr>dma_now := Suc ?n\<rparr>)"
  have "dma_flag_at hw DMA_GET_TC_FLAG_INDEX d2 ?n \<and> dma_GET_IT_SOURCE d2 DMA_IT_TC"
    using assms(2) d2 by (simp add: dma_source_bits dma_flag_at_def)
  then have "HAL_DMA_IRQHandler call hw (d, s) = dma_callback call XferCpltCallback (?d3, s3)"
    by (simp add: HAL_DMA_IRQHandler_def te ht dma_section_cases [of _ _ _ _ _ _ d2] d2(1) dma_callback_def Let_def)
  moreover have "dma_circular ?d3 = dma_circular d" using d2(5) by (simp only: circ) (simp add: dma_circular_def)
  moreover have "XferCpltCallback ?d3 = XferCpltCallback d" "dma_Lock ?d3 = HAL_UNLOCKED" "dma_State ?d3 = HAL_DMA_STATE_READY"
    using d2(3) by (simp_all add: dma_irq_complete_def dma_macros Let_def)
  ultimately show ?thesis using s3 by blast
qed

section \<open>Clients of a channel\<close>

text \<open>One section of the handler as it acts on the handle alone, and the three in turn.\<close>
definition dma_section_handle ::
  "dma_hw \<Rightarrow> (dma_channel \<Rightarrow> u32) \<Rightarrow> u32 \<Rightarrow> ('cb dma \<Rightarrow> 'cb dma) \<Rightarrow> 'cb dma \<Rightarrow> 'cb dma" where
  "dma_section_handle hw flag it handle d0 =
     (let d = d0\<lparr>dma_now := Suc (dma_now d0)\<rparr>
      in if dma_flag_at hw flag d (dma_now d0) \<and> dma_GET_IT_SOURCE d it then handle d else d)"

definition dma_irq_handle :: "dma_hw \<Rightarrow> 'cb dma \<Rightarrow> 'cb dma" where
  "dma_irq_handle hw d =
     dma_section_handle hw DMA_GET_TC_FLAG_INDEX DMA_IT_TC dma_irq_complete
       (dma_section_handle hw DMA_GET_HT_FLAG_INDEX DMA_IT_HT dma_irq_half
         (dma_section_handle hw DMA_GET_TE_FLAG_INDEX DMA_IT_TE dma_irq_error d))"

text \<open>What a client of the channel promises: its callbacks leave the handle alone.  Then the handler does to the
  handle the same for every client.\<close>
locale dma_client =
  fixes call :: "('cb, 's) dma_call"
  assumes handle_kept: "call c x = Some y \<Longrightarrow> fst y = fst x"
begin

lemma callback_kept: "dma_callback call f x = Some y \<Longrightarrow> fst y = fst x"
  by (auto simp: dma_callback_def handle_kept split: option.splits)

lemma section_kept:
  "dma_irq_section hw flag it handle call f x = Some y \<Longrightarrow> fst y = dma_section_handle hw flag it handle (fst x)"
  by (auto simp: dma_irq_section_def dma_section_handle_def Let_def dest: callback_kept split: if_splits)

lemma irq_kept: "HAL_DMA_IRQHandler call hw x = Some y \<Longrightarrow> fst y = dma_irq_handle hw (fst x)"
  by (auto simp: HAL_DMA_IRQHandler_def dma_irq_handle_def bind_eq_Some_conv dest!: section_kept)

lemma abort_it_kept:
  "HAL_DMA_Abort_IT call x = Some (st, y) \<Longrightarrow>
     (if dma_State (fst x) \<noteq> HAL_DMA_STATE_BUSY then fst y = (fst x)\<lparr>dma_ErrorCode := HAL_DMA_ERROR_NO_XFER\<rparr>
      else dma_State (fst y) = HAL_DMA_STATE_READY \<and> dma_Lock (fst y) = HAL_UNLOCKED)"
  by (auto simp: HAL_DMA_Abort_IT_def Let_def bind_eq_Some_conv dest: callback_kept split: if_splits)

end

section \<open>The lock and the state\<close>

text \<open>A locked handle has a transfer running, and the transfer of a busy handle is locked.\<close>
definition dma_ok :: "'cb dma \<Rightarrow> bool" where
  "dma_ok d \<longleftrightarrow>
     (dma_Lock d = HAL_LOCKED \<longrightarrow> dma_State d \<in> {HAL_DMA_STATE_BUSY, HAL_DMA_STATE_READY_HALF} \<and> bit (dma_CCR d) 0)
     \<and> (dma_State d = HAL_DMA_STATE_BUSY \<longrightarrow> dma_Lock d = HAL_LOCKED)"

text \<open>Any sequence of calls and interrupts, in any environment; the client may change its own state in between, and
  initialises a handle again only when it holds no transfer.\<close>
inductive dma_reach :: "('cb, 's) dma_call \<Rightarrow> dma_hw \<Rightarrow> 'cb dma \<times> 's \<Rightarrow> bool" for call hw where
  reset: "dma_State d = HAL_DMA_STATE_RESET \<Longrightarrow> dma_reach call hw (snd (HAL_DMA_Init d), s)"
| init: "dma_reach call hw (d, s) \<Longrightarrow> dma_Lock d = HAL_UNLOCKED \<Longrightarrow> dma_reach call hw (snd (HAL_DMA_Init d), s)"
| deinit: "dma_reach call hw (d, s) \<Longrightarrow> dma_reach call hw (snd (HAL_DMA_DeInit d), s)"
| start: "dma_reach call hw (d, s) \<Longrightarrow> dma_reach call hw (snd (HAL_DMA_Start a b n d), s)"
| start_it: "dma_reach call hw (d, s) \<Longrightarrow> dma_reach call hw (snd (HAL_DMA_Start_IT a b n d), s)"
| abort: "dma_reach call hw (d, s) \<Longrightarrow> HAL_DMA_Abort hw d = Some (st, d') \<Longrightarrow> dma_reach call hw (d', s)"
| abort_it: "dma_reach call hw x \<Longrightarrow> HAL_DMA_Abort_IT call x = Some (st, y) \<Longrightarrow> dma_reach call hw y"
| poll: "dma_reach call hw (d, s) \<Longrightarrow> HAL_DMA_PollForTransfer hw l tmo d = Some (st, d') \<Longrightarrow> dma_reach call hw (d', s)"
| irq: "dma_reach call hw x \<Longrightarrow> HAL_DMA_IRQHandler call hw x = Some y \<Longrightarrow> dma_reach call hw y"
| client: "dma_reach call hw (d, s) \<Longrightarrow> dma_reach call hw (d, s')"

lemma dma_state_cases: "dma_Lock d = HAL_UNLOCKED \<or> dma_Lock d = HAL_LOCKED"
  by (cases "dma_Lock d") simp_all

lemma dma_ok_init: "dma_Lock d = HAL_UNLOCKED \<or> dma_State d = HAL_DMA_STATE_RESET \<Longrightarrow> dma_ok (snd (HAL_DMA_Init d))"
  by (auto simp: HAL_DMA_Init_def dma_ok_def Let_def)

lemma dma_ok_deinit: "dma_ok (snd (HAL_DMA_DeInit d))"
  by (simp add: HAL_DMA_DeInit_def dma_ok_def)

lemma dma_ok_start:
  assumes "dma_ok d"
  shows "dma_ok (snd (HAL_DMA_Start a b n d))" "dma_ok (snd (HAL_DMA_Start_IT a b n d))"
  using assms
  by (auto simp: HAL_DMA_Start_def HAL_DMA_Start_IT_def dma_ok_def DMA_SetConfig_def dma_macros hal_simps
      dma_consts Let_def bit_or_iff)

lemma dma_ok_abort: "HAL_DMA_Abort hw d = Some (st, d') \<Longrightarrow> dma_ok d'"
  by (auto simp: HAL_DMA_Abort_def dma_ok_def bind_eq_Some_conv Let_def split: if_splits)

lemma dma_ok_poll: "HAL_DMA_PollForTransfer hw l tmo d = Some (st, d') \<Longrightarrow> dma_ok d'"
  by (auto simp: HAL_DMA_PollForTransfer_def dma_ok_def bind_eq_Some_conv Let_def dma_CLEAR_FLAG_def split: if_splits)

lemma dma_ok_sections:
  assumes "dma_ok d"
  shows "dma_ok (dma_section_handle hw f it dma_irq_error d)" "dma_ok (dma_section_handle hw f it dma_irq_complete d)"
    "dma_ok (dma_section_handle hw f it dma_irq_half d)"
  using assms
  by (auto simp: dma_section_handle_def dma_irq_error_def dma_irq_complete_def dma_irq_half_def dma_macros hal_simps
      dma_ok_def Let_def dma_consts bit_and_iff bit_not_iff)

lemma dma_ok_irq: "dma_ok d \<Longrightarrow> dma_ok (dma_irq_handle hw d)"
  unfolding dma_irq_handle_def by (intro dma_ok_sections)

lemma dma_reach_ok:
  assumes "dma_client call" "dma_reach call hw x"
  shows "dma_ok (fst x)"
  using assms(2)
proof (induction rule: dma_reach.induct)
  case (abort_it x st y)
  then show ?case using dma_client.abort_it_kept [OF assms(1) abort_it(2)] by (auto simp: dma_ok_def split: if_splits)
next
  case (irq x y)
  then show ?case using dma_client.irq_kept [OF assms(1) irq(2)] by (simp add: dma_ok_irq)
qed (auto simp: dma_ok_init dma_ok_deinit dma_ok_start intro: dma_ok_abort dma_ok_poll)

lemma dma_started_it:
  assumes "HAL_DMA_Start_IT a b n d = (HAL_OK, d1)"
  shows "dma_State d1 = HAL_DMA_STATE_BUSY" "dma_Lock d1 = HAL_LOCKED" "dma_CNDTR d1 = n"
    "dma_CCR d1 = dma_CCR d OR 0xF" "dma_Instance d1 = dma_Instance d" "dma_now d1 = dma_now d"
    "dma_Init d1 = dma_Init d" "XferCpltCallback d1 = XferCpltCallback d"
    "XferHalfCpltCallback d1 = XferHalfCpltCallback d" "XferErrorCallback d1 = XferErrorCallback d"
    "(dma_CPAR d1, dma_CMAR d1) = (if Direction (dma_Init d) = DMA_MEMORY_TO_PERIPH then (b, a) else (a, b))"
proof -
  note start = assms [symmetric, unfolded HAL_DMA_Start_IT_def DMA_SetConfig_def dma_macros hal_simps dma_consts Let_def]
  have one: "(c AND NOT 1) OR 1 = c OR 1" for c :: u32
    by (rule bit_word_eqI) (auto simp: bit_or_iff bit_and_iff bit_not_iff bit_1_iff)
  have "(c AND NOT 1) OR 2 OR 4 OR 8 OR 1 = ((c AND NOT 1) OR 1) OR 0xE" for c :: u32
    by (simp add: or.assoc or.left_commute)
  then have "(c AND NOT 1) OR 2 OR 4 OR 8 OR 1 = c OR 0xF" for c :: u32
    by (simp only: one) (simp add: or.assoc)
  then show "dma_CCR d1 = dma_CCR d OR 0xF" using start by (auto split: if_splits simp: or.assoc)
qed (use assms in \<open>auto simp: HAL_DMA_Start_IT_def DMA_SetConfig_def dma_macros Let_def split: if_splits\<close>)

section \<open>What a channel moves\<close>

text \<open>The unit of a channel on the memory side, and the bytes it reads: \<^verbatim>\<open>CNDTR\<close> units from \<^verbatim>\<open>CMAR\<close> on.\<close>
definition dma_unit :: "'cb dma \<Rightarrow> nat" where
  "dma_unit d = (if dma_CCR d AND DMA_CCR_MSIZE = DMA_MDATAALIGN_BYTE then 1
                 else if dma_CCR d AND DMA_CCR_MSIZE = DMA_MDATAALIGN_HALFWORD then 2 else 4)"

definition dma_memory :: "mem \<Rightarrow> 'cb dma \<Rightarrow> u8 list" where
  "dma_memory m d =
     concat (map (\<lambda>i. mem_bytes m (dma_CMAR d + (if dma_CCR d AND DMA_CCR_MINC = 0 then 0 else of_nat (i * dma_unit d)))
                        (dma_unit d)) [0..<unat (dma_CNDTR d)])"

lemma dma_memory_increment:
  assumes "dma_CCR d AND DMA_CCR_MINC \<noteq> 0"
  shows "dma_memory m d = mem_bytes m (dma_CMAR d) (unat (dma_CNDTR d) * dma_unit d)"
proof -
  have "concat (map (\<lambda>i. mem_bytes m (p + of_nat (i * u)) u) [0..<n]) = mem_bytes m p (n * u)" for p n u
  proof (induction n)
    case (Suc n)
    then show ?case using mem_bytes_add [of m p "n * u" u] by (simp add: add.commute)
  qed simp
  then show ?thesis using assms by (simp add: dma_memory_def)
qed

text \<open>A channel set up by \<^verbatim>\<open>HAL_DMA_Init\<close> for transmissions in units of \<open>a\<close>.\<close>
definition dma_tx_ready :: "u32 \<Rightarrow> 'cb dma \<Rightarrow> bool" where
  "dma_tx_ready a d \<longleftrightarrow> Direction (dma_Init d) = DMA_MEMORY_TO_PERIPH \<and> MemDataAlignment (dma_Init d) = a
     \<and> dma_CCR d AND (DMA_CCR_MSIZE OR DMA_CCR_MINC) = a OR DMA_CCR_MINC \<and> dma_Lock d = HAL_UNLOCKED"

lemma dma_tx_ready_init:
  assumes "dma_Init d = \<lparr>Direction = DMA_MEMORY_TO_PERIPH, PeriphInc = 0, MemInc = DMA_MINC_ENABLE,
      PeriphDataAlignment = a1, MemDataAlignment = a, dma_Mode = DMA_NORMAL, Priority = 0\<rparr>"
    "dma_Lock d = HAL_UNLOCKED" "a1 = 0 \<and> a = DMA_MDATAALIGN_BYTE \<or> a1 = DMA_PDATAALIGN_HALFWORD \<and> a = DMA_MDATAALIGN_HALFWORD"
  shows "dma_tx_ready a (snd (HAL_DMA_Init d))"
proof -
  have "((c AND NOT (0x3000 OR 0xC00 OR 0x300 OR 0x80 OR 0x40 OR 0x20 OR 0x10)) OR x) AND (0xC00 OR 0x80)
      = x AND (0xC00 OR 0x80)" for c x :: u32
    by (simp add: bit.conj_disj_distrib2 and.assoc)
  then show ?thesis
    using assms by (auto simp: dma_tx_ready_def HAL_DMA_Init_def Let_def dma_consts)
qed

lemma dma_tx_ready_memory:
  assumes "dma_tx_ready a d" "a = DMA_MDATAALIGN_BYTE \<or> a = DMA_MDATAALIGN_HALFWORD" "dma_CCR d1 = dma_CCR d OR 0xF"
  shows "dma_memory m d1 = mem_bytes m (dma_CMAR d1) (unat (dma_CNDTR d1) * (if a = DMA_MDATAALIGN_BYTE then 1 else 2))"
proof -
  have ready: "dma_CCR d AND (DMA_CCR_MSIZE OR DMA_CCR_MINC) = a OR DMA_CCR_MINC" using assms(1) by (simp add: dma_tx_ready_def)
  have mask: "dma_CCR d1 AND m = dma_CCR d AND m" if "m AND 0xF = 0" for m
    unfolding assms(3) bit.conj_disj_distrib2 using that by (simp add: and.commute)
  have "(dma_CCR d AND (DMA_CCR_MSIZE OR DMA_CCR_MINC)) AND DMA_CCR_MSIZE = a"
    "(dma_CCR d AND (DMA_CCR_MSIZE OR DMA_CCR_MINC)) AND DMA_CCR_MINC = DMA_CCR_MINC"
    unfolding ready using assms(2) by (auto simp: dma_consts)
  then have "dma_CCR d1 AND DMA_CCR_MSIZE = a" "dma_CCR d1 AND DMA_CCR_MINC \<noteq> 0"
    using mask [of DMA_CCR_MSIZE] mask [of DMA_CCR_MINC] by (simp_all add: and.assoc dma_consts)
  then show ?thesis using assms(2) by (auto simp: dma_memory_increment dma_unit_def)
qed

lemma unat_ucast_u32: "unat (ucast c :: u32) = unat c" for c :: u16
  using unsigned_less [of c, where ?'a = nat] by (simp add: unsigned_ucast_eq take_bit_eq_mod)

lemma dma_circular_bit: "dma_circular d \<longleftrightarrow> bit (dma_CCR d) 5" "dma_CCR d AND DMA_CCR_CIRC = 0 \<longleftrightarrow> \<not> bit (dma_CCR d) 5"
  using and_bit_eq [of 5 "dma_CCR d"] pin_bit [of "dma_CCR d" 5] by (auto simp: dma_circular_def DMA_CCR_CIRC_def)

lemma dma_start_it_unlocked: "dma_Lock d = HAL_UNLOCKED \<Longrightarrow> \<exists>d1. HAL_DMA_Start_IT a b n d = (HAL_OK, d1)"
  by (simp add: HAL_DMA_Start_IT_def Let_def)

section \<open>A concrete channel\<close>

text \<open>A channel at reset whose configuration is for transmissions of bytes or half-words, and a controller that
  shows the same flags all the time.\<close>
definition ex_dma :: "u32 \<Rightarrow> 'cb dma" where
  "ex_dma a = \<lparr>dma_Instance = DMA1_Channel3, dma_CCR = 0, dma_CNDTR = 0, dma_CPAR = 0, dma_CMAR = 0,
     dma_Init = \<lparr>Direction = DMA_MEMORY_TO_PERIPH, PeriphInc = 0, MemInc = DMA_MINC_ENABLE,
       PeriphDataAlignment = (if a = DMA_MDATAALIGN_HALFWORD then DMA_PDATAALIGN_HALFWORD else 0),
       MemDataAlignment = a, dma_Mode = DMA_NORMAL, Priority = 0\<rparr>,
     dma_Lock = HAL_UNLOCKED, dma_State = HAL_DMA_STATE_RESET, XferCpltCallback = None, XferHalfCpltCallback = None,
     XferErrorCallback = None, XferAbortCallback = None, dma_ErrorCode = 0, dma_now = 0, dma_io = []\<rparr>"

definition ex_dma_ready :: "u32 \<Rightarrow> 'cb dma" where
  "ex_dma_ready a = snd (HAL_DMA_Init (ex_dma a))"

definition ex_dma_hw :: "u32 \<Rightarrow> dma_hw" where
  "ex_dma_hw flags = \<lparr>dh_base = ticking_hw flags, dh_enabled = (\<lambda>_. False)\<rparr>"

lemma ex_dma_facts:
  "dma_Lock (ex_dma_ready a) = HAL_UNLOCKED" "dma_now (ex_dma_ready a) = 0" "dma_Instance (ex_dma_ready a) = DMA1_Channel3"
  "dma_Init (ex_dma_ready a :: 'cb dma) = dma_Init (ex_dma a :: 'cb dma)" "XferHalfCpltCallback (ex_dma_ready a) = None"
  by (simp_all add: ex_dma_ready_def ex_dma_def HAL_DMA_Init_def Let_def)

lemma ex_dma_flags:
  "dma_flag_at (ex_dma_hw 0x200) DMA_GET_TC_FLAG_INDEX (ex_dma_ready a) t"
  "\<not> dma_flag_at (ex_dma_hw 0x200) DMA_GET_TE_FLAG_INDEX (ex_dma_ready a) t"
  "dma_flag_at (ex_dma_hw 0x400) DMA_GET_HT_FLAG_INDEX (ex_dma_ready a) t"
  "\<not> dma_flag_at (ex_dma_hw 0x400) DMA_GET_TE_FLAG_INDEX (ex_dma_ready a) t"
  "\<not> dma_flag_at (ex_dma_hw 0x400) DMA_GET_TC_FLAG_INDEX (ex_dma_ready a) t"
  "dma_flag_at (ex_dma_hw 0x800) DMA_GET_TE_FLAG_INDEX (ex_dma_ready a) t"
  "\<not> dma_flag_at (ex_dma_hw 0x800) DMA_GET_HT_FLAG_INDEX (ex_dma_ready a) t"
  "\<not> dma_flag_at (ex_dma_hw 0x800) DMA_GET_TC_FLAG_INDEX (ex_dma_ready a) t"
  by (simp_all add: dma_flag_at_def ex_dma_facts ex_dma_hw_def ticking_hw_def)

lemma ex_dma_tx_ready: "a = 0 \<or> a = DMA_MDATAALIGN_HALFWORD \<Longrightarrow> dma_tx_ready a (ex_dma_ready a)"
  unfolding ex_dma_ready_def by (rule dma_tx_ready_init [where ?a1.0 = "if a = DMA_MDATAALIGN_HALFWORD then DMA_PDATAALIGN_HALFWORD else 0"])
    (auto simp: ex_dma_def dma_consts)

text \<open>A client without callbacks.\<close>
definition ex_call :: "(unit, unit) dma_call" where "ex_call c x = Some x"

interpretation ex_client: dma_client ex_call by standard (simp add: ex_call_def)

lemma ex_callback: "dma_callback ex_call f x = Some x"
  by (simp add: dma_callback_def ex_call_def split: option.splits)

lemma ex_irq: "HAL_DMA_IRQHandler ex_call hw (d, s) = Some (dma_irq_handle hw d, s)"
proof -
  have "dma_irq_section hw flag it handle ex_call f (d, s) = Some (dma_section_handle hw flag it handle d, s)"
    for flag it handle f and d :: "unit dma"
    by (simp add: dma_irq_section_def ex_callback dma_section_handle_def Let_def)
  then show ?thesis by (simp add: HAL_DMA_IRQHandler_def dma_irq_handle_def)
qed

definition ex_started :: "unit dma" where
  "ex_started = snd (HAL_DMA_Start_IT 0x20000000 0x40003C0C 12 (ex_dma_ready 0))"

lemma ex_started: "HAL_DMA_Start_IT 0x20000000 0x40003C0C 12 (ex_dma_ready 0) = (HAL_OK, ex_started)"
  by (simp add: ex_started_def HAL_DMA_Start_IT_def ex_dma_facts Let_def)



section \<open>Aborting\<close>

lemma dma_section_skip:
  "\<not> dma_flag_at hw flag d (dma_now d) \<Longrightarrow> dma_section_handle hw flag it handle d = d\<lparr>dma_now := Suc (dma_now d)\<rparr>"
  by (simp add: dma_section_handle_def dma_flag_at_def Let_def)

lemma dma_section_take:
  "dma_flag_at hw flag d (dma_now d) \<Longrightarrow> dma_GET_IT_SOURCE d it
   \<Longrightarrow> dma_section_handle hw flag it handle d = handle (d\<lparr>dma_now := Suc (dma_now d)\<rparr>)"
  by (simp add: dma_section_handle_def dma_flag_at_def dma_GET_IT_SOURCE_def Let_def)

lemma dma_flag_at_cong: "dma_Instance d = dma_Instance d' \<Longrightarrow> dma_flag_at hw flag d = dma_flag_at hw flag d'"
  by (rule ext) (simp add: dma_flag_at_def)

text \<open>The interrupt at half of a transfer, and the one at its end.\<close>
lemma dma_irq_at_half:
  assumes "\<not> dma_flag_at hw DMA_GET_TE_FLAG_INDEX d (dma_now d)" "dma_flag_at hw DMA_GET_HT_FLAG_INDEX d (Suc (dma_now d))"
    "\<not> dma_flag_at hw DMA_GET_TC_FLAG_INDEX d (Suc (Suc (dma_now d)))" "dma_GET_IT_SOURCE d DMA_IT_HT"
  shows "dma_irq_handle hw d = (dma_irq_half (d\<lparr>dma_now := dma_now d + 2\<rparr>))\<lparr>dma_now := dma_now d + 3\<rparr>"
proof -
  let ?d1 = "d\<lparr>dma_now := Suc (dma_now d)\<rparr>"
  let ?d2 = "dma_irq_half (d\<lparr>dma_now := Suc (Suc (dma_now d))\<rparr>)"
  have te: "dma_section_handle hw DMA_GET_TE_FLAG_INDEX DMA_IT_TE dma_irq_error d = ?d1"
    using assms(1) by (rule dma_section_skip)
  have "dma_flag_at hw DMA_GET_HT_FLAG_INDEX ?d1 (dma_now ?d1)" using assms(2) by (simp add: dma_flag_at_def)
  moreover have "dma_GET_IT_SOURCE ?d1 DMA_IT_HT" using assms(4) by (simp add: dma_GET_IT_SOURCE_def)
  ultimately have ht: "dma_section_handle hw DMA_GET_HT_FLAG_INDEX DMA_IT_HT dma_irq_half ?d1 = ?d2"
    using dma_section_take [of hw DMA_GET_HT_FLAG_INDEX ?d1 DMA_IT_HT dma_irq_half] by simp
  have d2: "dma_now ?d2 = Suc (Suc (dma_now d))" "dma_Instance ?d2 = dma_Instance d"
    by (simp_all add: dma_irq_half_def dma_macros Let_def)
  then have "\<not> dma_flag_at hw DMA_GET_TC_FLAG_INDEX ?d2 (dma_now ?d2)" using assms(3) by (simp add: dma_flag_at_def)
  then have "dma_section_handle hw DMA_GET_TC_FLAG_INDEX DMA_IT_TC dma_irq_complete ?d2 = ?d2\<lparr>dma_now := dma_now d + 3\<rparr>"
    by (subst dma_section_skip) (simp_all add: d2 numeral_3_eq_3)
  then show ?thesis unfolding dma_irq_handle_def te ht by simp
qed

text \<open>\<^verbatim>\<open>HAL_DMA_Abort_IT\<close> stops a transfer in its first half, but not in its second: the half-transfer interrupt
  replaces the state BUSY, the abort then reports that no transfer is running, and the channel stays enabled and locked
  with its interrupts on.\<close>
lemma dma_abort_it_after_half:
  assumes "dma_client call" "HAL_DMA_Start_IT a b n d = (HAL_OK, d1)"
    "\<not> dma_flag_at hw DMA_GET_TE_FLAG_INDEX d (dma_now d)" "dma_flag_at hw DMA_GET_HT_FLAG_INDEX d (Suc (dma_now d))"
    "\<not> dma_flag_at hw DMA_GET_TC_FLAG_INDEX d (Suc (Suc (dma_now d)))"
    "HAL_DMA_IRQHandler call hw (d1, s) = Some (d2, s2)"
  shows "(\<forall>st y. HAL_DMA_Abort_IT call (d1, s) = Some (st, y) \<longrightarrow> st = HAL_OK \<and> dma_State (fst y) = HAL_DMA_STATE_READY)
    \<and> HAL_DMA_Abort_IT call (d2, s2) = Some (HAL_ERROR, d2\<lparr>dma_ErrorCode := HAL_DMA_ERROR_NO_XFER\<rparr>, s2)
    \<and> bit (dma_CCR d2) 0 \<and> dma_GET_IT_SOURCE d2 DMA_IT_TC \<and> dma_Lock d2 = HAL_LOCKED
    \<and> dma_CNDTR d2 = n"
proof -
  note st = dma_started_it [OF assms(2)]
  have "dma_GET_IT_SOURCE d1 DMA_IT_HT" by (simp add: dma_source_bits st(4) bit_or_iff)
  moreover have "dma_flag_at hw f d = dma_flag_at hw f d1" for f by (rule dma_flag_at_cong) (simp add: st)
  ultimately have half: "dma_irq_handle hw d1 = (dma_irq_half (d1\<lparr>dma_now := dma_now d1 + 2\<rparr>))\<lparr>dma_now := dma_now d1 + 3\<rparr>"
    using assms(3-5) by (intro dma_irq_at_half) (simp_all add: st)
  have d2: "d2 = (dma_irq_half (d1\<lparr>dma_now := dma_now d1 + 2\<rparr>))\<lparr>dma_now := dma_now d1 + 3\<rparr>"
    using dma_client.irq_kept [OF assms(1,6)] half by simp
  have state: "dma_State d2 = HAL_DMA_STATE_READY_HALF" "dma_Lock d2 = HAL_LOCKED" "dma_CNDTR d2 = n"
    using st(1-3) by (simp_all add: d2 dma_irq_half_def dma_macros Let_def)
  have "dma_CCR d2 = (dma_CCR d OR 0xF) AND NOT 4 \<or> dma_CCR d2 = dma_CCR d OR 0xF"
    by (auto simp: d2 dma_irq_half_def dma_macros Let_def st(4) DMA_IT_HT_def hal_simps)
  then have "bit (dma_CCR d2) 0 \<and> bit (dma_CCR d2) 1" by (auto simp: bit_or_iff bit_and_iff bit_not_iff)
  then have ccr: "bit (dma_CCR d2) 0" "dma_GET_IT_SOURCE d2 DMA_IT_TC" by (simp_all add: dma_source_bits)
  have first: "st = HAL_OK \<and> dma_State (fst y) = HAL_DMA_STATE_READY" if "HAL_DMA_Abort_IT call (d1, s) = Some (st, y)" for st y
    using dma_client.abort_it_kept [OF assms(1) that] that st(1)
    by (auto simp: HAL_DMA_Abort_IT_def Let_def bind_eq_Some_conv)
  have "HAL_DMA_Abort_IT call (d2, s2) = Some (HAL_ERROR, d2\<lparr>dma_ErrorCode := HAL_DMA_ERROR_NO_XFER\<rparr>, s2)"
    by (simp add: HAL_DMA_Abort_IT_def state)
  then show ?thesis using first state ccr by blast
qed

lemma dma_abort_it_after_half_witness:
  "\<exists>d2. HAL_DMA_IRQHandler ex_call (ex_dma_hw 0x400) (ex_started, ()) = Some (d2, ())
     \<and> fst (the (HAL_DMA_Abort_IT ex_call (ex_started, ()))) = HAL_OK
     \<and> fst (the (HAL_DMA_Abort_IT ex_call (d2, ()))) = HAL_ERROR \<and> dma_Lock d2 = HAL_LOCKED"
proof -
  note irq = ex_irq [of "ex_dma_hw 0x400" ex_started "()"]
  have "\<exists>y. HAL_DMA_Abort_IT ex_call (ex_started, ()) = Some y"
    by (simp add: HAL_DMA_Abort_IT_def ex_callback Let_def)
  then show ?thesis
    using irq dma_abort_it_after_half [OF ex_client.dma_client_axioms ex_started ex_dma_flags(4) ex_dma_flags(3) ex_dma_flags(5) irq]
    by auto
qed

end
