(* ===== verification/Spi_Dma.thy ===== *)
theory Spi_Dma
  imports Spi_Transfer Hal_Dma
begin

text \<open>
  The DMA transfers of the SPI driver (\<^verbatim>\<open>stm32f3xx_hal_spi.c\<close>) over the DMA driver: their start, pause, resume and
  stop, and the callbacks that the interrupt handlers of the two channels call.  The state \<open>spi_dma\<close> is the SPI handle
  with the two DMA handles behind \<^verbatim>\<open>hdmatx\<close> and \<^verbatim>\<open>hdmarx\<close>; a null pointer that is followed ends in the
  HardFault handler and is \<open>None\<close>.  \<open>dr\<close> is the address of the data register.
\<close>

section \<open>State\<close>

definition SPI_CR2_RXDMAEN :: u32 where "SPI_CR2_RXDMAEN = 1"
definition SPI_CR2_TXDMAEN :: u32 where "SPI_CR2_TXDMAEN = 2"
definition SPI_CR2_LDMARX :: u32 where "SPI_CR2_LDMARX = 0x2000"
definition SPI_CR2_LDMATX :: u32 where "SPI_CR2_LDMATX = 0x4000"
definition SPI_FRLVL_QUARTER_FULL :: u32 where "SPI_FRLVL_QUARTER_FULL = 0x200"
definition SPI_FRLVL_HALF_FULL :: u32 where "SPI_FRLVL_HALF_FULL = 0x400"
definition HAL_SPI_ERROR_DMA :: u32 where "HAL_SPI_ERROR_DMA = 0x10"

lemmas spi_dma_consts = SPI_CR2_RXDMAEN_def SPI_CR2_TXDMAEN_def SPI_CR2_LDMARX_def SPI_CR2_LDMATX_def
  SPI_FRLVL_QUARTER_FULL_def SPI_FRLVL_HALF_FULL_def HAL_SPI_ERROR_DMA_def

text \<open>The values of the function pointers of the channels.\<close>
datatype spi_dma_cb =
    DMATransmitCplt | DMAReceiveCplt | DMATransmitReceiveCplt | DMAHalfTransmitCplt | DMAHalfReceiveCplt
  | DMAHalfTransmitReceiveCplt | DMAError

record spi_dma =
  dspi :: spi
  spi_hdmatx :: "spi_dma_cb dma option"
  spi_hdmarx :: "spi_dma_cb dma option"

definition spi_set_CR2 :: "u32 \<Rightarrow> spi \<Rightarrow> spi" where
  "spi_set_CR2 b h = h\<lparr>spi_CR2 := SET_BIT (spi_CR2 h) b\<rparr>"

definition spi_clear_CR2 :: "u32 \<Rightarrow> spi \<Rightarrow> spi" where
  "spi_clear_CR2 b h = h\<lparr>spi_CR2 := CLEAR_BIT (spi_CR2 h) b\<rparr>"

definition SPI_1LINE_TX :: "spi \<Rightarrow> spi" where
  "SPI_1LINE_TX h = h\<lparr>spi_CR1 := SET_BIT (spi_CR1 h) SPI_CR1_BIDIOE\<rparr>"

definition SPI_1LINE_RX :: "spi \<Rightarrow> spi" where
  "SPI_1LINE_RX h = h\<lparr>spi_CR1 := CLEAR_BIT (spi_CR1 h) SPI_CR1_BIDIOE\<rparr>"

lemmas spi_dma_macros = spi_set_CR2_def spi_clear_CR2_def SPI_1LINE_TX_def SPI_1LINE_RX_def

section \<open>Starting a transfer\<close>

text \<open>Half-word packing: the size in half-words, and the flag \<open>ldma\<close> for an odd number of bytes.\<close>
definition spi_pack_tx :: "spi \<Rightarrow> spi" where
  "spi_pack_tx h =
     (if TxXferCount h AND 1 = 0
      then (spi_clear_CR2 SPI_CR2_LDMATX h)\<lparr>TxXferCount := drop_bit 1 (TxXferCount h)\<rparr>
      else (spi_set_CR2 SPI_CR2_LDMATX h)\<lparr>TxXferCount := drop_bit 1 (TxXferCount h) + 1\<rparr>)"

definition spi_pack_rx :: "spi \<Rightarrow> spi" where
  "spi_pack_rx h =
     (if RxXferCount h AND 1 = 0
      then (spi_clear_CR2 SPI_CR2_LDMARX h)\<lparr>RxXferCount := drop_bit 1 (RxXferCount h)\<rparr>
      else (spi_set_CR2 SPI_CR2_LDMARX h)\<lparr>RxXferCount := drop_bit 1 (RxXferCount h) + 1\<rparr>)"

definition spi_dma_callbacks ::
  "spi_dma_cb option \<Rightarrow> spi_dma_cb option \<Rightarrow> spi_dma_cb dma \<Rightarrow> spi_dma_cb dma" where
  "spi_dma_callbacks half full d =
     d\<lparr>XferHalfCpltCallback := half, XferCpltCallback := full, XferErrorCallback := Some DMAError\<rparr>"

definition HAL_SPI_Transmit_DMA ::
  "u32 \<Rightarrow> u32 \<Rightarrow> u16 \<Rightarrow> spi_dma \<Rightarrow> (HAL_StatusTypeDef \<times> spi_dma) option" where
  "HAL_SPI_Transmit_DMA dr pData Size s =
     (let h = dspi s; unlocked = s\<lparr>dspi := h\<lparr>spi_Lock := HAL_UNLOCKED\<rparr>\<rparr> in
      if spi_Lock h = HAL_LOCKED then Some (HAL_BUSY, s)
      else if spi_State h \<noteq> HAL_SPI_STATE_READY then Some (HAL_BUSY, unlocked)
      else if pData = NULL \<or> Size = 0 then Some (HAL_ERROR, unlocked)
      else do {
        let h1 = h\<lparr>spi_Lock := HAL_LOCKED, spi_State := HAL_SPI_STATE_BUSY_TX, spi_ErrorCode := HAL_SPI_ERROR_NONE,
                   pTxBuffPtr := pData, TxXferSize := Size, TxXferCount := Size, pRxBuffPtr := NULL,
                   RxXferSize := 0, RxXferCount := 0\<rparr>;
        let h2 = (if spi_Direction (spi_Init h1) = SPI_DIRECTION_1LINE then SPI_1LINE_TX h1 else h1);
        let h3 = (if spi_crc_on h2 then SPI_RESET_CRC h2 else h2);
        d \<leftarrow> spi_hdmatx s;
        let d1 = spi_dma_callbacks (Some DMAHalfTransmitCplt) (Some DMATransmitCplt) d;
        let h4 = spi_clear_CR2 SPI_CR2_LDMATX h3;
        let h5 = (if spi_DataSize (spi_Init h4) \<le> SPI_DATASIZE_8BIT
                     \<and> MemDataAlignment (dma_Init d1) = DMA_MDATAALIGN_HALFWORD
                  then spi_pack_tx h4 else h4);
        let d2 = snd (HAL_DMA_Start_IT (pTxBuffPtr h5) dr (ucast (TxXferCount h5)) d1);
        let h6 = spi_set_CR2 SPI_CR2_TXDMAEN (spi_enable_if_needed h5);
        Some (HAL_OK, s\<lparr>dspi := h6\<lparr>spi_Lock := HAL_UNLOCKED\<rparr>, spi_hdmatx := Some d2\<rparr>) })"

definition HAL_SPI_TransmitReceive_DMA ::
  "u32 \<Rightarrow> u32 \<Rightarrow> u32 \<Rightarrow> u16 \<Rightarrow> spi_dma \<Rightarrow> (HAL_StatusTypeDef \<times> spi_dma) option" where
  "HAL_SPI_TransmitReceive_DMA dr pTxData pRxData Size s =
     (let h = dspi s; unlocked = s\<lparr>dspi := h\<lparr>spi_Lock := HAL_UNLOCKED\<rparr>\<rparr> in
      if spi_Lock h = HAL_LOCKED then Some (HAL_BUSY, s)
      else if \<not> (spi_State h = HAL_SPI_STATE_READY
                  \<or> (spi_Mode (spi_Init h) = SPI_MODE_MASTER \<and> spi_Direction (spi_Init h) = SPI_DIRECTION_2LINES
                     \<and> spi_State h = HAL_SPI_STATE_BUSY_RX))
      then Some (HAL_BUSY, unlocked)
      else if pTxData = NULL \<or> pRxData = NULL \<or> Size = 0 then Some (HAL_ERROR, unlocked)
      else do {
        let h1 = h\<lparr>spi_Lock := HAL_LOCKED,
                   spi_State := (if spi_State h \<noteq> HAL_SPI_STATE_BUSY_RX then HAL_SPI_STATE_BUSY_TX_RX else spi_State h),
                   spi_ErrorCode := HAL_SPI_ERROR_NONE, pTxBuffPtr := pTxData, TxXferSize := Size, TxXferCount := Size,
                   pRxBuffPtr := pRxData, RxXferSize := Size, RxXferCount := Size\<rparr>;
        let h2 = (if spi_crc_on h1 then SPI_RESET_CRC h1 else h1);
        let h3 = spi_clear_CR2 (SPI_CR2_LDMATX OR SPI_CR2_LDMARX) h2;
        dt \<leftarrow> spi_hdmatx s;
        dr' \<leftarrow> spi_hdmarx s;
        let h4 = (if spi_DataSize (spi_Init h3) > SPI_DATASIZE_8BIT then spi_clear_CR2 SPI_RXFIFO_THRESHOLD h3
                  else let a = spi_set_CR2 SPI_RXFIFO_THRESHOLD h3;
                           b = (if MemDataAlignment (dma_Init dt) = DMA_MDATAALIGN_HALFWORD then spi_pack_tx a else a)
                       in if MemDataAlignment (dma_Init dr') = DMA_MDATAALIGN_HALFWORD
                          then spi_pack_rx (spi_clear_CR2 SPI_RXFIFO_THRESHOLD b) else b);
        let r1 = (if spi_State h4 = HAL_SPI_STATE_BUSY_RX
                  then spi_dma_callbacks (Some DMAHalfReceiveCplt) (Some DMAReceiveCplt) dr'
                  else spi_dma_callbacks (Some DMAHalfTransmitReceiveCplt) (Some DMATransmitReceiveCplt) dr');
        let h5 = spi_set_CR2 SPI_CR2_RXDMAEN h4;
        let r2 = snd (HAL_DMA_Start_IT dr (pRxBuffPtr h5) (ucast (RxXferCount h5)) r1);
        let t1 = spi_dma_callbacks None None dt;
        let t2 = snd (HAL_DMA_Start_IT (pTxBuffPtr h5) dr (ucast (TxXferCount h5)) t1);
        let h6 = spi_set_CR2 SPI_CR2_TXDMAEN (spi_enable_if_needed h5);
        Some (HAL_OK, s\<lparr>dspi := h6\<lparr>spi_Lock := HAL_UNLOCKED\<rparr>, spi_hdmatx := Some t2, spi_hdmarx := Some r2\<rparr>) })"

definition HAL_SPI_Receive_DMA ::
  "u32 \<Rightarrow> u32 \<Rightarrow> u16 \<Rightarrow> spi_dma \<Rightarrow> (HAL_StatusTypeDef \<times> spi_dma) option" where
  "HAL_SPI_Receive_DMA dr pData Size s =
     (let h = dspi s; unlocked = s\<lparr>dspi := h\<lparr>spi_Lock := HAL_UNLOCKED\<rparr>\<rparr> in
      if spi_Lock h = HAL_LOCKED then Some (HAL_BUSY, s)
      else if spi_State h \<noteq> HAL_SPI_STATE_READY then Some (HAL_BUSY, unlocked)
      else if pData = NULL \<or> Size = 0 then Some (HAL_ERROR, unlocked)
      else let h1 = h\<lparr>spi_Lock := HAL_LOCKED, spi_State := HAL_SPI_STATE_BUSY_RX, spi_ErrorCode := HAL_SPI_ERROR_NONE,
                   pRxBuffPtr := pData, RxXferSize := Size, RxXferCount := Size, pTxBuffPtr := NULL,
                   TxXferSize := 0, TxXferCount := 0\<rparr> in
      if spi_Mode (spi_Init h1) = SPI_MODE_MASTER \<and> spi_Direction (spi_Init h1) = SPI_DIRECTION_2LINES
      then HAL_SPI_TransmitReceive_DMA dr pData pData Size (s\<lparr>dspi := h1\<lparr>spi_Lock := HAL_UNLOCKED\<rparr>\<rparr>)
      else do {
        let h2 = (if spi_Direction (spi_Init h1) = SPI_DIRECTION_1LINE then SPI_1LINE_RX h1 else h1);
        let h3 = (if spi_crc_on h2 then SPI_RESET_CRC h2 else h2);
        d \<leftarrow> spi_hdmarx s;
        if spi_DataSize (spi_Init h3) \<le> SPI_DATASIZE_8BIT \<and> MemDataAlignment (dma_Init d) = DMA_MDATAALIGN_HALFWORD
        then Some (HAL_ERROR, s\<lparr>dspi := h3\<lparr>spi_Lock := HAL_UNLOCKED\<rparr>\<rparr>)
        else do {
          let h4 = spi_clear_CR2 SPI_CR2_LDMARX h3;
          let h5 = (if spi_DataSize (spi_Init h4) > SPI_DATASIZE_8BIT then spi_clear_CR2 SPI_RXFIFO_THRESHOLD h4
                    else spi_set_CR2 SPI_RXFIFO_THRESHOLD h4);
          let d1 = spi_dma_callbacks (Some DMAHalfReceiveCplt) (Some DMAReceiveCplt) d;
          let h6 = spi_set_CR2 SPI_CR2_RXDMAEN h5;
          let d2 = snd (HAL_DMA_Start_IT dr (pRxBuffPtr h6) (ucast (RxXferCount h6)) d1);
          let h7 = spi_enable_if_needed h6;
          Some (HAL_OK, s\<lparr>dspi := h7\<lparr>spi_Lock := HAL_UNLOCKED\<rparr>, spi_hdmarx := Some d2\<rparr>) } })"

section \<open>Pause, resume and stop\<close>

definition HAL_SPI_DMAPause :: "spi \<Rightarrow> HAL_StatusTypeDef \<times> spi" where
  "HAL_SPI_DMAPause h =
     (if spi_Lock h = HAL_LOCKED then (HAL_BUSY, h)
      else (HAL_OK, (spi_clear_CR2 (SPI_CR2_TXDMAEN OR SPI_CR2_RXDMAEN) h)\<lparr>spi_Lock := HAL_UNLOCKED\<rparr>))"

definition HAL_SPI_DMAResume :: "spi \<Rightarrow> HAL_StatusTypeDef \<times> spi" where
  "HAL_SPI_DMAResume h =
     (if spi_Lock h = HAL_LOCKED then (HAL_BUSY, h)
      else (HAL_OK, (spi_set_CR2 (SPI_CR2_TXDMAEN OR SPI_CR2_RXDMAEN) h)\<lparr>spi_Lock := HAL_UNLOCKED\<rparr>))"

definition HAL_SPI_DMAStop :: "dma_hw \<Rightarrow> dma_hw \<Rightarrow> spi_dma \<Rightarrow> (HAL_StatusTypeDef \<times> spi_dma) option" where
  "HAL_SPI_DMAStop hwt hwr s =
     do { t \<leftarrow> dma_abort_present hwt (spi_hdmatx s);
          r \<leftarrow> dma_abort_present hwr (spi_hdmarx s);
          let h = spi_clear_CR2 (SPI_CR2_TXDMAEN OR SPI_CR2_RXDMAEN) (dspi s);
          Some (HAL_OK, s\<lparr>dspi := h\<lparr>spi_State := HAL_SPI_STATE_READY\<rparr>, spi_hdmatx := t, spi_hdmarx := r\<rparr>) }"

section \<open>Callbacks of the channels\<close>

text \<open>The end of all three callbacks: an error code suppresses the user's callback.\<close>
definition spi_dma_report :: "spi_callback \<Rightarrow> spi \<Rightarrow> spi" where
  "spi_dma_report c h = (if spi_ErrorCode h \<noteq> HAL_SPI_ERROR_NONE then spi_callback ErrorCallback h else spi_callback c h)"

text \<open>\<^verbatim>\<open>if(__HAL_SPI_GET_FLAG(hspi, SPI_FLAG_CRCERR) != RESET) { ... }\<close>\<close>
definition spi_dma_check_crc :: "hw \<Rightarrow> spi \<Rightarrow> spi" where
  "spi_dma_check_crc hw h =
     (let h1 = h\<lparr>spi_now := Suc (spi_now h)\<rparr>
      in if hw_SR hw (spi_now h) AND SPI_FLAG_CRCERR = SPI_FLAG_CRCERR
         then spi_CLEAR_CRCERRFLAG (h1\<lparr>spi_ErrorCode := spi_ErrorCode h1 OR HAL_SPI_ERROR_CRC\<rparr>)
         else h1)"

definition SPI_DMATransmitCplt :: "hw \<Rightarrow> 'cb dma \<Rightarrow> spi \<Rightarrow> spi option" where
  "SPI_DMATransmitCplt hw d h =
     (if dma_circular d then Some (spi_callback TxCpltCallback h)
      else do {
        (st, h1) \<leftarrow> SPI_EndRxTxTransaction hw SPI_DEFAULT_TIMEOUT (spi_clear_CR2 SPI_CR2_TXDMAEN h);
        let h2 = (if st \<noteq> HAL_OK then h1\<lparr>spi_ErrorCode := HAL_SPI_ERROR_FLAG\<rparr> else h1);
        let h3 = (if spi_Direction (spi_Init h2) = SPI_DIRECTION_2LINES then spi_CLEAR_OVRFLAG h2 else h2);
        Some (spi_dma_report TxCpltCallback (h3\<lparr>TxXferCount := 0, spi_State := HAL_SPI_STATE_READY\<rparr>)) })"

text \<open>A wait for a byte of the CRC whose failure is only recorded.\<close>
definition spi_crc_wait :: "(spi \<Rightarrow> (HAL_StatusTypeDef \<times> spi) option) \<Rightarrow> spi \<Rightarrow> spi option" where
  "spi_crc_wait wait h =
     do { (st, h1) \<leftarrow> wait h;
          Some (if st \<noteq> HAL_OK then h1\<lparr>spi_ErrorCode := spi_ErrorCode h1 OR HAL_SPI_ERROR_CRC\<rparr> else h1) }"

definition spi_dma_rx_crc :: "hw \<Rightarrow> spi \<Rightarrow> spi option" where
  "spi_dma_rx_crc hw h =
     (let wait = spi_crc_wait (SPI_WaitFlagStateUntilTimeout hw SPI_FLAG_RXNE SPI_FLAG_RXNE SPI_DEFAULT_TIMEOUT) in
      do { h1 \<leftarrow> wait h;
           if spi_DataSize (spi_Init h1) > SPI_DATASIZE_8BIT then Some (spi_drop16 h1)
           else let h2 = spi_drop8 h1
                in if spi_CRCLength (spi_Init h2) = SPI_CRC_LENGTH_16BIT then map_option spi_drop8 (wait h2)
                   else Some h2 })"

definition SPI_DMAReceiveCplt :: "hw \<Rightarrow> 'cb dma \<Rightarrow> spi \<Rightarrow> spi option" where
  "SPI_DMAReceiveCplt hw d h =
     (if dma_circular d then Some (spi_callback RxCpltCallback h)
      else do {
        h1 \<leftarrow> (if spi_crc_on h then spi_dma_rx_crc hw h else Some h);
        (st, h2) \<leftarrow> SPI_EndRxTransaction hw SPI_DEFAULT_TIMEOUT (spi_clear_CR2 (SPI_CR2_TXDMAEN OR SPI_CR2_RXDMAEN) h1);
        let h3 = (if st \<noteq> HAL_OK then spi_flag_error h2 else h2);
        Some (spi_dma_report RxCpltCallback
          (spi_dma_check_crc hw (h3\<lparr>RxXferCount := 0, spi_State := HAL_SPI_STATE_READY\<rparr>))) })"

definition spi_dma_txrx_crc :: "hw \<Rightarrow> spi \<Rightarrow> spi option" where
  "spi_dma_txrx_crc hw h =
     (if spi_DataSize (spi_Init h) = SPI_DATASIZE_8BIT \<and> spi_CRCLength (spi_Init h) = SPI_CRC_LENGTH_8BIT
      then map_option spi_drop8
        (spi_crc_wait (SPI_WaitFifoStateUntilTimeout hw SPI_FLAG_FRLVL SPI_FRLVL_QUARTER_FULL SPI_DEFAULT_TIMEOUT) h)
      else map_option spi_drop16
        (spi_crc_wait (SPI_WaitFifoStateUntilTimeout hw SPI_FLAG_FRLVL SPI_FRLVL_HALF_FULL SPI_DEFAULT_TIMEOUT) h))"

definition SPI_DMATransmitReceiveCplt :: "hw \<Rightarrow> 'cb dma \<Rightarrow> spi \<Rightarrow> spi option" where
  "SPI_DMATransmitReceiveCplt hw d h =
     (if dma_circular d then Some (spi_callback TxRxCpltCallback h)
      else do {
        h1 \<leftarrow> (if spi_crc_on h then spi_dma_txrx_crc hw h else Some h);
        (st, h2) \<leftarrow> SPI_EndRxTxTransaction hw SPI_DEFAULT_TIMEOUT h1;
        let h3 = (if st \<noteq> HAL_OK then h2\<lparr>spi_ErrorCode := HAL_SPI_ERROR_FLAG\<rparr> else h2);
        let h4 = spi_clear_CR2 (SPI_CR2_TXDMAEN OR SPI_CR2_RXDMAEN) h3;
        Some (spi_dma_report TxRxCpltCallback (spi_dma_check_crc hw
          (h4\<lparr>TxXferCount := 0, RxXferCount := 0, spi_State := HAL_SPI_STATE_READY\<rparr>))) })"

definition SPI_DMAError :: "spi \<Rightarrow> spi" where
  "SPI_DMAError h =
     spi_callback ErrorCallback ((spi_clear_CR2 (SPI_CR2_TXDMAEN OR SPI_CR2_RXDMAEN) h)
       \<lparr>spi_ErrorCode := spi_ErrorCode h OR HAL_SPI_ERROR_DMA, spi_State := HAL_SPI_STATE_READY\<rparr>)"

text \<open>What calling a function pointer of a channel does; \<^verbatim>\<open>Parent\<close> is the SPI handle.\<close>
fun spi_dma_call :: "hw \<Rightarrow> (spi_dma_cb, spi) dma_call" where
  "spi_dma_call hw DMATransmitCplt (d, h) = map_option (Pair d) (SPI_DMATransmitCplt hw d h)"
| "spi_dma_call hw DMAReceiveCplt (d, h) = map_option (Pair d) (SPI_DMAReceiveCplt hw d h)"
| "spi_dma_call hw DMATransmitReceiveCplt (d, h) = map_option (Pair d) (SPI_DMATransmitReceiveCplt hw d h)"
| "spi_dma_call hw DMAHalfTransmitCplt (d, h) = Some (d, spi_callback TxHalfCpltCallback h)"
| "spi_dma_call hw DMAHalfReceiveCplt (d, h) = Some (d, spi_callback RxHalfCpltCallback h)"
| "spi_dma_call hw DMAHalfTransmitReceiveCplt (d, h) = Some (d, spi_callback TxRxHalfCpltCallback h)"
| "spi_dma_call hw DMAError (d, h) = Some (d, SPI_DMAError h)"

interpretation spi_client: dma_client "spi_dma_call hw"
proof
  fix c and x y :: "spi_dma_cb dma \<times> spi"
  assume "spi_dma_call hw c x = Some y"
  then show "fst y = fst x" by (cases x; cases c) auto
qed

text \<open>The interrupts of the two channels.\<close>
definition spi_dmatx_irq :: "hw \<Rightarrow> dma_hw \<Rightarrow> spi_dma \<Rightarrow> spi_dma option" where
  "spi_dmatx_irq hw dhw s =
     do { d \<leftarrow> spi_hdmatx s;
          (d1, h) \<leftarrow> HAL_DMA_IRQHandler (spi_dma_call hw) dhw (d, dspi s);
          Some (s\<lparr>dspi := h, spi_hdmatx := Some d1\<rparr>) }"

definition spi_dmarx_irq :: "hw \<Rightarrow> dma_hw \<Rightarrow> spi_dma \<Rightarrow> spi_dma option" where
  "spi_dmarx_irq hw dhw s =
     do { d \<leftarrow> spi_hdmarx s;
          (d1, h) \<leftarrow> HAL_DMA_IRQHandler (spi_dma_call hw) dhw (d, dspi s);
          Some (s\<lparr>dspi := h, spi_hdmarx := Some d1\<rparr>) }"

section \<open>A transmission by DMA\<close>

lemma spi_pack_tx_fields [simp]:
  "spi_Init (spi_pack_tx h) = spi_Init h" "spi_mem (spi_pack_tx h) = spi_mem h" "pTxBuffPtr (spi_pack_tx h) = pTxBuffPtr h"
  "spi_State (spi_pack_tx h) = spi_State h" "spi_cb (spi_pack_tx h) = spi_cb h" "spi_CR1 (spi_pack_tx h) = spi_CR1 h"
  "spi_ErrorCode (spi_pack_tx h) = spi_ErrorCode h"
  by (simp_all add: spi_pack_tx_def spi_dma_macros)

lemma spi_dma_macro_fields [simp]:
  "spi_Init (spi_set_CR2 b h) = spi_Init h" "spi_mem (spi_set_CR2 b h) = spi_mem h" "pTxBuffPtr (spi_set_CR2 b h) = pTxBuffPtr h"
  "spi_State (spi_set_CR2 b h) = spi_State h" "spi_cb (spi_set_CR2 b h) = spi_cb h" "TxXferCount (spi_set_CR2 b h) = TxXferCount h"
  "spi_ErrorCode (spi_set_CR2 b h) = spi_ErrorCode h" "spi_CR2 (spi_set_CR2 b h) = spi_CR2 h OR b"
  "spi_Init (spi_clear_CR2 b h) = spi_Init h" "spi_mem (spi_clear_CR2 b h) = spi_mem h" "pTxBuffPtr (spi_clear_CR2 b h) = pTxBuffPtr h"
  "spi_State (spi_clear_CR2 b h) = spi_State h" "spi_cb (spi_clear_CR2 b h) = spi_cb h" "TxXferCount (spi_clear_CR2 b h) = TxXferCount h"
  "spi_ErrorCode (spi_clear_CR2 b h) = spi_ErrorCode h" "spi_CR2 (spi_clear_CR2 b h) = spi_CR2 h AND NOT b"
  "spi_Init (SPI_1LINE_TX h) = spi_Init h" "spi_mem (SPI_1LINE_TX h) = spi_mem h" "pTxBuffPtr (SPI_1LINE_TX h) = pTxBuffPtr h"
  "spi_State (SPI_1LINE_TX h) = spi_State h" "spi_cb (SPI_1LINE_TX h) = spi_cb h" "TxXferCount (SPI_1LINE_TX h) = TxXferCount h"
  "spi_ErrorCode (SPI_1LINE_TX h) = spi_ErrorCode h" "spi_CR2 (SPI_1LINE_TX h) = spi_CR2 h"
  "spi_Init (SPI_RESET_CRC h) = spi_Init h" "spi_mem (SPI_RESET_CRC h) = spi_mem h" "pTxBuffPtr (SPI_RESET_CRC h) = pTxBuffPtr h"
  "spi_State (SPI_RESET_CRC h) = spi_State h" "spi_cb (SPI_RESET_CRC h) = spi_cb h" "TxXferCount (SPI_RESET_CRC h) = TxXferCount h"
  "spi_ErrorCode (SPI_RESET_CRC h) = spi_ErrorCode h" "spi_CR2 (SPI_RESET_CRC h) = spi_CR2 h"
  "spi_Init (spi_enable_if_needed h) = spi_Init h" "spi_mem (spi_enable_if_needed h) = spi_mem h"
  "pTxBuffPtr (spi_enable_if_needed h) = pTxBuffPtr h" "spi_State (spi_enable_if_needed h) = spi_State h"
  "spi_cb (spi_enable_if_needed h) = spi_cb h" "spi_ErrorCode (spi_enable_if_needed h) = spi_ErrorCode h"
  "spi_CR2 (spi_enable_if_needed h) = spi_CR2 h"
  by (simp_all add: spi_dma_macros hal_simps spi_macros)

text \<open>The number of units and the flag \<^verbatim>\<open>LDMATX\<close> together make up the size.\<close>
lemma spi_pack_tx_size:
  "2 * unat (TxXferCount (spi_pack_tx h)) = unat (TxXferCount h) + (if bit (spi_CR2 (spi_pack_tx h)) 14 then 1 else 0)"
  "bit (spi_CR2 (spi_pack_tx h)) 14 \<longleftrightarrow> odd (unat (TxXferCount h))"
proof -
  have half: "unat (drop_bit (Suc 0) c) = unat c div 2" for c :: u16
    by (simp add: drop_bit_Suc unat_div)
  have parity: "c AND 1 = 0 \<longleftrightarrow> even (unat c)" for c :: u16
    using and_exp_eq_0_iff_not_bit [of c 0] bit_unsigned_iff [of c 0, where ?'a = nat] by (simp add: bit_0)
  have less: "unat c div 2 + 1 < 65536" for c :: u16 using unsigned_less [of c, where ?'a = nat] by simp
  have "unat (drop_bit (Suc 0) c + 1) = unat c div 2 + 1" for c :: u16
    using less [of c] by (simp add: unat_word_ariths half)
  note facts = this half parity
  show "bit (spi_CR2 (spi_pack_tx h)) 14 \<longleftrightarrow> odd (unat (TxXferCount h))"
    by (simp add: spi_pack_tx_def parity SPI_CR2_LDMATX_def bit_and_iff bit_or_iff bit_not_iff)
  then show "2 * unat (TxXferCount (spi_pack_tx h))
      = unat (TxXferCount h) + (if bit (spi_CR2 (spi_pack_tx h)) 14 then 1 else 0)"
    using odd_two_times_div_two_succ [of "unat (TxXferCount h)"] by (auto simp: spi_pack_tx_def facts)
qed

lemma DMATransmitCplt_result:
  assumes "tick_advances hw" "\<not> dma_circular d"
  shows "\<exists>h'. SPI_DMATransmitCplt hw d h = Some h' \<and> spi_State h' = HAL_SPI_STATE_READY \<and> TxXferCount h' = 0
    \<and> spi_cb h' = spi_cb h @ [if spi_ErrorCode h' = HAL_SPI_ERROR_NONE then TxCpltCallback else ErrorCallback]"
proof -
  obtain st h1 where e: "SPI_EndRxTxTransaction hw SPI_DEFAULT_TIMEOUT (spi_clear_CR2 SPI_CR2_TXDMAEN h) = Some (st, h1)"
    using EndRxTx_returns [OF assms(1), of SPI_DEFAULT_TIMEOUT "spi_clear_CR2 SPI_CR2_TXDMAEN h"]
    by (auto simp: SPI_DEFAULT_TIMEOUT_def HAL_MAX_DELAY_def)
  then have "spi_cb h1 = spi_cb h" by (cases rule: EndRxTx_cases) simp_all
  moreover have "spi_cb (if b then spi_CLEAR_OVRFLAG x else x) = spi_cb x"
    "spi_ErrorCode (if b then spi_CLEAR_OVRFLAG x else x) = spi_ErrorCode x" for b x
    by (simp_all add: spi_CLEAR_OVRFLAG_def spi_log_def)
  ultimately show ?thesis
    using assms(2) by (auto simp: SPI_DMATransmitCplt_def e Let_def spi_dma_report_def)
qed

lemma spi_dmatx_irq_complete:
  assumes "spi_hdmatx s = Some d" "XferHalfCpltCallback d = Some DMAHalfTransmitCplt" "XferCpltCallback d = Some DMATransmitCplt"
    "bit (dma_CCR d) 1" "\<not> dma_circular d" "tick_advances hw"
    "\<not> dma_flag_at dhw DMA_GET_TE_FLAG_INDEX d (dma_now d)" "dma_flag_at dhw DMA_GET_TC_FLAG_INDEX d (Suc (Suc (dma_now d)))"
  shows "\<exists>d' h'. spi_dmatx_irq hw dhw s = Some (s\<lparr>dspi := h', spi_hdmatx := Some d'\<rparr>)
    \<and> dma_Lock d' = HAL_UNLOCKED \<and> dma_State d' = HAL_DMA_STATE_READY
    \<and> spi_State h' = HAL_SPI_STATE_READY \<and> TxXferCount h' = 0
    \<and> (\<exists>half. half \<in> {[], [TxHalfCpltCallback]} \<and> spi_cb h' = spi_cb (dspi s) @ half
         @ [if spi_ErrorCode h' = HAL_SPI_ERROR_NONE then TxCpltCallback else ErrorCallback])"
proof -
  have "spi_dma_call hw DMAHalfTransmitCplt (d', dspi s) = Some (d', spi_callback TxHalfCpltCallback (dspi s))" for d' by simp
  from dma_irq_complete_run [where call = "spi_dma_call hw" and s = "dspi s" and ?s2.0 = "spi_callback TxHalfCpltCallback (dspi s)",
      OF assms(7,8,4,2) this] obtain d3 h2 where
    h2: "h2 \<in> {dspi s, spi_callback TxHalfCpltCallback (dspi s)}"
    and d3: "dma_circular d3 = dma_circular d" "XferCpltCallback d3 = XferCpltCallback d"
      "dma_Lock d3 = HAL_UNLOCKED" "dma_State d3 = HAL_DMA_STATE_READY"
    and run: "HAL_DMA_IRQHandler (spi_dma_call hw) dhw (d, dspi s) = dma_callback (spi_dma_call hw) XferCpltCallback (d3, h2)"
    by blast
  from DMATransmitCplt_result [OF assms(6), of d3 h2] d3(1) assms(5) obtain h3 where
    h3: "SPI_DMATransmitCplt hw d3 h2 = Some h3" "spi_State h3 = HAL_SPI_STATE_READY" "TxXferCount h3 = 0"
      "spi_cb h3 = spi_cb h2 @ [if spi_ErrorCode h3 = HAL_SPI_ERROR_NONE then TxCpltCallback else ErrorCallback]" by blast
  then have "spi_dmatx_irq hw dhw s = Some (s\<lparr>dspi := h3, spi_hdmatx := Some d3\<rparr>)"
    by (simp add: spi_dmatx_irq_def assms(1,3) run dma_callback_def d3(2))
  then show ?thesis using h2 h3 d3 by (intro exI [of _ d3] exI [of _ h3]) auto
qed

lemma spi_dma_callbacks_fields [simp]:
  "dma_Init (spi_dma_callbacks a b d) = dma_Init d" "dma_CCR (spi_dma_callbacks a b d) = dma_CCR d"
  "dma_Lock (spi_dma_callbacks a b d) = dma_Lock d" "dma_now (spi_dma_callbacks a b d) = dma_now d"
  "dma_Instance (spi_dma_callbacks a b d) = dma_Instance d" "XferHalfCpltCallback (spi_dma_callbacks a b d) = a"
  "XferCpltCallback (spi_dma_callbacks a b d) = b" "dma_CMAR (spi_dma_callbacks a b d) = dma_CMAR d"
  "dma_CNDTR (spi_dma_callbacks a b d) = dma_CNDTR d" "dma_CPAR (spi_dma_callbacks a b d) = dma_CPAR d"
  "XferErrorCallback (spi_dma_callbacks a b d) = Some DMAError"
  by (simp_all add: spi_dma_callbacks_def)

lemma HAL_SPI_Transmit_DMA_accepted:
  assumes "spi_hdmatx s = Some d" "dma_Lock d = HAL_UNLOCKED" "spi_Lock (dspi s) = HAL_UNLOCKED"
    "spi_State (dspi s) = HAL_SPI_STATE_READY" "p \<noteq> NULL" "Size \<noteq> 0"
  obtains h h5 d' where "HAL_SPI_Transmit_DMA dr p Size s = Some (HAL_OK, s\<lparr>dspi := h, spi_hdmatx := Some d'\<rparr>)"
    "HAL_DMA_Start_IT p dr (ucast (TxXferCount h5)) (spi_dma_callbacks (Some DMAHalfTransmitCplt) (Some DMATransmitCplt) d)
       = (HAL_OK, d')"
    "spi_mem h = spi_mem (dspi s)" "spi_Init h = spi_Init (dspi s)" "spi_cb h = spi_cb (dspi s)"
    "spi_State h = HAL_SPI_STATE_BUSY_TX" "spi_CR2 h = spi_CR2 h5 OR SPI_CR2_TXDMAEN" "spi_ErrorCode h = HAL_SPI_ERROR_NONE"
    "if spi_DataSize (spi_Init (dspi s)) \<le> SPI_DATASIZE_8BIT \<and> MemDataAlignment (dma_Init d) = DMA_MDATAALIGN_HALFWORD
     then \<exists>h4. h5 = spi_pack_tx h4 \<and> TxXferCount h4 = Size else TxXferCount h5 = Size \<and> \<not> bit (spi_CR2 h5) 14"
proof -
  let ?h1 = "(dspi s)\<lparr>spi_Lock := HAL_LOCKED, spi_State := HAL_SPI_STATE_BUSY_TX, spi_ErrorCode := HAL_SPI_ERROR_NONE,
      pTxBuffPtr := p, TxXferSize := Size, TxXferCount := Size, pRxBuffPtr := NULL, RxXferSize := 0, RxXferCount := 0\<rparr>"
  let ?h2 = "if spi_Direction (spi_Init ?h1) = SPI_DIRECTION_1LINE then SPI_1LINE_TX ?h1 else ?h1"
  let ?h3 = "if spi_crc_on ?h2 then SPI_RESET_CRC ?h2 else ?h2"
  let ?h4 = "spi_clear_CR2 SPI_CR2_LDMATX ?h3"
  let ?pack = "spi_DataSize (spi_Init (dspi s)) \<le> SPI_DATASIZE_8BIT \<and> MemDataAlignment (dma_Init d) = DMA_MDATAALIGN_HALFWORD"
  let ?h5 = "if ?pack then spi_pack_tx ?h4 else ?h4"
  let ?h = "(spi_set_CR2 SPI_CR2_TXDMAEN (spi_enable_if_needed ?h5))\<lparr>spi_Lock := HAL_UNLOCKED\<rparr>"
  let ?d1 = "spi_dma_callbacks (Some DMAHalfTransmitCplt) (Some DMATransmitCplt) d"
  have f3: "spi_Init ?h3 = spi_Init (dspi s)" "spi_mem ?h3 = spi_mem (dspi s)" "pTxBuffPtr ?h3 = p" "spi_cb ?h3 = spi_cb (dspi s)"
    "spi_State ?h3 = HAL_SPI_STATE_BUSY_TX" "TxXferCount ?h3 = Size" "spi_ErrorCode ?h3 = HAL_SPI_ERROR_NONE" by simp_all
  then have f5: "spi_Init ?h5 = spi_Init (dspi s)" "spi_mem ?h5 = spi_mem (dspi s)" "pTxBuffPtr ?h5 = p" "spi_cb ?h5 = spi_cb (dspi s)"
    "spi_State ?h5 = HAL_SPI_STATE_BUSY_TX" "spi_ErrorCode ?h5 = HAL_SPI_ERROR_NONE" by (simp_all split del: if_split) auto
  have "dma_Lock ?d1 = HAL_UNLOCKED" using assms(2) by simp
  from dma_start_it_unlocked [OF this] obtain d' where
    d': "HAL_DMA_Start_IT p dr (ucast (TxXferCount ?h5)) ?d1 = (HAL_OK, d')" by blast
  have init: "spi_Init ?h4 = spi_Init (dspi s)" using f3 by simp
  have "HAL_SPI_Transmit_DMA dr p Size s = Some (HAL_OK, s\<lparr>dspi := ?h, spi_hdmatx := Some d'\<rparr>)"
    unfolding HAL_SPI_Transmit_DMA_def Let_def
    using assms(1,3-6) d' f5(3) init by (simp only: if_False HAL_LockTypeDef.distinct simp_thms Option.bind.bind_lunit
      spi_dma_callbacks_fields snd_conv)
  moreover have "if ?pack then \<exists>h4. ?h5 = spi_pack_tx h4 \<and> TxXferCount h4 = Size
      else TxXferCount ?h5 = Size \<and> \<not> bit (spi_CR2 ?h5) 14"
    using f3(6) by (auto simp: SPI_CR2_LDMATX_def bit_and_iff bit_not_iff)
  ultimately show thesis using d' f5 by (intro that [where h = ?h and d' = d' and ?h5.0 = ?h5]) simp_all
qed

section \<open>A concrete driver\<close>

definition ex_spi_dma :: "u32 \<Rightarrow> spi_dma" where
  "ex_spi_dma a = \<lparr>dspi = ex_spi, spi_hdmatx = Some (ex_dma_ready a), spi_hdmarx = Some (ex_dma_ready a)\<rparr>"

lemma ex_spi_dma_facts:
  "spi_hdmatx (ex_spi_dma a) = Some (ex_dma_ready a)" "spi_hdmarx (ex_spi_dma a) = Some (ex_dma_ready a)"
  "dspi (ex_spi_dma a) = ex_spi" "spi_Lock ex_spi = HAL_UNLOCKED" "spi_State ex_spi = HAL_SPI_STATE_READY"
  "spi_DataSize (spi_Init ex_spi) \<le> SPI_DATASIZE_8BIT" "spi_Mode (spi_Init ex_spi) \<noteq> SPI_MODE_MASTER"
  by (simp_all add: ex_spi_dma_def ex_spi_def ex_spi_init_def SPI_MODE_MASTER_def SPI_MODE_SLAVE_def spi_consts)

text \<open>The bytes a channel moves: those of the transmission, and one more when an odd number is packed.\<close>
lemma spi_dma_units:
  assumes "if packed then \<exists>h4. h5 = spi_pack_tx h4 \<and> TxXferCount h4 = Size else TxXferCount h5 = Size \<and> \<not> bit (spi_CR2 h5) 14"
  shows "unat (TxXferCount h5) * (if packed then 2 else 1) = unat Size + (if bit (spi_CR2 h5) 14 then 1 else 0)"
proof (cases packed)
  case True
  with assms obtain h4 where "h5 = spi_pack_tx h4" "TxXferCount h4 = Size" by auto
  then show ?thesis using spi_pack_tx_size(1) [of h4] True by simp
qed (use assms in simp)

text \<open>C31: a transmission by DMA over an 8-bit link: whether the channel moves bytes or packs them into half-words, it is
  started on exactly the bytes of the buffer, with one byte more read but flagged by \<^verbatim>\<open>LDMATX\<close> when an odd number is
  packed; its transfer-complete interrupt then leaves driver and channel ready for the next transmission and reports
  the end once.\<close>
theorem spi_dma_transmit:
  assumes "spi_hdmatx s = Some d" "dma_tx_ready a d" "a = DMA_MDATAALIGN_BYTE \<or> a = DMA_MDATAALIGN_HALFWORD"
    "dma_CCR d AND DMA_CCR_CIRC = 0" "spi_Lock (dspi s) = HAL_UNLOCKED" "spi_State (dspi s) = HAL_SPI_STATE_READY"
    "spi_DataSize (spi_Init (dspi s)) \<le> SPI_DATASIZE_8BIT" "p \<noteq> NULL" "Size \<noteq> 0" "tick_advances hw"
    "\<not> dma_flag_at dhw DMA_GET_TE_FLAG_INDEX d (dma_now d)" "dma_flag_at dhw DMA_GET_TC_FLAG_INDEX d (Suc (Suc (dma_now d)))"
  shows "\<exists>s1 d1 s2 d2. HAL_SPI_Transmit_DMA dr p Size s = Some (HAL_OK, s1) \<and> spi_hdmatx s1 = Some d1
    \<and> dma_CPAR d1 = dr \<and> bit (dma_CCR d1) 0 \<and> bit (spi_CR2 (dspi s1)) 1
    \<and> take (unat Size) (dma_memory (spi_mem (dspi s)) d1) = mem_bytes (spi_mem (dspi s)) p (unat Size)
    \<and> length (dma_memory (spi_mem (dspi s)) d1) = unat Size + (if bit (spi_CR2 (dspi s1)) 14 then 1 else 0)
    \<and> spi_dmatx_irq hw dhw s1 = Some s2 \<and> spi_hdmatx s2 = Some d2
    \<and> spi_State (dspi s2) = HAL_SPI_STATE_READY \<and> dma_Lock d2 = HAL_UNLOCKED \<and> TxXferCount (dspi s2) = 0
    \<and> length (filter (\<lambda>c. c \<in> {TxCpltCallback, ErrorCallback}) (spi_cb (dspi s2)))
        = Suc (length (filter (\<lambda>c. c \<in> {TxCpltCallback, ErrorCallback}) (spi_cb (dspi s))))"
proof -
  have ready: "Direction (dma_Init d) = DMA_MEMORY_TO_PERIPH" "MemDataAlignment (dma_Init d) = a"
    "dma_CCR d AND (DMA_CCR_MSIZE OR DMA_CCR_MINC) = a OR DMA_CCR_MINC" "dma_Lock d = HAL_UNLOCKED"
    using assms(2) by (simp_all add: dma_tx_ready_def)
  from HAL_SPI_Transmit_DMA_accepted [OF assms(1) ready(4) assms(5,6,8,9)] obtain h h5 d1 where
    tr: "HAL_SPI_Transmit_DMA dr p Size s = Some (HAL_OK, s\<lparr>dspi := h, spi_hdmatx := Some d1\<rparr>)"
    and st: "HAL_DMA_Start_IT p dr (ucast (TxXferCount h5))
        (spi_dma_callbacks (Some DMAHalfTransmitCplt) (Some DMATransmitCplt) d) = (HAL_OK, d1)"
    and h: "spi_cb h = spi_cb (dspi s)" "spi_CR2 h = spi_CR2 h5 OR SPI_CR2_TXDMAEN"
    and cnt: "if spi_DataSize (spi_Init (dspi s)) \<le> SPI_DATASIZE_8BIT \<and> MemDataAlignment (dma_Init d) = DMA_MDATAALIGN_HALFWORD
      then \<exists>h4. h5 = spi_pack_tx h4 \<and> TxXferCount h4 = Size else TxXferCount h5 = Size \<and> \<not> bit (spi_CR2 h5) 14"
    by blast
  note d1 = dma_started_it [OF st, simplified]
  have cpar: "dma_CPAR d1 = dr" "dma_CMAR d1 = p" using d1(11) ready(1) by simp_all
  have mem: "dma_memory m d1 = mem_bytes m p (unat (TxXferCount h5) * (if a = DMA_MDATAALIGN_BYTE then 1 else 2))" for m
    using dma_tx_ready_memory [OF assms(2,3) d1(4), of m] cpar(2) d1(3) by (simp add: unat_ucast_u32)
  have ldma: "bit (spi_CR2 h) 14 = bit (spi_CR2 h5) 14" "bit (spi_CR2 h) 1"
    by (simp_all add: h(2) bit_or_iff SPI_CR2_TXDMAEN_def)
  have units: "unat (TxXferCount h5) * (if a = DMA_MDATAALIGN_BYTE then 1 else 2) = unat Size + (if bit (spi_CR2 h) 14 then 1 else 0)"
    using spi_dma_units [of "a = DMA_MDATAALIGN_HALFWORD" h5 Size] cnt assms(3,7) ready(2) ldma(1)
    by (auto simp: dma_consts)
  have "bit (dma_CCR d1) 1" "bit (dma_CCR d1) 0" by (simp_all add: d1(4) bit_or_iff)
  moreover have "\<not> dma_circular d1" using assms(4) by (simp add: dma_circular_bit d1(4) bit_or_iff)
  moreover have "dma_flag_at dhw f d1 = dma_flag_at dhw f d" for f by (rule dma_flag_at_cong) (simp add: d1)
  ultimately obtain s2 d2 half where irq: "spi_dmatx_irq hw dhw (s\<lparr>dspi := h, spi_hdmatx := Some d1\<rparr>) = Some s2"
    "spi_hdmatx s2 = Some d2" "dma_Lock d2 = HAL_UNLOCKED" "spi_State (dspi s2) = HAL_SPI_STATE_READY" "TxXferCount (dspi s2) = 0"
    "half \<in> {[], [TxHalfCpltCallback]}" "spi_cb (dspi s2) = spi_cb (dspi s) @ half
       @ [if spi_ErrorCode (dspi s2) = HAL_SPI_ERROR_NONE then TxCpltCallback else ErrorCallback]"
    using spi_dmatx_irq_complete [of "s\<lparr>dspi := h, spi_hdmatx := Some d1\<rparr>" d1 hw dhw] d1(6,8,9) assms(10-12) h(1)
    by fastforce
  have "take (unat Size) (mem_bytes m p (unat Size + k)) = mem_bytes m p (unat Size)" for m k
    by (simp add: mem_bytes_add)
  with tr cpar irq ldma units mem \<open>bit (dma_CCR d1) 0\<close> show ?thesis
    by (intro exI [of _ "s\<lparr>dspi := h, spi_hdmatx := Some d1\<rparr>"] exI [of _ d1] exI [of _ s2] exI [of _ d2]) auto
qed

theorem spi_dma_transmit_witness:
  "\<exists>s1 d1 s2. HAL_SPI_Transmit_DMA 0x40003C0C 0x100 3 (ex_spi_dma DMA_MDATAALIGN_HALFWORD) = Some (HAL_OK, s1)
     \<and> spi_hdmatx s1 = Some d1 \<and> take 3 (dma_memory (spi_mem ex_spi) d1) = mem_bytes (spi_mem ex_spi) 0x100 3
     \<and> spi_dmatx_irq ex_hw (ex_dma_hw 0x200) s1 = Some s2 \<and> spi_State (dspi s2) = HAL_SPI_STATE_READY"
proof -
  have "dma_CCR (ex_dma_ready DMA_MDATAALIGN_HALFWORD) AND DMA_CCR_CIRC = 0"
    by (simp add: ex_dma_ready_def ex_dma_def HAL_DMA_Init_def Let_def dma_consts)
  moreover have "(0x100 :: u32) \<noteq> NULL" "(3 :: u16) \<noteq> 0" by (simp_all add: NULL_def)
  ultimately show ?thesis
    using spi_dma_transmit [of "ex_spi_dma DMA_MDATAALIGN_HALFWORD" "ex_dma_ready DMA_MDATAALIGN_HALFWORD" DMA_MDATAALIGN_HALFWORD
      "0x100" 3 ex_hw "ex_dma_hw 0x200" "0x40003C0C"] ex_hw_advances
    by (fastforce simp: ex_spi_dma_facts ex_dma_tx_ready ex_dma_flags)
qed

section \<open>A refused reception\<close>

text \<open>A reception by DMA that is refused because the channel would pack bytes into half-words starts nothing, but it
  leaves the driver in the state BUSY_RX: from then on every transmission and reception is refused as busy, although
  nothing is running that could end.\<close>
lemma spi_dma_refused_reception_blocks:
  assumes "spi_hdmarx s = Some d" "MemDataAlignment (dma_Init d) = DMA_MDATAALIGN_HALFWORD"
    "spi_DataSize (spi_Init (dspi s)) \<le> SPI_DATASIZE_8BIT"
    "spi_Mode (spi_Init (dspi s)) \<noteq> SPI_MODE_MASTER \<or> spi_Direction (spi_Init (dspi s)) \<noteq> SPI_DIRECTION_2LINES"
    "spi_Lock (dspi s) = HAL_UNLOCKED" "spi_State (dspi s) = HAL_SPI_STATE_READY" "p \<noteq> NULL" "Size \<noteq> 0"
  shows "\<exists>h. HAL_SPI_Receive_DMA dr p Size s = Some (HAL_ERROR, s\<lparr>dspi := h\<rparr>)
    \<and> spi_State h = HAL_SPI_STATE_BUSY_RX \<and> spi_CR2 h = spi_CR2 (dspi s)
    \<and> (\<forall>q n. HAL_SPI_Transmit_DMA dr q n (s\<lparr>dspi := h\<rparr>) = Some (HAL_BUSY, s\<lparr>dspi := h\<rparr>)
          \<and> HAL_SPI_Receive_DMA dr q n (s\<lparr>dspi := h\<rparr>) = Some (HAL_BUSY, s\<lparr>dspi := h\<rparr>)
          \<and> fst (HAL_SPI_Transmit_IT q n h) \<noteq> HAL_OK \<and> HAL_SPI_Receive_IT q n h = (HAL_BUSY, h))"
proof -
  let ?h1 = "(dspi s)\<lparr>spi_Lock := HAL_LOCKED, spi_State := HAL_SPI_STATE_BUSY_RX, spi_ErrorCode := HAL_SPI_ERROR_NONE,
      pRxBuffPtr := p, RxXferSize := Size, RxXferCount := Size, pTxBuffPtr := NULL, TxXferSize := 0, TxXferCount := 0\<rparr>"
  let ?h2 = "if spi_Direction (spi_Init ?h1) = SPI_DIRECTION_1LINE then SPI_1LINE_RX ?h1 else ?h1"
  let ?h3 = "if spi_crc_on ?h2 then SPI_RESET_CRC ?h2 else ?h2"
  let ?h = "?h3\<lparr>spi_Lock := HAL_UNLOCKED\<rparr>"
  have f: "spi_Init ?h3 = spi_Init (dspi s)" "spi_State ?h3 = HAL_SPI_STATE_BUSY_RX" "spi_CR2 ?h3 = spi_CR2 (dspi s)"
    by (simp_all add: SPI_1LINE_RX_def)
  have "\<not> (spi_Mode (spi_Init ?h1) = SPI_MODE_MASTER \<and> spi_Direction (spi_Init ?h1) = SPI_DIRECTION_2LINES)"
    using assms(4) by simp
  then have rx: "HAL_SPI_Receive_DMA dr p Size s = Some (HAL_ERROR, s\<lparr>dspi := ?h\<rparr>)"
    unfolding HAL_SPI_Receive_DMA_def Let_def
    using assms(1-3,5-8) f(1) by (simp only: if_False if_True HAL_LockTypeDef.distinct simp_thms Option.bind.bind_lunit)
  have same: "h\<lparr>spi_Lock := HAL_UNLOCKED\<rparr> = h" if "spi_Lock h = HAL_UNLOCKED" for h :: spi
    using that by (cases h) simp
  have "HAL_SPI_Transmit_DMA dr q n (s\<lparr>dspi := h\<rparr>) = Some (HAL_BUSY, s\<lparr>dspi := h\<rparr>)
      \<and> HAL_SPI_Receive_DMA dr q n (s\<lparr>dspi := h\<rparr>) = Some (HAL_BUSY, s\<lparr>dspi := h\<rparr>)
      \<and> fst (HAL_SPI_Transmit_IT q n h) \<noteq> HAL_OK \<and> HAL_SPI_Receive_IT q n h = (HAL_BUSY, h)"
    if "spi_State h = HAL_SPI_STATE_BUSY_RX" "spi_Lock h = HAL_UNLOCKED" for h q n
    using that by (simp add: HAL_SPI_Transmit_DMA_def HAL_SPI_Receive_DMA_def HAL_SPI_Transmit_IT_def
        HAL_SPI_Receive_IT_def same)
  from this [of ?h] f(2,3) rx show ?thesis by (intro exI [of _ ?h]) simp
qed

lemma spi_dma_refused_reception_blocks_witness:
  "\<exists>h. HAL_SPI_Receive_DMA 0x40003C0C 0x100 3 (ex_spi_dma DMA_MDATAALIGN_HALFWORD)
       = Some (HAL_ERROR, (ex_spi_dma DMA_MDATAALIGN_HALFWORD)\<lparr>dspi := h\<rparr>) \<and> spi_State h = HAL_SPI_STATE_BUSY_RX"
  using spi_dma_refused_reception_blocks [of "ex_spi_dma DMA_MDATAALIGN_HALFWORD" "ex_dma_ready DMA_MDATAALIGN_HALFWORD" "0x100" 3
    "0x40003C0C"]
  by (auto simp: ex_spi_dma_facts ex_dma_facts ex_dma_def NULL_def)

section \<open>A transfer that fails\<close>

lemma spi_pack_rx_fields [simp]:
  "spi_Init (spi_pack_rx h) = spi_Init h" "pTxBuffPtr (spi_pack_rx h) = pTxBuffPtr h" "spi_Lock (spi_pack_rx h) = spi_Lock h"
  "spi_State (spi_pack_rx h) = spi_State h" "TxXferCount (spi_pack_rx h) = TxXferCount h"
  "pRxBuffPtr (spi_pack_rx h) = pRxBuffPtr h" "pRxBuffPtr (spi_pack_tx h) = pRxBuffPtr h"
  "pRxBuffPtr (spi_set_CR2 b h) = pRxBuffPtr h" "pRxBuffPtr (spi_clear_CR2 b h) = pRxBuffPtr h"
  "pRxBuffPtr (SPI_RESET_CRC h) = pRxBuffPtr h"
  by (simp_all add: spi_pack_rx_def spi_pack_tx_def spi_dma_macros spi_macros)

lemma HAL_SPI_TransmitReceive_DMA_accepted:
  assumes "HAL_SPI_TransmitReceive_DMA dr p q Size s = Some (HAL_OK, s1)" "spi_State (dspi s) = HAL_SPI_STATE_READY"
    "spi_hdmatx s = Some t" "dma_Lock t = HAL_UNLOCKED" "spi_hdmarx s = Some r" "dma_Lock r = HAL_UNLOCKED"
  obtains n m t1 r1 where "HAL_DMA_Start_IT p dr n (spi_dma_callbacks None None t) = (HAL_OK, t1)"
    "HAL_DMA_Start_IT dr q m (spi_dma_callbacks (Some DMAHalfTransmitReceiveCplt) (Some DMATransmitReceiveCplt) r) = (HAL_OK, r1)"
    "spi_hdmatx s1 = Some t1" "spi_hdmarx s1 = Some r1" "spi_State (dspi s1) = HAL_SPI_STATE_BUSY_TX_RX"
    "spi_Lock (dspi s1) = HAL_UNLOCKED"
proof -
  have ok: "\<exists>y. HAL_DMA_Start_IT a b c (spi_dma_callbacks x z t) = (HAL_OK, y)"
    "\<exists>y. HAL_DMA_Start_IT a b c (spi_dma_callbacks x z r) = (HAL_OK, y)" for a b c x z
    using assms(4,6) by (simp_all add: dma_start_it_unlocked)
  let ?h1 = "(dspi s)\<lparr>spi_Lock := HAL_LOCKED,
      spi_State := (if spi_State (dspi s) \<noteq> HAL_SPI_STATE_BUSY_RX then HAL_SPI_STATE_BUSY_TX_RX else spi_State (dspi s)),
      spi_ErrorCode := HAL_SPI_ERROR_NONE, pTxBuffPtr := p, TxXferSize := Size, TxXferCount := Size,
      pRxBuffPtr := q, RxXferSize := Size, RxXferCount := Size\<rparr>"
  let ?h3 = "spi_clear_CR2 (SPI_CR2_LDMATX OR SPI_CR2_LDMARX) (if spi_crc_on ?h1 then SPI_RESET_CRC ?h1 else ?h1)"
  let ?a = "spi_set_CR2 SPI_RXFIFO_THRESHOLD ?h3"
  let ?b = "if MemDataAlignment (dma_Init t) = DMA_MDATAALIGN_HALFWORD then spi_pack_tx ?a else ?a"
  let ?h4 = "if spi_DataSize (spi_Init ?h3) > SPI_DATASIZE_8BIT then spi_clear_CR2 SPI_RXFIFO_THRESHOLD ?h3
    else if MemDataAlignment (dma_Init r) = DMA_MDATAALIGN_HALFWORD then spi_pack_rx (spi_clear_CR2 SPI_RXFIFO_THRESHOLD ?b) else ?b"
  have "spi_State ?h3 = HAL_SPI_STATE_BUSY_TX_RX" "pTxBuffPtr ?h3 = p" "pRxBuffPtr ?h3 = q" using assms(2) by simp_all
  then have f4: "spi_State ?h4 = HAL_SPI_STATE_BUSY_TX_RX" "pTxBuffPtr ?h4 = p" "pRxBuffPtr ?h4 = q"
    by (simp_all only: spi_pack_rx_fields spi_pack_tx_fields spi_dma_macro_fields split: if_split) simp_all
  from ok obtain t1 where t1: "HAL_DMA_Start_IT p dr (ucast (TxXferCount ?h4)) (spi_dma_callbacks None None t) = (HAL_OK, t1)" by blast
  from ok obtain r1 where r1: "HAL_DMA_Start_IT dr q (ucast (RxXferCount ?h4))
      (spi_dma_callbacks (Some DMAHalfTransmitReceiveCplt) (Some DMATransmitReceiveCplt) r) = (HAL_OK, r1)" by blast
  have guards: "spi_Lock (dspi s) \<noteq> HAL_LOCKED" "\<not> (p = NULL \<or> q = NULL \<or> Size = 0)"
    using assms(1,2) by (auto simp: HAL_SPI_TransmitReceive_DMA_def Let_def split: if_splits)
  have skip: "(if \<not> (spi_State (dspi s) = HAL_SPI_STATE_READY \<or> x) then a else b) = b" for x and a b :: 'c
    using assms(2) by simp
  have ne: "(HAL_SPI_STATE_BUSY_TX_RX = HAL_SPI_STATE_BUSY_RX) = False" by simp
  have f5: "spi_State (spi_set_CR2 x h) = spi_State h" "pTxBuffPtr (spi_set_CR2 x h) = pTxBuffPtr h"
    "pRxBuffPtr (spi_set_CR2 x h) = pRxBuffPtr h" "TxXferCount (spi_set_CR2 x h) = TxXferCount h"
    "RxXferCount (spi_set_CR2 x h) = RxXferCount h" for x h by (simp_all add: spi_set_CR2_def)
  have "HAL_SPI_TransmitReceive_DMA dr p q Size s = Some (HAL_OK, s\<lparr>dspi := (spi_set_CR2 SPI_CR2_TXDMAEN
      (spi_enable_if_needed (spi_set_CR2 SPI_CR2_RXDMAEN ?h4)))\<lparr>spi_Lock := HAL_UNLOCKED\<rparr>, spi_hdmatx := Some t1, spi_hdmarx := Some r1\<rparr>)"
    unfolding HAL_SPI_TransmitReceive_DMA_def Let_def assms(3,5)
    by (simp only: guards skip if_False if_True simp_thms Option.bind.bind_lunit f4 f5 ne t1 r1 snd_conv)
  with assms(1) have s1: "s1 = s\<lparr>dspi := (spi_set_CR2 SPI_CR2_TXDMAEN
      (spi_enable_if_needed (spi_set_CR2 SPI_CR2_RXDMAEN ?h4)))\<lparr>spi_Lock := HAL_UNLOCKED\<rparr>, spi_hdmatx := Some t1, spi_hdmarx := Some r1\<rparr>"
    by (simp only: option.inject prod.inject simp_thms)
  show thesis using f4(1) by (intro that [OF t1 r1]) (simp_all only: s1, simp_all)
qed

lemma spi_dmarx_irq_error:
  assumes "spi_hdmarx s = Some r" "XferErrorCallback r = Some DMAError" "bit (dma_CCR r) 3"
    "dma_flag_at dhw DMA_GET_TE_FLAG_INDEX r (dma_now r)" "\<not> dma_flag_at dhw DMA_GET_HT_FLAG_INDEX r (Suc (dma_now r))"
    "\<not> dma_flag_at dhw DMA_GET_TC_FLAG_INDEX r (Suc (Suc (dma_now r)))"
  shows "\<exists>r2. spi_dmarx_irq hw dhw s = Some (s\<lparr>dspi := SPI_DMAError (dspi s), spi_hdmarx := Some r2\<rparr>)"
proof -
  let ?r = "dma_irq_error (r\<lparr>dma_now := Suc (dma_now r)\<rparr>)"
  have f: "dma_now ?r = Suc (dma_now r)" "dma_Instance ?r = dma_Instance r" "XferErrorCallback ?r = Some DMAError"
    using assms(2) by (simp_all add: dma_irq_error_def dma_macros)
  then have te: "dma_irq_section dhw DMA_GET_TE_FLAG_INDEX DMA_IT_TE dma_irq_error (spi_dma_call hw) XferErrorCallback (r, dspi s)
      = Some (?r, SPI_DMAError (dspi s))"
    using assms(3,4) by (simp add: dma_section_cases dma_source_bits)
  have "\<not> dma_flag_at dhw DMA_GET_HT_FLAG_INDEX ?r (Suc (dma_now r))"
    "\<not> dma_flag_at dhw DMA_GET_TC_FLAG_INDEX (?r\<lparr>dma_now := Suc (Suc (dma_now r))\<rparr>) (Suc (Suc (dma_now r)))"
    using assms(5,6) f by (simp_all add: dma_flag_at_def)
  then show ?thesis
    by (intro exI [of _ "?r\<lparr>dma_now := Suc (Suc (Suc (dma_now r)))\<rparr>"])
      (simp add: spi_dmarx_irq_def assms(1) HAL_DMA_IRQHandler_def te f
      dma_section_cases [of _ _ _ _ _ _ ?r] dma_section_cases [of _ _ _ _ _ _ "?r\<lparr>dma_now := Suc (Suc (dma_now r))\<rparr>"])
qed

text \<open>C32: a transfer error of the receiving channel ends a full-duplex transfer for the SPI driver, but not for its
  transmitting channel, which stays locked: the next transmission is accepted with \<^verbatim>\<open>HAL_OK\<close>, the start of its
  channel is refused without anyone noticing, and the channel goes on with the buffer of the transfer that failed.\<close>
theorem spi_dma_error_sends_old_buffer:
  assumes "HAL_SPI_TransmitReceive_DMA dr p q Size s = Some (HAL_OK, s1)" "spi_State (dspi s) = HAL_SPI_STATE_READY"
    "spi_hdmatx s = Some t" "dma_Lock t = HAL_UNLOCKED" "Direction (dma_Init t) = DMA_MEMORY_TO_PERIPH"
    "spi_hdmarx s = Some r" "dma_Lock r = HAL_UNLOCKED"
    "dma_flag_at dhw DMA_GET_TE_FLAG_INDEX r (dma_now r)" "\<not> dma_flag_at dhw DMA_GET_HT_FLAG_INDEX r (Suc (dma_now r))"
    "\<not> dma_flag_at dhw DMA_GET_TC_FLAG_INDEX r (Suc (Suc (dma_now r)))"
    "p' \<noteq> NULL" "n \<noteq> 0"
  shows "\<exists>s2 s3 t3. spi_dmarx_irq hw dhw s1 = Some s2 \<and> spi_State (dspi s2) = HAL_SPI_STATE_READY
    \<and> HAL_SPI_Transmit_DMA dr p' n s2 = Some (HAL_OK, s3) \<and> spi_State (dspi s3) = HAL_SPI_STATE_BUSY_TX
    \<and> spi_hdmatx s3 = Some t3 \<and> dma_CMAR t3 = p \<and> map_option dma_CNDTR (spi_hdmatx s1) = Some (dma_CNDTR t3)
    \<and> bit (dma_CCR t3) 0"
proof -
  from HAL_SPI_TransmitReceive_DMA_accepted [OF assms(1-4,6,7)] obtain k m t1 r1 where
    t1: "HAL_DMA_Start_IT p dr k (spi_dma_callbacks None None t) = (HAL_OK, t1)"
    and r1: "HAL_DMA_Start_IT dr q m (spi_dma_callbacks (Some DMAHalfTransmitReceiveCplt) (Some DMATransmitReceiveCplt) r)
      = (HAL_OK, r1)"
    and s1: "spi_hdmatx s1 = Some t1" "spi_hdmarx s1 = Some r1" "spi_Lock (dspi s1) = HAL_UNLOCKED" by metis
  note tf = dma_started_it [OF t1, simplified] and rf = dma_started_it [OF r1, simplified]
  have "dma_flag_at dhw f r1 = dma_flag_at dhw f r" for f by (rule dma_flag_at_cong) (simp add: rf)
  then obtain r2 where irq: "spi_dmarx_irq hw dhw s1 = Some (s1\<lparr>dspi := SPI_DMAError (dspi s1), spi_hdmarx := Some r2\<rparr>)"
    (is "_ = Some ?s2")
    using spi_dmarx_irq_error [OF s1(2), of dhw hw] rf(4,6,10) assms(8-10) by (auto simp: bit_or_iff)
  have h2: "spi_State (dspi ?s2) = HAL_SPI_STATE_READY" "spi_Lock (dspi ?s2) = HAL_UNLOCKED" "spi_hdmatx ?s2 = Some t1"
    using s1 by (simp_all add: SPI_DMAError_def spi_callback_def spi_clear_CR2_def)
  have busy: "snd (HAL_DMA_Start_IT a b c (spi_dma_callbacks x y t1)) = spi_dma_callbacks x y t1" for a b c x y
    using tf(2) by (simp add: HAL_DMA_Start_IT_def)
  have "HAL_SPI_Transmit_DMA dr p' n ?s2 = Some (HAL_OK, s3)
      \<Longrightarrow> spi_hdmatx s3 = Some (spi_dma_callbacks (Some DMAHalfTransmitCplt) (Some DMATransmitCplt) t1)" for s3
    using h2 assms(11,12) unfolding HAL_SPI_Transmit_DMA_def Let_def h2(3) Option.bind.bind_lunit busy by auto
  moreover have "\<exists>s3. HAL_SPI_Transmit_DMA dr p' n ?s2 = Some (HAL_OK, s3) \<and> spi_State (dspi s3) = HAL_SPI_STATE_BUSY_TX"
    using h2(1,2) assms(11,12) unfolding HAL_SPI_Transmit_DMA_def Let_def h2(3) Option.bind.bind_lunit busy by simp
  ultimately obtain s3 where "HAL_SPI_Transmit_DMA dr p' n ?s2 = Some (HAL_OK, s3)" "spi_State (dspi s3) = HAL_SPI_STATE_BUSY_TX"
    "spi_hdmatx s3 = Some (spi_dma_callbacks (Some DMAHalfTransmitCplt) (Some DMATransmitCplt) t1)" by blast
  moreover have "dma_CMAR t1 = p" "bit (dma_CCR t1) 0" using tf(4,11) assms(5) by (simp_all add: bit_or_iff)
  ultimately show ?thesis
    using irq h2(1) s1(1)
    by (intro exI [of _ ?s2] exI [of _ s3] exI [of _ "spi_dma_callbacks (Some DMAHalfTransmitCplt) (Some DMATransmitCplt) t1"]) simp
qed

theorem spi_dma_error_sends_old_buffer_witness:
  "\<exists>s1 s2 s3 t3. HAL_SPI_TransmitReceive_DMA 0x40003C0C 0x100 0x200 3 (ex_spi_dma 0) = Some (HAL_OK, s1)
     \<and> spi_dmarx_irq ex_hw (ex_dma_hw 0x800) s1 = Some s2
     \<and> HAL_SPI_Transmit_DMA 0x40003C0C 0x300 5 s2 = Some (HAL_OK, s3) \<and> spi_hdmatx s3 = Some t3 \<and> dma_CMAR t3 = 0x100"
proof -
  have "\<exists>s1. HAL_SPI_TransmitReceive_DMA 0x40003C0C 0x100 0x200 3 (ex_spi_dma 0) = Some (HAL_OK, s1)"
    by (simp add: HAL_SPI_TransmitReceive_DMA_def ex_spi_dma_facts NULL_def Let_def del: spi_dma_macro_fields)
  then obtain s1 where tr: "HAL_SPI_TransmitReceive_DMA 0x40003C0C 0x100 0x200 3 (ex_spi_dma 0) = Some (HAL_OK, s1)" by blast
  have "Direction (dma_Init (ex_dma_ready 0)) = DMA_MEMORY_TO_PERIPH" by (simp add: ex_dma_facts ex_dma_def)
  moreover have "(0x300 :: u32) \<noteq> NULL" "(5 :: u16) \<noteq> 0" by (simp_all add: NULL_def)
  moreover have "spi_State (dspi (ex_spi_dma 0)) = HAL_SPI_STATE_READY" by (simp add: ex_spi_dma_facts)
  ultimately show ?thesis
    using spi_dma_error_sends_old_buffer [OF tr _ ex_spi_dma_facts(1) ex_dma_facts(1) _ ex_spi_dma_facts(2) ex_dma_facts(1)
      ex_dma_flags(6) ex_dma_flags(7) ex_dma_flags(8), of "0x300" 5 ex_hw] tr by blast
qed

end
