(* ===== verification/Uart_Dma.thy ===== *)
theory Uart_Dma
  imports Hal_Uart Hal_Dma
begin

text \<open>
  The DMA transfers of the UART driver (\<^verbatim>\<open>stm32f3xx_hal_uart.c\<close>) over the DMA driver: start, pause, resume, stop,
  and the callbacks of the two channels.  A transmission ends in two steps: the channel's interrupt enables the
  UART's transmission-complete interrupt, whose handler then reports the end.
\<close>

definition USART_CR3_DMAR :: u32 where "USART_CR3_DMAR = 0x40"
definition USART_CR3_DMAT :: u32 where "USART_CR3_DMAT = 0x80"
definition UART_CLEAR_TCF :: u32 where "UART_CLEAR_TCF = 0x40"
definition HAL_UART_ERROR_DMA :: u32 where "HAL_UART_ERROR_DMA = 0x10"

text \<open>The values of the function pointers of the channels.\<close>
datatype uart_dma_cb = UDMATransmitCplt | UDMATxHalfCplt | UDMAReceiveCplt | UDMARxHalfCplt | UDMAError

record uart_dma =
  duart :: uart
  uart_hdmatx :: "uart_dma_cb dma option"
  uart_hdmarx :: "uart_dma_cb dma option"

definition uart_set_CR3 :: "u32 \<Rightarrow> uart \<Rightarrow> uart" where
  "uart_set_CR3 b h = h\<lparr>uart_CR3 := uart_CR3 h OR b\<rparr>"

definition uart_clear_CR3 :: "u32 \<Rightarrow> uart \<Rightarrow> uart" where
  "uart_clear_CR3 b h = h\<lparr>uart_CR3 := uart_CR3 h AND NOT b\<rparr>"

definition uart_dma_callbacks ::
  "uart_dma_cb \<Rightarrow> uart_dma_cb \<Rightarrow> uart_dma_cb dma \<Rightarrow> uart_dma_cb dma" where
  "uart_dma_callbacks full half d =
     d\<lparr>XferCpltCallback := Some full, XferHalfCpltCallback := Some half, XferErrorCallback := Some UDMAError\<rparr>"

text \<open>\<open>tdr\<close> and \<open>rdr\<close> are the addresses of the data registers; following a null \<^verbatim>\<open>hdmatx\<close> ends in the HardFault
  handler.\<close>
definition HAL_UART_Transmit_DMA ::
  "u32 \<Rightarrow> u32 \<Rightarrow> u16 \<Rightarrow> uart_dma \<Rightarrow> (HAL_StatusTypeDef \<times> uart_dma) option" where
  "HAL_UART_Transmit_DMA tdr pData Size s =
     (let h = duart s in
      if gState h \<noteq> HAL_UART_STATE_READY then Some (HAL_BUSY, s)
      else if pData = NULL \<or> Size = 0 then Some (HAL_ERROR, s)
      else if uart_Lock h = HAL_LOCKED then Some (HAL_BUSY, s)
      else do {
        let h1 = h\<lparr>uart_Lock := HAL_LOCKED, uart_pTxBuffPtr := pData, uart_TxXferSize := Size, uart_TxXferCount := Size,
                   uart_ErrorCode := HAL_UART_ERROR_NONE, gState := HAL_UART_STATE_BUSY_TX\<rparr>;
        d \<leftarrow> uart_hdmatx s;
        let d1 = snd (HAL_DMA_Start_IT pData tdr (ucast Size) (uart_dma_callbacks UDMATransmitCplt UDMATxHalfCplt d));
        let h2 = uart_set_CR3 USART_CR3_DMAT (uart_log (ICR_write UART_CLEAR_TCF) h1);
        Some (HAL_OK, s\<lparr>duart := h2\<lparr>uart_Lock := HAL_UNLOCKED\<rparr>, uart_hdmatx := Some d1\<rparr>) })"

definition HAL_UART_Receive_DMA ::
  "u32 \<Rightarrow> u32 \<Rightarrow> u16 \<Rightarrow> uart_dma \<Rightarrow> (HAL_StatusTypeDef \<times> uart_dma) option" where
  "HAL_UART_Receive_DMA rdr pData Size s =
     (let h = duart s in
      if RxState h \<noteq> HAL_UART_STATE_READY then Some (HAL_BUSY, s)
      else if pData = NULL \<or> Size = 0 then Some (HAL_ERROR, s)
      else if uart_Lock h = HAL_LOCKED then Some (HAL_BUSY, s)
      else do {
        let h1 = h\<lparr>uart_Lock := HAL_LOCKED, uart_pRxBuffPtr := pData, uart_RxXferSize := Size,
                   uart_ErrorCode := HAL_UART_ERROR_NONE, RxState := HAL_UART_STATE_BUSY_RX\<rparr>;
        d \<leftarrow> uart_hdmarx s;
        let d1 = snd (HAL_DMA_Start_IT rdr pData (ucast Size) (uart_dma_callbacks UDMAReceiveCplt UDMARxHalfCplt d));
        let h2 = uart_set_CR3 USART_CR3_DMAR h1;
        Some (HAL_OK, s\<lparr>duart := h2\<lparr>uart_Lock := HAL_UNLOCKED\<rparr>, uart_hdmarx := Some d1\<rparr>) })"

definition HAL_UART_DMAPause :: "uart \<Rightarrow> HAL_StatusTypeDef \<times> uart" where
  "HAL_UART_DMAPause h =
     (if uart_Lock h = HAL_LOCKED then (HAL_BUSY, h)
      else let h1 = (if gState h = HAL_UART_STATE_BUSY_TX then uart_clear_CR3 USART_CR3_DMAT h else h);
               h2 = (if RxState h1 = HAL_UART_STATE_BUSY_RX then uart_clear_CR3 USART_CR3_DMAR h1 else h1)
           in (HAL_OK, h2\<lparr>uart_Lock := HAL_UNLOCKED\<rparr>))"

definition HAL_UART_DMAResume :: "uart \<Rightarrow> HAL_StatusTypeDef \<times> uart" where
  "HAL_UART_DMAResume h =
     (if uart_Lock h = HAL_LOCKED then (HAL_BUSY, h)
      else let h1 = (if gState h = HAL_UART_STATE_BUSY_TX then uart_set_CR3 USART_CR3_DMAT h else h);
               h2 = (if RxState h1 = HAL_UART_STATE_BUSY_RX
                     then uart_set_CR3 USART_CR3_DMAR (uart_log (ICR_write UART_CLEAR_OREF) h1) else h1)
           in (HAL_OK, h2\<lparr>uart_Lock := HAL_UNLOCKED\<rparr>))"

definition HAL_UART_DMAStop :: "dma_hw \<Rightarrow> dma_hw \<Rightarrow> uart_dma \<Rightarrow> (HAL_StatusTypeDef \<times> uart_dma) option" where
  "HAL_UART_DMAStop hwt hwr s =
     do { let h = uart_clear_CR3 USART_CR3_DMAR (uart_clear_CR3 USART_CR3_DMAT (duart s));
          t \<leftarrow> dma_abort_present hwt (uart_hdmatx s);
          r \<leftarrow> dma_abort_present hwr (uart_hdmarx s);
          Some (HAL_OK, s\<lparr>duart := h\<lparr>gState := HAL_UART_STATE_READY, RxState := HAL_UART_STATE_READY\<rparr>,
                 uart_hdmatx := t, uart_hdmarx := r\<rparr>) }"

section \<open>Callbacks of the channels\<close>

definition UART_DMATransmitCplt :: "'cb dma \<Rightarrow> uart \<Rightarrow> uart" where
  "UART_DMATransmitCplt d h =
     (if dma_CCR d AND DMA_CCR_CIRC = 0
      then uart_ENABLE_IT UART_IT_TC (uart_clear_CR3 USART_CR3_DMAT (h\<lparr>uart_TxXferCount := 0\<rparr>))
      else uart_callback UART_TxCpltCallback h)"

definition UART_DMAReceiveCplt :: "'cb dma \<Rightarrow> uart \<Rightarrow> uart" where
  "UART_DMAReceiveCplt d h =
     uart_callback UART_RxCpltCallback
       (if dma_CCR d AND DMA_CCR_CIRC = 0
        then (uart_clear_CR3 USART_CR3_DMAR (h\<lparr>uart_RxXferCount := 0\<rparr>))\<lparr>RxState := HAL_UART_STATE_READY\<rparr>
        else h)"

definition UART_DMAError :: "uart \<Rightarrow> uart" where
  "UART_DMAError h =
     uart_callback UART_ErrorCallback (h\<lparr>uart_RxXferCount := 0, uart_TxXferCount := 0, gState := HAL_UART_STATE_READY,
       RxState := HAL_UART_STATE_READY, uart_ErrorCode := uart_ErrorCode h OR HAL_UART_ERROR_DMA\<rparr>)"

fun uart_dma_call :: "(uart_dma_cb, uart) dma_call" where
  "uart_dma_call UDMATransmitCplt (d, h) = Some (d, UART_DMATransmitCplt d h)"
| "uart_dma_call UDMATxHalfCplt (d, h) = Some (d, uart_callback UART_TxHalfCpltCallback h)"
| "uart_dma_call UDMAReceiveCplt (d, h) = Some (d, UART_DMAReceiveCplt d h)"
| "uart_dma_call UDMARxHalfCplt (d, h) = Some (d, uart_callback UART_RxHalfCpltCallback h)"
| "uart_dma_call UDMAError (d, h) = Some (d, UART_DMAError h)"

interpretation uart_client: dma_client uart_dma_call
proof
  fix c and x y :: "uart_dma_cb dma \<times> uart"
  assume "uart_dma_call c x = Some y"
  then show "fst y = fst x" by (cases x; cases c) auto
qed

definition uart_dmatx_irq :: "dma_hw \<Rightarrow> uart_dma \<Rightarrow> uart_dma option" where
  "uart_dmatx_irq dhw s =
     do { d \<leftarrow> uart_hdmatx s;
          (d1, h) \<leftarrow> HAL_DMA_IRQHandler uart_dma_call dhw (d, duart s);
          Some (s\<lparr>duart := h, uart_hdmatx := Some d1\<rparr>) }"

definition uart_dmarx_irq :: "dma_hw \<Rightarrow> uart_dma \<Rightarrow> uart_dma option" where
  "uart_dmarx_irq dhw s =
     do { d \<leftarrow> uart_hdmarx s;
          (d1, h) \<leftarrow> HAL_DMA_IRQHandler uart_dma_call dhw (d, duart s);
          Some (s\<lparr>duart := h, uart_hdmarx := Some d1\<rparr>) }"

section \<open>A transmission by DMA\<close>

lemmas uart_dma_consts = USART_CR3_DMAR_def USART_CR3_DMAT_def UART_CLEAR_TCF_def HAL_UART_ERROR_DMA_def

text \<open>Interrupt sources other than the end of a transmission are off.\<close>
definition uart_quiet :: "uart \<Rightarrow> bool" where
  "uart_quiet h \<longleftrightarrow> (\<forall>it \<in> {UART_IT_PE, UART_IT_ERR, UART_IT_WUF, UART_IT_RXNE, UART_IT_TXE}. \<not> uart_GET_IT_SOURCE h it)"

lemma uart_source_bits:
  "uart_GET_IT_SOURCE h UART_IT_PE \<longleftrightarrow> bit (uart_CR1 h) 8" "uart_GET_IT_SOURCE h UART_IT_ERR \<longleftrightarrow> bit (uart_CR3 h) 0"
  "uart_GET_IT_SOURCE h UART_IT_WUF \<longleftrightarrow> bit (uart_CR3 h) 22" "uart_GET_IT_SOURCE h UART_IT_RXNE \<longleftrightarrow> bit (uart_CR1 h) 5"
  "uart_GET_IT_SOURCE h UART_IT_TXE \<longleftrightarrow> bit (uart_CR1 h) 7" "uart_GET_IT_SOURCE h UART_IT_TC \<longleftrightarrow> bit (uart_CR1 h) 6"
  using pin_bit [of "uart_CR1 h" 8] pin_bit [of "uart_CR3 h" 0] pin_bit [of "uart_CR3 h" 22] pin_bit [of "uart_CR1 h" 5]
    pin_bit [of "uart_CR1 h" 7] pin_bit [of "uart_CR1 h" 6]
  by (simp_all add: uart_GET_IT_SOURCE_def uart_it_reg_def uart_it_bit_def UART_IT_PE_def UART_IT_ERR_def UART_IT_WUF_def
      UART_IT_RXNE_def UART_IT_TXE_def UART_IT_TC_def UART_IT_MASK_def)

lemma uart_quiet_now [simp]: "uart_GET_IT_SOURCE (h\<lparr>uart_now := t\<rparr>) it = uart_GET_IT_SOURCE h it"
  by (simp add: uart_GET_IT_SOURCE_def)

lemma uart_check_off: "\<not> uart_GET_IT_SOURCE h src \<Longrightarrow> uart_check hw it src f h = h\<lparr>uart_now := Suc (uart_now h)\<rparr>"
  by (simp add: uart_check_def Let_def)

lemma irq_transmission_complete:
  assumes "uart_quiet h" "uart_GET_IT_SOURCE h UART_IT_TC" "hw_SR hw (uart_now h + 7) AND UART_FLAG_TC \<noteq> 0"
    "uart_ErrorCode h = HAL_UART_ERROR_NONE"
  shows "gState (HAL_UART_IRQHandler hw h) = HAL_UART_STATE_READY"
    "uart_cb (HAL_UART_IRQHandler hw h) = uart_cb h @ [UART_TxCpltCallback]"
    "\<not> uart_GET_IT_SOURCE (HAL_UART_IRQHandler hw h) UART_IT_TC"
proof -
  let ?h7 = "h\<lparr>uart_now := uart_now h + 7\<rparr>"
  have "uart_GET_IT (hw_SR hw (uart_now h + 7)) UART_IT_TC"
    using assms(3) by (simp add: uart_GET_IT_def UART_IT_TC_def UART_FLAG_TC_def)
  then have tc: "uart_check hw UART_IT_TC UART_IT_TC (\<lambda>h. snd (UART_EndTransmit_IT h)) ?h7
      = snd (UART_EndTransmit_IT (h\<lparr>uart_now := uart_now h + 8\<rparr>))"
    using assms(2) by (simp add: uart_check_def Let_def add.commute)
  have off: "\<not> uart_GET_IT_SOURCE h UART_IT_PE" "\<not> uart_GET_IT_SOURCE h UART_IT_ERR" "\<not> uart_GET_IT_SOURCE h UART_IT_WUF"
    "\<not> uart_GET_IT_SOURCE h UART_IT_RXNE" "\<not> uart_GET_IT_SOURCE h UART_IT_TXE"
    using assms(1) by (simp_all add: uart_quiet_def)
  have first: "uart_check hw UART_IT_PE UART_IT_PE f h = h\<lparr>uart_now := uart_now h + 1\<rparr>" for f
    using uart_check_off [OF off(1)] by simp
  have skip: "\<not> uart_GET_IT_SOURCE h src \<Longrightarrow> uart_check hw it src f (h\<lparr>uart_now := uart_now h + k\<rparr>)
      = h\<lparr>uart_now := uart_now h + (k + 1)\<rparr>" for it src f k
    by (subst uart_check_off) simp_all
  let ?fin = "snd (UART_EndTransmit_IT (h\<lparr>uart_now := uart_now h + 8\<rparr>))"
  have noerr: "uart_ErrorCode ?fin = HAL_UART_ERROR_NONE"
    using assms(4) by (simp add: UART_EndTransmit_IT_def uart_callback_def uart_DISABLE_IT_def)
  have sums: "(1 :: nat) + 1 = 2" "(2 :: nat) + 1 = 3" "(3 :: nat) + 1 = 4" "(4 :: nat) + 1 = 5" "(5 :: nat) + 1 = 6"
    "(6 :: nat) + 1 = 7" by simp_all
  have irq: "HAL_UART_IRQHandler hw h = ?fin"
    unfolding HAL_UART_IRQHandler_def Let_def
    by (simp only: first skip [OF off(2)] skip [OF off(3)] skip [OF off(4)] skip [OF off(5)] sums tc noerr if_False simp_thms)
  note fin = UART_EndTransmit_IT_def uart_callback_def uart_DISABLE_IT_def uart_it_reg_def uart_it_bit_def
    UART_IT_TC_def UART_IT_MASK_def
  show "gState (HAL_UART_IRQHandler hw h) = HAL_UART_STATE_READY"
    "uart_cb (HAL_UART_IRQHandler hw h) = uart_cb h @ [UART_TxCpltCallback]"
    by (simp_all add: irq fin)
  show "\<not> uart_GET_IT_SOURCE (HAL_UART_IRQHandler hw h) UART_IT_TC"
    unfolding irq uart_source_bits by (simp add: fin bit_and_iff bit_not_iff)
qed

text \<open>The transfer-complete interrupt of the channel: the half-transfer callback may come first.\<close>
lemma uart_dmatx_irq_complete:
  assumes "uart_hdmatx s = Some d" "XferCpltCallback d = Some UDMATransmitCplt" "XferHalfCpltCallback d = Some UDMATxHalfCplt"
    "\<not> dma_circular d" "bit (dma_CCR d) 1"
    "\<not> dma_flag_at dhw DMA_GET_TE_FLAG_INDEX d (dma_now d)" "dma_flag_at dhw DMA_GET_TC_FLAG_INDEX d (Suc (Suc (dma_now d)))"
  obtains s2 where "uart_dmatx_irq dhw s = Some s2" "gState (duart s2) = gState (duart s)"
    "uart_ErrorCode (duart s2) = uart_ErrorCode (duart s)" "uart_CR1 (duart s2) = uart_CR1 (duart s) OR 0x40"
    "uart_CR3 (duart s2) = uart_CR3 (duart s) AND NOT 0x80"
    "uart_cb (duart s2) \<in> {uart_cb (duart s), uart_cb (duart s) @ [UART_TxHalfCpltCallback]}"
proof -
  let ?half = "uart_callback UART_TxHalfCpltCallback (duart s)"
  have call: "uart_dma_call UDMATxHalfCplt (d', duart s) = Some (d', ?half)" for d' by simp
  from dma_irq_complete_run [where call = uart_dma_call and s = "duart s" and ?s2.0 = ?half,
      OF assms(6,7,5,3) call] obtain d3 h2 where
    h2: "h2 \<in> {duart s, ?half}" and d3: "dma_circular d3 = dma_circular d" "XferCpltCallback d3 = Some UDMATransmitCplt"
    and run: "HAL_DMA_IRQHandler uart_dma_call dhw (d, duart s) = dma_callback uart_dma_call XferCpltCallback (d3, h2)"
    using assms(2) by auto
  have "dma_CCR d3 AND DMA_CCR_CIRC = 0"
    using dma_circular_bit [of d3] d3(1) assms(4) by simp
  then have h3: "UART_DMATransmitCplt d3 h2 = uart_ENABLE_IT UART_IT_TC (uart_clear_CR3 USART_CR3_DMAT (h2\<lparr>uart_TxXferCount := 0\<rparr>))"
    by (simp add: UART_DMATransmitCplt_def)
  note defs = h3 uart_ENABLE_IT_def uart_clear_CR3_def uart_callback_def uart_it_reg_def
    uart_it_bit_def UART_IT_TC_def UART_IT_MASK_def uart_dma_consts
  show thesis
  proof (rule that)
    show "uart_dmatx_irq dhw s = Some (s\<lparr>duart := UART_DMATransmitCplt d3 h2, uart_hdmatx := Some d3\<rparr>)"
      by (simp add: uart_dmatx_irq_def assms(1) run dma_callback_def d3(2))
  qed (use h2 in \<open>auto simp: defs\<close>)
qed

lemma HAL_UART_Transmit_DMA_accepted:
  assumes "uart_hdmatx s = Some d" "dma_Lock d = HAL_UNLOCKED" "gState (duart s) = HAL_UART_STATE_READY"
    "uart_Lock (duart s) = HAL_UNLOCKED" "p \<noteq> NULL" "Size \<noteq> 0"
  obtains h d1 where "HAL_UART_Transmit_DMA tdr p Size s = Some (HAL_OK, s\<lparr>duart := h, uart_hdmatx := Some d1\<rparr>)"
    "HAL_DMA_Start_IT p tdr (ucast Size) (uart_dma_callbacks UDMATransmitCplt UDMATxHalfCplt d) = (HAL_OK, d1)"
    "gState h = HAL_UART_STATE_BUSY_TX" "uart_ErrorCode h = HAL_UART_ERROR_NONE" "uart_CR1 h = uart_CR1 (duart s)"
    "uart_CR3 h = uart_CR3 (duart s) OR 0x80" "uart_cb h = uart_cb (duart s)"
proof -
  let ?h = "(uart_set_CR3 USART_CR3_DMAT (uart_log (ICR_write UART_CLEAR_TCF) ((duart s)\<lparr>uart_Lock := HAL_LOCKED,
      uart_pTxBuffPtr := p, uart_TxXferSize := Size, uart_TxXferCount := Size, uart_ErrorCode := HAL_UART_ERROR_NONE,
      gState := HAL_UART_STATE_BUSY_TX\<rparr>)))\<lparr>uart_Lock := HAL_UNLOCKED\<rparr>"
  have "dma_Lock (uart_dma_callbacks UDMATransmitCplt UDMATxHalfCplt d) = HAL_UNLOCKED"
    using assms(2) by (simp add: uart_dma_callbacks_def)
  from dma_start_it_unlocked [OF this] obtain d1 where
    st: "HAL_DMA_Start_IT p tdr (ucast Size) (uart_dma_callbacks UDMATransmitCplt UDMATxHalfCplt d) = (HAL_OK, d1)" by blast
  have "HAL_UART_Transmit_DMA tdr p Size s = Some (HAL_OK, s\<lparr>duart := ?h, uart_hdmatx := Some d1\<rparr>)"
    using assms st by (simp add: HAL_UART_Transmit_DMA_def Let_def)
  from that [OF this st] show thesis by (simp add: uart_set_CR3_def uart_log_def uart_dma_consts)
qed

text \<open>A transmission of bytes by DMA: the channel is started on exactly the buffer; its transfer-complete interrupt
  does not end the transmission yet, the driver stays busy until the last byte has left the shift register, and the
  transmission-complete interrupt of the UART makes it ready, reports the end once and switches itself off.\<close>
lemma uart_dma_transmit:
  assumes "uart_hdmatx s = Some d" "dma_tx_ready DMA_MDATAALIGN_BYTE d" "dma_CCR d AND DMA_CCR_CIRC = 0"
    "gState (duart s) = HAL_UART_STATE_READY" "uart_Lock (duart s) = HAL_UNLOCKED" "p \<noteq> NULL" "Size \<noteq> 0" "uart_quiet (duart s)"
    "\<not> dma_flag_at dhw DMA_GET_TE_FLAG_INDEX d (dma_now d)" "dma_flag_at dhw DMA_GET_TC_FLAG_INDEX d (Suc (Suc (dma_now d)))"
    "\<And>t. hw_SR hw t AND UART_FLAG_TC \<noteq> 0"
  shows "\<exists>s1 d1 s2. HAL_UART_Transmit_DMA tdr p Size s = Some (HAL_OK, s1) \<and> uart_hdmatx s1 = Some d1 \<and> dma_CPAR d1 = tdr
    \<and> bit (dma_CCR d1) 0 \<and> dma_memory m d1 = mem_bytes m p (unat Size) \<and> bit (uart_CR3 (duart s1)) 7
    \<and> uart_dmatx_irq dhw s1 = Some s2 \<and> gState (duart s2) = HAL_UART_STATE_BUSY_TX \<and> \<not> bit (uart_CR3 (duart s2)) 7
    \<and> UART_TxCpltCallback \<notin> set (drop (length (uart_cb (duart s))) (uart_cb (duart s2)))
    \<and> gState (HAL_UART_IRQHandler hw (duart s2)) = HAL_UART_STATE_READY
    \<and> uart_cb (HAL_UART_IRQHandler hw (duart s2)) = uart_cb (duart s2) @ [UART_TxCpltCallback]
    \<and> \<not> uart_GET_IT_SOURCE (HAL_UART_IRQHandler hw (duart s2)) UART_IT_TC"
proof -
  have ready: "Direction (dma_Init d) = DMA_MEMORY_TO_PERIPH" "dma_Lock d = HAL_UNLOCKED"
    "dma_CCR d AND (DMA_CCR_MSIZE OR DMA_CCR_MINC) = DMA_CCR_MINC"
    using assms(2) by (simp_all add: dma_tx_ready_def DMA_MDATAALIGN_BYTE_def)
  from HAL_UART_Transmit_DMA_accepted [OF assms(1) ready(2) assms(4-7)] obtain h d1 where
    tr: "HAL_UART_Transmit_DMA tdr p Size s = Some (HAL_OK, s\<lparr>duart := h, uart_hdmatx := Some d1\<rparr>)" (is "_ = Some (_, ?s1)")
    and st: "HAL_DMA_Start_IT p tdr (ucast Size) (uart_dma_callbacks UDMATransmitCplt UDMATxHalfCplt d) = (HAL_OK, d1)"
    and h: "gState h = HAL_UART_STATE_BUSY_TX" "uart_ErrorCode h = HAL_UART_ERROR_NONE" "uart_CR1 h = uart_CR1 (duart s)"
      "uart_CR3 h = uart_CR3 (duart s) OR 0x80" "uart_cb h = uart_cb (duart s)" by blast
  note d1 = dma_started_it [OF st, unfolded uart_dma_callbacks_def, simplified]
  have mem: "dma_memory m d1 = mem_bytes m p (unat Size)" "dma_CPAR d1 = tdr"
    using dma_tx_ready_memory [OF assms(2), of d1 m] d1 ready(1) by (simp_all add: unat_ucast_u32)
  have "dma_flag_at dhw f d1 = dma_flag_at dhw f d" for f by (rule dma_flag_at_cong) (simp add: d1)
  then have "\<not> dma_flag_at dhw DMA_GET_TE_FLAG_INDEX d1 (dma_now d1)"
    "dma_flag_at dhw DMA_GET_TC_FLAG_INDEX d1 (Suc (Suc (dma_now d1)))" "bit (dma_CCR d1) 1" "\<not> dma_circular d1"
    using assms(3,9,10) d1(4,6) by (simp_all add: bit_or_iff dma_circular_bit)
  with uart_dmatx_irq_complete [of ?s1 d1 dhw] d1(8,9) obtain s2 where s2: "uart_dmatx_irq dhw ?s1 = Some s2"
    "gState (duart s2) = HAL_UART_STATE_BUSY_TX" "uart_ErrorCode (duart s2) = HAL_UART_ERROR_NONE"
    "uart_CR1 (duart s2) = uart_CR1 (duart s) OR 0x40" "uart_CR3 (duart s2) = (uart_CR3 (duart s) OR 0x80) AND NOT 0x80"
    "uart_cb (duart s2) \<in> {uart_cb (duart s), uart_cb (duart s) @ [UART_TxHalfCpltCallback]}"
    using h by auto
  have "uart_quiet (duart s2)" using assms(8)
    by (simp add: uart_quiet_def uart_source_bits s2 bit_or_iff bit_and_iff bit_not_iff bit.conj_disj_distrib2)
  moreover have "uart_GET_IT_SOURCE (duart s2) UART_IT_TC" by (simp add: uart_source_bits s2 bit_or_iff)
  ultimately have "gState (HAL_UART_IRQHandler hw (duart s2)) = HAL_UART_STATE_READY"
    "uart_cb (HAL_UART_IRQHandler hw (duart s2)) = uart_cb (duart s2) @ [UART_TxCpltCallback]"
    "\<not> uart_GET_IT_SOURCE (HAL_UART_IRQHandler hw (duart s2)) UART_IT_TC"
    using irq_transmission_complete [of "duart s2" hw] assms(11) s2(3) by simp_all
  moreover have "bit (dma_CCR d1) 0" "bit (uart_CR3 h) 7" by (simp_all add: d1(4) h(4) bit_or_iff)
  moreover have "\<not> bit (uart_CR3 (duart s2)) 7" by (simp add: s2 bit_and_iff bit_not_iff)
  ultimately show ?thesis using tr mem s2(1,2,6)
    by (intro exI [of _ ?s1] exI [of _ d1] exI [of _ s2]) auto
qed

definition ex_uart_dma :: uart_dma where
  "ex_uart_dma = \<lparr>duart = ex_uart, uart_hdmatx = Some (ex_dma_ready 0), uart_hdmarx = None\<rparr>"

lemma uart_dma_transmit_witness:
  "\<exists>s1 d1 s2. HAL_UART_Transmit_DMA 0x40013828 0x100 10 ex_uart_dma = Some (HAL_OK, s1) \<and> uart_hdmatx s1 = Some d1
     \<and> dma_memory (uart_mem ex_uart) d1 = mem_bytes (uart_mem ex_uart) 0x100 10
     \<and> uart_dmatx_irq (ex_dma_hw 0x200) s1 = Some s2
     \<and> gState (HAL_UART_IRQHandler (ticking_hw 0x40) (duart s2)) = HAL_UART_STATE_READY"
proof -
  have "dma_CCR (ex_dma_ready 0 :: uart_dma_cb dma) AND DMA_CCR_CIRC = 0"
    by (simp add: ex_dma_ready_def ex_dma_def HAL_DMA_Init_def Let_def dma_consts)
  moreover have "uart_quiet ex_uart" by (simp add: uart_quiet_def uart_GET_IT_SOURCE_def ex_uart_def)
  moreover have "gState ex_uart = HAL_UART_STATE_READY" "uart_Lock ex_uart = HAL_UNLOCKED" by (simp_all add: ex_uart_def)
  moreover have "dma_tx_ready DMA_MDATAALIGN_BYTE (ex_dma_ready 0 :: uart_dma_cb dma)"
    using ex_dma_tx_ready [of 0] by (simp add: DMA_MDATAALIGN_BYTE_def)
  ultimately show ?thesis
    using uart_dma_transmit [of ex_uart_dma "ex_dma_ready 0" "0x100" 10 "ex_dma_hw 0x200" "ticking_hw 0x40" "0x40013828"
      "uart_mem ex_uart"]
    by (fastforce simp: ex_uart_dma_def ex_dma_flags NULL_def ticking_hw_def UART_FLAG_TC_def)
qed

end
