(* ===== verification/Sdadc_Dma.thy ===== *)
theory Sdadc_Dma
  imports Sdadc_States Hal_Dma
begin

text \<open>
  The DMA transfers of the converter driver (\<^verbatim>\<open>stm32f3xx_hal_sdadc.c\<close>): start and stop of both conversion groups, in
  single and in multi mode, over the DMA driver.  \<open>reg\<close> gives the addresses of the data registers.
\<close>

definition SDADC_CR1_JDMAEN :: u32 where "SDADC_CR1_JDMAEN = 0x10000"
definition SDADC_CR1_RDMAEN :: u32 where "SDADC_CR1_RDMAEN = 0x20000"
definition SDADC_ERROR_DMA :: u32 where "SDADC_ERROR_DMA = 3"

datatype sd_reg = RDATAR | JDATAR | RDATA12R | RDATA13R | JDATA12R | JDATA13R

text \<open>The values of the function pointers of the channel.\<close>
datatype sd_dma_cb =
    DMARegularHalfConvCplt | DMARegularConvCplt | DMAInjectedHalfConvCplt | DMAInjectedConvCplt | SDMAError

record sdadc_dma =
  dsd :: sdadc
  sd_hdma :: "sd_dma_cb dma"

text \<open>The parameter checks for a software trigger without continuous mode: a normal channel may take at most one sequence,
  and a circular one is refused.\<close>
definition sd_dma_incompatible :: "u32 \<Rightarrow> u32 \<Rightarrow> bool \<Rightarrow> 'cb dma \<Rightarrow> bool" where
  "sd_dma_incompatible trigger cont too_long d \<longleftrightarrow>
     trigger = SDADC_SOFTWARE_TRIGGER \<and> cont = SDADC_CONTINUOUS_CONV_OFF
       \<and> dma_Mode (dma_Init d) = DMA_NORMAL \<and> too_long
     \<or> trigger = SDADC_SOFTWARE_TRIGGER \<and> cont = SDADC_CONTINUOUS_CONV_OFF
       \<and> dma_Mode (dma_Init d) = DMA_CIRCULAR"

text \<open>Callbacks, enable bit, channel and conversion, as all four start functions do them.\<close>
definition sd_dma_launch ::
  "sd_dma_cb \<Rightarrow> sd_dma_cb \<Rightarrow> u32 \<Rightarrow> u32 \<Rightarrow> u32 \<Rightarrow> u32 \<Rightarrow> (sdadc \<Rightarrow> (HAL_StatusTypeDef \<times> sdadc) option) \<Rightarrow> sdadc_dma
   \<Rightarrow> (HAL_StatusTypeDef \<times> sdadc_dma) option" where
  "sd_dma_launch full half enable addr pData Length start s =
     (let d0 = (sd_hdma s)\<lparr>XferCpltCallback := Some full, XferErrorCallback := Some SDMAError\<rparr>;
          d1 = (if dma_Mode (dma_Init d0) = DMA_CIRCULAR then d0\<lparr>XferHalfCpltCallback := Some half\<rparr> else d0);
          h = sd_or_CR1 enable (dsd s);
          (st, d2) = HAL_DMA_Start_IT addr pData Length d1
      in if st \<noteq> HAL_OK
         then Some (HAL_ERROR, s\<lparr>dsd := h\<lparr>sd_State := HAL_SDADC_STATE_ERROR\<rparr>, sd_hdma := d2\<rparr>)
         else do { (st', h') \<leftarrow> start h; Some (st', s\<lparr>dsd := h', sd_hdma := d2\<rparr>) })"

definition HAL_SDADC_Start_DMA ::
  "hw \<Rightarrow> (sd_reg \<Rightarrow> u32) \<Rightarrow> u32 \<Rightarrow> u32 \<Rightarrow> sdadc_dma \<Rightarrow> (HAL_StatusTypeDef \<times> sdadc_dma) option" where
  "HAL_SDADC_Start_DMA hw reg pData Length s =
     (let h = dsd s in
      if sd_CR1 h AND SDADC_CR1_JDMAEN = SDADC_CR1_JDMAEN then Some (HAL_ERROR, s)
      else if sd_dma_incompatible (RegularTrigger h) (RegularContMode h) (Length \<noteq> 1) (sd_hdma s) then Some (HAL_ERROR, s)
      else if sd_State h = HAL_SDADC_STATE_READY \<or> sd_State h = HAL_SDADC_STATE_INJ
      then sd_dma_launch DMARegularConvCplt DMARegularHalfConvCplt SDADC_CR1_RDMAEN (reg RDATAR) pData Length
             (SDADC_RegConvStart hw) s
      else Some (HAL_ERROR, s))"

definition HAL_SDADC_InjectedStart_DMA ::
  "hw \<Rightarrow> (sd_reg \<Rightarrow> u32) \<Rightarrow> u32 \<Rightarrow> u32 \<Rightarrow> sdadc_dma \<Rightarrow> (HAL_StatusTypeDef \<times> sdadc_dma) option" where
  "HAL_SDADC_InjectedStart_DMA hw reg pData Length s =
     (let h = dsd s in
      if sd_CR1 h AND SDADC_CR1_RDMAEN = SDADC_CR1_RDMAEN then Some (HAL_ERROR, s)
      else if sd_dma_incompatible (InjectedTrigger h) (InjectedContMode h) (Length > InjectedChannelsNbr h) (sd_hdma s)
      then Some (HAL_ERROR, s)
      else if sd_State h = HAL_SDADC_STATE_READY \<or> sd_State h = HAL_SDADC_STATE_REG
      then sd_dma_launch DMAInjectedConvCplt DMAInjectedHalfConvCplt SDADC_CR1_JDMAEN (reg JDATAR) pData Length
             (SDADC_InjConvStart hw) s
      else Some (HAL_ERROR, s))"

definition HAL_SDADC_MultiModeStart_DMA ::
  "hw \<Rightarrow> (sd_reg \<Rightarrow> u32) \<Rightarrow> u32 \<Rightarrow> u32 \<Rightarrow> sdadc_dma \<Rightarrow> (HAL_StatusTypeDef \<times> sdadc_dma) option" where
  "HAL_SDADC_MultiModeStart_DMA hw reg pData Length s =
     (let h = dsd s in
      if sd_Instance h \<noteq> SDADC1 then Some (HAL_ERROR, s)
      else if sd_CR1 h AND SDADC_CR1_JDMAEN = SDADC_CR1_JDMAEN then Some (HAL_ERROR, s)
      else if sd_dma_incompatible (RegularTrigger h) (RegularContMode h) (Length \<noteq> 1) (sd_hdma s) then Some (HAL_ERROR, s)
      else if sd_State h = HAL_SDADC_STATE_READY \<or> sd_State h = HAL_SDADC_STATE_INJ
      then sd_dma_launch DMARegularConvCplt DMARegularHalfConvCplt SDADC_CR1_RDMAEN
             (if RegularMultimode h = SDADC_MULTIMODE_SDADC1_SDADC2 then reg RDATA12R else reg RDATA13R) pData Length
             (SDADC_RegConvStart hw) s
      else Some (HAL_ERROR, s))"

definition HAL_SDADC_InjectedMultiModeStart_DMA ::
  "hw \<Rightarrow> (sd_reg \<Rightarrow> u32) \<Rightarrow> u32 \<Rightarrow> u32 \<Rightarrow> sdadc_dma \<Rightarrow> (HAL_StatusTypeDef \<times> sdadc_dma) option" where
  "HAL_SDADC_InjectedMultiModeStart_DMA hw reg pData Length s =
     (let h = dsd s in
      if sd_Instance h \<noteq> SDADC1 then Some (HAL_ERROR, s)
      else if sd_CR1 h AND SDADC_CR1_RDMAEN = SDADC_CR1_RDMAEN then Some (HAL_ERROR, s)
      else if sd_dma_incompatible (InjectedTrigger h) (InjectedContMode h) (Length > push_bit 1 (InjectedChannelsNbr h)) (sd_hdma s)
      then Some (HAL_ERROR, s)
      else if sd_State h = HAL_SDADC_STATE_READY \<or> sd_State h = HAL_SDADC_STATE_REG
      then sd_dma_launch DMAInjectedConvCplt DMAInjectedHalfConvCplt SDADC_CR1_JDMAEN
             (if InjectedMultimode h = SDADC_MULTIMODE_SDADC1_SDADC2 then reg JDATA12R else reg JDATA13R) pData Length
             (SDADC_InjConvStart hw) s
      else Some (HAL_ERROR, s))"

text \<open>The common end of the stop functions.\<close>
definition sd_dma_halt ::
  "dma_hw \<Rightarrow> u32 \<Rightarrow> (sdadc \<Rightarrow> (HAL_StatusTypeDef \<times> sdadc) option) \<Rightarrow> sdadc_dma \<Rightarrow> (HAL_StatusTypeDef \<times> sdadc_dma) option" where
  "sd_dma_halt dhw enable stop s =
     do { let h = sd_clear_CR1 enable (dsd s);
          (st, d) \<leftarrow> HAL_DMA_Abort dhw (sd_hdma s);
          if st \<noteq> HAL_OK then Some (HAL_ERROR, s\<lparr>dsd := h\<lparr>sd_State := HAL_SDADC_STATE_ERROR\<rparr>, sd_hdma := d\<rparr>)
          else do { (st', h') \<leftarrow> stop h; Some (st', s\<lparr>dsd := h', sd_hdma := d\<rparr>) } }"

definition HAL_SDADC_Stop_DMA :: "hw \<Rightarrow> dma_hw \<Rightarrow> sdadc_dma \<Rightarrow> (HAL_StatusTypeDef \<times> sdadc_dma) option" where
  "HAL_SDADC_Stop_DMA hw dhw s =
     (if sd_State (dsd s) \<noteq> HAL_SDADC_STATE_REG \<and> sd_State (dsd s) \<noteq> HAL_SDADC_STATE_REG_INJ then Some (HAL_ERROR, s)
      else sd_dma_halt dhw SDADC_CR1_RDMAEN (SDADC_RegConvStop hw) s)"

definition HAL_SDADC_InjectedStop_DMA :: "hw \<Rightarrow> dma_hw \<Rightarrow> sdadc_dma \<Rightarrow> (HAL_StatusTypeDef \<times> sdadc_dma) option" where
  "HAL_SDADC_InjectedStop_DMA hw dhw s =
     (if sd_State (dsd s) \<noteq> HAL_SDADC_STATE_INJ \<and> sd_State (dsd s) \<noteq> HAL_SDADC_STATE_REG_INJ then Some (HAL_ERROR, s)
      else sd_dma_halt dhw SDADC_CR1_JDMAEN (SDADC_InjConvStop hw) s)"

definition HAL_SDADC_MultiModeStop_DMA :: "hw \<Rightarrow> dma_hw \<Rightarrow> sdadc_dma \<Rightarrow> (HAL_StatusTypeDef \<times> sdadc_dma) option" where
  "HAL_SDADC_MultiModeStop_DMA hw dhw s =
     (if sd_Instance (dsd s) \<noteq> SDADC1 then Some (HAL_ERROR, s)
      else if sd_State (dsd s) \<noteq> HAL_SDADC_STATE_REG \<and> sd_State (dsd s) \<noteq> HAL_SDADC_STATE_REG_INJ then Some (HAL_ERROR, s)
      else sd_dma_halt dhw SDADC_CR1_RDMAEN (SDADC_RegConvStop hw) s)"

definition HAL_SDADC_InjectedMultiModeStop_DMA :: "hw \<Rightarrow> dma_hw \<Rightarrow> sdadc_dma \<Rightarrow> (HAL_StatusTypeDef \<times> sdadc_dma) option" where
  "HAL_SDADC_InjectedMultiModeStop_DMA hw dhw s =
     (if sd_Instance (dsd s) \<noteq> SDADC1 then Some (HAL_ERROR, s)
      else if sd_State (dsd s) \<noteq> HAL_SDADC_STATE_INJ \<and> sd_State (dsd s) \<noteq> HAL_SDADC_STATE_REG_INJ then Some (HAL_ERROR, s)
      else sd_dma_halt dhw SDADC_CR1_JDMAEN (SDADC_InjConvStop hw) s)"

definition HAL_SDADC_MultiModeGetValue :: "hw \<Rightarrow> sdadc \<Rightarrow> u32 \<times> sdadc" where
  "HAL_SDADC_MultiModeGetValue hw h =
     (hw_DR hw (sd_now h),
      sd_drop (if RegularMultimode h = SDADC_MULTIMODE_SDADC1_SDADC2 then RDATA12R_read else RDATA13R_read) h)"

definition HAL_SDADC_InjectedMultiModeGetValue :: "hw \<Rightarrow> sdadc \<Rightarrow> u32 \<times> sdadc" where
  "HAL_SDADC_InjectedMultiModeGetValue hw h =
     (hw_DR hw (sd_now h),
      sd_drop (if InjectedMultimode h = SDADC_MULTIMODE_SDADC1_SDADC2 then JDATA12R_read else JDATA13R_read) h)"

section \<open>Callbacks of the channel\<close>

definition SDADC_DMAError :: "sdadc \<Rightarrow> sdadc" where
  "SDADC_DMAError h = sd_callback SDADC_ErrorCallback (h\<lparr>sd_ErrorCode := SDADC_ERROR_DMA\<rparr>)"

fun sd_dma_call :: "(sd_dma_cb, sdadc) dma_call" where
  "sd_dma_call DMARegularHalfConvCplt (d, h) = Some (d, sd_callback ConvHalfCpltCallback h)"
| "sd_dma_call DMARegularConvCplt (d, h) = Some (d, sd_callback ConvCpltCallback h)"
| "sd_dma_call DMAInjectedHalfConvCplt (d, h) = Some (d, sd_callback InjectedConvHalfCpltCallback h)"
| "sd_dma_call DMAInjectedConvCplt (d, h) = Some (d, sd_callback InjectedConvCpltCallback h)"
| "sd_dma_call SDMAError (d, h) = Some (d, SDADC_DMAError h)"

interpretation sd_client: dma_client sd_dma_call
proof
  fix c and x y :: "sd_dma_cb dma \<times> sdadc"
  assume "sd_dma_call c x = Some y"
  then show "fst y = fst x" by (cases x; cases c) auto
qed

section \<open>A start that fails\<close>

lemma sd_RDMAEN_iff: "c AND SDADC_CR1_RDMAEN = SDADC_CR1_RDMAEN \<longleftrightarrow> bit c 17"
  using and_bit_eq [of 17 c] by (simp add: SDADC_CR1_RDMAEN_def)

lemma sd_init_keeps_RDMAEN:
  assumes "HAL_SDADC_Init id hw h = Some (st, h')" "bit (sd_CR1 h) 17"
  shows "bit (sd_CR1 h') 17 \<and> sd_State h' = HAL_SDADC_STATE_READY"
proof -
  have "\<not> bit (SDADC_CR1_SBI OR SDADC_CR1_PDI OR SDADC_CR1_SLOWCK) 17" "\<not> bit SDADC_CR1_REFV 17"
    by (simp_all add: sd_consts)
  with assms show ?thesis
    by (auto simp: HAL_SDADC_Init_def Let_def sd_macros sd_set_refv_def bit_simps
        split: Option.bind_splits if_splits)
qed

lemma sd_dma_launch_locked:
  assumes "dma_Lock (sd_hdma s) = HAL_LOCKED"
  obtains s1 where "sd_dma_launch full half enable a p n start s = Some (HAL_ERROR, s1)"
    "dsd s1 = (sd_or_CR1 enable (dsd s))\<lparr>sd_State := HAL_SDADC_STATE_ERROR\<rparr>"
proof -
  have "HAL_DMA_Start_IT a p n d = (HAL_BUSY, d)" if "dma_Lock d = HAL_LOCKED" for d :: "sd_dma_cb dma"
    using that by (simp add: HAL_DMA_Start_IT_def)
  with assms that show ?thesis
    by (cases "dma_Mode (dma_Init (sd_hdma s)) = DMA_CIRCULAR") (simp_all add: sd_dma_launch_def Let_def)
qed

text \<open>When the channel of a converter is held by another transfer, starting a regular transfer fails and puts the
  handle into its error state, but leaves the DMA enable bit of the regular group set.  Setting the converter up again
  makes it ready without clearing the bit, and from then on every injected transfer is refused, on whatever channel.\<close>
lemma sdadc_failed_dma_start_blocks_injected:
  assumes "dma_Lock (sd_hdma s) = HAL_LOCKED"
    "sd_State (dsd s) = HAL_SDADC_STATE_READY \<or> sd_State (dsd s) = HAL_SDADC_STATE_INJ"
    "\<not> bit (sd_CR1 (dsd s)) 16"
    "\<not> sd_dma_incompatible (RegularTrigger (dsd s)) (RegularContMode (dsd s)) (n \<noteq> 1) (sd_hdma s)"
    "HAL_SDADC_Start_DMA hw reg p n s = Some (st, s1)"
    "HAL_SDADC_Init id hw' (dsd s1) = Some (st', h)"
  shows "st = HAL_ERROR \<and> sd_State (dsd s1) = HAL_SDADC_STATE_ERROR \<and> sd_State h = HAL_SDADC_STATE_READY
    \<and> HAL_SDADC_InjectedStart_DMA hw' reg q m (s1\<lparr>dsd := h, sd_hdma := d\<rparr>)
        = Some (HAL_ERROR, s1\<lparr>dsd := h, sd_hdma := d\<rparr>)"
proof -
  have "sd_CR1 (dsd s) AND SDADC_CR1_JDMAEN \<noteq> SDADC_CR1_JDMAEN"
    using and_bit_eq [of 16 "sd_CR1 (dsd s)"] assms(3) by (simp add: SDADC_CR1_JDMAEN_def)
  with assms(2,4) have start: "HAL_SDADC_Start_DMA hw reg p n s = sd_dma_launch DMARegularConvCplt DMARegularHalfConvCplt
      SDADC_CR1_RDMAEN (reg RDATAR) p n (SDADC_RegConvStart hw) s"
    by (auto simp: HAL_SDADC_Start_DMA_def Let_def)
  obtain x where "sd_dma_launch DMARegularConvCplt DMARegularHalfConvCplt
      SDADC_CR1_RDMAEN (reg RDATAR) p n (SDADC_RegConvStart hw) s = Some (HAL_ERROR, x)"
      "dsd x = (sd_or_CR1 SDADC_CR1_RDMAEN (dsd s))\<lparr>sd_State := HAL_SDADC_STATE_ERROR\<rparr>"
    by (rule sd_dma_launch_locked [OF assms(1)])
  with start assms(5) have 1: "st = HAL_ERROR" "sd_State (dsd s1) = HAL_SDADC_STATE_ERROR"
      "sd_CR1 (dsd s1) = sd_CR1 (dsd s) OR SDADC_CR1_RDMAEN"
    by (simp_all add: sd_or_CR1_def)
  have "bit (sd_CR1 (dsd s1)) 17" by (simp add: 1 bit_or_iff SDADC_CR1_RDMAEN_def)
  with sd_init_keeps_RDMAEN [OF assms(6)] have "bit (sd_CR1 h) 17" "sd_State h = HAL_SDADC_STATE_READY" by simp_all
  with 1 show ?thesis by (simp add: HAL_SDADC_InjectedStart_DMA_def sd_RDMAEN_iff)
qed

definition ex_sd_dma :: sdadc_dma where
  "ex_sd_dma = \<lparr>dsd = ex_ready, sd_hdma = (ex_dma_ready 0)\<lparr>dma_Lock := HAL_LOCKED\<rparr>\<rparr>"

lemma sdadc_failed_dma_start_blocks_injected_witness:
  "\<exists>s1 st' h. HAL_SDADC_Start_DMA ex_env (\<lambda>_. 0x40060060) 0x20000000 1 ex_sd_dma = Some (HAL_ERROR, s1)
     \<and> HAL_SDADC_Init id ex_env (dsd s1) = Some (st', h)
     \<and> fst (the (HAL_SDADC_InjectedStart_DMA ex_env (\<lambda>_. 0x40060060) 0x20000100 1 (s1\<lparr>dsd := h, sd_hdma := ex_dma_ready 0\<rparr>)))
       = HAL_ERROR"
proof -
  have *: "dma_Lock (sd_hdma ex_sd_dma) = HAL_LOCKED" "sd_State (dsd ex_sd_dma) = HAL_SDADC_STATE_READY"
    "\<not> bit (sd_CR1 (dsd ex_sd_dma)) 16" "dma_Mode (dma_Init (sd_hdma ex_sd_dma)) = DMA_NORMAL"
    "RegularTrigger (dsd ex_sd_dma) = 0"
    by (simp_all add: ex_sd_dma_def ex_ready_def ex_sdadc_def ex_dma_ready_def ex_dma_def HAL_DMA_Init_def Let_def)
  then have i: "\<not> sd_dma_incompatible (RegularTrigger (dsd ex_sd_dma)) (RegularContMode (dsd ex_sd_dma)) ((1 :: u32) \<noteq> 1)
      (sd_hdma ex_sd_dma)"
    by (simp add: sd_dma_incompatible_def dma_consts)
  have c: "sd_CR1 (dsd ex_sd_dma) = 0" by (simp add: ex_sd_dma_def ex_ready_def ex_sdadc_def)
  obtain st s1 where 1: "HAL_SDADC_Start_DMA ex_env (\<lambda>_. 0x40060060) 0x20000000 1 ex_sd_dma = Some (st, s1)"
  proof -
    have "HAL_SDADC_Start_DMA ex_env (\<lambda>_. 0x40060060) 0x20000000 1 ex_sd_dma = sd_dma_launch DMARegularConvCplt
        DMARegularHalfConvCplt SDADC_CR1_RDMAEN 0x40060060 0x20000000 1 (SDADC_RegConvStart ex_env) ex_sd_dma"
      using * c i by (simp add: HAL_SDADC_Start_DMA_def Let_def SDADC_CR1_JDMAEN_def)
    moreover obtain x where "sd_dma_launch DMARegularConvCplt DMARegularHalfConvCplt SDADC_CR1_RDMAEN 0x40060060
        0x20000000 1 (SDADC_RegConvStart ex_env) ex_sd_dma = Some (HAL_ERROR, x)"
      by (rule sd_dma_launch_locked [OF *(1)])
    ultimately show thesis using that by simp
  qed
  obtain st' h where 2: "HAL_SDADC_Init id ex_env (dsd s1) = Some (st', h)"
    using sd_init_returns [OF ex_env_live, of id "dsd s1"] by auto
  from sdadc_failed_dma_start_blocks_injected [OF *(1) disjI1 [OF *(2)] *(3) i 1 2,
      where q = "0x20000100" and m = 1 and d = "ex_dma_ready 0"] 1 2
  show ?thesis by auto
qed

end
