(* ===== verification/Hal_Flash.thy ===== *)
theory Hal_Flash
  imports Hal_Def
begin

text \<open>
  The flash driver (\<^verbatim>\<open>stm32f3xx_hal_flash.c\<close>, \<^verbatim>\<open>stm32f3xx_hal_flash_ex.c\<close>): programming and erasing, blocking and by
  interrupts, and the option bytes.  The state holds the fields of \<^verbatim>\<open>pFlash\<close>, the control register and a log of the
  writes that act on the memory; \<^verbatim>\<open>SR\<close>, \<^verbatim>\<open>OBR\<close>, \<^verbatim>\<open>WRPR\<close> and the option area are read from the environment.  The
  start bit is not kept in the control register, since the hardware resets it when the operation ends.
\<close>

type_synonym u64 = "64 word"

definition FLASH_TIMEOUT_VALUE :: u32 where "FLASH_TIMEOUT_VALUE = 50000"
definition HAL_FLASH_ERROR_NONE :: u32 where "HAL_FLASH_ERROR_NONE = 0"
definition HAL_FLASH_ERROR_PROG :: u32 where "HAL_FLASH_ERROR_PROG = 1"
definition HAL_FLASH_ERROR_WRP :: u32 where "HAL_FLASH_ERROR_WRP = 2"
definition FLASH_TYPEPROGRAM_HALFWORD :: u32 where "FLASH_TYPEPROGRAM_HALFWORD = 1"
definition FLASH_TYPEPROGRAM_WORD :: u32 where "FLASH_TYPEPROGRAM_WORD = 2"
definition FLASH_TYPEPROGRAM_DOUBLEWORD :: u32 where "FLASH_TYPEPROGRAM_DOUBLEWORD = 3"
definition FLASH_FLAG_BSY :: u32 where "FLASH_FLAG_BSY = 1"
definition FLASH_FLAG_PGERR :: u32 where "FLASH_FLAG_PGERR = 4"
definition FLASH_FLAG_WRPERR :: u32 where "FLASH_FLAG_WRPERR = 0x10"
definition FLASH_FLAG_EOP :: u32 where "FLASH_FLAG_EOP = 0x20"
definition FLASH_CR_PG :: u32 where "FLASH_CR_PG = 1"
definition FLASH_CR_PER :: u32 where "FLASH_CR_PER = 2"
definition FLASH_CR_MER :: u32 where "FLASH_CR_MER = 4"
definition FLASH_CR_OPTPG :: u32 where "FLASH_CR_OPTPG = 0x10"
definition FLASH_CR_OPTER :: u32 where "FLASH_CR_OPTER = 0x20"
definition FLASH_CR_STRT :: u32 where "FLASH_CR_STRT = 0x40"
definition FLASH_CR_LOCK :: u32 where "FLASH_CR_LOCK = 0x80"
definition FLASH_CR_OPTWRE :: u32 where "FLASH_CR_OPTWRE = 0x200"
definition FLASH_IT_ERR :: u32 where "FLASH_IT_ERR = 0x400"
definition FLASH_IT_EOP :: u32 where "FLASH_IT_EOP = 0x1000"
definition FLASH_CR_OBL_LAUNCH :: u32 where "FLASH_CR_OBL_LAUNCH = 0x2000"
definition FLASH_KEY1 :: u32 where "FLASH_KEY1 = 0x45670123"
definition FLASH_KEY2 :: u32 where "FLASH_KEY2 = 0xCDEF89AB"
definition FLASH_OPTKEY1 :: u32 where "FLASH_OPTKEY1 = FLASH_KEY1"
definition FLASH_OPTKEY2 :: u32 where "FLASH_OPTKEY2 = FLASH_KEY2"
definition FLASH_PAGE_SIZE :: u32 where "FLASH_PAGE_SIZE = 0x800"
definition FLASH_TYPEERASE_PAGES :: u32 where "FLASH_TYPEERASE_PAGES = 0"
definition FLASH_TYPEERASE_MASSERASE :: u32 where "FLASH_TYPEERASE_MASSERASE = 1"
definition OPTIONBYTE_WRP :: u32 where "OPTIONBYTE_WRP = 1"
definition OPTIONBYTE_RDP :: u32 where "OPTIONBYTE_RDP = 2"
definition OPTIONBYTE_USER :: u32 where "OPTIONBYTE_USER = 4"
definition OPTIONBYTE_DATA :: u32 where "OPTIONBYTE_DATA = 8"
definition OB_WRPSTATE_DISABLE :: u32 where "OB_WRPSTATE_DISABLE = 0"
definition OB_WRPSTATE_ENABLE :: u32 where "OB_WRPSTATE_ENABLE = 1"
definition OB_WRP_PAGES0TO15MASK :: u32 where "OB_WRP_PAGES0TO15MASK = 0xFF"
definition OB_WRP_PAGES16TO31MASK :: u32 where "OB_WRP_PAGES16TO31MASK = 0xFF00"
definition OB_WRP_PAGES32TO47MASK :: u32 where "OB_WRP_PAGES32TO47MASK = 0xFF0000"
definition OB_WRP_PAGES48TO127MASK :: u32 where "OB_WRP_PAGES48TO127MASK = 0xFF000000"
definition OB_RDP_LEVEL_0 :: u8 where "OB_RDP_LEVEL_0 = 0xAA"
definition OB_RDP_LEVEL_1 :: u8 where "OB_RDP_LEVEL_1 = 0xBB"
definition OB_RDP_LEVEL_2 :: u8 where "OB_RDP_LEVEL_2 = 0xCC"
definition FLASH_OBR_LEVEL1_PROT :: u32 where "FLASH_OBR_LEVEL1_PROT = 2"
definition FLASH_OBR_LEVEL2_PROT :: u32 where "FLASH_OBR_LEVEL2_PROT = 4"
definition FLASH_OBR_USER :: u32 where "FLASH_OBR_USER = 0xF700"
definition FLASH_OBR_DATA0 :: u32 where "FLASH_OBR_DATA0 = 0xFF0000"
definition FLASH_OBR_DATA1 :: u32 where "FLASH_OBR_DATA1 = 0xFF000000"
definition OB_DATA_ADDRESS_DATA0 :: u32 where "OB_DATA_ADDRESS_DATA0 = 0x1FFFF804"
definition OB_DATA_ADDRESS_DATA1 :: u32 where "OB_DATA_ADDRESS_DATA1 = 0x1FFFF806"

lemmas flash_cr_consts = FLASH_CR_PG_def FLASH_CR_PER_def FLASH_CR_MER_def FLASH_CR_OPTPG_def FLASH_CR_OPTER_def
  FLASH_CR_STRT_def FLASH_CR_LOCK_def FLASH_CR_OPTWRE_def FLASH_IT_ERR_def FLASH_IT_EOP_def FLASH_CR_OBL_LAUNCH_def

section \<open>State\<close>

datatype FLASH_ProcedureTypeDef =
    FLASH_PROC_NONE | FLASH_PROC_PAGEERASE | FLASH_PROC_MASSERASE | FLASH_PROC_PROGRAMHALFWORD
  | FLASH_PROC_PROGRAMWORD | FLASH_PROC_PROGRAMDOUBLEWORD

datatype ob_field = OB_RDP | OB_USER | OB_WRP0 | OB_WRP1 | OB_WRP2 | OB_WRP3

text \<open>Writes: \<open>START cr\<close> is a write of the control register with its start bit.\<close>
datatype flash_io =
    KEYR_write u32 | OPTKEYR_write u32 | SR_write u32 | AR_write u32 | START u32
  | HALFWORD_write u32 u16 | OB_write ob_field u16

datatype flash_callback = EndOfOperationCallback u32 | OperationErrorCallback u32

record FLASH_ProcessTypeDef =
  ProcedureOnGoing :: FLASH_ProcedureTypeDef
  DataRemaining :: u32
  fl_Address :: u32
  fl_Data :: u64
  fl_Lock :: HAL_LockTypeDef
  fl_ErrorCode :: u32
  fl_CR :: u32
  fl_now :: time
  fl_io :: "flash_io list"
  fl_cb :: "flash_callback list"

type_synonym flash = FLASH_ProcessTypeDef

record FLASH_EraseInitTypeDef =
  TypeErase :: u32
  PageAddress :: u32
  NbPages :: u32

record FLASH_OBProgramInitTypeDef =
  OptionType :: u32
  WRPState :: u32
  WRPPage :: u32
  RDPLevel :: u8
  USERConfig :: u8
  DATAAddress :: u32
  DATAData :: u8

text \<open>The option area and the option registers, at every instant.\<close>
record flash_hw =
  fh_base :: hw
  fh_OB :: "ob_field \<Rightarrow> time \<Rightarrow> u16"
  fh_OBR :: "time \<Rightarrow> u32"
  fh_WRPR :: "time \<Rightarrow> u32"

definition fl_log :: "flash_io \<Rightarrow> flash \<Rightarrow> flash" where
  "fl_log e f = f\<lparr>fl_io := fl_io f @ [e]\<rparr>"

definition fl_callback :: "flash_callback \<Rightarrow> flash \<Rightarrow> flash" where
  "fl_callback c f = f\<lparr>fl_cb := fl_cb f @ [c]\<rparr>"

definition fl_set_CR :: "u32 \<Rightarrow> flash \<Rightarrow> flash" where
  "fl_set_CR b f = f\<lparr>fl_CR := SET_BIT (fl_CR f) b\<rparr>"

definition fl_clear_CR :: "u32 \<Rightarrow> flash \<Rightarrow> flash" where
  "fl_clear_CR b f = f\<lparr>fl_CR := CLEAR_BIT (fl_CR f) b\<rparr>"

text \<open>\<^verbatim>\<open>SET_BIT(FLASH->CR, FLASH_CR_STRT)\<close>\<close>
definition fl_start :: "flash \<Rightarrow> flash" where
  "fl_start f = fl_log (START (SET_BIT (fl_CR f) FLASH_CR_STRT)) f"

definition flash_GET_FLAG :: "hw \<Rightarrow> u32 \<Rightarrow> flash \<Rightarrow> bool \<times> flash" where
  "flash_GET_FLAG hw flag f = (hw_SR hw (fl_now f) AND flag = flag, f\<lparr>fl_now := Suc (fl_now f)\<rparr>)"

definition flash_CLEAR_FLAG :: "u32 \<Rightarrow> flash \<Rightarrow> flash" where
  "flash_CLEAR_FLAG flag f = fl_log (SR_write flag) f"

definition flash_unlock :: "flash \<Rightarrow> flash" where
  "flash_unlock f = f\<lparr>fl_Lock := HAL_UNLOCKED\<rparr>"

lemmas flash_macros = fl_log_def fl_callback_def fl_set_CR_def fl_clear_CR_def fl_start_def flash_GET_FLAG_def
  flash_CLEAR_FLAG_def flash_unlock_def

section \<open>Waiting\<close>

text \<open>\<^verbatim>\<open>__HAL_FLASH_GET_FLAG(FLASH_FLAG_WRPERR) || __HAL_FLASH_GET_FLAG(FLASH_FLAG_PGERR)\<close>\<close>
definition flash_any_error :: "hw \<Rightarrow> flash \<Rightarrow> bool \<times> flash" where
  "flash_any_error hw f =
     (let (w, f1) = flash_GET_FLAG hw FLASH_FLAG_WRPERR f
      in if w then (True, f1) else flash_GET_FLAG hw FLASH_FLAG_PGERR f1)"

definition FLASH_SetErrorCode :: "hw \<Rightarrow> flash \<Rightarrow> flash" where
  "FLASH_SetErrorCode hw f =
     (let (w, f1) = flash_GET_FLAG hw FLASH_FLAG_WRPERR f;
          (f2, flags) = (if w then (f1\<lparr>fl_ErrorCode := fl_ErrorCode f1 OR HAL_FLASH_ERROR_WRP\<rparr>, FLASH_FLAG_WRPERR)
                         else (f1, 0));
          (p, f3) = flash_GET_FLAG hw FLASH_FLAG_PGERR f2;
          (f4, flags') = (if p then (f3\<lparr>fl_ErrorCode := fl_ErrorCode f3 OR HAL_FLASH_ERROR_PROG\<rparr>, flags OR FLASH_FLAG_PGERR)
                          else (f3, flags))
      in flash_CLEAR_FLAG flags' f4)"

definition FLASH_WaitForLastOperation :: "hw \<Rightarrow> u32 \<Rightarrow> flash \<Rightarrow> (HAL_StatusTypeDef \<times> flash) option" where
  "FLASH_WaitForLastOperation hw Timeout f =
     do { (ok, t) \<leftarrow> wait_beyond hw (\<lambda>t. hw_SR hw t AND FLASH_FLAG_BSY \<noteq> FLASH_FLAG_BSY) Timeout (fl_now f);
          let f1 = f\<lparr>fl_now := t\<rparr>;
          if \<not> ok then Some (HAL_TIMEOUT, f1)
          else let (eop, f2) = flash_GET_FLAG hw FLASH_FLAG_EOP f1;
                   f3 = (if eop then flash_CLEAR_FLAG FLASH_FLAG_EOP f2 else f2);
                   (err, f4) = flash_any_error hw f3
               in Some (if err then (HAL_ERROR, FLASH_SetErrorCode hw f4) else (HAL_OK, f4)) }"

section \<open>Programming\<close>

definition FLASH_Program_HalfWord :: "u32 \<Rightarrow> u16 \<Rightarrow> flash \<Rightarrow> flash" where
  "FLASH_Program_HalfWord Address Data f =
     fl_log (HALFWORD_write Address Data) (fl_set_CR FLASH_CR_PG (f\<lparr>fl_ErrorCode := HAL_FLASH_ERROR_NONE\<rparr>))"

definition flash_halfwords :: "u32 \<Rightarrow> nat" where
  "flash_halfwords TypeProgram =
     (if TypeProgram = FLASH_TYPEPROGRAM_HALFWORD then 1 else if TypeProgram = FLASH_TYPEPROGRAM_WORD then 2 else 4)"

text \<open>The loop over \<^verbatim>\<open>index\<close>, with the number of half-words left.\<close>
fun flash_program_loop :: "hw \<Rightarrow> u32 \<Rightarrow> u64 \<Rightarrow> nat \<Rightarrow> nat \<Rightarrow> flash \<Rightarrow> (HAL_StatusTypeDef \<times> flash) option" where
  "flash_program_loop hw Address Data index 0 f = Some (HAL_OK, f)"
| "flash_program_loop hw Address Data index (Suc left) f =
     do { (st, f1) \<leftarrow> FLASH_WaitForLastOperation hw FLASH_TIMEOUT_VALUE
            (FLASH_Program_HalfWord (Address + 2 * of_nat index) (ucast (drop_bit (16 * index) Data)) f);
          let f2 = fl_clear_CR FLASH_CR_PG f1;
          if st \<noteq> HAL_OK then Some (st, f2) else flash_program_loop hw Address Data (Suc index) left f2 }"

definition HAL_FLASH_Program :: "hw \<Rightarrow> u32 \<Rightarrow> u32 \<Rightarrow> u64 \<Rightarrow> flash \<Rightarrow> (HAL_StatusTypeDef \<times> flash) option" where
  "HAL_FLASH_Program hw TypeProgram Address Data f =
     (if fl_Lock f = HAL_LOCKED then Some (HAL_BUSY, f)
      else do { (st, f1) \<leftarrow> FLASH_WaitForLastOperation hw FLASH_TIMEOUT_VALUE (f\<lparr>fl_Lock := HAL_LOCKED\<rparr>);
                (st', f2) \<leftarrow> (if st = HAL_OK then flash_program_loop hw Address Data 0 (flash_halfwords TypeProgram) f1
                             else Some (st, f1));
                Some (st', flash_unlock f2) })"

definition HAL_FLASH_Program_IT :: "u32 \<Rightarrow> u32 \<Rightarrow> u64 \<Rightarrow> flash \<Rightarrow> HAL_StatusTypeDef \<times> flash" where
  "HAL_FLASH_Program_IT TypeProgram Address Data f =
     (if fl_Lock f = HAL_LOCKED then (HAL_BUSY, f)
      else let f1 = (fl_set_CR (FLASH_IT_EOP OR FLASH_IT_ERR) (f\<lparr>fl_Lock := HAL_LOCKED\<rparr>))
                      \<lparr>fl_Address := Address, fl_Data := Data,
                       ProcedureOnGoing := (if TypeProgram = FLASH_TYPEPROGRAM_HALFWORD then FLASH_PROC_PROGRAMHALFWORD
                         else if TypeProgram = FLASH_TYPEPROGRAM_WORD then FLASH_PROC_PROGRAMWORD
                         else FLASH_PROC_PROGRAMDOUBLEWORD),
                       DataRemaining := of_nat (flash_halfwords TypeProgram)\<rparr>
           in (HAL_OK, FLASH_Program_HalfWord Address (ucast Data) f1))"

section \<open>Erasing\<close>

definition FLASH_MassErase :: "flash \<Rightarrow> flash" where
  "FLASH_MassErase f = fl_start (fl_set_CR FLASH_CR_MER (f\<lparr>fl_ErrorCode := HAL_FLASH_ERROR_NONE\<rparr>))"

definition FLASH_PageErase :: "u32 \<Rightarrow> flash \<Rightarrow> flash" where
  "FLASH_PageErase page f =
     fl_start (fl_log (AR_write page) (fl_set_CR FLASH_CR_PER (f\<lparr>fl_ErrorCode := HAL_FLASH_ERROR_NONE\<rparr>)))"

text \<open>The loop over the pages; the result carries \<^verbatim>\<open>*PageError\<close>.  An upper bound near the end of the address space lets
  \<open>address\<close> wrap around.\<close>
partial_function (option) flash_erase_loop ::
  "hw \<Rightarrow> u32 \<Rightarrow> u32 \<Rightarrow> HAL_StatusTypeDef \<Rightarrow> u32 \<Rightarrow> flash \<Rightarrow> (HAL_StatusTypeDef \<times> u32 \<times> flash) option" where
  "flash_erase_loop hw limit address status PageError f =
     (if address < limit
      then do { (st, f1) \<leftarrow> FLASH_WaitForLastOperation hw FLASH_TIMEOUT_VALUE (FLASH_PageErase address f);
                let f2 = fl_clear_CR FLASH_CR_PER f1;
                if st \<noteq> HAL_OK then Some (st, address, f2)
                else flash_erase_loop hw limit (address + FLASH_PAGE_SIZE) st PageError f2 }
      else Some (status, PageError, f))"

definition HAL_FLASHEx_Erase ::
  "hw \<Rightarrow> FLASH_EraseInitTypeDef \<Rightarrow> u32 \<Rightarrow> flash \<Rightarrow> (HAL_StatusTypeDef \<times> u32 \<times> flash) option" where
  "HAL_FLASHEx_Erase hw e PageError f =
     (if fl_Lock f = HAL_LOCKED then Some (HAL_BUSY, PageError, f)
      else do { (ready, f1) \<leftarrow> FLASH_WaitForLastOperation hw FLASH_TIMEOUT_VALUE (f\<lparr>fl_Lock := HAL_LOCKED\<rparr>);
                (st, pe, f2) \<leftarrow> (if ready \<noteq> HAL_OK then Some (HAL_ERROR, PageError, f1)
                  else if TypeErase e = FLASH_TYPEERASE_MASSERASE
                  then do { (st, f2) \<leftarrow> FLASH_WaitForLastOperation hw FLASH_TIMEOUT_VALUE (FLASH_MassErase f1);
                            Some (st, PageError, fl_clear_CR FLASH_CR_MER f2) }
                  else flash_erase_loop hw (NbPages e * FLASH_PAGE_SIZE + PageAddress e) (PageAddress e)
                         HAL_ERROR 0xFFFFFFFF f1);
                Some (st, pe, flash_unlock f2) })"

definition HAL_FLASHEx_Erase_IT :: "FLASH_EraseInitTypeDef \<Rightarrow> flash \<Rightarrow> HAL_StatusTypeDef \<times> flash" where
  "HAL_FLASHEx_Erase_IT e f =
     (if fl_Lock f = HAL_LOCKED then (HAL_BUSY, f)
      else let f0 = f\<lparr>fl_Lock := HAL_LOCKED\<rparr> in
      if ProcedureOnGoing f0 \<noteq> FLASH_PROC_NONE then (HAL_ERROR, f0)
      else let f1 = fl_set_CR (FLASH_IT_EOP OR FLASH_IT_ERR) f0 in
      if TypeErase e = FLASH_TYPEERASE_MASSERASE
      then (HAL_OK, FLASH_MassErase (f1\<lparr>ProcedureOnGoing := FLASH_PROC_MASSERASE\<rparr>))
      else (HAL_OK, FLASH_PageErase (PageAddress e) (f1\<lparr>ProcedureOnGoing := FLASH_PROC_PAGEERASE,
              DataRemaining := NbPages e, fl_Address := PageAddress e\<rparr>)))"

section \<open>The interrupt handler\<close>

definition flash_irq_page :: "flash \<Rightarrow> flash" where
  "flash_irq_page f =
     (let f1 = f\<lparr>DataRemaining := DataRemaining f - 1\<rparr> in
      if DataRemaining f1 \<noteq> 0
      then let f2 = fl_callback (EndOfOperationCallback (fl_Address f1)) f1;
               next = fl_Address f2 + FLASH_PAGE_SIZE
           in FLASH_PageErase next (fl_clear_CR FLASH_CR_PER (f2\<lparr>fl_Address := next\<rparr>))
      else fl_callback (EndOfOperationCallback 0xFFFFFFFF)
             (f1\<lparr>fl_Address := 0xFFFFFFFF, ProcedureOnGoing := FLASH_PROC_NONE\<rparr>))"

definition flash_irq_mass :: "flash \<Rightarrow> flash" where
  "flash_irq_mass f =
     (fl_callback (EndOfOperationCallback 0) (fl_clear_CR FLASH_CR_MER f))\<lparr>ProcedureOnGoing := FLASH_PROC_NONE\<rparr>"

definition flash_irq_program :: "flash \<Rightarrow> flash" where
  "flash_irq_program f =
     (let f1 = f\<lparr>DataRemaining := DataRemaining f - 1\<rparr> in
      if DataRemaining f1 \<noteq> 0
      then let f2 = f1\<lparr>fl_Address := fl_Address f1 + 2, fl_Data := drop_bit 16 (fl_Data f1)\<rparr>
           in FLASH_Program_HalfWord (fl_Address f2) (ucast (fl_Data f2)) (fl_clear_CR FLASH_CR_PG f2)
      else (fl_callback (EndOfOperationCallback
              (if ProcedureOnGoing f1 = FLASH_PROC_PROGRAMHALFWORD then fl_Address f1
               else if ProcedureOnGoing f1 = FLASH_PROC_PROGRAMWORD then fl_Address f1 - 2
               else fl_Address f1 - 6)) f1)
             \<lparr>fl_Address := 0xFFFFFFFF, ProcedureOnGoing := FLASH_PROC_NONE\<rparr>)"

definition flash_irq_error :: "hw \<Rightarrow> flash \<Rightarrow> flash" where
  "flash_irq_error hw f =
     (fl_callback (OperationErrorCallback (fl_Address f)) (FLASH_SetErrorCode hw (f\<lparr>fl_Address := 0xFFFFFFFF\<rparr>)))
       \<lparr>ProcedureOnGoing := FLASH_PROC_NONE\<rparr>"

definition flash_irq_eop :: "flash \<Rightarrow> flash" where
  "flash_irq_eop f =
     (let f1 = flash_CLEAR_FLAG FLASH_FLAG_EOP f in
      case ProcedureOnGoing f1 of
        FLASH_PROC_NONE \<Rightarrow> f1
      | FLASH_PROC_PAGEERASE \<Rightarrow> flash_irq_page f1
      | FLASH_PROC_MASSERASE \<Rightarrow> flash_irq_mass f1
      | _ \<Rightarrow> flash_irq_program f1)"

text \<open>The end of the handler: nothing is going on any more.\<close>
definition flash_irq_end :: "flash \<Rightarrow> flash" where
  "flash_irq_end f =
     (if ProcedureOnGoing f = FLASH_PROC_NONE
      then flash_unlock (fl_clear_CR (FLASH_IT_EOP OR FLASH_IT_ERR)
             (fl_clear_CR (FLASH_CR_PG OR FLASH_CR_PER OR FLASH_CR_MER) f))
      else f)"

definition HAL_FLASH_IRQHandler :: "hw \<Rightarrow> flash \<Rightarrow> flash" where
  "HAL_FLASH_IRQHandler hw f =
     (let (err, f1) = flash_any_error hw f;
          f2 = (if err then flash_irq_error hw f1 else f1);
          (eop, f3) = flash_GET_FLAG hw FLASH_FLAG_EOP f2
      in flash_irq_end (if eop then flash_irq_eop f3 else f3))"

section \<open>Access to the control register\<close>

text \<open>\<open>keys\<close> is what the hardware does when it has got both keys.\<close>
definition HAL_FLASH_Unlock :: "(flash \<Rightarrow> flash) \<Rightarrow> flash \<Rightarrow> HAL_StatusTypeDef \<times> flash" where
  "HAL_FLASH_Unlock keys f =
     (if fl_CR f AND FLASH_CR_LOCK \<noteq> 0
      then (HAL_OK, keys (fl_log (KEYR_write FLASH_KEY2) (fl_log (KEYR_write FLASH_KEY1) f)))
      else (HAL_ERROR, f))"

definition HAL_FLASH_Lock :: "flash \<Rightarrow> HAL_StatusTypeDef \<times> flash" where
  "HAL_FLASH_Lock f = (HAL_OK, fl_set_CR FLASH_CR_LOCK f)"

definition HAL_FLASH_OB_Unlock :: "(flash \<Rightarrow> flash) \<Rightarrow> flash \<Rightarrow> HAL_StatusTypeDef \<times> flash" where
  "HAL_FLASH_OB_Unlock keys f =
     (if fl_CR f AND FLASH_CR_OPTWRE = 0
      then (HAL_OK, keys (fl_log (OPTKEYR_write FLASH_OPTKEY2) (fl_log (OPTKEYR_write FLASH_OPTKEY1) f)))
      else (HAL_ERROR, f))"

definition HAL_FLASH_OB_Lock :: "flash \<Rightarrow> HAL_StatusTypeDef \<times> flash" where
  "HAL_FLASH_OB_Lock f = (HAL_OK, fl_clear_CR FLASH_CR_OPTWRE f)"

definition HAL_FLASH_OB_Launch :: "hw \<Rightarrow> flash \<Rightarrow> (HAL_StatusTypeDef \<times> flash) option" where
  "HAL_FLASH_OB_Launch hw f = FLASH_WaitForLastOperation hw FLASH_TIMEOUT_VALUE (fl_set_CR FLASH_CR_OBL_LAUNCH f)"

definition HAL_FLASH_GetError :: "flash \<Rightarrow> u32" where
  "HAL_FLASH_GetError f = fl_ErrorCode f"

section \<open>What waiting does\<close>

lemma FLASH_SetErrorCode_fields [simp]:
  "fl_Lock (FLASH_SetErrorCode hw f) = fl_Lock f" "ProcedureOnGoing (FLASH_SetErrorCode hw f) = ProcedureOnGoing f"
  "fl_CR (FLASH_SetErrorCode hw f) = fl_CR f" "fl_cb (FLASH_SetErrorCode hw f) = fl_cb f"
  "\<exists>v. fl_io (FLASH_SetErrorCode hw f) = fl_io f @ [SR_write v]"
  by (simp_all add: FLASH_SetErrorCode_def flash_macros Let_def)

lemma flash_any_error_fields [simp]:
  "fl_Lock (snd (flash_any_error hw f)) = fl_Lock f"
  "ProcedureOnGoing (snd (flash_any_error hw f)) = ProcedureOnGoing f"
  "fl_CR (snd (flash_any_error hw f)) = fl_CR f" "fl_cb (snd (flash_any_error hw f)) = fl_cb f"
  "fl_io (snd (flash_any_error hw f)) = fl_io f"
  by (simp_all add: flash_any_error_def flash_GET_FLAG_def)

text \<open>A wait changes neither lock nor procedure nor control register, and writes nothing but the status register.\<close>
lemma flash_wait_fields:
  assumes "FLASH_WaitForLastOperation hw tmo f = Some (st, f1)"
  shows "fl_Lock f1 = fl_Lock f" "ProcedureOnGoing f1 = ProcedureOnGoing f" "fl_CR f1 = fl_CR f" "fl_cb f1 = fl_cb f"
    "\<exists>l. fl_io f1 = fl_io f @ map SR_write l"
proof -
  from assms obtain ok t where w: "wait_beyond hw (\<lambda>t. hw_SR hw t AND FLASH_FLAG_BSY \<noteq> FLASH_FLAG_BSY) tmo (fl_now f) = Some (ok, t)"
    by (auto simp: FLASH_WaitForLastOperation_def bind_eq_Some_conv)
  let ?f2 = "f\<lparr>fl_now := Suc t\<rparr>"
  let ?f3 = "if hw_SR hw t AND FLASH_FLAG_EOP = FLASH_FLAG_EOP then flash_CLEAR_FLAG FLASH_FLAG_EOP ?f2 else ?f2"
  let ?f4 = "snd (flash_any_error hw ?f3)"
  have f3: "fl_Lock ?f3 = fl_Lock f" "ProcedureOnGoing ?f3 = ProcedureOnGoing f" "fl_CR ?f3 = fl_CR f" "fl_cb ?f3 = fl_cb f"
    "fl_io ?f3 = fl_io f @ (if hw_SR hw t AND FLASH_FLAG_EOP = FLASH_FLAG_EOP then map SR_write [FLASH_FLAG_EOP] else [])"
    by (simp_all add: flash_macros)
  have "f1 = f\<lparr>fl_now := t\<rparr> \<or> f1 = ?f4 \<or> f1 = FLASH_SetErrorCode hw ?f4"
    using assms by (simp add: FLASH_WaitForLastOperation_def w flash_GET_FLAG_def Let_def split: prod.splits if_splits)
  moreover obtain v where "fl_io (FLASH_SetErrorCode hw ?f4) = fl_io ?f4 @ [SR_write v]"
    using FLASH_SetErrorCode_fields(5) by blast
  moreover have "\<exists>l. fl_io ?f3 = fl_io f @ map SR_write l" unfolding f3(5) by (metis append_Nil2 list.map(1))
  ultimately show "fl_Lock f1 = fl_Lock f" "ProcedureOnGoing f1 = ProcedureOnGoing f" "fl_CR f1 = fl_CR f" "fl_cb f1 = fl_cb f"
    "\<exists>l. fl_io f1 = fl_io f @ map SR_write l"
    by (auto simp: f3(1-4)) (metis append_assoc list.map(1) list.map(2) map_append)
qed

lemma flash_wait_returns:
  assumes "tick_advances hw"
  shows "\<exists>st f1. FLASH_WaitForLastOperation hw FLASH_TIMEOUT_VALUE f = Some (st, f1)"
proof -
  have "FLASH_TIMEOUT_VALUE \<noteq> HAL_MAX_DELAY" by (simp add: FLASH_TIMEOUT_VALUE_def HAL_MAX_DELAY_def)
  then obtain b t where "wait_beyond hw (\<lambda>t. hw_SR hw t AND FLASH_FLAG_BSY \<noteq> FLASH_FLAG_BSY) FLASH_TIMEOUT_VALUE (fl_now f)
      = Some (b, t)" using wait_beyond_returns [OF assms] by blast
  then show ?thesis by (simp add: FLASH_WaitForLastOperation_def Let_def split: prod.splits)
qed

lemma set_clear_bit: "\<not> bit c k \<Longrightarrow> (c OR push_bit k 1) AND NOT (push_bit k 1) = c" for c :: u32
  by (rule bit_word_eqI) (auto simp: bit_simps)

section \<open>The writes to the memory\<close>

text \<open>The half-words programmed and the pages erased, in order.\<close>
fun flash_programmed :: "flash_io list \<Rightarrow> (u32 \<times> u16) list" where
  "flash_programmed [] = []"
| "flash_programmed (HALFWORD_write a d # l) = (a, d) # flash_programmed l"
| "flash_programmed (_ # l) = flash_programmed l"

fun flash_erased :: "flash_io list \<Rightarrow> u32 list" where
  "flash_erased [] = []"
| "flash_erased (AR_write a # l) = a # flash_erased l"
| "flash_erased (_ # l) = flash_erased l"

lemma flash_logs_append [simp]:
  "flash_programmed (l @ m) = flash_programmed l @ flash_programmed m" "flash_erased (l @ m) = flash_erased l @ flash_erased m"
  by (induction l rule: flash_programmed.induct) simp_all

lemma flash_logs_SR [simp]: "flash_programmed (map SR_write l) = []" "flash_erased (map SR_write l) = []"
  by (induction l) simp_all

lemma flash_wait_logs:
  assumes "FLASH_WaitForLastOperation hw tmo f = Some (st, f1)"
  shows "flash_programmed (fl_io f1) = flash_programmed (fl_io f)" "flash_erased (fl_io f1) = flash_erased (fl_io f)"
  using flash_wait_fields(5) [OF assms] by auto

text \<open>The half-words of a value, from the given index on.\<close>
definition flash_image :: "u32 \<Rightarrow> u64 \<Rightarrow> nat \<Rightarrow> nat \<Rightarrow> (u32 \<times> u16) list" where
  "flash_image Address Data index n =
     map (\<lambda>i. (Address + 2 * of_nat i, ucast (drop_bit (16 * i) Data))) [index..<index + n]"

lemma flash_image_Suc:
  "flash_image a d i (Suc n) = (a + 2 * of_nat i, ucast (drop_bit (16 * i) d)) # flash_image a d (Suc i) n"
  by (simp add: flash_image_def upt_conv_Cons del: upt_Suc)

lemma flash_program_loop_result:
  assumes "flash_program_loop hw a d i n f = Some (st, f1)" "\<not> bit (fl_CR f) 0"
  shows "(\<exists>k. k \<le> n \<and> flash_programmed (fl_io f1) = flash_programmed (fl_io f) @ flash_image a d i k \<and> (st = HAL_OK \<longrightarrow> k = n))
    \<and> flash_erased (fl_io f1) = flash_erased (fl_io f)
    \<and> fl_Lock f1 = fl_Lock f \<and> ProcedureOnGoing f1 = ProcedureOnGoing f \<and> fl_CR f1 = fl_CR f"
  using assms
proof (induction hw a d i n f rule: flash_program_loop.induct)
  case (1 hw a d i f)
  then show ?case by (auto simp: flash_image_def)
next
  case (2 hw a d i n f)
  let ?f0 = "FLASH_Program_HalfWord (a + 2 * of_nat i) (ucast (drop_bit (16 * i) d)) f"
  from "2.prems" obtain st' g where w: "FLASH_WaitForLastOperation hw FLASH_TIMEOUT_VALUE ?f0 = Some (st', g)"
    by (auto simp: bind_eq_Some_conv)
  note wf = flash_wait_fields(1-3) [OF w] and wl = flash_wait_logs [OF w]
  let ?g = "fl_clear_CR FLASH_CR_PG g"
  have "(fl_CR f OR 1) AND NOT 1 = fl_CR f" using set_clear_bit [OF "2.prems"(2)] by simp
  then have cr: "fl_CR ?g = fl_CR f" by (simp add: fl_clear_CR_def wf FLASH_Program_HalfWord_def fl_log_def fl_set_CR_def hal_simps FLASH_CR_PG_def)
  have g: "flash_programmed (fl_io ?g) = flash_programmed (fl_io f) @ [(a + 2 * of_nat i, ucast (drop_bit (16 * i) d))]"
    "flash_erased (fl_io ?g) = flash_erased (fl_io f)" "fl_Lock ?g = fl_Lock f" "ProcedureOnGoing ?g = ProcedureOnGoing f"
    by (simp_all add: fl_clear_CR_def wf wl FLASH_Program_HalfWord_def fl_log_def fl_set_CR_def)
  show ?case
  proof (cases "st' = HAL_OK")
    case True
    with "2.prems"(1) w have "flash_program_loop hw a d (Suc i) n ?g = Some (st, f1)" by simp
    from "2.IH" [OF w refl refl _ this] True cr "2.prems"(2) g obtain k where "k \<le> n"
      "flash_programmed (fl_io f1) = flash_programmed (fl_io ?g) @ flash_image a d (Suc i) k" "st = HAL_OK \<longrightarrow> k = n"
      "flash_erased (fl_io f1) = flash_erased (fl_io f)" "fl_Lock f1 = fl_Lock f" "ProcedureOnGoing f1 = ProcedureOnGoing f"
      "fl_CR f1 = fl_CR f" by auto
    with g(1) show ?thesis by (intro conjI exI [of _ "Suc k"]) (auto simp: flash_image_Suc)
  next
    case False
    with "2.prems"(1) w have "st = st'" "f1 = ?g" by simp_all
    with False g cr show ?thesis by (intro conjI exI [of _ 1]) (auto simp: flash_image_def)
  qed
qed

lemma flash_program_result:
  assumes "HAL_FLASH_Program hw T a d f = Some (st, f1)" "\<not> bit (fl_CR f) 0" "fl_Lock f = HAL_UNLOCKED"
  shows "(\<exists>k. k \<le> flash_halfwords T \<and> flash_programmed (fl_io f1) = flash_programmed (fl_io f) @ flash_image a d 0 k
      \<and> (st = HAL_OK \<longrightarrow> k = flash_halfwords T))
    \<and> flash_erased (fl_io f1) = flash_erased (fl_io f)
    \<and> fl_Lock f1 = HAL_UNLOCKED \<and> ProcedureOnGoing f1 = ProcedureOnGoing f \<and> fl_CR f1 = fl_CR f"
proof -
  from assms(1,3) obtain st0 f0 where
    w: "FLASH_WaitForLastOperation hw FLASH_TIMEOUT_VALUE (f\<lparr>fl_Lock := HAL_LOCKED\<rparr>) = Some (st0, f0)"
    by (auto simp: HAL_FLASH_Program_def bind_eq_Some_conv)
  note wf = flash_wait_fields(1-3) [OF w, simplified] and wl = flash_wait_logs [OF w, simplified]
  show ?thesis
  proof (cases "st0 = HAL_OK")
    case True
    with assms(1,3) w obtain f2 where "flash_program_loop hw a d 0 (flash_halfwords T) f0 = Some (st, f2)" "f1 = flash_unlock f2"
      by (auto simp: HAL_FLASH_Program_def bind_eq_Some_conv)
    with flash_program_loop_result [of hw a d 0 "flash_halfwords T" f0 st f2] assms(2) wf wl show ?thesis
      by (auto simp: flash_unlock_def)
  next
    case False
    with assms(1,3) w have "st = st0" "f1 = flash_unlock f0" by (auto simp: HAL_FLASH_Program_def)
    with False wf wl show ?thesis by (auto simp: flash_unlock_def flash_image_def)
  qed
qed

section \<open>Operations that interrupts carry on\<close>

text \<open>The status register in interrupts that end an operation without an error.\<close>
definition flash_completes :: "hw \<Rightarrow> bool" where
  "flash_completes hw \<longleftrightarrow> (\<forall>t. hw_SR hw t AND FLASH_FLAG_EOP = FLASH_FLAG_EOP
     \<and> hw_SR hw t AND FLASH_FLAG_WRPERR \<noteq> FLASH_FLAG_WRPERR \<and> hw_SR hw t AND FLASH_FLAG_PGERR \<noteq> FLASH_FLAG_PGERR)"

lemma flash_irq_completes:
  assumes "flash_completes hw"
  shows "HAL_FLASH_IRQHandler hw f = flash_irq_end (flash_irq_eop (f\<lparr>fl_now := Suc (Suc (Suc (fl_now f)))\<rparr>))"
  using assms by (simp add: flash_completes_def HAL_FLASH_IRQHandler_def flash_any_error_def flash_GET_FLAG_def)

definition flash_programs :: "FLASH_ProcedureTypeDef \<Rightarrow> bool" where
  "flash_programs p \<longleftrightarrow> p \<in> {FLASH_PROC_PROGRAMHALFWORD, FLASH_PROC_PROGRAMWORD, FLASH_PROC_PROGRAMDOUBLEWORD}"

lemma flash_programs_eop:
  "flash_programs (ProcedureOnGoing f) \<Longrightarrow> flash_irq_eop f = flash_irq_program (flash_CLEAR_FLAG FLASH_FLAG_EOP f)"
  by (auto simp: flash_programs_def flash_irq_eop_def flash_CLEAR_FLAG_def fl_log_def)

lemma of_nat_u32_nonzero: "0 < n \<Longrightarrow> n < 2 ^ 32 \<Longrightarrow> (of_nat n :: u32) \<noteq> 0"
  by (auto simp: word_of_nat_eq_0_iff dest: dvd_imp_le)

text \<open>Programming has reached half-word \<open>i\<close>, and \<open>m\<close> more are to follow.\<close>
definition flash_programming :: "u32 \<Rightarrow> u64 \<Rightarrow> nat \<Rightarrow> nat \<Rightarrow> FLASH_ProcedureTypeDef \<Rightarrow> flash \<Rightarrow> bool" where
  "flash_programming a d i m p f \<longleftrightarrow>
     flash_programs p \<and> ProcedureOnGoing f = p \<and> m < 4 \<and> DataRemaining f = of_nat (Suc m)
     \<and> fl_Address f = a + 2 * of_nat i \<and> fl_Data f = drop_bit (16 * i) d"

lemma flash_programming_step:
  assumes "flash_programming a d i (Suc m) p f" "flash_completes hw"
  shows "flash_programming a d (Suc i) m p (HAL_FLASH_IRQHandler hw f)"
    "flash_programmed (fl_io (HAL_FLASH_IRQHandler hw f))
       = flash_programmed (fl_io f) @ [(a + 2 * of_nat (Suc i), ucast (drop_bit (16 * Suc i) d))]"
    "fl_cb (HAL_FLASH_IRQHandler hw f) = fl_cb f"
proof -
  let ?f = "flash_CLEAR_FLAG FLASH_FLAG_EOP (f\<lparr>fl_now := Suc (Suc (Suc (fl_now f)))\<rparr>)"
  have p: "flash_programs p" "ProcedureOnGoing f = p" "p \<noteq> FLASH_PROC_NONE"
    using assms(1) by (auto simp: flash_programming_def flash_programs_def)
  have r: "DataRemaining f - 1 = of_nat (Suc m)" using assms(1) by (simp add: flash_programming_def)
  have nz: "(of_nat (Suc m) :: u32) \<noteq> 0" using assms(1) by (intro of_nat_u32_nonzero) (simp_all add: flash_programming_def)
  have "HAL_FLASH_IRQHandler hw f = flash_irq_end (flash_irq_program ?f)"
    using flash_irq_completes [OF assms(2), of f] flash_programs_eop [of "f\<lparr>fl_now := Suc (Suc (Suc (fl_now f)))\<rparr>"] p by simp
  also have "flash_irq_program ?f = FLASH_Program_HalfWord (fl_Address f + 2) (ucast (drop_bit 16 (fl_Data f)))
      (fl_clear_CR FLASH_CR_PG (?f\<lparr>DataRemaining := of_nat (Suc m), fl_Address := fl_Address f + 2,
         fl_Data := drop_bit 16 (fl_Data f)\<rparr>))" (is "_ = ?g")
    using r nz by (simp add: flash_irq_program_def Let_def flash_CLEAR_FLAG_def fl_log_def)
  also have "flash_irq_end ?g = ?g"
    using p by (simp add: flash_irq_end_def FLASH_Program_HalfWord_def flash_macros)
  finally have irq: "HAL_FLASH_IRQHandler hw f = ?g" .
  show "flash_programming a d (Suc i) m p (HAL_FLASH_IRQHandler hw f)"
    "flash_programmed (fl_io (HAL_FLASH_IRQHandler hw f))
       = flash_programmed (fl_io f) @ [(a + 2 * of_nat (Suc i), ucast (drop_bit (16 * Suc i) d))]"
    "fl_cb (HAL_FLASH_IRQHandler hw f) = fl_cb f"
    using assms(1) by (simp_all add: irq flash_programming_def FLASH_Program_HalfWord_def flash_macros algebra_simps)
qed

lemma flash_programming_last:
  assumes "flash_programming a d i 0 p f" "flash_completes hw"
  shows "ProcedureOnGoing (HAL_FLASH_IRQHandler hw f) = FLASH_PROC_NONE" "fl_Lock (HAL_FLASH_IRQHandler hw f) = HAL_UNLOCKED"
    "flash_programmed (fl_io (HAL_FLASH_IRQHandler hw f)) = flash_programmed (fl_io f)"
    "fl_cb (HAL_FLASH_IRQHandler hw f) = fl_cb f @ [EndOfOperationCallback (fl_Address f
       - (if p = FLASH_PROC_PROGRAMHALFWORD then 0 else if p = FLASH_PROC_PROGRAMWORD then 2 else 6))]"
proof -
  let ?f = "flash_CLEAR_FLAG FLASH_FLAG_EOP (f\<lparr>fl_now := Suc (Suc (Suc (fl_now f)))\<rparr>)"
  have p: "flash_programs p" "ProcedureOnGoing f = p" using assms(1) by (auto simp: flash_programming_def)
  have "HAL_FLASH_IRQHandler hw f = flash_irq_end (flash_irq_program ?f)"
    using flash_irq_completes [OF assms(2), of f] flash_programs_eop [of "f\<lparr>fl_now := Suc (Suc (Suc (fl_now f)))\<rparr>"] p by simp
  moreover have "DataRemaining f = 1" using assms(1) by (simp add: flash_programming_def)
  ultimately show "ProcedureOnGoing (HAL_FLASH_IRQHandler hw f) = FLASH_PROC_NONE"
    "fl_Lock (HAL_FLASH_IRQHandler hw f) = HAL_UNLOCKED"
    "flash_programmed (fl_io (HAL_FLASH_IRQHandler hw f)) = flash_programmed (fl_io f)"
    "fl_cb (HAL_FLASH_IRQHandler hw f) = fl_cb f @ [EndOfOperationCallback (fl_Address f
       - (if p = FLASH_PROC_PROGRAMHALFWORD then 0 else if p = FLASH_PROC_PROGRAMWORD then 2 else 6))]"
    using p(2) by (simp_all add: flash_irq_program_def flash_irq_end_def flash_macros Let_def)
qed

lemma flash_programming_run:
  assumes "flash_programming a d i m p f" "flash_completes hw"
  shows "\<exists>f'. (HAL_FLASH_IRQHandler hw ^^ Suc m) f = f' \<and> ProcedureOnGoing f' = FLASH_PROC_NONE \<and> fl_Lock f' = HAL_UNLOCKED
    \<and> flash_programmed (fl_io f') = flash_programmed (fl_io f) @ flash_image a d (Suc i) m
    \<and> fl_cb f' = fl_cb f @ [EndOfOperationCallback (a + 2 * of_nat (i + m)
       - (if p = FLASH_PROC_PROGRAMHALFWORD then 0 else if p = FLASH_PROC_PROGRAMWORD then 2 else 6))]"
  using assms
proof (induction m arbitrary: i f)
  case 0
  from flash_programming_last [OF this] 0(1) show ?case by (simp add: flash_image_def flash_programming_def)
next
  case (Suc m)
  note step = flash_programming_step [OF Suc.prems]
  from Suc.IH [OF step(1) Suc.prems(2)] show ?case
    unfolding funpow.simps(2) [of "Suc m"] funpow_Suc_right o_apply step(2,3) flash_image_Suc [of a d "Suc i" m] by simp
qed

text \<open>The bits of a value are those of its image.\<close>
lemma flash_image_bits:
  assumes "j < 16 * n" "n \<le> 4"
  shows "bit (snd (flash_image a d 0 n ! (j div 16))) (j mod 16) = bit d j"
proof -
  have "j div 16 < n" using assms(1) by auto
  then have "flash_image a d 0 n ! (j div 16) = (a + 2 * of_nat (j div 16), ucast (drop_bit (16 * (j div 16)) d))"
    by (simp add: flash_image_def)
  then show ?thesis by (simp add: bit_unsigned_iff bit_drop_bit_eq)
qed

text \<open>C33: programming by interrupts writes the same half-words to the same addresses in the same order as the blocking
  call, the little-endian image of the value, when neither reports an error; it ends unlocked with one callback that
  names the address of the value.\<close>
theorem flash_program_equivalence:
  assumes "fl_Lock f = HAL_UNLOCKED" "\<not> bit (fl_CR f) 0" "flash_completes hw'"
    "HAL_FLASH_Program hw T a d f = Some (HAL_OK, f1)" "HAL_FLASH_Program_IT T a d f = (st, f2)"
  shows "\<exists>f3. (HAL_FLASH_IRQHandler hw' ^^ flash_halfwords T) f2 = f3 \<and> st = HAL_OK
    \<and> flash_programmed (fl_io f3) = flash_programmed (fl_io f1)
    \<and> flash_programmed (fl_io f1) = flash_programmed (fl_io f) @ flash_image a d 0 (flash_halfwords T)
    \<and> (\<forall>j < 16 * flash_halfwords T. bit (snd (flash_image a d 0 (flash_halfwords T) ! (j div 16))) (j mod 16) = bit d j)
    \<and> fl_Lock f1 = HAL_UNLOCKED \<and> fl_Lock f3 = HAL_UNLOCKED \<and> ProcedureOnGoing f3 = FLASH_PROC_NONE
    \<and> fl_cb f3 = fl_cb f @ [EndOfOperationCallback a]"
proof -
  let ?p = "if T = FLASH_TYPEPROGRAM_HALFWORD then FLASH_PROC_PROGRAMHALFWORD
    else if T = FLASH_TYPEPROGRAM_WORD then FLASH_PROC_PROGRAMWORD else FLASH_PROC_PROGRAMDOUBLEWORD"
  have "0 < flash_halfwords T" "flash_halfwords T \<le> 4" by (simp_all add: flash_halfwords_def)
  then obtain m where m: "flash_halfwords T = Suc m" "m < 4" using that by (cases "flash_halfwords T") auto
  have f2: "st = HAL_OK" "flash_programming a d 0 m ?p f2" "fl_cb f2 = fl_cb f"
    "flash_programmed (fl_io f2) = flash_programmed (fl_io f) @ [(a, ucast d)]"
    using assms(1,5) m by (auto simp: HAL_FLASH_Program_IT_def Let_def flash_programming_def flash_programs_def
        FLASH_Program_HalfWord_def flash_macros)
  have "a + 2 * of_nat m - (if ?p = FLASH_PROC_PROGRAMHALFWORD then 0 else if ?p = FLASH_PROC_PROGRAMWORD then 2 else 6) = a"
    using m(1) by (auto simp: flash_halfwords_def split: if_splits)
  with flash_programming_run [OF f2(2) assms(3)] f2 m flash_image_Suc [of a d 0 m] obtain f3 where
    "(HAL_FLASH_IRQHandler hw' ^^ flash_halfwords T) f2 = f3" "ProcedureOnGoing f3 = FLASH_PROC_NONE" "fl_Lock f3 = HAL_UNLOCKED"
    "flash_programmed (fl_io f3) = flash_programmed (fl_io f) @ flash_image a d 0 (flash_halfwords T)"
    "fl_cb f3 = fl_cb f @ [EndOfOperationCallback a]"
    by auto
  moreover have "flash_programmed (fl_io f1) = flash_programmed (fl_io f) @ flash_image a d 0 (flash_halfwords T)"
    "fl_Lock f1 = HAL_UNLOCKED" using flash_program_result [OF assms(4,2,1)] by auto
  moreover have "flash_halfwords T \<le> 4" by (simp add: flash_halfwords_def)
  ultimately show ?thesis using f2(1) flash_image_bits [of _ "flash_halfwords T" a d] by auto
qed

definition ex_flash :: flash where
  "ex_flash = \<lparr>ProcedureOnGoing = FLASH_PROC_NONE, DataRemaining = 0, fl_Address = 0, fl_Data = 0, fl_Lock = HAL_UNLOCKED,
     fl_ErrorCode = 0, fl_CR = 0, fl_now = 0, fl_io = [], fl_cb = []\<rparr>"

lemma ex_flash_completes: "flash_completes (ticking_hw 0x20)"
  by (simp add: flash_completes_def ticking_hw_def FLASH_FLAG_EOP_def FLASH_FLAG_WRPERR_def FLASH_FLAG_PGERR_def)

lemma ex_flash_wait: "\<exists>f1. FLASH_WaitForLastOperation (ticking_hw 0x20) FLASH_TIMEOUT_VALUE f = Some (HAL_OK, f1)"
  by (simp add: FLASH_WaitForLastOperation_def wait_beyond_def ticking_hw_def FLASH_FLAG_BSY_def FLASH_FLAG_EOP_def
      FLASH_FLAG_WRPERR_def FLASH_FLAG_PGERR_def flash_macros flash_any_error_def)

lemma ex_flash_program: "\<exists>f1. HAL_FLASH_Program (ticking_hw 0x20) T a d ex_flash = Some (HAL_OK, f1)"
proof -
  have "\<exists>f1. flash_program_loop (ticking_hw 0x20) a d i n f = Some (HAL_OK, f1)" for i n f
  proof (induction n arbitrary: i f)
    case (Suc n)
    obtain g where "FLASH_WaitForLastOperation (ticking_hw 0x20) FLASH_TIMEOUT_VALUE
        (FLASH_Program_HalfWord (a + 2 * of_nat i) (ucast (drop_bit (16 * i) d)) f) = Some (HAL_OK, g)"
      using ex_flash_wait by blast
    with Suc show ?case by simp
  qed simp
  moreover obtain g where "FLASH_WaitForLastOperation (ticking_hw 0x20) FLASH_TIMEOUT_VALUE (ex_flash\<lparr>fl_Lock := HAL_LOCKED\<rparr>)
      = Some (HAL_OK, g)" using ex_flash_wait by blast
  ultimately show ?thesis by (auto simp: HAL_FLASH_Program_def ex_flash_def bind_eq_Some_conv)
qed

theorem flash_program_equivalence_witness:
  "\<exists>f2. HAL_FLASH_Program_IT FLASH_TYPEPROGRAM_WORD 0x08001000 0x12345678 ex_flash = (HAL_OK, f2)
     \<and> flash_programmed (fl_io ((HAL_FLASH_IRQHandler (ticking_hw 0x20) ^^ 2) f2)) = [(0x08001000, 0x5678), (0x08001002, 0x1234)]"
proof -
  obtain f1 where 1: "HAL_FLASH_Program (ticking_hw 0x20) FLASH_TYPEPROGRAM_WORD 0x08001000 0x12345678 ex_flash = Some (HAL_OK, f1)"
    using ex_flash_program by blast
  obtain st f2 where 2: "HAL_FLASH_Program_IT FLASH_TYPEPROGRAM_WORD 0x08001000 0x12345678 ex_flash = (st, f2)" by fastforce
  have n: "flash_halfwords FLASH_TYPEPROGRAM_WORD = 2"
    by (simp add: flash_halfwords_def FLASH_TYPEPROGRAM_WORD_def FLASH_TYPEPROGRAM_HALFWORD_def)
  have i: "flash_image 0x08001000 0x12345678 0 2 = [(0x08001000, 0x5678), (0x08001002, 0x1234)]"
    by (simp add: flash_image_def upt_rec)
  have ex: "fl_Lock ex_flash = HAL_UNLOCKED" "\<not> bit (fl_CR ex_flash) 0" "flash_programmed (fl_io ex_flash) = []"
    by (simp_all add: ex_flash_def)
  from flash_program_equivalence [OF ex(1,2) ex_flash_completes 1 2, unfolded n i ex(3)] 2 show ?thesis by auto
qed

end
