(* ===== verification/Flash_Erase.thy ===== *)
theory Flash_Erase
  imports Hal_Flash
begin

text \<open>
  Erasing pages of the flash: the blocking call and the interrupt-driven one erase the same pages in the same order.
\<close>

definition flash_pages :: "u32 \<Rightarrow> nat \<Rightarrow> u32 list" where
  "flash_pages a n = map (\<lambda>i. a + of_nat i * FLASH_PAGE_SIZE) [0..<n]"

lemma flash_pages_Suc: "flash_pages a (Suc n) = a # flash_pages (a + FLASH_PAGE_SIZE) n"
  by (simp add: flash_pages_def upt_conv_Cons map_Suc_upt [symmetric] algebra_simps del: upt_Suc)

lemma flash_pages_0 [simp]: "flash_pages a 0 = []"
  by (simp add: flash_pages_def)

section \<open>The blocking loop\<close>

lemma flash_erase_step:
  assumes "FLASH_WaitForLastOperation hw tmo (FLASH_PageErase a f) = Some (st, f1)" "\<not> bit (fl_CR f) 1"
  shows "flash_erased (fl_io (fl_clear_CR FLASH_CR_PER f1)) = flash_erased (fl_io f) @ [a]"
    "flash_programmed (fl_io (fl_clear_CR FLASH_CR_PER f1)) = flash_programmed (fl_io f)"
    "fl_CR (fl_clear_CR FLASH_CR_PER f1) = fl_CR f" "fl_Lock (fl_clear_CR FLASH_CR_PER f1) = fl_Lock f"
    "ProcedureOnGoing (fl_clear_CR FLASH_CR_PER f1) = ProcedureOnGoing f"
proof -
  have "(fl_CR f OR 2) AND NOT 2 = fl_CR f" using set_clear_bit [OF assms(2)] by simp
  then show "flash_erased (fl_io (fl_clear_CR FLASH_CR_PER f1)) = flash_erased (fl_io f) @ [a]"
    "flash_programmed (fl_io (fl_clear_CR FLASH_CR_PER f1)) = flash_programmed (fl_io f)"
    "fl_CR (fl_clear_CR FLASH_CR_PER f1) = fl_CR f" "fl_Lock (fl_clear_CR FLASH_CR_PER f1) = fl_Lock f"
    "ProcedureOnGoing (fl_clear_CR FLASH_CR_PER f1) = ProcedureOnGoing f"
    using flash_wait_fields(1-3) [OF assms(1)] flash_wait_logs [OF assms(1)]
    by (simp_all add: FLASH_PageErase_def flash_macros hal_simps FLASH_CR_PER_def)
qed

lemma flash_erase_loop_result:
  assumes "unat a + n * 2048 < 2 ^ 32" "limit = a + of_nat n * FLASH_PAGE_SIZE" "\<not> bit (fl_CR f) 1" "tick_advances hw"
  shows "\<exists>st' pe' f1 k. flash_erase_loop hw limit a st pe f = Some (st', pe', f1) \<and> k \<le> n
    \<and> flash_erased (fl_io f1) = flash_erased (fl_io f) @ flash_pages a k
    \<and> flash_programmed (fl_io f1) = flash_programmed (fl_io f)
    \<and> fl_CR f1 = fl_CR f \<and> fl_Lock f1 = fl_Lock f \<and> ProcedureOnGoing f1 = ProcedureOnGoing f
    \<and> (n = 0 \<longrightarrow> st' = st \<and> pe' = pe)
    \<and> (n \<noteq> 0 \<longrightarrow> k \<noteq> 0 \<and> (if st' = HAL_OK then k = n \<and> pe' = pe else pe' = last (flash_pages a k)))"
  using assms
proof (induction n arbitrary: a st f)
  case 0
  then show ?case by (subst flash_erase_loop.simps) simp
next
  case (Suc n)
  have ul: "unat limit = unat a + Suc n * 2048"
    using Suc.prems(1,2) by (simp add: FLASH_PAGE_SIZE_def unat_word_ariths unat_of_nat mod_less)
  then have less: "a < limit" by (simp add: word_less_nat_alt)
  obtain st1 f1 where w: "FLASH_WaitForLastOperation hw FLASH_TIMEOUT_VALUE (FLASH_PageErase a f) = Some (st1, f1)"
    using flash_wait_returns [OF Suc.prems(4)] by blast
  let ?f2 = "fl_clear_CR FLASH_CR_PER f1"
  note step = flash_erase_step [OF w Suc.prems(3)]
  have unf: "flash_erase_loop hw limit a st pe f = (if st1 \<noteq> HAL_OK then Some (st1, a, ?f2)
      else flash_erase_loop hw limit (a + FLASH_PAGE_SIZE) st1 pe ?f2)"
    using less w by (subst flash_erase_loop.simps) simp
  show ?case
  proof (cases "st1 = HAL_OK")
    case True
    have "unat (a + FLASH_PAGE_SIZE) = unat a + 2048"
      using Suc.prems(1) by (simp add: FLASH_PAGE_SIZE_def unat_word_ariths)
    then have 1: "unat (a + FLASH_PAGE_SIZE) + n * 2048 < 2 ^ 32" using Suc.prems(1) by simp
    have 2: "limit = a + FLASH_PAGE_SIZE + of_nat n * FLASH_PAGE_SIZE"
      unfolding Suc.prems(2) by (simp add: distrib_right add.assoc)
    have 3: "\<not> bit (fl_CR ?f2) 1" using Suc.prems(3) step(3) by simp
    from Suc.IH [OF 1 2 3 Suc.prems(4), of st1] obtain st' pe' g k where
      "flash_erase_loop hw limit (a + FLASH_PAGE_SIZE) st1 pe ?f2 = Some (st', pe', g)" "k \<le> n"
      "flash_erased (fl_io g) = flash_erased (fl_io ?f2) @ flash_pages (a + FLASH_PAGE_SIZE) k"
      "flash_programmed (fl_io g) = flash_programmed (fl_io ?f2)"
      "fl_CR g = fl_CR ?f2" "fl_Lock g = fl_Lock ?f2" "ProcedureOnGoing g = ProcedureOnGoing ?f2"
      "n = 0 \<longrightarrow> st' = st1 \<and> pe' = pe"
      "n \<noteq> 0 \<longrightarrow> k \<noteq> 0 \<and> (if st' = HAL_OK then k = n \<and> pe' = pe else pe' = last (flash_pages (a + FLASH_PAGE_SIZE) k))"
      by blast
    note g = this
    have "last (flash_pages a (Suc k)) = (if k = 0 then a else last (flash_pages (a + FLASH_PAGE_SIZE) k))"
      unfolding flash_pages_Suc by (simp add: flash_pages_def)
    moreover have "flash_erase_loop hw limit a st pe f = Some (st', pe', g)" using unf True g(1) by simp
    moreover have "flash_erased (fl_io g) = flash_erased (fl_io f) @ flash_pages a (Suc k)"
      unfolding flash_pages_Suc g(3) step(1) by simp
    moreover have "if st' = HAL_OK then Suc k = Suc n \<and> pe' = pe else k \<noteq> 0 \<and> pe' = last (flash_pages (a + FLASH_PAGE_SIZE) k)"
      using g(2,8,9) True by (cases "n = 0") auto
    moreover have "flash_programmed (fl_io g) = flash_programmed (fl_io f)" "fl_CR g = fl_CR f" "fl_Lock g = fl_Lock f"
      "ProcedureOnGoing g = ProcedureOnGoing f" using g(4-7) step(2-5) by (simp_all only:)
    moreover have "Suc k \<le> Suc n" using g(2) by simp
    ultimately show ?thesis
      by (intro exI [of _ st'] exI [of _ pe'] exI [of _ g] exI [of _ "Suc k"]) (simp only: nat.distinct simp_thms split: if_splits)
  next
    case False
    then show ?thesis using unf step
      by (intro exI [of _ st1] exI [of _ a] exI [of _ ?f2] exI [of _ 1]) (simp add: flash_pages_def)
  qed
qed

section \<open>The interrupts\<close>

text \<open>Page \<open>a\<close> is being erased, and \<open>m\<close> more are to follow.\<close>
definition flash_erasing :: "u32 \<Rightarrow> nat \<Rightarrow> flash \<Rightarrow> bool" where
  "flash_erasing a m f \<longleftrightarrow> ProcedureOnGoing f = FLASH_PROC_PAGEERASE \<and> Suc m < 2 ^ 32 \<and> DataRemaining f = of_nat (Suc m) \<and> fl_Address f = a"

lemma flash_erasing_irq:
  assumes "flash_erasing a m f" "flash_completes hw"
  shows "HAL_FLASH_IRQHandler hw f
    = flash_irq_end (flash_irq_page (flash_CLEAR_FLAG FLASH_FLAG_EOP (f\<lparr>fl_now := Suc (Suc (Suc (fl_now f)))\<rparr>)))"
  using flash_irq_completes [OF assms(2), of f] assms(1)
  by (simp add: flash_erasing_def flash_irq_eop_def flash_CLEAR_FLAG_def fl_log_def)

lemma flash_erasing_step:
  assumes "flash_erasing a (Suc m) f" "flash_completes hw"
  shows "flash_erasing (a + FLASH_PAGE_SIZE) m (HAL_FLASH_IRQHandler hw f)"
    "flash_erased (fl_io (HAL_FLASH_IRQHandler hw f)) = flash_erased (fl_io f) @ [a + FLASH_PAGE_SIZE]"
    "fl_cb (HAL_FLASH_IRQHandler hw f) = fl_cb f @ [EndOfOperationCallback a]"
proof -
  let ?f = "flash_CLEAR_FLAG FLASH_FLAG_EOP (f\<lparr>fl_now := Suc (Suc (Suc (fl_now f)))\<rparr>)"
  have r: "DataRemaining f - 1 = of_nat (Suc m)" using assms(1) by (simp add: flash_erasing_def)
  have nz: "(of_nat (Suc m) :: u32) \<noteq> 0" using assms(1) by (intro of_nat_u32_nonzero) (simp_all add: flash_erasing_def)
  have "flash_irq_page ?f = FLASH_PageErase (a + FLASH_PAGE_SIZE) (fl_clear_CR FLASH_CR_PER
      ((fl_callback (EndOfOperationCallback a) (?f\<lparr>DataRemaining := of_nat (Suc m)\<rparr>))\<lparr>fl_Address := a + FLASH_PAGE_SIZE\<rparr>))" (is "_ = ?g")
    using r nz assms(1) by (simp add: flash_irq_page_def Let_def flash_CLEAR_FLAG_def fl_log_def fl_callback_def flash_erasing_def)
  moreover have "flash_irq_end ?g = ?g"
    using assms(1) by (simp add: flash_irq_end_def FLASH_PageErase_def flash_macros flash_erasing_def)
  ultimately have irq: "HAL_FLASH_IRQHandler hw f = ?g" using flash_erasing_irq [OF assms] by simp
  show "flash_erasing (a + FLASH_PAGE_SIZE) m (HAL_FLASH_IRQHandler hw f)"
    "flash_erased (fl_io (HAL_FLASH_IRQHandler hw f)) = flash_erased (fl_io f) @ [a + FLASH_PAGE_SIZE]"
    "fl_cb (HAL_FLASH_IRQHandler hw f) = fl_cb f @ [EndOfOperationCallback a]"
    using assms(1) by (simp_all add: irq FLASH_PageErase_def flash_macros flash_erasing_def)
qed

lemma flash_erasing_run:
  assumes "flash_erasing a m f" "flash_completes hw"
  shows "\<exists>f'. (HAL_FLASH_IRQHandler hw ^^ Suc m) f = f' \<and> ProcedureOnGoing f' = FLASH_PROC_NONE \<and> fl_Lock f' = HAL_UNLOCKED
    \<and> flash_erased (fl_io f') = flash_erased (fl_io f) @ flash_pages (a + FLASH_PAGE_SIZE) m
    \<and> fl_cb f' = fl_cb f @ map EndOfOperationCallback (flash_pages a m) @ [EndOfOperationCallback 0xFFFFFFFF]"
  using assms
proof (induction m arbitrary: a f)
  case 0
  then have "DataRemaining f = 1" by (simp add: flash_erasing_def)
  then show ?case unfolding funpow.simps o_apply id_apply flash_erasing_irq [OF 0]
    by (simp add: flash_irq_page_def flash_irq_end_def flash_macros Let_def)
next
  case (Suc m)
  note step = flash_erasing_step [OF Suc.prems]
  from Suc.IH [OF step(1) Suc.prems(2)] show ?case
    unfolding funpow.simps(2) [of "Suc m"] funpow_Suc_right o_apply step(2,3)
    by (simp add: flash_pages_Suc [of a m] flash_pages_Suc [of "a + FLASH_PAGE_SIZE" m])
qed

section \<open>Both calls\<close>

text \<open>C34: erasing pages within the address space: the blocking call returns, has erased a prefix of the pages in order, all
  of them when it reports success, and names the page that failed otherwise; the interrupt-driven call erases the same
  pages with one interrupt each, reports each page but the last by its address and the end by the address 0xFFFFFFFF.\<close>
theorem flash_erase_equivalence:
  assumes "fl_Lock f = HAL_UNLOCKED" "ProcedureOnGoing f = FLASH_PROC_NONE" "\<not> bit (fl_CR f) 1"
    "TypeErase e \<noteq> FLASH_TYPEERASE_MASSERASE" "NbPages e \<noteq> 0" "unat (PageAddress e) + unat (NbPages e) * 2048 < 2 ^ 32"
    "tick_advances hw" "flash_completes hw'"
  shows "\<exists>st pe f1 k f2 f3. HAL_FLASHEx_Erase hw e pe0 f = Some (st, pe, f1) \<and> fl_Lock f1 = HAL_UNLOCKED
    \<and> k \<le> unat (NbPages e) \<and> flash_erased (fl_io f1) = flash_erased (fl_io f) @ flash_pages (PageAddress e) k
    \<and> (st = HAL_OK \<longrightarrow> k = unat (NbPages e) \<and> pe = 0xFFFFFFFF)
    \<and> (st \<noteq> HAL_OK \<and> k \<noteq> 0 \<longrightarrow> pe = last (flash_pages (PageAddress e) k))
    \<and> HAL_FLASHEx_Erase_IT e f = (HAL_OK, f2) \<and> (HAL_FLASH_IRQHandler hw' ^^ unat (NbPages e)) f2 = f3
    \<and> flash_erased (fl_io f3) = flash_erased (fl_io f) @ flash_pages (PageAddress e) (unat (NbPages e))
    \<and> fl_Lock f3 = HAL_UNLOCKED \<and> ProcedureOnGoing f3 = FLASH_PROC_NONE
    \<and> fl_cb f3 = fl_cb f @ map EndOfOperationCallback (flash_pages (PageAddress e) (unat (NbPages e) - 1))
        @ [EndOfOperationCallback 0xFFFFFFFF]"
proof -
  let ?n = "unat (NbPages e)" and ?a = "PageAddress e"
  obtain m where m: "?n = Suc m" using assms(5) by (cases ?n) (auto simp: unat_eq_0)
  have "?n < 2 ^ 32" using unsigned_less [of "NbPages e", where ?'a = nat] by simp
  moreover have "(of_nat (Suc m) :: u32) = NbPages e" unfolding m [symmetric] by simp
  moreover obtain f2 where f2: "HAL_FLASHEx_Erase_IT e f = (HAL_OK, f2)" "fl_cb f2 = fl_cb f"
      "flash_erased (fl_io f2) = flash_erased (fl_io f) @ [?a]" "ProcedureOnGoing f2 = FLASH_PROC_PAGEERASE"
      "DataRemaining f2 = NbPages e" "fl_Address f2 = ?a"
    using assms(1,2,4) by (simp add: HAL_FLASHEx_Erase_IT_def FLASH_PageErase_def flash_macros Let_def)
  ultimately have "flash_erasing ?a m f2" using m by (simp add: flash_erasing_def)
  from flash_erasing_run [OF this assms(8)] m f2 obtain f3 where f3: "(HAL_FLASH_IRQHandler hw' ^^ ?n) f2 = f3"
    "ProcedureOnGoing f3 = FLASH_PROC_NONE" "fl_Lock f3 = HAL_UNLOCKED"
    "flash_erased (fl_io f3) = flash_erased (fl_io f) @ flash_pages ?a ?n"
    "fl_cb f3 = fl_cb f @ map EndOfOperationCallback (flash_pages ?a (?n - 1)) @ [EndOfOperationCallback 0xFFFFFFFF]"
    by (auto simp: flash_pages_Suc)
  obtain st0 f0 where w: "FLASH_WaitForLastOperation hw FLASH_TIMEOUT_VALUE (f\<lparr>fl_Lock := HAL_LOCKED\<rparr>) = Some (st0, f0)"
    using flash_wait_returns [OF assms(7)] by blast
  note w0 = flash_wait_fields(3) [OF w, simplified] flash_wait_logs [OF w, simplified]
  have "\<not> bit (fl_CR f0) 1" using assms(3) w0(1) by simp
  moreover have "NbPages e * FLASH_PAGE_SIZE + ?a = ?a + of_nat ?n * FLASH_PAGE_SIZE" by (simp add: add.commute)
  ultimately obtain st1 pe1 g k where loop: "flash_erase_loop hw (NbPages e * FLASH_PAGE_SIZE + ?a) ?a HAL_ERROR 0xFFFFFFFF f0
      = Some (st1, pe1, g)" "k \<le> ?n" "flash_erased (fl_io g) = flash_erased (fl_io f0) @ flash_pages ?a k"
      "if st1 = HAL_OK then k = ?n \<and> pe1 = 0xFFFFFFFF else pe1 = last (flash_pages ?a k)"
    using flash_erase_loop_result [OF assms(6) _ _ assms(7)] m by (metis nat.distinct(1))
  have "\<exists>st pe f1 k. HAL_FLASHEx_Erase hw e pe0 f = Some (st, pe, f1) \<and> fl_Lock f1 = HAL_UNLOCKED
    \<and> k \<le> ?n \<and> flash_erased (fl_io f1) = flash_erased (fl_io f) @ flash_pages ?a k
    \<and> (st = HAL_OK \<longrightarrow> k = ?n \<and> pe = 0xFFFFFFFF) \<and> (st \<noteq> HAL_OK \<and> k \<noteq> 0 \<longrightarrow> pe = last (flash_pages ?a k))"
  proof (cases "st0 = HAL_OK")
    case True
    with assms(1,4) w loop have "HAL_FLASHEx_Erase hw e pe0 f = Some (st1, pe1, flash_unlock g)"
      by (simp add: HAL_FLASHEx_Erase_def)
    with loop w0 show ?thesis
      by (intro exI [of _ st1] exI [of _ pe1] exI [of _ "flash_unlock g"] exI [of _ k]) (auto simp: flash_unlock_def split: if_splits)
  next
    case False
    with assms(1) w have "HAL_FLASHEx_Erase hw e pe0 f = Some (HAL_ERROR, pe0, flash_unlock f0)"
      by (simp add: HAL_FLASHEx_Erase_def)
    with w0 show ?thesis
      by (intro exI [of _ HAL_ERROR] exI [of _ pe0] exI [of _ "flash_unlock f0"] exI [of _ 0]) (auto simp: flash_unlock_def)
  qed
  with f2(1) f3 show ?thesis by blast
qed

theorem flash_erase_equivalence_witness:
  "\<exists>st pe f1 f2. HAL_FLASHEx_Erase (ticking_hw 0) \<lparr>TypeErase = FLASH_TYPEERASE_PAGES, PageAddress = 0x08010000, NbPages = 3\<rparr> 0 ex_flash
       = Some (st, pe, f1)
     \<and> HAL_FLASHEx_Erase_IT \<lparr>TypeErase = FLASH_TYPEERASE_PAGES, PageAddress = 0x08010000, NbPages = 3\<rparr> ex_flash = (HAL_OK, f2)
     \<and> flash_erased (fl_io ((HAL_FLASH_IRQHandler (ticking_hw 0x20) ^^ 3) f2)) = [0x08010000, 0x08010800, 0x08011000]"
proof -
  let ?e = "\<lparr>TypeErase = FLASH_TYPEERASE_PAGES, PageAddress = 0x08010000, NbPages = 3\<rparr> :: FLASH_EraseInitTypeDef"
  have ex: "fl_Lock ex_flash = HAL_UNLOCKED" "ProcedureOnGoing ex_flash = FLASH_PROC_NONE" "\<not> bit (fl_CR ex_flash) 1"
    "flash_erased (fl_io ex_flash) = []" by (simp_all add: ex_flash_def)
  have e: "TypeErase ?e \<noteq> FLASH_TYPEERASE_MASSERASE" "NbPages ?e \<noteq> 0" "unat (PageAddress ?e) + unat (NbPages ?e) * 2048 < 2 ^ 32"
    "unat (NbPages ?e) = 3" "PageAddress ?e = 0x08010000"
    by (simp_all add: FLASH_TYPEERASE_MASSERASE_def FLASH_TYPEERASE_PAGES_def)
  have p: "flash_pages 0x08010000 3 = [0x08010000, 0x08010800, 0x08011000]"
    by (simp add: flash_pages_def FLASH_PAGE_SIZE_def upt_rec)
  from flash_erase_equivalence [OF ex(1-3) e(1-3) ticking_hw_advances [of 0] ex_flash_completes, of 0, unfolded e(4,5) ex(4) p]
  show ?thesis by auto
qed

end
