(* ===== verification/Flash_Options.thy ===== *)
theory Flash_Options
  imports Flash_Erase
begin

text \<open>
  The option bytes of the flash (\<^verbatim>\<open>stm32f3xx_hal_flash_ex.c\<close>): write and read protection, user and data bytes; what the
  functions leave of them.
\<close>

section \<open>Reading\<close>

definition FLASH_OB_GetWRP :: "flash_hw \<Rightarrow> flash \<Rightarrow> u32 \<times> flash" where
  "FLASH_OB_GetWRP hw f = (fh_WRPR hw (fl_now f), f\<lparr>fl_now := Suc (fl_now f)\<rparr>)"

definition FLASH_OB_GetRDP :: "flash_hw \<Rightarrow> flash \<Rightarrow> u8 \<times> flash" where
  "FLASH_OB_GetRDP hw f =
     (let tmp_reg = READ_BIT (fh_OBR hw (fl_now f)) (FLASH_OBR_LEVEL1_PROT OR FLASH_OBR_LEVEL2_PROT)
      in (if tmp_reg = FLASH_OBR_LEVEL1_PROT then OB_RDP_LEVEL_1
          else if tmp_reg = FLASH_OBR_LEVEL2_PROT then OB_RDP_LEVEL_2 else OB_RDP_LEVEL_0,
          f\<lparr>fl_now := Suc (fl_now f)\<rparr>))"

definition FLASH_OB_GetUser :: "flash_hw \<Rightarrow> flash \<Rightarrow> u8 \<times> flash" where
  "FLASH_OB_GetUser hw f =
     (ucast (drop_bit 8 (fh_OBR hw (fl_now f) AND FLASH_OBR_USER)), f\<lparr>fl_now := Suc (fl_now f)\<rparr>)"

definition HAL_FLASHEx_OBGetUserData :: "flash_hw \<Rightarrow> u32 \<Rightarrow> flash \<Rightarrow> u32 \<times> flash" where
  "HAL_FLASHEx_OBGetUserData hw DATAAdress f =
     (if DATAAdress = OB_DATA_ADDRESS_DATA0 then drop_bit 16 (READ_BIT (fh_OBR hw (fl_now f)) FLASH_OBR_DATA0)
      else drop_bit 24 (READ_BIT (fh_OBR hw (fl_now f)) FLASH_OBR_DATA1), f\<lparr>fl_now := Suc (fl_now f)\<rparr>)"

definition HAL_FLASHEx_OBGetConfig ::
  "flash_hw \<Rightarrow> FLASH_OBProgramInitTypeDef \<Rightarrow> flash \<Rightarrow> FLASH_OBProgramInitTypeDef \<times> flash" where
  "HAL_FLASHEx_OBGetConfig hw p f =
     (let (wrp, f1) = FLASH_OB_GetWRP hw f; (rdp, f2) = FLASH_OB_GetRDP hw f1; (user, f3) = FLASH_OB_GetUser hw f2
      in (p\<lparr>OptionType := OPTIONBYTE_WRP OR OPTIONBYTE_RDP OR OPTIONBYTE_USER, WRPPage := wrp, RDPLevel := rdp,
            USERConfig := user\<rparr>, f3))"

section \<open>Writing\<close>

definition flash_last :: "flash_hw \<Rightarrow> flash \<Rightarrow> (HAL_StatusTypeDef \<times> flash) option" where
  "flash_last hw f = FLASH_WaitForLastOperation (fh_base hw) FLASH_TIMEOUT_VALUE f"

text \<open>\<^verbatim>\<open>if(status == HAL_OK)\<close> after a call.\<close>
definition flash_then ::
  "(flash \<Rightarrow> (HAL_StatusTypeDef \<times> flash) option) \<Rightarrow> (flash \<Rightarrow> (HAL_StatusTypeDef \<times> flash) option)
   \<Rightarrow> flash \<Rightarrow> (HAL_StatusTypeDef \<times> flash) option" where
  "flash_then a b f = do { (st, f1) \<leftarrow> a f; if st = HAL_OK then b f1 else Some (st, f1) }"

text \<open>A wait, and the clearing of a mode bit of the control register after it, whatever its outcome.\<close>
definition flash_finish :: "flash_hw \<Rightarrow> u32 \<Rightarrow> flash \<Rightarrow> (HAL_StatusTypeDef \<times> flash) option" where
  "flash_finish hw mode f = do { (st, f1) \<leftarrow> flash_last hw f; Some (st, fl_clear_CR mode f1) }"

definition flash_no_error :: "flash \<Rightarrow> flash" where
  "flash_no_error f = f\<lparr>fl_ErrorCode := HAL_FLASH_ERROR_NONE\<rparr>"

text \<open>The erasure of the option bytes, with which both functions begin.\<close>
definition flash_OB_erase :: "flash_hw \<Rightarrow> flash \<Rightarrow> (HAL_StatusTypeDef \<times> flash) option" where
  "flash_OB_erase hw =
     flash_then (flash_last hw)
       (\<lambda>f. flash_finish hw FLASH_CR_OPTER (fl_start (fl_set_CR FLASH_CR_OPTER (flash_no_error f))))"

definition FLASH_OB_RDP_LevelConfig :: "flash_hw \<Rightarrow> u8 \<Rightarrow> flash \<Rightarrow> (HAL_StatusTypeDef \<times> flash) option" where
  "FLASH_OB_RDP_LevelConfig hw level =
     flash_then (flash_OB_erase hw)
       (\<lambda>f. flash_finish hw FLASH_CR_OPTPG (fl_log (OB_write OB_RDP (ucast level)) (fl_set_CR FLASH_CR_OPTPG f)))"

definition HAL_FLASHEx_OBErase :: "flash_hw \<Rightarrow> flash \<Rightarrow> (HAL_StatusTypeDef \<times> flash) option" where
  "HAL_FLASHEx_OBErase hw f =
     (let (rdptmp, f1) = FLASH_OB_GetRDP hw f
      in flash_then (flash_OB_erase hw) (FLASH_OB_RDP_LevelConfig hw rdptmp) f1)"

text \<open>\<^verbatim>\<open>if((status == HAL_OK) && (WRPn_Data != 0xFF)) { OB->WRPn op= WRPn_Data; status = ... }\<close>\<close>
definition flash_OB_WRP ::
  "flash_hw \<Rightarrow> (u16 \<Rightarrow> u16 \<Rightarrow> u16) \<Rightarrow> ob_field \<Rightarrow> u16 \<Rightarrow> flash \<Rightarrow> (HAL_StatusTypeDef \<times> flash) option" where
  "flash_OB_WRP hw assign field data f =
     (if data = 0xFF then Some (HAL_OK, f)
      else flash_last hw (fl_log (OB_write field (assign (fh_OB hw field (fl_now f)) data))
             (f\<lparr>fl_now := Suc (fl_now f)\<rparr>)))"

definition flash_OB_write_WRP ::
  "flash_hw \<Rightarrow> (u16 \<Rightarrow> u16 \<Rightarrow> u16) \<Rightarrow> u32 \<Rightarrow> flash \<Rightarrow> (HAL_StatusTypeDef \<times> flash) option" where
  "flash_OB_write_WRP hw assign pages =
     flash_then (flash_OB_WRP hw assign OB_WRP0 (ucast (pages AND OB_WRP_PAGES0TO15MASK)))
    (flash_then (flash_OB_WRP hw assign OB_WRP1 (ucast (drop_bit 8 (pages AND OB_WRP_PAGES16TO31MASK))))
    (flash_then (flash_OB_WRP hw assign OB_WRP2 (ucast (drop_bit 16 (pages AND OB_WRP_PAGES32TO47MASK))))
                (flash_OB_WRP hw assign OB_WRP3 (ucast (drop_bit 24 (pages AND OB_WRP_PAGES48TO127MASK))))))"

text \<open>The common body of the two functions for the write protection.\<close>
definition flash_OB_change_WRP ::
  "flash_hw \<Rightarrow> (u16 \<Rightarrow> u16 \<Rightarrow> u16) \<Rightarrow> u32 \<Rightarrow> flash \<Rightarrow> (HAL_StatusTypeDef \<times> flash) option" where
  "flash_OB_change_WRP hw assign pages =
     flash_then (flash_last hw) (flash_then (HAL_FLASHEx_OBErase hw \<circ> flash_no_error)
       (\<lambda>f. do { (st, f1) \<leftarrow> flash_OB_write_WRP hw assign pages (fl_set_CR FLASH_CR_OPTPG f);
                 Some (st, fl_clear_CR FLASH_CR_OPTPG f1) }))"

definition FLASH_OB_EnableWRP :: "flash_hw \<Rightarrow> u32 \<Rightarrow> flash \<Rightarrow> (HAL_StatusTypeDef \<times> flash) option" where
  "FLASH_OB_EnableWRP hw WriteProtectPage f =
     (let (wrp, f1) = FLASH_OB_GetWRP hw f
      in flash_OB_change_WRP hw (AND) (NOT (NOT wrp OR WriteProtectPage)) f1)"

definition FLASH_OB_DisableWRP :: "flash_hw \<Rightarrow> u32 \<Rightarrow> flash \<Rightarrow> (HAL_StatusTypeDef \<times> flash) option" where
  "FLASH_OB_DisableWRP hw WriteProtectPage f =
     (let (wrp, f1) = FLASH_OB_GetWRP hw f
      in flash_OB_change_WRP hw (OR) (wrp OR WriteProtectPage) f1)"

definition FLASH_OB_UserConfig :: "flash_hw \<Rightarrow> u8 \<Rightarrow> flash \<Rightarrow> (HAL_StatusTypeDef \<times> flash) option" where
  "FLASH_OB_UserConfig hw UserConfig =
     flash_then (flash_last hw)
       (\<lambda>f. flash_finish hw FLASH_CR_OPTPG
              (fl_log (OB_write OB_USER (ucast UserConfig OR 8)) (fl_set_CR FLASH_CR_OPTPG (flash_no_error f))))"

definition FLASH_OB_ProgramData :: "flash_hw \<Rightarrow> u32 \<Rightarrow> u8 \<Rightarrow> flash \<Rightarrow> (HAL_StatusTypeDef \<times> flash) option" where
  "FLASH_OB_ProgramData hw Address Data =
     flash_then (flash_last hw)
       (\<lambda>f. flash_finish hw FLASH_CR_OPTPG
              (fl_log (HALFWORD_write Address (ucast Data)) (fl_set_CR FLASH_CR_OPTPG (flash_no_error f))))"

text \<open>One of the four parts of \<^verbatim>\<open>HAL_FLASHEx_OBProgram\<close>, with its early return; a part that is not selected leaves the status
  of the parts before it.\<close>
definition flash_OB_part ::
  "bool \<Rightarrow> (flash \<Rightarrow> (HAL_StatusTypeDef \<times> flash) option)
   \<Rightarrow> (HAL_StatusTypeDef \<times> flash \<Rightarrow> (HAL_StatusTypeDef \<times> flash) option)
   \<Rightarrow> HAL_StatusTypeDef \<times> flash \<Rightarrow> (HAL_StatusTypeDef \<times> flash) option" where
  "flash_OB_part selected part continue x =
     (if selected
      then do { (st, f) \<leftarrow> part (snd x); if st \<noteq> HAL_OK then Some (st, flash_unlock f) else continue (st, f) }
      else continue x)"

definition HAL_FLASHEx_OBProgram ::
  "flash_hw \<Rightarrow> FLASH_OBProgramInitTypeDef \<Rightarrow> flash \<Rightarrow> (HAL_StatusTypeDef \<times> flash) option" where
  "HAL_FLASHEx_OBProgram hw p f =
     (let selected = (\<lambda>b. OptionType p AND b = b) in
      if fl_Lock f = HAL_LOCKED then Some (HAL_BUSY, f)
      else flash_OB_part (selected OPTIONBYTE_WRP)
             (if WRPState p = OB_WRPSTATE_ENABLE then FLASH_OB_EnableWRP hw (WRPPage p) else FLASH_OB_DisableWRP hw (WRPPage p))
          (flash_OB_part (selected OPTIONBYTE_RDP) (FLASH_OB_RDP_LevelConfig hw (RDPLevel p))
          (flash_OB_part (selected OPTIONBYTE_USER) (FLASH_OB_UserConfig hw (USERConfig p))
          (flash_OB_part (selected OPTIONBYTE_DATA) (FLASH_OB_ProgramData hw (DATAAddress p) (DATAData p))
             (\<lambda>(st, f). Some (st, flash_unlock f))))) (HAL_ERROR, f\<lparr>fl_Lock := HAL_LOCKED\<rparr>))"

section \<open>What the functions write\<close>

text \<open>Everything \<open>a\<close> logs satisfies \<open>P\<close>, and when it succeeds its log has an entry of every kind in \<open>R\<close>.\<close>
definition flash_writes ::
  "(flash_io \<Rightarrow> bool) \<Rightarrow> (flash_io \<Rightarrow> bool) set \<Rightarrow> (flash \<Rightarrow> (HAL_StatusTypeDef \<times> flash) option) \<Rightarrow> bool" where
  "flash_writes P R a \<longleftrightarrow> (\<forall>f st f1. a f = Some (st, f1) \<longrightarrow>
     (\<exists>l. fl_io f1 = fl_io f @ l \<and> list_all P l \<and> (st = HAL_OK \<longrightarrow> (\<forall>p\<in>R. \<exists>e\<in>set l. p e))))"

lemma flash_writesD:
  assumes "flash_writes P R a" "a f = Some (st, f1)"
  obtains l where "fl_io f1 = fl_io f @ l" "list_all P l" "st = HAL_OK \<Longrightarrow> \<forall>p\<in>R. \<exists>e\<in>set l. p e"
  using assms unfolding flash_writes_def by blast

lemma flash_writes_log:
  assumes "flash_writes P R a" "a f = Some (st, f1)"
  obtains l where "fl_io f1 = fl_io f @ l" "list_all P l"
  using assms unfolding flash_writes_def by blast

lemma flash_writes_then:
  assumes "flash_writes P R a" "flash_writes P S b"
  shows "flash_writes P (R \<union> S) (flash_then a b)"
  unfolding flash_writes_def
proof (intro allI impI)
  fix f st f2 assume "flash_then a b f = Some (st, f2)"
  then obtain st1 f1 where 1: "a f = Some (st1, f1)"
    "if st1 = HAL_OK then b f1 = Some (st, f2) else st = st1 \<and> f2 = f1"
    by (auto simp: flash_then_def bind_eq_Some_conv split: if_splits)
  obtain l where l: "fl_io f1 = fl_io f @ l" "list_all P l" "st1 = HAL_OK \<longrightarrow> (\<forall>p\<in>R. \<exists>e\<in>set l. p e)"
    using assms(1) 1(1) unfolding flash_writes_def by blast
  show "\<exists>l. fl_io f2 = fl_io f @ l \<and> list_all P l \<and> (st = HAL_OK \<longrightarrow> (\<forall>p\<in>R \<union> S. \<exists>e\<in>set l. p e))"
  proof (cases "st1 = HAL_OK")
    case True
    with 1(2) have "b f1 = Some (st, f2)" by simp
    with assms(2) obtain m where "fl_io f2 = fl_io f1 @ m" "list_all P m" "st = HAL_OK \<longrightarrow> (\<forall>p\<in>S. \<exists>e\<in>set m. p e)"
      unfolding flash_writes_def by blast
    with l True show ?thesis by (intro exI [of _ "l @ m"]) auto
  qed (use 1(2) l in auto)
qed

lemma flash_writes_last:
  assumes "\<And>v. P (SR_write v)"
  shows "flash_writes P {} (flash_last hw)"
  unfolding flash_writes_def
proof (intro allI impI)
  fix f st f1 assume "flash_last hw f = Some (st, f1)"
  then obtain l where "fl_io f1 = fl_io f @ map SR_write l"
    using flash_wait_fields(5) unfolding flash_last_def by blast
  then show "\<exists>l. fl_io f1 = fl_io f @ l \<and> list_all P l \<and> (st = HAL_OK \<longrightarrow> (\<forall>p\<in>{}. \<exists>e\<in>set l. p e))"
    using assms by (intro exI [of _ "map SR_write l"]) (simp add: list_all_iff)
qed

text \<open>A write followed by a wait.\<close>
lemma flash_writes_finish:
  assumes "\<And>v. P (SR_write v)" "\<And>f. \<exists>e. fl_io (g f) = fl_io f @ [e] \<and> P e \<and> (\<forall>p\<in>R. p e)"
  shows "flash_writes P R (\<lambda>f. flash_finish hw mode (g f))" "flash_writes P R (\<lambda>f. flash_last hw (g f))"
proof -
  have "\<exists>l. fl_io f1 = fl_io f @ l \<and> list_all P l \<and> (st = HAL_OK \<longrightarrow> (\<forall>p\<in>R. \<exists>e\<in>set l. p e))"
    if last: "flash_last hw (g f) = Some (st, f1)" for f st f1
  proof -
    obtain e where e: "fl_io (g f) = fl_io f @ [e]" "P e" "\<forall>p\<in>R. p e" using assms(2) by blast
    obtain l where "fl_io f1 = fl_io (g f) @ map SR_write l"
      using last flash_wait_fields(5) unfolding flash_last_def by blast
    with e assms(1) show ?thesis by (intro exI [of _ "e # map SR_write l"]) (auto simp: list_all_iff)
  qed
  then show "flash_writes P R (\<lambda>f. flash_finish hw mode (g f))" "flash_writes P R (\<lambda>f. flash_last hw (g f))"
    by (auto simp: flash_writes_def flash_finish_def fl_clear_CR_def bind_eq_Some_conv)
qed

lemma flash_writes_weaken: "flash_writes P R a \<Longrightarrow> (\<And>e. P e \<Longrightarrow> Q e) \<Longrightarrow> S \<subseteq> R \<Longrightarrow> flash_writes Q S a"
  unfolding flash_writes_def list_all_iff by (meson subsetD)

lemma flash_writes_comp:
  assumes "flash_writes P R a" "\<And>f. fl_io (g f) = fl_io f"
  shows "flash_writes P R (a \<circ> g)"
  using assms unfolding flash_writes_def o_apply by metis

lemma flash_writes_around:
  assumes "flash_writes P R a" "\<And>f. fl_io (g f) = fl_io f" "\<And>f. fl_io (h f) = fl_io f"
  shows "flash_writes P R (\<lambda>f. do { (st, f1) \<leftarrow> a (g f); Some (st, h f1) })"
  unfolding flash_writes_def
proof (intro allI impI)
  fix f st f1 assume "do { (st, f1) \<leftarrow> a (g f); Some (st, h f1) } = Some (st, f1)"
  then obtain f2 where 1: "a (g f) = Some (st, f2)" "f1 = h f2" by (auto simp: bind_eq_Some_conv)
  with assms(1) have "\<exists>l. fl_io f2 = fl_io (g f) @ l \<and> list_all P l \<and> (st = HAL_OK \<longrightarrow> (\<forall>p\<in>R. \<exists>e\<in>set l. p e))"
    unfolding flash_writes_def by blast
  then show "\<exists>l. fl_io f1 = fl_io f @ l \<and> list_all P l \<and> (st = HAL_OK \<longrightarrow> (\<forall>p\<in>R. \<exists>e\<in>set l. p e))"
    by (simp only: 1(2) assms(2,3))
qed

definition is_erase :: "flash_io \<Rightarrow> bool" where
  "is_erase e \<longleftrightarrow> (\<exists>cr. e = START cr \<and> bit cr 5)"

definition wrp_fields :: "ob_field set" where
  "wrp_fields = {OB_WRP0, OB_WRP1, OB_WRP2, OB_WRP3}"

definition is_wrp :: "flash_io \<Rightarrow> bool" where
  "is_wrp e \<longleftrightarrow> (\<exists>x v. e = OB_write x v \<and> x \<in> wrp_fields)"

lemma is_wrp_simps [simp]: "\<not> is_wrp (SR_write v)" "\<not> is_wrp (START v)" "\<not> is_wrp (HALFWORD_write a d)"
  "is_wrp (OB_write x w) \<longleftrightarrow> x \<in> wrp_fields"
  by (simp_all add: is_wrp_def)

lemma OB_erase_writes: "flash_writes (\<lambda>e. \<not> is_wrp e) {is_erase} (flash_OB_erase hw)"
proof -
  have "flash_writes (\<lambda>e. \<not> is_wrp e) {is_erase}
      (\<lambda>f. flash_finish hw FLASH_CR_OPTER (fl_start (fl_set_CR FLASH_CR_OPTER (flash_no_error f))))"
    by (rule flash_writes_finish)
      (auto simp: flash_macros flash_no_error_def is_erase_def hal_simps FLASH_CR_OPTER_def FLASH_CR_STRT_def bit_or_iff)
  from flash_writes_then [OF flash_writes_last this] show ?thesis by (simp add: flash_OB_erase_def)
qed

lemma RDP_writes: "flash_writes (\<lambda>e. \<not> is_wrp e) {is_erase} (FLASH_OB_RDP_LevelConfig hw level)"
proof -
  have "flash_writes (\<lambda>e. \<not> is_wrp e) {}
      (\<lambda>f. flash_finish hw FLASH_CR_OPTPG (fl_log (OB_write OB_RDP (ucast level)) (fl_set_CR FLASH_CR_OPTPG f)))"
    by (rule flash_writes_finish) (auto simp: flash_macros wrp_fields_def)
  from flash_writes_then [OF OB_erase_writes this] show ?thesis by (simp add: FLASH_OB_RDP_LevelConfig_def)
qed

text \<open>Reading a register before a function.\<close>
lemma flash_writes_read:
  assumes "\<And>x. flash_writes P R (a x)"
  shows "flash_writes P R (\<lambda>f. a (v f) (f\<lparr>fl_now := t f\<rparr>))"
  unfolding flash_writes_def
proof (intro allI impI)
  fix f st f1 assume "a (v f) (f\<lparr>fl_now := t f\<rparr>) = Some (st, f1)"
  then have "\<exists>l. fl_io f1 = fl_io (f\<lparr>fl_now := t f\<rparr>) @ l \<and> list_all P l \<and> (st = HAL_OK \<longrightarrow> (\<forall>p\<in>R. \<exists>e\<in>set l. p e))"
    using assms [of "v f"] unfolding flash_writes_def by blast
  then show "\<exists>l. fl_io f1 = fl_io f @ l \<and> list_all P l \<and> (st = HAL_OK \<longrightarrow> (\<forall>p\<in>R. \<exists>e\<in>set l. p e))" by simp
qed

lemma HAL_FLASHEx_OBErase_read:
  "HAL_FLASHEx_OBErase hw = (\<lambda>f. flash_then (flash_OB_erase hw) (FLASH_OB_RDP_LevelConfig hw (fst (FLASH_OB_GetRDP hw f)))
     (f\<lparr>fl_now := Suc (fl_now f)\<rparr>))"
proof
  fix f
  have "FLASH_OB_GetRDP hw f = (fst (FLASH_OB_GetRDP hw f), f\<lparr>fl_now := Suc (fl_now f)\<rparr>)"
    by (simp add: FLASH_OB_GetRDP_def Let_def)
  then show "HAL_FLASHEx_OBErase hw f = flash_then (flash_OB_erase hw)
      (FLASH_OB_RDP_LevelConfig hw (fst (FLASH_OB_GetRDP hw f))) (f\<lparr>fl_now := Suc (fl_now f)\<rparr>)"
    unfolding HAL_FLASHEx_OBErase_def Let_def by (metis (no_types, lifting) case_prod_conv)
qed

lemma OBErase_writes: "flash_writes (\<lambda>e. \<not> is_wrp e) {is_erase} (HAL_FLASHEx_OBErase hw)"
proof -
  have "flash_writes (\<lambda>e. \<not> is_wrp e) {is_erase} (flash_then (flash_OB_erase hw) (FLASH_OB_RDP_LevelConfig hw level))" for level
    using flash_writes_then [OF OB_erase_writes RDP_writes [of hw level]] by simp
  from flash_writes_read [OF this] show ?thesis unfolding HAL_FLASHEx_OBErase_read .
qed

lemma User_Data_writes:
  "flash_writes (\<lambda>e. \<not> is_wrp e) {} (FLASH_OB_UserConfig hw u)" "flash_writes (\<lambda>e. \<not> is_wrp e) {} (FLASH_OB_ProgramData hw a d)"
proof -
  have "flash_writes (\<lambda>e. \<not> is_wrp e) {} (\<lambda>f. flash_finish hw FLASH_CR_OPTPG
      (fl_log (OB_write OB_USER (ucast u OR 8)) (fl_set_CR FLASH_CR_OPTPG (flash_no_error f))))"
    "flash_writes (\<lambda>e. \<not> is_wrp e) {} (\<lambda>f. flash_finish hw FLASH_CR_OPTPG
      (fl_log (HALFWORD_write a (ucast d)) (fl_set_CR FLASH_CR_OPTPG (flash_no_error f))))"
    by (rule flash_writes_finish; auto simp: flash_macros flash_no_error_def wrp_fields_def)+
  moreover have "flash_writes (\<lambda>e. \<not> is_wrp e) {} b \<Longrightarrow> flash_writes (\<lambda>e. \<not> is_wrp e) {} (flash_then (flash_last hw) b)" for b
    using flash_writes_then [OF flash_writes_last, of "\<lambda>e. \<not> is_wrp e" "{}" b hw] by simp
  ultimately show "flash_writes (\<lambda>e. \<not> is_wrp e) {} (FLASH_OB_UserConfig hw u)"
    "flash_writes (\<lambda>e. \<not> is_wrp e) {} (FLASH_OB_ProgramData hw a d)"
    by (simp_all add: FLASH_OB_UserConfig_def FLASH_OB_ProgramData_def)
qed

section \<open>The write protection\<close>

text \<open>The byte of a protection word that belongs to a field; a cleared bit protects its pages.\<close>
fun wrp_data :: "u32 \<Rightarrow> ob_field \<Rightarrow> u16" where
  "wrp_data pages OB_WRP0 = ucast (pages AND OB_WRP_PAGES0TO15MASK)"
| "wrp_data pages OB_WRP1 = ucast (drop_bit 8 (pages AND OB_WRP_PAGES16TO31MASK))"
| "wrp_data pages OB_WRP2 = ucast (drop_bit 16 (pages AND OB_WRP_PAGES32TO47MASK))"
| "wrp_data pages OB_WRP3 = ucast (drop_bit 24 (pages AND OB_WRP_PAGES48TO127MASK))"
| "wrp_data pages _ = 0"

text \<open>What is written to a field: the value read from it, combined with its byte.\<close>
definition wrp_written :: "flash_hw \<Rightarrow> (u16 \<Rightarrow> u16 \<Rightarrow> u16) \<Rightarrow> u32 \<Rightarrow> flash_io \<Rightarrow> bool" where
  "wrp_written hw assign pages e \<longleftrightarrow>
     (\<forall>x v. e = OB_write x v \<and> x \<in> wrp_fields \<longrightarrow> (\<exists>t. v = assign (fh_OB hw x t) (wrp_data pages x)))"

definition writes_field :: "ob_field \<Rightarrow> flash_io \<Rightarrow> bool" where
  "writes_field x e \<longleftrightarrow> (\<exists>v. e = OB_write x v)"

lemma OB_WRP_writes:
  assumes "x \<in> wrp_fields"
  shows "flash_writes (wrp_written hw assign pages) (if wrp_data pages x = 0xFF then {} else {writes_field x})
    (flash_OB_WRP hw assign x (wrp_data pages x))"
proof (cases "wrp_data pages x = 0xFF")
  case True
  then show ?thesis by (auto simp: flash_writes_def flash_OB_WRP_def)
next
  case False
  have "flash_writes (wrp_written hw assign pages) {writes_field x}
      (\<lambda>f. flash_last hw (fl_log (OB_write x (assign (fh_OB hw x (fl_now f)) (wrp_data pages x))) (f\<lparr>fl_now := Suc (fl_now f)\<rparr>)))"
    by (rule flash_writes_finish) (auto simp: wrp_written_def writes_field_def fl_log_def)
  moreover have "flash_OB_WRP hw assign x (wrp_data pages x)
      = (\<lambda>f. flash_last hw (fl_log (OB_write x (assign (fh_OB hw x (fl_now f)) (wrp_data pages x))) (f\<lparr>fl_now := Suc (fl_now f)\<rparr>)))"
    using False by (simp add: flash_OB_WRP_def fun_eq_iff)
  ultimately show ?thesis using False by simp
qed

lemma OB_write_WRP_writes:
  "flash_writes (wrp_written hw assign pages) {writes_field x |x. x \<in> wrp_fields \<and> wrp_data pages x \<noteq> 0xFF}
     (flash_OB_write_WRP hw assign pages)"
proof -
  let ?w = "\<lambda>x. flash_OB_WRP hw assign x (wrp_data pages x)" and ?R = "\<lambda>x. if wrp_data pages x = 0xFF then {} else {writes_field x}"
  have f: "flash_writes (wrp_written hw assign pages) (?R x) (?w x)" if "x \<in> wrp_fields" for x
    using OB_WRP_writes [OF that] .
  have "flash_writes (wrp_written hw assign pages) (?R OB_WRP0 \<union> (?R OB_WRP1 \<union> (?R OB_WRP2 \<union> ?R OB_WRP3)))
      (flash_then (?w OB_WRP0) (flash_then (?w OB_WRP1) (flash_then (?w OB_WRP2) (?w OB_WRP3))))"
    by (intro flash_writes_then f) (simp_all add: wrp_fields_def)
  then have "flash_writes (wrp_written hw assign pages) (?R OB_WRP0 \<union> (?R OB_WRP1 \<union> (?R OB_WRP2 \<union> ?R OB_WRP3)))
      (flash_OB_write_WRP hw assign pages)" unfolding flash_OB_write_WRP_def by simp
  then show ?thesis by (rule flash_writes_weaken) (auto simp: wrp_fields_def)
qed

lemma OB_change_WRP_writes:
  "flash_writes (wrp_written hw assign pages) {writes_field x |x. x \<in> wrp_fields \<and> wrp_data pages x \<noteq> 0xFF}
     (flash_OB_change_WRP hw assign pages)"
proof -
  let ?R = "{writes_field x |x. x \<in> wrp_fields \<and> wrp_data pages x \<noteq> 0xFF}"
  have "wrp_written hw assign pages e" if "\<not> is_wrp e" for e using that by (auto simp: wrp_written_def is_wrp_def)
  with flash_writes_weaken [OF OBErase_writes] have "flash_writes (wrp_written hw assign pages) {} (HAL_FLASHEx_OBErase hw)" by blast
  then have 1: "flash_writes (wrp_written hw assign pages) {} (HAL_FLASHEx_OBErase hw \<circ> flash_no_error)"
    by (rule flash_writes_comp) (simp add: flash_no_error_def)
  have 2: "flash_writes (wrp_written hw assign pages) ?R
      (\<lambda>f. do { (st, f1) \<leftarrow> flash_OB_write_WRP hw assign pages (fl_set_CR FLASH_CR_OPTPG f); Some (st, fl_clear_CR FLASH_CR_OPTPG f1) })"
    by (rule flash_writes_around [OF OB_write_WRP_writes]) (simp_all add: flash_macros)
  have "flash_writes (wrp_written hw assign pages) {} (flash_last hw)" by (rule flash_writes_last) (simp add: wrp_written_def)
  from flash_writes_then [OF this flash_writes_then [OF 1 2]] show ?thesis by (simp add: flash_OB_change_WRP_def)
qed

lemma or_and_absorb: "c OR (d AND c) = c" for c d :: u16
  by (rule bit_word_eqI) (auto simp: bit_or_iff bit_and_iff)

lemma wrp_data_byte: "wrp_data p x AND 0xFF = wrp_data p x"
  by (cases x) (simp_all add: drop_bit_and unsigned_and_eq and.assoc OB_WRP_PAGES0TO15MASK_def OB_WRP_PAGES16TO31MASK_def
      OB_WRP_PAGES32TO47MASK_def OB_WRP_PAGES48TO127MASK_def)


lemma flash_writes_part:
  assumes "flash_writes P {} a" "\<And>st. flash_writes P {} (\<lambda>f. k (st, f))"
  shows "flash_writes P {} (\<lambda>f. flash_OB_part sel a k (st, f))"
  unfolding flash_writes_def
proof (intro allI impI)
  fix f st' f2 assume part: "flash_OB_part sel a k (st, f) = Some (st', f2)"
  have more: "\<exists>l. fl_io f2 = fl_io g @ l \<and> list_all P l" if "k (st1, g) = Some (st', f2)" for st1 g
    using assms(2) [of st1] that unfolding flash_writes_def by blast
  have "\<exists>l. fl_io f2 = fl_io f @ l \<and> list_all P l"
  proof (cases sel)
    case True
    with part obtain st1 f1 where 1: "a f = Some (st1, f1)"
      "if st1 \<noteq> HAL_OK then f2 = flash_unlock f1 else k (st1, f1) = Some (st', f2)"
      by (auto simp: flash_OB_part_def bind_eq_Some_conv split: if_splits)
    then obtain l where l: "fl_io f1 = fl_io f @ l" "list_all P l" using assms(1) unfolding flash_writes_def by blast
    then show ?thesis using 1(2) more [of st1 f1] by (cases "st1 = HAL_OK") (auto simp: flash_unlock_def)
  qed (use part more in \<open>simp add: flash_OB_part_def\<close>)
  then show "\<exists>l. fl_io f2 = fl_io f @ l \<and> list_all P l \<and> (st' = HAL_OK \<longrightarrow> (\<forall>p\<in>{}. \<exists>e\<in>set l. p e))" by simp
qed

text \<open>C37: programming the write protection and the read protection in one call: the read protection erases the option
  bytes again after the write protection has been written and nothing writes it a second time, yet the call succeeds.\<close>
theorem flash_read_protection_erases_write_protection:
  assumes "HAL_FLASHEx_OBProgram hw p f = Some (HAL_OK, f1)"
    "OptionType p AND OPTIONBYTE_WRP = OPTIONBYTE_WRP" "OptionType p AND OPTIONBYTE_RDP = OPTIONBYTE_RDP"
  shows "\<exists>before cr after. fl_io f1 = before @ START cr # after \<and> bit cr 5 \<and> (\<forall>e\<in>set after. \<not> is_wrp e)"
proof -
  let ?user = "flash_OB_part (OptionType p AND OPTIONBYTE_USER = OPTIONBYTE_USER) (FLASH_OB_UserConfig hw (USERConfig p))
          (flash_OB_part (OptionType p AND OPTIONBYTE_DATA = OPTIONBYTE_DATA) (FLASH_OB_ProgramData hw (DATAAddress p) (DATAData p))
             (\<lambda>(st, f). Some (st, flash_unlock f)))"
  from assms obtain g h where g: "FLASH_OB_RDP_LevelConfig hw (RDPLevel p) g = Some (HAL_OK, h)"
    "?user (HAL_OK, h) = Some (HAL_OK, f1)"
    by (auto simp: HAL_FLASHEx_OBProgram_def flash_OB_part_def [of True] bind_eq_Some_conv split: if_splits)
  from flash_writesD [OF RDP_writes g(1)] obtain l where l: "fl_io h = fl_io g @ l" "list_all (\<lambda>e. \<not> is_wrp e) l"
    "\<exists>e\<in>set l. is_erase e" by auto
  then obtain a cr b where ab: "l = a @ START cr # b" "bit cr 5" by (auto simp: is_erase_def dest!: split_list)
  have "flash_writes (\<lambda>e. \<not> is_wrp e) {} (\<lambda>f. ?user (HAL_OK, f))"
    by (rule flash_writes_part [OF User_Data_writes(1)], rule flash_writes_part [OF User_Data_writes(2)])
      (simp add: flash_writes_def flash_unlock_def)
  from flash_writes_log [OF this g(2)] obtain m where "fl_io f1 = fl_io h @ m" "list_all (\<lambda>e. \<not> is_wrp e) m" by auto
  with l ab show ?thesis
    by (intro exI [of _ "fl_io g @ a"] exI [of _ cr] exI [of _ "b @ m"]) (auto simp: list_all_iff)
qed

section \<open>A flash that accepts every command\<close>

definition ex_flash_hw :: flash_hw where
  "ex_flash_hw = \<lparr>fh_base = ticking_hw 0x20, fh_OB = (\<lambda>_ _. 0xFFFF), fh_OBR = (\<lambda>_. 0), fh_WRPR = (\<lambda>_. 0xFFFFFFFF)\<rparr>"

text \<open>Both functions return on a flash whose operations succeed.\<close>
definition flash_succeeds :: "(flash \<Rightarrow> (HAL_StatusTypeDef \<times> flash) option) \<Rightarrow> bool" where
  "flash_succeeds a \<longleftrightarrow> (\<forall>f. \<exists>f1. a f = Some (HAL_OK, f1))"

lemma flash_succeeds_then: "flash_succeeds a \<Longrightarrow> flash_succeeds b \<Longrightarrow> flash_succeeds (flash_then a b)"
  unfolding flash_succeeds_def
proof
  fix f assume a: "\<forall>f. \<exists>f1. a f = Some (HAL_OK, f1)" and b: "\<forall>f. \<exists>f1. b f = Some (HAL_OK, f1)"
  obtain g where "a f = Some (HAL_OK, g)" using a by blast
  moreover obtain h where "b g = Some (HAL_OK, h)" using b by blast
  ultimately show "\<exists>f1. flash_then a b f = Some (HAL_OK, f1)" by (simp add: flash_then_def)
qed

lemma ex_last_succeeds: "\<exists>f1. flash_last ex_flash_hw f = Some (HAL_OK, f1)"
  using ex_flash_wait [of f] by (simp add: flash_last_def ex_flash_hw_def)

lemma ex_finish_succeeds: "flash_succeeds (\<lambda>f. flash_finish ex_flash_hw mode (g f))" "flash_succeeds (flash_last ex_flash_hw)"
  using ex_last_succeeds by (auto simp: flash_succeeds_def flash_finish_def bind_eq_Some_conv)

lemma ex_OB_succeeds:
  "flash_succeeds (flash_OB_erase ex_flash_hw)" "flash_succeeds (FLASH_OB_RDP_LevelConfig ex_flash_hw level)"
  "flash_succeeds (HAL_FLASHEx_OBErase ex_flash_hw)"
proof -
  show e: "flash_succeeds (flash_OB_erase ex_flash_hw)"
    unfolding flash_OB_erase_def by (intro flash_succeeds_then ex_finish_succeeds)
  have r: "flash_succeeds (FLASH_OB_RDP_LevelConfig ex_flash_hw level)" for level
    unfolding FLASH_OB_RDP_LevelConfig_def by (intro flash_succeeds_then e ex_finish_succeeds)
  then show "flash_succeeds (FLASH_OB_RDP_LevelConfig ex_flash_hw level)" .
  show "flash_succeeds (HAL_FLASHEx_OBErase ex_flash_hw)"
    using flash_succeeds_then [OF e r] unfolding HAL_FLASHEx_OBErase_read by (simp add: flash_succeeds_def)
qed

lemma ex_change_succeeds: "flash_succeeds (flash_OB_change_WRP ex_flash_hw assign pages)"
proof -
  have "flash_succeeds (flash_OB_WRP ex_flash_hw assign x d)" for x d
    using ex_last_succeeds by (simp add: flash_succeeds_def flash_OB_WRP_def)
  then have "flash_succeeds (flash_OB_write_WRP ex_flash_hw assign pages)"
    unfolding flash_OB_write_WRP_def by (intro flash_succeeds_then)
  then have "flash_succeeds (\<lambda>f. do { (st, f1) \<leftarrow> flash_OB_write_WRP ex_flash_hw assign pages (fl_set_CR FLASH_CR_OPTPG f);
      Some (st, fl_clear_CR FLASH_CR_OPTPG f1) })"
    by (auto simp: flash_succeeds_def bind_eq_Some_conv)
  moreover have "flash_succeeds (HAL_FLASHEx_OBErase ex_flash_hw \<circ> flash_no_error)"
    using ex_OB_succeeds(3) by (simp add: flash_succeeds_def)
  ultimately show ?thesis unfolding flash_OB_change_WRP_def by (intro flash_succeeds_then ex_finish_succeeds)
qed

lemma ex_WRP_succeeds: "\<exists>f1. FLASH_OB_EnableWRP ex_flash_hw pages f = Some (HAL_OK, f1)"
  "\<exists>f1. FLASH_OB_DisableWRP ex_flash_hw pages f = Some (HAL_OK, f1)"
  using ex_change_succeeds unfolding flash_succeeds_def
  by (simp_all add: FLASH_OB_EnableWRP_def FLASH_OB_DisableWRP_def FLASH_OB_GetWRP_def)


definition ex_protection :: FLASH_OBProgramInitTypeDef where
  "ex_protection = \<lparr>OptionType = OPTIONBYTE_WRP OR OPTIONBYTE_RDP, WRPState = OB_WRPSTATE_ENABLE, WRPPage = 1,
     RDPLevel = OB_RDP_LEVEL_1, USERConfig = 0, DATAAddress = 0, DATAData = 0\<rparr>"

theorem flash_read_protection_erases_write_protection_witness:
  "\<exists>f1 before cr after. HAL_FLASHEx_OBProgram ex_flash_hw ex_protection ex_flash = Some (HAL_OK, f1)
     \<and> fl_io f1 = before @ START cr # after \<and> bit cr 5 \<and> (\<forall>e\<in>set after. \<not> is_wrp e)"
proof -
  have sel: "OptionType ex_protection AND OPTIONBYTE_WRP = OPTIONBYTE_WRP" "OptionType ex_protection AND OPTIONBYTE_RDP = OPTIONBYTE_RDP"
    "OptionType ex_protection AND OPTIONBYTE_USER \<noteq> OPTIONBYTE_USER" "OptionType ex_protection AND OPTIONBYTE_DATA \<noteq> OPTIONBYTE_DATA"
    "WRPState ex_protection = OB_WRPSTATE_ENABLE" "fl_Lock ex_flash = HAL_UNLOCKED"
    by (simp_all add: ex_protection_def ex_flash_def OPTIONBYTE_WRP_def OPTIONBYTE_RDP_def OPTIONBYTE_USER_def OPTIONBYTE_DATA_def)
  obtain g where g: "FLASH_OB_EnableWRP ex_flash_hw (WRPPage ex_protection) (ex_flash\<lparr>fl_Lock := HAL_LOCKED\<rparr>) = Some (HAL_OK, g)"
    using ex_WRP_succeeds(1) by blast
  obtain h where h: "FLASH_OB_RDP_LevelConfig ex_flash_hw (RDPLevel ex_protection) g = Some (HAL_OK, h)"
    using ex_OB_succeeds(2) unfolding flash_succeeds_def by blast
  have p: "HAL_FLASHEx_OBProgram ex_flash_hw ex_protection ex_flash = Some (HAL_OK, flash_unlock h)"
    using sel g h by (simp add: HAL_FLASHEx_OBProgram_def flash_OB_part_def)
  from flash_read_protection_erases_write_protection [OF p sel(1,2)] p show ?thesis by blast
qed

end
