(* ===== verification/Flash_Lock.thy ===== *)
theory Flash_Lock
  imports Flash_Options
begin

text \<open>
  The lock of the flash driver: between calls it is held exactly while an interrupt-driven operation is going on, and
  when it is free the control register is back in its idle mode.
\<close>

text \<open>\<^verbatim>\<open>PG\<close>, \<^verbatim>\<open>PER\<close>, \<^verbatim>\<open>MER\<close> and the two interrupt enables.\<close>
definition FLASH_BUSY_BITS :: u32 where "FLASH_BUSY_BITS = 0x1407"

definition flash_same :: "flash \<Rightarrow> flash \<Rightarrow> bool" where
  "flash_same f g \<longleftrightarrow> fl_Lock g = fl_Lock f \<and> ProcedureOnGoing g = ProcedureOnGoing f
     \<and> fl_CR g AND FLASH_BUSY_BITS = fl_CR f AND FLASH_BUSY_BITS"

definition flash_keeps :: "(flash \<Rightarrow> (HAL_StatusTypeDef \<times> flash) option) \<Rightarrow> bool" where
  "flash_keeps a \<longleftrightarrow> (\<forall>f st g. a f = Some (st, g) \<longrightarrow> flash_same f g)"

lemma flash_same_trans: "flash_same f g \<Longrightarrow> flash_same g h \<Longrightarrow> flash_same f h"
  by (simp add: flash_same_def)

lemma flash_keepsD: "flash_keeps a \<Longrightarrow> a f = Some (st, g) \<Longrightarrow> flash_same f g"
  by (auto simp: flash_keeps_def)

lemma flash_keeps_then: "flash_keeps a \<Longrightarrow> flash_keeps b \<Longrightarrow> flash_keeps (flash_then a b)"
  unfolding flash_keeps_def flash_then_def
  by (auto simp: bind_eq_Some_conv split: if_splits) (blast intro: flash_same_trans)

lemma flash_same_wait: "FLASH_WaitForLastOperation hw tmo f = Some (st, g) \<Longrightarrow> flash_same f g"
  using flash_wait_fields [of hw tmo f st g] by (simp add: flash_same_def)

lemma mode_bits: "(c AND NOT m) AND b = c AND b" "(c OR m) AND b = c AND b" if "m AND b = 0" for c m b :: u32
proof -
  have "\<not> (bit m n \<and> bit b n)" for n using that by (metis bit_0_eq bit_and_iff bot_apply bot_bool_def)
  then show "(c AND NOT m) AND b = c AND b" "(c OR m) AND b = c AND b"
    by (auto intro!: bit_word_eqI simp: bit_and_iff bit_or_iff bit_not_iff)
qed

lemma option_bits:
  "FLASH_CR_OPTER AND FLASH_BUSY_BITS = 0" "FLASH_CR_OPTPG AND FLASH_BUSY_BITS = 0" "FLASH_CR_LOCK AND FLASH_BUSY_BITS = 0"
  "FLASH_CR_OPTWRE AND FLASH_BUSY_BITS = 0" "FLASH_CR_OBL_LAUNCH AND FLASH_BUSY_BITS = 0"
  by (simp_all add: flash_cr_consts FLASH_BUSY_BITS_def)

text \<open>Steps that neither lock nor change the mode.\<close>
lemma flash_same_steps [simp]:
  "flash_same f (fl_log e g) = flash_same f g" "flash_same f (fl_start g) = flash_same f g"
  "flash_same f (flash_no_error g) = flash_same f g" "flash_same f (g\<lparr>fl_now := t\<rparr>) = flash_same f g"
  "flash_same (fl_log e f) g = flash_same f g" "flash_same (fl_start f) g = flash_same f g"
  "flash_same (flash_no_error f) g = flash_same f g" "flash_same (f\<lparr>fl_now := t\<rparr>) g = flash_same f g" "flash_same f f"
  by (simp_all add: flash_same_def fl_log_def fl_start_def flash_no_error_def)

lemma flash_same_modes [simp]:
  "flash_same f (fl_set_CR FLASH_CR_OPTER g) = flash_same f g" "flash_same f (fl_clear_CR FLASH_CR_OPTER g) = flash_same f g"
  "flash_same f (fl_set_CR FLASH_CR_OPTPG g) = flash_same f g" "flash_same f (fl_clear_CR FLASH_CR_OPTPG g) = flash_same f g"
  "flash_same (fl_set_CR FLASH_CR_OPTPG f) g = flash_same f g"
  by (simp_all add: flash_same_def fl_set_CR_def fl_clear_CR_def hal_simps mode_bits option_bits)

lemma flash_keeps_last: "(\<And>f. flash_same f (g f)) \<Longrightarrow> flash_keeps (\<lambda>f. flash_last hw (g f))"
  unfolding flash_keeps_def flash_last_def by (blast intro: flash_same_trans flash_same_wait)

lemma flash_keeps_finish:
  assumes "m = FLASH_CR_OPTER \<or> m = FLASH_CR_OPTPG" "\<And>f. flash_same f (g f)"
  shows "flash_keeps (\<lambda>f. flash_finish hw m (g f))"
  using flash_keepsD [OF flash_keeps_last [of g hw, OF assms(2)]] assms(1)
  by (auto simp: flash_keeps_def flash_finish_def bind_eq_Some_conv)

lemma OB_keeps:
  "flash_keeps (flash_OB_erase hw)" "flash_keeps (FLASH_OB_RDP_LevelConfig hw level)" "flash_keeps (HAL_FLASHEx_OBErase hw)"
  "flash_keeps (FLASH_OB_UserConfig hw u)" "flash_keeps (FLASH_OB_ProgramData hw a d)"
proof -
  have last: "flash_keeps (flash_last hw)" using flash_keeps_last [of "\<lambda>f. f" hw] by simp
  show e: "flash_keeps (flash_OB_erase hw)" unfolding flash_OB_erase_def
    by (intro flash_keeps_then last flash_keeps_finish) simp_all
  have r: "flash_keeps (FLASH_OB_RDP_LevelConfig hw level)" for level unfolding FLASH_OB_RDP_LevelConfig_def
    by (intro flash_keeps_then e flash_keeps_finish) simp_all
  then show "flash_keeps (FLASH_OB_RDP_LevelConfig hw level)" .
  have "flash_same f g" if "HAL_FLASHEx_OBErase hw f = Some (st, g)" for f st g
    using flash_keepsD [OF flash_keeps_then [OF e r]] that unfolding HAL_FLASHEx_OBErase_read by fastforce
  then show "flash_keeps (HAL_FLASHEx_OBErase hw)" by (simp add: flash_keeps_def)
  show "flash_keeps (FLASH_OB_UserConfig hw u)" "flash_keeps (FLASH_OB_ProgramData hw a d)"
    unfolding FLASH_OB_UserConfig_def FLASH_OB_ProgramData_def
    by (intro flash_keeps_then last flash_keeps_finish; simp)+
qed

lemma WRP_keeps: "flash_keeps (FLASH_OB_EnableWRP hw pages)" "flash_keeps (FLASH_OB_DisableWRP hw pages)"
proof -
  have last: "flash_keeps (flash_last hw)" using flash_keeps_last [of "\<lambda>f. f" hw] by simp
  have "flash_keeps (flash_OB_WRP hw assign x d)" for assign x d
  proof -
    have "flash_keeps (\<lambda>f. flash_last hw (fl_log (OB_write x (assign (fh_OB hw x (fl_now f)) d)) (f\<lparr>fl_now := Suc (fl_now f)\<rparr>)))"
      by (rule flash_keeps_last) simp
    then show ?thesis by (auto simp: flash_keeps_def flash_OB_WRP_def)
  qed
  then have w: "flash_keeps (flash_OB_write_WRP hw assign p)" for assign p
    unfolding flash_OB_write_WRP_def by (intro flash_keeps_then)
  have "flash_same f g" if "do { (st, f1) \<leftarrow> flash_OB_write_WRP hw assign p (fl_set_CR FLASH_CR_OPTPG f);
      Some (st, fl_clear_CR FLASH_CR_OPTPG f1) } = Some (st, g)" for assign p f st g
    using that flash_keepsD [OF w [of assign p], of "fl_set_CR FLASH_CR_OPTPG f"] by (auto simp: bind_eq_Some_conv)
  then have "flash_keeps (\<lambda>f. do { (st, f1) \<leftarrow> flash_OB_write_WRP hw assign p (fl_set_CR FLASH_CR_OPTPG f);
      Some (st, fl_clear_CR FLASH_CR_OPTPG f1) })" for assign p
    unfolding flash_keeps_def by blast
  moreover have "flash_keeps (HAL_FLASHEx_OBErase hw \<circ> flash_no_error)"
    using flash_keepsD [OF OB_keeps(3) [of hw]] by (fastforce simp: flash_keeps_def)
  ultimately have c: "flash_keeps (flash_OB_change_WRP hw assign p)" for assign p
    unfolding flash_OB_change_WRP_def by (intro flash_keeps_then last)
  show "flash_keeps (FLASH_OB_EnableWRP hw pages)" "flash_keeps (FLASH_OB_DisableWRP hw pages)"
    using flash_keepsD [OF c] by (fastforce simp: flash_keeps_def FLASH_OB_EnableWRP_def FLASH_OB_DisableWRP_def FLASH_OB_GetWRP_def)+
qed

section \<open>The invariant\<close>

definition flash_ok :: "flash \<Rightarrow> bool" where
  "flash_ok f \<longleftrightarrow> (fl_Lock f = HAL_LOCKED \<longleftrightarrow> ProcedureOnGoing f \<noteq> FLASH_PROC_NONE)
     \<and> (fl_Lock f = HAL_UNLOCKED \<longrightarrow> fl_CR f AND FLASH_BUSY_BITS = 0)"

text \<open>What the hardware does with the keys.\<close>
definition flash_keys :: "(flash \<Rightarrow> flash) \<Rightarrow> bool" where
  "flash_keys keys \<longleftrightarrow> (\<forall>f. keys f \<in> {f, fl_clear_CR FLASH_CR_LOCK f, fl_set_CR FLASH_CR_OPTWRE f})"

inductive flash_reach :: "flash \<Rightarrow> bool" where
  reset: "fl_Lock f = HAL_UNLOCKED \<Longrightarrow> ProcedureOnGoing f = FLASH_PROC_NONE \<Longrightarrow> fl_CR f = FLASH_CR_LOCK \<Longrightarrow> flash_reach f"
| program: "flash_reach f \<Longrightarrow> HAL_FLASH_Program hw T a d f = Some (st, g) \<Longrightarrow> flash_reach g"
| program_it: "flash_reach f \<Longrightarrow> flash_reach (snd (HAL_FLASH_Program_IT T a d f))"
| erase: "flash_reach f \<Longrightarrow> HAL_FLASHEx_Erase hw e pe f = Some (st, pe', g) \<Longrightarrow> flash_reach g"
| erase_it: "flash_reach f \<Longrightarrow> flash_reach (snd (HAL_FLASHEx_Erase_IT e f))"
| irq: "flash_reach f \<Longrightarrow> flash_reach (HAL_FLASH_IRQHandler hw f)"
| unlock: "flash_reach f \<Longrightarrow> flash_keys keys \<Longrightarrow> flash_reach (snd (HAL_FLASH_Unlock keys f))"
| lock: "flash_reach f \<Longrightarrow> flash_reach (snd (HAL_FLASH_Lock f))"
| ob_unlock: "flash_reach f \<Longrightarrow> flash_keys keys \<Longrightarrow> flash_reach (snd (HAL_FLASH_OB_Unlock keys f))"
| ob_lock: "flash_reach f \<Longrightarrow> flash_reach (snd (HAL_FLASH_OB_Lock f))"
| ob_launch: "flash_reach f \<Longrightarrow> HAL_FLASH_OB_Launch hw f = Some (st, g) \<Longrightarrow> flash_reach g"
| ob_erase: "flash_reach f \<Longrightarrow> HAL_FLASHEx_OBErase fhw f = Some (st, g) \<Longrightarrow> flash_reach g"
| ob_program: "flash_reach f \<Longrightarrow> HAL_FLASHEx_OBProgram fhw p f = Some (st, g) \<Longrightarrow> flash_reach g"

lemma busy_bits:
  assumes "c AND FLASH_BUSY_BITS = 0"
  shows "\<not> bit c 0" "\<not> bit c 1" "\<not> bit c 2"
proof -
  have "\<not> (bit c n \<and> bit FLASH_BUSY_BITS n)" for n using assms by (metis bit_0_eq bit_and_iff bot_apply bot_bool_def)
  from this [of 0] this [of 1] this [of 2] show "\<not> bit c 0" "\<not> bit c 1" "\<not> bit c 2" by (simp_all add: FLASH_BUSY_BITS_def)
qed

lemma flash_ok_same: "flash_same f g \<Longrightarrow> flash_ok f \<Longrightarrow> flash_ok g"
  by (simp add: flash_ok_def flash_same_def)

lemma flash_ok_program: "HAL_FLASH_Program hw T a d f = Some (st, g) \<Longrightarrow> flash_ok f \<Longrightarrow> flash_ok g"
proof (cases "fl_Lock f = HAL_LOCKED")
  case False
  assume "HAL_FLASH_Program hw T a d f = Some (st, g)" "flash_ok f"
  moreover from False have "fl_Lock f = HAL_UNLOCKED" by (cases "fl_Lock f") simp_all
  ultimately show ?thesis using flash_program_result [of hw T a d f st g] busy_bits(1) [of "fl_CR f"] by (simp add: flash_ok_def)
qed (simp add: HAL_FLASH_Program_def)

lemma flash_erase_loop_keeps:
  assumes "flash_erase_loop hw limit a st pe f = Some (st', pe', g)" "\<not> bit (fl_CR f) 1"
  shows "fl_CR g = fl_CR f \<and> ProcedureOnGoing g = ProcedureOnGoing f"
proof -
  have "\<not> bit (fl_CR f) 1 \<longrightarrow> fl_CR (snd (snd r)) = fl_CR f \<and> ProcedureOnGoing (snd (snd r)) = ProcedureOnGoing f"
    if "flash_erase_loop hw limit a st pe f = Some r" for r
    using that
  proof (induction rule: flash_erase_loop.raw_induct [rotated, consumes 1])
    case (1 loop hw limit a st pe f r)
    show ?case
    proof (cases "a < limit")
      case True
      with 1(2) obtain st1 f1 where w: "FLASH_WaitForLastOperation hw FLASH_TIMEOUT_VALUE (FLASH_PageErase a f) = Some (st1, f1)"
        "if st1 \<noteq> HAL_OK then r = (st1, a, fl_clear_CR FLASH_CR_PER f1)
         else loop hw limit (a + FLASH_PAGE_SIZE) st1 pe (fl_clear_CR FLASH_CR_PER f1) = Some r"
        by (auto simp: bind_eq_Some_conv Let_def split: if_splits)
      show ?thesis
      proof
        assume "\<not> bit (fl_CR f) 1"
        note step = flash_erase_step(3,5) [OF w(1) this]
        then show "fl_CR (snd (snd r)) = fl_CR f \<and> ProcedureOnGoing (snd (snd r)) = ProcedureOnGoing f"
          using 1(1) [of hw limit "a + FLASH_PAGE_SIZE" st1 pe "fl_clear_CR FLASH_CR_PER f1" r] w(2) \<open>\<not> bit (fl_CR f) 1\<close>
          by (cases "st1 = HAL_OK") auto
      qed
    qed (use 1(2) in auto)
  qed
  with assms show ?thesis by fastforce
qed

lemma unlocked_cases: "l \<noteq> HAL_LOCKED \<Longrightarrow> l = HAL_UNLOCKED" for l
  by (cases l) simp_all

lemma flash_mass_keeps:
  assumes "FLASH_WaitForLastOperation hw tmo (FLASH_MassErase f) = Some (st, g)" "\<not> bit (fl_CR f) 2"
  shows "fl_CR (fl_clear_CR FLASH_CR_MER g) = fl_CR f" "ProcedureOnGoing (fl_clear_CR FLASH_CR_MER g) = ProcedureOnGoing f"
proof -
  have "(fl_CR f OR 4) AND NOT 4 = fl_CR f" using set_clear_bit [OF assms(2)] by simp
  then show "fl_CR (fl_clear_CR FLASH_CR_MER g) = fl_CR f" "ProcedureOnGoing (fl_clear_CR FLASH_CR_MER g) = ProcedureOnGoing f"
    using flash_wait_fields(2,3) [OF assms(1)] by (simp_all add: FLASH_MassErase_def flash_macros hal_simps FLASH_CR_MER_def)
qed

lemma flash_ok_erase:
  assumes "HAL_FLASHEx_Erase hw e pe f = Some (st, pe', g)" "flash_ok f"
  shows "flash_ok g"
proof (cases "fl_Lock f = HAL_LOCKED")
  case False
  then have u: "fl_Lock f = HAL_UNLOCKED" by (rule unlocked_cases)
  with assms(2) have f: "ProcedureOnGoing f = FLASH_PROC_NONE" "fl_CR f AND FLASH_BUSY_BITS = 0" by (simp_all add: flash_ok_def)
  note bits = busy_bits [OF f(2)]
  from assms(1) False obtain ready f1 where w: "FLASH_WaitForLastOperation hw FLASH_TIMEOUT_VALUE (f\<lparr>fl_Lock := HAL_LOCKED\<rparr>) = Some (ready, f1)"
    by (auto simp: HAL_FLASHEx_Erase_def bind_eq_Some_conv)
  note f1 = flash_wait_fields(2,3) [OF w, simplified]
  from assms(1) False w obtain h where h: "g = flash_unlock h"
    "if ready \<noteq> HAL_OK then h = f1
     else if TypeErase e = FLASH_TYPEERASE_MASSERASE
     then \<exists>f2. FLASH_WaitForLastOperation hw FLASH_TIMEOUT_VALUE (FLASH_MassErase f1) = Some (st, f2) \<and> h = fl_clear_CR FLASH_CR_MER f2
     else \<exists>pe''. flash_erase_loop hw (NbPages e * FLASH_PAGE_SIZE + PageAddress e) (PageAddress e) HAL_ERROR 0xFFFFFFFF f1 = Some (st, pe'', h)"
    by (auto simp: HAL_FLASHEx_Erase_def bind_eq_Some_conv split: if_splits)
  then have "fl_CR h = fl_CR f \<and> ProcedureOnGoing h = ProcedureOnGoing f"
    using f1 bits flash_mass_keeps [of hw FLASH_TIMEOUT_VALUE f1 st] flash_erase_loop_keeps [of hw _ _ _ _ f1 st _ h]
    by (auto split: if_splits)
  with f h(1) show ?thesis by (simp add: flash_ok_def flash_unlock_def)
qed (use assms in \<open>simp add: HAL_FLASHEx_Erase_def\<close>)

lemma flash_ok_it: "flash_ok f \<Longrightarrow> flash_ok (snd (HAL_FLASH_Program_IT T a d f))" "flash_ok f \<Longrightarrow> flash_ok (snd (HAL_FLASHEx_Erase_IT e f))"
  using unlocked_cases [of "fl_Lock f"]
  by (auto simp: flash_ok_def HAL_FLASH_Program_IT_def HAL_FLASHEx_Erase_IT_def Let_def FLASH_Program_HalfWord_def
      FLASH_MassErase_def FLASH_PageErase_def flash_macros)

lemma flash_irq_eop_proc:
  "ProcedureOnGoing (flash_irq_eop f) \<noteq> FLASH_PROC_NONE \<Longrightarrow> ProcedureOnGoing f \<noteq> FLASH_PROC_NONE"
  "fl_Lock (flash_irq_eop f) = fl_Lock f"
  by (auto simp: flash_irq_eop_def flash_irq_page_def flash_irq_mass_def flash_irq_program_def Let_def
      FLASH_Program_HalfWord_def FLASH_PageErase_def flash_macros split: FLASH_ProcedureTypeDef.splits if_splits)

lemma flash_ok_irq:
  assumes "flash_ok f"
  shows "flash_ok (HAL_FLASH_IRQHandler hw f)"
proof -
  obtain h where h: "HAL_FLASH_IRQHandler hw f = flash_irq_end h" "fl_Lock h = fl_Lock f"
    "ProcedureOnGoing h \<noteq> FLASH_PROC_NONE \<longrightarrow> ProcedureOnGoing f \<noteq> FLASH_PROC_NONE"
  proof -
    define f1 where "f1 = snd (flash_any_error hw f)"
    define f2 where "f2 = (if fst (flash_any_error hw f) then flash_irq_error hw f1 else f1)"
    define f3 where "f3 = f2\<lparr>fl_now := Suc (fl_now f2)\<rparr>"
    define eop where "eop = (hw_SR hw (fl_now f2) AND FLASH_FLAG_EOP = FLASH_FLAG_EOP)"
    have "HAL_FLASH_IRQHandler hw f = flash_irq_end (if eop then flash_irq_eop f3 else f3)"
      by (simp add: HAL_FLASH_IRQHandler_def f1_def f2_def f3_def eop_def flash_GET_FLAG_def Let_def split: prod.split)
    moreover have "fl_Lock f3 = fl_Lock f" "ProcedureOnGoing f3 \<noteq> FLASH_PROC_NONE \<longrightarrow> ProcedureOnGoing f \<noteq> FLASH_PROC_NONE"
      by (simp_all add: f3_def f2_def f1_def flash_irq_error_def fl_callback_def)
    ultimately show thesis using that flash_irq_eop_proc [of f3] by (cases eop) auto
  qed
  have "((c AND NOT 7) AND NOT 0x1400) AND 0x1407 = 0" for c :: u32
  proof -
    have "((c AND NOT 7) AND NOT 0x1400) AND 0x1407 = c AND ((NOT 7 AND NOT 0x1400) AND 0x1407)" by (simp only: and.assoc)
    also have "(NOT 7 AND NOT 0x1400) AND 0x1407 = (0 :: u32)" by simp
    finally show ?thesis by simp
  qed
  then have "fl_CR (flash_irq_end h) AND FLASH_BUSY_BITS = 0" if "ProcedureOnGoing h = FLASH_PROC_NONE"
    using that by (simp add: flash_irq_end_def flash_macros hal_simps flash_cr_consts FLASH_BUSY_BITS_def)
  with h assms show ?thesis
    by (cases "ProcedureOnGoing h = FLASH_PROC_NONE") (auto simp: flash_ok_def flash_irq_end_def flash_macros)
qed

lemma flash_ok_modes:
  assumes "flash_ok f"
  shows "flash_ok (fl_set_CR FLASH_CR_LOCK f)" "flash_ok (fl_clear_CR FLASH_CR_LOCK f)" "flash_ok (fl_set_CR FLASH_CR_OPTWRE f)"
    "flash_ok (fl_clear_CR FLASH_CR_OPTWRE f)" "flash_ok (fl_set_CR FLASH_CR_OBL_LAUNCH f)" "flash_ok (fl_log e f)"
  using assms by (simp_all add: flash_ok_def fl_set_CR_def fl_clear_CR_def fl_log_def hal_simps mode_bits option_bits)

lemma flash_ok_keys: "flash_keys keys \<Longrightarrow> flash_ok f \<Longrightarrow> flash_ok (keys f)"
  unfolding flash_keys_def using flash_ok_modes(2,3) [of f] by (metis empty_iff insert_iff)

text \<open>A part of the option programming returns unlocked in any case.\<close>
lemma flash_ok_part:
  assumes "flash_OB_part sel a k x = Some (st, g)" "flash_keeps a" "ProcedureOnGoing (snd x) = FLASH_PROC_NONE"
    "fl_CR (snd x) AND FLASH_BUSY_BITS = 0"
    "\<And>st1 h. k (st1, h) = Some (st, g) \<Longrightarrow> ProcedureOnGoing h = FLASH_PROC_NONE \<Longrightarrow> fl_CR h AND FLASH_BUSY_BITS = 0 \<Longrightarrow> flash_ok g"
  shows "flash_ok g"
proof (cases sel)
  case True
  with assms(1) obtain st1 h where h: "a (snd x) = Some (st1, h)"
    "if st1 \<noteq> HAL_OK then g = flash_unlock h else k (st1, h) = Some (st, g)"
    by (auto simp: flash_OB_part_def bind_eq_Some_conv split: if_splits)
  from flash_keepsD [OF assms(2) h(1)] assms(3,4) have
    "ProcedureOnGoing h = FLASH_PROC_NONE" "fl_CR h AND FLASH_BUSY_BITS = 0" by (simp_all add: flash_same_def)
  with h(2) assms(5) [of st1 h] show ?thesis by (cases "st1 = HAL_OK") (auto simp: flash_ok_def flash_unlock_def)
qed (use assms(1,3-5) in \<open>cases x; simp add: flash_OB_part_def\<close>)

lemma flash_ok_OBProgram:
  assumes "HAL_FLASHEx_OBProgram hw p f = Some (st, g)" "flash_ok f"
  shows "flash_ok g"
proof (cases "fl_Lock f = HAL_LOCKED")
  case False
  from unlocked_cases [OF this] assms(2) have f: "ProcedureOnGoing f = FLASH_PROC_NONE" "fl_CR f AND FLASH_BUSY_BITS = 0"
    by (simp_all add: flash_ok_def)
  have wrp: "flash_keeps (if s then FLASH_OB_EnableWRP hw w else FLASH_OB_DisableWRP hw w)" for s w using WRP_keeps by simp
  from assms(1) False f show ?thesis unfolding HAL_FLASHEx_OBProgram_def Let_def
    by (simp only: if_False) (erule flash_ok_part, rule wrp OB_keeps, simp, simp,
      erule flash_ok_part, rule OB_keeps, simp, simp, erule flash_ok_part, rule OB_keeps, simp, simp,
      erule flash_ok_part, rule OB_keeps, simp, simp, auto simp: flash_ok_def flash_unlock_def)
qed (use assms in \<open>simp add: HAL_FLASHEx_OBProgram_def\<close>)

lemma flash_reach_ok: "flash_reach f \<Longrightarrow> flash_ok f"
proof (induction rule: flash_reach.induct)
  case (reset f)
  then show ?case by (simp add: flash_ok_def option_bits)
next
  case (ob_launch f hw st g)
  then show ?case using flash_ok_modes(5) flash_ok_same flash_same_wait unfolding HAL_FLASH_OB_Launch_def by blast
next
  case (ob_erase f fhw st g)
  then show ?case using flash_ok_same flash_keepsD [OF OB_keeps(3)] by blast
qed (auto simp: HAL_FLASH_Unlock_def HAL_FLASH_Lock_def HAL_FLASH_OB_Unlock_def HAL_FLASH_OB_Lock_def
    intro: flash_ok_program flash_ok_erase flash_ok_it flash_ok_irq flash_ok_modes flash_ok_keys flash_ok_OBProgram)

text \<open>C35: whatever calls are made after reset and whatever the hardware does, between calls the driver is locked exactly while
  an interrupt-driven operation is going on; when it is unlocked no programming or erasing mode and no interrupt of
  the flash is left enabled; and the test for an operation in progress in \<^verbatim>\<open>HAL_FLASHEx_Erase_IT\<close>, which would return
  with the lock taken, is never reached.\<close>
theorem flash_lock_invariant:
  assumes "flash_reach f"
  shows "(fl_Lock f = HAL_LOCKED \<longleftrightarrow> ProcedureOnGoing f \<noteq> FLASH_PROC_NONE)
    \<and> (fl_Lock f = HAL_UNLOCKED \<longrightarrow> fl_CR f AND (FLASH_CR_PG OR FLASH_CR_PER OR FLASH_CR_MER OR FLASH_IT_EOP OR FLASH_IT_ERR) = 0)
    \<and> fst (HAL_FLASHEx_Erase_IT e f) \<noteq> HAL_ERROR"
proof -
  have "FLASH_CR_PG OR FLASH_CR_PER OR FLASH_CR_MER OR FLASH_IT_EOP OR FLASH_IT_ERR = FLASH_BUSY_BITS"
    by (simp add: flash_cr_consts FLASH_BUSY_BITS_def)
  with flash_reach_ok [OF assms] show ?thesis
    using unlocked_cases [of "fl_Lock f"] by (auto simp: flash_ok_def HAL_FLASHEx_Erase_IT_def Let_def)
qed

theorem flash_lock_invariant_witness:
  "\<exists>f. flash_reach f \<and> ProcedureOnGoing f = FLASH_PROC_PROGRAMWORD \<and> fl_Lock f = HAL_LOCKED"
proof -
  have "flash_reach (ex_flash\<lparr>fl_CR := FLASH_CR_LOCK\<rparr>)" by (rule flash_reach.reset) (simp_all add: ex_flash_def)
  then have r: "flash_reach (snd (HAL_FLASH_Program_IT FLASH_TYPEPROGRAM_WORD 0x08001000 0x12345678 (ex_flash\<lparr>fl_CR := FLASH_CR_LOCK\<rparr>)))"
    (is "flash_reach ?f") by (rule flash_reach.program_it)
  have "ProcedureOnGoing ?f = FLASH_PROC_PROGRAMWORD"
    by (simp add: HAL_FLASH_Program_IT_def Let_def ex_flash_def FLASH_Program_HalfWord_def flash_macros
        FLASH_TYPEPROGRAM_WORD_def FLASH_TYPEPROGRAM_HALFWORD_def)
  with flash_lock_invariant [OF r] r show ?thesis by auto
qed

end
