(* ===== verification/Tim_Modes.thy ===== *)
theory Tim_Modes
  imports Hal_Tim
begin

text \<open>
  The other modes of the timer driver (\<^verbatim>\<open>stm32f3xx_hal_tim.c\<close>, \<^verbatim>\<open>stm32f3xx_hal_tim_ex.c\<close> as built for
  \<^verbatim>\<open>STM32F373xC\<close>): one-pulse, encoder and Hall-sensor interfaces, complementary outputs, clock sources, slave and
  master synchronisation, clearing of references, break and dead time.  Then the relation \<open>tim_reach\<close> of all start, stop
  and configuration calls that do not use DMA, and what holds in every state they reach.
\<close>

section \<open>Constants\<close>

definition TIM_CR1_OPM :: u32 where "TIM_CR1_OPM = 8"
definition TIM_CR2_MMS :: u32 where "TIM_CR2_MMS = 0x70"
definition TIM_CR2_TI1S :: u32 where "TIM_CR2_TI1S = 0x80"
definition TIM_SMCR_SMS :: u32 where "TIM_SMCR_SMS = 7"
definition TIM_SMCR_TS :: u32 where "TIM_SMCR_TS = 0x70"
definition TIM_SMCR_MSM :: u32 where "TIM_SMCR_MSM = 0x80"
definition TIM_SMCR_ETF :: u32 where "TIM_SMCR_ETF = 0xF00"
definition TIM_SMCR_ETPS :: u32 where "TIM_SMCR_ETPS = 0x3000"
definition TIM_SMCR_ECE :: u32 where "TIM_SMCR_ECE = 0x4000"
definition TIM_SMCR_ETP :: u32 where "TIM_SMCR_ETP = 0x8000"
definition TIM_CCMR1_OC1CE :: u32 where "TIM_CCMR1_OC1CE = 0x80"
definition TIM_CCMR1_OC2CE :: u32 where "TIM_CCMR1_OC2CE = 0x8000"
definition TIM_CCMR2_OC3CE :: u32 where "TIM_CCMR2_OC3CE = 0x80"
definition TIM_CCMR2_OC4CE :: u32 where "TIM_CCMR2_OC4CE = 0x8000"
definition TIM_CHANNEL_ALL :: u32 where "TIM_CHANNEL_ALL = 0x18"
definition TIM_CCxN_ENABLE :: u32 where "TIM_CCxN_ENABLE = 4"
definition TIM_CCxN_DISABLE :: u32 where "TIM_CCxN_DISABLE = 0"
definition TIM_ICSELECTION_TRC :: u32 where "TIM_ICSELECTION_TRC = 3"
definition TIM_TS_ITR0 :: u32 where "TIM_TS_ITR0 = 0"
definition TIM_TS_ITR1 :: u32 where "TIM_TS_ITR1 = 0x10"
definition TIM_TS_ITR2 :: u32 where "TIM_TS_ITR2 = 0x20"
definition TIM_TS_ITR3 :: u32 where "TIM_TS_ITR3 = 0x30"
definition TIM_TS_TI1F_ED :: u32 where "TIM_TS_TI1F_ED = 0x40"
definition TIM_TS_TI1FP1 :: u32 where "TIM_TS_TI1FP1 = 0x50"
definition TIM_TS_TI2FP2 :: u32 where "TIM_TS_TI2FP2 = 0x60"
definition TIM_TS_ETRF :: u32 where "TIM_TS_ETRF = 0x70"
definition TIM_SLAVEMODE_RESET :: u32 where "TIM_SLAVEMODE_RESET = 4"
definition TIM_SLAVEMODE_TRIGGER :: u32 where "TIM_SLAVEMODE_TRIGGER = 6"
definition TIM_SLAVEMODE_EXTERNAL1 :: u32 where "TIM_SLAVEMODE_EXTERNAL1 = 7"
definition TIM_OCMODE_PWM2 :: u32 where "TIM_OCMODE_PWM2 = 0x70"
definition TIM_OCFAST_DISABLE :: u32 where "TIM_OCFAST_DISABLE = 0"
definition TIM_OCIDLESTATE_RESET :: u32 where "TIM_OCIDLESTATE_RESET = 0"
definition TIM_OCNIDLESTATE_RESET :: u32 where "TIM_OCNIDLESTATE_RESET = 0"
definition TIM_OCNPOLARITY_HIGH :: u32 where "TIM_OCNPOLARITY_HIGH = 0"
definition TIM_TRGO_OC2REF :: u32 where "TIM_TRGO_OC2REF = 0x50"
definition TIM_CLEARINPUTSOURCE_ETR :: u32 where "TIM_CLEARINPUTSOURCE_ETR = 1"
definition TIM_CLOCKSOURCE_ETRMODE2 :: u32 where "TIM_CLOCKSOURCE_ETRMODE2 = 0x2000"
definition TIM_CLOCKSOURCE_INTERNAL :: u32 where "TIM_CLOCKSOURCE_INTERNAL = 0x1000"
definition TIM_CLOCKSOURCE_ITR0 :: u32 where "TIM_CLOCKSOURCE_ITR0 = 0"
definition TIM_CLOCKSOURCE_ITR1 :: u32 where "TIM_CLOCKSOURCE_ITR1 = 0x10"
definition TIM_CLOCKSOURCE_ITR2 :: u32 where "TIM_CLOCKSOURCE_ITR2 = 0x20"
definition TIM_CLOCKSOURCE_ITR3 :: u32 where "TIM_CLOCKSOURCE_ITR3 = 0x30"
definition TIM_CLOCKSOURCE_TI1ED :: u32 where "TIM_CLOCKSOURCE_TI1ED = 0x40"
definition TIM_CLOCKSOURCE_TI1 :: u32 where "TIM_CLOCKSOURCE_TI1 = 0x50"
definition TIM_CLOCKSOURCE_TI2 :: u32 where "TIM_CLOCKSOURCE_TI2 = 0x60"
definition TIM_CLOCKSOURCE_ETRMODE1 :: u32 where "TIM_CLOCKSOURCE_ETRMODE1 = 0x70"
definition TIM_DMA_UPDATE :: u32 where "TIM_DMA_UPDATE = 0x100"
definition TIM_DMA_CC1 :: u32 where "TIM_DMA_CC1 = 0x200"
definition TIM_DMA_CC2 :: u32 where "TIM_DMA_CC2 = 0x400"
definition TIM_DMA_CC3 :: u32 where "TIM_DMA_CC3 = 0x800"
definition TIM_DMA_CC4 :: u32 where "TIM_DMA_CC4 = 0x1000"
definition TIM_DMA_COM :: u32 where "TIM_DMA_COM = 0x2000"
definition TIM_DMA_TRIGGER :: u32 where "TIM_DMA_TRIGGER = 0x4000"
definition TIM_BDTR_DTG :: u32 where "TIM_BDTR_DTG = 0xFF"
definition TIM_BDTR_LOCK :: u32 where "TIM_BDTR_LOCK = 0x300"
definition TIM_BDTR_OSSI :: u32 where "TIM_BDTR_OSSI = 0x400"
definition TIM_BDTR_OSSR :: u32 where "TIM_BDTR_OSSR = 0x800"
definition TIM_BDTR_BKE :: u32 where "TIM_BDTR_BKE = 0x1000"
definition TIM_BDTR_BKP :: u32 where "TIM_BDTR_BKP = 0x2000"
definition TIM_BDTR_AOE :: u32 where "TIM_BDTR_AOE = 0x4000"

lemmas timx_consts = TIM_CR1_OPM_def TIM_CR2_MMS_def TIM_CR2_TI1S_def TIM_SMCR_SMS_def TIM_SMCR_TS_def
  TIM_SMCR_MSM_def TIM_SMCR_ETF_def TIM_SMCR_ETPS_def TIM_SMCR_ECE_def TIM_SMCR_ETP_def TIM_CCMR1_OC1CE_def
  TIM_CCMR1_OC2CE_def TIM_CCMR2_OC3CE_def TIM_CCMR2_OC4CE_def TIM_CHANNEL_ALL_def TIM_CCxN_ENABLE_def
  TIM_CCxN_DISABLE_def TIM_ICSELECTION_TRC_def TIM_TS_ITR0_def TIM_TS_ITR1_def TIM_TS_ITR2_def TIM_TS_ITR3_def
  TIM_TS_TI1F_ED_def TIM_TS_TI1FP1_def TIM_TS_TI2FP2_def TIM_TS_ETRF_def TIM_SLAVEMODE_RESET_def
  TIM_SLAVEMODE_TRIGGER_def TIM_SLAVEMODE_EXTERNAL1_def TIM_OCMODE_PWM2_def TIM_OCFAST_DISABLE_def
  TIM_OCIDLESTATE_RESET_def TIM_OCNIDLESTATE_RESET_def TIM_OCNPOLARITY_HIGH_def TIM_TRGO_OC2REF_def
  TIM_CLEARINPUTSOURCE_ETR_def TIM_CLOCKSOURCE_ETRMODE2_def TIM_CLOCKSOURCE_INTERNAL_def TIM_CLOCKSOURCE_ITR0_def
  TIM_CLOCKSOURCE_ITR1_def TIM_CLOCKSOURCE_ITR2_def TIM_CLOCKSOURCE_ITR3_def TIM_CLOCKSOURCE_TI1ED_def
  TIM_CLOCKSOURCE_TI1_def TIM_CLOCKSOURCE_TI2_def TIM_CLOCKSOURCE_ETRMODE1_def TIM_DMA_UPDATE_def TIM_DMA_CC1_def
  TIM_DMA_CC2_def TIM_DMA_CC3_def TIM_DMA_CC4_def TIM_DMA_COM_def TIM_DMA_TRIGGER_def TIM_BDTR_DTG_def
  TIM_BDTR_LOCK_def TIM_BDTR_OSSI_def TIM_BDTR_OSSR_def TIM_BDTR_BKE_def TIM_BDTR_BKP_def TIM_BDTR_AOE_def

section \<open>Configuration structures\<close>

record TIM_OnePulse_InitTypeDef =
  op_OCMode :: u32
  op_Pulse :: u32
  op_OCPolarity :: u32
  op_OCNPolarity :: u32
  op_OCIdleState :: u32
  op_OCNIdleState :: u32
  op_ICPolarity :: u32
  op_ICSelection :: u32
  op_ICFilter :: u32

record TIM_Encoder_InitTypeDef =
  EncoderMode :: u32
  IC1Polarity :: u32
  IC1Selection :: u32
  IC1Prescaler :: u32
  IC1Filter :: u32
  IC2Polarity :: u32
  IC2Selection :: u32
  IC2Prescaler :: u32
  IC2Filter :: u32

record TIM_ClockConfigTypeDef =
  ClockSource :: u32
  ClockPolarity :: u32
  ClockPrescaler :: u32
  ClockFilter :: u32

record TIM_ClearInputConfigTypeDef =
  ClearInputState :: u32
  ClearInputSource :: u32
  ClearInputPolarity :: u32
  ClearInputPrescaler :: u32
  ClearInputFilter :: u32

record TIM_SlaveConfigTypeDef =
  SlaveMode :: u32
  InputTrigger :: u32
  TriggerPolarity :: u32
  TriggerPrescaler :: u32
  TriggerFilter :: u32

record TIM_HallSensor_InitTypeDef =
  hall_IC1Polarity :: u32
  hall_IC1Prescaler :: u32
  hall_IC1Filter :: u32
  Commutation_Delay :: u32

record TIM_MasterConfigTypeDef =
  MasterOutputTrigger :: u32
  MasterSlaveMode :: u32

record TIM_BreakDeadTimeConfigTypeDef =
  OffStateRunMode :: u32
  OffStateIDLEMode :: u32
  LockLevel :: u32
  DeadTime :: u32
  BreakState :: u32
  BreakPolarity :: u32
  AutomaticOutput :: u32

section \<open>Register helpers\<close>

definition tim_ENABLE_DMA :: "u32 \<Rightarrow> tim \<Rightarrow> tim" where
  "tim_ENABLE_DMA d h = h\<lparr>tim_DIER := tim_DIER h OR d\<rparr>"

definition tim_DISABLE_DMA :: "u32 \<Rightarrow> tim \<Rightarrow> tim" where
  "tim_DISABLE_DMA d h = h\<lparr>tim_DIER := tim_DIER h AND NOT d\<rparr>"

definition TIM_CCxNChannelCmd :: "u32 \<Rightarrow> u32 \<Rightarrow> tim \<Rightarrow> tim" where
  "TIM_CCxNChannelCmd Channel ChannelNState h =
     h\<lparr>tim_CCER := (tim_CCER h AND NOT (push_bit (unat Channel) TIM_CCER_CC1NE))
                     OR push_bit (unat Channel) ChannelNState\<rparr>"

text \<open>Channel 1 keeps its enable bit: \<^verbatim>\<open>CCER\<close> is read before the bit is cleared.\<close>
definition TIM_TI1_ConfigInputStage :: "u32 \<Rightarrow> u32 \<Rightarrow> tim \<Rightarrow> tim" where
  "TIM_TI1_ConfigInputStage TIM_ICPolarity TIM_ICFilter h =
     (let tmpccer = tim_CCER h;
          h1 = h\<lparr>tim_CCER := tim_CCER h AND NOT TIM_CCER_CC1E\<rparr>;
          tmpccmr1 = (tim_CCMR1 h1 AND NOT TIM_CCMR1_IC1F) OR push_bit 4 TIM_ICFilter;
          tmpccer = (tmpccer AND NOT (TIM_CCER_CC1P OR TIM_CCER_CC1NP)) OR TIM_ICPolarity
      in h1\<lparr>tim_CCMR1 := tmpccmr1, tim_CCER := tmpccer\<rparr>)"

text \<open>Channel 2 does not: it is read after.\<close>
definition TIM_TI2_ConfigInputStage :: "u32 \<Rightarrow> u32 \<Rightarrow> tim \<Rightarrow> tim" where
  "TIM_TI2_ConfigInputStage TIM_ICPolarity TIM_ICFilter h =
     (let h1 = h\<lparr>tim_CCER := tim_CCER h AND NOT TIM_CCER_CC2E\<rparr>;
          tmpccmr1 = tim_CCMR1 h1;
          tmpccer = tim_CCER h1;
          tmpccmr1 = (tmpccmr1 AND NOT TIM_CCMR1_IC2F) OR push_bit 12 TIM_ICFilter;
          tmpccer = (tmpccer AND NOT (TIM_CCER_CC2P OR TIM_CCER_CC2NP)) OR push_bit 4 TIM_ICPolarity
      in h1\<lparr>tim_CCMR1 := tmpccmr1, tim_CCER := tmpccer\<rparr>)"

text \<open>The parameter is a \<^verbatim>\<open>uint16_t\<close>.\<close>
definition TIM_ITRx_SetConfig :: "u32 \<Rightarrow> tim \<Rightarrow> tim" where
  "TIM_ITRx_SetConfig InputTriggerSource h =
     h\<lparr>tim_SMCR := (tim_SMCR h AND NOT TIM_SMCR_TS)
         OR (ucast (ucast InputTriggerSource :: u16) OR TIM_SLAVEMODE_EXTERNAL1)\<rparr>"

definition TIM_ETR_SetConfig :: "u32 \<Rightarrow> u32 \<Rightarrow> u32 \<Rightarrow> tim \<Rightarrow> tim" where
  "TIM_ETR_SetConfig TIM_ExtTRGPrescaler TIM_ExtTRGPolarity ExtTRGFilter h =
     h\<lparr>tim_SMCR := (tim_SMCR h AND NOT (TIM_SMCR_ETF OR TIM_SMCR_ETPS OR TIM_SMCR_ECE OR TIM_SMCR_ETP))
         OR (TIM_ExtTRGPrescaler OR (TIM_ExtTRGPolarity OR push_bit 8 ExtTRGFilter))\<rparr>"

definition tim_select_trigger :: "u32 \<Rightarrow> u32 \<Rightarrow> tim \<Rightarrow> tim" where
  "tim_select_trigger source mode h =
     (let h1 = h\<lparr>tim_SMCR := (tim_SMCR h AND NOT TIM_SMCR_TS) OR source\<rparr>
      in h1\<lparr>tim_SMCR := (tim_SMCR h1 AND NOT TIM_SMCR_SMS) OR mode\<rparr>)"

text \<open>How all set-up functions begin.\<close>
definition tim_open :: "(tim \<Rightarrow> tim) \<Rightarrow> tim \<Rightarrow> tim" where
  "tim_open msp h =
     (if tim_State h = HAL_TIM_STATE_RESET then msp (h\<lparr>tim_Lock := HAL_UNLOCKED\<rparr>) else h)\<lparr>tim_State := HAL_TIM_STATE_BUSY\<rparr>"

section \<open>One pulse\<close>

definition HAL_TIM_OnePulse_Init :: "(tim \<Rightarrow> tim) \<Rightarrow> u32 \<Rightarrow> tim \<Rightarrow> HAL_StatusTypeDef \<times> tim" where
  "HAL_TIM_OnePulse_Init OnePulse_MspInit OnePulseMode h =
     (let h0 = tim_open OnePulse_MspInit h;
          h1 = TIM_Base_SetConfig (tim_Init h0) h0;
          h2 = h1\<lparr>tim_CR1 := tim_CR1 h1 AND NOT TIM_CR1_OPM\<rparr>;
          h3 = h2\<lparr>tim_CR1 := tim_CR1 h2 OR OnePulseMode\<rparr>
      in (HAL_OK, h3\<lparr>tim_State := HAL_TIM_STATE_READY\<rparr>))"

definition HAL_TIM_OnePulse_DeInit :: "(tim \<Rightarrow> tim) \<Rightarrow> tim \<Rightarrow> HAL_StatusTypeDef \<times> tim" where
  "HAL_TIM_OnePulse_DeInit OnePulse_MspDeInit h = tim_tear_down OnePulse_MspDeInit h"

text \<open>The argument is not used: both channels are switched.\<close>
definition HAL_TIM_OnePulse_Start :: "u32 \<Rightarrow> tim \<Rightarrow> HAL_StatusTypeDef \<times> tim" where
  "HAL_TIM_OnePulse_Start OutputChannel h =
     (HAL_OK, tim_output_on (TIM_CCxChannelCmd TIM_CHANNEL_2 TIM_CCx_ENABLE (TIM_CCxChannelCmd TIM_CHANNEL_1 TIM_CCx_ENABLE h)))"

definition HAL_TIM_OnePulse_Stop :: "u32 \<Rightarrow> tim \<Rightarrow> HAL_StatusTypeDef \<times> tim" where
  "HAL_TIM_OnePulse_Stop OutputChannel h =
     (HAL_OK, tim_DISABLE (tim_output_off
        (TIM_CCxChannelCmd TIM_CHANNEL_2 TIM_CCx_DISABLE (TIM_CCxChannelCmd TIM_CHANNEL_1 TIM_CCx_DISABLE h))))"

definition HAL_TIM_OnePulse_Start_IT :: "u32 \<Rightarrow> tim \<Rightarrow> HAL_StatusTypeDef \<times> tim" where
  "HAL_TIM_OnePulse_Start_IT OutputChannel h =
     (let h1 = tim_ENABLE_IT TIM_IT_CC2 (tim_ENABLE_IT TIM_IT_CC1 h)
      in (HAL_OK, tim_output_on
           (TIM_CCxChannelCmd TIM_CHANNEL_2 TIM_CCx_ENABLE (TIM_CCxChannelCmd TIM_CHANNEL_1 TIM_CCx_ENABLE h1))))"

definition HAL_TIM_OnePulse_Stop_IT :: "u32 \<Rightarrow> tim \<Rightarrow> HAL_StatusTypeDef \<times> tim" where
  "HAL_TIM_OnePulse_Stop_IT OutputChannel h =
     (let h1 = tim_DISABLE_IT TIM_IT_CC2 (tim_DISABLE_IT TIM_IT_CC1 h)
      in (HAL_OK, tim_DISABLE (tim_output_off
           (TIM_CCxChannelCmd TIM_CHANNEL_2 TIM_CCx_DISABLE (TIM_CCxChannelCmd TIM_CHANNEL_1 TIM_CCx_DISABLE h1)))))"

text \<open>\<open>garbage\<close> is the value of the field \<^verbatim>\<open>OCFastMode\<close> of the local \<^verbatim>\<open>temp1\<close>, which the code does not set.\<close>
definition HAL_TIM_OnePulse_ConfigChannel ::
  "u32 \<Rightarrow> TIM_OnePulse_InitTypeDef \<Rightarrow> u32 \<Rightarrow> u32 \<Rightarrow> tim \<Rightarrow> HAL_StatusTypeDef \<times> tim" where
  "HAL_TIM_OnePulse_ConfigChannel garbage c OutputChannel InputChannel h =
     (if OutputChannel \<noteq> InputChannel
      then tim_locked (\<lambda>h.
        let temp1 = \<lparr>OCMode = op_OCMode c, Pulse = op_Pulse c, OCPolarity = op_OCPolarity c, OCNPolarity = op_OCNPolarity c,
                     OCFastMode = garbage, OCIdleState = op_OCIdleState c, OCNIdleState = op_OCNIdleState c\<rparr>;
            h1 = (if OutputChannel = TIM_CHANNEL_1 then TIM_OC1_SetConfig temp1 h
                  else if OutputChannel = TIM_CHANNEL_2 then TIM_OC2_SetConfig temp1 h else h)
        in if InputChannel = TIM_CHANNEL_1
           then let h2 = TIM_TI1_SetConfig (op_ICPolarity c) (op_ICSelection c) (op_ICFilter c) h1
                in tim_select_trigger TIM_TS_TI1FP1 TIM_SLAVEMODE_TRIGGER
                     (h2\<lparr>tim_CCMR1 := tim_CCMR1 h2 AND NOT TIM_CCMR1_IC1PSC\<rparr>)
           else if InputChannel = TIM_CHANNEL_2
           then let h2 = TIM_TI2_SetConfig (op_ICPolarity c) (op_ICSelection c) (op_ICFilter c) h1
                in tim_select_trigger TIM_TS_TI2FP2 TIM_SLAVEMODE_TRIGGER
                     (h2\<lparr>tim_CCMR1 := tim_CCMR1 h2 AND NOT TIM_CCMR1_IC2PSC\<rparr>)
           else h1) h
      else (HAL_ERROR, h))"

definition HAL_TIM_OnePulse_GetState :: "tim \<Rightarrow> HAL_TIM_StateTypeDef" where
  "HAL_TIM_OnePulse_GetState h = tim_State h"

section \<open>Encoder interface\<close>

definition HAL_TIM_Encoder_Init :: "(tim \<Rightarrow> tim) \<Rightarrow> TIM_Encoder_InitTypeDef \<Rightarrow> tim \<Rightarrow> HAL_StatusTypeDef \<times> tim" where
  "HAL_TIM_Encoder_Init Encoder_MspInit c h =
     (let h0 = tim_open Encoder_MspInit h;
          h1 = h0\<lparr>tim_SMCR := tim_SMCR h0 AND NOT TIM_SMCR_SMS\<rparr>;
          h2 = TIM_Base_SetConfig (tim_Init h1) h1;
          tmpsmcr = tim_SMCR h2 OR EncoderMode c;
          tmpccmr1 = tim_CCMR1 h2 AND NOT (TIM_CCMR1_CC1S OR TIM_CCMR1_CC2S);
          tmpccmr1 = tmpccmr1 OR (IC1Selection c OR push_bit 8 (IC2Selection c));
          tmpccmr1 = tmpccmr1 AND NOT (TIM_CCMR1_IC1PSC OR TIM_CCMR1_IC2PSC);
          tmpccmr1 = tmpccmr1 AND NOT (TIM_CCMR1_IC1F OR TIM_CCMR1_IC2F);
          tmpccmr1 = tmpccmr1 OR (IC1Prescaler c OR push_bit 8 (IC2Prescaler c));
          tmpccmr1 = tmpccmr1 OR (push_bit 4 (IC1Filter c) OR push_bit 12 (IC2Filter c));
          tmpccer = tim_CCER h2 AND NOT (TIM_CCER_CC1P OR TIM_CCER_CC2P);
          tmpccer = tmpccer AND NOT (TIM_CCER_CC1NP OR TIM_CCER_CC2NP);
          tmpccer = tmpccer OR (IC1Polarity c OR push_bit 4 (IC2Polarity c));
          h3 = h2\<lparr>tim_SMCR := tmpsmcr, tim_CCMR1 := tmpccmr1, tim_CCER := tmpccer\<rparr>
      in (HAL_OK, h3\<lparr>tim_State := HAL_TIM_STATE_READY\<rparr>))"

definition HAL_TIM_Encoder_DeInit :: "(tim \<Rightarrow> tim) \<Rightarrow> tim \<Rightarrow> HAL_StatusTypeDef \<times> tim" where
  "HAL_TIM_Encoder_DeInit Encoder_MspDeInit h = tim_tear_down Encoder_MspDeInit h"

text \<open>The \<^verbatim>\<open>switch\<close> on the channel: one of the two, or both for any other value.\<close>
definition encoder_channels :: "u32 \<Rightarrow> u32 \<Rightarrow> tim \<Rightarrow> tim" where
  "encoder_channels Channel v h =
     (if Channel = TIM_CHANNEL_1 then TIM_CCxChannelCmd TIM_CHANNEL_1 v h
      else if Channel = TIM_CHANNEL_2 then TIM_CCxChannelCmd TIM_CHANNEL_2 v h
      else TIM_CCxChannelCmd TIM_CHANNEL_2 v (TIM_CCxChannelCmd TIM_CHANNEL_1 v h))"

definition encoder_bits :: "u32 \<Rightarrow> u32 \<Rightarrow> u32 \<Rightarrow> (u32 \<Rightarrow> tim \<Rightarrow> tim) \<Rightarrow> tim \<Rightarrow> tim" where
  "encoder_bits Channel b1 b2 switch h =
     (if Channel = TIM_CHANNEL_1 then switch b1 h
      else if Channel = TIM_CHANNEL_2 then switch b2 h else switch b2 (switch b1 h))"

definition HAL_TIM_Encoder_Start :: "u32 \<Rightarrow> tim \<Rightarrow> HAL_StatusTypeDef \<times> tim" where
  "HAL_TIM_Encoder_Start Channel h = (HAL_OK, tim_ENABLE (encoder_channels Channel TIM_CCx_ENABLE h))"

definition HAL_TIM_Encoder_Stop :: "u32 \<Rightarrow> tim \<Rightarrow> HAL_StatusTypeDef \<times> tim" where
  "HAL_TIM_Encoder_Stop Channel h = (HAL_OK, tim_DISABLE (encoder_channels Channel TIM_CCx_DISABLE h))"

definition HAL_TIM_Encoder_Start_IT :: "u32 \<Rightarrow> tim \<Rightarrow> HAL_StatusTypeDef \<times> tim" where
  "HAL_TIM_Encoder_Start_IT Channel h =
     (HAL_OK, tim_ENABLE (encoder_bits Channel TIM_IT_CC1 TIM_IT_CC2 tim_ENABLE_IT (encoder_channels Channel TIM_CCx_ENABLE h)))"

definition HAL_TIM_Encoder_Stop_IT :: "u32 \<Rightarrow> tim \<Rightarrow> HAL_StatusTypeDef \<times> tim" where
  "HAL_TIM_Encoder_Stop_IT Channel h =
     (HAL_OK, (tim_DISABLE (encoder_bits Channel TIM_IT_CC1 TIM_IT_CC2 tim_DISABLE_IT
        (encoder_channels Channel TIM_CCx_DISABLE h)))\<lparr>tim_State := HAL_TIM_STATE_READY\<rparr>)"

definition HAL_TIM_Encoder_GetState :: "tim \<Rightarrow> HAL_TIM_StateTypeDef" where
  "HAL_TIM_Encoder_GetState h = tim_State h"

section \<open>Hall sensor interface\<close>

definition HAL_TIMEx_HallSensor_Init :: "(tim \<Rightarrow> tim) \<Rightarrow> TIM_HallSensor_InitTypeDef \<Rightarrow> tim \<Rightarrow> HAL_StatusTypeDef \<times> tim" where
  "HAL_TIMEx_HallSensor_Init HallSensor_MspInit c h =
     (let h0 = tim_open HallSensor_MspInit h;
          h1 = TIM_Base_SetConfig (tim_Init h0) h0;
          h2 = TIM_TI1_SetConfig (hall_IC1Polarity c) TIM_ICSELECTION_TRC (hall_IC1Filter c) h1;
          h3 = h2\<lparr>tim_CCMR1 := (tim_CCMR1 h2 AND NOT TIM_CCMR1_IC1PSC) OR hall_IC1Prescaler c\<rparr>;
          h4 = h3\<lparr>tim_CR2 := tim_CR2 h3 OR TIM_CR2_TI1S\<rparr>;
          h5 = tim_select_trigger TIM_TS_TI1F_ED TIM_SLAVEMODE_RESET h4;
          h6 = TIM_OC2_SetConfig \<lparr>OCMode = TIM_OCMODE_PWM2, Pulse = Commutation_Delay c, OCPolarity = TIM_OCPOLARITY_HIGH,
                 OCNPolarity = TIM_OCNPOLARITY_HIGH, OCFastMode = TIM_OCFAST_DISABLE, OCIdleState = TIM_OCIDLESTATE_RESET,
                 OCNIdleState = TIM_OCNIDLESTATE_RESET\<rparr> h5;
          h7 = h6\<lparr>tim_CR2 := (tim_CR2 h6 AND NOT TIM_CR2_MMS) OR TIM_TRGO_OC2REF\<rparr>
      in (HAL_OK, h7\<lparr>tim_State := HAL_TIM_STATE_READY\<rparr>))"

definition HAL_TIMEx_HallSensor_DeInit :: "(tim \<Rightarrow> tim) \<Rightarrow> tim \<Rightarrow> HAL_StatusTypeDef \<times> tim" where
  "HAL_TIMEx_HallSensor_DeInit HallSensor_MspDeInit h = tim_tear_down HallSensor_MspDeInit h"

definition HAL_TIMEx_HallSensor_Start :: "tim \<Rightarrow> HAL_StatusTypeDef \<times> tim" where
  "HAL_TIMEx_HallSensor_Start h = (HAL_OK, tim_ENABLE (TIM_CCxChannelCmd TIM_CHANNEL_1 TIM_CCx_ENABLE h))"

definition HAL_TIMEx_HallSensor_Stop :: "tim \<Rightarrow> HAL_StatusTypeDef \<times> tim" where
  "HAL_TIMEx_HallSensor_Stop h = (HAL_OK, tim_DISABLE (TIM_CCxChannelCmd TIM_CHANNEL_1 TIM_CCx_DISABLE h))"

definition HAL_TIMEx_HallSensor_Start_IT :: "tim \<Rightarrow> HAL_StatusTypeDef \<times> tim" where
  "HAL_TIMEx_HallSensor_Start_IT h =
     (HAL_OK, tim_ENABLE (TIM_CCxChannelCmd TIM_CHANNEL_1 TIM_CCx_ENABLE (tim_ENABLE_IT TIM_IT_CC1 h)))"

definition HAL_TIMEx_HallSensor_Stop_IT :: "tim \<Rightarrow> HAL_StatusTypeDef \<times> tim" where
  "HAL_TIMEx_HallSensor_Stop_IT h =
     (HAL_OK, tim_DISABLE (tim_DISABLE_IT TIM_IT_CC1 (TIM_CCxChannelCmd TIM_CHANNEL_1 TIM_CCx_DISABLE h)))"

definition HAL_TIMEx_HallSensor_GetState :: "tim \<Rightarrow> HAL_TIM_StateTypeDef" where
  "HAL_TIMEx_HallSensor_GetState h = tim_State h"

section \<open>Complementary outputs\<close>

definition HAL_TIMEx_OCN_Start :: "u32 \<Rightarrow> tim \<Rightarrow> HAL_StatusTypeDef \<times> tim" where
  "HAL_TIMEx_OCN_Start Channel h = (HAL_OK, tim_ENABLE (tim_MOE_ENABLE (TIM_CCxNChannelCmd Channel TIM_CCxN_ENABLE h)))"

definition HAL_TIMEx_OCN_Stop :: "u32 \<Rightarrow> tim \<Rightarrow> HAL_StatusTypeDef \<times> tim" where
  "HAL_TIMEx_OCN_Stop Channel h = (HAL_OK, tim_DISABLE (tim_MOE_DISABLE (TIM_CCxNChannelCmd Channel TIM_CCxN_DISABLE h)))"

definition HAL_TIMEx_OCN_Start_IT :: "u32 \<Rightarrow> tim \<Rightarrow> HAL_StatusTypeDef \<times> tim" where
  "HAL_TIMEx_OCN_Start_IT Channel h =
     (let h1 = tim_ENABLE_IT TIM_IT_BREAK (tim_ENABLE_IT (channel_it Channel) h)
      in (HAL_OK, tim_ENABLE (tim_MOE_ENABLE (TIM_CCxNChannelCmd Channel TIM_CCxN_ENABLE h1))))"

definition HAL_TIMEx_OCN_Stop_IT :: "u32 \<Rightarrow> tim \<Rightarrow> HAL_StatusTypeDef \<times> tim" where
  "HAL_TIMEx_OCN_Stop_IT Channel h =
     (let h1 = TIM_CCxNChannelCmd Channel TIM_CCxN_DISABLE (tim_DISABLE_IT (channel_it Channel) h);
          h2 = (if tim_CCER h1 AND (TIM_CCER_CC1NE OR TIM_CCER_CC2NE OR TIM_CCER_CC3NE) = 0
                then tim_DISABLE_IT TIM_IT_BREAK h1 else h1)
      in (HAL_OK, tim_DISABLE (tim_MOE_DISABLE h2)))"

definition HAL_TIMEx_PWMN_Start :: "u32 \<Rightarrow> tim \<Rightarrow> HAL_StatusTypeDef \<times> tim" where
  "HAL_TIMEx_PWMN_Start Channel h = (HAL_OK, tim_ENABLE (tim_MOE_ENABLE (TIM_CCxNChannelCmd Channel TIM_CCxN_ENABLE h)))"

definition HAL_TIMEx_PWMN_Stop :: "u32 \<Rightarrow> tim \<Rightarrow> HAL_StatusTypeDef \<times> tim" where
  "HAL_TIMEx_PWMN_Stop Channel h = (HAL_OK, tim_DISABLE (tim_MOE_DISABLE (TIM_CCxNChannelCmd Channel TIM_CCxN_DISABLE h)))"

definition HAL_TIMEx_PWMN_Start_IT :: "u32 \<Rightarrow> tim \<Rightarrow> HAL_StatusTypeDef \<times> tim" where
  "HAL_TIMEx_PWMN_Start_IT Channel h =
     (let h1 = tim_ENABLE_IT TIM_IT_BREAK (tim_ENABLE_IT (channel_it Channel) h)
      in (HAL_OK, tim_ENABLE (tim_MOE_ENABLE (TIM_CCxNChannelCmd Channel TIM_CCxN_ENABLE h1))))"

definition HAL_TIMEx_PWMN_Stop_IT :: "u32 \<Rightarrow> tim \<Rightarrow> HAL_StatusTypeDef \<times> tim" where
  "HAL_TIMEx_PWMN_Stop_IT Channel h =
     (let h1 = TIM_CCxNChannelCmd Channel TIM_CCxN_DISABLE (tim_DISABLE_IT (channel_it Channel) h);
          h2 = (if tim_CCER h1 AND (TIM_CCER_CC1NE OR TIM_CCER_CC2NE OR TIM_CCER_CC3NE) = 0
                then tim_DISABLE_IT TIM_IT_BREAK h1 else h1)
      in (HAL_OK, tim_DISABLE (tim_MOE_DISABLE h2)))"

definition HAL_TIMEx_OnePulseN_Start :: "u32 \<Rightarrow> tim \<Rightarrow> HAL_StatusTypeDef \<times> tim" where
  "HAL_TIMEx_OnePulseN_Start OutputChannel h = (HAL_OK, tim_MOE_ENABLE (TIM_CCxNChannelCmd OutputChannel TIM_CCxN_ENABLE h))"

definition HAL_TIMEx_OnePulseN_Stop :: "u32 \<Rightarrow> tim \<Rightarrow> HAL_StatusTypeDef \<times> tim" where
  "HAL_TIMEx_OnePulseN_Stop OutputChannel h =
     (HAL_OK, tim_DISABLE (tim_MOE_DISABLE (TIM_CCxNChannelCmd OutputChannel TIM_CCxN_DISABLE h)))"

definition HAL_TIMEx_OnePulseN_Start_IT :: "u32 \<Rightarrow> tim \<Rightarrow> HAL_StatusTypeDef \<times> tim" where
  "HAL_TIMEx_OnePulseN_Start_IT OutputChannel h =
     (let h1 = tim_ENABLE_IT TIM_IT_CC2 (tim_ENABLE_IT TIM_IT_CC1 h)
      in (HAL_OK, tim_MOE_ENABLE (TIM_CCxNChannelCmd OutputChannel TIM_CCxN_ENABLE h1)))"

definition HAL_TIMEx_OnePulseN_Stop_IT :: "u32 \<Rightarrow> tim \<Rightarrow> HAL_StatusTypeDef \<times> tim" where
  "HAL_TIMEx_OnePulseN_Stop_IT OutputChannel h =
     (let h1 = tim_DISABLE_IT TIM_IT_CC2 (tim_DISABLE_IT TIM_IT_CC1 h)
      in (HAL_OK, tim_DISABLE (tim_MOE_DISABLE (TIM_CCxNChannelCmd OutputChannel TIM_CCxN_DISABLE h1))))"

section \<open>Events, references and clocks\<close>

definition HAL_TIM_GenerateEvent :: "u32 \<Rightarrow> tim \<Rightarrow> HAL_StatusTypeDef \<times> tim" where
  "HAL_TIM_GenerateEvent EventSource h = tim_locked (tim_log (EGR_set EventSource)) h"

definition tim_switch_CCMR1 :: "bool \<Rightarrow> u32 \<Rightarrow> tim \<Rightarrow> tim" where
  "tim_switch_CCMR1 on b h = h\<lparr>tim_CCMR1 := (if on then tim_CCMR1 h OR b else tim_CCMR1 h AND NOT b)\<rparr>"

definition tim_switch_CCMR2 :: "bool \<Rightarrow> u32 \<Rightarrow> tim \<Rightarrow> tim" where
  "tim_switch_CCMR2 on b h = h\<lparr>tim_CCMR2 := (if on then tim_CCMR2 h OR b else tim_CCMR2 h AND NOT b)\<rparr>"

definition HAL_TIM_ConfigOCrefClear :: "TIM_ClearInputConfigTypeDef \<Rightarrow> u32 \<Rightarrow> tim \<Rightarrow> HAL_StatusTypeDef \<times> tim" where
  "HAL_TIM_ConfigOCrefClear c Channel h =
     tim_locked (\<lambda>h.
       let h1 = (if ClearInputSource c = TIM_CLEARINPUTSOURCE_ETR
                 then TIM_ETR_SetConfig (ClearInputPrescaler c) (ClearInputPolarity c) (ClearInputFilter c) h else h);
           on = (ClearInputState c \<noteq> 0)
       in if Channel = TIM_CHANNEL_1 then tim_switch_CCMR1 on TIM_CCMR1_OC1CE h1
          else if Channel = TIM_CHANNEL_2 then tim_switch_CCMR1 on TIM_CCMR1_OC2CE h1
          else if Channel = TIM_CHANNEL_3 then tim_switch_CCMR2 on TIM_CCMR2_OC3CE h1
          else if Channel = TIM_CHANNEL_4 then tim_switch_CCMR2 on TIM_CCMR2_OC4CE h1 else h1) h"

definition HAL_TIM_ConfigClockSource :: "TIM_ClockConfigTypeDef \<Rightarrow> tim \<Rightarrow> HAL_StatusTypeDef \<times> tim" where
  "HAL_TIM_ConfigClockSource c h =
     tim_locked (\<lambda>h.
       let tmpsmcr = tim_SMCR h AND NOT (TIM_SMCR_SMS OR TIM_SMCR_TS);
           tmpsmcr = tmpsmcr AND NOT (TIM_SMCR_ETF OR TIM_SMCR_ETPS OR TIM_SMCR_ECE OR TIM_SMCR_ETP);
           h1 = h\<lparr>tim_SMCR := tmpsmcr\<rparr>;
           s = ClockSource c
       in if s = TIM_CLOCKSOURCE_INTERNAL then h1\<lparr>tim_SMCR := tim_SMCR h1 AND NOT TIM_SMCR_SMS\<rparr>
          else if s = TIM_CLOCKSOURCE_ETRMODE1
          then let h2 = TIM_ETR_SetConfig (ClockPrescaler c) (ClockPolarity c) (ClockFilter c) h1
               in h2\<lparr>tim_SMCR := (tim_SMCR h2 AND NOT (TIM_SMCR_SMS OR TIM_SMCR_TS))
                                   OR (TIM_SLAVEMODE_EXTERNAL1 OR TIM_CLOCKSOURCE_ETRMODE1)\<rparr>
          else if s = TIM_CLOCKSOURCE_ETRMODE2
          then let h2 = TIM_ETR_SetConfig (ClockPrescaler c) (ClockPolarity c) (ClockFilter c) h1
               in h2\<lparr>tim_SMCR := tim_SMCR h2 OR TIM_SMCR_ECE\<rparr>
          else if s = TIM_CLOCKSOURCE_TI1
          then TIM_ITRx_SetConfig TIM_CLOCKSOURCE_TI1 (TIM_TI1_ConfigInputStage (ClockPolarity c) (ClockFilter c) h1)
          else if s = TIM_CLOCKSOURCE_TI2
          then TIM_ITRx_SetConfig TIM_CLOCKSOURCE_TI2 (TIM_TI2_ConfigInputStage (ClockPolarity c) (ClockFilter c) h1)
          else if s = TIM_CLOCKSOURCE_TI1ED
          then TIM_ITRx_SetConfig TIM_CLOCKSOURCE_TI1ED (TIM_TI1_ConfigInputStage (ClockPolarity c) (ClockFilter c) h1)
          else if s = TIM_CLOCKSOURCE_ITR0 then TIM_ITRx_SetConfig TIM_CLOCKSOURCE_ITR0 h1
          else if s = TIM_CLOCKSOURCE_ITR1 then TIM_ITRx_SetConfig TIM_CLOCKSOURCE_ITR1 h1
          else if s = TIM_CLOCKSOURCE_ITR2 then TIM_ITRx_SetConfig TIM_CLOCKSOURCE_ITR2 h1
          else if s = TIM_CLOCKSOURCE_ITR3 then TIM_ITRx_SetConfig TIM_CLOCKSOURCE_ITR3 h1
          else h1) h"

definition HAL_TIM_ConfigTI1Input :: "u32 \<Rightarrow> tim \<Rightarrow> HAL_StatusTypeDef \<times> tim" where
  "HAL_TIM_ConfigTI1Input TI1_Selection h =
     (HAL_OK, h\<lparr>tim_CR2 := (tim_CR2 h AND NOT TIM_CR2_TI1S) OR TI1_Selection\<rparr>)"

section \<open>Synchronisation\<close>

definition TIM_SlaveTimer_SetConfig :: "TIM_SlaveConfigTypeDef \<Rightarrow> tim \<Rightarrow> tim" where
  "TIM_SlaveTimer_SetConfig c h =
     (let tmpsmcr = (tim_SMCR h AND NOT TIM_SMCR_TS) OR InputTrigger c;
          tmpsmcr = (tmpsmcr AND NOT TIM_SMCR_SMS) OR SlaveMode c;
          h1 = h\<lparr>tim_SMCR := tmpsmcr\<rparr>;
          s = InputTrigger c
      in if s = TIM_TS_ETRF then TIM_ETR_SetConfig (TriggerPrescaler c) (TriggerPolarity c) (TriggerFilter c) h1
         else if s = TIM_TS_TI1F_ED
         then let tmpccer = tim_CCER h1;
                  h2 = h1\<lparr>tim_CCER := tim_CCER h1 AND NOT TIM_CCER_CC1E\<rparr>;
                  tmpccmr1 = (tim_CCMR1 h2 AND NOT TIM_CCMR1_IC1F) OR push_bit 4 (TriggerFilter c)
              in h2\<lparr>tim_CCMR1 := tmpccmr1, tim_CCER := tmpccer\<rparr>
         else if s = TIM_TS_TI1FP1 then TIM_TI1_ConfigInputStage (TriggerPolarity c) (TriggerFilter c) h1
         else if s = TIM_TS_TI2FP2 then TIM_TI2_ConfigInputStage (TriggerPolarity c) (TriggerFilter c) h1
         else h1)"

definition HAL_TIM_SlaveConfigSynchronization :: "TIM_SlaveConfigTypeDef \<Rightarrow> tim \<Rightarrow> HAL_StatusTypeDef \<times> tim" where
  "HAL_TIM_SlaveConfigSynchronization c h =
     tim_locked (\<lambda>h. tim_DISABLE_DMA TIM_DMA_TRIGGER (tim_DISABLE_IT TIM_IT_TRIGGER (TIM_SlaveTimer_SetConfig c h))) h"

definition HAL_TIM_SlaveConfigSynchronization_IT :: "TIM_SlaveConfigTypeDef \<Rightarrow> tim \<Rightarrow> HAL_StatusTypeDef \<times> tim" where
  "HAL_TIM_SlaveConfigSynchronization_IT c h =
     tim_locked (\<lambda>h. tim_DISABLE_DMA TIM_DMA_TRIGGER (tim_ENABLE_IT TIM_IT_TRIGGER (TIM_SlaveTimer_SetConfig c h))) h"

definition HAL_TIMEx_MasterConfigSynchronization :: "TIM_MasterConfigTypeDef \<Rightarrow> tim \<Rightarrow> HAL_StatusTypeDef \<times> tim" where
  "HAL_TIMEx_MasterConfigSynchronization c h =
     tim_locked (\<lambda>h. h\<lparr>tim_CR2 := (tim_CR2 h AND NOT TIM_CR2_MMS) OR MasterOutputTrigger c,
                       tim_SMCR := (tim_SMCR h AND NOT TIM_SMCR_MSM) OR MasterSlaveMode c\<rparr>) h"

section \<open>Break, dead time and remapping\<close>

definition HAL_TIMEx_ConfigBreakDeadTime :: "TIM_BreakDeadTimeConfigTypeDef \<Rightarrow> tim \<Rightarrow> HAL_StatusTypeDef \<times> tim" where
  "HAL_TIMEx_ConfigBreakDeadTime c h =
     tim_locked (\<lambda>h. h\<lparr>tim_BDTR := OffStateRunMode c OR OffStateIDLEMode c OR LockLevel c OR DeadTime c OR BreakState c
                                    OR BreakPolarity c OR AutomaticOutput c\<rparr>) h"

text \<open>Unlike the others, this one does not go through the busy state.\<close>
definition HAL_TIMEx_RemapConfig :: "u32 \<Rightarrow> tim \<Rightarrow> HAL_StatusTypeDef \<times> tim" where
  "HAL_TIMEx_RemapConfig Remap h =
     (if tim_Lock h = HAL_LOCKED then (HAL_BUSY, h)
      else (HAL_OK, h\<lparr>tim_Lock := HAL_LOCKED, tim_OR := Remap, tim_State := HAL_TIM_STATE_READY, tim_Lock := HAL_UNLOCKED\<rparr>))"

section \<open>The counter and the outputs\<close>

text \<open>While a channel or a complementary channel is enabled, the counter runs.\<close>
definition tim_alive :: "tim \<Rightarrow> bool" where
  "tim_alive h \<longleftrightarrow> tim_outputs h \<noteq> {} \<longrightarrow> tim_running h"

lemma tim_alive_ENABLE [simp]: "tim_alive (tim_ENABLE h)"
  by (simp add: tim_alive_def)

lemma tim_alive_DISABLE [simp]: "tim_alive (tim_DISABLE h) = tim_alive h"
  by (auto simp: tim_alive_def tim_DISABLE_running tim_outputs_cong [of "tim_DISABLE h" h])

text \<open>A change that enables no output and does not stop the counter.\<close>
lemma tim_alive_mono:
  assumes "tim_alive h" "\<And>n. n \<in> {0, 4, 8, 12, 2, 6, 10} \<Longrightarrow> bit (tim_CCER h') n \<Longrightarrow> bit (tim_CCER h) n"
    "bit (tim_CR1 h) 0 \<Longrightarrow> bit (tim_CR1 h') 0"
  shows "tim_alive h'"
  using assms by (auto simp: tim_alive_def tim_outputs_def tim_running_def)

lemma tim_alive_cong:
  "tim_CCER h' = tim_CCER h \<Longrightarrow> tim_CR1 h' = tim_CR1 h \<Longrightarrow> tim_alive h' = tim_alive h"
  by (simp add: tim_alive_def tim_outputs_def tim_running_def)

text \<open>Parameters within the ranges of \<^verbatim>\<open>IS_TIM_OC_POLARITY\<close>, \<^verbatim>\<open>IS_TIM_IC_POLARITY\<close> and
  \<^verbatim>\<open>IS_TIM_TRIGGERPOLARITY\<close>.\<close>
definition oc_valid :: "TIM_OC_InitTypeDef \<Rightarrow> bool" where
  "oc_valid c \<longleftrightarrow> (OCPolarity c = 0 \<or> OCPolarity c = 2) \<and> (OCNPolarity c = 0 \<or> OCNPolarity c = 8)"

definition ic_polarity :: "u32 \<Rightarrow> bool" where
  "ic_polarity p \<longleftrightarrow> p = 0 \<or> p = 2 \<or> p = 0xA"

definition trigger_polarity :: "u32 \<Rightarrow> bool" where
  "trigger_polarity p \<longleftrightarrow> ic_polarity p \<or> p = 0x8000"

lemma tim_alive_channel_off:
  assumes "tim_channel c" "tim_alive h"
  shows "tim_alive (TIM_CCxChannelCmd c TIM_CCx_DISABLE h)"
  by (rule tim_alive_mono [OF assms(2)]) (auto simp: CCxChannelCmd_bits [OF assms(1)], simp add: TIM_CCxChannelCmd_def)

lemma tim_alive_complement_off:
  assumes "tim_alive h"
  shows "tim_alive (TIM_CCxNChannelCmd c TIM_CCxN_DISABLE h)"
  by (rule tim_alive_mono [OF assms]) (auto simp: TIM_CCxNChannelCmd_def TIM_CCxN_DISABLE_def bit_simps)

lemma tim_alive_OC:
  assumes "oc_valid c" "tim_alive h"
  shows "tim_alive (TIM_OC1_SetConfig c h)" "tim_alive (TIM_OC2_SetConfig c h)" "tim_alive (TIM_OC3_SetConfig c h)"
    "tim_alive (TIM_OC4_SetConfig c h)"
proof -
  note oc = assms(1) [unfolded oc_valid_def]
  show "tim_alive (TIM_OC1_SetConfig c h)"
    by (rule tim_alive_mono [OF assms(2)])
      (use oc in \<open>auto simp: TIM_OC1_SetConfig_def Let_def tim_consts bit_simps split: if_splits\<close>)
  show "tim_alive (TIM_OC2_SetConfig c h)"
    by (rule tim_alive_mono [OF assms(2)])
      (use oc in \<open>auto simp: TIM_OC2_SetConfig_def Let_def tim_consts bit_simps split: if_splits\<close>)
  show "tim_alive (TIM_OC3_SetConfig c h)"
    by (rule tim_alive_mono [OF assms(2)])
      (use oc in \<open>auto simp: TIM_OC3_SetConfig_def Let_def tim_consts bit_simps split: if_splits\<close>)
  show "tim_alive (TIM_OC4_SetConfig c h)"
    by (rule tim_alive_mono [OF assms(2)])
      (use oc in \<open>auto simp: TIM_OC4_SetConfig_def Let_def tim_consts bit_simps split: if_splits\<close>)
qed

lemma tim_alive_TI:
  assumes "tim_alive h"
  shows "tim_alive (TIM_TI1_SetConfig p s f h)" "tim_alive (TIM_TI2_SetConfig p s f h)"
    "tim_alive (TIM_TI3_SetConfig p s f h)" "tim_alive (TIM_TI4_SetConfig p s f h)"
  by (rule tim_alive_mono [OF assms];
      auto simp: TIM_TI1_SetConfig_def TIM_TI2_SetConfig_def TIM_TI3_SetConfig_def TIM_TI4_SetConfig_def Let_def tim_consts
        bit_simps)+

lemma tim_alive_stage:
  assumes "trigger_polarity p" "tim_alive h"
  shows "tim_alive (TIM_TI1_ConfigInputStage p f h)" "tim_alive (TIM_TI2_ConfigInputStage p f h)"
proof -
  note tp = assms(1) [unfolded trigger_polarity_def ic_polarity_def]
  show "tim_alive (TIM_TI1_ConfigInputStage p f h)"
    by (rule tim_alive_mono [OF assms(2)])
      (use tp in \<open>auto simp: TIM_TI1_ConfigInputStage_def Let_def tim_consts bit_simps\<close>)
  show "tim_alive (TIM_TI2_ConfigInputStage p f h)"
    by (rule tim_alive_mono [OF assms(2)])
      (use tp in \<open>auto simp: TIM_TI2_ConfigInputStage_def Let_def tim_consts bit_simps\<close>)
qed

lemma tim_alive_update [simp]:
  "tim_alive (h\<lparr>tim_State := st\<rparr>) = tim_alive h" "tim_alive (h\<lparr>tim_Lock := l\<rparr>) = tim_alive h"
  "tim_alive (h\<lparr>tim_DIER := v\<rparr>) = tim_alive h" "tim_alive (h\<lparr>tim_SMCR := v\<rparr>) = tim_alive h"
  "tim_alive (h\<lparr>tim_CR2 := v\<rparr>) = tim_alive h" "tim_alive (h\<lparr>tim_CCMR1 := v\<rparr>) = tim_alive h"
  "tim_alive (h\<lparr>tim_CCMR2 := v\<rparr>) = tim_alive h" "tim_alive (h\<lparr>tim_BDTR := v\<rparr>) = tim_alive h"
  "tim_alive (h\<lparr>tim_OR := v\<rparr>) = tim_alive h" "tim_alive (h\<lparr>tim_io := v2\<rparr>) = tim_alive h"
  by (simp_all add: tim_alive_def tim_outputs_def tim_running_def)

lemma tim_alive_plain [simp]:
  "tim_alive (tim_MOE_ENABLE h) = tim_alive h" "tim_alive (tim_MOE_DISABLE h) = tim_alive h"
  "tim_alive (tim_ENABLE_IT it h) = tim_alive h" "tim_alive (tim_DISABLE_IT it h) = tim_alive h"
  "tim_alive (tim_ENABLE_DMA it h) = tim_alive h" "tim_alive (tim_DISABLE_DMA it h) = tim_alive h"
  "tim_alive (tim_output_on h) = tim_alive h" "tim_alive (tim_output_off h) = tim_alive h"
  "tim_alive (tim_log x h) = tim_alive h" "tim_alive (tim_select_trigger a b h) = tim_alive h"
  "tim_alive (TIM_ETR_SetConfig a b d h) = tim_alive h" "tim_alive (TIM_ITRx_SetConfig a h) = tim_alive h"
  "tim_alive (tim_switch_CCMR1 on a h) = tim_alive h" "tim_alive (tim_switch_CCMR2 on a h) = tim_alive h"
  by (simp_all add: tim_MOE_ENABLE_def tim_MOE_DISABLE_def tim_ENABLE_IT_def tim_DISABLE_IT_def tim_ENABLE_DMA_def
      tim_DISABLE_DMA_def tim_output_on_def tim_output_off_def tim_log_def tim_select_trigger_def TIM_ETR_SetConfig_def
      TIM_ITRx_SetConfig_def tim_switch_CCMR1_def tim_switch_CCMR2_def Let_def)

lemma tim_alive_base:
  assumes "tim_alive h"
  shows "tim_alive (TIM_Base_SetConfig s h)"
proof (rule tim_alive_mono [OF assms])
  show "bit (tim_CR1 (TIM_Base_SetConfig s h)) 0" if "bit (tim_CR1 h) 0"
    using that by (cases "IS_TIM_REPETITION_COUNTER_INSTANCE (tim_Instance h)")
      (auto simp: TIM_Base_SetConfig_def tim_log_def Let_def tim_consts bit_simps)
qed (simp add: TIM_Base_SetConfig_def tim_log_def Let_def split: if_splits)

section \<open>All calls without DMA\<close>

text \<open>A low-level set-up that leaves the timer itself alone, as the weak default and those of the firmware do.\<close>
definition tim_msp :: "(tim \<Rightarrow> tim) \<Rightarrow> bool" where
  "tim_msp msp \<longleftrightarrow> (\<forall>h. tim_CCER (msp h) = tim_CCER h \<and> tim_CR1 (msp h) = tim_CR1 h \<and> tim_Lock (msp h) = tim_Lock h
     \<and> tim_State (msp h) = tim_State h)"

text \<open>Calls with parameters in their documented ranges.  The starts of the one-pulse modes, where the hardware switches the
  counter on, are left out.\<close>
inductive tim_call :: "(tim \<Rightarrow> HAL_StatusTypeDef \<times> tim) \<Rightarrow> bool" where
  set_up: "tim_msp msp \<Longrightarrow> f \<in> {HAL_TIM_Base_Init, HAL_TIM_OC_Init, HAL_TIM_PWM_Init, HAL_TIM_IC_Init} \<Longrightarrow> tim_call (f msp)"
| one_pulse_init: "tim_msp msp \<Longrightarrow> m = 0 \<or> m = TIM_CR1_OPM \<Longrightarrow> tim_call (HAL_TIM_OnePulse_Init msp m)"
| encoder_init: "tim_msp msp \<Longrightarrow> ic_polarity (IC1Polarity e) \<Longrightarrow> ic_polarity (IC2Polarity e) \<Longrightarrow>
    tim_call (HAL_TIM_Encoder_Init msp e)"
| hall_init: "tim_msp msp \<Longrightarrow> tim_call (HAL_TIMEx_HallSensor_Init msp hc)"
| tear_down: "tim_msp msp \<Longrightarrow> f \<in> {HAL_TIM_Base_DeInit, HAL_TIM_OC_DeInit, HAL_TIM_PWM_DeInit, HAL_TIM_IC_DeInit,
    HAL_TIM_OnePulse_DeInit, HAL_TIM_Encoder_DeInit, HAL_TIMEx_HallSensor_DeInit} \<Longrightarrow> tim_call (f msp)"
| start: "f \<in> {HAL_TIM_OC_Start, HAL_TIM_OC_Start_IT, HAL_TIM_PWM_Start, HAL_TIM_PWM_Start_IT, HAL_TIM_IC_Start,
    HAL_TIM_IC_Start_IT, HAL_TIM_Encoder_Start, HAL_TIM_Encoder_Start_IT, HAL_TIMEx_OCN_Start, HAL_TIMEx_OCN_Start_IT,
    HAL_TIMEx_PWMN_Start, HAL_TIMEx_PWMN_Start_IT} \<Longrightarrow> tim_channel c \<Longrightarrow> tim_call (f c)"
| stop: "f \<in> {HAL_TIM_OC_Stop, HAL_TIM_OC_Stop_IT, HAL_TIM_PWM_Stop, HAL_TIM_PWM_Stop_IT, HAL_TIM_IC_Stop,
    HAL_TIM_IC_Stop_IT, HAL_TIM_Encoder_Stop, HAL_TIM_Encoder_Stop_IT, HAL_TIMEx_OCN_Stop, HAL_TIMEx_OCN_Stop_IT,
    HAL_TIMEx_PWMN_Stop, HAL_TIMEx_PWMN_Stop_IT, HAL_TIM_OnePulse_Stop, HAL_TIM_OnePulse_Stop_IT, HAL_TIMEx_OnePulseN_Stop,
    HAL_TIMEx_OnePulseN_Stop_IT} \<Longrightarrow> tim_channel c \<Longrightarrow> tim_call (f c)"
| whole: "f \<in> {HAL_TIM_Base_Start, HAL_TIM_Base_Stop, HAL_TIM_Base_Start_IT, HAL_TIM_Base_Stop_IT,
    HAL_TIMEx_HallSensor_Start, HAL_TIMEx_HallSensor_Stop, HAL_TIMEx_HallSensor_Start_IT, HAL_TIMEx_HallSensor_Stop_IT} \<Longrightarrow>
    tim_call f"
| output_channel: "f \<in> {HAL_TIM_OC_ConfigChannel, HAL_TIM_PWM_ConfigChannel} \<Longrightarrow> oc_valid oc \<Longrightarrow> tim_call (f oc c)"
| input_channel: "tim_call (HAL_TIM_IC_ConfigChannel ic c)"
| one_pulse_channel: "oc_valid \<lparr>OCMode = op_OCMode op, Pulse = op_Pulse op, OCPolarity = op_OCPolarity op,
      OCNPolarity = op_OCNPolarity op, OCFastMode = g, OCIdleState = op_OCIdleState op, OCNIdleState = op_OCNIdleState op\<rparr> \<Longrightarrow>
    c1 \<noteq> c2 \<Longrightarrow> tim_call (HAL_TIM_OnePulse_ConfigChannel g op c1 c2)"
| event: "tim_call (HAL_TIM_GenerateEvent x)"
| clear: "tim_call (HAL_TIM_ConfigOCrefClear cl c)"
| clock: "trigger_polarity (ClockPolarity ck) \<Longrightarrow> tim_call (HAL_TIM_ConfigClockSource ck)"
| ti1: "tim_call (HAL_TIM_ConfigTI1Input x)"
| slave: "f \<in> {HAL_TIM_SlaveConfigSynchronization, HAL_TIM_SlaveConfigSynchronization_IT} \<Longrightarrow>
    trigger_polarity (TriggerPolarity sl) \<Longrightarrow> tim_call (f sl)"
| master: "tim_call (HAL_TIMEx_MasterConfigSynchronization ma)"
| break: "tim_call (HAL_TIMEx_ConfigBreakDeadTime bd)"
| remap: "tim_call (HAL_TIMEx_RemapConfig x)"

inductive tim_reach :: "tim \<Rightarrow> bool" where
  fresh: "tim_State h = HAL_TIM_STATE_RESET \<Longrightarrow> tim_Lock h = HAL_UNLOCKED \<Longrightarrow> tim_outputs h = {} \<Longrightarrow> tim_reach h"
| call: "tim_reach h \<Longrightarrow> tim_call f \<Longrightarrow> tim_reach (snd (f h))"

definition tim_ok :: "tim \<Rightarrow> bool" where
  "tim_ok h \<longleftrightarrow> tim_Lock h = HAL_UNLOCKED \<and> (tim_State h = HAL_TIM_STATE_RESET \<or> tim_State h = HAL_TIM_STATE_READY) \<and> tim_alive h"

text \<open>What the lock and the state become under the parts of an operation.\<close>
lemma tim_keeps [simp]:
  "tim_Lock (tim_ENABLE h) = tim_Lock h" "tim_State (tim_ENABLE h) = tim_State h"
  "tim_Lock (tim_DISABLE h) = tim_Lock h" "tim_State (tim_DISABLE h) = tim_State h"
  "tim_Lock (tim_MOE_ENABLE h) = tim_Lock h" "tim_State (tim_MOE_ENABLE h) = tim_State h"
  "tim_Lock (tim_MOE_DISABLE h) = tim_Lock h" "tim_State (tim_MOE_DISABLE h) = tim_State h"
  "tim_Lock (tim_ENABLE_IT it h) = tim_Lock h" "tim_State (tim_ENABLE_IT it h) = tim_State h"
  "tim_Lock (tim_DISABLE_IT it h) = tim_Lock h" "tim_State (tim_DISABLE_IT it h) = tim_State h"
  "tim_Lock (TIM_CCxChannelCmd c v h) = tim_Lock h" "tim_State (TIM_CCxChannelCmd c v h) = tim_State h"
  "tim_Lock (TIM_CCxNChannelCmd c v h) = tim_Lock h" "tim_State (TIM_CCxNChannelCmd c v h) = tim_State h"
  "tim_Lock (TIM_Base_SetConfig s h) = tim_Lock h" "tim_State (TIM_Base_SetConfig s h) = tim_State h"
  "tim_Lock (tim_output_on h) = tim_Lock h" "tim_State (tim_output_on h) = tim_State h"
  "tim_Lock (tim_output_off h) = tim_Lock h" "tim_State (tim_output_off h) = tim_State h"
  by (simp_all add: tim_macros TIM_CCxChannelCmd_def TIM_CCxNChannelCmd_def TIM_Base_SetConfig_def tim_output_on_def
      tim_output_off_def Let_def)

lemma tim_ok_open:
  assumes "tim_msp msp" "tim_ok h"
  shows "tim_Lock (tim_open msp h) = HAL_UNLOCKED" "tim_alive (tim_open msp h)"
  using assms by (auto simp: tim_open_def tim_msp_def tim_ok_def tim_alive_def tim_outputs_def tim_running_def)

lemma tim_set_up_open: "tim_set_up msp h = (HAL_OK, (TIM_Base_SetConfig (tim_Init (tim_open msp h)) (tim_open msp h))\<lparr>tim_State := HAL_TIM_STATE_READY\<rparr>)"
  by (simp add: tim_set_up_def tim_open_def Let_def)

lemma tim_ok_locked:
  assumes "tim_ok h" "\<And>h'. tim_alive h' \<Longrightarrow> tim_alive (change h')"
  shows "fst (tim_locked change h) = HAL_OK" "tim_ok (snd (tim_locked change h))"
  using assms by (simp_all add: tim_locked_def tim_ok_def)

lemma encoder_keeps [simp]:
  "tim_Lock (encoder_channels c v h) = tim_Lock h" "tim_State (encoder_channels c v h) = tim_State h"
  "tim_Lock (encoder_bits c b1 b2 tim_ENABLE_IT h) = tim_Lock h" "tim_State (encoder_bits c b1 b2 tim_ENABLE_IT h) = tim_State h"
  "tim_Lock (encoder_bits c b1 b2 tim_DISABLE_IT h) = tim_Lock h" "tim_State (encoder_bits c b1 b2 tim_DISABLE_IT h) = tim_State h"
  "tim_alive (encoder_bits c b1 b2 tim_DISABLE_IT h) = tim_alive h"
  by (simp_all add: encoder_channels_def encoder_bits_def)

lemma encoder_off: "tim_alive h \<Longrightarrow> tim_alive (encoder_channels c TIM_CCx_DISABLE h)"
  by (auto simp: encoder_channels_def tim_channel_def intro!: tim_alive_channel_off)

lemma hall_keeps [simp]:
  "tim_Lock (TIM_TI1_SetConfig p s f h) = tim_Lock h" "tim_Lock (TIM_OC2_SetConfig oc h) = tim_Lock h"
  "tim_Lock (tim_select_trigger a b h) = tim_Lock h"
  by (simp_all add: TIM_TI1_SetConfig_def TIM_OC2_SetConfig_def tim_select_trigger_def Let_def)

lemma set_up_ok:
  assumes "tim_msp msp" "tim_ok h"
  shows "fst (tim_set_up msp h) = HAL_OK \<and> tim_ok (snd (tim_set_up msp h))"
  using tim_ok_open [OF assms] by (simp add: tim_set_up_open tim_ok_def tim_alive_base)

lemma tear_down_ok:
  assumes "tim_msp msp" "tim_ok h"
  shows "fst (tim_tear_down msp h) = HAL_OK \<and> tim_ok (snd (tim_tear_down msp h))"
proof -
  let ?h = "tim_DISABLE (h\<lparr>tim_State := HAL_TIM_STATE_BUSY\<rparr>)"
  have "tim_alive (msp ?h) = tim_alive ?h"
    using assms(1) by (intro tim_alive_cong) (simp_all add: tim_msp_def)
  then show ?thesis using assms(2) by (simp add: tim_tear_down_def tim_ok_def)
qed

lemma mode_init_ok:
  assumes "tim_msp msp" "tim_ok h"
  shows "fst (HAL_TIM_OnePulse_Init msp m h) = HAL_OK \<and> tim_ok (snd (HAL_TIM_OnePulse_Init msp m h))"
    "ic_polarity (IC1Polarity e) \<Longrightarrow> ic_polarity (IC2Polarity e) \<Longrightarrow>
       fst (HAL_TIM_Encoder_Init msp e h) = HAL_OK \<and> tim_ok (snd (HAL_TIM_Encoder_Init msp e h))"
    "fst (HAL_TIMEx_HallSensor_Init msp hc h) = HAL_OK \<and> tim_ok (snd (HAL_TIMEx_HallSensor_Init msp hc h))"
proof -
  note o = tim_ok_open [OF assms]
  let ?o = "tim_open msp h" let ?b = "TIM_Base_SetConfig (tim_Init ?o) ?o"
  have b: "tim_alive ?b" "tim_Lock ?b = HAL_UNLOCKED" using o by (simp_all add: tim_alive_base)
  have "tim_alive (?b\<lparr>tim_CR1 := v OR m\<rparr>)" if "v = tim_CR1 ?b AND NOT TIM_CR1_OPM" for v
    by (rule tim_alive_mono [OF b(1)]) (simp_all add: that TIM_CR1_OPM_def bit_simps)
  then show "fst (HAL_TIM_OnePulse_Init msp m h) = HAL_OK \<and> tim_ok (snd (HAL_TIM_OnePulse_Init msp m h))"
    using b(2) by (simp add: HAL_TIM_OnePulse_Init_def Let_def tim_ok_def)
  show "fst (HAL_TIMEx_HallSensor_Init msp hc h) = HAL_OK \<and> tim_ok (snd (HAL_TIMEx_HallSensor_Init msp hc h))"
    using b by (simp add: HAL_TIMEx_HallSensor_Init_def Let_def tim_ok_def tim_alive_OC tim_alive_TI oc_valid_def
        TIM_OCPOLARITY_HIGH_def TIM_OCNPOLARITY_HIGH_def)
  let ?s = "?o\<lparr>tim_SMCR := tim_SMCR ?o AND NOT TIM_SMCR_SMS\<rparr>" let ?c = "TIM_Base_SetConfig (tim_Init ?s) ?s"
  have c: "tim_alive ?c" "tim_Lock ?c = HAL_UNLOCKED" using o by (simp_all add: tim_alive_base)
  assume p: "ic_polarity (IC1Polarity e)" "ic_polarity (IC2Polarity e)"
  have "tim_alive (?c\<lparr>tim_CCER := v\<rparr>)"
    if "v = ((tim_CCER ?c AND NOT (TIM_CCER_CC1P OR TIM_CCER_CC2P)) AND NOT (TIM_CCER_CC1NP OR TIM_CCER_CC2NP))
      OR (IC1Polarity e OR push_bit 4 (IC2Polarity e))" for v
    by (rule tim_alive_mono [OF c(1)]) (use p that in \<open>auto simp: ic_polarity_def tim_consts bit_simps\<close>)
  moreover have "tim_alive (g\<lparr>tim_SMCR := x, tim_CCMR1 := y, tim_CCER := v\<rparr>) = tim_alive (g\<lparr>tim_CCER := v\<rparr>)" for g x y v
    by (rule tim_alive_cong) simp_all
  ultimately show "fst (HAL_TIM_Encoder_Init msp e h) = HAL_OK \<and> tim_ok (snd (HAL_TIM_Encoder_Init msp e h))"
    using c(2) by (simp add: HAL_TIM_Encoder_Init_def Let_def tim_ok_def)
qed

lemma slave_alive:
  assumes "trigger_polarity (TriggerPolarity sl)" "tim_alive h"
  shows "tim_alive (TIM_SlaveTimer_SetConfig sl h)"
proof -
  have "tim_alive (g\<lparr>tim_CCMR1 := y, tim_CCER := tim_CCER g\<rparr>) = tim_alive g" for g y
    by (rule tim_alive_cong) simp_all
  then show ?thesis
    using assms by (simp add: TIM_SlaveTimer_SetConfig_def Let_def tim_alive_stage)
qed

lemma tim_call_ok:
  assumes "tim_call f" "tim_ok h"
  shows "fst (f h) = HAL_OK \<and> tim_ok (snd (f h))"
  using assms
proof (induction rule: tim_call.induct)
  case (set_up msp f)
  then show ?case using set_up_ok [of msp h]
    by (auto simp: HAL_TIM_Base_Init_def HAL_TIM_OC_Init_def HAL_TIM_PWM_Init_def HAL_TIM_IC_Init_def)
next
  case (tear_down msp f)
  then show ?case using tear_down_ok [of msp h]
    by (auto simp: HAL_TIM_Base_DeInit_def HAL_TIM_OC_DeInit_def HAL_TIM_PWM_DeInit_def HAL_TIM_IC_DeInit_def
        HAL_TIM_OnePulse_DeInit_def HAL_TIM_Encoder_DeInit_def HAL_TIMEx_HallSensor_DeInit_def)
next
  case (start f c)
  then show ?case
    by (auto simp: HAL_TIM_OC_Start_def HAL_TIM_OC_Start_IT_def HAL_TIM_PWM_Start_def HAL_TIM_PWM_Start_IT_def
        HAL_TIM_IC_Start_def HAL_TIM_IC_Start_IT_def HAL_TIM_Encoder_Start_def HAL_TIM_Encoder_Start_IT_def
        HAL_TIMEx_OCN_Start_def HAL_TIMEx_OCN_Start_IT_def HAL_TIMEx_PWMN_Start_def HAL_TIMEx_PWMN_Start_IT_def
        tim_ok_def Let_def)
next
  case (stop f c)
  have "tim_channel TIM_CHANNEL_1" "tim_channel TIM_CHANNEL_2" by (simp_all add: tim_channel_def)
  with stop show ?case
    by (auto simp: HAL_TIM_OC_Stop_def HAL_TIM_OC_Stop_IT_def HAL_TIM_PWM_Stop_def HAL_TIM_PWM_Stop_IT_def
        HAL_TIM_IC_Stop_def HAL_TIM_IC_Stop_IT_def HAL_TIM_Encoder_Stop_def HAL_TIM_Encoder_Stop_IT_def
        HAL_TIMEx_OCN_Stop_def HAL_TIMEx_OCN_Stop_IT_def HAL_TIMEx_PWMN_Stop_def HAL_TIMEx_PWMN_Stop_IT_def
        HAL_TIM_OnePulse_Stop_def HAL_TIM_OnePulse_Stop_IT_def HAL_TIMEx_OnePulseN_Stop_def
        HAL_TIMEx_OnePulseN_Stop_IT_def tim_ok_def Let_def tim_alive_channel_off tim_alive_complement_off encoder_off split: if_splits)
next
  case (whole f)
  have "tim_channel TIM_CHANNEL_1" by (simp add: tim_channel_def)
  with whole show ?case
    by (auto simp: HAL_TIM_Base_Start_def HAL_TIM_Base_Stop_def HAL_TIM_Base_Start_IT_def HAL_TIM_Base_Stop_IT_def
        HAL_TIMEx_HallSensor_Start_def HAL_TIMEx_HallSensor_Stop_def HAL_TIMEx_HallSensor_Start_IT_def
        HAL_TIMEx_HallSensor_Stop_IT_def tim_ok_def tim_alive_channel_off)
next
  case (output_channel f oc c)
  then show ?case
    by (auto simp: HAL_TIM_OC_ConfigChannel_def HAL_TIM_PWM_ConfigChannel_def Let_def tim_alive_OC intro!: tim_ok_locked)
next
  case (input_channel ic c)
  then show ?case
    by (auto simp: HAL_TIM_IC_ConfigChannel_def Let_def tim_alive_TI intro!: tim_ok_locked)
next
  case (one_pulse_channel op g c1 c2)
  then show ?case
    by (auto simp: HAL_TIM_OnePulse_ConfigChannel_def Let_def tim_alive_TI tim_alive_OC intro!: tim_ok_locked)
next
  case (clock ck)
  then show ?case
    by (auto simp: HAL_TIM_ConfigClockSource_def Let_def tim_alive_stage intro!: tim_ok_locked)
next
  case (remap x)
  then show ?case by (simp add: HAL_TIMEx_RemapConfig_def tim_ok_def)
next
  case (ti1 x)
  then show ?case by (simp add: HAL_TIM_ConfigTI1Input_def tim_ok_def)
qed (auto simp: mode_init_ok HAL_TIM_GenerateEvent_def HAL_TIM_ConfigOCrefClear_def Let_def
    HAL_TIM_SlaveConfigSynchronization_def HAL_TIM_SlaveConfigSynchronization_IT_def slave_alive
    HAL_TIMEx_MasterConfigSynchronization_def HAL_TIMEx_ConfigBreakDeadTime_def intro!: tim_ok_locked)

lemma tim_reach_ok: "tim_reach h \<Longrightarrow> tim_ok h"
proof (induction rule: tim_reach.induct)
  case (fresh h)
  then show ?case by (simp add: tim_ok_def tim_alive_def)
next
  case (call h f)
  then show ?case using tim_call_ok by blast
qed

section \<open>Properties\<close>


definition ex_tim_fresh :: tim where
  "ex_tim_fresh = ex_tim\<lparr>tim_Instance := TIM15, tim_CR1 := 0, tim_CCER := 0, tim_State := HAL_TIM_STATE_RESET\<rparr>"

text \<open>A PWM channel and its complement; stopping the first leaves the counter to the second.\<close>
definition ex_tim_pwm :: tim where
  "ex_tim_pwm = snd (HAL_TIM_PWM_Stop TIM_CHANNEL_1 (snd (HAL_TIMEx_PWMN_Start TIM_CHANNEL_1
     (snd (HAL_TIM_PWM_Start TIM_CHANNEL_1 (snd (HAL_TIM_PWM_Init id ex_tim_fresh)))))))"

lemma ex_tim_reach: "tim_reach ex_tim_pwm"
proof -
  have "tim_reach ex_tim_fresh" by (rule tim_reach.fresh) (simp_all add: ex_tim_fresh_def ex_tim_def tim_outputs_def)
  moreover have "tim_call (HAL_TIM_PWM_Init id)" by (rule tim_call.set_up) (simp_all add: tim_msp_def)
  moreover have "tim_call (HAL_TIM_PWM_Start TIM_CHANNEL_1)" "tim_call (HAL_TIMEx_PWMN_Start TIM_CHANNEL_1)"
    by (rule tim_call.start, simp_all add: tim_channel_def)+
  moreover have "tim_call (HAL_TIM_PWM_Stop TIM_CHANNEL_1)" by (rule tim_call.stop) (simp_all add: tim_channel_def)
  ultimately show ?thesis unfolding ex_tim_pwm_def by (intro tim_reach.call)
qed

lemma ex_tim_pwm_CCER: "tim_CCER ex_tim_pwm = 4"
  by (simp add: ex_tim_pwm_def HAL_TIM_PWM_Stop_def HAL_TIMEx_PWMN_Start_def HAL_TIM_PWM_Start_def HAL_TIM_PWM_Init_def
      tim_set_up_def TIM_Base_SetConfig_def tim_log_def Let_def ex_tim_fresh_def ex_tim_def TIM_CCxChannelCmd_def
      TIM_CCxNChannelCmd_def tim_MOE_ENABLE_def tim_consts timx_consts tim_instances)


lemma stage_outputs:
  assumes "trigger_polarity p"
  shows "tim_outputs (TIM_TI1_ConfigInputStage p f h) = tim_outputs h"
    "tim_outputs (TIM_TI2_ConfigInputStage p f h) = tim_outputs h - {4}"
  using assms
  by (auto simp: tim_outputs_def TIM_TI1_ConfigInputStage_def TIM_TI2_ConfigInputStage_def Let_def trigger_polarity_def
      ic_polarity_def tim_consts bit_simps)

lemma stage_running:
  "tim_running (TIM_TI1_ConfigInputStage p f h) = tim_running h" "tim_running (TIM_TI2_ConfigInputStage p f h) = tim_running h"
  by (simp_all add: tim_running_def TIM_TI1_ConfigInputStage_def TIM_TI2_ConfigInputStage_def Let_def)

lemma tim_outputs_update [simp]:
  "tim_outputs (h\<lparr>tim_State := st\<rparr>) = tim_outputs h" "tim_outputs (h\<lparr>tim_Lock := l\<rparr>) = tim_outputs h"
  "tim_outputs (h\<lparr>tim_DIER := v\<rparr>) = tim_outputs h" "tim_outputs (h\<lparr>tim_SMCR := v\<rparr>) = tim_outputs h"
  "tim_running (h\<lparr>tim_Lock := l\<rparr>) = tim_running h" "tim_running (h\<lparr>tim_DIER := v\<rparr>) = tim_running h"
  "tim_running (h\<lparr>tim_SMCR := v\<rparr>) = tim_running h"
  by (simp_all add: tim_outputs_def tim_running_def)

text \<open>Selecting timer input 1 as the trigger or the clock leaves all channels as they are, but selecting input 2 turns
  channel 2 off (although a comment promises to set its enable bit again): the capture or output running on it ends while
  the counter goes on.\<close>
lemma tim_second_input_stops_channel:
  assumes "tim_Lock h = HAL_UNLOCKED" "trigger_polarity (TriggerPolarity sl)" "trigger_polarity (ClockPolarity ck)"
  shows "(InputTrigger sl = TIM_TS_TI1FP1 \<longrightarrow> tim_outputs (snd (HAL_TIM_SlaveConfigSynchronization sl h)) = tim_outputs h)
    \<and> (InputTrigger sl = TIM_TS_TI2FP2 \<longrightarrow> tim_outputs (snd (HAL_TIM_SlaveConfigSynchronization sl h)) = tim_outputs h - {4}
         \<and> tim_running (snd (HAL_TIM_SlaveConfigSynchronization sl h)) = tim_running h)
    \<and> (ClockSource ck = TIM_CLOCKSOURCE_TI1 \<longrightarrow> tim_outputs (snd (HAL_TIM_ConfigClockSource ck h)) = tim_outputs h)
    \<and> (ClockSource ck = TIM_CLOCKSOURCE_TI2 \<longrightarrow> tim_outputs (snd (HAL_TIM_ConfigClockSource ck h)) = tim_outputs h - {4}
         \<and> tim_running (snd (HAL_TIM_ConfigClockSource ck h)) = tim_running h)"
  using assms
  by (auto simp: HAL_TIM_SlaveConfigSynchronization_def HAL_TIM_ConfigClockSource_def tim_locked_def Let_def
      TIM_SlaveTimer_SetConfig_def timx_consts stage_outputs stage_running TIM_ITRx_SetConfig_def tim_DISABLE_DMA_def
      tim_DISABLE_IT_def)

text \<open>A capture on channel 2 of the example timer.\<close>
lemma tim_second_input_stops_channel_witness:
  "tim_outputs ex_tim = {4}
   \<and> tim_outputs (snd (HAL_TIM_SlaveConfigSynchronization \<lparr>SlaveMode = TIM_SLAVEMODE_RESET, InputTrigger = TIM_TS_TI2FP2,
        TriggerPolarity = 0, TriggerPrescaler = 0, TriggerFilter = 0\<rparr> ex_tim)) = {}"
proof -
  have "tim_outputs ex_tim = {4}" by (auto simp: tim_outputs_def ex_tim_def)
  moreover have "tim_Lock ex_tim = HAL_UNLOCKED" by (simp add: ex_tim_def)
  ultimately show ?thesis
    using tim_second_input_stops_channel [of ex_tim "\<lparr>SlaveMode = TIM_SLAVEMODE_RESET, InputTrigger = TIM_TS_TI2FP2,
        TriggerPolarity = 0, TriggerPrescaler = 0, TriggerFilter = 0\<rparr>"
        "\<lparr>ClockSource = 0, ClockPolarity = 0, ClockPrescaler = 0, ClockFilter = 0\<rparr>"]
    by (simp add: trigger_polarity_def ic_polarity_def)
qed

text \<open>The break configuration rewrites the whole register and so clears the main output enable: outputs that are running are
  switched off, until the next start.\<close>
lemma break_config_switches_outputs_off:
  assumes "tim_Lock h = HAL_UNLOCKED" "OffStateRunMode c \<in> {0, TIM_BDTR_OSSR}" "OffStateIDLEMode c \<in> {0, TIM_BDTR_OSSI}"
    "LockLevel c \<in> {0, 0x100, 0x200, 0x300}" "DeadTime c \<le> 0xFF" "BreakState c \<in> {0, TIM_BDTR_BKE}"
    "BreakPolarity c \<in> {0, TIM_BDTR_BKP}" "AutomaticOutput c \<in> {0, TIM_BDTR_AOE}"
  shows "tim_BDTR (snd (HAL_TIMEx_ConfigBreakDeadTime c h)) AND TIM_BDTR_MOE = 0
    \<and> tim_outputs (snd (HAL_TIMEx_ConfigBreakDeadTime c h)) = tim_outputs h"
proof -
  have "unat (DeadTime c) \<le> 0xFF" using assms(5) by (simp add: word_le_nat_alt)
  then have "\<not> bit (unat (DeadTime c)) 15" by (simp add: bit_iff_odd)
  then have "\<not> bit (DeadTime c) 15" by (simp add: bit_unsigned_iff)
  moreover have off: "x \<in> {0, v} \<Longrightarrow> \<not> bit v 15 \<Longrightarrow> \<not> bit x 15" for x v :: u32 by auto
  have "\<not> bit (OffStateRunMode c) 15" "\<not> bit (OffStateIDLEMode c) 15" "\<not> bit (BreakState c) 15"
    "\<not> bit (BreakPolarity c) 15" "\<not> bit (AutomaticOutput c) 15"
    by (rule off [OF assms(2)] off [OF assms(3)] off [OF assms(6)] off [OF assms(7)] off [OF assms(8)], simp add: timx_consts)+
  moreover have "\<not> bit (LockLevel c) 15" using assms(4) by (elim insertE emptyE) simp_all
  ultimately have "\<not> bit (tim_BDTR (snd (HAL_TIMEx_ConfigBreakDeadTime c h))) 15"
    using assms(1) by (simp add: HAL_TIMEx_ConfigBreakDeadTime_def tim_locked_def bit_or_iff)
  moreover have "TIM_BDTR_MOE = push_bit 15 1" by (simp add: TIM_BDTR_MOE_def)
  ultimately have "tim_BDTR (snd (HAL_TIMEx_ConfigBreakDeadTime c h)) AND TIM_BDTR_MOE = 0"
    by (simp add: pin_bit [symmetric])
  then show ?thesis using assms(1) by (simp add: HAL_TIMEx_ConfigBreakDeadTime_def tim_locked_def tim_outputs_def)
qed

end
