(* ===== verification/Tim_Dma.thy ===== *)
theory Tim_Dma
  imports Tim_Modes Hal_Dma
begin

text \<open>
  The DMA transfers of the timer driver (\<^verbatim>\<open>stm32f3xx_hal_tim.c\<close>, \<^verbatim>\<open>stm32f3xx_hal_tim_ex.c\<close>): time base,
  output compare, PWM, input capture, encoder, Hall sensor, complementary outputs and bursts.  The array
  \<^verbatim>\<open>hdma[7]\<close> holds pointers (\<open>tim_hdma\<close>) into a store of DMA handles (\<open>tim_chan\<close>), so that two requests may share
  one handle as they share a channel in the hardware.  \<open>reg\<close> gives the addresses of the timer's registers, \<open>cb\<close> what
  the user's callbacks do.
\<close>

datatype tim_dma_id =
    TIM_DMA_ID_UPDATE | TIM_DMA_ID_CC1 | TIM_DMA_ID_CC2 | TIM_DMA_ID_CC3 | TIM_DMA_ID_CC4
  | TIM_DMA_ID_COMMUTATION | TIM_DMA_ID_TRIGGER

datatype tim_reg = ARR_reg | CCR1_reg | CCR2_reg | CCR3_reg | CCR4_reg | DMAR_reg

text \<open>The values of the function pointers of the channels.\<close>
datatype tim_dma_cb = DelayPulseCplt | CaptureCplt | PeriodElapsedCplt | TriggerCplt | CommutationCplt | TimDmaError

record tim_dma =
  dtim :: tim
  tim_hdma :: "tim_dma_id \<Rightarrow> u32"
  tim_chan :: "u32 \<Rightarrow> tim_dma_cb dma"

section \<open>Starting\<close>

text \<open>The state check at the head of the start functions.\<close>
definition tim_dma_enter :: "bool \<Rightarrow> tim_dma \<Rightarrow> HAL_StatusTypeDef + tim_dma" where
  "tim_dma_enter bad s =
     (if tim_State (dtim s) = HAL_TIM_STATE_BUSY then Inl HAL_BUSY
      else if tim_State (dtim s) = HAL_TIM_STATE_READY
      then if bad then Inl HAL_ERROR else Inr (s\<lparr>dtim := (dtim s)\<lparr>tim_State := HAL_TIM_STATE_BUSY\<rparr>\<rparr>)
      else Inr s)"

text \<open>Two callbacks and \<^verbatim>\<open>HAL_DMA_Start_IT\<close>, whose result is not looked at.\<close>
definition tim_dma_run :: "tim_dma_id \<Rightarrow> tim_dma_cb \<Rightarrow> u32 \<Rightarrow> u32 \<Rightarrow> u32 \<Rightarrow> tim_dma \<Rightarrow> tim_dma" where
  "tim_dma_run i cplt src dst n s =
     (let p = tim_hdma s i;
          d = (tim_chan s p)\<lparr>XferCpltCallback := Some cplt, XferErrorCallback := Some TimDmaError\<rparr>
      in s\<lparr>tim_chan := (tim_chan s)(p := snd (HAL_DMA_Start_IT src dst n d))\<rparr>)"

definition on_tim :: "(tim \<Rightarrow> tim) \<Rightarrow> tim_dma \<Rightarrow> tim_dma" where
  "on_tim f s = s\<lparr>dtim := f (dtim s)\<rparr>"

text \<open>The \<^verbatim>\<open>switch\<close> on the channel: handle, register and request; nothing for another value.\<close>
definition channel_dma :: "u32 \<Rightarrow> (tim_dma_id \<times> tim_reg \<times> u32) option" where
  "channel_dma Channel =
     (if Channel = TIM_CHANNEL_1 then Some (TIM_DMA_ID_CC1, CCR1_reg, TIM_DMA_CC1)
      else if Channel = TIM_CHANNEL_2 then Some (TIM_DMA_ID_CC2, CCR2_reg, TIM_DMA_CC2)
      else if Channel = TIM_CHANNEL_3 then Some (TIM_DMA_ID_CC3, CCR3_reg, TIM_DMA_CC3)
      else if Channel = TIM_CHANNEL_4 then Some (TIM_DMA_ID_CC4, CCR4_reg, TIM_DMA_CC4) else None)"

definition tim_channel_out :: "(tim_reg \<Rightarrow> u32) \<Rightarrow> u32 \<Rightarrow> u32 \<Rightarrow> u16 \<Rightarrow> tim_dma \<Rightarrow> tim_dma" where
  "tim_channel_out reg Channel pData Length s =
     (case channel_dma Channel of None \<Rightarrow> s
      | Some (i, r, req) \<Rightarrow> on_tim (tim_ENABLE_DMA req) (tim_dma_run i DelayPulseCplt pData (reg r) (ucast Length) s))"

definition tim_channel_in :: "(tim_reg \<Rightarrow> u32) \<Rightarrow> u32 \<Rightarrow> u32 \<Rightarrow> u16 \<Rightarrow> tim_dma \<Rightarrow> tim_dma" where
  "tim_channel_in reg Channel pData Length s =
     (case channel_dma Channel of None \<Rightarrow> s
      | Some (i, r, req) \<Rightarrow> on_tim (tim_ENABLE_DMA req) (tim_dma_run i CaptureCplt (reg r) pData (ucast Length) s))"

definition HAL_TIM_Base_Start_DMA :: "(tim_reg \<Rightarrow> u32) \<Rightarrow> u32 \<Rightarrow> u16 \<Rightarrow> tim_dma \<Rightarrow> HAL_StatusTypeDef \<times> tim_dma" where
  "HAL_TIM_Base_Start_DMA reg pData Length s =
     (case tim_dma_enter (pData = 0 \<and> Length > 0) s of Inl st \<Rightarrow> (st, s)
      | Inr s1 \<Rightarrow> (HAL_OK, on_tim (\<lambda>h. tim_ENABLE (tim_ENABLE_DMA TIM_DMA_UPDATE h))
          (tim_dma_run TIM_DMA_ID_UPDATE PeriodElapsedCplt pData (reg ARR_reg) (ucast Length) s1)))"

definition HAL_TIM_OC_Start_DMA :: "(tim_reg \<Rightarrow> u32) \<Rightarrow> u32 \<Rightarrow> u32 \<Rightarrow> u16 \<Rightarrow> tim_dma \<Rightarrow> HAL_StatusTypeDef \<times> tim_dma" where
  "HAL_TIM_OC_Start_DMA reg Channel pData Length s =
     (case tim_dma_enter (pData = 0 \<and> Length > 0) s of Inl st \<Rightarrow> (st, s)
      | Inr s1 \<Rightarrow> (HAL_OK, on_tim (\<lambda>h. tim_ENABLE (tim_output_on (TIM_CCxChannelCmd Channel TIM_CCx_ENABLE h)))
          (tim_channel_out reg Channel pData Length s1)))"

definition HAL_TIM_PWM_Start_DMA :: "(tim_reg \<Rightarrow> u32) \<Rightarrow> u32 \<Rightarrow> u32 \<Rightarrow> u16 \<Rightarrow> tim_dma \<Rightarrow> HAL_StatusTypeDef \<times> tim_dma" where
  "HAL_TIM_PWM_Start_DMA reg Channel pData Length s =
     (case tim_dma_enter (pData = 0 \<and> Length > 0) s of Inl st \<Rightarrow> (st, s)
      | Inr s1 \<Rightarrow> (HAL_OK, on_tim (\<lambda>h. tim_ENABLE (tim_output_on (TIM_CCxChannelCmd Channel TIM_CCx_ENABLE h)))
          (tim_channel_out reg Channel pData Length s1)))"

definition HAL_TIM_IC_Start_DMA :: "(tim_reg \<Rightarrow> u32) \<Rightarrow> u32 \<Rightarrow> u32 \<Rightarrow> u16 \<Rightarrow> tim_dma \<Rightarrow> HAL_StatusTypeDef \<times> tim_dma" where
  "HAL_TIM_IC_Start_DMA reg Channel pData Length s =
     (case tim_dma_enter (pData = 0 \<and> Length > 0) s of Inl st \<Rightarrow> (st, s)
      | Inr s1 \<Rightarrow> (HAL_OK, on_tim (\<lambda>h. tim_ENABLE (TIM_CCxChannelCmd Channel TIM_CCx_ENABLE h))
          (tim_channel_in reg Channel pData Length s1)))"

text \<open>In the mode for both channels the requests are enabled after the counter and the channels; any other channel leaves
  the handle busy with nothing started.\<close>
definition HAL_TIM_Encoder_Start_DMA ::
  "(tim_reg \<Rightarrow> u32) \<Rightarrow> u32 \<Rightarrow> u32 \<Rightarrow> u32 \<Rightarrow> u16 \<Rightarrow> tim_dma \<Rightarrow> HAL_StatusTypeDef \<times> tim_dma" where
  "HAL_TIM_Encoder_Start_DMA reg Channel pData1 pData2 Length s =
     (case tim_dma_enter ((pData1 = 0 \<or> pData2 = 0) \<and> Length > 0) s of Inl st \<Rightarrow> (st, s)
      | Inr s1 \<Rightarrow> (HAL_OK,
          if Channel = TIM_CHANNEL_1
          then on_tim (\<lambda>h. TIM_CCxChannelCmd TIM_CHANNEL_1 TIM_CCx_ENABLE (tim_ENABLE (tim_ENABLE_DMA TIM_DMA_CC1 h)))
                 (tim_dma_run TIM_DMA_ID_CC1 CaptureCplt (reg CCR1_reg) pData1 (ucast Length) s1)
          else if Channel = TIM_CHANNEL_2
          then on_tim (\<lambda>h. TIM_CCxChannelCmd TIM_CHANNEL_2 TIM_CCx_ENABLE (tim_ENABLE (tim_ENABLE_DMA TIM_DMA_CC2 h)))
                 (tim_dma_run TIM_DMA_ID_CC2 CaptureCplt (reg CCR2_reg) pData2 (ucast Length) s1)
          else if Channel = TIM_CHANNEL_ALL
          then on_tim (\<lambda>h. tim_ENABLE_DMA TIM_DMA_CC2 (tim_ENABLE_DMA TIM_DMA_CC1
                 (TIM_CCxChannelCmd TIM_CHANNEL_2 TIM_CCx_ENABLE (TIM_CCxChannelCmd TIM_CHANNEL_1 TIM_CCx_ENABLE (tim_ENABLE h)))))
                 (tim_dma_run TIM_DMA_ID_CC2 CaptureCplt (reg CCR2_reg) pData2 (ucast Length)
                   (tim_dma_run TIM_DMA_ID_CC1 CaptureCplt (reg CCR1_reg) pData1 (ucast Length) s1))
          else s1))"

definition HAL_TIMEx_HallSensor_Start_DMA ::
  "(tim_reg \<Rightarrow> u32) \<Rightarrow> u32 \<Rightarrow> u16 \<Rightarrow> tim_dma \<Rightarrow> HAL_StatusTypeDef \<times> tim_dma" where
  "HAL_TIMEx_HallSensor_Start_DMA reg pData Length s =
     (case tim_dma_enter (pData = 0 \<and> Length > 0) s of Inl st \<Rightarrow> (st, s)
      | Inr s1 \<Rightarrow> (HAL_OK, on_tim (\<lambda>h. tim_ENABLE (tim_ENABLE_DMA TIM_DMA_CC1 h))
          (tim_dma_run TIM_DMA_ID_CC1 CaptureCplt (reg CCR1_reg) pData (ucast Length)
            (on_tim (TIM_CCxChannelCmd TIM_CHANNEL_1 TIM_CCx_ENABLE) s1))))"

definition HAL_TIMEx_OCN_Start_DMA ::
  "(tim_reg \<Rightarrow> u32) \<Rightarrow> u32 \<Rightarrow> u32 \<Rightarrow> u16 \<Rightarrow> tim_dma \<Rightarrow> HAL_StatusTypeDef \<times> tim_dma" where
  "HAL_TIMEx_OCN_Start_DMA reg Channel pData Length s =
     (case tim_dma_enter (pData = 0 \<and> Length > 0) s of Inl st \<Rightarrow> (st, s)
      | Inr s1 \<Rightarrow> (HAL_OK, on_tim (\<lambda>h. tim_ENABLE (tim_MOE_ENABLE (TIM_CCxNChannelCmd Channel TIM_CCxN_ENABLE h)))
          (tim_channel_out reg Channel pData Length s1)))"

definition HAL_TIMEx_PWMN_Start_DMA ::
  "(tim_reg \<Rightarrow> u32) \<Rightarrow> u32 \<Rightarrow> u32 \<Rightarrow> u16 \<Rightarrow> tim_dma \<Rightarrow> HAL_StatusTypeDef \<times> tim_dma" where
  "HAL_TIMEx_PWMN_Start_DMA reg Channel pData Length s =
     (case tim_dma_enter (pData = 0 \<and> Length > 0) s of Inl st \<Rightarrow> (st, s)
      | Inr s1 \<Rightarrow> (HAL_OK, on_tim (\<lambda>h. tim_ENABLE (tim_MOE_ENABLE (TIM_CCxNChannelCmd Channel TIM_CCxN_ENABLE h)))
          (tim_channel_out reg Channel pData Length s1)))"

section \<open>Stopping\<close>

text \<open>The stop functions clear the request; the DMA channel itself is not aborted.\<close>
definition channel_request_off :: "u32 \<Rightarrow> tim \<Rightarrow> tim" where
  "channel_request_off Channel h =
     (case channel_dma Channel of None \<Rightarrow> h | Some (_, _, req) \<Rightarrow> tim_DISABLE_DMA req h)"

definition HAL_TIM_Base_Stop_DMA :: "tim \<Rightarrow> HAL_StatusTypeDef \<times> tim" where
  "HAL_TIM_Base_Stop_DMA h =
     (HAL_OK, (tim_DISABLE (tim_DISABLE_DMA TIM_DMA_UPDATE h))\<lparr>tim_State := HAL_TIM_STATE_READY\<rparr>)"

definition HAL_TIM_OC_Stop_DMA :: "u32 \<Rightarrow> tim \<Rightarrow> HAL_StatusTypeDef \<times> tim" where
  "HAL_TIM_OC_Stop_DMA Channel h =
     (HAL_OK, (tim_DISABLE (tim_output_off (TIM_CCxChannelCmd Channel TIM_CCx_DISABLE (channel_request_off Channel h))))
        \<lparr>tim_State := HAL_TIM_STATE_READY\<rparr>)"

definition HAL_TIM_PWM_Stop_DMA :: "u32 \<Rightarrow> tim \<Rightarrow> HAL_StatusTypeDef \<times> tim" where
  "HAL_TIM_PWM_Stop_DMA Channel h =
     (HAL_OK, (tim_DISABLE (tim_output_off (TIM_CCxChannelCmd Channel TIM_CCx_DISABLE (channel_request_off Channel h))))
        \<lparr>tim_State := HAL_TIM_STATE_READY\<rparr>)"

definition HAL_TIM_IC_Stop_DMA :: "u32 \<Rightarrow> tim \<Rightarrow> HAL_StatusTypeDef \<times> tim" where
  "HAL_TIM_IC_Stop_DMA Channel h =
     (HAL_OK, (tim_DISABLE (TIM_CCxChannelCmd Channel TIM_CCx_DISABLE (channel_request_off Channel h)))
        \<lparr>tim_State := HAL_TIM_STATE_READY\<rparr>)"

definition HAL_TIM_Encoder_Stop_DMA :: "u32 \<Rightarrow> tim \<Rightarrow> HAL_StatusTypeDef \<times> tim" where
  "HAL_TIM_Encoder_Stop_DMA Channel h =
     (HAL_OK, (tim_DISABLE (encoder_bits Channel TIM_DMA_CC1 TIM_DMA_CC2 tim_DISABLE_DMA
        (encoder_channels Channel TIM_CCx_DISABLE h)))\<lparr>tim_State := HAL_TIM_STATE_READY\<rparr>)"

text \<open>This one leaves the state as it is.\<close>
definition HAL_TIMEx_HallSensor_Stop_DMA :: "tim \<Rightarrow> HAL_StatusTypeDef \<times> tim" where
  "HAL_TIMEx_HallSensor_Stop_DMA h =
     (HAL_OK, tim_DISABLE (tim_DISABLE_DMA TIM_DMA_CC1 (TIM_CCxChannelCmd TIM_CHANNEL_1 TIM_CCx_DISABLE h)))"

definition HAL_TIMEx_OCN_Stop_DMA :: "u32 \<Rightarrow> tim \<Rightarrow> HAL_StatusTypeDef \<times> tim" where
  "HAL_TIMEx_OCN_Stop_DMA Channel h =
     (HAL_OK, (tim_DISABLE (tim_MOE_DISABLE (TIM_CCxNChannelCmd Channel TIM_CCxN_DISABLE (channel_request_off Channel h))))
        \<lparr>tim_State := HAL_TIM_STATE_READY\<rparr>)"

definition HAL_TIMEx_PWMN_Stop_DMA :: "u32 \<Rightarrow> tim \<Rightarrow> HAL_StatusTypeDef \<times> tim" where
  "HAL_TIMEx_PWMN_Stop_DMA Channel h =
     (HAL_OK, (tim_DISABLE (tim_MOE_DISABLE (TIM_CCxNChannelCmd Channel TIM_CCxN_DISABLE (channel_request_off Channel h))))
        \<lparr>tim_State := HAL_TIM_STATE_READY\<rparr>)"

section \<open>Bursts\<close>

text \<open>Handle and callbacks, for writing and for reading, of a request.\<close>
definition burst_source :: "u32 \<Rightarrow> (tim_dma_id \<times> tim_dma_cb \<times> tim_dma_cb) option" where
  "burst_source src =
     (if src = TIM_DMA_UPDATE then Some (TIM_DMA_ID_UPDATE, PeriodElapsedCplt, PeriodElapsedCplt)
      else if src = TIM_DMA_CC1 then Some (TIM_DMA_ID_CC1, DelayPulseCplt, CaptureCplt)
      else if src = TIM_DMA_CC2 then Some (TIM_DMA_ID_CC2, DelayPulseCplt, CaptureCplt)
      else if src = TIM_DMA_CC3 then Some (TIM_DMA_ID_CC3, DelayPulseCplt, CaptureCplt)
      else if src = TIM_DMA_CC4 then Some (TIM_DMA_ID_CC4, DelayPulseCplt, CaptureCplt)
      else if src = TIM_DMA_COM then Some (TIM_DMA_ID_COMMUTATION, CommutationCplt, CommutationCplt)
      else if src = TIM_DMA_TRIGGER then Some (TIM_DMA_ID_TRIGGER, TriggerCplt, TriggerCplt) else None)"

definition burst_finish :: "u32 \<Rightarrow> u32 \<Rightarrow> u32 \<Rightarrow> tim \<Rightarrow> tim" where
  "burst_finish BurstBaseAddress BurstRequestSrc BurstLength h =
     (tim_ENABLE_DMA BurstRequestSrc (h\<lparr>tim_DCR := BurstBaseAddress OR BurstLength\<rparr>))\<lparr>tim_State := HAL_TIM_STATE_READY\<rparr>"

definition HAL_TIM_DMABurst_WriteStart ::
  "(tim_reg \<Rightarrow> u32) \<Rightarrow> u32 \<Rightarrow> u32 \<Rightarrow> u32 \<Rightarrow> u32 \<Rightarrow> tim_dma \<Rightarrow> HAL_StatusTypeDef \<times> tim_dma" where
  "HAL_TIM_DMABurst_WriteStart reg BurstBaseAddress BurstRequestSrc BurstBuffer BurstLength s =
     (case tim_dma_enter (BurstBuffer = 0 \<and> BurstLength > 0) s of Inl st \<Rightarrow> (st, s)
      | Inr s1 \<Rightarrow> (HAL_OK, on_tim (burst_finish BurstBaseAddress BurstRequestSrc BurstLength)
          (case burst_source BurstRequestSrc of None \<Rightarrow> s1
           | Some (i, wr, _) \<Rightarrow> tim_dma_run i wr BurstBuffer (reg DMAR_reg) (drop_bit 8 BurstLength + 1) s1)))"

definition HAL_TIM_DMABurst_ReadStart ::
  "(tim_reg \<Rightarrow> u32) \<Rightarrow> u32 \<Rightarrow> u32 \<Rightarrow> u32 \<Rightarrow> u32 \<Rightarrow> tim_dma \<Rightarrow> HAL_StatusTypeDef \<times> tim_dma" where
  "HAL_TIM_DMABurst_ReadStart reg BurstBaseAddress BurstRequestSrc BurstBuffer BurstLength s =
     (case tim_dma_enter (BurstBuffer = 0 \<and> BurstLength > 0) s of Inl st \<Rightarrow> (st, s)
      | Inr s1 \<Rightarrow> (HAL_OK, on_tim (burst_finish BurstBaseAddress BurstRequestSrc BurstLength)
          (case burst_source BurstRequestSrc of None \<Rightarrow> s1
           | Some (i, _, rd) \<Rightarrow> tim_dma_run i rd (reg DMAR_reg) BurstBuffer (drop_bit 8 BurstLength + 1) s1)))"

text \<open>The channel is aborted here; the result is not looked at.\<close>
definition burst_stop :: "dma_hw \<Rightarrow> u32 \<Rightarrow> tim_dma \<Rightarrow> (HAL_StatusTypeDef \<times> tim_dma) option" where
  "burst_stop hw BurstRequestSrc s =
     do { s1 \<leftarrow> (case burst_source BurstRequestSrc of None \<Rightarrow> Some s
            | Some (i, _, _) \<Rightarrow> do { (_, d) \<leftarrow> HAL_DMA_Abort hw (tim_chan s (tim_hdma s i));
                                      Some (s\<lparr>tim_chan := (tim_chan s)(tim_hdma s i := d)\<rparr>) });
          Some (HAL_OK, on_tim (tim_DISABLE_DMA BurstRequestSrc) s1) }"

definition HAL_TIM_DMABurst_WriteStop :: "dma_hw \<Rightarrow> u32 \<Rightarrow> tim_dma \<Rightarrow> (HAL_StatusTypeDef \<times> tim_dma) option" where
  "HAL_TIM_DMABurst_WriteStop hw BurstRequestSrc s = burst_stop hw BurstRequestSrc s"

definition HAL_TIM_DMABurst_ReadStop :: "dma_hw \<Rightarrow> u32 \<Rightarrow> tim_dma \<Rightarrow> (HAL_StatusTypeDef \<times> tim_dma) option" where
  "HAL_TIM_DMABurst_ReadStop hw BurstRequestSrc s = burst_stop hw BurstRequestSrc s"

section \<open>Callbacks of the channels\<close>

text \<open>The chain of comparisons of the handle with the entries of \<^verbatim>\<open>hdma\<close>.\<close>
definition dma_active_channel :: "(tim_dma_id \<Rightarrow> u32) \<Rightarrow> u32 \<Rightarrow> tim \<Rightarrow> tim" where
  "dma_active_channel links p h =
     (if p = links TIM_DMA_ID_CC1 then h\<lparr>tim_Channel := HAL_TIM_ACTIVE_CHANNEL_1\<rparr>
      else if p = links TIM_DMA_ID_CC2 then h\<lparr>tim_Channel := HAL_TIM_ACTIVE_CHANNEL_2\<rparr>
      else if p = links TIM_DMA_ID_CC3 then h\<lparr>tim_Channel := HAL_TIM_ACTIVE_CHANNEL_3\<rparr>
      else if p = links TIM_DMA_ID_CC4 then h\<lparr>tim_Channel := HAL_TIM_ACTIVE_CHANNEL_4\<rparr> else h)"

type_synonym 's tim_user = "tim_callback \<Rightarrow> tim \<times> 's \<Rightarrow> tim \<times> 's"

definition TIM_DMAError :: "'s tim_user \<Rightarrow> tim \<times> 's \<Rightarrow> tim \<times> 's" where
  "TIM_DMAError cb x = cb TIM_ErrorCallback ((fst x)\<lparr>tim_State := HAL_TIM_STATE_READY\<rparr>, snd x)"

definition TIM_DMADelayPulseCplt :: "'s tim_user \<Rightarrow> (tim_dma_id \<Rightarrow> u32) \<Rightarrow> u32 \<Rightarrow> tim \<times> 's \<Rightarrow> tim \<times> 's" where
  "TIM_DMADelayPulseCplt cb links p x =
     (let h1 = dma_active_channel links p ((fst x)\<lparr>tim_State := HAL_TIM_STATE_READY\<rparr>);
          (h2, s2) = cb PWM_PulseFinishedCallback (h1, snd x)
      in (h2\<lparr>tim_Channel := HAL_TIM_ACTIVE_CHANNEL_CLEARED\<rparr>, s2))"

definition TIM_DMACaptureCplt :: "'s tim_user \<Rightarrow> (tim_dma_id \<Rightarrow> u32) \<Rightarrow> u32 \<Rightarrow> tim \<times> 's \<Rightarrow> tim \<times> 's" where
  "TIM_DMACaptureCplt cb links p x =
     (let h1 = dma_active_channel links p ((fst x)\<lparr>tim_State := HAL_TIM_STATE_READY\<rparr>);
          (h2, s2) = cb IC_CaptureCallback (h1, snd x)
      in (h2\<lparr>tim_Channel := HAL_TIM_ACTIVE_CHANNEL_CLEARED\<rparr>, s2))"

definition TIM_DMAPeriodElapsedCplt :: "'s tim_user \<Rightarrow> tim \<times> 's \<Rightarrow> tim \<times> 's" where
  "TIM_DMAPeriodElapsedCplt cb x = cb PeriodElapsedCallback ((fst x)\<lparr>tim_State := HAL_TIM_STATE_READY\<rparr>, snd x)"

definition TIM_DMATriggerCplt :: "'s tim_user \<Rightarrow> tim \<times> 's \<Rightarrow> tim \<times> 's" where
  "TIM_DMATriggerCplt cb x = cb TriggerCallback ((fst x)\<lparr>tim_State := HAL_TIM_STATE_READY\<rparr>, snd x)"

definition TIMEx_DMACommutationCplt :: "'s tim_user \<Rightarrow> tim \<times> 's \<Rightarrow> tim \<times> 's" where
  "TIMEx_DMACommutationCplt cb x = cb CommutationCallback ((fst x)\<lparr>tim_State := HAL_TIM_STATE_READY\<rparr>, snd x)"

text \<open>Calling a function pointer of the handle at \<open>p\<close>; \<^verbatim>\<open>Parent\<close> is the timer.\<close>
definition tim_dma_call :: "'s tim_user \<Rightarrow> (tim_dma_id \<Rightarrow> u32) \<Rightarrow> u32 \<Rightarrow> (tim_dma_cb, tim \<times> 's) dma_call" where
  "tim_dma_call cb links p c x =
     Some (fst x, case c of DelayPulseCplt \<Rightarrow> TIM_DMADelayPulseCplt cb links p (snd x)
                  | CaptureCplt \<Rightarrow> TIM_DMACaptureCplt cb links p (snd x)
                  | PeriodElapsedCplt \<Rightarrow> TIM_DMAPeriodElapsedCplt cb (snd x) | TriggerCplt \<Rightarrow> TIM_DMATriggerCplt cb (snd x)
                  | CommutationCplt \<Rightarrow> TIMEx_DMACommutationCplt cb (snd x) | TimDmaError \<Rightarrow> TIM_DMAError cb (snd x))"

interpretation tim_client: dma_client "tim_dma_call cb links p" for cb links p
  by standard (auto simp: tim_dma_call_def)

text \<open>The interrupt of the DMA channel at \<open>p\<close>.\<close>
definition tim_dma_irq :: "'s tim_user \<Rightarrow> dma_hw \<Rightarrow> u32 \<Rightarrow> tim_dma \<times> 's \<Rightarrow> (tim_dma \<times> 's) option" where
  "tim_dma_irq cb hw p x =
     do { (d, h, u) \<leftarrow> HAL_DMA_IRQHandler (tim_dma_call cb (tim_hdma (fst x)) p) hw
            (tim_chan (fst x) p, dtim (fst x), snd x);
          Some ((fst x)\<lparr>dtim := h, tim_chan := (tim_chan (fst x))(p := d)\<rparr>, u) }"

section \<open>A transfer and its end\<close>

lemma tim_dma_enter_ready:
  "tim_State (dtim s) = HAL_TIM_STATE_READY \<Longrightarrow> \<not> bad \<Longrightarrow>
     tim_dma_enter bad s = Inr (s\<lparr>dtim := (dtim s)\<lparr>tim_State := HAL_TIM_STATE_BUSY\<rparr>\<rparr>)"
  by (simp add: tim_dma_enter_def)

lemma tim_dma_run_simps [simp]:
  "dtim (tim_dma_run i c a b n s) = dtim s" "tim_hdma (tim_dma_run i c a b n s) = tim_hdma s"
  "dtim (on_tim f s) = f (dtim s)" "tim_hdma (on_tim f s) = tim_hdma s" "tim_chan (on_tim f s) = tim_chan s"
  "tim_chan (tim_dma_run i c a b n s) (tim_hdma s i) = snd (HAL_DMA_Start_IT a b n
     ((tim_chan s (tim_hdma s i))\<lparr>XferCpltCallback := Some c, XferErrorCallback := Some TimDmaError\<rparr>))"
  by (simp_all add: tim_dma_run_def on_tim_def Let_def)

lemma channel_dma_cases:
  "channel_dma c = Some (i, r, req) \<Longrightarrow> tim_channel c \<and>
     (i, r, req) \<in> {(TIM_DMA_ID_CC1, CCR1_reg, TIM_DMA_CC1), (TIM_DMA_ID_CC2, CCR2_reg, TIM_DMA_CC2),
                    (TIM_DMA_ID_CC3, CCR3_reg, TIM_DMA_CC3), (TIM_DMA_ID_CC4, CCR4_reg, TIM_DMA_CC4)}"
  by (auto simp: channel_dma_def tim_channel_def split: if_splits)

text \<open>An accepted start of a PWM channel: the state and the handle of the channel.\<close>
lemma pwm_dma_started:
  assumes "tim_State (dtim s) = HAL_TIM_STATE_READY" "channel_dma c = Some (i, r, req)" "p \<noteq> 0"
  shows "HAL_TIM_PWM_Start_DMA reg c p n s = (HAL_OK, snd (HAL_TIM_PWM_Start_DMA reg c p n s))"
    "tim_State (dtim (snd (HAL_TIM_PWM_Start_DMA reg c p n s))) = HAL_TIM_STATE_BUSY"
    "tim_hdma (snd (HAL_TIM_PWM_Start_DMA reg c p n s)) = tim_hdma s"
    "tim_chan (snd (HAL_TIM_PWM_Start_DMA reg c p n s)) (tim_hdma s i) = snd (HAL_DMA_Start_IT p (reg r) (ucast n)
       ((tim_chan s (tim_hdma s i))\<lparr>XferCpltCallback := Some DelayPulseCplt, XferErrorCallback := Some TimDmaError\<rparr>))"
    "bit (tim_CCER (dtim (snd (HAL_TIM_PWM_Start_DMA reg c p n s)))) (unat c)"
    "tim_running (dtim (snd (HAL_TIM_PWM_Start_DMA reg c p n s)))"
proof -
  note enter = tim_dma_enter_ready [OF assms(1), of "p = 0 \<and> n > 0"]
  have c: "tim_channel c" using channel_dma_cases [OF assms(2)] by simp
  note start = HAL_TIM_PWM_Start_DMA_def tim_channel_out_def
  show "HAL_TIM_PWM_Start_DMA reg c p n s = (HAL_OK, snd (HAL_TIM_PWM_Start_DMA reg c p n s))"
    "tim_State (dtim (snd (HAL_TIM_PWM_Start_DMA reg c p n s))) = HAL_TIM_STATE_BUSY"
    "tim_hdma (snd (HAL_TIM_PWM_Start_DMA reg c p n s)) = tim_hdma s"
    using enter assms(2,3) by (simp_all add: start tim_ENABLE_DMA_def)
  show "tim_chan (snd (HAL_TIM_PWM_Start_DMA reg c p n s)) (tim_hdma s i) = snd (HAL_DMA_Start_IT p (reg r) (ucast n)
       ((tim_chan s (tim_hdma s i))\<lparr>XferCpltCallback := Some DelayPulseCplt, XferErrorCallback := Some TimDmaError\<rparr>))"
    using enter assms(2,3) by (simp add: start tim_dma_run_def Let_def)
  show "bit (tim_CCER (dtim (snd (HAL_TIM_PWM_Start_DMA reg c p n s)))) (unat c)"
    "tim_running (dtim (snd (HAL_TIM_PWM_Start_DMA reg c p n s)))"
    using enter assms(2,3) CCxChannelCmd_bits(1) [OF c] by (simp_all add: start)
qed

text \<open>The handler at the end of a transfer without a callback for its half.\<close>
lemma dma_irq_end_run:
  fixes call :: "('cb, 's) dma_call"
  assumes "\<not> dma_flag_at hw DMA_GET_TE_FLAG_INDEX d (dma_now d)" "dma_flag_at hw DMA_GET_TC_FLAG_INDEX d (Suc (Suc (dma_now d)))"
    "bit (dma_CCR d) 1" "XferHalfCpltCallback d = None"
  obtains d3 where "XferCpltCallback d3 = XferCpltCallback d" "dma_Lock d3 = HAL_UNLOCKED" "dma_State d3 = HAL_DMA_STATE_READY"
    "HAL_DMA_IRQHandler call hw (d, s) = dma_callback call XferCpltCallback (d3, s)"
proof -
  let ?d1 = "d\<lparr>dma_now := Suc (dma_now d)\<rparr>"
  let ?d2 = "dma_section_handle hw DMA_GET_HT_FLAG_INDEX DMA_IT_HT dma_irq_half ?d1"
  let ?d3 = "dma_irq_complete (?d2\<lparr>dma_now := Suc (dma_now ?d2)\<rparr>)"
  have te: "dma_irq_section hw DMA_GET_TE_FLAG_INDEX DMA_IT_TE dma_irq_error call XferErrorCallback (d, s) = Some (?d1, s)"
    using assms(1) by (simp add: dma_section_cases)
  have half: "XferHalfCpltCallback (dma_irq_half x) = XferHalfCpltCallback x" for x :: "'cb dma"
    by (simp add: dma_irq_half_def dma_macros Let_def)
  have ht: "dma_irq_section hw DMA_GET_HT_FLAG_INDEX DMA_IT_HT dma_irq_half call XferHalfCpltCallback (?d1, s) = Some (?d2, s)"
    using assms(4) by (simp add: dma_section_cases dma_section_handle_def half Let_def dma_flag_at_def dma_GET_IT_SOURCE_def)
  have d2: "dma_now ?d2 = Suc (Suc (dma_now d))" "dma_Instance ?d2 = dma_Instance d" "XferCpltCallback ?d2 = XferCpltCallback d"
    by (auto simp: dma_section_handle_def dma_irq_half_def dma_macros Let_def)
  have "bit (dma_CCR ?d2) 1"
    using assms(3) by (auto simp: dma_section_handle_def dma_irq_half_def dma_macros Let_def hal_simps bit_and_iff
        bit_not_iff dma_consts)
  then have "dma_flag_at hw DMA_GET_TC_FLAG_INDEX ?d2 (dma_now ?d2) \<and> dma_GET_IT_SOURCE ?d2 DMA_IT_TC"
    using assms(2) d2 by (simp add: dma_source_bits dma_flag_at_def)
  then have "HAL_DMA_IRQHandler call hw (d, s) = dma_callback call XferCpltCallback (?d3, s)"
    by (simp add: HAL_DMA_IRQHandler_def te ht dma_section_cases [of _ _ _ _ _ _ ?d2] dma_callback_def Let_def)
  moreover have "XferCpltCallback ?d3 = XferCpltCallback d" "dma_Lock ?d3 = HAL_UNLOCKED" "dma_State ?d3 = HAL_DMA_STATE_READY"
    using d2(3) by (simp_all add: dma_irq_complete_def dma_macros Let_def)
  ultimately show thesis by (intro that)
qed

section \<open>Properties\<close>

text \<open>The requests of the four channels and the active channel each stands for.\<close>
definition dma_requests :: "(tim_dma_id \<times> HAL_TIM_ActiveChannel) list" where
  "dma_requests = [(TIM_DMA_ID_CC1, HAL_TIM_ACTIVE_CHANNEL_1), (TIM_DMA_ID_CC2, HAL_TIM_ACTIVE_CHANNEL_2),
     (TIM_DMA_ID_CC3, HAL_TIM_ACTIVE_CHANNEL_3), (TIM_DMA_ID_CC4, HAL_TIM_ACTIVE_CHANNEL_4)]"

lemma find_request:
  assumes "channel_dma c = Some (i, r, req)"
  shows "\<exists>j a. find (\<lambda>(j, a). links j = links i) dma_requests = Some (j, a)"
proof -
  have "find (\<lambda>(j, a). links j = links i) dma_requests \<noteq> None"
    using channel_dma_cases [OF assms] by (auto simp: dma_requests_def)
  then show ?thesis by auto
qed

lemma dma_active_find:
  assumes "find (\<lambda>(j, a). links j = p) dma_requests = Some (j, a)"
  shows "dma_active_channel links p h = h\<lparr>tim_Channel := a\<rparr>"
proof -
  have "dma_active_channel links p h = (if links TIM_DMA_ID_CC1 = p then h\<lparr>tim_Channel := HAL_TIM_ACTIVE_CHANNEL_1\<rparr>
      else if links TIM_DMA_ID_CC2 = p then h\<lparr>tim_Channel := HAL_TIM_ACTIVE_CHANNEL_2\<rparr>
      else if links TIM_DMA_ID_CC3 = p then h\<lparr>tim_Channel := HAL_TIM_ACTIVE_CHANNEL_3\<rparr>
      else if links TIM_DMA_ID_CC4 = p then h\<lparr>tim_Channel := HAL_TIM_ACTIVE_CHANNEL_4\<rparr> else h)"
    unfolding dma_active_channel_def by (simp only: eq_commute [of p])
  moreover have "find (\<lambda>(j, a). links j = p) dma_requests = (if links TIM_DMA_ID_CC1 = p then Some (TIM_DMA_ID_CC1, HAL_TIM_ACTIVE_CHANNEL_1)
      else if links TIM_DMA_ID_CC2 = p then Some (TIM_DMA_ID_CC2, HAL_TIM_ACTIVE_CHANNEL_2)
      else if links TIM_DMA_ID_CC3 = p then Some (TIM_DMA_ID_CC3, HAL_TIM_ACTIVE_CHANNEL_3)
      else if links TIM_DMA_ID_CC4 = p then Some (TIM_DMA_ID_CC4, HAL_TIM_ACTIVE_CHANNEL_4) else None)"
    unfolding dma_requests_def by (simp only: find.simps prod.case)
  ultimately show ?thesis using assms
    by (simp only: split: if_split_asm) (simp_all only: if_P if_not_P if_True if_False option.inject prod.inject option.distinct simp_thms)
qed

text \<open>C39: a PWM channel driven by DMA: an accepted start makes the channel of the request move exactly the buffer, half-word by
  half-word, into the compare register and runs the timer; the transfer-complete interrupt calls the user's callback once,
  with the handle ready and the active channel set, and leaves the DMA channel free.  The channel reported is the first
  whose request is linked to the same DMA handle: the one started, unless an earlier request shares its handle.\<close>
theorem tim_pwm_dma:
  assumes "tim_State (dtim s) = HAL_TIM_STATE_READY" "channel_dma c = Some (i, r, req)" "p \<noteq> 0"
    and "dma_tx_ready DMA_MDATAALIGN_HALFWORD (tim_chan s (tim_hdma s i))"
    and "XferHalfCpltCallback (tim_chan s (tim_hdma s i)) = None"
    and "HAL_TIM_PWM_Start_DMA reg c p n s = (st, s1)"
    and "d = tim_chan s1 (tim_hdma s i)"
    and "\<not> dma_flag_at hw DMA_GET_TE_FLAG_INDEX d (dma_now d)" "dma_flag_at hw DMA_GET_TC_FLAG_INDEX d (Suc (Suc (dma_now d)))"
  shows "st = HAL_OK \<and> dma_memory m d = mem_bytes m p (2 * unat n) \<and> dma_CPAR d = reg r \<and> bit (dma_CCR d) 0
    \<and> tim_running (dtim s1) \<and> bit (tim_CCER (dtim s1)) (unat c)
    \<and> (\<exists>s2 h u2 j a. tim_dma_irq cb hw (tim_hdma s i) (s1, u) = Some (s2, u2)
        \<and> find (\<lambda>(j, a). tim_hdma s j = tim_hdma s i) dma_requests = Some (j, a)
        \<and> cb PWM_PulseFinishedCallback ((dtim s1)\<lparr>tim_State := HAL_TIM_STATE_READY, tim_Channel := a\<rparr>, u) = (h, u2)
        \<and> dtim s2 = h\<lparr>tim_Channel := HAL_TIM_ACTIVE_CHANNEL_CLEARED\<rparr> \<and> dma_Lock (tim_chan s2 (tim_hdma s i)) = HAL_UNLOCKED)"
proof -
  let ?d0 = "(tim_chan s (tim_hdma s i))\<lparr>XferCpltCallback := Some DelayPulseCplt, XferErrorCallback := Some TimDmaError\<rparr>"
  have s1: "s1 = snd (HAL_TIM_PWM_Start_DMA reg c p n s)" "st = HAL_OK"
    using assms(6) pwm_dma_started(1) [OF assms(1-3), of reg n] by simp_all
  note run = pwm_dma_started(2-) [OF assms(1-3), of reg n, folded s1(1)]
  have "dma_Lock ?d0 = HAL_UNLOCKED" using assms(4) by (simp add: dma_tx_ready_def)
  then have start: "HAL_DMA_Start_IT p (reg r) (ucast n) ?d0 = (HAL_OK, d)"
    using run(3) assms(7) by (simp add: HAL_DMA_Start_IT_def Let_def)
  note on = dma_started_it [OF start]
  have tx: "dma_tx_ready DMA_MDATAALIGN_HALFWORD ?d0" using assms(4) by (simp add: dma_tx_ready_def)
  have dir: "(dma_CPAR d, dma_CMAR d) = (reg r, p)" using on(11) assms(4) by (simp add: dma_tx_ready_def)
  have moved: "dma_memory m d = mem_bytes m p (2 * unat n)"
    using dma_tx_ready_memory [OF tx _ on(4), of m] dir on(3)
    by (simp add: unat_ucast_u32 dma_consts mult.commute)
  have bits: "bit (dma_CCR d) 0" "bit (dma_CCR d) 1" using on(4) by (simp_all add: bit_or_iff)
  have "XferHalfCpltCallback d = None" "XferCpltCallback d = Some DelayPulseCplt"
    using on(8,9) assms(5) by simp_all
  then obtain d3 where d3: "dma_Lock d3 = HAL_UNLOCKED" "XferCpltCallback d3 = Some DelayPulseCplt"
    "HAL_DMA_IRQHandler (tim_dma_call cb (tim_hdma s) (tim_hdma s i)) hw (d, dtim s1, u)
      = dma_callback (tim_dma_call cb (tim_hdma s) (tim_hdma s i)) XferCpltCallback (d3, dtim s1, u)"
    using dma_irq_end_run [OF assms(8,9) bits(2), of "tim_dma_call cb (tim_hdma s) (tim_hdma s i)" "(dtim s1, u)"] by metis
  obtain h u2 where h: "cb PWM_PulseFinishedCallback
      (dma_active_channel (tim_hdma s) (tim_hdma s i) ((dtim s1)\<lparr>tim_State := HAL_TIM_STATE_READY\<rparr>), u) = (h, u2)"
    by (metis surj_pair)
  obtain j a where a: "find (\<lambda>(j, a). tim_hdma s j = tim_hdma s i) dma_requests = Some (j, a)"
    using find_request [OF assms(2)] by blast
  note active = dma_active_find [OF a]
  let ?s2 = "s1\<lparr>dtim := h\<lparr>tim_Channel := HAL_TIM_ACTIVE_CHANNEL_CLEARED\<rparr>, tim_chan := (tim_chan s1)(tim_hdma s i := d3)\<rparr>"
  have "tim_dma_irq cb hw (tim_hdma s i) (s1, u) = Some (?s2, u2)"
    using d3 h run(2) assms(7) by (simp add: tim_dma_irq_def dma_callback_def tim_dma_call_def TIM_DMADelayPulseCplt_def Let_def)
  moreover note h [unfolded active] a d3(1)
  ultimately have "\<exists>s2 h u2 j a. tim_dma_irq cb hw (tim_hdma s i) (s1, u) = Some (s2, u2)
        \<and> find (\<lambda>(j, a). tim_hdma s j = tim_hdma s i) dma_requests = Some (j, a)
        \<and> cb PWM_PulseFinishedCallback ((dtim s1)\<lparr>tim_State := HAL_TIM_STATE_READY, tim_Channel := a\<rparr>, u) = (h, u2)
        \<and> dtim s2 = h\<lparr>tim_Channel := HAL_TIM_ACTIVE_CHANNEL_CLEARED\<rparr> \<and> dma_Lock (tim_chan s2 (tim_hdma s i)) = HAL_UNLOCKED"
    by (intro exI [of _ ?s2] exI [of _ h] exI [of _ u2] exI [of _ j] exI [of _ a]) simp
  then show ?thesis using s1(2) moved bits(1) dir run(4,5) by simp
qed

text \<open>A timer whose channels 2 and 4 share a DMA handle, and a user that notes the channels reported.\<close>
definition ex_tim_dma :: tim_dma where
  "ex_tim_dma = \<lparr>dtim = ex_tim, tim_hdma = (\<lambda>i. case i of TIM_DMA_ID_CC1 \<Rightarrow> 1 | TIM_DMA_ID_CC2 \<Rightarrow> 2 | TIM_DMA_ID_CC3 \<Rightarrow> 3
     | TIM_DMA_ID_CC4 \<Rightarrow> 2 | _ \<Rightarrow> 4), tim_chan = (\<lambda>_. ex_dma_ready DMA_MDATAALIGN_HALFWORD)\<rparr>"

definition ex_tim_user :: "HAL_TIM_ActiveChannel list tim_user" where
  "ex_tim_user c x = (fst x, tim_Channel (fst x) # snd x)"

lemma ex_tim_dma_facts:
  "tim_State (dtim ex_tim_dma) = HAL_TIM_STATE_READY" "tim_hdma ex_tim_dma TIM_DMA_ID_CC4 = 2"
  "tim_chan ex_tim_dma a = ex_dma_ready DMA_MDATAALIGN_HALFWORD"
  "channel_dma TIM_CHANNEL_4 = Some (TIM_DMA_ID_CC4, CCR4_reg, TIM_DMA_CC4)"
  by (simp_all add: ex_tim_dma_def ex_tim_def channel_dma_def tim_consts)

lemma ex_tim_dma_channel:
  "dma_Instance (tim_chan (snd (HAL_TIM_PWM_Start_DMA reg TIM_CHANNEL_4 0x20000000 16 ex_tim_dma)) 2) = DMA1_Channel3"
  using pwm_dma_started(4) [OF ex_tim_dma_facts(1,4), of "0x20000000" reg 16]
  by (simp add: ex_tim_dma_facts HAL_DMA_Start_IT_def Let_def DMA_SetConfig_def dma_macros ex_dma_facts)

theorem tim_pwm_dma_witness:
  "\<forall>m. \<exists>s1 s2. HAL_TIM_PWM_Start_DMA (\<lambda>_. 0x40000040) TIM_CHANNEL_4 0x20000000 16 ex_tim_dma = (HAL_OK, s1)
     \<and> dma_memory m (tim_chan s1 2) = mem_bytes m 0x20000000 32
     \<and> tim_dma_irq ex_tim_user (ex_dma_hw 0x200) 2 (s1, []) = Some (s2, [HAL_TIM_ACTIVE_CHANNEL_2])"
proof
  fix m
  let ?s1 = "snd (HAL_TIM_PWM_Start_DMA (\<lambda>_. 0x40000040) TIM_CHANNEL_4 0x20000000 16 ex_tim_dma)"
  have run: "HAL_TIM_PWM_Start_DMA (\<lambda>_. 0x40000040) TIM_CHANNEL_4 0x20000000 16 ex_tim_dma = (HAL_OK, ?s1)"
    by (rule pwm_dma_started(1) [OF ex_tim_dma_facts(1,4)]) simp
  have flags: "\<not> dma_flag_at (ex_dma_hw 0x200) DMA_GET_TE_FLAG_INDEX (tim_chan ?s1 2) t"
    "dma_flag_at (ex_dma_hw 0x200) DMA_GET_TC_FLAG_INDEX (tim_chan ?s1 2) t" for t
    by (simp_all add: dma_flag_at_def ex_tim_dma_channel ex_dma_hw_def ticking_hw_def)
  have "dma_tx_ready DMA_MDATAALIGN_HALFWORD (ex_dma_ready DMA_MDATAALIGN_HALFWORD)" by (rule ex_dma_tx_ready) simp
  then obtain s2 h u2 j a where end_: "dma_memory m (tim_chan ?s1 2) = mem_bytes m 0x20000000 32"
    "tim_dma_irq ex_tim_user (ex_dma_hw 0x200) 2 (?s1, []) = Some (s2, u2)"
    "find (\<lambda>(j, a). tim_hdma ex_tim_dma j = 2) dma_requests = Some (j, a)"
    "ex_tim_user PWM_PulseFinishedCallback ((dtim ?s1)\<lparr>tim_State := HAL_TIM_STATE_READY, tim_Channel := a\<rparr>, []) = (h, u2)"
    using tim_pwm_dma [OF ex_tim_dma_facts(1,4) _ _ _ run refl, where hw = "ex_dma_hw 0x200" and cb = ex_tim_user and u = "[]" and m = m] flags
    by (simp add: ex_tim_dma_facts ex_dma_facts) blast
  then show "\<exists>s1 s2. HAL_TIM_PWM_Start_DMA (\<lambda>_. 0x40000040) TIM_CHANNEL_4 0x20000000 16 ex_tim_dma = (HAL_OK, s1)
     \<and> dma_memory m (tim_chan s1 2) = mem_bytes m 0x20000000 32
     \<and> tim_dma_irq ex_tim_user (ex_dma_hw 0x200) 2 (s1, []) = Some (s2, [HAL_TIM_ACTIVE_CHANNEL_2])"
    using run by (auto simp: ex_tim_user_def dma_requests_def ex_tim_dma_def)
qed

text \<open>C40: stopping a DMA-driven PWM channel does not stop its DMA channel, and starting it again with a new buffer reports
  success although the DMA driver refuses the start as busy: the request is enabled again and the channel goes on with the
  old buffer, wherever it stood.\<close>
theorem tim_dma_restart_keeps_old_buffer:
  assumes "tim_State (dtim s) = HAL_TIM_STATE_READY" "channel_dma c = Some (i, r, req)" "p \<noteq> 0" "q \<noteq> 0"
    and "dma_tx_ready DMA_MDATAALIGN_HALFWORD (tim_chan s (tim_hdma s i))"
    and "s1 = snd (HAL_TIM_PWM_Start_DMA reg c p n s)"
    and "s2 = on_tim (\<lambda>h. snd (HAL_TIM_PWM_Stop_DMA c h)) s1"
    and "HAL_TIM_PWM_Start_DMA reg c q k s2 = (st, s3)"
    and "d = tim_chan s3 (tim_hdma s i)"
  shows "st = HAL_OK \<and> tim_DIER (dtim s2) AND req = 0 \<and> dma_Lock (tim_chan s2 (tim_hdma s i)) = HAL_LOCKED
    \<and> bit (dma_CCR d) 0 \<and> dma_CMAR d = p \<and> dma_CNDTR d = ucast n \<and> tim_DIER (dtim s3) AND req = req"
proof -
  let ?p = "tim_hdma s i"
  let ?d0 = "(tim_chan s ?p)\<lparr>XferCpltCallback := Some DelayPulseCplt, XferErrorCallback := Some TimDmaError\<rparr>"
  let ?d1 = "tim_chan s1 ?p"
  note run = pwm_dma_started(2-) [OF assms(1-3), of reg n, folded assms(6)]
  have "dma_Lock ?d0 = HAL_UNLOCKED" using assms(5) by (simp add: dma_tx_ready_def)
  then have start: "HAL_DMA_Start_IT p (reg r) (ucast n) ?d0 = (HAL_OK, ?d1)"
    using run(3) by (simp add: HAL_DMA_Start_IT_def Let_def)
  note on = dma_started_it [OF start]
  have same: "tim_chan s2 ?p = ?d1" "tim_hdma s2 = tim_hdma s" using assms(7) run(2) by simp_all
  have rdy: "tim_State (dtim s2) = HAL_TIM_STATE_READY" using assms(7) by (simp add: HAL_TIM_PWM_Stop_DMA_def)
  note again = pwm_dma_started [OF rdy assms(2) assms(4), of reg k]
  have s3: "st = HAL_OK" "s3 = snd (HAL_TIM_PWM_Start_DMA reg c q k s2)" using assms(8) again(1) by simp_all
  have "d = ?d1\<lparr>XferCpltCallback := Some DelayPulseCplt, XferErrorCallback := Some TimDmaError\<rparr>"
    using again(4) on(2) same by (simp add: assms(9) s3(2) HAL_DMA_Start_IT_def)
  then have d: "dma_CCR d = dma_CCR ?d1" "dma_CMAR d = dma_CMAR ?d1" "dma_CNDTR d = dma_CNDTR ?d1" by simp_all
  have regs: "tim_DIER (tim_output_off h) = tim_DIER h" "tim_DIER (tim_output_on h) = tim_DIER h" "tim_DIER (tim_DISABLE h) = tim_DIER h"
    "tim_DIER (tim_ENABLE h) = tim_DIER h" "tim_DIER (TIM_CCxChannelCmd a b h) = tim_DIER h" for h a b
    by (simp_all add: tim_output_off_def tim_output_on_def tim_macros TIM_CCxChannelCmd_def)
  have "tim_DIER (dtim s2) AND req = 0"
    using assms(2) assms(7) by (simp add: HAL_TIM_PWM_Stop_DMA_def channel_request_off_def regs tim_DISABLE_DMA_def and.assoc)
  moreover have "tim_DIER (dtim s3) AND req = req"
    using tim_dma_enter_ready [OF rdy, of "q = 0 \<and> k > 0"] assms(2,4)
    by (simp add: s3(2) HAL_TIM_PWM_Start_DMA_def tim_channel_out_def regs tim_ENABLE_DMA_def bit.conj_disj_distrib2)
  ultimately show ?thesis
    using s3(1) same(1) on d assms(5) by (simp add: dma_tx_ready_def bit_or_iff)
qed

theorem tim_dma_restart_keeps_old_buffer_witness:
  "\<exists>s3. HAL_TIM_PWM_Start_DMA (\<lambda>_. 0x40000040) TIM_CHANNEL_4 0x20001000 8
      (on_tim (\<lambda>h. snd (HAL_TIM_PWM_Stop_DMA TIM_CHANNEL_4 h))
        (snd (HAL_TIM_PWM_Start_DMA (\<lambda>_. 0x40000040) TIM_CHANNEL_4 0x20000000 16 ex_tim_dma))) = (HAL_OK, s3)
    \<and> dma_CMAR (tim_chan s3 2) = 0x20000000 \<and> dma_CNDTR (tim_chan s3 2) = 16"
proof -
  let ?s1 = "snd (HAL_TIM_PWM_Start_DMA (\<lambda>_. 0x40000040) TIM_CHANNEL_4 0x20000000 16 ex_tim_dma)"
  let ?r = "HAL_TIM_PWM_Start_DMA (\<lambda>_. 0x40000040) TIM_CHANNEL_4 0x20001000 8
      (on_tim (\<lambda>h. snd (HAL_TIM_PWM_Stop_DMA TIM_CHANNEL_4 h)) ?s1)"
  have "dma_tx_ready DMA_MDATAALIGN_HALFWORD (ex_dma_ready DMA_MDATAALIGN_HALFWORD)" by (rule ex_dma_tx_ready) simp
  then have "dma_tx_ready DMA_MDATAALIGN_HALFWORD (tim_chan ex_tim_dma (tim_hdma ex_tim_dma TIM_DMA_ID_CC4))"
    by (simp add: ex_tim_dma_facts)
  from tim_dma_restart_keeps_old_buffer [OF ex_tim_dma_facts(1,4) _ _ this refl refl, of "0x20000000" "0x20001000"
        "\<lambda>_. 0x40000040" 8 16 "fst ?r" "snd ?r" "tim_chan (snd ?r) 2"]
  show ?thesis by (intro exI [of _ "snd ?r"]) (simp add: ex_tim_dma_facts prod_eq_iff)
qed

end
