(* ===== verification/Spec2Isabelle.thy ===== *)
theory Spec2Isabelle
  imports Frame_Path Spi_Dma Uart_Dma Sdadc_Dma Flash_Lock Tim_Dma
begin

text \<open>
  The verification library of opqbox2, a power-quality meter: an STM32F373 board samples the mains voltage and sends
  frames of 200 samples over SPI to a Linux board, whose kernel module keeps them for the readers of a character device.

  \<^bold>\<open>The program.\<close> On the board (\<^verbatim>\<open>src/Firmware\<close>) timer 2 triggers the sigma-delta converter; its interrupt
  (\<^verbatim>\<open>stm32f3xx_it.c\<close>) calls \<^verbatim>\<open>HAL_SDADC_InjectedConvCpltCallback\<close> of \<^verbatim>\<open>opq.c\<close>, which stores a sample and
  closes a frame every 200. Timer 4 captures the GPS pulse. The loop of \<^verbatim>\<open>main\<close> hands the oldest closed frame to the
  SPI driver and raises the data-ready line, which is the interrupt of the kernel module
  (\<^verbatim>\<open>src/Software/kernel/opq_main.c\<close>): its worker reads a frame into a cycle buffer and \<^verbatim>\<open>read()\<close> takes
  it out. Everything on the board runs on the vendor's HAL drivers
  (\<^verbatim>\<open>src/Firmware/Drivers/STM32F3xx_HAL_Driver\<close>), which are modelled as well.

  \<^bold>\<open>The theories\<close>, in the order in which they import each other:
  \<^item> \<open>Prelude\<close>, \<open>Queues\<close>: word, list and option facts, C arrays, the byte order of the machine, the hardware clock
    \<open>hw\<close> of the tick and the status registers; the locales of bounded queues.
  \<^item> \<open>Opq_Driver\<close>: \<^verbatim>\<open>opq_main.c\<close> in full: the cycle buffer, the worker, the device operations and module
    set-up. \<open>kstep\<close> interleaves interrupt, worker and readers statement by statement; the kernel's services are
    arguments.
  \<^item> \<open>Hal_Def\<close>, \<open>Hal_Core\<close>: status codes, register macros; NVIC, SysTick, the tick and \<^verbatim>\<open>HAL_Delay\<close>.
  \<^item> \<open>Hal_Spi\<close>, \<open>Spi_Transfer\<close>: the SPI driver; what its transmissions do.
  \<^item> \<open>Hal_Gpio\<close>: pins, alternate functions, external interrupts.
  \<^item> \<open>Hal_Sdadc\<close>, \<open>Sdadc_States\<close>: the converter driver; its state machine.
  \<^item> \<open>Hal_Tim\<close>, \<open>Tim_Modes\<close>, \<open>Tim_Dma\<close>: time base, output compare, PWM, input capture and the timer interrupt;
    one-pulse, encoder, Hall-sensor and complementary modes, synchronisation, and \<open>tim_reach\<close>, any sequence of calls;
    the DMA transfers and bursts.
  \<^item> \<open>Hal_Rcc\<close>: oscillators, PLL, bus and peripheral clocks, the frequency functions of the HAL and of
    \<^verbatim>\<open>system_stm32f3xx.c\<close>, the converter switches of \<^verbatim>\<open>stm32f3xx_hal_pwr_ex.c\<close>.
  \<^item> \<open>Hal_Uart\<close>: the UART driver.
  \<^item> \<open>Hal_Dma\<close>: the DMA driver and the locale \<open>dma_client\<close> of its callbacks; \<open>Spi_Dma\<close>, \<open>Uart_Dma\<close>, \<open>Sdadc_Dma\<close>: the
    DMA transfers of the three drivers, each of which (and \<open>Tim_Dma\<close>) interprets the locale.
  \<^item> \<open>Hal_Flash\<close>, \<open>Flash_Erase\<close>, \<open>Flash_Options\<close>, \<open>Flash_Lock\<close>: the flash driver: programming, erasing, option bytes,
    and its lock under all calls and interrupts.
  \<^item> \<open>Frame_Buffer\<close>: \<^verbatim>\<open>opq.c\<close> and \<^verbatim>\<open>runtime_config.c\<close>: the frame ring, the callbacks, and \<open>fstep\<close>,
    the interleaving of \<open>main\<close> with the interrupts.
  \<^item> \<open>Firmware\<close>: \<^verbatim>\<open>peripheral_config.c\<close>, \<^verbatim>\<open>stm32f3xx_hal_msp.c\<close>, \<^verbatim>\<open>stm32f3xx_it.c\<close> and \<open>main\<close> over one
    state \<open>board\<close> that holds all the handles. \<open>Startup\<close>: what \<open>main\<close> has set up when it reaches its loop, and the first
    frame. \<open>Frame_Path\<close>: the way of a frame from the ring over SPI to the reader.
  \<^item> This theory: the property that spans all components.

  \<^bold>\<open>State and operations.\<close> A handle of the HAL (\<^verbatim>\<open>SPI_HandleTypeDef\<close> and so on) is a record with the handle's
  fields under their names and the registers behind \<^verbatim>\<open>Instance\<close>; an operation takes the handle to the handle and the
  status code. Values read from the hardware come from an environment (\<open>hw\<close>, \<open>rcc_hw\<close>, \<open>tim_hw\<close>, \<open>board_hw\<close>): a
  function of a time that every read of a status register or of the tick advances; writes to data registers are kept in
  a log, so that a property can say what was sent. Memory reached through a buffer pointer is a map from addresses to
  bytes. Registers and counters have their width in bits and wrap around as in C. \<open>__HAL_LOCK\<close> is the early return it
  expands to. Where the code polls until a flag changes or a time-out passes, the model searches the first time at which
  this happens by the recursion \<open>poll\<close> (a \<^verbatim>\<open>partial_function\<close>), and \<open>None\<close> is a wait that never ends. The configuration
  is that of the build: \<^verbatim>\<open>STM32F373xC\<close>, no \<^verbatim>\<open>USE_FULL_ASSERT\<close>, so \<^verbatim>\<open>assert_param\<close> is empty. Weak callbacks
  that the firmware does not define are recorded as calls.

  \<^bold>\<open>What is shown.\<close> Kernel module: the ring and its semaphore and mutex stay consistent under every interleaving, the
  readers get the frames in order, an unread burst keeps the newest, the read results on every branch, and three
  defects (the first read returns a slot that was never written, failures of the set-up are hidden). Frame ring: indices
  in range, frames leave in order and intact while fewer than three are closed behind them, and what happens beyond. SPI and
  UART: an accepted transmission sends exactly the buffer, by interrupts or by DMA; blocking calls return; when they fail
  or hang. DMA: a locked channel is running; which errors leave a driver or a channel in a state it cannot leave.
  Flash: programming and erasing by interrupts do what the blocking calls do; the lock; what the option-byte functions
  erase without saying so. Timers: the counter runs while an output is on; what a DMA transfer moves and reports, and that a
  restart keeps the old buffer. Converter: the
  state machine is that of two independent groups; its invariant; every call returns; the time-out defects. Pins,
  priorities, timers and clocks: what configuration calls establish, and the agreement of the two clock computations.
  Start-up: 72 MHz clock tree, priorities, the 12 kHz sampling of the first 200 conversions. Together:
  \<open>converter_to_reader\<close>.

  \<^bold>\<open>Bounds and fuel.\<close> Loops that count a transfer counter down recurse on that counter. \<open>conversions\<close> and
  \<open>spi_interrupts\<close> run a given number of interrupts: 200 for a frame, 408 for its bytes. The pin and channel loops of
  \<open>Hal_Gpio\<close> and \<open>Hal_Sdadc\<close> have the sixteen and nine positions of their registers. A wait ends when the flag changes or
  the unsigned difference of two readings of the tick exceeds the time-out; \<open>tick_advances\<close> says that from
  every time every tick difference is reached, \<open>frozen_hw\<close> a clock that stands still.

  \<^bold>\<open>Not modelled.\<close> I2C, ADC, CAN, DAC, comparator, watchdog and other HAL
  modules the firmware does not use; functions compiled for other devices only; the MPU and sleep
  modes; the start-up assembly, the linker script, newlib stubs and fault handlers (endless loops). The start-up is
  modelled without interrupts between its steps; the interleaving with \<open>main\<close> is that of \<open>fstep\<close>. The hardware of the
  SPI link is not modelled: \<open>converter_to_reader\<close> takes the bytes written to the data register as those that arrive.
  The parts in other languages (\<^verbatim>\<open>Software/Triggering\<close>, \<^verbatim>\<open>Software/Acquisition\<close>, the ESP firmware, the
  Python tools) are outside.
\<close>

section \<open>From the converter to the reader\<close>

text \<open>C2: the whole way of a frame: after the start-up 200 converter interrupts fill a frame, the main loop hands it to
  the SPI driver, 408 SPI interrupts put its bytes to the data register and leave the driver ready and the data-ready
  line low; when these bytes reach the cycle buffer of the Linux driver, the read after the one that returns the
  uninitialised slot returns exactly them, and they decode to the samples in the order of the conversions and to the
  time of the last one.\<close>
theorem converter_to_reader:
  assumes "main_setup s e b0 = Some b" "at_reset b0" "clock_switch (e_rcc e) (rcc_now (b_rcc b0))"
    and "conversion_ready e" "fb_shape (init_OPQ_RunTime (frameBuffer b0))"
    and "\<And>t. hw_SR (e_spi e) t AND SPI_FLAG_TXE \<noteq> 0" "tick_advances (e_spi e)"
    and "base \<noteq> 0" "length junk = OPQ_CYCLE_BUFFER_COUNT"
  shows "\<exists>b1 b2 bytes. conversions e 200 b = Some b1
    \<and> spi_interrupts base e sizeof_OPQ_Frame (main_pass base b1) = Some b2
    \<and> spi_sent (hspi3 b2) = spi_sent (hspi3 b) @ bytes
    \<and> HAL_SPI_GetState (hspi3 b2) = HAL_SPI_STATE_READY \<and> \<not> fb_nonempty (frameBuffer b2) \<and> \<not> data_ready b2
    \<and> fst (opq_chardev_read False 0 OPQ_CYCLE_BUFFER_SIZE (snd (opq_chardev_read False 0 OPQ_CYCLE_BUFFER_SIZE
        (opq_wq_spi_reader_handler (\<lambda>_. next) (opq_wq_spi_reader_handler (\<lambda>_. bytes) (opq_circ_buffer_init junk))))))
      = Returned (int OPQ_CYCLE_BUFFER_SIZE) bytes
    \<and> fdata (frame_of_bytes bytes) = map (sample e (sd_now (hsdadc2 b))) [0..<200]
    \<and> current_counter (frame_of_bytes bytes) = ucast (e_CNT4 e (sd_now (hsdadc2 b) + 600))"
proof -
  note r = main_setup_result [OF assms(1-3)]
  have bt: "fb_between (frameBuffer b)"
    using assms(5) r(8) by (simp add: fb_between_def fb_ok_def init_OPQ_RunTime_def FRAME_DATA_COUNT_def)
  let ?vs = "map (sample e (sd_now (hsdadc2 b))) [0..<200]"
  let ?f = "cycle_frame (e_CNT4 e (sd_now (hsdadc2 b) + 600)) ?vs (frameBuffer b)"
  obtain h where h: "conversions e 200 b = Some (b\<lparr>hsdadc2 := h, frameBuffer := (frameBuffer b)
      \<lparr>frames := (frames (frameBuffer b))[unat (head (frameBuffer b)) := ?f],
        head := fb_next (head (frameBuffer b)), gps_pulse_flag := 0\<rparr>\<rparr>)" (is "_ = Some ?b1")
    using conversions_cycle [OF r(1) assms(4) bt] by blast
  have hd: "head (frameBuffer b) = 0" "tail (frameBuffer b) = 0" "length (frames (frameBuffer b)) = 4"
    using r(8) assms(5) by (simp_all add: init_OPQ_RunTime_def fb_shape_def fb_consts)
  have n: "fb_next 0 = 1" by (simp add: fb_next_def word_le_nat_alt)
  have f: "length (fdata ?f) = FRAME_DATA_COUNT" by (simp add: cycle_frame_def FRAME_DATA_COUNT_def)
  have "fb_shape (frameBuffer b)" using bt by (simp add: fb_between_def fb_ok_def)
  then have sh: "fb_shape (frameBuffer ?b1)"
    using hd n fb_shape_update [of "frameBuffer b" ?f "unat (head (frameBuffer b))"] f by (auto simp: fb_shape_def fb_consts)
  have ne: "fb_nonempty (frameBuffer ?b1)" "fb_first (frameBuffer ?b1) = ?f" "\<not> fb_nonempty (fb_pop (frameBuffer ?b1))"
    using hd n by (simp_all add: fb_nonempty_def fb_first_def fb_pop_def)
  have "frame_addr base (tail (frameBuffer ?b1)) \<noteq> 0" using hd assms(8) by (simp add: frame_addr_def)
  from frame_sent [OF sh ne(1) _ this assms(6,7)] r(9) ne obtain b2 where
    b2: "spi_interrupts base e sizeof_OPQ_Frame (main_pass base ?b1) = Some b2"
    "spi_sent (hspi3 b2) = spi_sent (hspi3 b) @ frame_bytes ?f" "HAL_SPI_GetState (hspi3 b2) = HAL_SPI_STATE_READY"
    "frameBuffer b2 = fb_pop (frameBuffer ?b1)" "\<not> data_ready b2" by auto
  have "length (frame_bytes ?f) = OPQ_CYCLE_BUFFER_SIZE"
    using frame_bytes_length [OF f] by (simp add: sizeof_OPQ_Frame_def OPQ_CYCLE_BUFFER_SIZE_def)
  note read = second_read [OF assms(9) this]
  have "frame_of_bytes (frame_bytes ?f) = ?f" using f by (rule frame_of_bytes_frame_bytes)
  then show ?thesis using h b2 ne(3) read
    by (intro exI [of _ ?b1] exI [of _ b2] exI [of _ "frame_bytes ?f"]) (simp add: cycle_frame_def)
qed

theorem converter_to_reader_witness:
  "\<exists>b b1 b2 bytes. main_setup ex_stack ex_main_hw ex_board = Some b \<and> conversions ex_main_hw 200 b = Some b1
     \<and> spi_interrupts 0x20000000 ex_main_hw 408 (main_pass 0x20000000 b1) = Some b2
     \<and> spi_sent (hspi3 b2) = spi_sent (hspi3 b) @ bytes
     \<and> fdata (frame_of_bytes bytes) = map (sample ex_main_hw (sd_now (hsdadc2 b))) [0..<200]"
proof -
  obtain b where b: "main_setup ex_stack ex_main_hw ex_board = Some b" using ex_main by blast
  have "conversion_ready ex_main_hw" by (simp add: conversion_ready_def ex_main_hw_def SDADC_ISR_JEOCF_def)
  moreover have "fb_shape (init_OPQ_RunTime (frameBuffer ex_board))"
    using ex_fb_shape by (simp add: ex_board_def fb_between_def fb_ok_def)
  moreover have "hw_SR (e_spi ex_main_hw) t AND SPI_FLAG_TXE \<noteq> 0" "tick_advances (e_spi ex_main_hw)" for t
    using ex_spi_facts(4) ex_hw_advances by (simp_all add: ex_main_hw_def)
  moreover have "(0x20000000 :: u32) \<noteq> 0" by simp
  moreover note ex_junk_ok
  ultimately show ?thesis
    using converter_to_reader [OF b ex_board_reset(1,3), where base = "0x20000000" and junk = ex_junk] b
    by (fastforce simp: sizeof_OPQ_Frame_def)
qed

end
